(* ===== verification/Go_Prelude.thy ===== *)
theory Go_Prelude
  imports Main "HOL-Library.Word" "HOL-Library.Product_Lexorder" "HOL-Library.Multiset"
begin

text \<open>
  Prelude of the development: what the Go code uses of the language, of its standard library and
  of SQL, and the lemmas every component shares.

  \<^item> Go's \<^verbatim>\<open>int64\<close> is \<open>int\<close> with the wrap-around written out by \<open>i64\<close>.
  \<^item> \<^verbatim>\<open>time.Time\<close> is the number of nanoseconds since Go's zero time (so \<open>IsZero\<close> is
    \<open>t = 0\<close>); a location never matters in the code, which converts to UTC before comparing.
    \<^verbatim>\<open>time.Duration\<close> is an \<open>int64\<close> number of nanoseconds.
  \<^item> A \<^verbatim>\<open>uuid.UUID\<close> is a \<open>nat\<close> whose \<open>0\<close> is \<^verbatim>\<open>uuid.Nil\<close>.
  \<^item> An \<^verbatim>\<open>error\<close> return is \<open>Inl\<close> of a \<open>go_error\<close>; a nil-pointer panic is an error value of its own.
  \<^item> A table is the list of its rows; \<open>sql_find\<close>, \<open>sql_update\<close> and \<open>sql_insert\<close> are the statements.
  \<^item> \<open>run_in_tx\<close> is a transaction: on an error the database is the one before it.
\<close>

named_theorems sql_simps \<open>how selections, updates and insertions of rows act\<close>
named_theorems row_frame \<open>columns that an update does not write\<close>

section \<open>Integers of fixed width\<close>

definition i64 :: "int \<Rightarrow> int" where
  "i64 x = (x + 2 ^ 63) mod 2 ^ 64 - 2 ^ 63"

definition in_i64 :: "int \<Rightarrow> bool" where
  "in_i64 x \<longleftrightarrow> - (2 ^ 63) \<le> x \<and> x < 2 ^ 63"

lemma i64_id [simp]: "in_i64 x \<Longrightarrow> i64 x = x"
  by (simp add: i64_def in_i64_def)

lemma in_i64_i64 [simp]: "in_i64 (i64 x)"
proof -
  have "0 \<le> (x + 2 ^ 63) mod 2 ^ 64" and "(x + 2 ^ 63) mod 2 ^ 64 < 2 ^ 64"
    by simp_all
  then show ?thesis by (simp add: i64_def in_i64_def)
qed

text \<open>The wrap-around is that of two's complement 64-bit words.\<close>

lemma i64_eq_sint: "i64 x = sint (word_of_int x :: 64 word)"
proof -
  have "signed_take_bit 63 x = i64 x"
    by (simp add: i64_def signed_take_bit_eq_take_bit_shift take_bit_eq_mod)
  then show ?thesis by (simp add: signed_of_int)
qed

lemma in_i64_between: "in_i64 a \<Longrightarrow> in_i64 b \<Longrightarrow> a \<le> x \<Longrightarrow> x \<le> b \<Longrightarrow> in_i64 x"
  by (auto simp: in_i64_def)

lemma in_i64_0 [simp]: "in_i64 0"
  by (simp add: in_i64_def)

lemma in_i64_1 [simp]: "in_i64 1"
  by (simp add: in_i64_def)

lemma in_i64_nonneg: "0 \<le> x \<Longrightarrow> in_i64 x \<longleftrightarrow> x < 2 ^ 63"
  by (simp add: in_i64_def)

lemma in_i64_numeral [simp]: "in_i64 (numeral k) \<longleftrightarrow> (numeral k :: int) < 2 ^ 63"
  by (simp add: in_i64_nonneg)

section \<open>Time\<close>

type_synonym time = int
type_synonym duration = int
type_synonym uuid = nat

abbreviation (input) time_zero :: time where
  "time_zero \<equiv> 0"

abbreviation (input) uuid_Nil :: uuid where
  "uuid_Nil \<equiv> 0"

definition time_Second :: duration where
  "time_Second = 1000000000"

definition time_Minute :: duration where
  "time_Minute = 60 * time_Second"

definition time_Hour :: duration where
  "time_Hour = 60 * time_Minute"

lemmas duration_defs = time_Second_def time_Minute_def time_Hour_def

text \<open>\<^verbatim>\<open>time.Duration(days) * 24 * time.Hour\<close>, an \<open>int64\<close> product.\<close>

definition days_duration :: "int \<Rightarrow> duration" where
  "days_duration d = i64 (i64 (d * 24) * time_Hour)"

lemma days_duration_exact:
  assumes "0 \<le> d" "d \<le> 106751"
  shows "days_duration d = d * 86400000000000"
proof -
  have "in_i64 (d * 24)" using assms by (simp add: in_i64_def)
  moreover have "in_i64 (d * 24 * 3600000000000)" using assms by (simp add: in_i64_def)
  ultimately show ?thesis by (simp add: days_duration_def duration_defs)
qed

lemma days_duration_pos: "0 < d \<Longrightarrow> d \<le> 106751 \<Longrightarrow> 0 < days_duration d"
  by (simp add: days_duration_exact)

section \<open>Errors and transactions\<close>

text \<open>
  \<open>ErrMsg\<close> is an \<^verbatim>\<open>errors.New\<close> or \<^verbatim>\<open>fmt.Errorf\<close> without a cause, \<open>ErrWrap\<close> one that wraps a cause with
  \<^verbatim>\<open>%w\<close>, \<open>ErrConstraint\<close> the violation of a constraint of the schema (by its name), \<open>NilDeref\<close> the
  panic of a nil pointer; the other constructors are the sentinel errors of the packages.
\<close>

datatype go_error =
    ErrMsg string
  | ErrWrap string go_error
  | ErrNoRows
  | ErrConstraint string
  | NilDeref string
  | ErrInsufficientCredits
  | ErrCreditTypeInactive
  | ErrActiveSubscriptionExists
  | ErrTerminalTransitionBlocked string
  | NonRetryableWebhookError go_error
  | BillingError string string
  | ErrCheckoutSessionNotFound
  | ErrCheckoutSessionConflict
  | CustomerVaultError string int
  | VaultError string go_error
  | TierChangeError int string

type_synonym 'a result = "go_error + 'a"

text \<open>A call that panicked instead of returning.\<close>

fun panics :: "'a result \<Rightarrow> bool" where
  "panics (Inl (NilDeref m)) = True"
| "panics _ = False"

text \<open>\<^verbatim>\<open>errors.Is\<close>: the chain of causes contains the target.\<close>

fun errors_Is :: "go_error \<Rightarrow> go_error \<Rightarrow> bool" where
  "errors_Is (ErrWrap m e) t = (ErrWrap m e = t \<or> errors_Is e t)"
| "errors_Is (NonRetryableWebhookError e) t = (NonRetryableWebhookError e = t \<or> errors_Is e t)"
| "errors_Is (VaultError l e) t = (VaultError l e = t \<or> errors_Is e t)"
| "errors_Is e t = (e = t)"

text \<open>Whether the chain starts at a statement that the database refused.\<close>

fun is_sql_error :: "go_error \<Rightarrow> bool" where
  "is_sql_error (ErrWrap m e) = is_sql_error e"
| "is_sql_error (ErrConstraint c) = True"
| "is_sql_error e = False"

text \<open>A step that may fail, and the rest that needs its value; an error wrapped with a message.\<close>

definition rbind :: "'a result \<Rightarrow> ('a \<Rightarrow> 'b result) \<Rightarrow> 'b result" where
  "rbind r f = (case r of Inl e \<Rightarrow> Inl e | Inr x \<Rightarrow> f x)"

lemma rbind_simps [simp]: "rbind (Inl e) f = Inl e" "rbind (Inr x) f = f x"
  by (simp_all add: rbind_def)

lemma rbind_Inr: "rbind r f = Inr y \<longleftrightarrow> (\<exists>x. r = Inr x \<and> f x = Inr y)"
  by (cases r) auto

definition wrapped :: "string \<Rightarrow> 'a result \<Rightarrow> 'a result" where
  "wrapped m r = map_sum (ErrWrap m) id r"

lemma wrapped_Inr [simp]: "wrapped m r = Inr x \<longleftrightarrow> r = Inr x"
  by (cases r) (simp_all add: wrapped_def)

lemma wrapped_simps [simp]: "wrapped m (Inr x) = Inr x" "wrapped m (Inl e) = Inl (ErrWrap m e)"
  by (simp_all add: wrapped_def)

definition run_in_tx :: "('s \<Rightarrow> ('a \<times> 's) result) \<Rightarrow> 's \<Rightarrow> 'a result \<times> 's" where
  "run_in_tx body s =
     (case body s of Inl e \<Rightarrow> (Inl e, s) | Inr (a, s') \<Rightarrow> (Inr a, s'))"

lemma run_in_tx_Inl [simp]: "body s = Inl e \<Longrightarrow> run_in_tx body s = (Inl e, s)"
  by (simp add: run_in_tx_def)

lemma run_in_tx_Inr [simp]: "body s = Inr (a, s') \<Longrightarrow> run_in_tx body s = (Inr a, s')"
  by (simp add: run_in_tx_def)

lemma run_in_tx_error_keeps: "run_in_tx body s = (Inl e, s') \<Longrightarrow> s' = s"
  by (auto simp: run_in_tx_def split: sum.splits prod.splits)

lemma run_in_tx_ok: "run_in_tx body s = (Inr a, s') \<longleftrightarrow> body s = Inr (a, s')"
  by (auto simp: run_in_tx_def split: sum.splits prod.splits)

lemma map_sum_Inr: "map_sum id f x = Inr y \<longleftrightarrow> (\<exists>z. x = Inr z \<and> y = f z)"
  by (cases x) auto

lemma result_ok: "\<not> isl (fst x) \<Longrightarrow> x = (Inr (projr (fst x)), snd x)"
  by (cases x) (simp add: sum.collapse(2))

text \<open>
  What a call reads from outside: one reading of the clock, the results of its calls of
  \<^verbatim>\<open>uuid.New()\<close> (numbered in program order) and the text form of a UUID, which are arguments of the
  model because the code that computes them is a third-party package.
\<close>

record go_env =
  env_now :: time
  env_uuid :: "nat \<Rightarrow> uuid"
  env_uuid_String :: "uuid \<Rightarrow> string"

text \<open>The calls of \<^verbatim>\<open>uuid.New()\<close> after the first \<open>n\<close>.\<close>

definition env_shift :: "nat \<Rightarrow> go_env \<Rightarrow> go_env" where
  "env_shift n env = env\<lparr>env_uuid := (\<lambda>i. env_uuid env (n + i))\<rparr>"

lemma env_shift_now [simp]: "env_now (env_shift n env) = env_now env"
  by (simp add: env_shift_def)

lemma env_shift_uuid [simp]: "env_uuid (env_shift n env) i = env_uuid env (n + i)"
  by (simp add: env_shift_def)

text \<open>A service method seen as the body of a transaction: its error keeps the state.\<close>

definition tx_body :: "('s \<Rightarrow> 'a result \<times> 's) \<Rightarrow> 's \<Rightarrow> ('a \<times> 's) result" where
  "tx_body f s = (case f s of (Inl e, _) \<Rightarrow> Inl e | (Inr a, s') \<Rightarrow> Inr (a, s'))"

lemma tx_body_Inr: "tx_body f s = Inr (a, s') \<longleftrightarrow> f s = (Inr a, s')"
  by (auto simp: tx_body_def split: sum.splits prod.splits)

text \<open>
  A system of transactions over a state: the states reached by running guarded transactions one
  after the other. A transaction that fails leaves the state as it was, so an invariant that every
  successful body keeps holds in every reached state; each component interprets this once.
\<close>

inductive tx_reach :: "('op \<Rightarrow> 's \<Rightarrow> ('a \<times> 's) result) \<Rightarrow> ('op \<Rightarrow> 's \<Rightarrow> bool) \<Rightarrow> 's \<Rightarrow> 's \<Rightarrow> bool"
  for step :: "'op \<Rightarrow> 's \<Rightarrow> ('a \<times> 's) result" and guard :: "'op \<Rightarrow> 's \<Rightarrow> bool" and s0 :: 's where
  tx_start: "tx_reach step guard s0 s0"
| tx_step: "tx_reach step guard s0 s \<Longrightarrow> guard op s \<Longrightarrow>
    tx_reach step guard s0 (snd (run_in_tx (step op) s))"

locale tx_system =
  fixes step :: "'op \<Rightarrow> 's \<Rightarrow> ('a \<times> 's) result"
    and guard :: "'op \<Rightarrow> 's \<Rightarrow> bool"
    and inv :: "'s \<Rightarrow> bool"
  assumes step_inv: "inv s \<Longrightarrow> guard op s \<Longrightarrow> step op s = Inr (a, s') \<Longrightarrow> inv s'"
begin

lemma tx_keeps_inv: "inv s \<Longrightarrow> guard op s \<Longrightarrow> inv (snd (run_in_tx (step op) s))"
  by (cases "step op s") (auto dest: step_inv)

lemma reach_inv: "tx_reach step guard s0 s \<Longrightarrow> inv s0 \<Longrightarrow> inv s"
  by (induction rule: tx_reach.induct) (auto intro: tx_keeps_inv)

end

section \<open>Rows of a table\<close>

definition sql_find :: "('r \<Rightarrow> bool) \<Rightarrow> 'r list \<Rightarrow> 'r result" where
  "sql_find P rows = (case find P rows of None \<Rightarrow> Inl ErrNoRows | Some r \<Rightarrow> Inr r)"

definition sql_update :: "('r \<Rightarrow> bool) \<Rightarrow> ('r \<Rightarrow> 'r) \<Rightarrow> 'r list \<Rightarrow> 'r list" where
  "sql_update P f rows = map (\<lambda>r. if P r then f r else r) rows"

definition sql_insert :: "('r \<Rightarrow> 'k) \<Rightarrow> string \<Rightarrow> 'r \<Rightarrow> 'r list \<Rightarrow> 'r list result" where
  "sql_insert key pkey r rows =
     (if key r \<in> set (map key rows) then Inl (ErrConstraint pkey) else Inr (rows @ [r]))"

lemma sql_find_Inr:
  "sql_find P rows = Inr r \<longleftrightarrow> find P rows = Some r"
  by (simp add: sql_find_def split: option.splits)

lemma sql_find_Inl:
  "sql_find P rows = Inl e \<longleftrightarrow> e = ErrNoRows \<and> find P rows = None"
  by (auto simp: sql_find_def split: option.splits)

lemma find_SomeD: "find P xs = Some x \<Longrightarrow> x \<in> set xs \<and> P x"
  by (metis find_Some_iff nth_mem)

lemma sql_find_memb: "sql_find P rows = Inr r \<Longrightarrow> r \<in> set rows \<and> P r"
  by (simp add: sql_find_Inr find_SomeD)

lemma find_append_None [sql_simps]:
  "find P xs = None \<Longrightarrow> find P (xs @ [x]) = (if P x then Some x else None)"
  by (induction xs) (auto split: if_splits)

lemma find_append_Some [sql_simps]: "find P xs = Some y \<Longrightarrow> find P (xs @ ys) = Some y"
  by (induction xs) (auto split: if_splits)

text \<open>A row found by a predicate that only one row can satisfy is that row.\<close>

lemma find_unique:
  "x \<in> set xs \<Longrightarrow> P x \<Longrightarrow> (\<And>y. y \<in> set xs \<Longrightarrow> P y \<Longrightarrow> y = x) \<Longrightarrow> find P xs = Some x"
proof (cases "find P xs")
  case None
  assume "x \<in> set xs" "P x"
  with None show ?thesis by (simp add: find_None_iff)
next
  case (Some y)
  assume "\<And>y. y \<in> set xs \<Longrightarrow> P y \<Longrightarrow> y = x"
  with find_SomeD [OF Some] Some show ?thesis by simp
qed

lemma find_key:
  "distinct (map key xs) \<Longrightarrow> x \<in> set xs \<Longrightarrow> find (\<lambda>y. key y = key x) xs = Some x"
  by (rule find_unique) (auto simp: distinct_map inj_on_def)

text \<open>A lookup by a key after an update of the rows with a key.\<close>

lemma find_update_key [sql_simps]:
  assumes "\<And>r. key r = k' \<Longrightarrow> key (f r) = k'"
  shows "find (\<lambda>r. key r = k) (sql_update (\<lambda>r. key r = k') f rows) =
     (if k = k' then map_option f (find (\<lambda>r. key r = k) rows) else find (\<lambda>r. key r = k) rows)"
  unfolding sql_update_def by (induction rows) (auto simp: assms)

lemma length_sql_update [simp]: "length (sql_update P f rows) = length rows"
  by (simp add: sql_update_def)

lemma set_sql_update [sql_simps]:
  "set (sql_update P f rows) = (\<lambda>r. if P r then f r else r) ` set rows"
  by (simp add: sql_update_def)

lemma sql_update_Nil [simp]: "sql_update P f [] = []"
  by (simp add: sql_update_def)

lemma sql_update_Cons [simp]:
  "sql_update P f (r # rows) = (if P r then f r else r) # sql_update P f rows"
  by (simp add: sql_update_def)

lemma sql_update_append [sql_simps]:
  "sql_update P f (xs @ ys) = sql_update P f xs @ sql_update P f ys"
  by (simp add: sql_update_def)

lemma map_sql_update [sql_simps]:
  "(\<And>r. P r \<Longrightarrow> key (f r) = key r) \<Longrightarrow> map key (sql_update P f rows) = map key rows"
  by (simp add: sql_update_def)

lemma sql_update_none: "(\<And>r. r \<in> set rows \<Longrightarrow> \<not> P r) \<Longrightarrow> sql_update P f rows = rows"
  by (simp add: sql_update_def map_idI)

lemma sql_insert_Inr:
  "sql_insert key n r rows = Inr rows' \<longleftrightarrow>
     key r \<notin> set (map key rows) \<and> rows' = rows @ [r]"
  by (auto simp: sql_insert_def)

lemma sql_insert_distinct:
  "distinct (map key rows) \<Longrightarrow> sql_insert key n r rows = Inr rows' \<Longrightarrow> distinct (map key rows')"
  by (auto simp: sql_insert_Inr)

text \<open>
  Sums over a table: \<open>row_sum h rows\<close> adds \<open>h\<close> over the rows. Updating the one row with a primary
  key changes the sum by what that row contributes.
\<close>

definition row_sum :: "('r \<Rightarrow> int) \<Rightarrow> 'r list \<Rightarrow> int" where
  "row_sum h rows = (\<Sum>r\<leftarrow>rows. h r)"

lemma row_sum_Nil [simp]: "row_sum h [] = 0"
  by (simp add: row_sum_def)

lemma row_sum_Cons [simp]: "row_sum h (r # rows) = h r + row_sum h rows"
  by (simp add: row_sum_def)

lemma row_sum_append [simp]: "row_sum h (xs @ ys) = row_sum h xs + row_sum h ys"
  by (simp add: row_sum_def)

lemma row_sum_nonneg: "(\<And>r. r \<in> set rows \<Longrightarrow> 0 \<le> h r) \<Longrightarrow> 0 \<le> row_sum h rows"
  by (induction rows) auto

lemma row_sum_ge_member:
  "(\<And>x. x \<in> set rows \<Longrightarrow> 0 \<le> h x) \<Longrightarrow> r \<in> set rows \<Longrightarrow> h r \<le> row_sum h rows"
proof (induction rows)
  case (Cons x rows)
  then have "0 \<le> row_sum h rows" by (auto intro: row_sum_nonneg)
  with Cons show ?case by force
qed simp

lemma row_sum_cong: "(\<And>r. r \<in> set rows \<Longrightarrow> h r = g r) \<Longrightarrow> row_sum h rows = row_sum g rows"
  by (induction rows) auto

lemma row_sum_update_same:
  "(\<And>r. r \<in> set rows \<Longrightarrow> P r \<Longrightarrow> h (f r) = h r) \<Longrightarrow> row_sum h (sql_update P f rows) = row_sum h rows"
  by (induction rows) auto

lemma row_sum_update_key:
  assumes "distinct (map key rows)" "r \<in> set rows"
  shows "row_sum h (sql_update (\<lambda>x. key x = key r) f rows) = row_sum h rows - h r + h (f r)"
  using assms
proof (induction rows)
  case (Cons x rows)
  show ?case
  proof (cases "x = r")
    case True
    with Cons.prems have "sql_update (\<lambda>y. key y = key r) f rows = rows"
      by (intro sql_update_none) (force simp: image_iff)
    with True show ?thesis by simp
  next
    case False
    with Cons.prems have "key x \<noteq> key r" by (auto simp: image_iff)
    with False Cons show ?thesis by simp
  qed
qed simp

lemma count_update_key:
  assumes "distinct (map key rows)" "r \<in> set rows" "P r" "\<not> P (f r)"
  shows "Suc (length (filter P (sql_update (\<lambda>x. key x = key r) f rows))) = length (filter P rows)"
  using assms
proof (induction rows)
  case (Cons x rows)
  show ?case
  proof (cases "x = r")
    case True
    with Cons.prems have "sql_update (\<lambda>y. key y = key r) f rows = rows"
      by (intro sql_update_none) (force simp: image_iff)
    with True Cons.prems show ?thesis by simp
  next
    case False
    with Cons.prems have "key x \<noteq> key r" by (auto simp: image_iff)
    with False Cons show ?thesis by simp
  qed
qed simp

lemma distinct_map_ConsD: "distinct (map f (x # xs)) \<Longrightarrow> y \<in> set xs \<Longrightarrow> f y \<noteq> f x"
  by (auto simp: image_iff)

lemma distinct_all_eq:
  assumes "distinct xs" "\<And>a b. a \<in> set xs \<Longrightarrow> b \<in> set xs \<Longrightarrow> a = b"
  shows "length xs \<le> 1"
proof (cases xs)
  case (Cons x ys)
  show ?thesis
  proof (cases ys)
    case (Cons y zs)
    with \<open>xs = x # ys\<close> assms(1) assms(2) [of x y] show ?thesis by simp
  qed (simp add: Cons)
qed simp

section \<open>Strings\<close>

text \<open>
  A Go string is its bytes. \<^verbatim>\<open>strings.TrimSpace\<close>, \<^verbatim>\<open>ToLower\<close> and \<^verbatim>\<open>ToUpper\<close> are written for ASCII text, which
  is what the code applies them to (identifiers, currency codes, processor names).
\<close>

definition is_space :: "char \<Rightarrow> bool" where
  "is_space c \<longleftrightarrow> (let n = (of_char c :: nat) in n = 32 \<or> 9 \<le> n \<and> n \<le> 13)"

definition TrimSpace :: "string \<Rightarrow> string" where
  "TrimSpace s = rev (dropWhile is_space (rev (dropWhile is_space s)))"

definition lower_char :: "char \<Rightarrow> char" where
  "lower_char c = (let n = (of_char c :: nat) in if 65 \<le> n \<and> n \<le> 90 then char_of (n + 32) else c)"

definition upper_char :: "char \<Rightarrow> char" where
  "upper_char c = (let n = (of_char c :: nat) in if 97 \<le> n \<and> n \<le> 122 then char_of (n - 32) else c)"

definition ToLower :: "string \<Rightarrow> string" where
  "ToLower s = map lower_char s"

definition ToUpper :: "string \<Rightarrow> string" where
  "ToUpper s = map upper_char s"

fun HasPrefix :: "string \<Rightarrow> string \<Rightarrow> bool" where
  "HasPrefix s [] = True"
| "HasPrefix [] (p # ps) = False"
| "HasPrefix (c # cs) (p # ps) = (c = p \<and> HasPrefix cs ps)"

fun Contains :: "string \<Rightarrow> string \<Rightarrow> bool" where
  "Contains [] p = (p = [])"
| "Contains (c # cs) p = (HasPrefix (c # cs) p \<or> Contains cs p)"

lemma TrimSpace_Nil [simp]: "TrimSpace [] = []"
  by (simp add: TrimSpace_def)

lemma dropWhile_rev_dropWhile:
  "dropWhile P (rev (dropWhile P (rev (dropWhile P s)))) = rev (dropWhile P (rev (dropWhile P s)))"
proof (cases "dropWhile P s")
  case (Cons c cs)
  then have c: "\<not> P c" by (metis hd_dropWhile list.sel(1) list.simps(3))
  have "dropWhile P (rev cs @ [c]) = dropWhile P (rev cs) @ [c]"
    by (simp add: dropWhile_append c dropWhile_append3)
  with Cons c show ?thesis by simp
next
  case Nil
  then show ?thesis by (simp only: dropWhile.simps rev.simps)
qed

lemma TrimSpace_none: "s \<noteq> [] \<Longrightarrow> \<not> is_space (hd s) \<Longrightarrow> \<not> is_space (last s) \<Longrightarrow> TrimSpace s = s"
  using dropWhile_eq_self_iff [of is_space s] dropWhile_eq_self_iff [of is_space "rev s"]
  by (simp add: TrimSpace_def hd_rev)

lemma TrimSpace_idem [simp]: "TrimSpace (TrimSpace s) = TrimSpace s"
  by (simp add: TrimSpace_def dropWhile_rev_dropWhile)

lemma lower_char_idem [simp]: "lower_char (lower_char c) = lower_char c"
proof (cases "65 \<le> (of_char c :: nat) \<and> (of_char c :: nat) \<le> 90")
  case True
  then have "(of_char (char_of (of_char c + 32 :: nat) :: char) :: nat) = of_char c + 32"
    by simp
  with True show ?thesis by (simp add: lower_char_def Let_def)
next
  case False
  then have "lower_char c = c" by (auto simp: lower_char_def Let_def)
  then show ?thesis by simp
qed

lemma ToLower_idem [simp]: "ToLower (ToLower s) = ToLower s"
  by (simp add: ToLower_def)

lemma HasPrefix_append [simp]: "HasPrefix (p @ s) p"
  by (induction p) auto

lemma HasPrefix_iff: "HasPrefix s p \<longleftrightarrow> (\<exists>t. s = p @ t)"
  by (induction s p rule: HasPrefix.induct) auto

text \<open>Integers in decimal, as \<^verbatim>\<open>%d\<close> prints them.\<close>

function decimal :: "int \<Rightarrow> string" where
  "decimal n = (if n < 10 then [char_of (48 + n)] else decimal (n div 10) @ [char_of (48 + n mod 10)])"
  by auto

termination by (relation "measure nat") auto

declare decimal.simps [simp del]

definition decimal_int :: "int \<Rightarrow> string" where
  "decimal_int i = (if i < 0 then CHR ''-'' # decimal (- i) else decimal i)"

end
