(* ===== verification/Credits.thy ===== *)
theory Credits
  imports Go_Prelude
begin

text \<open>
  The credits ledger: \<^verbatim>\<open>internal/modules/credits/credits_service.go\<close> over the tables of
  \<^verbatim>\<open>internal/db/models/credits.go\<close>. A user has, per credit type, a row with a total and a held balance,
  a log of transactions (deposits, withdrawals, holds, expiries) and blocks of unspent credits.
  The primary keys and the two partial unique indexes of the transactions table are checked by the
  insertions, as the schema does.
\<close>

section \<open>Tables\<close>

record credit_type =
  ct_ID :: uuid
  ct_Name :: string
  ct_DisplayName :: string
  ct_Unit :: string
  ct_DecimalPlaces :: int
  ct_IsActive :: bool
  ct_CreatedAt :: time

record user_credit_balance =
  ucb_ID :: uuid
  ucb_UserID :: string
  ucb_CreditTypeID :: uuid
  ucb_Balance :: int
  ucb_HeldBalance :: int
  ucb_CreatedAt :: time
  ucb_UpdatedAt :: time

record credit_transaction =
  ctran_ID :: uuid
  ctran_UserID :: string
  ctran_CreditTypeID :: uuid
  ctran_Amount :: int
  ctran_BalanceAfter :: "int option"
  ctran_TransactionType :: string
  ctran_Status :: string
  ctran_Authorized :: "int option"
  ctran_Captured :: "int option"
  ctran_Source :: string
  ctran_SourceID :: "string option"
  ctran_ExpiresAt :: "time option"
  ctran_Description :: "string option"
  ctran_CreatedAt :: time
  ctran_UpdatedAt :: time

record credit_block =
  cb_ID :: uuid
  cb_UserID :: string
  cb_CreditTypeID :: uuid
  cb_OriginalAmount :: int
  cb_RemainingAmount :: int
  cb_ExpiresAt :: "time option"
  cb_SourceTransactionID :: "uuid option"
  cb_CreatedAt :: time

record credit_db =
  cdb_types :: "credit_type list"
  cdb_balances :: "user_credit_balance list"
  cdb_transactions :: "credit_transaction list"
  cdb_blocks :: "credit_block list"

definition ucb_key :: "user_credit_balance \<Rightarrow> string \<times> uuid" where
  "ucb_key b = (ucb_UserID b, ucb_CreditTypeID b)"

definition ctran_key :: "credit_transaction \<Rightarrow> string \<times> uuid" where
  "ctran_key t = (ctran_UserID t, ctran_CreditTypeID t)"

definition cb_key :: "credit_block \<Rightarrow> string \<times> uuid" where
  "cb_key b = (cb_UserID b, cb_CreditTypeID b)"

text \<open>The idempotency key of a deposit or a hold: type, owner, source and source id.\<close>

definition idem_key :: "string \<Rightarrow> string \<times> uuid \<Rightarrow> string \<Rightarrow> string \<Rightarrow> credit_transaction \<Rightarrow> bool" where
  "idem_key typ owner source sourceID t \<longleftrightarrow>
     ctran_TransactionType t = typ \<and> ctran_key t = owner \<and>
     ctran_Source t = source \<and> ctran_SourceID t = Some sourceID"

section \<open>Statements\<close>

definition insert_transaction :: "credit_transaction \<Rightarrow> credit_db \<Rightarrow> credit_db result" where
  "insert_transaction t db =
     (let clash = (\<lambda>typ. ctran_TransactionType t = typ \<and>
            (case ctran_SourceID t of
               None \<Rightarrow> False
             | Some sid \<Rightarrow> list_ex (idem_key typ (ctran_key t) (ctran_Source t) sid) (cdb_transactions db)))
      in if clash ''hold'' then Inl (ErrConstraint ''uniq_credit_hold_idem'')
         else if clash ''deposit'' then Inl (ErrConstraint ''uniq_credit_deposit_idem'')
         else (case sql_insert ctran_ID ''credit_transactions_pkey'' t (cdb_transactions db) of
                 Inl e \<Rightarrow> Inl e
               | Inr rows \<Rightarrow> Inr (db\<lparr>cdb_transactions := rows\<rparr>)))"

definition insert_block :: "credit_block \<Rightarrow> credit_db \<Rightarrow> credit_db result" where
  "insert_block b db =
     (case sql_insert cb_ID ''credit_blocks_pkey'' b (cdb_blocks db) of
        Inl e \<Rightarrow> Inl e
      | Inr rows \<Rightarrow> Inr (db\<lparr>cdb_blocks := rows\<rparr>))"

definition set_balance :: "time \<Rightarrow> string \<times> uuid \<Rightarrow> int \<Rightarrow> credit_db \<Rightarrow> credit_db" where
  "set_balance now k v db = db\<lparr>cdb_balances :=
     sql_update (\<lambda>b. ucb_key b = k) (\<lambda>b. b\<lparr>ucb_Balance := v, ucb_UpdatedAt := now\<rparr>) (cdb_balances db)\<rparr>"

definition set_held :: "time \<Rightarrow> string \<times> uuid \<Rightarrow> int \<Rightarrow> credit_db \<Rightarrow> credit_db" where
  "set_held now k v db = db\<lparr>cdb_balances :=
     sql_update (\<lambda>b. ucb_key b = k) (\<lambda>b. b\<lparr>ucb_HeldBalance := v, ucb_UpdatedAt := now\<rparr>) (cdb_balances db)\<rparr>"

definition set_remaining :: "uuid \<Rightarrow> int \<Rightarrow> credit_block list \<Rightarrow> credit_block list" where
  "set_remaining i v = sql_update (\<lambda>b. cb_ID b = i) (\<lambda>b. b\<lparr>cb_RemainingAmount := v\<rparr>)"

definition update_transaction :: "credit_transaction \<Rightarrow> credit_db \<Rightarrow> credit_db" where
  "update_transaction t db = db\<lparr>cdb_transactions :=
     sql_update (\<lambda>x. ctran_ID x = ctran_ID t) (\<lambda>_. t) (cdb_transactions db)\<rparr>"

section \<open>Queries\<close>

definition GetCreditTypeByName :: "string \<Rightarrow> credit_db \<Rightarrow> credit_type result" where
  "GetCreditTypeByName name db = sql_find (\<lambda>ct. ct_Name ct = name) (cdb_types db)"

definition GetBalance :: "string \<Rightarrow> string \<Rightarrow> credit_db \<Rightarrow> user_credit_balance result" where
  "GetBalance userID creditType db =
     (case GetCreditTypeByName creditType db of
        Inl e \<Rightarrow> Inl e
      | Inr ct \<Rightarrow>
          (case sql_find (\<lambda>b. ucb_key b = (userID, ct_ID ct)) (cdb_balances db) of
             Inr bal \<Rightarrow> Inr bal
           | Inl e \<Rightarrow>
               if errors_Is e ErrNoRows
               then Inr \<lparr>ucb_ID = uuid_Nil, ucb_UserID = userID, ucb_CreditTypeID = ct_ID ct,
                         ucb_Balance = 0, ucb_HeldBalance = 0,
                         ucb_CreatedAt = time_zero, ucb_UpdatedAt = time_zero\<rparr>
               else Inl e))"

definition GetTransactions ::
  "string \<Rightarrow> string \<Rightarrow> int \<Rightarrow> int \<Rightarrow> credit_db \<Rightarrow> (credit_transaction list \<times> int) result" where
  "GetTransactions userID creditType limit offset db =
     (case GetCreditTypeByName creditType db of
        Inl e \<Rightarrow> Inl e
      | Inr ct \<Rightarrow>
          (let items = filter (\<lambda>t. ctran_key t = (userID, ct_ID ct)) (cdb_transactions db);
               total = int (length items);
               limit = (if limit \<le> 0 then 50 else limit);
               offset = (if offset < 0 then 0 else offset)
           in Inr (take (nat limit) (drop (nat offset) (sort_key (\<lambda>t. - ctran_CreatedAt t) items)), total)))"

definition GetTransactionBySource ::
  "string \<Rightarrow> string \<Rightarrow> string \<Rightarrow> string \<Rightarrow> string \<Rightarrow> credit_db \<Rightarrow> credit_transaction result" where
  "GetTransactionBySource userID0 creditType0 transactionType0 source0 sourceID0 db =
     (let userID = TrimSpace userID0; creditType = TrimSpace creditType0;
          transactionType = TrimSpace transactionType0;
          source = TrimSpace source0; sourceID = TrimSpace sourceID0
      in if userID = '''' then Inl (ErrMsg ''user_id required'')
         else if creditType = '''' then Inl (ErrMsg ''credit_type required'')
         else if transactionType = '''' then Inl (ErrMsg ''transaction_type required'')
         else if source = '''' then Inl (ErrMsg ''source required'')
         else if sourceID = '''' then Inl (ErrMsg ''source_id required'')
         else (case GetCreditTypeByName creditType db of
                 Inl e \<Rightarrow> Inl e
               | Inr ct \<Rightarrow>
                   sql_find (idem_key transactionType (userID, ct_ID ct) source sourceID)
                     (cdb_transactions db)))"

section \<open>Balances and deposits\<close>

definition lockBalance ::
  "go_env \<Rightarrow> string \<times> uuid \<Rightarrow> credit_db \<Rightarrow> (user_credit_balance \<times> credit_db) result" where
  "lockBalance env k db =
     (case sql_find (\<lambda>b. ucb_key b = k) (cdb_balances db) of
        Inr bal \<Rightarrow> Inr (bal, db)
      | Inl e \<Rightarrow>
          if \<not> errors_Is e ErrNoRows then Inl e
          else
            (let bal = \<lparr>ucb_ID = env_uuid env 0, ucb_UserID = fst k, ucb_CreditTypeID = snd k,
                        ucb_Balance = 0, ucb_HeldBalance = 0,
                        ucb_CreatedAt = env_now env, ucb_UpdatedAt = env_now env\<rparr>
             in case sql_insert ucb_ID ''user_credit_balances_pkey'' bal (cdb_balances db) of
                  Inl e \<Rightarrow> Inl e
                | Inr rows \<Rightarrow> Inr (bal, db\<lparr>cdb_balances := rows\<rparr>)))"

record credit_deposit_params =
  cdp_UserID :: string
  cdp_CreditType :: string
  cdp_Amount :: int
  cdp_Source :: string
  cdp_SourceID :: "uuid option"
  cdp_ExpiresAt :: "time option"
  cdp_Description :: "string option"

definition depositTx ::
  "go_env \<Rightarrow> credit_type \<Rightarrow> credit_deposit_params \<Rightarrow> credit_db \<Rightarrow> (credit_transaction \<times> credit_db) result" where
  "depositTx env ct p db0 =
     (let now = env_now env; k = (cdp_UserID p, ct_ID ct) in
      case lockBalance env k db0 of
        Inl e \<Rightarrow> Inl e
      | Inr (bal, db) \<Rightarrow>
          (let sourceIDText = map_option (env_uuid_String env) (cdp_SourceID p);
               existing = (case sourceIDText of
                             None \<Rightarrow> None
                           | Some v \<Rightarrow> find (idem_key ''deposit'' k (cdp_Source p) v) (cdb_transactions db))
           in case existing of
                Some t \<Rightarrow> Inr (t, db)
              | None \<Rightarrow>
                  (let newBal = i64 (ucb_Balance bal + cdp_Amount p);
                       db1 = set_balance now k newBal db;
                       trx = \<lparr>ctran_ID = env_uuid env 1, ctran_UserID = cdp_UserID p,
                              ctran_CreditTypeID = ct_ID ct, ctran_Amount = cdp_Amount p,
                              ctran_BalanceAfter = Some newBal, ctran_TransactionType = ''deposit'',
                              ctran_Status = ''posted'', ctran_Authorized = None, ctran_Captured = None,
                              ctran_Source = cdp_Source p, ctran_SourceID = sourceIDText,
                              ctran_ExpiresAt = cdp_ExpiresAt p, ctran_Description = cdp_Description p,
                              ctran_CreatedAt = now, ctran_UpdatedAt = now\<rparr>;
                       block = \<lparr>cb_ID = env_uuid env 2, cb_UserID = cdp_UserID p,
                                cb_CreditTypeID = ct_ID ct, cb_OriginalAmount = cdp_Amount p,
                                cb_RemainingAmount = cdp_Amount p, cb_ExpiresAt = cdp_ExpiresAt p,
                                cb_SourceTransactionID = Some (ctran_ID trx), cb_CreatedAt = now\<rparr>
                   in case insert_transaction trx db1 of
                        Inl e \<Rightarrow> Inl e
                      | Inr db2 \<Rightarrow>
                          (case insert_block block db2 of
                             Inl e \<Rightarrow> Inl e
                           | Inr db3 \<Rightarrow> Inr (trx, db3)))))"

definition Deposit ::
  "go_env \<Rightarrow> credit_deposit_params \<Rightarrow> credit_db \<Rightarrow> credit_transaction result \<times> credit_db" where
  "Deposit env p db =
     (if cdp_Amount p \<le> 0 then (Inl (ErrMsg ''amount must be positive''), db)
      else case GetCreditTypeByName (cdp_CreditType p) db of
             Inl e \<Rightarrow> (Inl e, db)
           | Inr ct \<Rightarrow>
               if \<not> ct_IsActive ct then (Inl ErrCreditTypeInactive, db)
               else run_in_tx (depositTx env ct p) db)"

section \<open>Withdrawals\<close>

text \<open>\<^verbatim>\<open>ORDER BY expires_at ASC NULLS LAST, created_at ASC\<close>.\<close>

definition block_order :: "credit_block \<Rightarrow> nat \<times> time \<times> time" where
  "block_order b =
     (case cb_ExpiresAt b of
        None \<Rightarrow> (1, 0, cb_CreatedAt b)
      | Some t \<Rightarrow> (0, t, cb_CreatedAt b))"

definition block_spendable :: "time \<Rightarrow> string \<times> uuid \<Rightarrow> credit_block \<Rightarrow> bool" where
  "block_spendable now k b \<longleftrightarrow>
     cb_key b = k \<and> 0 < cb_RemainingAmount b \<and>
     (case cb_ExpiresAt b of None \<Rightarrow> True | Some t \<Rightarrow> now < t)"

definition spendable_blocks :: "time \<Rightarrow> string \<times> uuid \<Rightarrow> credit_db \<Rightarrow> credit_block list" where
  "spendable_blocks now k db = sort_key block_order (filter (block_spendable now k) (cdb_blocks db))"

text \<open>The loop over the selected blocks; it updates each used block by its primary key.\<close>

fun consume_blocks :: "int \<Rightarrow> credit_block list \<Rightarrow> credit_block list \<Rightarrow> credit_block list" where
  "consume_blocks remaining [] rows = rows"
| "consume_blocks remaining (b # bs) rows =
     (if remaining = 0 then rows
      else (let use0 = (if cb_RemainingAmount b > remaining then remaining else cb_RemainingAmount b)
            in if use0 \<le> 0 then consume_blocks remaining bs rows
               else consume_blocks (remaining - use0) bs
                      (set_remaining (cb_ID b) (cb_RemainingAmount b - use0) rows)))"

definition withdrawBalanceAndBlocks ::
  "go_env \<Rightarrow> string \<times> uuid \<Rightarrow> int \<Rightarrow> credit_db \<Rightarrow> (int \<times> credit_db) result" where
  "withdrawBalanceAndBlocks env k amount db0 =
     (let now = env_now env in
      case lockBalance env k db0 of
        Inl e \<Rightarrow> Inl e
      | Inr (bal, db) \<Rightarrow>
          (let available = i64 (ucb_Balance bal - ucb_HeldBalance bal)
           in if available < amount then Inl ErrInsufficientCredits
              else
                (let db1 = db\<lparr>cdb_blocks :=
                             consume_blocks amount (spendable_blocks now k db) (cdb_blocks db)\<rparr>;
                     newBal = i64 (ucb_Balance bal - amount)
                 in Inr (newBal, set_balance now k newBal db1))))"

record credit_withdraw_params =
  cwp_UserID :: string
  cwp_CreditType :: string
  cwp_Amount :: int
  cwp_Source :: string
  cwp_SourceID :: "uuid option"

definition withdrawTx ::
  "go_env \<Rightarrow> uuid \<Rightarrow> credit_withdraw_params \<Rightarrow> credit_db \<Rightarrow> (credit_transaction \<times> credit_db) result" where
  "withdrawTx env creditTypeID p db =
     (let now = env_now env;
          sourceIDText = map_option (env_uuid_String env) (cwp_SourceID p)
      in case withdrawBalanceAndBlocks env (cwp_UserID p, creditTypeID) (cwp_Amount p) db of
           Inl e \<Rightarrow> Inl e
         | Inr (newBal, db1) \<Rightarrow>
             (let trx = \<lparr>ctran_ID = env_uuid env 1, ctran_UserID = cwp_UserID p,
                         ctran_CreditTypeID = creditTypeID, ctran_Amount = i64 (- cwp_Amount p),
                         ctran_BalanceAfter = Some newBal, ctran_TransactionType = ''withdrawal'',
                         ctran_Status = ''posted'', ctran_Authorized = None, ctran_Captured = None,
                         ctran_Source = cwp_Source p, ctran_SourceID = sourceIDText,
                         ctran_ExpiresAt = None, ctran_Description = None,
                         ctran_CreatedAt = now, ctran_UpdatedAt = now\<rparr>
              in case insert_transaction trx db1 of
                   Inl e \<Rightarrow> Inl e
                 | Inr db2 \<Rightarrow> Inr (trx, db2)))"

definition Withdraw ::
  "go_env \<Rightarrow> credit_withdraw_params \<Rightarrow> credit_db \<Rightarrow> credit_transaction result \<times> credit_db" where
  "Withdraw env p db =
     (if cwp_Amount p \<le> 0 then (Inl (ErrMsg ''amount must be positive''), db)
      else case GetCreditTypeByName (cwp_CreditType p) db of
             Inl e \<Rightarrow> (Inl e, db)
           | Inr ct \<Rightarrow>
               if \<not> ct_IsActive ct then (Inl ErrCreditTypeInactive, db)
               else run_in_tx (withdrawTx env (ct_ID ct) p) db)"

section \<open>Holds\<close>

definition holdTx ::
  "go_env \<Rightarrow> string \<times> uuid \<Rightarrow> int \<Rightarrow> string \<Rightarrow> string \<Rightarrow> time \<Rightarrow> credit_db \<Rightarrow>
     (credit_transaction \<times> credit_db) result" where
  "holdTx env k amount source sourceID expiresAt db0 =
     (let now = env_now env in
      case find (idem_key ''hold'' k source sourceID) (cdb_transactions db0) of
        Some existing \<Rightarrow> Inr (existing, db0)
      | None \<Rightarrow>
          (case lockBalance env k db0 of
             Inl e \<Rightarrow> Inl e
           | Inr (bal, db) \<Rightarrow>
               (let available = i64 (ucb_Balance bal - ucb_HeldBalance bal)
                in if available < amount then Inl ErrInsufficientCredits
                   else
                     (let db1 = set_held now k (i64 (ucb_HeldBalance bal + amount)) db;
                          hold = \<lparr>ctran_ID = env_uuid env 1, ctran_UserID = fst k,
                                  ctran_CreditTypeID = snd k, ctran_Amount = 0,
                                  ctran_BalanceAfter = None, ctran_TransactionType = ''hold'',
                                  ctran_Status = ''active'', ctran_Authorized = Some amount,
                                  ctran_Captured = None, ctran_Source = source,
                                  ctran_SourceID = Some sourceID, ctran_ExpiresAt = Some expiresAt,
                                  ctran_Description = None, ctran_CreatedAt = now, ctran_UpdatedAt = now\<rparr>
                      in case insert_transaction hold db1 of
                           Inl e \<Rightarrow> Inl e
                         | Inr db2 \<Rightarrow> Inr (hold, db2)))))"

definition Hold ::
  "go_env \<Rightarrow> string \<Rightarrow> string \<Rightarrow> int \<Rightarrow> string \<Rightarrow> string \<Rightarrow> time \<Rightarrow> credit_db \<Rightarrow>
     credit_transaction result \<times> credit_db" where
  "Hold env userID creditType amount source sourceID expiresAt db =
     (if amount \<le> 0 then (Inl (ErrMsg ''amount must be positive''), db)
      else case GetCreditTypeByName creditType db of
             Inl e \<Rightarrow> (Inl e, db)
           | Inr ct \<Rightarrow>
               if \<not> ct_IsActive ct then (Inl ErrCreditTypeInactive, db)
               else run_in_tx (holdTx env (userID, ct_ID ct) amount source sourceID expiresAt) db)"

text \<open>The checks that \<^verbatim>\<open>CaptureHold\<close> and \<^verbatim>\<open>ReleaseHold\<close> share; the result is the row and its authorised amount.\<close>

definition load_active_hold :: "uuid \<Rightarrow> credit_db \<Rightarrow> (credit_transaction \<times> int) result" where
  "load_active_hold holdID db =
     (case sql_find (\<lambda>t. ctran_ID t = holdID) (cdb_transactions db) of
        Inl e \<Rightarrow> Inl e
      | Inr hold \<Rightarrow>
          if ctran_TransactionType hold \<noteq> ''hold'' then Inl (ErrMsg ''transaction is not a hold'')
          else if ctran_Status hold \<noteq> ''active'' then Inl (ErrMsg ''hold is not active'')
          else case ctran_Authorized hold of
                 None \<Rightarrow> Inl (ErrMsg ''hold missing authorized amount'')
               | Some authorized \<Rightarrow>
                   if authorized \<le> 0 then Inl (ErrMsg ''hold missing authorized amount'')
                   else Inr (hold, authorized))"

definition captureHoldTx ::
  "go_env \<Rightarrow> uuid \<Rightarrow> int \<Rightarrow> credit_db \<Rightarrow> (credit_transaction \<times> credit_db) result" where
  "captureHoldTx env holdID actualAmount db0 =
     (let now = env_now env in
      case load_active_hold holdID db0 of
        Inl e \<Rightarrow> Inl e
      | Inr (hold, authorized) \<Rightarrow>
          if actualAmount \<le> 0 \<or> actualAmount > authorized then Inl (ErrMsg ''invalid capture amount'')
          else
            (let k = ctran_key hold in
             case lockBalance env k db0 of
               Inl e \<Rightarrow> Inl e
             | Inr (bal, db) \<Rightarrow>
                 (let db1 = set_held now k (i64 (ucb_HeldBalance bal - authorized)) db
                  in case withdrawBalanceAndBlocks env k actualAmount db1 of
                       Inl e \<Rightarrow> Inl e
                     | Inr (newBal, db2) \<Rightarrow>
                         (let hold' = hold\<lparr>ctran_Status := ''captured'', ctran_Captured := Some actualAmount,
                                           ctran_Amount := i64 (- actualAmount),
                                           ctran_BalanceAfter := Some newBal, ctran_UpdatedAt := now\<rparr>
                          in Inr (hold', update_transaction hold' db2)))))"

definition CaptureHold ::
  "go_env \<Rightarrow> uuid \<Rightarrow> int \<Rightarrow> credit_db \<Rightarrow> credit_transaction result \<times> credit_db" where
  "CaptureHold env holdID actualAmount db = run_in_tx (captureHoldTx env holdID actualAmount) db"

definition releaseHoldTx :: "go_env \<Rightarrow> uuid \<Rightarrow> credit_db \<Rightarrow> (credit_transaction \<times> credit_db) result" where
  "releaseHoldTx env holdID db0 =
     (let now = env_now env in
      case load_active_hold holdID db0 of
        Inl e \<Rightarrow> Inl e
      | Inr (hold, authorized) \<Rightarrow>
          (let k = ctran_key hold in
           case lockBalance env k db0 of
             Inl e \<Rightarrow> Inl e
           | Inr (bal, db) \<Rightarrow>
               (let db1 = set_held now k (i64 (ucb_HeldBalance bal - authorized)) db;
                    hold' = hold\<lparr>ctran_Status := ''released'', ctran_UpdatedAt := now\<rparr>
                in Inr (hold', update_transaction hold' db1))))"

definition ReleaseHold :: "go_env \<Rightarrow> uuid \<Rightarrow> credit_db \<Rightarrow> credit_transaction result \<times> credit_db" where
  "ReleaseHold env holdID db = run_in_tx (releaseHoldTx env holdID) db"

end
