(* ===== verification/Credit_Ledger.thy ===== *)
theory Credit_Ledger
  imports Credits
begin

text \<open>
  What the operations of the credits ledger keep and change. The ledger is seen through four
  numbers per owner (user, credit type): the balance and the held balance of its row, the sum of its
  active holds, the sum of what its blocks still hold. \<open>ledger_ok\<close> is the invariant; the operations are
  then described by how they change these numbers.
\<close>

declare split_paired_All [simp del] split_paired_Ex [simp del]

section \<open>The abstract view\<close>

definition bal_row :: "credit_db \<Rightarrow> string \<times> uuid \<Rightarrow> user_credit_balance option" where
  "bal_row db k = find (\<lambda>b. ucb_key b = k) (cdb_balances db)"

definition balance_of :: "credit_db \<Rightarrow> string \<times> uuid \<Rightarrow> int" where
  "balance_of db k = (case bal_row db k of None \<Rightarrow> 0 | Some b \<Rightarrow> ucb_Balance b)"

definition held_of :: "credit_db \<Rightarrow> string \<times> uuid \<Rightarrow> int" where
  "held_of db k = (case bal_row db k of None \<Rightarrow> 0 | Some b \<Rightarrow> ucb_HeldBalance b)"

definition is_active_hold :: "credit_transaction \<Rightarrow> bool" where
  "is_active_hold t \<longleftrightarrow> ctran_TransactionType t = ''hold'' \<and> ctran_Status t = ''active''"

definition hold_amount :: "string \<times> uuid \<Rightarrow> credit_transaction \<Rightarrow> int" where
  "hold_amount k t =
     (if is_active_hold t \<and> ctran_key t = k
      then (case ctran_Authorized t of None \<Rightarrow> 0 | Some a \<Rightarrow> a) else 0)"

definition active_holds :: "credit_db \<Rightarrow> string \<times> uuid \<Rightarrow> int" where
  "active_holds db k = row_sum (hold_amount k) (cdb_transactions db)"

definition block_left :: "string \<times> uuid \<Rightarrow> credit_block \<Rightarrow> int" where
  "block_left k b = (if cb_key b = k then cb_RemainingAmount b else 0)"

definition blocks_left :: "credit_db \<Rightarrow> string \<times> uuid \<Rightarrow> int" where
  "blocks_left db k = row_sum (block_left k) (cdb_blocks db)"

definition posted_amount :: "string \<times> uuid \<Rightarrow> credit_transaction \<Rightarrow> int" where
  "posted_amount k t = (if ctran_key t = k then ctran_Amount t else 0)"

definition posted_total :: "credit_db \<Rightarrow> string \<times> uuid \<Rightarrow> int" where
  "posted_total db k = row_sum (posted_amount k) (cdb_transactions db)"

definition ledger_ok :: "credit_db \<Rightarrow> bool" where
  "ledger_ok db \<longleftrightarrow>
     distinct (map ctran_ID (cdb_transactions db)) \<and>
     distinct (map cb_ID (cdb_blocks db)) \<and>
     (\<forall>t \<in> set (cdb_transactions db).
        is_active_hold t \<longrightarrow> (\<exists>a. ctran_Authorized t = Some a \<and> 0 < a)) \<and>
     (\<forall>b \<in> set (cdb_blocks db). 0 \<le> cb_RemainingAmount b) \<and>
     (\<forall>k. held_of db k = active_holds db k) \<and>
     (\<forall>k. 0 \<le> balance_of db k \<and> balance_of db k < 2 ^ 63 \<and> held_of db k < 2 ^ 63)"

lemma ledger_okD:
  assumes "ledger_ok db"
  shows "distinct (map ctran_ID (cdb_transactions db))"
    and "distinct (map cb_ID (cdb_blocks db))"
    and "t \<in> set (cdb_transactions db) \<Longrightarrow> is_active_hold t \<Longrightarrow> \<exists>a. ctran_Authorized t = Some a \<and> 0 < a"
    and "b \<in> set (cdb_blocks db) \<Longrightarrow> 0 \<le> cb_RemainingAmount b"
    and "held_of db k = active_holds db k"
    and "0 \<le> balance_of db k" and "balance_of db k < 2 ^ 63" and "held_of db k < 2 ^ 63"
  using assms by (auto simp: ledger_ok_def)

lemma hold_amount_nonneg:
  "ledger_ok db \<Longrightarrow> t \<in> set (cdb_transactions db) \<Longrightarrow> 0 \<le> hold_amount k t"
  by (auto simp: hold_amount_def dest: ledger_okD(3))

lemma held_nonneg: "ledger_ok db \<Longrightarrow> 0 \<le> held_of db k"
  by (simp add: ledger_okD(5) active_holds_def row_sum_nonneg hold_amount_nonneg)

lemma in_i64_available:
  "ledger_ok db \<Longrightarrow> in_i64 (balance_of db k - held_of db k)"
  using ledger_okD(6) [of db k] ledger_okD(7) [of db k] ledger_okD(8) [of db k] held_nonneg [of db k]
  by (simp add: in_i64_def)

section \<open>What the statements change\<close>

text \<open>\<open>same_rest db db'\<close>: only the balances table differs.\<close>

definition same_rest :: "credit_db \<Rightarrow> credit_db \<Rightarrow> bool" where
  "same_rest db db' \<longleftrightarrow> cdb_types db' = cdb_types db \<and>
     cdb_transactions db' = cdb_transactions db \<and> cdb_blocks db' = cdb_blocks db"

lemma bal_row_set_balance [row_frame]:
  "bal_row (set_balance now k v db) k' =
     (if k' = k then map_option (\<lambda>b. b\<lparr>ucb_Balance := v, ucb_UpdatedAt := now\<rparr>) (bal_row db k)
      else bal_row db k')"
  by (simp add: bal_row_def set_balance_def find_update_key ucb_key_def)

lemma bal_row_set_held [row_frame]:
  "bal_row (set_held now k v db) k' =
     (if k' = k then map_option (\<lambda>b. b\<lparr>ucb_HeldBalance := v, ucb_UpdatedAt := now\<rparr>) (bal_row db k)
      else bal_row db k')"
  by (simp add: bal_row_def set_held_def find_update_key ucb_key_def)

lemma set_balance_frame [simp]:
  "cdb_types (set_balance now k v db) = cdb_types db"
  "cdb_transactions (set_balance now k v db) = cdb_transactions db"
  "cdb_blocks (set_balance now k v db) = cdb_blocks db"
  by (simp_all add: set_balance_def)

lemma set_held_frame [simp]:
  "cdb_types (set_held now k v db) = cdb_types db"
  "cdb_transactions (set_held now k v db) = cdb_transactions db"
  "cdb_blocks (set_held now k v db) = cdb_blocks db"
  by (simp_all add: set_held_def)

lemma balance_set_balance [simp]:
  "bal_row db k \<noteq> None \<Longrightarrow>
   balance_of (set_balance now k v db) k' = (if k' = k then v else balance_of db k')"
  by (auto simp: balance_of_def row_frame)

lemma held_set_balance [simp]: "held_of (set_balance now k v db) k' = held_of db k'"
  by (simp add: held_of_def row_frame split: option.splits)

lemma balance_set_held [simp]: "balance_of (set_held now k v db) k' = balance_of db k'"
  by (simp add: balance_of_def row_frame split: option.splits)

lemma held_set_held [simp]:
  "bal_row db k \<noteq> None \<Longrightarrow>
   held_of (set_held now k v db) k' = (if k' = k then v else held_of db k')"
  by (auto simp: held_of_def row_frame)

lemma bal_row_other_tables [simp]:
  "bal_row (db\<lparr>cdb_transactions := ts\<rparr>) k = bal_row db k"
  "bal_row (db\<lparr>cdb_blocks := bs\<rparr>) k = bal_row db k"
  by (simp_all add: bal_row_def)

lemma view_other_tables [simp]:
  "balance_of (db\<lparr>cdb_transactions := ts\<rparr>) k = balance_of db k"
  "balance_of (db\<lparr>cdb_blocks := bs\<rparr>) k = balance_of db k"
  "held_of (db\<lparr>cdb_transactions := ts\<rparr>) k = held_of db k"
  "held_of (db\<lparr>cdb_blocks := bs\<rparr>) k = held_of db k"
  by (simp_all add: balance_of_def held_of_def)

text \<open>\<^verbatim>\<open>lockBalance\<close> returns the owner's row, creating an empty one when there is none.\<close>

lemma lockBalance_spec:
  assumes "lockBalance env k db = Inr (bal, db')"
  shows "ucb_Balance bal = balance_of db k" "ucb_HeldBalance bal = held_of db k"
    and "bal_row db' k = Some bal" "same_rest db db'"
    and "balance_of db' = balance_of db" "held_of db' = held_of db"
proof -
  have "ucb_Balance bal = balance_of db k \<and> ucb_HeldBalance bal = held_of db k \<and>
    bal_row db' k = Some bal \<and> same_rest db db' \<and>
    balance_of db' = balance_of db \<and> held_of db' = held_of db"
  proof (cases "bal_row db k")
    case (Some b)
    then have "db' = db" "bal = b"
      using assms by (auto simp: lockBalance_def sql_find_def bal_row_def)
    with Some show ?thesis by (simp add: balance_of_def held_of_def same_rest_def)
  next
    case None
    let ?b = "\<lparr>ucb_ID = env_uuid env 0, ucb_UserID = fst k, ucb_CreditTypeID = snd k,
       ucb_Balance = 0, ucb_HeldBalance = 0, ucb_CreatedAt = env_now env, ucb_UpdatedAt = env_now env\<rparr>"
    from None have b: "bal = ?b" and db': "db' = db\<lparr>cdb_balances := cdb_balances db @ [?b]\<rparr>"
      using assms by (auto simp: lockBalance_def sql_find_def bal_row_def Let_def sql_insert_Inr
          split: sum.splits)
    have row: "bal_row db' k' = (if k' = k then Some ?b else bal_row db k')" for k'
    proof (cases "bal_row db k'")
      case None
      then show ?thesis by (auto simp: bal_row_def db' find_append_None ucb_key_def)
    next
      case (Some x)
      with \<open>bal_row db k = None\<close> have "k' \<noteq> k" by auto
      with Some show ?thesis by (simp add: bal_row_def db' find_append_Some)
    qed
    have "balance_of db' = balance_of db" "held_of db' = held_of db"
      using None by (auto simp: fun_eq_iff balance_of_def held_of_def row)
    with None show ?thesis
      by (simp add: b row balance_of_def held_of_def) (simp add: db' same_rest_def)
  qed
  then show "ucb_Balance bal = balance_of db k" "ucb_HeldBalance bal = held_of db k"
    "bal_row db' k = Some bal" "same_rest db db'"
    "balance_of db' = balance_of db" "held_of db' = held_of db" by simp_all
qed

lemma insert_transaction_Inr:
  assumes "insert_transaction t db = Inr db'"
  shows "db' = db\<lparr>cdb_transactions := cdb_transactions db @ [t]\<rparr>"
    and "ctran_ID t \<notin> set (map ctran_ID (cdb_transactions db))"
  using assms by (auto simp: insert_transaction_def Let_def sql_insert_Inr split: if_splits sum.splits)

lemma insert_block_Inr:
  assumes "insert_block b db = Inr db'"
  shows "db' = db\<lparr>cdb_blocks := cdb_blocks db @ [b]\<rparr>"
    and "cb_ID b \<notin> set (map cb_ID (cdb_blocks db))"
  using assms by (auto simp: insert_block_def sql_insert_Inr split: sum.splits)

section \<open>Spending blocks\<close>

lemma consume_blocks_Cons:
  "consume_blocks n (b # bs) rows =
     (if n = 0 then rows
      else if min (cb_RemainingAmount b) n \<le> 0 then consume_blocks n bs rows
      else consume_blocks (n - min (cb_RemainingAmount b) n) bs
             (set_remaining (cb_ID b) (cb_RemainingAmount b - min (cb_RemainingAmount b) n) rows))"
proof -
  have "(if cb_RemainingAmount b > n then n else cb_RemainingAmount b) = min (cb_RemainingAmount b) n"
    by (simp add: min_def)
  then show ?thesis unfolding consume_blocks.simps Let_def by simp
qed

declare consume_blocks.simps(2) [simp del]

lemma map_set_remaining [simp]: "map cb_ID (set_remaining i v rows) = map cb_ID rows"
  by (simp add: set_remaining_def map_sql_update)

lemma consume_blocks_ids [simp]: "map cb_ID (consume_blocks n bs rows) = map cb_ID rows"
  by (induction bs arbitrary: n rows) (simp_all add: consume_blocks_Cons)

lemma consume_blocks_step:
  assumes "0 < n" "0 < cb_RemainingAmount b"
  shows "consume_blocks n (b # bs) rows =
     consume_blocks (n - min (cb_RemainingAmount b) n) bs
       (set_remaining (cb_ID b) (cb_RemainingAmount b - min (cb_RemainingAmount b) n) rows)"
proof -
  have "n \<noteq> 0" "\<not> min (cb_RemainingAmount b) n \<le> 0" using assms by auto
  then show ?thesis by (simp only: consume_blocks_Cons if_False)
qed

lemma set_remaining_nonneg:
  "\<forall>b \<in> set rows. 0 \<le> cb_RemainingAmount b \<Longrightarrow> 0 \<le> v \<Longrightarrow>
   \<forall>b \<in> set (set_remaining i v rows). 0 \<le> cb_RemainingAmount b"
  by (auto simp: set_remaining_def set_sql_update)

lemma consume_blocks_nonneg:
  "\<forall>b \<in> set rows. 0 \<le> cb_RemainingAmount b \<Longrightarrow>
   \<forall>b \<in> set (consume_blocks n bs rows). 0 \<le> cb_RemainingAmount b"
proof (induction bs arbitrary: n rows)
  case (Cons b bs)
  let ?use = "min (cb_RemainingAmount b) n"
  have "\<forall>x \<in> set (set_remaining (cb_ID b) (cb_RemainingAmount b - ?use) rows). 0 \<le> cb_RemainingAmount x"
    by (rule set_remaining_nonneg [OF Cons.prems]) simp
  then have "\<forall>x \<in> set (consume_blocks (n - ?use) bs
      (set_remaining (cb_ID b) (cb_RemainingAmount b - ?use) rows)). 0 \<le> cb_RemainingAmount x"
    by (rule Cons.IH)
  with Cons.IH [OF Cons.prems] Cons.prems show ?case by (simp add: consume_blocks_Cons)
qed simp

text \<open>
  The selection the loop runs over: distinct rows of the table that are all spendable.
\<close>

definition spend_list :: "string \<times> uuid \<Rightarrow> credit_block list \<Rightarrow> credit_block list \<Rightarrow> bool" where
  "spend_list k bs rows \<longleftrightarrow>
     distinct (map cb_ID rows) \<and> distinct (map cb_ID bs) \<and> set bs \<subseteq> set rows \<and>
     (\<forall>b \<in> set bs. cb_key b = k \<and> 0 < cb_RemainingAmount b)"

lemma set_remaining_other:
  "x \<in> set rows \<Longrightarrow> cb_ID x \<noteq> i \<Longrightarrow> x \<in> set (set_remaining i v rows)"
  by (force simp: set_remaining_def set_sql_update)

lemma spend_list_tail:
  assumes "spend_list k (b # bs) rows"
  shows "spend_list k bs (set_remaining (cb_ID b) v rows)"
proof -
  have "x \<in> set (set_remaining (cb_ID b) v rows)" if "x \<in> set bs" for x
  proof (rule set_remaining_other)
    show "x \<in> set rows" using assms that by (auto simp: spend_list_def)
    have "cb_ID b \<notin> cb_ID ` set bs" using assms by (simp add: spend_list_def)
    with that show "cb_ID x \<noteq> cb_ID b" by (metis imageI)
  qed
  with assms show ?thesis by (auto simp: spend_list_def)
qed

lemma spend_listD:
  assumes "spend_list k bs rows" "b \<in> set bs"
  shows "b \<in> set rows" "distinct (map cb_ID rows)" "cb_key b = k" "0 < cb_RemainingAmount b"
  using assms by (auto simp: spend_list_def)

lemma spend_list_sum_nonneg:
  "spend_list k bs rows \<Longrightarrow> set xs \<subseteq> set bs \<Longrightarrow> 0 \<le> row_sum cb_RemainingAmount xs"
  by (rule row_sum_nonneg) (auto simp: spend_list_def less_imp_le)

lemma spend_list_drop: "spend_list k (b # bs) rows \<Longrightarrow> spend_list k bs rows"
  by (auto simp: spend_list_def)

lemma distinct_map_filter_key: "distinct (map f xs) \<Longrightarrow> distinct (map f (filter P xs))"
  by (induction xs) auto

lemma distinct_map_sort_key: "distinct (map f (sort_key g xs)) \<longleftrightarrow> distinct (map f xs)"
  by (metis mset_eq_imp_distinct_iff mset_map mset_sort)

lemma spendable_blocks_spend_list:
  "distinct (map cb_ID (cdb_blocks db)) \<Longrightarrow> spend_list k (spendable_blocks now k db) (cdb_blocks db)"
  by (auto simp: spend_list_def spendable_blocks_def block_spendable_def
      distinct_map_sort_key distinct_map_filter_key)

definition rem_of :: "credit_block list \<Rightarrow> uuid \<Rightarrow> int" where
  "rem_of rows i = (case find (\<lambda>b. cb_ID b = i) rows of None \<Rightarrow> 0 | Some b \<Rightarrow> cb_RemainingAmount b)"

lemma rem_of_set_remaining:
  "rem_of (set_remaining i v rows) j =
     (if i = j \<and> i \<in> set (map cb_ID rows) then v else rem_of rows j)"
  by (induction rows) (auto simp: rem_of_def set_remaining_def)

lemma rem_of_member:
  "distinct (map cb_ID rows) \<Longrightarrow> b \<in> set rows \<Longrightarrow> rem_of rows (cb_ID b) = cb_RemainingAmount b"
  by (simp add: rem_of_def find_key)

lemma consume_blocks_other:
  "i \<notin> set (map cb_ID bs) \<Longrightarrow> rem_of (consume_blocks n bs rows) i = rem_of rows i"
  by (induction bs arbitrary: n rows) (auto simp: consume_blocks_Cons rem_of_set_remaining)

text \<open>
  The loop is first-in-first-out filling: the block \<open>b\<close> that stands after the blocks \<open>xs\<close> gives what
  the amount leaves once \<open>xs\<close> are used up, no less than nothing and no more than it has.
\<close>

lemma consume_blocks_fill:
  assumes "spend_list k (xs @ b # ys) rows" "0 \<le> n"
  shows "rem_of (consume_blocks n (xs @ b # ys) rows) (cb_ID b) =
     cb_RemainingAmount b - max 0 (min (cb_RemainingAmount b) (n - row_sum cb_RemainingAmount xs))"
  using assms
proof (induction xs arbitrary: n rows)
  case Nil
  then have b: "b \<in> set rows" "distinct (map cb_ID rows)" "0 < cb_RemainingAmount b"
    using spend_listD [of k "[] @ b # ys" rows b] by simp_all
  have ids: "cb_ID b \<notin> set (map cb_ID ys)" using Nil by (simp add: spend_list_def)
  show ?case
  proof (cases "n = 0")
    case True
    with b show ?thesis by (simp add: consume_blocks_Cons rem_of_member)
  next
    case False
    with Nil(2) have "0 < n" by simp
    with b ids show ?thesis
      by (simp add: consume_blocks_step consume_blocks_other rem_of_set_remaining)
  qed
next
  case (Cons x xs)
  let ?R = "cb_RemainingAmount x"
  have b: "rem_of rows (cb_ID b) = cb_RemainingAmount b" "0 < cb_RemainingAmount b"
    using spend_listD [OF Cons.prems(1), of b] by (simp_all add: rem_of_member)
  have R: "0 < ?R" using spend_listD(4) [OF Cons.prems(1), of x] by simp
  have nonneg: "0 \<le> row_sum cb_RemainingAmount xs"
    using spend_list_sum_nonneg [OF Cons.prems(1), of xs] by auto
  show ?case
  proof (cases "n = 0")
    case True
    with b nonneg R show ?thesis by (simp add: consume_blocks_Cons)
  next
    case False
    with Cons.prems(2) have n: "0 < n" by simp
    have tail: "spend_list k (xs @ b # ys) (set_remaining (cb_ID x) (?R - min ?R n) rows)"
      using Cons.prems(1) spend_list_tail by simp
    have "rem_of (consume_blocks n ((x # xs) @ b # ys) rows) (cb_ID b) = cb_RemainingAmount b -
       max 0 (min (cb_RemainingAmount b) (n - min ?R n - row_sum cb_RemainingAmount xs))"
      unfolding append_Cons consume_blocks_step [of n x "xs @ b # ys" rows, OF n R]
      by (rule Cons.IH [OF tail]) simp
    then show ?thesis using R n nonneg b(2) by (cases "?R \<le> n") simp_all
  qed
qed

lemma row_sum_set_remaining:
  assumes "distinct (map cb_ID rows)" "b \<in> set rows"
  shows "row_sum (block_left k) (set_remaining (cb_ID b) v rows) =
     row_sum (block_left k) rows - (if cb_key b = k then cb_RemainingAmount b - v else 0)"
  using row_sum_update_key [of cb_ID rows b "block_left k" "\<lambda>b. b\<lparr>cb_RemainingAmount := v\<rparr>", OF assms]
  by (simp add: set_remaining_def block_left_def cb_key_def)

text \<open>In total the loop takes the amount, or all there is when that is less.\<close>

lemma consume_blocks_total:
  assumes "spend_list k bs rows" "0 \<le> n"
  shows "row_sum (block_left k') (consume_blocks n bs rows) =
     row_sum (block_left k') rows - (if k' = k then min n (row_sum cb_RemainingAmount bs) else 0)"
  using assms
proof (induction bs arbitrary: n rows)
  case Nil
  then show ?case by simp
next
  case (Cons b bs)
  let ?R = "cb_RemainingAmount b" and ?rows = "\<lambda>v. set_remaining (cb_ID b) v rows"
  note facts = spend_listD [OF Cons.prems(1), of b, simplified]
  have nonneg: "0 \<le> row_sum cb_RemainingAmount bs"
    using spend_list_sum_nonneg [OF Cons.prems(1), of bs] by auto
  show ?case
  proof (cases "n = 0")
    case True
    with facts nonneg show ?thesis by (simp add: consume_blocks_Cons)
  next
    case False
    with Cons.prems(2) have n: "0 < n" by simp
    let ?n = "n - min ?R n"
    have "row_sum (block_left k') (consume_blocks n (b # bs) rows) =
      row_sum (block_left k') (?rows (?R - min ?R n)) -
        (if k' = k then min ?n (row_sum cb_RemainingAmount bs) else 0)"
      unfolding consume_blocks_step [of n b bs rows, OF n facts(4)]
      by (rule Cons.IH [OF spend_list_tail [OF Cons.prems(1)]]) simp
    also have "\<dots> = row_sum (block_left k') rows -
        (if k' = k then min ?R n + min ?n (row_sum cb_RemainingAmount bs) else 0)"
      using facts by (simp add: row_sum_set_remaining)
    finally show ?thesis using facts(4) n nonneg by (cases "?R \<le> n") (simp_all add: min_def)
  qed
qed

section \<open>What the operations do to the ledger\<close>

lemma spendable_blocks_cong: "cdb_blocks db = cdb_blocks db' \<Longrightarrow> spendable_blocks now k db = spendable_blocks now k db'"
  by (simp add: spendable_blocks_def)

lemma withdrawBB_spec:
  assumes "withdrawBalanceAndBlocks env k amount db = Inr (newBal, db')"
  shows "amount \<le> i64 (balance_of db k - held_of db k)"
    and "newBal = i64 (balance_of db k - amount)"
    and "balance_of db' = (balance_of db)(k := newBal)"
    and "held_of db' = held_of db"
    and "cdb_transactions db' = cdb_transactions db"
    and "cdb_blocks db' = consume_blocks amount (spendable_blocks (env_now env) k db) (cdb_blocks db)"
    and "cdb_types db' = cdb_types db"
proof -
  from assms obtain bal db1 where lock: "lockBalance env k db = Inr (bal, db1)"
    and av: "amount \<le> i64 (ucb_Balance bal - ucb_HeldBalance bal)"
    and nb: "newBal = i64 (ucb_Balance bal - amount)"
    and db': "db' = set_balance (env_now env) k newBal (db1\<lparr>cdb_blocks :=
       consume_blocks amount (spendable_blocks (env_now env) k db1) (cdb_blocks db1)\<rparr>)"
    by (auto simp: withdrawBalanceAndBlocks_def Let_def split: sum.splits prod.splits if_splits)
  note l = lockBalance_spec [OF lock]
  have same: "cdb_types db1 = cdb_types db" "cdb_transactions db1 = cdb_transactions db"
      "cdb_blocks db1 = cdb_blocks db"
    using l(4) by (simp_all add: same_rest_def)
  show "amount \<le> i64 (balance_of db k - held_of db k)" "newBal = i64 (balance_of db k - amount)"
    using av nb l by simp_all
  show "balance_of db' = (balance_of db)(k := newBal)" "held_of db' = held_of db"
    using l by (auto simp: fun_eq_iff db')
  show "cdb_transactions db' = cdb_transactions db" "cdb_types db' = cdb_types db"
    using same by (simp_all add: db')
  show "cdb_blocks db' = consume_blocks amount (spendable_blocks (env_now env) k db) (cdb_blocks db)"
    using same spendable_blocks_cong [OF same(3)] by (simp add: db')
qed

lemma withdrawTx_spec:
  assumes "withdrawTx env ctID p db = Inr (t, db')"
  obtains newBal db1 where
    "withdrawBalanceAndBlocks env (cwp_UserID p, ctID) (cwp_Amount p) db = Inr (newBal, db1)"
    and "db' = db1\<lparr>cdb_transactions := cdb_transactions db @ [t]\<rparr>"
    and "ctran_ID t \<notin> set (map ctran_ID (cdb_transactions db))"
    and "ctran_TransactionType t = ''withdrawal''" "ctran_key t = (cwp_UserID p, ctID)"
    and "ctran_Amount t = i64 (- cwp_Amount p)" "ctran_BalanceAfter t = Some newBal"
proof -
  from assms obtain newBal db1 where w:
    "withdrawBalanceAndBlocks env (cwp_UserID p, ctID) (cwp_Amount p) db = Inr (newBal, db1)"
    and ins: "insert_transaction t db1 = Inr db'"
    and t: "ctran_TransactionType t = ''withdrawal''" "ctran_key t = (cwp_UserID p, ctID)"
      "ctran_Amount t = i64 (- cwp_Amount p)" "ctran_BalanceAfter t = Some newBal"
    by (auto simp: withdrawTx_def Let_def ctran_key_def split: sum.splits prod.splits)
  note w5 = withdrawBB_spec(5) [OF w]
  show thesis
    by (rule that [OF w _ _ t]) (use insert_transaction_Inr [OF ins] w5 in simp_all)
qed

text \<open>A deposit is either a replay, which returns the recorded transaction, or a new entry.\<close>

lemma depositTx_cases:
  assumes "depositTx env ct p db = Inr (t, db')"
  obtains (replay) sid where "cdp_SourceID p = Some sid"
      "find (idem_key ''deposit'' (cdp_UserID p, ct_ID ct) (cdp_Source p) (env_uuid_String env sid))
         (cdb_transactions db) = Some t"
      "same_rest db db'" "balance_of db' = balance_of db" "held_of db' = held_of db"
      "bal_row db' (cdp_UserID p, ct_ID ct) \<noteq> None"
  | (fresh) b where "cdb_transactions db' = cdb_transactions db @ [t]"
      "cdb_blocks db' = cdb_blocks db @ [b]" "cdb_types db' = cdb_types db"
      "held_of db' = held_of db"
      "balance_of db' = (balance_of db)((cdp_UserID p, ct_ID ct) :=
          i64 (balance_of db (cdp_UserID p, ct_ID ct) + cdp_Amount p))"
      "ctran_ID t \<notin> set (map ctran_ID (cdb_transactions db))"
      "cb_ID b \<notin> set (map cb_ID (cdb_blocks db))"
      "ctran_key t = (cdp_UserID p, ct_ID ct)" "ctran_TransactionType t = ''deposit''"
      "ctran_Amount t = cdp_Amount p"
      "cb_key b = (cdp_UserID p, ct_ID ct)" "cb_RemainingAmount b = cdp_Amount p"
      "cb_ExpiresAt b = cdp_ExpiresAt p"
      "ctran_Source t = cdp_Source p"
      "ctran_SourceID t = map_option (env_uuid_String env) (cdp_SourceID p)"
      "\<And>sid. cdp_SourceID p = Some sid \<Longrightarrow>
         find (idem_key ''deposit'' (cdp_UserID p, ct_ID ct) (cdp_Source p) (env_uuid_String env sid))
           (cdb_transactions db) = None"
      "bal_row db' (cdp_UserID p, ct_ID ct) \<noteq> None"
      "ctran_Authorized t = None" "ctran_BalanceAfter t = Some (balance_of db' (cdp_UserID p, ct_ID ct))"
proof -
  let ?k = "(cdp_UserID p, ct_ID ct)"
  let ?existing = "\<lambda>db1. case map_option (env_uuid_String env) (cdp_SourceID p) of None \<Rightarrow> None
     | Some v \<Rightarrow> find (idem_key ''deposit'' ?k (cdp_Source p) v) (cdb_transactions db1)"
  from assms obtain bal db1 where lock: "lockBalance env ?k db = Inr (bal, db1)"
    by (auto simp: depositTx_def Let_def split: sum.splits)
  note l = lockBalance_spec [OF lock]
  have same: "cdb_types db1 = cdb_types db" "cdb_transactions db1 = cdb_transactions db"
      "cdb_blocks db1 = cdb_blocks db"
    using l(4) by (simp_all add: same_rest_def)
  show thesis
  proof (cases "?existing db1")
    case (Some x)
    then have "t = x" "db' = db1" using assms lock by (auto simp: depositTx_def Let_def)
    moreover obtain sid where "cdp_SourceID p = Some sid"
      and "find (idem_key ''deposit'' ?k (cdp_Source p) (env_uuid_String env sid)) (cdb_transactions db1) = Some x"
      using Some by (auto split: option.splits)
    ultimately show thesis using l same by (intro replay) simp_all
  next
    case None
    let ?nb = "i64 (ucb_Balance bal + cdp_Amount p)"
    from None obtain b db2 where ins: "insert_transaction t (set_balance (env_now env) ?k ?nb db1) = Inr db2"
      and insb: "insert_block b db2 = Inr db'"
      and t: "ctran_key t = ?k" "ctran_TransactionType t = ''deposit''" "ctran_Amount t = cdp_Amount p"
        "ctran_Source t = cdp_Source p" "ctran_SourceID t = map_option (env_uuid_String env) (cdp_SourceID p)"
        "ctran_Authorized t = None" "ctran_BalanceAfter t = Some ?nb"
      and b: "cb_key b = ?k" "cb_RemainingAmount b = cdp_Amount p" "cb_ExpiresAt b = cdp_ExpiresAt p"
      using assms lock by (auto simp: depositTx_def Let_def ctran_key_def cb_key_def split: sum.splits)
    note i = insert_transaction_Inr [OF ins] and ib = insert_block_Inr [OF insb]
    have bal: "balance_of db' = (balance_of db)(?k := ?nb)" "held_of db' = held_of db"
      using l by (auto simp: fun_eq_iff i ib)
    have row: "bal_row db' ?k \<noteq> None" using l(3) by (simp add: i(1) ib(1) row_frame)
    have none: "find (idem_key ''deposit'' ?k (cdp_Source p) (env_uuid_String env sid)) (cdb_transactions db) = None"
      if "cdp_SourceID p = Some sid" for sid
      using None that same by simp
    show thesis
      by (rule fresh [OF _ _ _ bal(2) _ _ _ t(1-3) b t(4,5) none row t(6)])
         (use i ib same l bal(1) t(7) in simp_all)
  qed
qed

lemma holdTx_cases:
  assumes "holdTx env k amount source sid exp db = Inr (t, db')"
  obtains (replay) "find (idem_key ''hold'' k source sid) (cdb_transactions db) = Some t" "db' = db"
  | (fresh) "amount \<le> i64 (balance_of db k - held_of db k)"
      "cdb_transactions db' = cdb_transactions db @ [t]" "cdb_blocks db' = cdb_blocks db"
      "cdb_types db' = cdb_types db" "balance_of db' = balance_of db"
      "held_of db' = (held_of db)(k := i64 (held_of db k + amount))"
      "ctran_ID t \<notin> set (map ctran_ID (cdb_transactions db))"
      "idem_key ''hold'' k source sid t" "ctran_Status t = ''active''"
      "ctran_Authorized t = Some amount" "ctran_Amount t = 0" "ctran_ExpiresAt t = Some exp"
      "find (idem_key ''hold'' k source sid) (cdb_transactions db) = None"
proof (cases "find (idem_key ''hold'' k source sid) (cdb_transactions db)")
  case (Some x)
  with assms have "t = x" "db' = db" by (auto simp: holdTx_def Let_def)
  with Some replay show thesis by simp
next
  case None
  then obtain bal db1 where lock: "lockBalance env k db = Inr (bal, db1)"
    and av: "amount \<le> i64 (ucb_Balance bal - ucb_HeldBalance bal)"
    and ins: "insert_transaction t (set_held (env_now env) k (i64 (ucb_HeldBalance bal + amount)) db1) = Inr db'"
    and t: "idem_key ''hold'' k source sid t" "ctran_Status t = ''active''"
      "ctran_Authorized t = Some amount" "ctran_Amount t = 0" "ctran_ExpiresAt t = Some exp"
    using assms by (auto simp: holdTx_def Let_def idem_key_def ctran_key_def
        split: sum.splits prod.splits if_splits)
  note l = lockBalance_spec [OF lock] and i = insert_transaction_Inr [OF ins]
  have same: "cdb_types db1 = cdb_types db" "cdb_transactions db1 = cdb_transactions db"
      "cdb_blocks db1 = cdb_blocks db"
    using l(4) by (simp_all add: same_rest_def)
  have bal: "balance_of db' = balance_of db" "held_of db' = (held_of db)(k := i64 (held_of db k + amount))"
    using l by (auto simp: fun_eq_iff i)
  show thesis
    by (rule fresh [OF _ _ _ _ bal _ t None]) (use av l i same in simp_all)
qed

lemma load_active_hold_Inr:
  assumes "load_active_hold i db = Inr (hold, a)"
  shows "hold \<in> set (cdb_transactions db)" "ctran_ID hold = i" "is_active_hold hold"
    "ctran_Authorized hold = Some a" "0 < a"
  using assms by (auto simp: load_active_hold_def is_active_hold_def
      split: sum.splits if_splits option.splits dest: sql_find_memb)

text \<open>Settling the hold \<open>hold\<close> as the row \<open>t\<close> of the same owner that is no longer active.\<close>

lemma active_holds_settle:
  assumes "ledger_ok db" "hold \<in> set (cdb_transactions db)" "is_active_hold hold"
    "ctran_Authorized hold = Some a" "ctran_ID t = ctran_ID hold" "\<not> is_active_hold t"
    "cdb_transactions db' = sql_update (\<lambda>x. ctran_ID x = ctran_ID t) (\<lambda>_. t) (cdb_transactions db)"
  shows "active_holds db' k = active_holds db k - (if ctran_key hold = k then a else 0)"
proof -
  have "row_sum (hold_amount k) (sql_update (\<lambda>x. ctran_ID x = ctran_ID hold) (\<lambda>_. t) (cdb_transactions db)) =
    row_sum (hold_amount k) (cdb_transactions db) - hold_amount k hold + hold_amount k t"
    by (rule row_sum_update_key [OF ledger_okD(1) [OF assms(1)] assms(2)])
  with assms(3-7) show ?thesis by (simp add: active_holds_def hold_amount_def)
qed

lemma captureHoldTx_spec:
  assumes "captureHoldTx env i actual db = Inr (t, db')"
  obtains hold a where "load_active_hold i db = Inr (hold, a)" "0 < actual" "actual \<le> a"
    "ctran_ID t = ctran_ID hold" "ctran_key t = ctran_key hold" "ctran_TransactionType t = ''hold''"
    "ctran_Status t = ''captured''" "ctran_Captured t = Some actual" "ctran_Amount t = i64 (- actual)"
    "ctran_Source t = ctran_Source hold \<and> ctran_Authorized t = ctran_Authorized hold" "ctran_SourceID t = ctran_SourceID hold"
    "cdb_transactions db' = sql_update (\<lambda>x. ctran_ID x = ctran_ID t) (\<lambda>_. t) (cdb_transactions db)"
    "actual \<le> i64 (balance_of db (ctran_key hold) - i64 (held_of db (ctran_key hold) - a))"
    "balance_of db' = (balance_of db)(ctran_key hold := i64 (balance_of db (ctran_key hold) - actual))"
    "held_of db' = (held_of db)(ctran_key hold := i64 (held_of db (ctran_key hold) - a))"
    "cdb_blocks db' = consume_blocks actual (spendable_blocks (env_now env) (ctran_key hold) db) (cdb_blocks db)"
    "cdb_types db' = cdb_types db"
proof -
  from assms obtain hold a where load: "load_active_hold i db = Inr (hold, a)"
    and amt: "0 < actual" "actual \<le> a"
    by (auto simp: captureHoldTx_def Let_def split: sum.splits prod.splits if_splits)
  let ?k = "ctran_key hold"
  from assms load amt obtain bal db1 newBal db2 where lock: "lockBalance env ?k db = Inr (bal, db1)"
    and w: "withdrawBalanceAndBlocks env ?k actual
        (set_held (env_now env) ?k (i64 (ucb_HeldBalance bal - a)) db1) = Inr (newBal, db2)"
    and t: "t = hold\<lparr>ctran_Status := ''captured'', ctran_Captured := Some actual,
        ctran_Amount := i64 (- actual), ctran_BalanceAfter := Some newBal, ctran_UpdatedAt := env_now env\<rparr>"
    and db': "db' = update_transaction t db2"
    by (auto simp: captureHoldTx_def Let_def split: sum.splits prod.splits if_splits)
  note l = lockBalance_spec [OF lock] and ws = withdrawBB_spec [OF w]
  have same: "cdb_types db1 = cdb_types db" "cdb_transactions db1 = cdb_transactions db"
      "cdb_blocks db1 = cdb_blocks db"
    using l(4) by (simp_all add: same_rest_def)
  have up: "balance_of (update_transaction t x) = balance_of x" "held_of (update_transaction t x) = held_of x"
      "cdb_blocks (update_transaction t x) = cdb_blocks x" "cdb_types (update_transaction t x) = cdb_types x" for x
    by (auto simp: fun_eq_iff update_transaction_def)
  have bal: "balance_of db' = (balance_of db)(?k := i64 (balance_of db ?k - actual))"
    using ws l up by (auto simp: fun_eq_iff db')
  have held: "held_of db' = (held_of db)(?k := i64 (held_of db ?k - a))"
    using ws l up by (auto simp: fun_eq_iff db')
  have blocks: "cdb_blocks db' = consume_blocks actual (spendable_blocks (env_now env) ?k db) (cdb_blocks db)"
    using ws(6) same up spendable_blocks_cong [of db1 db]
    by (simp add: db' spendable_blocks_def)
  show thesis
    using load_active_hold_Inr(3) [OF load] ws(1,5) l same up
    by (intro that [OF load amt _ _ _ _ _ _ _ _ _ _ bal held blocks])
       (simp_all add: t is_active_hold_def ctran_key_def db' update_transaction_def ws(7) del: fun_upd_apply)
qed

lemma releaseHoldTx_spec:
  assumes "releaseHoldTx env i db = Inr (t, db')"
  obtains hold a where "load_active_hold i db = Inr (hold, a)"
    "ctran_ID t = ctran_ID hold" "ctran_key t = ctran_key hold" "ctran_TransactionType t = ''hold''"
    "ctran_Status t = ''released''" "ctran_Amount t = ctran_Amount hold"
    "ctran_Source t = ctran_Source hold \<and> ctran_Authorized t = ctran_Authorized hold" "ctran_SourceID t = ctran_SourceID hold"
    "cdb_transactions db' = sql_update (\<lambda>x. ctran_ID x = ctran_ID t) (\<lambda>_. t) (cdb_transactions db)"
    "balance_of db' = balance_of db"
    "held_of db' = (held_of db)(ctran_key hold := i64 (held_of db (ctran_key hold) - a))"
    "cdb_blocks db' = cdb_blocks db" "cdb_types db' = cdb_types db"
proof -
  from assms obtain hold a where load: "load_active_hold i db = Inr (hold, a)"
    by (auto simp: releaseHoldTx_def Let_def split: sum.splits)
  let ?k = "ctran_key hold"
  from assms load obtain bal db1 where lock: "lockBalance env ?k db = Inr (bal, db1)"
    and t: "t = hold\<lparr>ctran_Status := ''released'', ctran_UpdatedAt := env_now env\<rparr>"
    and db': "db' = update_transaction t (set_held (env_now env) ?k (i64 (ucb_HeldBalance bal - a)) db1)"
    by (auto simp: releaseHoldTx_def Let_def split: sum.splits)
  note l = lockBalance_spec [OF lock]
  have same: "cdb_types db1 = cdb_types db" "cdb_transactions db1 = cdb_transactions db"
      "cdb_blocks db1 = cdb_blocks db"
    using l(4) by (simp_all add: same_rest_def)
  have bal: "balance_of db' = balance_of db"
    and held: "held_of db' = (held_of db)(?k := i64 (held_of db ?k - a))"
    using l by (auto simp: fun_eq_iff db' update_transaction_def)
  show thesis
    using load_active_hold_Inr(3) [OF load] same
    by (intro that [OF load _ _ _ _ _ _ _ _ bal held])
       (simp_all add: t is_active_hold_def ctran_key_def db' update_transaction_def del: fun_upd_apply)
qed

end
