(* ===== verification/Credit_Jobs.thy ===== *)
theory Credit_Jobs
  imports Credit_Ledger
begin

text \<open>
  The two background workers of the ledger, \<^verbatim>\<open>internal/river/jobs_credit_expiry.go\<close> and
  \<^verbatim>\<open>internal/river/jobs_hold_expiry.go\<close>. Each runs a loop of transactions; a transaction selects at most
  a batch of rows, updates them and settles the balances of their owners. The Go maps that collect the
  totals are association lists here, in the order in which the keys first occur; Go leaves the order
  in which it visits them open, and the settlements of different owners do not interact.
  The results of \<^verbatim>\<open>uuid.New()\<close> are numbered by iteration of the loop and call.
\<close>

section \<open>Totals per owner\<close>

fun add_total :: "'k \<Rightarrow> int \<Rightarrow> ('k \<times> int) list \<Rightarrow> ('k \<times> int) list" where
  "add_total k v [] = [(k, i64 v)]"
| "add_total k v ((k', w) # m) = (if k' = k then (k', i64 (w + v)) # m else (k', w) # add_total k v m)"

definition total_at :: "'k \<Rightarrow> ('k \<times> int) list \<Rightarrow> int" where
  "total_at k m = (case map_of m k of None \<Rightarrow> 0 | Some v \<Rightarrow> v)"

section \<open>Expiry of credit blocks\<close>

definition block_expired :: "time \<Rightarrow> credit_block \<Rightarrow> bool" where
  "block_expired now b \<longleftrightarrow>
     0 < cb_RemainingAmount b \<and> (case cb_ExpiresAt b of None \<Rightarrow> False | Some t \<Rightarrow> t \<le> now)"

definition expired_blocks :: "time \<Rightarrow> nat \<Rightarrow> credit_db \<Rightarrow> credit_block list" where
  "expired_blocks now batchSize db =
     take batchSize (sort_key (\<lambda>b. the (cb_ExpiresAt b)) (filter (block_expired now) (cdb_blocks db)))"

fun zero_blocks ::
  "credit_block list \<Rightarrow> ((string \<times> uuid) \<times> int) list \<Rightarrow> credit_block list \<Rightarrow>
     ((string \<times> uuid) \<times> int) list \<times> credit_block list" where
  "zero_blocks [] totals rows = (totals, rows)"
| "zero_blocks (b # bs) totals rows =
     (if cb_RemainingAmount b \<le> 0 then zero_blocks bs totals rows
      else zero_blocks bs (add_total (cb_key b) (cb_RemainingAmount b) totals)
             (set_remaining (cb_ID b) 0 rows))"

fun settle_expired :: "go_env \<Rightarrow> ((string \<times> uuid) \<times> int) list \<Rightarrow> credit_db \<Rightarrow> credit_db result" where
  "settle_expired env [] db = Inr db"
| "settle_expired env ((k, amount) # rest) db =
     (if amount \<le> 0 then settle_expired (env_shift 2 env) rest db
      else
        (let now = env_now env in
         case lockBalance env k db of
           Inl e \<Rightarrow> Inl e
         | Inr (bal, db1) \<Rightarrow>
             (let newBalance0 = i64 (ucb_Balance bal - amount);
                  newBalance = (if newBalance0 < 0 then 0 else newBalance0);
                  trx = \<lparr>ctran_ID = env_uuid env 1, ctran_UserID = fst k, ctran_CreditTypeID = snd k,
                         ctran_Amount = i64 (- amount), ctran_BalanceAfter = Some newBalance,
                         ctran_TransactionType = ''expiry'', ctran_Status = ''posted'',
                         ctran_Authorized = None, ctran_Captured = None,
                         ctran_Source = ''expiry_job'', ctran_SourceID = None,
                         ctran_ExpiresAt = Some now, ctran_Description = None,
                         ctran_CreatedAt = now, ctran_UpdatedAt = now\<rparr>
              in case insert_transaction trx (set_balance now k newBalance db1) of
                   Inl e \<Rightarrow> Inl e
                 | Inr db2 \<Rightarrow> settle_expired (env_shift 2 env) rest db2)))"

definition credit_expiry_batch :: "go_env \<Rightarrow> nat \<Rightarrow> credit_db \<Rightarrow> (nat \<times> credit_db) result" where
  "credit_expiry_batch env batchSize db =
     (let blocks = expired_blocks (env_now env) batchSize db
      in if blocks = [] then Inr (0, db)
         else
           (case zero_blocks blocks [] (cdb_blocks db) of
              (totals, rows) \<Rightarrow>
                (case settle_expired env totals (db\<lparr>cdb_blocks := rows\<rparr>) of
                   Inl e \<Rightarrow> Inl e
                 | Inr db' \<Rightarrow> Inr (length blocks, db'))))"

section \<open>The expiry loop ends\<close>

lemma lockBalance_blocks: "lockBalance env k db = Inr (bal, db') \<Longrightarrow> cdb_blocks db' = cdb_blocks db"
  using lockBalance_spec(4) by (simp add: same_rest_def)

text \<open>One settlement: the owner's balance drops by the expired amount, not below zero, and is logged.\<close>

lemma settle_expired_Cons:
  assumes "settle_expired env ((k, amount) # rest) db = Inr db'" "0 < amount"
  obtains t db2 where "settle_expired (env_shift 2 env) rest db2 = Inr db'"
    "cdb_transactions db2 = cdb_transactions db @ [t]"
    "ctran_ID t \<notin> set (map ctran_ID (cdb_transactions db))"
    "cdb_blocks db2 = cdb_blocks db" "cdb_types db2 = cdb_types db" "held_of db2 = held_of db"
    "balance_of db2 = (balance_of db)(k := max 0 (i64 (balance_of db k - amount)))"
    "ctran_TransactionType t = ''expiry''" "ctran_key t = k" "ctran_Amount t = i64 (- amount)"
proof -
  obtain bal db1 where lock: "lockBalance env k db = Inr (bal, db1)"
    using assms by (auto simp: Let_def split: sum.splits)
  define nb where "nb = max 0 (i64 (ucb_Balance bal - amount))"
  have nb: "(if i64 (ucb_Balance bal - amount) < 0 then 0 else i64 (ucb_Balance bal - amount)) = nb"
    by (simp add: nb_def)
  let ?t = "\<lparr>ctran_ID = env_uuid env 1, ctran_UserID = fst k, ctran_CreditTypeID = snd k,
     ctran_Amount = i64 (- amount), ctran_BalanceAfter = Some nb, ctran_TransactionType = ''expiry'',
     ctran_Status = ''posted'', ctran_Authorized = None, ctran_Captured = None,
     ctran_Source = ''expiry_job'', ctran_SourceID = None, ctran_ExpiresAt = Some (env_now env),
     ctran_Description = None, ctran_CreatedAt = env_now env, ctran_UpdatedAt = env_now env\<rparr>"
  obtain db2 where ins: "insert_transaction ?t (set_balance (env_now env) k nb db1) = Inr db2"
    and rest: "settle_expired (env_shift 2 env) rest db2 = Inr db'"
    using assms lock by (auto simp: Let_def nb simp del: One_nat_def split: sum.splits)
  have t: "ctran_TransactionType ?t = ''expiry''" "ctran_key ?t = k" "ctran_Amount ?t = i64 (- amount)"
    by (simp_all add: ctran_key_def)
  note l = lockBalance_spec [OF lock] and i = insert_transaction_Inr [OF ins]
  have same: "cdb_types db1 = cdb_types db" "cdb_transactions db1 = cdb_transactions db"
      "cdb_blocks db1 = cdb_blocks db"
    using l(4) by (simp_all add: same_rest_def)
  have "balance_of db2 = (balance_of db)(k := max 0 (i64 (balance_of db k - amount)))"
    "held_of db2 = held_of db"
    using l by (auto simp: fun_eq_iff i(1) nb_def)
  with rest t same i show thesis by (intro that [of db2 ?t]) simp_all
qed

lemma settle_expired_blocks: "settle_expired env totals db = Inr db' \<Longrightarrow> cdb_blocks db' = cdb_blocks db"
proof (induction totals arbitrary: env db)
  case (Cons x totals)
  obtain k amount where x: "x = (k, amount)" by (cases x)
  show ?case
  proof (cases "amount \<le> 0")
    case True
    with Cons x show ?thesis by simp
  next
    case False
    then have "0 < amount" by simp
    from Cons.prems [unfolded x] this show ?thesis
      by (rule settle_expired_Cons) (simp add: Cons.IH)
  qed
qed simp

definition n_expired :: "time \<Rightarrow> credit_block list \<Rightarrow> nat" where
  "n_expired now rows = length (filter (block_expired now) rows)"

lemma n_expired_set_remaining: "n_expired now (set_remaining i 0 rows) \<le> n_expired now rows"
  by (induction rows) (auto simp: n_expired_def set_remaining_def block_expired_def)

lemma n_expired_set_remaining_less:
  "b \<in> set rows \<Longrightarrow> block_expired now b \<Longrightarrow> n_expired now (set_remaining (cb_ID b) 0 rows) < n_expired now rows"
proof (induction rows)
  case (Cons x rows)
  have x0: "\<not> block_expired now (x\<lparr>cb_RemainingAmount := 0\<rparr>)" by (simp add: block_expired_def)
  have le: "n_expired now (set_remaining (cb_ID b) 0 rows) \<le> n_expired now rows"
    by (rule n_expired_set_remaining)
  show ?case
  proof (cases "b \<in> set rows")
    case True
    from Cons.IH [OF True Cons.prems(2)] x0 show ?thesis
      by (auto simp: n_expired_def set_remaining_def)
  next
    case False
    with Cons.prems have "x = b" by simp
    with le x0 Cons.prems(2) show ?thesis by (auto simp: n_expired_def set_remaining_def)
  qed
qed simp

lemma zero_blocks_le: "n_expired now (snd (zero_blocks bs totals rows)) \<le> n_expired now rows"
  by (induction bs totals rows rule: zero_blocks.induct)
     (auto intro: order_trans [OF _ n_expired_set_remaining])

lemma zero_blocks_less:
  assumes "bs \<noteq> []" "set bs \<subseteq> set rows" "\<forall>b \<in> set bs. block_expired now b"
  shows "n_expired now (snd (zero_blocks bs totals rows)) < n_expired now rows"
proof -
  from assms obtain b bs' where bs: "bs = b # bs'" by (cases bs) auto
  with assms have b: "b \<in> set rows" "block_expired now b" by auto
  then have "\<not> cb_RemainingAmount b \<le> 0" by (simp add: block_expired_def)
  then have "n_expired now (snd (zero_blocks bs totals rows)) \<le> n_expired now (set_remaining (cb_ID b) 0 rows)"
    by (simp add: bs zero_blocks_le)
  also have "\<dots> < n_expired now rows" using b by (rule n_expired_set_remaining_less)
  finally show ?thesis .
qed

lemma expired_blocks_sub: "b \<in> set (expired_blocks now n db) \<Longrightarrow> b \<in> set (cdb_blocks db) \<and> block_expired now b"
  by (auto simp: expired_blocks_def dest: in_set_takeD)

lemma credit_expiry_batch_less:
  assumes "credit_expiry_batch env batchSize db = Inr (n, db')" "n \<noteq> 0"
  shows "n_expired (env_now env) (cdb_blocks db') < n_expired (env_now env) (cdb_blocks db)"
proof -
  let ?bs = "expired_blocks (env_now env) batchSize db"
  have ne: "?bs \<noteq> []" using assms by (auto simp: credit_expiry_batch_def Let_def)
  with assms have "cdb_blocks db' = snd (zero_blocks ?bs [] (cdb_blocks db))"
    by (auto simp: credit_expiry_batch_def Let_def dest: settle_expired_blocks split: sum.splits prod.splits)
  with ne show ?thesis
    by (auto intro!: zero_blocks_less dest: expired_blocks_sub)
qed

definition job_env :: "time \<Rightarrow> (uuid \<Rightarrow> string) \<Rightarrow> (nat \<Rightarrow> nat \<Rightarrow> uuid) \<Rightarrow> nat \<Rightarrow> go_env" where
  "job_env now str uu i = \<lparr>env_now = now, env_uuid = uu i, env_uuid_String = str\<rparr>"

lemma job_env_now [simp]: "env_now (job_env now str uu i) = now"
  by (simp add: job_env_def)

function credit_expiry_loop ::
  "time \<Rightarrow> (uuid \<Rightarrow> string) \<Rightarrow> (nat \<Rightarrow> nat \<Rightarrow> uuid) \<Rightarrow> nat \<Rightarrow> nat \<Rightarrow> credit_db \<Rightarrow> unit result \<times> credit_db" where
  "credit_expiry_loop now str uu batchSize i db =
     (case run_in_tx (credit_expiry_batch (job_env now str uu i) batchSize) db of
        (Inl e, db') \<Rightarrow> (Inl e, db')
      | (Inr n, db') \<Rightarrow>
          if n = 0 \<or> n < batchSize then (Inr (), db')
          else credit_expiry_loop now str uu batchSize (Suc i) db')"
  by pat_completeness auto
termination
proof (relation "measure (\<lambda>(now, str, uu, batchSize, i, db). n_expired now (cdb_blocks db))", goal_cases)
  case (2 now str uu batchSize i db r db' n)
  from 2(1,2) have "credit_expiry_batch (job_env now str uu i) batchSize db = Inr (n, db')"
    by (metis run_in_tx_ok)
  with 2(3) show ?case
    using credit_expiry_batch_less [of "job_env now str uu i" batchSize db n db'] by simp
qed simp

declare credit_expiry_loop.simps [simp del]

definition CreditExpiryWork ::
  "bool \<Rightarrow> time \<Rightarrow> (uuid \<Rightarrow> string) \<Rightarrow> (nat \<Rightarrow> nat \<Rightarrow> uuid) \<Rightarrow> int \<Rightarrow> credit_db \<Rightarrow> unit result \<times> credit_db" where
  "CreditExpiryWork expirationDisabled now str uu batchSize db =
     (if expirationDisabled then (Inr (), db)
      else credit_expiry_loop now str uu (nat (if batchSize \<le> 0 then 200 else batchSize)) 0 db)"

section \<open>Expiry of holds\<close>

definition hold_expired :: "time \<Rightarrow> credit_transaction \<Rightarrow> bool" where
  "hold_expired now t \<longleftrightarrow>
     ctran_TransactionType t = ''hold'' \<and> ctran_Status t = ''active'' \<and>
     (case ctran_ExpiresAt t of None \<Rightarrow> False | Some e \<Rightarrow> e \<le> now)"

definition expired_holds :: "time \<Rightarrow> nat \<Rightarrow> credit_db \<Rightarrow> credit_transaction list" where
  "expired_holds now batchSize db =
     take batchSize (sort_key (\<lambda>t. the (ctran_ExpiresAt t)) (filter (hold_expired now) (cdb_transactions db)))"

definition mark_expired :: "time \<Rightarrow> uuid \<Rightarrow> credit_db \<Rightarrow> credit_db" where
  "mark_expired now i db = db\<lparr>cdb_transactions :=
     sql_update (\<lambda>t. ctran_ID t = i) (\<lambda>t. t\<lparr>ctran_Status := ''expired'', ctran_UpdatedAt := now\<rparr>)
       (cdb_transactions db)\<rparr>"

fun mark_holds ::
  "time \<Rightarrow> credit_transaction list \<Rightarrow> ((string \<times> uuid) \<times> int) list \<Rightarrow> credit_db \<Rightarrow>
     ((string \<times> uuid) \<times> int) list \<times> credit_db" where
  "mark_holds now [] totals db = (totals, db)"
| "mark_holds now (h # hs) totals db =
     (case ctran_Authorized h of
        None \<Rightarrow> mark_holds now hs totals db
      | Some a \<Rightarrow>
          if a \<le> 0 then mark_holds now hs totals db
          else mark_holds now hs (add_total (ctran_key h) a totals)
                 (mark_expired now (ctran_ID h) db))"

fun settle_holds :: "time \<Rightarrow> ((string \<times> uuid) \<times> int) list \<Rightarrow> credit_db \<Rightarrow> credit_db result" where
  "settle_holds now [] db = Inr db"
| "settle_holds now ((k, amount) # rest) db =
     (if amount \<le> 0 then settle_holds now rest db
      else case sql_find (\<lambda>b. ucb_key b = k) (cdb_balances db) of
             Inl e \<Rightarrow> Inl e
           | Inr bal \<Rightarrow>
               (let newHeld0 = i64 (ucb_HeldBalance bal - amount);
                    newHeld = (if newHeld0 < 0 then 0 else newHeld0)
                in settle_holds now rest (set_held now k newHeld db)))"

definition hold_expiry_batch :: "time \<Rightarrow> nat \<Rightarrow> credit_db \<Rightarrow> (nat \<times> credit_db) result" where
  "hold_expiry_batch now batchSize db =
     (let holds = expired_holds now batchSize db
      in if holds = [] then Inr (0, db)
         else
           (case mark_holds now holds [] db of
              (totals, db1) \<Rightarrow>
                (case settle_holds now totals db1 of
                   Inl e \<Rightarrow> Inl e
                 | Inr db2 \<Rightarrow> Inr (length holds, db2))))"

text \<open>
  The loop may run forever, so not returning is \<open>None\<close>: a batch that only holds rows without an
  authorised amount is left as it is and selected again.
\<close>

partial_function (option) hold_expiry_loop ::
  "time \<Rightarrow> nat \<Rightarrow> credit_db \<Rightarrow> (unit result \<times> credit_db) option" where
  "hold_expiry_loop now batchSize db =
     (case run_in_tx (hold_expiry_batch now batchSize) db of
        (Inl e, db') \<Rightarrow> Some (Inl e, db')
      | (Inr n, db') \<Rightarrow>
          if n = 0 \<or> n < batchSize then Some (Inr (), db')
          else hold_expiry_loop now batchSize db')"

definition HoldExpiryWork ::
  "bool \<Rightarrow> time \<Rightarrow> int \<Rightarrow> credit_db \<Rightarrow> (unit result \<times> credit_db) option" where
  "HoldExpiryWork expirationDisabled now batchSize db =
     (if expirationDisabled then Some (Inr (), db)
      else hold_expiry_loop now (nat (if batchSize \<le> 0 then 100 else batchSize)) db)"

end
