(* ===== verification/Credit_Invariants.thy ===== *)
theory Credit_Invariants
  imports Credit_Jobs
begin

text \<open>
  Every operation of the ledger and every batch of its workers keeps \<open>ledger_ok\<close>: balances stay
  non-negative, and what a row holds back is always the sum of its owner's active holds. The
  operations form a \<open>tx_system\<close>, so the invariant holds in every state they reach.
\<close>

section \<open>The service methods\<close>

lemma hold_amount_not_hold: "\<not> is_active_hold t \<Longrightarrow> hold_amount k t = 0"
  by (simp add: hold_amount_def)

lemma ledger_ok_cong:
  assumes "ledger_ok db" "same_rest db db'" "balance_of db' = balance_of db" "held_of db' = held_of db"
  shows "ledger_ok db'"
proof -
  have "active_holds db' = active_holds db" using assms(2) by (simp add: fun_eq_iff active_holds_def same_rest_def)
  with assms show ?thesis unfolding ledger_ok_def same_rest_def by metis
qed

lemma ledger_ok_append:
  assumes ok: "ledger_ok db" and t: "cdb_transactions db' = cdb_transactions db @ [t]"
      "ctran_ID t \<notin> set (map ctran_ID (cdb_transactions db))" "\<not> is_active_hold t"
    and b: "distinct (map cb_ID (cdb_blocks db'))" "\<forall>b \<in> set (cdb_blocks db'). 0 \<le> cb_RemainingAmount b"
    and bal: "balance_of db' = (balance_of db)(k := v)" "held_of db' = held_of db" "0 \<le> v" "v < 2 ^ 63"
  shows "ledger_ok db'"
  unfolding ledger_ok_def
proof (intro conjI allI ballI impI)
  fix x assume "x \<in> set (cdb_transactions db')" "is_active_hold x"
  with t ok show "\<exists>a. ctran_Authorized x = Some a \<and> 0 < a" by (auto dest: ledger_okD(3))
next
  fix k' show "held_of db' k' = active_holds db' k'"
    using ledger_okD(5) [OF ok] t bal by (simp add: active_holds_def hold_amount_not_hold)
next
  fix k' show "0 \<le> balance_of db' k'" "balance_of db' k' < 2 ^ 63" "held_of db' k' < 2 ^ 63"
    using ledger_okD(6-8) [OF ok, of k'] bal by simp_all
qed (use t b ledger_okD(1) [OF ok] in auto)

lemma ledger_ok_settle:
  assumes ok: "ledger_ok db" and h: "hold \<in> set (cdb_transactions db)" "is_active_hold hold"
      "ctran_Authorized hold = Some a" "ctran_ID t = ctran_ID hold" "\<not> is_active_hold t"
      "cdb_transactions db' = sql_update (\<lambda>x. ctran_ID x = ctran_ID t) (\<lambda>_. t) (cdb_transactions db)"
    and b: "distinct (map cb_ID (cdb_blocks db'))" "\<forall>b \<in> set (cdb_blocks db'). 0 \<le> cb_RemainingAmount b"
    and bal: "balance_of db' = (balance_of db)(ctran_key hold := v)" "0 \<le> v" "v < 2 ^ 63"
      "held_of db' = (held_of db)(ctran_key hold := held_of db (ctran_key hold) - a)"
  shows "ledger_ok db'"
  unfolding ledger_ok_def
proof (intro conjI allI ballI impI)
  have "map ctran_ID (cdb_transactions db') = map ctran_ID (cdb_transactions db)"
    unfolding h(6) by (rule map_sql_update) simp
  then show "distinct (map ctran_ID (cdb_transactions db'))" using ledger_okD(1) [OF ok] by simp
next
  fix x assume "x \<in> set (cdb_transactions db')" "is_active_hold x"
  with h ok show "\<exists>a. ctran_Authorized x = Some a \<and> 0 < a"
    by (auto simp: set_sql_update split: if_splits dest: ledger_okD(3))
next
  fix k' show "held_of db' k' = active_holds db' k'"
    using active_holds_settle [OF ok h, of k'] ledger_okD(5) [OF ok, of k'] bal(4) by auto
next
  have "0 < a" using ledger_okD(3) [OF ok h(1,2)] h(3) by simp
  fix k' show "held_of db' k' < 2 ^ 63"
    using ledger_okD(8) [OF ok, of k'] bal(4) \<open>0 < a\<close> by auto
  show "0 \<le> balance_of db' k'" "balance_of db' k' < 2 ^ 63"
    using ledger_okD(6,7) [OF ok, of k'] bal by simp_all
qed (use b in auto)

lemma hold_le_held:
  assumes "ledger_ok db" "hold \<in> set (cdb_transactions db)" "is_active_hold hold" "ctran_Authorized hold = Some a"
  shows "a \<le> held_of db (ctran_key hold)"
proof -
  have "hold_amount (ctran_key hold) hold \<le> active_holds db (ctran_key hold)"
    unfolding active_holds_def by (rule row_sum_ge_member) (use assms hold_amount_nonneg in auto)
  with assms show ?thesis by (simp add: hold_amount_def ledger_okD(5))
qed

lemma depositTx_ok:
  assumes ok: "ledger_ok db" and pos: "0 < cdp_Amount p"
    and bound: "balance_of db (cdp_UserID p, ct_ID ct) + cdp_Amount p < 2 ^ 63"
    and run: "depositTx env ct p db = Inr (t, db')"
  shows "ledger_ok db'"
  using run
proof (cases rule: depositTx_cases)
  case (replay sid)
  then show ?thesis using ok by (intro ledger_ok_cong [of db db'])
next
  case (fresh b)
  let ?k = "(cdp_UserID p, ct_ID ct)"
  have "in_i64 (balance_of db ?k + cdp_Amount p)"
    using ledger_okD(6) [OF ok, of ?k] pos bound by (simp add: in_i64_def)
  then have "balance_of db' = (balance_of db)(?k := balance_of db ?k + cdp_Amount p)"
    using fresh by simp
  then show ?thesis
    using fresh ledger_okD [OF ok] bound pos
    by (intro ledger_ok_append [OF ok fresh(1,6)]) (auto simp: is_active_hold_def intro: order_less_imp_le)
qed

lemma in_i64_withdraw:
  assumes "ledger_ok db" "0 < amount" "amount \<le> balance_of db k"
  shows "i64 (balance_of db k - amount) = balance_of db k - amount" "i64 (- amount) = - amount"
  using assms(2,3) ledger_okD(6,7) [OF assms(1), of k] by (simp_all add: in_i64_def)

lemma withdrawTx_ok:
  assumes ok: "ledger_ok db" and pos: "0 < cwp_Amount p" and run: "withdrawTx env ctID p db = Inr (t, db')"
  shows "ledger_ok db'"
proof -
  let ?k = "(cwp_UserID p, ctID)"
  from run obtain newBal db1 where
    w: "withdrawBalanceAndBlocks env ?k (cwp_Amount p) db = Inr (newBal, db1)"
    and db': "db' = db1\<lparr>cdb_transactions := cdb_transactions db @ [t]\<rparr>"
    and t: "ctran_ID t \<notin> set (map ctran_ID (cdb_transactions db))" "ctran_TransactionType t = ''withdrawal''"
    by (rule withdrawTx_spec)
  note ws = withdrawBB_spec [OF w]
  have le: "cwp_Amount p \<le> balance_of db ?k"
    using ws(1) in_i64_available [OF ok, of ?k] held_nonneg [OF ok, of ?k] by simp
  have bal: "balance_of db' = (balance_of db)(?k := balance_of db ?k - cwp_Amount p)"
    using ws(2,3) in_i64_withdraw [OF ok pos le] by (simp add: db' fun_eq_iff)
  show ?thesis
  proof (rule ledger_ok_append [OF ok _ t(1) _ _ _ bal])
    show "\<forall>b \<in> set (cdb_blocks db'). 0 \<le> cb_RemainingAmount b"
      using ledger_okD(4) [OF ok] by (auto simp: db' ws(6) intro!: consume_blocks_nonneg)
    show "balance_of db ?k - cwp_Amount p < 2 ^ 63"
      using ledger_okD(7) [OF ok, of ?k] pos by simp
  qed (use ws t le ledger_okD(2) [OF ok] in \<open>simp_all add: db' is_active_hold_def fun_eq_iff\<close>)
qed

lemma holdTx_ok:
  assumes ok: "ledger_ok db" and pos: "0 < amount" and run: "holdTx env k amount source sid exp db = Inr (t, db')"
  shows "ledger_ok db'"
  using run
proof (cases rule: holdTx_cases)
  case replay
  with ok show ?thesis by simp
next
  case fresh
  have le: "held_of db k + amount \<le> balance_of db k"
    using fresh(1) in_i64_available [OF ok, of k] by simp
  then have held: "held_of db' = (held_of db)(k := held_of db k + amount)"
    using fresh(6) held_nonneg [OF ok, of k] ledger_okD(7) [OF ok, of k] pos by (simp add: in_i64_def)
  have ah: "active_holds db' k' = active_holds db k' + (if k' = k then amount else 0)" for k'
    using fresh by (simp add: active_holds_def hold_amount_def is_active_hold_def idem_key_def)
  show ?thesis
    unfolding ledger_ok_def
  proof (intro conjI allI ballI impI)
    fix k' show "held_of db' k' = active_holds db' k'"
      using ledger_okD(5) [OF ok, of k'] by (auto simp: held ah)
    show "held_of db' k' < 2 ^ 63"
      using ledger_okD(8) [OF ok, of k'] ledger_okD(7) [OF ok, of k] le by (auto simp: held)
  qed (use fresh pos ledger_okD [OF ok] in auto)
qed

lemma releaseHoldTx_ok:
  assumes ok: "ledger_ok db" and run: "releaseHoldTx env i db = Inr (t, db')"
  shows "ledger_ok db'"
  using run
proof (cases rule: releaseHoldTx_spec)
  case (1 hold a)
  note h = load_active_hold_Inr [OF 1(1)]
  let ?k = "ctran_key hold"
  have "in_i64 (held_of db ?k - a)"
    using held_nonneg [OF ok, of ?k] ledger_okD(8) [OF ok, of ?k] hold_le_held [OF ok h(1,3,4)] h(5)
    by (simp add: in_i64_def)
  with 1 h show ?thesis using ledger_okD [OF ok]
    by (intro ledger_ok_settle [OF ok h(1,3,4), of t db' "balance_of db ?k"]) (simp_all add: is_active_hold_def)
qed

lemma captureHoldTx_ok:
  assumes ok: "ledger_ok db" and run: "captureHoldTx env i actual db = Inr (t, db')"
  shows "ledger_ok db'"
  using run
proof (cases rule: captureHoldTx_spec)
  case (1 hold a)
  note h = load_active_hold_Inr [OF 1(1)]
  let ?k = "ctran_key hold"
  have le: "a \<le> held_of db ?k" by (rule hold_le_held [OF ok h(1,3,4)])
  have eq: "i64 (held_of db ?k - a) = held_of db ?k - a"
    using ledger_okD(8) [OF ok, of ?k] le h(5) by (simp add: in_i64_def)
  have "i64 (balance_of db ?k - (held_of db ?k - a)) = balance_of db ?k - (held_of db ?k - a)"
    using ledger_okD(6-8) [OF ok, of ?k] le h(5) by (simp add: in_i64_def)
  with 1(13) eq le have actual: "actual \<le> balance_of db ?k" by simp
  with 1(14) have bal: "balance_of db' = (balance_of db)(?k := balance_of db ?k - actual)"
    using in_i64_withdraw [OF ok 1(2)] by simp
  show ?thesis
  proof (rule ledger_ok_settle [OF ok h(1,3,4) 1(4) _ 1(12) _ _ bal])
    show "\<forall>b \<in> set (cdb_blocks db'). 0 \<le> cb_RemainingAmount b"
      using ledger_okD(4) [OF ok] by (auto simp: 1(16) intro!: consume_blocks_nonneg)
    show "balance_of db ?k - actual < 2 ^ 63"
      using ledger_okD(7) [OF ok, of ?k] 1(2) by simp
  qed (use 1(6,7,15,16) eq actual ledger_okD(2) [OF ok] in \<open>simp_all add: is_active_hold_def\<close>)
qed

section \<open>The expiry workers\<close>

lemma total_at_Nil [simp]: "total_at k [] = 0"
  by (simp add: total_at_def)

lemma total_at_Cons [simp]: "total_at k ((k', v) # m) = (if k' = k then v else total_at k m)"
  by (simp add: total_at_def)

lemma total_at_add_total:
  "total_at k (add_total k' v m) = (if k' = k then i64 (total_at k m + v) else total_at k m)"
  by (induction m) auto

lemma keys_add_total: "set (map fst (add_total k v m)) = insert k (set (map fst m))"
proof (induction m)
  case (Cons x m)
  then show ?case by (cases x) (simp split: if_split, blast)
qed simp

lemma distinct_add_total: "distinct (map fst m) \<Longrightarrow> distinct (map fst (add_total k v m))"
proof (induction m)
  case (Cons x m)
  then show ?case using keys_add_total [of k v m] by (cases x) auto
qed simp

lemma total_at_notin: "k \<notin> set (map fst m) \<Longrightarrow> total_at k m = 0"
  by (induction m) auto

lemma settle_expired_ok:
  "ledger_ok db \<Longrightarrow> settle_expired env totals db = Inr db' \<Longrightarrow> ledger_ok db'"
proof (induction totals arbitrary: env db)
  case (Cons x totals)
  obtain k amount where x: "x = (k, amount)" by (cases x)
  show ?case
  proof (cases "amount \<le> 0")
    case True
    with Cons x show ?thesis by simp
  next
    case False
    then have pos: "0 < amount" by simp
    have v: "0 \<le> max 0 (i64 (balance_of db k - amount))" "max 0 (i64 (balance_of db k - amount)) < 2 ^ 63"
      using in_i64_i64 [of "balance_of db k - amount"] by (auto simp: in_i64_def)
    from Cons.prems(2) [unfolded x] pos show ?thesis
    proof (cases rule: settle_expired_Cons)
      case (1 t db2)
      have "ledger_ok db2"
        by (rule ledger_ok_append [OF Cons.prems(1) 1(2,3) _ _ _ 1(7,6) v])
           (use 1 ledger_okD [OF Cons.prems(1)] in \<open>auto simp: is_active_hold_def\<close>)
      then show ?thesis using 1(1) by (rule Cons.IH)
    qed
  qed
qed simp

lemma ledger_ok_blocks:
  assumes "ledger_ok db" "distinct (map cb_ID rows)" "\<forall>b \<in> set rows. 0 \<le> cb_RemainingAmount b"
  shows "ledger_ok (db\<lparr>cdb_blocks := rows\<rparr>)"
proof -
  have "active_holds (db\<lparr>cdb_blocks := rows\<rparr>) = active_holds db" by (simp add: fun_eq_iff active_holds_def)
  moreover have "held_of (db\<lparr>cdb_blocks := rows\<rparr>) = held_of db"
    "balance_of (db\<lparr>cdb_blocks := rows\<rparr>) = balance_of db" by (simp_all add: fun_eq_iff)
  ultimately show ?thesis using assms unfolding ledger_ok_def by auto
qed

lemma zero_blocks_rows:
  "map cb_ID (snd (zero_blocks bs totals rows)) = map cb_ID rows"
  "\<forall>b \<in> set rows. 0 \<le> cb_RemainingAmount b \<Longrightarrow>
   \<forall>b \<in> set (snd (zero_blocks bs totals rows)). 0 \<le> cb_RemainingAmount b"
proof (induction bs totals rows rule: zero_blocks.induct)
  case (2 b bs totals rows)
  {
    case 1
    from 2 show ?case by simp
  next
    case 2
    with "2.IH" set_remaining_nonneg [OF 2, of 0] show ?case by simp
  }
qed simp_all

lemma credit_expiry_batch_ok:
  assumes ok: "ledger_ok db" and run: "credit_expiry_batch env batchSize db = Inr (n, db')"
  shows "ledger_ok db'"
proof (cases "expired_blocks (env_now env) batchSize db = []")
  case True
  with run ok show ?thesis by (simp add: credit_expiry_batch_def)
next
  case False
  let ?bs = "expired_blocks (env_now env) batchSize db"
  obtain totals rows where z: "zero_blocks ?bs [] (cdb_blocks db) = (totals, rows)"
    by (cases "zero_blocks ?bs [] (cdb_blocks db)")
  have "ledger_ok (db\<lparr>cdb_blocks := rows\<rparr>)"
    using zero_blocks_rows [where bs = ?bs and totals = "[]" and rows = "cdb_blocks db"] ledger_okD(2,4) [OF ok] z
    by (intro ledger_ok_blocks [OF ok]) auto
  moreover have "settle_expired env totals (db\<lparr>cdb_blocks := rows\<rparr>) = Inr db'"
    using run False z by (auto simp: credit_expiry_batch_def Let_def split: sum.splits)
  ultimately show ?thesis by (rule settle_expired_ok)
qed

text \<open>
  A batch of the hold worker between its two loops: the holds are marked, the totals are still owed to
  the held balances.
\<close>

definition ledger_owes :: "((string \<times> uuid) \<times> int) list \<Rightarrow> credit_db \<Rightarrow> bool" where
  "ledger_owes totals db \<longleftrightarrow>
     distinct (map ctran_ID (cdb_transactions db)) \<and>
     distinct (map cb_ID (cdb_blocks db)) \<and>
     (\<forall>t \<in> set (cdb_transactions db).
        is_active_hold t \<longrightarrow> (\<exists>a. ctran_Authorized t = Some a \<and> 0 < a)) \<and>
     (\<forall>b \<in> set (cdb_blocks db). 0 \<le> cb_RemainingAmount b) \<and>
     distinct (map fst totals) \<and> (\<forall>k. 0 \<le> total_at k totals) \<and>
     (\<forall>k. held_of db k = active_holds db k + total_at k totals) \<and>
     (\<forall>k. 0 \<le> balance_of db k \<and> balance_of db k < 2 ^ 63 \<and> held_of db k < 2 ^ 63)"

lemma ledger_owes_Nil: "ledger_owes [] db \<longleftrightarrow> ledger_ok db"
  by (simp add: ledger_owes_def ledger_ok_def)

lemma ledger_owesD:
  assumes "ledger_owes totals db"
  shows "distinct (map ctran_ID (cdb_transactions db))" "distinct (map fst totals)"
    and "t \<in> set (cdb_transactions db) \<Longrightarrow> is_active_hold t \<Longrightarrow> \<exists>a. ctran_Authorized t = Some a \<and> 0 < a"
    and "held_of db k = active_holds db k + total_at k totals" "0 \<le> total_at k totals"
    and "0 \<le> active_holds db k" "held_of db k < 2 ^ 63"
proof -
  show "distinct (map ctran_ID (cdb_transactions db))" "distinct (map fst totals)"
    "held_of db k = active_holds db k + total_at k totals" "0 \<le> total_at k totals" "held_of db k < 2 ^ 63"
    using assms unfolding ledger_owes_def by blast+
  show pos: "t \<in> set (cdb_transactions db) \<Longrightarrow> is_active_hold t \<Longrightarrow> \<exists>a. ctran_Authorized t = Some a \<and> 0 < a" for t
    using assms unfolding ledger_owes_def by blast
  show "0 \<le> active_holds db k"
    unfolding active_holds_def by (rule row_sum_nonneg) (use pos in \<open>fastforce simp: hold_amount_def\<close>)
qed

lemma mark_expired_frame [simp]:
  "held_of (mark_expired now i db) = held_of db" "balance_of (mark_expired now i db) = balance_of db"
  "cdb_blocks (mark_expired now i db) = cdb_blocks db" "cdb_types (mark_expired now i db) = cdb_types db"
  "map ctran_ID (cdb_transactions (mark_expired now i db)) = map ctran_ID (cdb_transactions db)"
  by (auto simp: mark_expired_def fun_eq_iff map_sql_update)

lemma ledger_owes_mark:
  assumes owes: "ledger_owes totals db" and h: "h \<in> set (cdb_transactions db)" "is_active_hold h"
    and a: "ctran_Authorized h = Some a"
  shows "ledger_owes (add_total (ctran_key h) a totals) (mark_expired now (ctran_ID h) db)"
proof -
  let ?db = "mark_expired now (ctran_ID h) db" and ?k = "ctran_key h"
  note o = ledger_owesD [OF owes]
  have pos: "0 < a" using o(3) [OF h] a by simp
  have ah: "active_holds ?db k = active_holds db k - (if k = ?k then a else 0)" for k
    using row_sum_update_key [OF o(1) h(1), of "hold_amount k" "\<lambda>t. t\<lparr>ctran_Status := ''expired'', ctran_UpdatedAt := now\<rparr>"] h(2) a
    by (simp add: active_holds_def mark_expired_def hold_amount_def is_active_hold_def ctran_key_def)
  have act: "0 \<le> active_holds ?db k" for k
    unfolding active_holds_def mark_expired_def
    by (rule row_sum_nonneg)
       (use o(3) in \<open>fastforce simp: hold_amount_def set_sql_update is_active_hold_def split: if_splits\<close>)
  have fits: "in_i64 (total_at ?k totals + a)"
    using o(4,5,7) [of ?k] act [of ?k] pos by (simp add: ah in_i64_def)
  have tot: "total_at k (add_total ?k a totals) = total_at k totals + (if k = ?k then a else 0)" for k
    using fits by (auto simp: total_at_add_total)
  show ?thesis
    unfolding ledger_owes_def
  proof (intro conjI allI ballI impI)
    fix t assume "t \<in> set (cdb_transactions ?db)" "is_active_hold t"
    then show "\<exists>a. ctran_Authorized t = Some a \<and> 0 < a"
      using o(3) by (auto simp: mark_expired_def set_sql_update is_active_hold_def split: if_splits)
  next
    fix k show "held_of ?db k = active_holds ?db k + total_at k (add_total ?k a totals)"
      using o(4) [of k] by (simp add: ah tot)
    show "0 \<le> total_at k (add_total ?k a totals)" using o(5) [of k] pos by (simp add: tot)
  qed (use owes in \<open>auto simp: ledger_owes_def distinct_add_total\<close>)
qed

lemma mark_expired_other:
  "t \<in> set (cdb_transactions db) \<Longrightarrow> ctran_ID t \<noteq> i \<Longrightarrow> t \<in> set (cdb_transactions (mark_expired now i db))"
  by (force simp: mark_expired_def set_sql_update)

lemma mark_holds_owes:
  assumes "ledger_owes totals db" "set hs \<subseteq> set (cdb_transactions db)" "\<forall>h \<in> set hs. is_active_hold h"
    "distinct (map ctran_ID hs)" "mark_holds now hs totals db = (totals', db')"
  shows "ledger_owes totals' db'"
  using assms
proof (induction hs arbitrary: totals db)
  case (Cons h hs)
  have "h \<in> set (cdb_transactions db)" "is_active_hold h" using Cons.prems by auto
  with ledger_owesD(3) [OF Cons.prems(1)] obtain a where a: "ctran_Authorized h = Some a" "0 < a" by blast
  have "t \<in> set (cdb_transactions (mark_expired now (ctran_ID h) db))" if "t \<in> set hs" for t
  proof (rule mark_expired_other)
    show "t \<in> set (cdb_transactions db)" using Cons.prems that by auto
    show "ctran_ID t \<noteq> ctran_ID h" using Cons.prems(4) that by (rule distinct_map_ConsD)
  qed
  moreover have "ledger_owes (add_total (ctran_key h) a totals) (mark_expired now (ctran_ID h) db)"
    using Cons.prems a by (intro ledger_owes_mark) auto
  moreover have "mark_holds now hs (add_total (ctran_key h) a totals) (mark_expired now (ctran_ID h) db) = (totals', db')"
    using Cons.prems(5) a by simp
  ultimately show ?case using Cons.prems by (intro Cons.IH) auto
qed simp

lemma settle_holds_owes:
  assumes "ledger_owes totals db"
  shows "\<exists>db'. settle_holds now totals db = Inr db' \<and> ledger_ok db' \<and> cdb_transactions db' = cdb_transactions db"
  using assms
proof (induction totals arbitrary: db)
  case Nil
  then show ?case by (simp add: ledger_owes_Nil)
next
  case (Cons x totals)
  obtain k a where x: "x = (k, a)" by (cases x)
  note o = ledger_owesD [OF Cons.prems [unfolded x]]
  have a: "0 \<le> a" using o(5) [of k] by simp
  have zero: "total_at k totals = 0" using o(2) by (simp add: total_at_notin)
  have step: "ledger_owes totals (set_held now k (held_of db k - a) db)" if "bal_row db k \<noteq> None"
    unfolding ledger_owes_def
  proof (intro conjI allI ballI impI)
    fix k' show "held_of (set_held now k (held_of db k - a) db) k' =
      active_holds (set_held now k (held_of db k - a) db) k' + total_at k' totals"
      using o(4) [of k'] that zero by (auto simp: active_holds_def split: if_splits)
    show "held_of (set_held now k (held_of db k - a) db) k' < 2 ^ 63"
      using o(7) [of k] o(7) [of k'] a that by auto
    show "0 \<le> total_at k' totals" using o(5) [of k'] zero by (cases "k = k'") auto
  qed (use Cons.prems x in \<open>auto simp: ledger_owes_def\<close>)
  show ?case
  proof (cases "a = 0")
    case True
    with zero have eq: "total_at k' (x # totals) = total_at k' totals" for k' by (auto simp: x)
    from Cons.prems have "ledger_owes totals db"
      unfolding ledger_owes_def eq list.map distinct.simps by blast
    with Cons.IH True x show ?thesis by simp
  next
    case False
    with a have pos: "0 < a" by simp
    have le: "a \<le> held_of db k" using o(4,6) [of k] by simp
    with pos obtain bal where bal: "bal_row db k = Some bal" and held: "ucb_HeldBalance bal = held_of db k"
      by (auto simp: held_of_def split: option.splits)
    have "i64 (held_of db k - a) = held_of db k - a"
      using le o(7) [of k] pos by (simp add: in_i64_def)
    with bal held pos le have "settle_holds now (x # totals) db =
      settle_holds now totals (set_held now k (held_of db k - a) db)"
      by (simp add: x bal_row_def sql_find_def Let_def)
    with Cons.IH [OF step] bal show ?thesis by simp
  qed
qed

definition n_expired_holds :: "time \<Rightarrow> credit_db \<Rightarrow> nat" where
  "n_expired_holds now db = length (filter (hold_expired now) (cdb_transactions db))"

lemma expired_holds_facts:
  assumes "distinct (map ctran_ID (cdb_transactions db))"
  shows "set (expired_holds now n db) \<subseteq> {t \<in> set (cdb_transactions db). hold_expired now t}"
    and "distinct (map ctran_ID (expired_holds now n db))"
    and "length (expired_holds now n db) = min n (n_expired_holds now db)"
  using assms by (auto simp: expired_holds_def n_expired_holds_def take_map [symmetric]
      distinct_map_sort_key distinct_map_filter_key dest: in_set_takeD)

lemma mark_holds_count:
  assumes "\<forall>t \<in> set (cdb_transactions db). is_active_hold t \<longrightarrow> (\<exists>a. ctran_Authorized t = Some a \<and> 0 < a)"
    "distinct (map ctran_ID (cdb_transactions db))"
    "set hs \<subseteq> {t \<in> set (cdb_transactions db). hold_expired now t}" "distinct (map ctran_ID hs)"
  shows "n_expired_holds now (snd (mark_holds now hs totals db)) + length hs = n_expired_holds now db"
  using assms
proof (induction hs arbitrary: totals db)
  case (Cons h hs)
  let ?db = "mark_expired now (ctran_ID h) db"
  obtain a where a: "ctran_Authorized h = Some a" "0 < a"
    using Cons.prems(1,3) by (auto simp: hold_expired_def is_active_hold_def)
  have "t \<in> set (cdb_transactions ?db)" if "t \<in> set hs" for t
  proof (rule mark_expired_other)
    show "t \<in> set (cdb_transactions db)" using Cons.prems that by auto
    show "ctran_ID t \<noteq> ctran_ID h" using Cons.prems(4) that by (rule distinct_map_ConsD)
  qed
  moreover have "\<forall>t \<in> set (cdb_transactions ?db). is_active_hold t \<longrightarrow> (\<exists>a. ctran_Authorized t = Some a \<and> 0 < a)"
    using Cons.prems(1) by (auto simp: mark_expired_def set_sql_update is_active_hold_def split: if_splits)
  ultimately have "n_expired_holds now (snd (mark_holds now hs (add_total (ctran_key h) a totals) ?db)) + length hs
      = n_expired_holds now ?db"
    using Cons.prems by (intro Cons.IH) auto
  moreover have "Suc (n_expired_holds now ?db) = n_expired_holds now db"
    unfolding n_expired_holds_def mark_expired_def
    using count_update_key [OF Cons.prems(2), of h "hold_expired now"] Cons.prems(3) by (simp add: hold_expired_def)
  ultimately show ?case using a by simp
qed simp

lemma hold_expiry_batch_ok:
  assumes ok: "ledger_ok db"
  shows "\<exists>db'. hold_expiry_batch now n db = Inr (min n (n_expired_holds now db), db') \<and> ledger_ok db' \<and>
    n_expired_holds now db' = n_expired_holds now db - n"
proof -
  let ?hs = "expired_holds now n db"
  note f = expired_holds_facts [OF ledger_okD(1) [OF ok], of now n]
  show ?thesis
  proof (cases "?hs = []")
    case True
    with f(3) have "min n (n_expired_holds now db) = 0" by simp
    with ok True show ?thesis by (auto simp: hold_expiry_batch_def min_def split: if_splits)
  next
    case False
    obtain totals db1 where m: "mark_holds now ?hs [] db = (totals, db1)" by fastforce
    have "ledger_owes totals db1"
      by (rule mark_holds_owes [OF _ _ _ _ m])
         (use ok f in \<open>auto simp: ledger_owes_Nil hold_expired_def is_active_hold_def\<close>)
    then obtain db2 where s: "settle_holds now totals db1 = Inr db2" "ledger_ok db2"
        "cdb_transactions db2 = cdb_transactions db1"
      using settle_holds_owes by blast
    have "n_expired_holds now db1 + length ?hs = n_expired_holds now db"
      using mark_holds_count [of db ?hs now "[]"] f ledger_okD(1,3) [OF ok] m by auto
    with s False m f(3) show ?thesis by (auto simp: hold_expiry_batch_def n_expired_holds_def)
  qed
qed

text \<open>
  The loop of the hold worker ends on a well-formed ledger: a full batch lowers the number of expired
  holds by its size.
\<close>

lemma hold_expiry_loop_ok:
  assumes "ledger_ok db" "0 < n"
  shows "\<exists>db'. hold_expiry_loop now n db = Some (Inr (), db') \<and> ledger_ok db' \<and> n_expired_holds now db' = 0"
  using assms
proof (induction "n_expired_holds now db" arbitrary: db rule: less_induct)
  case less
  obtain db1 where b: "hold_expiry_batch now n db = Inr (min n (n_expired_holds now db), db1)" "ledger_ok db1"
      "n_expired_holds now db1 = n_expired_holds now db - n"
    using hold_expiry_batch_ok [OF less.prems(1)] by blast
  show ?case
  proof (cases "n \<le> n_expired_holds now db")
    case True
    with b less.prems have "hold_expiry_loop now n db = hold_expiry_loop now n db1"
      by (subst hold_expiry_loop.simps) simp
    with less.hyps [of db1] True b less.prems show ?thesis by simp
  next
    case False
    with b show ?thesis by (subst hold_expiry_loop.simps) auto
  qed
qed

lemma credit_expiry_loop_ok:
  assumes "ledger_ok db" "credit_expiry_loop now str uu n i db = (r, db')"
  shows "ledger_ok db'"
  using assms
proof (induction now str uu n i db rule: credit_expiry_loop.induct)
  case (1 now str uu n i db)
  let ?body = "credit_expiry_batch (job_env now str uu i) n"
  show ?case
  proof (cases "run_in_tx ?body db")
    case (Pair res db1)
    have "ledger_ok db1"
      using Pair 1(2) credit_expiry_batch_ok by (cases res) (auto simp: run_in_tx_ok dest: run_in_tx_error_keeps)
    with Pair 1 show ?thesis
      by (cases res) (auto simp: credit_expiry_loop.simps [of now str uu n i db] split: if_splits)
  qed
qed

end
