(* ===== verification/Credit_Properties.thy ===== *)
theory Credit_Properties
  imports Credit_Invariants
begin

text \<open>
  The properties of the credits ledger: its operations as one transaction system, the idempotence of
  deposits and holds, the exact effect of withdrawals and captures, the life of a hold, the agreement of
  balances with the log, and the behaviour of the two workers.
\<close>

section \<open>The ledger as a transaction system\<close>

datatype credit_op =
    OpDeposit go_env credit_deposit_params
  | OpWithdraw go_env credit_withdraw_params
  | OpHold go_env string string int string string time
  | OpCaptureHold go_env uuid int
  | OpReleaseHold go_env uuid
  | OpExpireCredits go_env nat
  | OpExpireHolds time nat

fun credit_step :: "credit_op \<Rightarrow> credit_db \<Rightarrow> (credit_transaction option \<times> credit_db) result" where
  "credit_step (OpDeposit env p) db = map_sum id (apfst Some) (tx_body (Deposit env p) db)"
| "credit_step (OpWithdraw env p) db = map_sum id (apfst Some) (tx_body (Withdraw env p) db)"
| "credit_step (OpHold env u ct n src sid e) db = map_sum id (apfst Some) (tx_body (Hold env u ct n src sid e) db)"
| "credit_step (OpCaptureHold env i n) db = map_sum id (apfst Some) (tx_body (CaptureHold env i n) db)"
| "credit_step (OpReleaseHold env i) db = map_sum id (apfst Some) (tx_body (ReleaseHold env i) db)"
| "credit_step (OpExpireCredits env n) db = map_sum id (apfst (\<lambda>_. None)) (credit_expiry_batch env n db)"
| "credit_step (OpExpireHolds now n) db = map_sum id (apfst (\<lambda>_. None)) (hold_expiry_batch now n db)"

text \<open>The one condition on the outside: a deposit does not overflow the owner's balance.\<close>

fun credit_guard :: "credit_op \<Rightarrow> credit_db \<Rightarrow> bool" where
  "credit_guard (OpDeposit env p) db =
     (case GetCreditTypeByName (cdp_CreditType p) db of
        Inl _ \<Rightarrow> True
      | Inr ct \<Rightarrow> balance_of db (cdp_UserID p, ct_ID ct) + cdp_Amount p < 2 ^ 63)"
| "credit_guard _ db = True"

lemma Deposit_Inr:
  "Deposit env p db = (Inr t, db') \<longleftrightarrow>
     0 < cdp_Amount p \<and> (\<exists>ct. GetCreditTypeByName (cdp_CreditType p) db = Inr ct \<and> ct_IsActive ct \<and>
       depositTx env ct p db = Inr (t, db'))"
  by (auto simp: Deposit_def run_in_tx_ok split: sum.splits)

lemma Withdraw_Inr:
  "Withdraw env p db = (Inr t, db') \<longleftrightarrow>
     0 < cwp_Amount p \<and> (\<exists>ct. GetCreditTypeByName (cwp_CreditType p) db = Inr ct \<and> ct_IsActive ct \<and>
       withdrawTx env (ct_ID ct) p db = Inr (t, db'))"
  by (auto simp: Withdraw_def run_in_tx_ok split: sum.splits)

lemma Hold_Inr:
  "Hold env u ctn n src sid e db = (Inr t, db') \<longleftrightarrow>
     0 < n \<and> (\<exists>ct. GetCreditTypeByName ctn db = Inr ct \<and> ct_IsActive ct \<and>
       holdTx env (u, ct_ID ct) n src sid e db = Inr (t, db'))"
  by (auto simp: Hold_def run_in_tx_ok split: sum.splits)

lemmas credit_method_Inr = Deposit_Inr Withdraw_Inr Hold_Inr
  CaptureHold_def ReleaseHold_def run_in_tx_ok tx_body_Inr map_sum_Inr

lemma credit_step_ok:
  assumes "ledger_ok db" "credit_guard op db" "credit_step op db = Inr (r, db')"
  shows "ledger_ok db'"
proof (cases op)
  case (OpDeposit env p)
  with assms(3) obtain t ct where ct: "GetCreditTypeByName (cdp_CreditType p) db = Inr ct" "0 < cdp_Amount p"
    and run: "depositTx env ct p db = Inr (t, db')" by (auto simp: credit_method_Inr)
  from assms(2) OpDeposit ct have "balance_of db (cdp_UserID p, ct_ID ct) + cdp_Amount p < 2 ^ 63" by simp
  from depositTx_ok [OF assms(1) ct(2) this run] show ?thesis .
next
  case (OpWithdraw env p)
  with assms show ?thesis by (auto simp: credit_method_Inr intro: withdrawTx_ok)
next
  case (OpHold env u ctn n src sid e)
  with assms show ?thesis by (auto simp: credit_method_Inr intro: holdTx_ok)
next
  case (OpCaptureHold env i n)
  with assms show ?thesis by (auto simp: credit_method_Inr intro: captureHoldTx_ok)
next
  case (OpReleaseHold env i)
  with assms show ?thesis by (auto simp: credit_method_Inr intro: releaseHoldTx_ok)
next
  case (OpExpireCredits env n)
  with assms show ?thesis by (auto simp: credit_method_Inr intro: credit_expiry_batch_ok)
next
  case (OpExpireHolds now n)
  with assms hold_expiry_batch_ok [OF assms(1), of now n] show ?thesis by (auto simp: credit_method_Inr)
qed

interpretation ledger: tx_system credit_step credit_guard ledger_ok
  by unfold_locales (rule credit_step_ok)

definition empty_ledger :: "credit_type list \<Rightarrow> credit_db" where
  "empty_ledger types = \<lparr>cdb_types = types, cdb_balances = [], cdb_transactions = [], cdb_blocks = []\<rparr>"

lemma empty_ledger_ok: "ledger_ok (empty_ledger types)"
  by (simp add: ledger_ok_def empty_ledger_def held_of_def balance_of_def bal_row_def active_holds_def)

section \<open>Example ledger\<close>

definition ex_type :: credit_type where
  "ex_type = \<lparr>ct_ID = 7, ct_Name = ''api'', ct_DisplayName = ''API'', ct_Unit = ''call'',
     ct_DecimalPlaces = 0, ct_IsActive = True, ct_CreatedAt = 1\<rparr>"

definition ex_env :: "time \<Rightarrow> nat \<Rightarrow> go_env" where
  "ex_env now base = \<lparr>env_now = now, env_uuid = (\<lambda>i. base + i), env_uuid_String = (\<lambda>u. replicate u CHR ''x'')\<rparr>"

definition ex_deposit :: "int \<Rightarrow> uuid option \<Rightarrow> time option \<Rightarrow> credit_deposit_params" where
  "ex_deposit n sid e = \<lparr>cdp_UserID = ''u'', cdp_CreditType = ''api'', cdp_Amount = n, cdp_Source = ''s'',
     cdp_SourceID = sid, cdp_ExpiresAt = e, cdp_Description = None\<rparr>"

definition ex_withdraw :: "int \<Rightarrow> credit_withdraw_params" where
  "ex_withdraw n = \<lparr>cwp_UserID = ''u'', cwp_CreditType = ''api'', cwp_Amount = n, cwp_Source = ''s'',
     cwp_SourceID = None\<rparr>"

definition ex_db0 :: credit_db where
  "ex_db0 = empty_ledger [ex_type]"

definition ex_db1 :: credit_db where
  "ex_db1 = snd (Deposit (ex_env 10 100) (ex_deposit 50 (Some 3) None) ex_db0)"

definition ex_db2 :: credit_db where
  "ex_db2 = snd (Hold (ex_env 20 200) ''u'' ''api'' 30 ''s'' ''h1'' 1000 ex_db1)"

lemma ex_db1_reach: "tx_reach credit_step credit_guard ex_db0 ex_db1"
proof -
  have guard: "credit_guard (OpDeposit (ex_env 10 100) (ex_deposit 50 (Some 3) None)) ex_db0" by code_simp
  have "snd (run_in_tx (credit_step (OpDeposit (ex_env 10 100) (ex_deposit 50 (Some 3) None))) ex_db0) = ex_db1"
    by code_simp
  with tx_step [of credit_step credit_guard ex_db0 ex_db0, OF tx_start guard] show ?thesis by simp
qed

lemma ex_db1_ok: "ledger_ok ex_db1"
  using ledger.reach_inv [OF ex_db1_reach] empty_ledger_ok by (simp add: ex_db0_def)

lemma ex_db2_ok: "ledger_ok ex_db2"
proof -
  have "snd (run_in_tx (credit_step (OpHold (ex_env 20 200) ''u'' ''api'' 30 ''s'' ''h1'' 1000)) ex_db1) = ex_db2"
    by code_simp
  with ledger.tx_keeps_inv [OF ex_db1_ok, of "OpHold (ex_env 20 200) ''u'' ''api'' 30 ''s'' ''h1'' 1000"]
  show ?thesis by simp
qed

section \<open>Invariant\<close>

text \<open>
  C1: in every state that deposits, withdrawals, holds, captures, releases and expiry batches reach from a
  well-formed ledger, no balance is negative and every held balance is the sum of the owner's active holds. Deposits must not
  carry a balance over the range of 64 bits.
\<close>

theorem ledger_invariant:
  assumes "tx_reach credit_step credit_guard db0 db" "ledger_ok db0"
  shows "ledger_ok db \<and> (\<forall>k. 0 \<le> balance_of db k \<and> held_of db k = active_holds db k)"
  using ledger.reach_inv [OF assms] ledger_okD(5,6) by blast

theorem ledger_invariant_witness:
  "ledger_ok ex_db1 \<and> 0 \<le> balance_of ex_db1 (''u'', 7) \<and> held_of ex_db1 (''u'', 7) = active_holds ex_db1 (''u'', 7)"
  using ledger_invariant [OF ex_db1_reach] empty_ledger_ok by (simp add: ex_db0_def)

section \<open>Idempotence\<close>

text \<open>
  A deposit with a source id that succeeded is idempotent: sending it again, at any later time,
  returns the recorded transaction and changes nothing.
\<close>

theorem Deposit_idempotent:
  assumes "Deposit env p db = (Inr t, db')" "cdp_SourceID p = Some sid"
    and "env_uuid_String env' = env_uuid_String env"
  shows "Deposit env' p db' = (Inr t, db')"
proof -
  from assms(1) obtain ct where pos: "0 < cdp_Amount p" and ct: "ct_IsActive ct"
    and name: "GetCreditTypeByName (cdp_CreditType p) db = Inr ct"
    and run: "depositTx env ct p db = Inr (t, db')" by (auto simp: Deposit_Inr)
  let ?k = "(cdp_UserID p, ct_ID ct)"
  let ?key = "idem_key ''deposit'' ?k (cdp_Source p) (env_uuid_String env sid)"
  from run have "find ?key (cdb_transactions db') = Some t \<and> bal_row db' ?k \<noteq> None \<and> cdb_types db' = cdb_types db"
  proof (cases rule: depositTx_cases)
    case (replay sid')
    with assms(2) show ?thesis by (simp add: same_rest_def)
  next
    case (fresh b)
    have "?key t" using fresh assms(2) by (simp add: idem_key_def)
    with fresh assms(2) show ?thesis by (simp add: find_append_None)
  qed
  then obtain bal where f: "find ?key (cdb_transactions db') = Some t" "bal_row db' ?k = Some bal"
      "cdb_types db' = cdb_types db" by auto
  then have "lockBalance env' ?k db' = Inr (bal, db')"
    by (simp add: lockBalance_def bal_row_def sql_find_def)
  with f assms(2,3) have "depositTx env' ct p db' = Inr (t, db')" by (simp add: depositTx_def)
  with pos ct name f(3) show ?thesis by (auto simp: Deposit_Inr GetCreditTypeByName_def)
qed

theorem Deposit_idempotent_witness:
  "Deposit (ex_env 99 900) (ex_deposit 50 (Some 3) None) ex_db1 =
     (fst (Deposit (ex_env 10 100) (ex_deposit 50 (Some 3) None) ex_db0), ex_db1)"
proof -
  have "\<not> isl (fst (Deposit (ex_env 10 100) (ex_deposit 50 (Some 3) None) ex_db0))" by code_simp
  note r = result_ok [OF this]
  from Deposit_idempotent [OF r, of 3 "ex_env 99 900"] show ?thesis
    by (subst r) (simp add: ex_deposit_def ex_env_def ex_db1_def)
qed

text \<open>
  A hold is idempotent in its source id: after a successful call, the same call returns the
  recorded hold, whatever its amount and expiry, and changes nothing.
\<close>

theorem Hold_idempotent:
  assumes "Hold env u ctn n src sid e db = (Inr t, db')" "0 < n'"
  shows "Hold env' u ctn n' src sid e' db' = (Inr t, db')"
proof -
  from assms(1) obtain ct where ct: "ct_IsActive ct" "GetCreditTypeByName ctn db = Inr ct"
    and run: "holdTx env (u, ct_ID ct) n src sid e db = Inr (t, db')" by (auto simp: Hold_Inr)
  from run have "find (idem_key ''hold'' (u, ct_ID ct) src sid) (cdb_transactions db') = Some t \<and>
      cdb_types db' = cdb_types db"
    by (cases rule: holdTx_cases) (simp_all add: find_append_None)
  with ct assms(2) show ?thesis by (auto simp: Hold_Inr GetCreditTypeByName_def holdTx_def)
qed

theorem Hold_idempotent_witness:
  "Hold (ex_env 30 300) ''u'' ''api'' 5 ''s'' ''h1'' 2000 ex_db2 =
     (fst (Hold (ex_env 20 200) ''u'' ''api'' 30 ''s'' ''h1'' 1000 ex_db1), ex_db2)"
proof -
  have "\<not> isl (fst (Hold (ex_env 20 200) ''u'' ''api'' 30 ''s'' ''h1'' 1000 ex_db1))" by code_simp
  note r = result_ok [OF this]
  from Hold_idempotent [OF r, of 5 "ex_env 30 300" 2000] show ?thesis
    by (subst r) (simp add: ex_db2_def)
qed

section \<open>Holds reserve, captures spend\<close>

lemma lockBalance_succeeds:
  assumes "env_uuid env 0 \<notin> set (map ucb_ID (cdb_balances db))"
  shows "\<exists>bal db'. lockBalance env k db = Inr (bal, db')"
  using assms by (auto simp: lockBalance_def sql_find_def sql_insert_def Let_def split: option.splits sum.splits)

lemma lockBalance_row: "bal_row db k = Some b \<Longrightarrow> lockBalance env k db = Inr (b, db)"
  by (simp add: lockBalance_def bal_row_def sql_find_def)

lemma insert_transaction_succeeds:
  assumes "ctran_ID t \<notin> set (map ctran_ID (cdb_transactions db))"
    "ctran_TransactionType t \<notin> {''hold'', ''deposit''}"
  shows "insert_transaction t db = Inr (db\<lparr>cdb_transactions := cdb_transactions db @ [t]\<rparr>)"
  using assms by (simp add: insert_transaction_def sql_insert_def)

lemma withdrawBB_succeeds:
  assumes "lockBalance env k db = Inr (bal, db1)"
  shows "withdrawBalanceAndBlocks env k n db =
     (if n \<le> i64 (balance_of db k - held_of db k)
      then Inr (i64 (balance_of db k - n), set_balance (env_now env) k (i64 (balance_of db k - n))
             (db1\<lparr>cdb_blocks := consume_blocks n (spendable_blocks (env_now env) k db1) (cdb_blocks db1)\<rparr>))
      else Inl ErrInsufficientCredits)"
  using lockBalance_spec(1,2) [OF assms] assms by (simp add: withdrawBalanceAndBlocks_def Let_def)

text \<open>
  C12: on a well-formed ledger a withdrawal of a positive amount succeeds exactly when the balance less the
  held balance covers it; then it lowers the balance by the amount and leaves every hold in place,
  otherwise it fails with \<^verbatim>\<open>ErrInsufficientCredits\<close> and changes nothing. (The generated ids are new.)
\<close>

theorem Withdraw_exact:
  assumes ok: "ledger_ok db" and pos: "0 < cwp_Amount p"
    and ct: "GetCreditTypeByName (cwp_CreditType p) db = Inr ct" "ct_IsActive ct"
    and new: "env_uuid env 0 \<notin> set (map ucb_ID (cdb_balances db))"
      "env_uuid env 1 \<notin> set (map ctran_ID (cdb_transactions db))"
  shows "if cwp_Amount p \<le> balance_of db (cwp_UserID p, ct_ID ct) - held_of db (cwp_UserID p, ct_ID ct)
    then \<exists>t db'. Withdraw env p db = (Inr t, db') \<and> held_of db' = held_of db \<and>
      balance_of db' = (balance_of db)((cwp_UserID p, ct_ID ct) :=
         balance_of db (cwp_UserID p, ct_ID ct) - cwp_Amount p) \<and>
      ctran_Amount t = - cwp_Amount p \<and> ctran_BalanceAfter t = Some (balance_of db' (cwp_UserID p, ct_ID ct))
    else Withdraw env p db = (Inl ErrInsufficientCredits, db)"
proof -
  let ?k = "(cwp_UserID p, ct_ID ct)" and ?n = "cwp_Amount p"
  obtain bal db1 where lock: "lockBalance env ?k db = Inr (bal, db1)"
    using lockBalance_succeeds [OF new(1)] by blast
  note w = withdrawBB_succeeds [OF lock, of ?n] and av = in_i64_available [OF ok, of ?k]
  show ?thesis
  proof (cases "?n \<le> balance_of db ?k - held_of db ?k")
    case False
    with w av have "withdrawTx env (ct_ID ct) p db = Inl ErrInsufficientCredits" by (simp add: withdrawTx_def)
    with False ct pos show ?thesis by (simp add: Withdraw_def)
  next
    case True
    then have le: "?n \<le> balance_of db ?k" using held_nonneg [OF ok, of ?k] by simp
    from w av True obtain nb db2 where w2: "withdrawBalanceAndBlocks env ?k ?n db = Inr (nb, db2)" by simp
    note ws = withdrawBB_spec [OF w2]
    have "\<exists>t db'. withdrawTx env (ct_ID ct) p db = Inr (t, db')"
      using w2 new(2) ws(5) by (auto simp: withdrawTx_def Let_def insert_transaction_succeeds)
    then obtain t db' where run: "withdrawTx env (ct_ID ct) p db = Inr (t, db')" by blast
    then have "Withdraw env p db = (Inr t, db')" using ct pos by (auto simp: Withdraw_Inr)
    moreover from run have "held_of db' = held_of db \<and> balance_of db' = (balance_of db)(?k := balance_of db ?k - ?n) \<and>
        ctran_Amount t = - ?n \<and> ctran_BalanceAfter t = Some (balance_of db ?k - ?n)"
      by (rule withdrawTx_spec) (use w2 ws in_i64_withdraw [OF ok pos le] in \<open>simp add: fun_eq_iff\<close>)
    ultimately show ?thesis using True by simp
  qed
qed

theorem Withdraw_exact_witness:
  "\<exists>t db'. Withdraw (ex_env 30 300) (ex_withdraw 20) ex_db2 = (Inr t, db') \<and> balance_of db' (''u'', 7) = 30"
proof -
  have "(20::int) \<le> balance_of ex_db2 (''u'', 7) - held_of ex_db2 (''u'', 7)" "balance_of ex_db2 (''u'', 7) = 50"
    "GetCreditTypeByName ''api'' ex_db2 = Inr ex_type" "ct_IsActive ex_type"
    "env_uuid (ex_env 30 300) 0 \<notin> set (map ucb_ID (cdb_balances ex_db2))"
    "env_uuid (ex_env 30 300) 1 \<notin> set (map ctran_ID (cdb_transactions ex_db2))"
    by code_simp+
  with Withdraw_exact [OF ex_db2_ok, of "ex_withdraw 20" ex_type "ex_env 30 300"] show ?thesis
    by (auto simp: ex_withdraw_def ex_type_def)
qed

text \<open>
  Holds never reserve more than there is: a call that records a new hold reserves exactly its amount,
  which the available balance covered, so the held balance stays within the balance and no balance moves.
\<close>

theorem Hold_reserves:
  assumes ok: "ledger_ok db" and run: "Hold env u ctn n src sid e db = (Inr t, db')"
    and ct: "GetCreditTypeByName ctn db = Inr ct" and new: "t \<notin> set (cdb_transactions db)"
  shows "held_of db' = (held_of db)((u, ct_ID ct) := held_of db (u, ct_ID ct) + n) \<and>
    held_of db' (u, ct_ID ct) \<le> balance_of db' (u, ct_ID ct) \<and> balance_of db' = balance_of db \<and>
    ctran_Status t = ''active'' \<and> ctran_Authorized t = Some n \<and> ctran_ExpiresAt t = Some e"
proof -
  let ?k = "(u, ct_ID ct)"
  from run ct have pos: "0 < n" and tx: "holdTx env ?k n src sid e db = Inr (t, db')" by (auto simp: Hold_Inr)
  from tx show ?thesis
  proof (cases rule: holdTx_cases)
    case replay
    with new show ?thesis by (auto dest: find_SomeD)
  next
    case fresh
    have le: "held_of db ?k + n \<le> balance_of db ?k"
      using fresh(1) in_i64_available [OF ok, of ?k] by simp
    then have "in_i64 (held_of db ?k + n)"
      using held_nonneg [OF ok, of ?k] ledger_okD(7) [OF ok, of ?k] pos by (simp add: in_i64_def)
    with fresh le show ?thesis by simp
  qed
qed

theorem Hold_reserves_witness:
  "held_of ex_db2 (''u'', 7) = held_of ex_db1 (''u'', 7) + 30 \<and> held_of ex_db2 (''u'', 7) \<le> balance_of ex_db2 (''u'', 7)"
proof -
  let ?r = "Hold (ex_env 20 200) ''u'' ''api'' 30 ''s'' ''h1'' 1000 ex_db1"
  have "\<not> isl (fst ?r)" "projr (fst ?r) \<notin> set (cdb_transactions ex_db1)" by code_simp+
  moreover have "GetCreditTypeByName ''api'' ex_db1 = Inr ex_type" "ct_ID ex_type = 7" by code_simp+
  ultimately show ?thesis
    using Hold_reserves [OF ex_db1_ok result_ok, of "ex_env 20 200" "''u''" "''api''" 30 "''s''" "''h1''" 1000 ex_type]
    by (auto simp: ex_db2_def)
qed

text \<open>
  Capturing an active hold for an amount within what it authorised always succeeds while the owner's
  holds are within its balance: the balance drops by the captured amount, the whole authorised
  amount stops being held, and the hold is recorded as captured.
\<close>

theorem CaptureHold_succeeds:
  assumes ok: "ledger_ok db" and h: "hold \<in> set (cdb_transactions db)" "is_active_hold hold"
      "ctran_Authorized hold = Some a" and amt: "0 < n" "n \<le> a"
    and solvent: "held_of db (ctran_key hold) \<le> balance_of db (ctran_key hold)"
  shows "\<exists>t db'. CaptureHold env (ctran_ID hold) n db = (Inr t, db') \<and>
    balance_of db' = (balance_of db)(ctran_key hold := balance_of db (ctran_key hold) - n) \<and>
    held_of db' = (held_of db)(ctran_key hold := held_of db (ctran_key hold) - a) \<and>
    ctran_Status t = ''captured'' \<and> ctran_Captured t = Some n \<and> ctran_Amount t = - n \<and>
    t \<in> set (cdb_transactions db')"
proof -
  let ?k = "ctran_key hold"
  have a: "0 < a" using ledger_okD(3) [OF ok h(1,2)] h(3) by simp
  have load: "load_active_hold (ctran_ID hold) db = Inr (hold, a)"
    using find_key [OF ledger_okD(1) [OF ok] h(1)] h(2,3) a
    by (simp add: load_active_hold_def sql_find_def is_active_hold_def)
  have le: "a \<le> held_of db ?k" by (rule hold_le_held [OF ok h])
  with a obtain bal where row: "bal_row db ?k = Some bal" and held: "ucb_HeldBalance bal = held_of db ?k"
    by (auto simp: held_of_def split: option.splits)
  have nl: "n \<le> balance_of db ?k" using le amt(2) solvent by simp
  have h1: "i64 (held_of db ?k - a) = held_of db ?k - a"
    using ledger_okD(8) [OF ok, of ?k] le a by (simp add: in_i64_def)
  have h2: "i64 (balance_of db ?k - (held_of db ?k - a)) = balance_of db ?k - (held_of db ?k - a)"
    using ledger_okD(6-8) [OF ok, of ?k] le a by (simp add: in_i64_def)
  let ?db1 = "set_held (env_now env) ?k (held_of db ?k - a) db"
  have "bal_row ?db1 ?k \<noteq> None" using row by (simp add: row_frame)
  then obtain b where "lockBalance env ?k ?db1 = Inr (b, ?db1)" using lockBalance_row by blast
  note w = withdrawBB_succeeds [OF this, of n]
  have "\<exists>t db'. captureHoldTx env (ctran_ID hold) n db = Inr (t, db')"
    using w lockBalance_row [OF row] held h1 h2 row amt solvent
    by (auto simp: captureHoldTx_def Let_def load)
  then obtain t db' where run: "captureHoldTx env (ctran_ID hold) n db = Inr (t, db')" by blast
  from run show ?thesis
  proof (cases rule: captureHoldTx_spec)
    case (1 hold' a')
    with load have eq: "hold' = hold" "a' = a" by simp_all
    have "t \<in> set (cdb_transactions db')"
      using 1(4,12) h(1) eq by (auto simp: set_sql_update image_iff intro!: bexI [of _ hold])
    with 1 eq h1 in_i64_withdraw [OF ok amt(1) nl] show ?thesis
      using run by (auto simp: CaptureHold_def run_in_tx_ok intro!: exI [of _ t] exI [of _ db'])
  qed
qed

theorem CaptureHold_succeeds_witness:
  "\<exists>t db'. CaptureHold (ex_env 40 400) 201 25 ex_db2 = (Inr t, db') \<and> balance_of db' (''u'', 7) = 25 \<and>
     held_of db' (''u'', 7) = 0"
proof -
  let ?h = "cdb_transactions ex_db2 ! 1"
  have "?h \<in> set (cdb_transactions ex_db2)" "is_active_hold ?h" "ctran_Authorized ?h = Some 30"
    "ctran_ID ?h = 201" "ctran_key ?h = (''u'', 7)" "balance_of ex_db2 (''u'', 7) = 50" "held_of ex_db2 (''u'', 7) = 30"
    by code_simp+
  with CaptureHold_succeeds [OF ex_db2_ok, of ?h 30 25 "ex_env 40 400"] show ?thesis by auto
qed

section \<open>Spending order\<close>

text \<open>
  A withdrawal spends blocks first-expiring first, oldest first among equals, and those that never
  expire last: the block \<open>b\<close>, after the blocks \<open>xs\<close> in that order, gives exactly what the amount
  leaves once the blocks \<open>xs\<close> are used up; in total the blocks lose the amount, or all the unexpired
  blocks hold when that is less.
\<close>

theorem Withdraw_fifo:
  assumes ok: "ledger_ok db" and run: "Withdraw env p db = (Inr t, db')"
    and ct: "GetCreditTypeByName (cwp_CreditType p) db = Inr ct"
    and order: "spendable_blocks (env_now env) (cwp_UserID p, ct_ID ct) db = xs @ b # ys"
  shows "sorted (map block_order (xs @ b # ys)) \<and>
    rem_of (cdb_blocks db') (cb_ID b) = cb_RemainingAmount b -
       max 0 (min (cb_RemainingAmount b) (cwp_Amount p - row_sum cb_RemainingAmount xs)) \<and>
    blocks_left db' (cwp_UserID p, ct_ID ct) = blocks_left db (cwp_UserID p, ct_ID ct) -
       min (cwp_Amount p) (row_sum cb_RemainingAmount (xs @ b # ys))"
proof -
  let ?k = "(cwp_UserID p, ct_ID ct)"
  from run ct have pos: "0 < cwp_Amount p" and tx: "withdrawTx env (ct_ID ct) p db = Inr (t, db')"
    by (auto simp: Withdraw_Inr)
  have sl: "spend_list ?k (xs @ b # ys) (cdb_blocks db)"
    using spendable_blocks_spend_list [OF ledger_okD(2) [OF ok], of ?k "env_now env"] order by simp
  from tx have blocks: "cdb_blocks db' = consume_blocks (cwp_Amount p) (xs @ b # ys) (cdb_blocks db)"
    by (rule withdrawTx_spec) (simp add: withdrawBB_spec(6) order)
  have "sorted (map block_order (xs @ b # ys))"
    unfolding order [symmetric] by (simp add: spendable_blocks_def)
  moreover have "rem_of (cdb_blocks db') (cb_ID b) = cb_RemainingAmount b -
       max 0 (min (cb_RemainingAmount b) (cwp_Amount p - row_sum cb_RemainingAmount xs))"
    unfolding blocks by (rule consume_blocks_fill [OF sl]) (use pos in simp)
  moreover have "blocks_left db' ?k = blocks_left db ?k - min (cwp_Amount p) (row_sum cb_RemainingAmount (xs @ b # ys))"
    using consume_blocks_total [OF sl, of "cwp_Amount p" ?k] pos by (simp add: blocks_left_def blocks)
  ultimately show ?thesis by blast
qed

definition ex_db3 :: credit_db where
  "ex_db3 = snd (Deposit (ex_env 12 500) (ex_deposit 10 None (Some 90)) ex_db1)"

theorem Withdraw_fifo_witness:
  "rem_of (cdb_blocks (snd (Withdraw (ex_env 30 300) (ex_withdraw 25) ex_db3))) 102 = 35"
proof -
  let ?r = "Withdraw (ex_env 30 300) (ex_withdraw 25) ex_db3" and ?bs = "cdb_blocks ex_db3"
  have "snd (run_in_tx (credit_step (OpDeposit (ex_env 12 500) (ex_deposit 10 None (Some 90)))) ex_db1) = ex_db3"
    "credit_guard (OpDeposit (ex_env 12 500) (ex_deposit 10 None (Some 90))) ex_db1" by code_simp+
  with ledger.tx_keeps_inv [OF ex_db1_ok, of "OpDeposit (ex_env 12 500) (ex_deposit 10 None (Some 90))"]
  have ok: "ledger_ok ex_db3" by simp
  have "\<not> isl (fst ?r)" by code_simp
  note r = result_ok [OF this]
  have "GetCreditTypeByName (cwp_CreditType (ex_withdraw 25)) ex_db3 = Inr ex_type"
    "spendable_blocks (env_now (ex_env 30 300)) (cwp_UserID (ex_withdraw 25), ct_ID ex_type) ex_db3 = [?bs ! 1] @ (?bs ! 0) # []"
    by code_simp+
  note f = Withdraw_fifo [OF ok r this]
  have "cb_ID (?bs ! 0) = 102" "cb_RemainingAmount (?bs ! 0) = 50" "row_sum cb_RemainingAmount [?bs ! 1] = 10"
    "cwp_Amount (ex_withdraw 25) = 25"
    by code_simp+
  with f show ?thesis by simp
qed

end
