(* ===== verification/Credit_Audit.thy ===== *)
theory Credit_Audit
  imports Credit_Properties
begin

text \<open>
  The transactions table as an audit log: rows are only appended, apart from the settlement of an active
  hold, which happens once; and the three records of what a user owns, the balance row, the
  sum of the log and the sum of the blocks, agree as long as nothing spends past the unexpired blocks.
\<close>

section \<open>The log is append-only\<close>

definition find_tx :: "credit_db \<Rightarrow> uuid \<Rightarrow> credit_transaction option" where
  "find_tx db i = find (\<lambda>t. ctran_ID t = i) (cdb_transactions db)"

definition settles_to :: "credit_transaction \<Rightarrow> credit_transaction \<Rightarrow> bool" where
  "settles_to t t' \<longleftrightarrow> is_active_hold t \<and> ctran_TransactionType t' = ''hold'' \<and>
     ctran_Status t' \<in> {''captured'', ''released'', ''expired''} \<and>
     ctran_key t' = ctran_key t \<and> ctran_Authorized t' = ctran_Authorized t \<and>
     ctran_Source t' = ctran_Source t \<and> ctran_SourceID t' = ctran_SourceID t"

definition log_ext :: "credit_db \<Rightarrow> credit_db \<Rightarrow> bool" where
  "log_ext db db' \<longleftrightarrow>
     (\<forall>i t. find_tx db i = Some t \<longrightarrow> (\<exists>t'. find_tx db' i = Some t' \<and> (t' = t \<or> settles_to t t')))"

lemma settles_not_active: "settles_to t t' \<Longrightarrow> \<not> is_active_hold t'"
  by (auto simp: settles_to_def is_active_hold_def)

lemma log_ext_same: "cdb_transactions db' = cdb_transactions db \<Longrightarrow> log_ext db db'"
  by (simp add: log_ext_def find_tx_def)

lemma log_ext_append: "cdb_transactions db' = cdb_transactions db @ ts \<Longrightarrow> log_ext db db'"
  by (simp add: log_ext_def find_tx_def find_append_Some)

lemma log_ext_trans:
  assumes "log_ext a b" "log_ext b c"
  shows "log_ext a c"
  unfolding log_ext_def
proof (intro allI impI)
  fix i t assume "find_tx a i = Some t"
  then obtain t' where t': "find_tx b i = Some t'" "t' = t \<or> settles_to t t'"
    using assms(1) unfolding log_ext_def by blast
  then obtain t'' where "find_tx c i = Some t''" "t'' = t' \<or> settles_to t' t''"
    using assms(2) unfolding log_ext_def by blast
  with t' settles_not_active show "\<exists>t'. find_tx c i = Some t' \<and> (t' = t \<or> settles_to t t')"
    by (auto simp: settles_to_def)
qed

lemma log_ext_update:
  assumes "find_tx db i = Some hold" "settles_to hold (f hold)" "\<And>t. ctran_ID t = i \<Longrightarrow> ctran_ID (f t) = i"
    "cdb_transactions db' = sql_update (\<lambda>x. ctran_ID x = i) f (cdb_transactions db)"
  shows "log_ext db db'"
proof -
  have "find_tx db' j = (if j = i then Some (f hold) else find_tx db j)" for j
    using assms(1,3) by (simp add: find_tx_def assms(4) find_update_key)
  with assms(1,2) show ?thesis by (auto simp: log_ext_def)
qed

lemma find_tx_member:
  "distinct (map ctran_ID (cdb_transactions db)) \<Longrightarrow> t \<in> set (cdb_transactions db) \<Longrightarrow> find_tx db (ctran_ID t) = Some t"
  by (simp add: find_tx_def find_key)

lemma settle_expired_log: "settle_expired env totals db = Inr db' \<Longrightarrow> log_ext db db'"
proof (induction totals arbitrary: env db)
  case (Cons x totals)
  obtain k amount where x: "x = (k, amount)" by (cases x)
  show ?case
  proof (cases "amount \<le> 0")
    case True
    with Cons x show ?thesis by simp
  next
    case False
    then have pos: "0 < amount" by simp
    from Cons.prems [unfolded x] pos show ?thesis
      by (rule settle_expired_Cons) (blast intro: Cons.IH log_ext_trans log_ext_append)
  qed
qed (simp add: log_ext_same)

lemma mark_holds_log:
  assumes "distinct (map ctran_ID (cdb_transactions db))" "set hs \<subseteq> set (cdb_transactions db)"
    "\<forall>h \<in> set hs. is_active_hold h" "distinct (map ctran_ID hs)"
  shows "log_ext db (snd (mark_holds now hs totals db))"
  using assms
proof (induction hs arbitrary: totals db)
  case (Cons h hs)
  let ?db = "mark_expired now (ctran_ID h) db"
  have "find_tx db (ctran_ID h) = Some h" using Cons.prems by (intro find_tx_member) auto
  then have "log_ext db ?db"
    by (rule log_ext_update [where f = "\<lambda>t. t\<lparr>ctran_Status := ''expired'', ctran_UpdatedAt := now\<rparr>"])
       (use Cons.prems(3) in \<open>simp_all add: mark_expired_def settles_to_def is_active_hold_def ctran_key_def\<close>)
  moreover have "set hs \<subseteq> set (cdb_transactions ?db)"
    using Cons.prems(2,4) distinct_map_ConsD [OF Cons.prems(4)] by (auto intro!: mark_expired_other)
  then have "log_ext ?db (snd (mark_holds now hs t ?db))" for t
    using Cons.prems by (intro Cons.IH) auto
  ultimately have "log_ext db (snd (mark_holds now hs t ?db))" for t by (blast intro: log_ext_trans)
  moreover have "log_ext db (snd (mark_holds now hs totals db))"
    using Cons.prems by (intro Cons.IH) auto
  ultimately show ?case by (simp split: option.splits)
qed (simp add: log_ext_same)

lemma settle_holds_transactions:
  "settle_holds now totals db = Inr db' \<Longrightarrow> cdb_transactions db' = cdb_transactions db \<and> cdb_blocks db' = cdb_blocks db"
proof (induction totals arbitrary: db)
  case (Cons x totals)
  obtain k a where x: "x = (k, a)" by (cases x)
  from Cons.prems Cons.IH show ?case unfolding x by (auto simp: Let_def split: if_splits sum.splits)
qed simp

lemma hold_expiry_batch_log:
  assumes ok: "ledger_ok db" and run: "hold_expiry_batch now n db = Inr (m, db')"
  shows "log_ext db db'"
proof -
  let ?hs = "expired_holds now n db"
  note f = expired_holds_facts [OF ledger_okD(1) [OF ok], of now n]
  have "log_ext db (snd (mark_holds now ?hs [] db))"
    by (rule mark_holds_log) (use f ledger_okD(1) [OF ok] in \<open>auto simp: hold_expired_def is_active_hold_def\<close>)
  moreover have "cdb_transactions db' = cdb_transactions (if ?hs = [] then db else snd (mark_holds now ?hs [] db))"
    using run settle_holds_transactions
    by (auto simp: hold_expiry_batch_def Let_def split: if_splits prod.splits sum.splits)
  ultimately show ?thesis by (auto simp: log_ext_def find_tx_def split: if_splits)
qed

lemma depositTx_log: "depositTx env ct p db = Inr (t, db') \<Longrightarrow> log_ext db db'"
  by (erule depositTx_cases) (auto simp: same_rest_def intro: log_ext_same log_ext_append)

lemma withdrawTx_log: "withdrawTx env i p db = Inr (t, db') \<Longrightarrow> log_ext db db'"
  by (erule withdrawTx_spec) (auto intro: log_ext_append)

lemma holdTx_log: "holdTx env k n src sid e db = Inr (t, db') \<Longrightarrow> log_ext db db'"
  by (erule holdTx_cases) (auto intro: log_ext_same log_ext_append)

lemma log_ext_settle:
  assumes ok: "ledger_ok db" and h: "hold \<in> set (cdb_transactions db)"
    and t: "ctran_ID t = ctran_ID hold" "settles_to hold t"
    and tr: "cdb_transactions db' = sql_update (\<lambda>x. ctran_ID x = ctran_ID t) (\<lambda>_. t) (cdb_transactions db)"
  shows "log_ext db db'"
  by (rule log_ext_update [where hold = hold and f = "\<lambda>_. t" and i = "ctran_ID t"])
     (use t tr find_tx_member [OF ledger_okD(1) [OF ok] h] in simp_all)

lemma captureHoldTx_log:
  assumes ok: "ledger_ok db" and run: "captureHoldTx env i n db = Inr (t, db')"
  shows "log_ext db db'"
  using run
proof (cases rule: captureHoldTx_spec)
  case (1 hold a)
  note l = load_active_hold_Inr [OF 1(1)]
  show ?thesis
    by (rule log_ext_settle [OF ok l(1) 1(4) _ 1(12)]) (use 1(5-11) l in \<open>simp add: settles_to_def\<close>)
qed

lemma releaseHoldTx_log:
  assumes ok: "ledger_ok db" and run: "releaseHoldTx env i db = Inr (t, db')"
  shows "log_ext db db'"
  using run
proof (cases rule: releaseHoldTx_spec)
  case (1 hold a)
  note l = load_active_hold_Inr [OF 1(1)]
  show ?thesis
    by (rule log_ext_settle [OF ok l(1) 1(2) _ 1(9)]) (use 1(3-8) l in \<open>simp add: settles_to_def\<close>)
qed

lemma credit_expiry_batch_log: "credit_expiry_batch env n db = Inr (m, db') \<Longrightarrow> log_ext db db'"
  using settle_expired_log
  by (auto simp: credit_expiry_batch_def Let_def log_ext_same log_ext_def find_tx_def
      split: if_splits prod.splits sum.splits)

text \<open>
  C6: The transactions log is append-only. Whatever operation or expiry batch runs on a well-formed
  ledger, a recorded transaction stays as it is, unless it is an active hold, which may become
  captured, released or expired and keeps its owner, amount and source. So a settled hold
  is never settled again.
\<close>

theorem log_append_only:
  assumes ok: "ledger_ok db" and run: "credit_step op db = Inr (r, db')"
    and t: "find_tx db i = Some t"
  shows "\<exists>t'. find_tx db' i = Some t' \<and> (t' = t \<or> settles_to t t' \<and> \<not> is_active_hold t')"
proof -
  have "log_ext db db'"
  proof (cases op)
    case (OpDeposit env p)
    with run show ?thesis by (auto simp: credit_method_Inr intro: depositTx_log)
  next
    case (OpWithdraw env p)
    with run show ?thesis by (auto simp: credit_method_Inr intro: withdrawTx_log)
  next
    case (OpHold env u ctn n src sid e)
    with run show ?thesis by (auto simp: credit_method_Inr intro: holdTx_log)
  next
    case (OpCaptureHold env i n)
    with run ok show ?thesis by (auto simp: credit_method_Inr intro: captureHoldTx_log)
  next
    case (OpReleaseHold env i)
    with run ok show ?thesis by (auto simp: credit_method_Inr intro: releaseHoldTx_log)
  next
    case (OpExpireCredits env n)
    with run show ?thesis by (auto simp: credit_method_Inr intro: credit_expiry_batch_log)
  next
    case (OpExpireHolds now n)
    with run ok show ?thesis by (auto simp: credit_method_Inr intro: hold_expiry_batch_log)
  qed
  with t settles_not_active show ?thesis unfolding log_ext_def by blast
qed

theorem log_append_only_witness:
  "\<exists>t'. find_tx (snd (ReleaseHold (ex_env 40 400) 201 ex_db2)) 201 = Some t' \<and>
     (t' = cdb_transactions ex_db2 ! 1 \<or> settles_to (cdb_transactions ex_db2 ! 1) t' \<and> \<not> is_active_hold t')"
proof -
  let ?r = "ReleaseHold (ex_env 40 400) 201 ex_db2"
  have "\<not> isl (fst ?r)" "find_tx ex_db2 201 = Some (cdb_transactions ex_db2 ! 1)" by code_simp+
  moreover have "credit_step (OpReleaseHold (ex_env 40 400) 201) ex_db2 = Inr (Some (projr (fst ?r)), snd ?r)"
    unfolding credit_step.simps map_sum_Inr tx_body_Inr
    by (rule exI [of _ "(projr (fst ?r), snd ?r)"]) (simp add: tx_body_Inr, rule result_ok, code_simp)
  ultimately show ?thesis using log_append_only [OF ex_db2_ok] by blast
qed

section \<open>Balance, log and blocks agree\<close>

definition audit_ok :: "credit_db \<Rightarrow> bool" where
  "audit_ok db \<longleftrightarrow> ledger_ok db \<and>
     (\<forall>t \<in> set (cdb_transactions db). is_active_hold t \<longrightarrow> ctran_Amount t = 0) \<and>
     (\<forall>k. posted_total db k = balance_of db k) \<and> (\<forall>k. blocks_left db k = balance_of db k)"

definition spendable_total :: "time \<Rightarrow> string \<times> uuid \<Rightarrow> credit_db \<Rightarrow> int" where
  "spendable_total now k db = row_sum cb_RemainingAmount (spendable_blocks now k db)"

text \<open>The condition on what is spent: unexpired blocks cover it.\<close>

fun audit_guard :: "credit_op \<Rightarrow> credit_db \<Rightarrow> bool" where
  "audit_guard (OpWithdraw env p) db =
     (case GetCreditTypeByName (cwp_CreditType p) db of
        Inl _ \<Rightarrow> True
      | Inr ct \<Rightarrow> cwp_Amount p \<le> spendable_total (env_now env) (cwp_UserID p, ct_ID ct) db)"
| "audit_guard (OpCaptureHold env i n) db =
     (case load_active_hold i db of
        Inl _ \<Rightarrow> True
      | Inr (hold, a) \<Rightarrow> n \<le> spendable_total (env_now env) (ctran_key hold) db)"
| "audit_guard op db = credit_guard op db"

lemma audit_okD:
  assumes "audit_ok db"
  shows "ledger_ok db" "t \<in> set (cdb_transactions db) \<Longrightarrow> is_active_hold t \<Longrightarrow> ctran_Amount t = 0"
    "posted_total db k = balance_of db k" "blocks_left db k = balance_of db k"
  using assms unfolding audit_ok_def by auto

lemma audit_okI:
  assumes "ledger_ok db'" "\<And>t. t \<in> set (cdb_transactions db') \<Longrightarrow> is_active_hold t \<Longrightarrow> ctran_Amount t = 0"
    "\<And>k. posted_total db' k = balance_of db' k" "\<And>k. blocks_left db' k = balance_of db' k"
  shows "audit_ok db'"
  using assms by (simp add: audit_ok_def)

lemma blocks_left_consume:
  assumes "ledger_ok db" "0 < n" "n \<le> spendable_total now k db"
    "cdb_blocks db' = consume_blocks n (spendable_blocks now k db) (cdb_blocks db)"
  shows "blocks_left db' k' = blocks_left db k' - (if k' = k then n else 0)"
  using consume_blocks_total [OF spendable_blocks_spend_list [OF ledger_okD(2) [OF assms(1)], of k now], of n k'] assms(2-4)
  by (simp add: blocks_left_def spendable_total_def)

lemma posted_append:
  "cdb_transactions db' = cdb_transactions db @ [t] \<Longrightarrow>
   posted_total db' k = posted_total db k + (if ctran_key t = k then ctran_Amount t else 0)"
  by (simp add: posted_total_def posted_amount_def)

lemma posted_settle:
  assumes "ledger_ok db" "hold \<in> set (cdb_transactions db)" "ctran_ID t = ctran_ID hold" "ctran_key t = ctran_key hold"
    "cdb_transactions db' = sql_update (\<lambda>x. ctran_ID x = ctran_ID t) (\<lambda>_. t) (cdb_transactions db)"
  shows "posted_total db' k = posted_total db k +
    (if ctran_key hold = k then ctran_Amount t - ctran_Amount hold else 0)"
  using row_sum_update_key [OF ledger_okD(1) [OF assms(1)] assms(2), of "posted_amount k" "\<lambda>_. t"] assms(3-5)
  by (simp add: posted_total_def posted_amount_def)

lemma depositTx_audit:
  assumes ok: "audit_ok db" and pos: "0 < cdp_Amount p"
    and bound: "balance_of db (cdp_UserID p, ct_ID ct) + cdp_Amount p < 2 ^ 63"
    and run: "depositTx env ct p db = Inr (t, db')"
  shows "audit_ok db'"
proof (rule audit_okI)
  note a = audit_okD [OF ok]
  let ?k = "(cdp_UserID p, ct_ID ct)"
  show "ledger_ok db'" by (rule depositTx_ok [OF a(1) pos bound run])
  from run have "(\<forall>t \<in> set (cdb_transactions db'). is_active_hold t \<longrightarrow> ctran_Amount t = 0) \<and>
    (\<forall>k. posted_total db' k = balance_of db' k) \<and> (\<forall>k. blocks_left db' k = balance_of db' k)"
  proof (cases rule: depositTx_cases)
    case (replay sid)
    with a show ?thesis by (simp add: same_rest_def posted_total_def blocks_left_def)
  next
    case (fresh b)
    have "in_i64 (balance_of db ?k + cdp_Amount p)"
      using ledger_okD(6) [OF a(1), of ?k] pos bound by (simp add: in_i64_def)
    then have bal: "balance_of db' k = balance_of db k + (if k = ?k then cdp_Amount p else 0)" for k
      using fresh by simp
    have "posted_total db' k = balance_of db' k" for k
      using posted_append [OF fresh(1), of k] a(3) [of k] fresh(8,10) by (auto simp: bal)
    moreover have "blocks_left db' k = balance_of db' k" for k
      using fresh(2,11,12) a(4) [of k] by (auto simp: blocks_left_def block_left_def bal)
    moreover have "\<forall>t \<in> set (cdb_transactions db'). is_active_hold t \<longrightarrow> ctran_Amount t = 0"
      using fresh(1,9) a(2) by (auto simp: is_active_hold_def)
    ultimately show ?thesis by blast
  qed
  then show "\<And>t. t \<in> set (cdb_transactions db') \<Longrightarrow> is_active_hold t \<Longrightarrow> ctran_Amount t = 0"
    "\<And>k. posted_total db' k = balance_of db' k" "\<And>k. blocks_left db' k = balance_of db' k" by blast+
qed

lemma withdrawTx_audit:
  assumes ok: "audit_ok db" and pos: "0 < cwp_Amount p" and run: "withdrawTx env ctID p db = Inr (t, db')"
    and cover: "cwp_Amount p \<le> spendable_total (env_now env) (cwp_UserID p, ctID) db"
  shows "audit_ok db'"
  using run
proof (cases rule: withdrawTx_spec)
  case (1 newBal db1)
  note a = audit_okD [OF ok] and ws = withdrawBB_spec [OF 1(1)]
  let ?k = "(cwp_UserID p, ctID)"
  have "cwp_Amount p \<le> balance_of db ?k"
    using ws(1) in_i64_available [OF a(1), of ?k] held_nonneg [OF a(1), of ?k] by simp
  note i = in_i64_withdraw [OF a(1) pos this]
  have bal: "balance_of db' k = balance_of db k - (if k = ?k then cwp_Amount p else 0)" for k
    using ws(2,3) i by (simp add: 1(2))
  have tr: "cdb_transactions db' = cdb_transactions db @ [t]" by (simp add: 1(2))
  show ?thesis
  proof (rule audit_okI)
    show "ledger_ok db'" by (rule withdrawTx_ok [OF a(1) pos run])
    show "posted_total db' k = balance_of db' k" for k
      using posted_append [OF tr, of k] a(3) [of k] 1(5,6) i by (auto simp: bal)
    have "cdb_blocks db' = consume_blocks (cwp_Amount p) (spendable_blocks (env_now env) ?k db) (cdb_blocks db)"
      by (simp add: 1(2) ws(6))
    from blocks_left_consume [OF a(1) pos cover this] show "blocks_left db' k = balance_of db' k" for k
      using a(4) [of k] by (simp add: bal)
    show "x \<in> set (cdb_transactions db') \<Longrightarrow> is_active_hold x \<Longrightarrow> ctran_Amount x = 0" for x
      using a(2) 1(4) by (auto simp: tr is_active_hold_def)
  qed
qed

lemma holdTx_audit:
  assumes ok: "audit_ok db" and pos: "0 < n" and run: "holdTx env k n src sid e db = Inr (t, db')"
  shows "audit_ok db'"
  using run
proof (cases rule: holdTx_cases)
  case fresh
  note a = audit_okD [OF ok]
  show ?thesis
  proof (rule audit_okI)
    show "ledger_ok db'" by (rule holdTx_ok [OF a(1) pos run])
    show "posted_total db' k = balance_of db' k" for k
      using posted_append [OF fresh(2), of k] a(3) [of k] fresh(5,11) by simp
    show "blocks_left db' k = balance_of db' k" for k
      using a(4) [of k] fresh(3,5) by (simp add: blocks_left_def)
    show "x \<in> set (cdb_transactions db') \<Longrightarrow> is_active_hold x \<Longrightarrow> ctran_Amount x = 0" for x
      using a(2) fresh(2,11) by auto
  qed
qed (use ok in simp)

lemma settle_amounts:
  assumes "audit_ok db" "\<not> is_active_hold t"
    "cdb_transactions db' = sql_update (\<lambda>x. ctran_ID x = ctran_ID t) (\<lambda>_. t) (cdb_transactions db)"
    "x \<in> set (cdb_transactions db')" "is_active_hold x"
  shows "ctran_Amount x = 0"
  using assms audit_okD(2) [OF assms(1)] by (auto simp: set_sql_update split: if_splits)

lemma releaseHoldTx_audit:
  assumes ok: "audit_ok db" and run: "releaseHoldTx env i db = Inr (t, db')"
  shows "audit_ok db'"
  using run
proof (cases rule: releaseHoldTx_spec)
  case (1 hold a)
  note a = audit_okD [OF ok] and l = load_active_hold_Inr [OF 1(1)]
  show ?thesis
  proof (rule audit_okI)
    show "ledger_ok db'" by (rule releaseHoldTx_ok [OF a(1) run])
    show "posted_total db' k = balance_of db' k" for k
      using posted_settle [OF a(1) l(1) 1(2,3,9), of k] a(3) [of k] 1(6,10) by simp
    show "blocks_left db' k = balance_of db' k" for k
      using a(4) [of k] 1(10,12) by (simp add: blocks_left_def)
    show "x \<in> set (cdb_transactions db') \<Longrightarrow> is_active_hold x \<Longrightarrow> ctran_Amount x = 0" for x
      by (rule settle_amounts [OF ok _ 1(9)]) (use 1(5) in \<open>simp_all add: is_active_hold_def\<close>)
  qed
qed

lemma captureHoldTx_audit:
  assumes ok: "audit_ok db" and run: "captureHoldTx env i n db = Inr (t, db')"
    and cover: "\<And>hold a. load_active_hold i db = Inr (hold, a) \<Longrightarrow> n \<le> spendable_total (env_now env) (ctran_key hold) db"
  shows "audit_ok db'"
  using run
proof (cases rule: captureHoldTx_spec)
  case (1 hold a)
  note a = audit_okD [OF ok] and l = load_active_hold_Inr [OF 1(1)]
  let ?k = "ctran_key hold"
  have le: "a \<le> held_of db ?k" by (rule hold_le_held [OF a(1) l(1,3,4)])
  have "i64 (held_of db ?k - a) = held_of db ?k - a"
    "i64 (balance_of db ?k - (held_of db ?k - a)) = balance_of db ?k - (held_of db ?k - a)"
    using ledger_okD(6-8) [OF a(1), of ?k] le l(5) by (simp_all add: in_i64_def)
  with 1(13) le have "n \<le> balance_of db ?k" by simp
  note i = in_i64_withdraw [OF a(1) 1(2) this]
  have bal: "balance_of db' k = balance_of db k - (if k = ?k then n else 0)" for k
    using 1(14) i by simp
  show ?thesis
  proof (rule audit_okI)
    show "ledger_ok db'" by (rule captureHoldTx_ok [OF a(1) run])
    show "posted_total db' k = balance_of db' k" for k
      using posted_settle [OF a(1) l(1) 1(4,5,12), of k] a(3) [of k] a(2) [OF l(1,3)] 1(9) i by (auto simp: bal)
    from blocks_left_consume [OF a(1) 1(2) cover [OF 1(1)] 1(16)]
    show "blocks_left db' k = balance_of db' k" for k
      using a(4) [of k] by (simp add: bal)
    show "x \<in> set (cdb_transactions db') \<Longrightarrow> is_active_hold x \<Longrightarrow> ctran_Amount x = 0" for x
      by (rule settle_amounts [OF ok _ 1(12)]) (use 1(7) in \<open>simp_all add: is_active_hold_def\<close>)
  qed
qed

text \<open>The hold worker touches no amounts.\<close>

lemma mark_expired_posted: "posted_total (mark_expired now i db) k = posted_total db k"
  unfolding posted_total_def mark_expired_def
  by (simp add: row_sum_update_same posted_amount_def ctran_key_def)

lemma mark_holds_frame:
  assumes "mark_holds now hs totals db = (totals', db')"
  shows "balance_of db' = balance_of db \<and> cdb_blocks db' = cdb_blocks db \<and>
    posted_total db' = posted_total db \<and> (\<forall>t \<in> set (cdb_transactions db'). is_active_hold t \<longrightarrow> t \<in> set (cdb_transactions db))"
  using assms
proof (induction hs arbitrary: totals db)
  case (Cons h hs)
  have "t \<in> set (cdb_transactions db)" if "t \<in> set (cdb_transactions (mark_expired now (ctran_ID h) db))" "is_active_hold t" for t
    using that by (auto simp: mark_expired_def set_sql_update is_active_hold_def split: if_splits)
  moreover have "posted_total (mark_expired now (ctran_ID h) db) = posted_total db"
    by (simp add: fun_eq_iff mark_expired_posted)
  ultimately show ?case
    using Cons.prems Cons.IH [of totals db] Cons.IH [of _ "mark_expired now (ctran_ID h) db"]
    by (auto split: option.splits if_splits)
qed simp

lemma settle_holds_balance: "settle_holds now totals db = Inr db' \<Longrightarrow> balance_of db' = balance_of db"
proof (induction totals arbitrary: db)
  case (Cons x totals)
  obtain k a where x: "x = (k, a)" by (cases x)
  have "balance_of (set_held now k v db) = balance_of db" for v by (simp add: fun_eq_iff)
  with Cons.prems Cons.IH show ?case unfolding x by (auto simp: Let_def split: if_splits sum.splits)
qed simp

lemma hold_expiry_batch_audit:
  assumes ok: "audit_ok db" and run: "hold_expiry_batch now n db = Inr (m, db')"
  shows "audit_ok db'"
proof (cases "expired_holds now n db = []")
  case True
  with ok run show ?thesis by (simp add: hold_expiry_batch_def)
next
  case False
  note a = audit_okD [OF ok]
  obtain totals db1 where m: "mark_holds now (expired_holds now n db) [] db = (totals, db1)" by fastforce
  with run False have s: "settle_holds now totals db1 = Inr db'"
    by (auto simp: hold_expiry_batch_def Let_def split: sum.splits)
  note f = mark_holds_frame [OF m] and g = settle_holds_transactions [OF s] settle_holds_balance [OF s]
  show ?thesis
  proof (rule audit_okI)
    show "ledger_ok db'" using hold_expiry_batch_ok [OF a(1), of now n] run by auto
    show "posted_total db' k = balance_of db' k" for k
    proof -
      have "posted_total db' k = posted_total db1 k" using g by (simp add: posted_total_def)
      then show ?thesis using f g a(3) [of k] by simp
    qed
    show "blocks_left db' k = balance_of db' k" for k
      using a(4) [of k] f g by (simp add: blocks_left_def)
    show "x \<in> set (cdb_transactions db') \<Longrightarrow> is_active_hold x \<Longrightarrow> ctran_Amount x = 0" for x
      using f g a(2) by auto
  qed
qed

text \<open>The credit worker: what the zeroed blocks held is what the totals say and what the settlements post.\<close>

lemma zero_blocks_sums:
  assumes "distinct (map cb_ID rows)" "distinct (map cb_ID bs)" "set bs \<subseteq> set rows" "\<forall>b \<in> set bs. 0 < cb_RemainingAmount b"
    "zero_blocks bs totals rows = (totals', rows')"
    "0 \<le> total_at k totals" "total_at k totals + row_sum (block_left k) bs < 2 ^ 63"
  shows "row_sum (block_left k) rows' = row_sum (block_left k) rows - row_sum (block_left k) bs \<and>
    total_at k totals' = total_at k totals + row_sum (block_left k) bs"
  using assms
proof (induction bs arbitrary: totals rows)
  case (Cons b bs)
  let ?r = "cb_RemainingAmount b" and ?rows = "set_remaining (cb_ID b) 0 rows"
  have pos: "0 < ?r" using Cons.prems(4) by simp
  have nonneg: "0 \<le> row_sum (block_left k) bs"
    using Cons.prems(4) by (intro row_sum_nonneg) (auto simp: block_left_def intro: less_imp_le)
  have t: "total_at k (add_total (cb_key b) ?r totals) = total_at k totals + block_left k b"
    using Cons.prems(6,7) pos nonneg by (auto simp: total_at_add_total block_left_def [of k b] in_i64_def)
  have rows: "row_sum (block_left k) ?rows = row_sum (block_left k) rows - block_left k b"
    using row_sum_set_remaining [OF Cons.prems(1), of b k 0] Cons.prems(3) by (simp add: block_left_def)
  have sub: "set bs \<subseteq> set ?rows"
    using Cons.prems(3) distinct_map_ConsD [OF Cons.prems(2)] by (auto intro!: set_remaining_other)
  have z: "zero_blocks bs (add_total (cb_key b) ?r totals) ?rows = (totals', rows')"
    using Cons.prems(5) pos by simp
  have "row_sum (block_left k) rows' = row_sum (block_left k) ?rows - row_sum (block_left k) bs \<and>
    total_at k totals' = total_at k (add_total (cb_key b) ?r totals) + row_sum (block_left k) bs"
    by (rule Cons.IH [OF _ _ sub _ z]) (use Cons.prems pos nonneg in \<open>auto simp: t block_left_def [of k b]\<close>)
  then show ?case by (simp add: t rows)
qed simp

lemma zero_blocks_keys:
  "distinct (map fst totals) \<Longrightarrow> distinct (map fst (fst (zero_blocks bs totals rows)))"
  by (induction bs totals rows rule: zero_blocks.induct) (simp_all add: distinct_add_total)

lemma settle_expired_sums:
  assumes "settle_expired env totals db = Inr db'" "distinct (map fst totals)"
    "\<And>k. 0 \<le> total_at k totals \<and> total_at k totals \<le> balance_of db k" "\<And>k. balance_of db k < 2 ^ 63"
  shows "balance_of db' k = balance_of db k - total_at k totals \<and> posted_total db' k = posted_total db k - total_at k totals"
  using assms
proof (induction totals arbitrary: env db)
  case (Cons x totals)
  obtain q amount where x: "x = (q, amount)" by (cases x)
  have q: "total_at q totals = 0" using Cons.prems(2) x by (simp add: total_at_notin)
  have tot: "total_at j (x # totals) = total_at j totals + (if j = q then amount else 0)" for j
    using q by (auto simp: x)
  show ?case
  proof (cases "amount \<le> 0")
    case True
    with Cons.prems(3) [of q] have "amount = 0" by (simp add: x)
    with tot have eq: "total_at j (x # totals) = total_at j totals" for j by simp
    have "settle_expired (env_shift 2 env) totals db = Inr db'" using Cons.prems(1) True by (simp add: x)
    from Cons.IH [OF this] Cons.prems(2-4) show ?thesis by (simp add: eq)
  next
    case False
    then have pos: "0 < amount" by simp
    have fit: "max 0 (i64 (balance_of db q - amount)) = balance_of db q - amount" "i64 (- amount) = - amount"
      using Cons.prems(3,4) [of q] pos by (simp_all add: x in_i64_def)
    from Cons.prems(1) [unfolded x] pos show ?thesis
    proof (cases rule: settle_expired_Cons)
      case (1 t db2)
      have bal: "balance_of db2 j = balance_of db j - (if j = q then amount else 0)" for j
        using 1(7) fit by simp
      have "balance_of db' k = balance_of db2 k - total_at k totals \<and> posted_total db' k = posted_total db2 k - total_at k totals"
      proof (rule Cons.IH [OF 1(1)])
        show "0 \<le> total_at j totals \<and> total_at j totals \<le> balance_of db2 j" for j
          using Cons.prems(3) [of j] q by (auto simp: bal tot split: if_splits)
        show "balance_of db2 j < 2 ^ 63" for j
          using Cons.prems(4) [of j] pos by (auto simp: bal)
      qed (use Cons.prems(2) in simp)
      then show ?thesis using posted_append [OF 1(2), of k] 1(9,10) fit by (auto simp: bal tot)
    qed
  qed
qed simp

lemma filter_sum_le: "(\<And>x. x \<in> set xs \<Longrightarrow> 0 \<le> h x) \<Longrightarrow> row_sum h (filter P xs) \<le> row_sum h xs"
  by (induction xs) (auto simp: add_increasing)

lemma row_sum_sort_key: "row_sum h (sort_key f xs) = row_sum h xs"
  unfolding row_sum_def by (metis mset_map mset_sort sum_mset_sum_list)

lemma row_sum_take_le: "(\<And>x. x \<in> set xs \<Longrightarrow> 0 \<le> h x) \<Longrightarrow> row_sum h (take n xs) \<le> row_sum h xs"
  using row_sum_append [of h "take n xs" "drop n xs"] row_sum_nonneg [of "drop n xs" h]
  by (fastforce dest: in_set_dropD)

lemma expired_sum_le:
  assumes "ledger_ok db"
  shows "row_sum (block_left k) (expired_blocks now n db) \<le> blocks_left db k"
proof -
  have nn: "0 \<le> block_left k b" if "b \<in> set (cdb_blocks db)" for b
    using ledger_okD(4) [OF assms that] by (simp add: block_left_def)
  have "row_sum (block_left k) (expired_blocks now n db) \<le> row_sum (block_left k) (filter (block_expired now) (cdb_blocks db))"
    unfolding expired_blocks_def
    by (rule order_trans [OF row_sum_take_le]) (auto simp: row_sum_sort_key nn)
  also have "\<dots> \<le> blocks_left db k" unfolding blocks_left_def by (rule filter_sum_le) (rule nn)
  finally show ?thesis .
qed

lemma expired_blocks_distinct:
  "distinct (map cb_ID (cdb_blocks db)) \<Longrightarrow> distinct (map cb_ID (expired_blocks now n db))"
  by (simp add: expired_blocks_def take_map [symmetric] distinct_map_sort_key distinct_map_filter_key)

lemma settle_expired_active:
  "settle_expired env totals db = Inr db' \<Longrightarrow> t \<in> set (cdb_transactions db') \<Longrightarrow> is_active_hold t \<Longrightarrow>
   t \<in> set (cdb_transactions db)"
proof (induction totals arbitrary: env db)
  case (Cons x totals)
  obtain k amount where x: "x = (k, amount)" by (cases x)
  show ?case
  proof (cases "amount \<le> 0")
    case True
    with Cons x show ?thesis by simp
  next
    case False
    then have pos: "0 < amount" by simp
    from Cons.prems(1) [unfolded x] pos show ?thesis
    proof (cases rule: settle_expired_Cons)
      case (1 t' db2)
      from Cons.IH [OF 1(1) Cons.prems(2,3)] 1(2,8) Cons.prems(3) show ?thesis by (auto simp: is_active_hold_def)
    qed
  qed
qed simp

lemma credit_expiry_batch_audit:
  assumes ok: "audit_ok db" and run: "credit_expiry_batch env n db = Inr (m, db')"
  shows "audit_ok db'"
proof (cases "expired_blocks (env_now env) n db = []")
  case True
  with ok run show ?thesis by (simp add: credit_expiry_batch_def)
next
  case False
  note a = audit_okD [OF ok]
  let ?bs = "expired_blocks (env_now env) n db"
  obtain totals rows where z: "zero_blocks ?bs [] (cdb_blocks db) = (totals, rows)" by fastforce
  let ?db = "db\<lparr>cdb_blocks := rows\<rparr>"
  have s: "settle_expired env totals ?db = Inr db'"
    using run False z by (auto simp: credit_expiry_batch_def Let_def split: sum.splits)
  have sums: "row_sum (block_left k) rows = row_sum (block_left k) (cdb_blocks db) - row_sum (block_left k) ?bs"
    "total_at k totals = row_sum (block_left k) ?bs" for k
    using zero_blocks_sums [OF ledger_okD(2) [OF a(1)] expired_blocks_distinct [OF ledger_okD(2) [OF a(1)]] _ _ z, of k]
      expired_sum_le [OF a(1), of k "env_now env" n] a(4) [of k] ledger_okD(7) [OF a(1), of k] expired_blocks_sub
    by (auto simp: block_expired_def subset_iff)
  have nonneg: "0 \<le> row_sum (block_left k) ?bs" for k
    using expired_blocks_sub by (intro row_sum_nonneg) (auto simp: block_left_def block_expired_def intro: less_imp_le)
  have st: "balance_of db' k = balance_of db k - total_at k totals \<and> posted_total db' k = posted_total db k - total_at k totals" for k
    using settle_expired_sums [OF s, of k] zero_blocks_keys [of "[]" ?bs "cdb_blocks db"] z
      expired_sum_le [OF a(1), of _ "env_now env" n] a(4) nonneg ledger_okD(7) [OF a(1)]
    by (simp add: sums posted_total_def)
  show ?thesis
  proof (rule audit_okI)
    show "ledger_ok db'" by (rule credit_expiry_batch_ok [OF a(1) run])
    show "posted_total db' k = balance_of db' k" for k using st [of k] a(3) [of k] by simp
    show "blocks_left db' k = balance_of db' k" for k
      using st [of k] a(4) [of k] settle_expired_blocks [OF s] by (simp add: blocks_left_def sums)
    show "x \<in> set (cdb_transactions db') \<Longrightarrow> is_active_hold x \<Longrightarrow> ctran_Amount x = 0" for x
      using settle_expired_active [OF s] a(2) by auto
  qed
qed

lemma credit_step_audit:
  assumes ok: "audit_ok db" and guard: "audit_guard op db" and run: "credit_step op db = Inr (r, db')"
  shows "audit_ok db'"
proof (cases op)
  case (OpDeposit env p)
  with run obtain t ct where ct: "GetCreditTypeByName (cdp_CreditType p) db = Inr ct" "0 < cdp_Amount p"
    and tx: "depositTx env ct p db = Inr (t, db')" by (auto simp: credit_method_Inr)
  from guard OpDeposit ct have "balance_of db (cdp_UserID p, ct_ID ct) + cdp_Amount p < 2 ^ 63" by simp
  from depositTx_audit [OF ok ct(2) this tx] show ?thesis .
next
  case (OpWithdraw env p)
  with run obtain t ct where ct: "GetCreditTypeByName (cwp_CreditType p) db = Inr ct" "0 < cwp_Amount p"
    and tx: "withdrawTx env (ct_ID ct) p db = Inr (t, db')" by (auto simp: credit_method_Inr)
  show ?thesis by (rule withdrawTx_audit [OF ok ct(2) tx]) (use guard OpWithdraw ct in simp)
next
  case (OpHold env u ctn n src sid e)
  with ok run show ?thesis by (auto simp: credit_method_Inr intro: holdTx_audit)
next
  case (OpCaptureHold env i n)
  with run obtain t where tx: "captureHoldTx env i n db = Inr (t, db')" by (auto simp: credit_method_Inr)
  show ?thesis by (rule captureHoldTx_audit [OF ok tx]) (use guard OpCaptureHold in simp)
next
  case (OpReleaseHold env i)
  with ok run show ?thesis by (auto simp: credit_method_Inr intro: releaseHoldTx_audit)
next
  case (OpExpireCredits env n)
  with ok run show ?thesis by (auto simp: credit_method_Inr intro: credit_expiry_batch_audit)
next
  case (OpExpireHolds now n)
  with ok run show ?thesis by (auto simp: credit_method_Inr intro: hold_expiry_batch_audit)
qed

interpretation audit: tx_system credit_step audit_guard audit_ok
  by unfold_locales (rule credit_step_audit)

lemma empty_audit_ok: "audit_ok (empty_ledger types)"
  by (rule audit_okI)
     (simp_all add: empty_ledger_ok, simp_all add: empty_ledger_def posted_total_def blocks_left_def balance_of_def bal_row_def)

text \<open>
  C5: from the empty ledger on, the three records of what a user owns agree: the balance row is
  the sum of the posted log and the sum of the remaining blocks, through every sequence of
  operations and expiry batches in which withdrawals and captures are covered by unexpired blocks. Without that
  condition they may differ: see \<open>expired_spend_log\<close> below.
\<close>

theorem balance_log_blocks_agree:
  assumes "tx_reach credit_step audit_guard (empty_ledger types) db"
  shows "balance_of db k = posted_total db k \<and> balance_of db k = blocks_left db k"
  using audit_okD(3,4) [OF audit.reach_inv [OF assms empty_audit_ok]] by simp

theorem balance_log_blocks_agree_witness:
  "balance_of ex_db1 (''u'', 7) = posted_total ex_db1 (''u'', 7) \<and> balance_of ex_db1 (''u'', 7) = blocks_left ex_db1 (''u'', 7)"
proof -
  have guard: "audit_guard (OpDeposit (ex_env 10 100) (ex_deposit 50 (Some 3) None)) ex_db0" by code_simp
  have "snd (run_in_tx (credit_step (OpDeposit (ex_env 10 100) (ex_deposit 50 (Some 3) None))) ex_db0) = ex_db1"
    by code_simp
  with tx_step [of credit_step audit_guard ex_db0 ex_db0, OF tx_start guard]
  have "tx_reach credit_step audit_guard ex_db0 ex_db1" by simp
  then show ?thesis unfolding ex_db0_def by (rule balance_log_blocks_agree)
qed

section \<open>The workers\<close>

text \<open>
  C33: the hold worker always finishes on a well-formed ledger, however many holds have expired and
  whatever its batch size: it returns without an error, keeps the invariant (so the
  expired holds are no longer held back) and leaves no active hold past its expiry.
\<close>

theorem HoldExpiryWork_total:
  assumes "ledger_ok db"
  shows "\<exists>db'. HoldExpiryWork False now batchSize db = Some (Inr (), db') \<and> ledger_ok db' \<and>
    (\<forall>t. t \<in> set (cdb_transactions db') \<longrightarrow> \<not> hold_expired now t)"
proof -
  have "0 < nat (if batchSize \<le> 0 then 100 else batchSize)" by simp
  from hold_expiry_loop_ok [OF assms this, of now] show ?thesis
    by (auto simp: HoldExpiryWork_def n_expired_holds_def filter_empty_conv)
qed

theorem HoldExpiryWork_total_witness:
  "\<exists>db'. HoldExpiryWork False 5000 0 ex_db2 = Some (Inr (), db') \<and> ledger_ok db' \<and>
    (\<forall>t. t \<in> set (cdb_transactions db') \<longrightarrow> \<not> hold_expired 5000 t)"
  by (rule HoldExpiryWork_total [OF ex_db2_ok])

text \<open>
  A row that is an active hold without an authorised amount stops the worker for good, when such
  rows fill a batch: the batch is skipped row by row, committed, and selected again.
\<close>

lemma mark_holds_skip:
  "\<forall>h \<in> set hs. case ctran_Authorized h of None \<Rightarrow> True | Some a \<Rightarrow> a \<le> 0 \<Longrightarrow>
   mark_holds now hs totals db = (totals, db)"
  by (induction hs) (auto split: option.splits)

lemma hold_expiry_loop_progress:
  assumes "hold_expiry_loop now n db = Some y"
  shows "0 < n \<longrightarrow> hold_expiry_batch now n db \<noteq> Inr (n, db)"
  by (rule hold_expiry_loop.raw_induct [OF _ assms]) (auto split: prod.splits sum.splits if_splits)

lemma hold_expiry_loop_stuck:
  assumes "length (expired_holds now n db) = n" "0 < n"
    "\<forall>h \<in> set (expired_holds now n db). case ctran_Authorized h of None \<Rightarrow> True | Some a \<Rightarrow> a \<le> 0"
  shows "hold_expiry_loop now n db = None"
proof (rule ccontr)
  assume "hold_expiry_loop now n db \<noteq> None"
  then obtain y where "hold_expiry_loop now n db = Some y" by blast
  moreover have "hold_expiry_batch now n db = Inr (n, db)"
    using assms mark_holds_skip [OF assms(3)] by (auto simp: hold_expiry_batch_def Let_def)
  ultimately show False using assms(2) hold_expiry_loop_progress by blast
qed

definition stuck_hold :: credit_transaction where
  "stuck_hold = \<lparr>ctran_ID = 1, ctran_UserID = ''u'', ctran_CreditTypeID = 7, ctran_Amount = 0,
     ctran_BalanceAfter = None, ctran_TransactionType = ''hold'', ctran_Status = ''active'',
     ctran_Authorized = None, ctran_Captured = None, ctran_Source = ''s'', ctran_SourceID = Some ''h'',
     ctran_ExpiresAt = Some 5, ctran_Description = None, ctran_CreatedAt = 1, ctran_UpdatedAt = 1\<rparr>"

text \<open>
  The hold worker does not return when a full batch of expired active holds has no authorised
  amount: with batch size 1, one such row makes it loop forever.
\<close>

theorem HoldExpiryWork_diverges:
  "HoldExpiryWork False 10 1 ((empty_ledger [ex_type])\<lparr>cdb_transactions := [stuck_hold]\<rparr>) = None"
proof -
  let ?db = "(empty_ledger [ex_type])\<lparr>cdb_transactions := [stuck_hold]\<rparr>"
  have "expired_holds 10 1 ?db = [stuck_hold]" by code_simp
  then have "hold_expiry_loop 10 1 ?db = None"
    by (intro hold_expiry_loop_stuck) (simp_all add: stuck_hold_def)
  then show ?thesis by (simp add: HoldExpiryWork_def)
qed

lemma expired_blocks_length: "length (expired_blocks now n db) = min n (n_expired now (cdb_blocks db))"
  by (simp add: expired_blocks_def n_expired_def)

lemma zero_blocks_count:
  assumes "distinct (map cb_ID rows)" "distinct (map cb_ID bs)" "set bs \<subseteq> set rows" "\<forall>b \<in> set bs. block_expired now b"
  shows "n_expired now (snd (zero_blocks bs totals rows)) + length bs = n_expired now rows"
  using assms
proof (induction bs arbitrary: totals rows)
  case (Cons b bs)
  let ?rows = "set_remaining (cb_ID b) 0 rows"
  have "set bs \<subseteq> set ?rows"
    using Cons.prems(3) distinct_map_ConsD [OF Cons.prems(2)] by (auto intro!: set_remaining_other)
  then have "n_expired now (snd (zero_blocks bs t ?rows)) + length bs = n_expired now ?rows" for t
    using Cons.prems by (intro Cons.IH) auto
  moreover have "Suc (n_expired now ?rows) = n_expired now rows"
    unfolding n_expired_def set_remaining_def
    using count_update_key [OF Cons.prems(1), of b "block_expired now"] Cons.prems(3,4) by (simp add: block_expired_def)
  moreover have "\<not> cb_RemainingAmount b \<le> 0" using Cons.prems(4) by (simp add: block_expired_def)
  ultimately show ?case by simp
qed simp

lemma credit_expiry_batch_count:
  assumes ok: "ledger_ok db" and run: "credit_expiry_batch env n db = Inr (m, db')"
  shows "m = min n (n_expired (env_now env) (cdb_blocks db)) \<and>
    n_expired (env_now env) (cdb_blocks db') = n_expired (env_now env) (cdb_blocks db) - n"
proof -
  let ?bs = "expired_blocks (env_now env) n db"
  have "n_expired (env_now env) (snd (zero_blocks ?bs [] (cdb_blocks db))) + length ?bs = n_expired (env_now env) (cdb_blocks db)"
    by (rule zero_blocks_count)
       (use ledger_okD(2) [OF ok] expired_blocks_distinct expired_blocks_sub in \<open>auto simp: subset_iff\<close>)
  with run show ?thesis using settle_expired_blocks expired_blocks_length [of "env_now env" n db]
    by (auto simp: credit_expiry_batch_def Let_def split: if_splits prod.splits sum.splits)
qed

lemma credit_expiry_loop_done:
  assumes "ledger_ok db" "credit_expiry_loop now str uu n i db = (Inr (), db')" "0 < n"
  shows "n_expired now (cdb_blocks db') = 0"
  using assms
proof (induction now str uu n i db rule: credit_expiry_loop.induct)
  case (1 now str uu n i db)
  let ?env = "job_env now str uu i"
  obtain m db1 where run: "credit_expiry_batch ?env n db = Inr (m, db1)"
    using 1(3) by (cases "credit_expiry_batch ?env n db") (auto simp: credit_expiry_loop.simps [of now str uu n i db])
  note c = credit_expiry_batch_count [OF 1(2) run] and ok = credit_expiry_batch_ok [OF 1(2) run]
  show ?case
  proof (cases "m = 0 \<or> m < n")
    case True
    with run 1(3) have "db' = db1" by (auto simp: credit_expiry_loop.simps [of now str uu n i db])
    with True c 1(4) show ?thesis by auto
  next
    case False
    with run 1(3) have "credit_expiry_loop now str uu n (Suc i) db1 = (Inr (), db')"
      by (auto simp: credit_expiry_loop.simps [of now str uu n i db])
    then show ?thesis using 1(1) [of "Inr m" db1 m] run ok False 1(4) by simp
  qed
qed

text \<open>
  C34: the credit worker always returns; whatever it returns, the ledger is still well formed, and when it
  reports success no block past its expiry has credits left.
\<close>

theorem CreditExpiryWork_sweeps:
  assumes "ledger_ok db" "CreditExpiryWork False now str uu batchSize db = (r, db')"
  shows "ledger_ok db' \<and> (r = Inr () \<longrightarrow> (\<forall>b. b \<in> set (cdb_blocks db') \<longrightarrow> \<not> block_expired now b))"
proof -
  let ?n = "nat (if batchSize \<le> 0 then 200 else batchSize)"
  have run: "credit_expiry_loop now str uu ?n 0 db = (r, db')" using assms(2) by (simp add: CreditExpiryWork_def)
  have "r = Inr () \<Longrightarrow> n_expired now (cdb_blocks db') = 0"
    using credit_expiry_loop_done [OF assms(1), of now str uu ?n 0 db'] run by auto
  with credit_expiry_loop_ok [OF assms(1) run] show ?thesis by (auto simp: n_expired_def filter_empty_conv)
qed

definition ex_expiring :: credit_db where
  "ex_expiring = snd (Deposit (ex_env 10 100) (ex_deposit 10 None (Some 20)) ex_db0)"

theorem CreditExpiryWork_sweeps_witness:
  "block_expired 40 (cdb_blocks ex_expiring ! 0) \<and>
   (\<exists>db'. CreditExpiryWork False 40 (\<lambda>u. []) (\<lambda>i j. 300 + 10 * i + j) 0 ex_expiring = (Inr (), db') \<and>
     ledger_ok db' \<and> cdb_blocks db' \<noteq> [] \<and> \<not> block_expired 40 (cdb_blocks db' ! 0))"
proof -
  let ?run = "CreditExpiryWork False 40 (\<lambda>u. []) (\<lambda>i j. 300 + 10 * i + j) 0 ex_expiring"
  have guard: "credit_guard (OpDeposit (ex_env 10 100) (ex_deposit 10 None (Some 20))) ex_db0" by code_simp
  have "snd (run_in_tx (credit_step (OpDeposit (ex_env 10 100) (ex_deposit 10 None (Some 20)))) ex_db0) = ex_expiring" by code_simp
  with tx_step [of credit_step credit_guard ex_db0 ex_db0, OF tx_start guard]
  have "tx_reach credit_step credit_guard ex_db0 ex_expiring" by simp
  then have ok: "ledger_ok ex_expiring" using ledger.reach_inv empty_ledger_ok by (simp add: ex_db0_def)
  have run: "fst ?run = Inr ()" "cdb_blocks (snd ?run) \<noteq> []" "block_expired 40 (cdb_blocks ex_expiring ! 0)" by code_simp+
  from CreditExpiryWork_sweeps [OF ok prod.collapse [symmetric], of 40 "\<lambda>u. []" "\<lambda>i j. 300 + 10 * i + j" 0] run
  show ?thesis by (intro conjI exI [of _ "snd ?run"]) (simp_all add: prod_eq_iff)
qed

definition expired_spend :: credit_db where
  "expired_spend =
     (let db1 = snd (Deposit (ex_env 10 100) (ex_deposit 10 None (Some 20)) ex_db0);
          db2 = snd (Withdraw (ex_env 30 200) (ex_withdraw 10) db1)
      in snd (CreditExpiryWork False 40 (\<lambda>u. []) (\<lambda>i j. 300 + 10 * i + j) 0 db2))"

text \<open>
  A withdrawal counts expired credits that the worker has not swept yet as available, but takes from
  unexpired blocks only; the sweep then posts the full expired amount while the balance stops at
  zero. Here 10 credits are deposited, spent after their expiry, and expired again: the log sums
  to -10 for a balance of 0.
\<close>

lemma expired_spend_log:
  "balance_of expired_spend (''u'', 7) = 0 \<and> posted_total expired_spend (''u'', 7) = -10"
  by code_simp

end
