(* ===== verification/Sql_Table.thy ===== *)
theory Sql_Table
  imports Go_Prelude
begin

text \<open>
  Tables with constraints. \<open>check\<close> gives the constraint that a row breaks by itself (\<^verbatim>\<open>CHECK\<close>,
  \<^verbatim>\<open>NOT NULL\<close>), \<open>clash\<close> the constraint that two rows break together (primary keys, unique indexes,
  exclusion constraints). None of the constraints of the schema is deferrable, so PostgreSQL checks
  each row when the statement writes it, against the rows as they are at that moment; a
  statement that breaks one fails as a whole. An \<^verbatim>\<open>UPDATE\<close> visits the rows in the order of the table.
\<close>

fun first_clash :: "('r \<Rightarrow> 'r \<Rightarrow> string option) \<Rightarrow> 'r \<Rightarrow> 'r list \<Rightarrow> string option" where
  "first_clash clash r [] = None"
| "first_clash clash r (x # xs) = (case clash r x of Some c \<Rightarrow> Some c | None \<Rightarrow> first_clash clash r xs)"

definition violation :: "('r \<Rightarrow> string option) \<Rightarrow> ('r \<Rightarrow> 'r \<Rightarrow> string option) \<Rightarrow> 'r \<Rightarrow> 'r list \<Rightarrow> string option" where
  "violation check clash r others = (case check r of Some c \<Rightarrow> Some c | None \<Rightarrow> first_clash clash r others)"

definition tbl_insert ::
  "('r \<Rightarrow> string option) \<Rightarrow> ('r \<Rightarrow> 'r \<Rightarrow> string option) \<Rightarrow> 'r \<Rightarrow> 'r list \<Rightarrow> 'r list result" where
  "tbl_insert check clash r rows =
     (case violation check clash r rows of Some c \<Rightarrow> Inl (ErrConstraint c) | None \<Rightarrow> Inr (rows @ [r]))"

fun tbl_update_from ::
  "('r \<Rightarrow> string option) \<Rightarrow> ('r \<Rightarrow> 'r \<Rightarrow> string option) \<Rightarrow> ('r \<Rightarrow> bool) \<Rightarrow> ('r \<Rightarrow> 'r) \<Rightarrow>
     'r list \<Rightarrow> 'r list \<Rightarrow> 'r list result" where
  "tbl_update_from check clash P f seen [] = Inr seen"
| "tbl_update_from check clash P f seen (r # rest) =
     (if P r
      then (case violation check clash (f r) (seen @ rest) of
              Some c \<Rightarrow> Inl (ErrConstraint c)
            | None \<Rightarrow> tbl_update_from check clash P f (seen @ [f r]) rest)
      else tbl_update_from check clash P f (seen @ [r]) rest)"

definition tbl_update ::
  "('r \<Rightarrow> string option) \<Rightarrow> ('r \<Rightarrow> 'r \<Rightarrow> string option) \<Rightarrow> ('r \<Rightarrow> bool) \<Rightarrow> ('r \<Rightarrow> 'r) \<Rightarrow>
     'r list \<Rightarrow> 'r list result" where
  "tbl_update check clash P f rows = tbl_update_from check clash P f [] rows"

definition tbl_ok :: "('r \<Rightarrow> string option) \<Rightarrow> ('r \<Rightarrow> 'r \<Rightarrow> string option) \<Rightarrow> 'r list \<Rightarrow> bool" where
  "tbl_ok check clash rows \<longleftrightarrow>
     list_all (\<lambda>r. check r = None) rows \<and> sorted_wrt (\<lambda>x y. clash x y = None) rows"

lemma first_clash_None: "first_clash clash r xs = None \<longleftrightarrow> (\<forall>x \<in> set xs. clash r x = None)"
  by (induction xs) (auto split: option.splits)

lemma violation_None:
  "violation check clash r xs = None \<longleftrightarrow> check r = None \<and> (\<forall>x \<in> set xs. clash r x = None)"
  by (auto simp: violation_def first_clash_None split: option.splits)

lemma tbl_insert_Inr:
  "tbl_insert check clash r rows = Inr rows' \<longleftrightarrow> violation check clash r rows = None \<and> rows' = rows @ [r]"
  by (auto simp: tbl_insert_def split: option.splits)

lemma tbl_insert_Inl: "tbl_insert check clash r rows = Inl e \<Longrightarrow> is_sql_error e"
  by (auto simp: tbl_insert_def split: option.splits)

text \<open>An update that succeeds is the update of each row.\<close>

lemma tbl_update_from_Inr:
  "tbl_update_from check clash P f seen rows = Inr rows' \<Longrightarrow> rows' = seen @ sql_update P f rows"
proof (induction rows arbitrary: seen)
  case (Cons r rows)
  from Cons.prems Cons.IH [of "seen @ [f r]"] Cons.IH [of "seen @ [r]"] show ?case
    by (auto split: if_splits option.splits)
qed simp

lemma tbl_update_Inr: "tbl_update check clash P f rows = Inr rows' \<Longrightarrow> rows' = sql_update P f rows"
  using tbl_update_from_Inr [of check clash P f "[]" rows rows'] by (simp add: tbl_update_def)

lemma tbl_update_none: "(\<And>r. r \<in> set rows \<Longrightarrow> \<not> P r) \<Longrightarrow> tbl_update check clash P f rows = Inr rows"
proof -
  have "(\<And>r. r \<in> set rows \<Longrightarrow> \<not> P r) \<Longrightarrow> tbl_update_from check clash P f seen rows = Inr (seen @ rows)" for seen
    by (induction rows arbitrary: seen) auto
  then show "(\<And>r. r \<in> set rows \<Longrightarrow> \<not> P r) \<Longrightarrow> tbl_update check clash P f rows = Inr rows"
    by (simp add: tbl_update_def)
qed

lemma tbl_update_from_none:
  "\<forall>r \<in> set xs. \<not> P r \<Longrightarrow>
   tbl_update_from check clash P f seen (xs @ ys) = tbl_update_from check clash P f (seen @ xs) ys"
  by (induction xs arbitrary: seen) auto

text \<open>An update of exactly one row.\<close>

lemma tbl_update_single:
  assumes "P r" "\<forall>x \<in> set (xs @ ys). \<not> P x"
  shows "tbl_update check clash P f (xs @ r # ys) =
    (case violation check clash (f r) (xs @ ys) of
       Some c \<Rightarrow> Inl (ErrConstraint c) | None \<Rightarrow> Inr (xs @ f r # ys))"
  using assms tbl_update_from_none [of xs P check clash f "[]" "r # ys"]
    tbl_update_from_none [of ys P check clash f "xs @ [f r]" "[]"]
  by (auto simp: tbl_update_def split: option.splits)

lemma tbl_update_Inl: "tbl_update check clash P f rows = Inl e \<Longrightarrow> is_sql_error e"
proof -
  have "tbl_update_from check clash P f seen rows = Inl e \<Longrightarrow> is_sql_error e" for seen
    by (induction rows arbitrary: seen) (auto split: if_splits option.splits)
  then show "tbl_update check clash P f rows = Inl e \<Longrightarrow> is_sql_error e" by (simp add: tbl_update_def)
qed

lemma tbl_okD:
  assumes "tbl_ok check clash rows"
  shows "r \<in> set rows \<Longrightarrow> check r = None"
  using assms by (simp add: tbl_ok_def list_all_iff)

text \<open>
  What every table promises its clients, given only that a conflict of two rows does not depend on
  their order: insertions and updates that succeed keep the constraints, and an update
  whose new rows are valid and conflict with nothing that the old rows did not
  conflict with always succeeds.
\<close>

locale constrained_table =
  fixes check :: "'r \<Rightarrow> string option"
    and clash :: "'r \<Rightarrow> 'r \<Rightarrow> string option"
  assumes clash_sym: "clash x y = None \<Longrightarrow> clash y x = None"
begin

lemma ok_middle:
  "tbl_ok check clash (xs @ r # ys) \<longleftrightarrow> tbl_ok check clash (xs @ ys) \<and> violation check clash r (xs @ ys) = None"
  using clash_sym by (auto simp: tbl_ok_def sorted_wrt_append violation_None)

lemma ok_pair:
  assumes "tbl_ok check clash rows" "x \<in> set rows" "y \<in> set rows" "x \<noteq> y"
  shows "clash x y = None"
proof -
  obtain xs ys where rows: "rows = xs @ x # ys" using assms(2) by (auto dest: split_list)
  with assms have "violation check clash x (xs @ ys) = None" "y \<in> set (xs @ ys)" by (auto simp: ok_middle)
  then show ?thesis by (simp add: violation_None)
qed

lemma insert_ok: "tbl_ok check clash rows \<Longrightarrow> tbl_insert check clash r rows = Inr rows' \<Longrightarrow> tbl_ok check clash rows'"
  using ok_middle [of rows r "[]"] by (auto simp: tbl_insert_Inr)

lemma update_from_ok:
  "tbl_ok check clash (seen @ rows) \<Longrightarrow> tbl_update_from check clash P f seen rows = Inr rows' \<Longrightarrow>
   tbl_ok check clash rows'"
proof (induction rows arbitrary: seen)
  case (Cons r rows)
  from Cons.prems(1) have "tbl_ok check clash (seen @ rows)" by (simp add: ok_middle)
  then have "violation check clash (f r) (seen @ rows) = None \<Longrightarrow> tbl_ok check clash ((seen @ [f r]) @ rows)"
    using ok_middle [of seen "f r" rows] by simp
  with Cons.prems Cons.IH [of "seen @ [f r]"] Cons.IH [of "seen @ [r]"] show ?case
    by (auto split: if_splits option.splits)
qed simp

lemma update_ok: "tbl_ok check clash rows \<Longrightarrow> tbl_update check clash P f rows = Inr rows' \<Longrightarrow> tbl_ok check clash rows'"
  using update_from_ok [of "[]"] by (simp add: tbl_update_def)

lemma update_succeeds:
  assumes ok: "tbl_ok check clash rows"
    and valid: "\<And>r. r \<in> set rows \<Longrightarrow> P r \<Longrightarrow> check (f r) = None"
    and old: "\<And>r x. r \<in> set rows \<Longrightarrow> P r \<Longrightarrow> clash r x = None \<Longrightarrow> clash (f r) x = None"
  shows "tbl_update check clash P f rows = Inr (sql_update P f rows)"
proof -
  have "tbl_ok check clash (seen @ rows') \<Longrightarrow> set rows' \<subseteq> set rows \<Longrightarrow>
    tbl_update_from check clash P f seen rows' = Inr (seen @ sql_update P f rows')" for seen rows'
  proof (induction rows' arbitrary: seen)
    case (Cons r rows')
    have v: "violation check clash r (seen @ rows') = None" and ok': "tbl_ok check clash (seen @ rows')"
      using Cons.prems(1) by (simp_all add: ok_middle)
    show ?case
    proof (cases "P r")
      case True
      have "violation check clash (f r) (seen @ rows') = None"
        using v True Cons.prems(2) valid old by (auto simp: violation_None)
      moreover from this ok' have "tbl_ok check clash ((seen @ [f r]) @ rows')"
        using ok_middle [of seen "f r" rows'] by simp
      ultimately show ?thesis using Cons.IH [of "seen @ [f r]"] Cons.prems(2) True by simp
    next
      case False
      with Cons.IH [of "seen @ [r]"] Cons.prems show ?thesis by simp
    qed
  qed simp
  from this [of "[]" rows] ok show ?thesis by (simp add: tbl_update_def)
qed

end

end
