(* ===== verification/Catalog.thy ===== *)
theory Catalog
  imports Go_Prelude
begin

text \<open>
  The product catalog, \<^verbatim>\<open>internal/db/models/product_catalog.go\<close>, the string helpers of
  \<^verbatim>\<open>internal/shared/normalize/normalize.go\<close> and the processor names of \<^verbatim>\<open>internal/modules/payments/processors/nmi.go\<close>.
  A nil Go map is \<open>None\<close>; a read of a missing key gives the zero value. The maps that the code ranges over
  (\<^verbatim>\<open>EntitlementsSpec\<close>, \<^verbatim>\<open>CreditsSpec\<close>) are association lists in the order of the iteration, which Go leaves open.
\<close>

section \<open>Normalisation\<close>

definition Trim :: "string \<Rightarrow> string" where
  "Trim value = TrimSpace value"

definition Lower :: "string \<Rightarrow> string" where
  "Lower value = ToLower (Trim value)"

fun FirstNonEmpty :: "string list \<Rightarrow> string" where
  "FirstNonEmpty [] = ''''"
| "FirstNonEmpty (value # values) = (let trimmed = Trim value in if trimmed \<noteq> '''' then trimmed else FirstNonEmpty values)"

definition OptionalString :: "string \<Rightarrow> string option" where
  "OptionalString value = (let trimmed = Trim value in if trimmed \<noteq> '''' then Some trimmed else None)"

definition FromPtr :: "string option \<Rightarrow> string" where
  "FromPtr value = (case value of None \<Rightarrow> '''' | Some v \<Rightarrow> Trim v)"

section \<open>Products and prices\<close>

datatype CreditGrantCadence = CreditGrantCadenceUnset | CreditGrantCadenceOnce | CreditGrantCadencePerRenewal | CreditGrantCadenceOther string

record credit_grant_spec =
  cgs_Amount :: int
  cgs_ExpiresDays :: "int option"
  cgs_Cadence :: CreditGrantCadence

record product =
  prod_ID :: uuid
  prod_Slug :: string
  prod_DisplayName :: string
  prod_Description :: string
  prod_EntitlementsSpec :: "(string \<times> int option) list"
  prod_CreditsSpec :: "(string \<times> credit_grant_spec) list"
  prod_TierGroup :: "string option"
  prod_TierRank :: int
  prod_IsActive :: bool
  prod_CreatedAt :: time
  prod_UpdatedAt :: time

type_synonym processor_config = "string \<rightharpoonup> string"

record price =
  price_ID :: uuid
  price_ProductID :: uuid
  price_DisplayName :: string
  price_IsActive :: bool
  price_Amount :: int
  price_Currency :: string
  price_BillingCycleDays :: "int option"
  price_Processors :: "(string \<rightharpoonup> processor_config) option"
  price_CreatedAt :: time
  price_UpdatedAt :: time

definition ProcessorMobius :: string where "ProcessorMobius = ''mobius''"
definition ProcessorCCBill :: string where "ProcessorCCBill = ''ccbill''"
definition ProcessorSolana :: string where "ProcessorSolana = ''solana''"
definition ProcessorStripe :: string where "ProcessorStripe = ''stripe''"

text \<open>A read of a string map: the empty string when the key is missing.\<close>

definition map_read :: "processor_config \<Rightarrow> string \<Rightarrow> string" where
  "map_read m k = (case m k of None \<Rightarrow> '''' | Some v \<Rightarrow> v)"

definition GetProcessorConfig :: "price \<Rightarrow> string \<Rightarrow> processor_config option" where
  "GetProcessorConfig p processor = (case price_Processors p of None \<Rightarrow> None | Some m \<Rightarrow> m processor)"

definition HasProcessor :: "price \<Rightarrow> string \<Rightarrow> bool" where
  "HasProcessor p processor = (GetProcessorConfig p processor \<noteq> None)"

definition GetNMIConfig :: "price \<Rightarrow> string \<times> string \<times> bool" where
  "GetNMIConfig p =
     (case GetProcessorConfig p ProcessorMobius of
        None \<Rightarrow> ('''', '''', False)
      | Some config \<Rightarrow>
          (let planID = map_read config ''plan_id'';
               provider = FirstNonEmpty [Lower (map_read config ''provider''), ProcessorMobius]
           in (planID, provider, planID \<noteq> '''')))"

definition GetNMIConfigForProcessor :: "price \<Rightarrow> string \<Rightarrow> string \<times> bool" where
  "GetNMIConfigForProcessor p processorName =
     (case GetProcessorConfig p processorName of
        None \<Rightarrow> ('''', False)
      | Some config \<Rightarrow> (let planID = map_read config ''plan_id'' in (planID, planID \<noteq> '''')))"

definition GetCCBillFlexForm :: "price \<Rightarrow> string \<times> string \<times> bool" where
  "GetCCBillFlexForm p =
     (case GetProcessorConfig p ProcessorCCBill of
        None \<Rightarrow> ('''', '''', False)
      | Some config \<Rightarrow>
          (let formName = TrimSpace (map_read config ''form_name'');
               flexID0 = TrimSpace (map_read config ''flex_id'');
               flexID = (if flexID0 = '''' then TrimSpace (map_read config ''price_id'') else flexID0)
           in if formName = '''' \<or> flexID = '''' then ('''', '''', False) else (formName, flexID, True)))"

definition GetSolanaConfig :: "price \<Rightarrow> bool" where
  "GetSolanaConfig p = HasProcessor p ProcessorSolana"

definition GetStripeConfig :: "price \<Rightarrow> string \<times> bool" where
  "GetStripeConfig p =
     (case GetProcessorConfig p ProcessorStripe of
        None \<Rightarrow> ('''', False)
      | Some config \<Rightarrow> (let priceID = TrimSpace (map_read config ''price_id'') in (priceID, priceID \<noteq> '''')))"

definition SetProcessorConfig :: "string \<Rightarrow> processor_config \<Rightarrow> price \<Rightarrow> price" where
  "SetProcessorConfig processor config p =
     (let m = (case price_Processors p of None \<Rightarrow> Map.empty | Some m \<Rightarrow> m)
      in p\<lparr>price_Processors := Some (m(processor \<mapsto> config))\<rparr>)"

definition SetNMIConfig :: "string \<Rightarrow> string \<Rightarrow> price \<Rightarrow> price" where
  "SetNMIConfig planID provider p =
     (let provider = FirstNonEmpty [Lower provider, ProcessorMobius]
      in SetProcessorConfig ProcessorMobius [''plan_id'' \<mapsto> planID, ''provider'' \<mapsto> provider] p)"

definition SetNMIConfigForProcessor :: "string \<Rightarrow> string \<Rightarrow> price \<Rightarrow> price" where
  "SetNMIConfigForProcessor processorName planID p = SetProcessorConfig processorName [''plan_id'' \<mapsto> planID] p"

definition SetCCBillConfig :: "string \<Rightarrow> string \<Rightarrow> price \<Rightarrow> price" where
  "SetCCBillConfig formName flexID p =
     SetProcessorConfig ProcessorCCBill [''form_name'' \<mapsto> formName, ''flex_id'' \<mapsto> flexID] p"

definition SetSolanaConfig :: "price \<Rightarrow> price" where
  "SetSolanaConfig p = SetProcessorConfig ProcessorSolana [''enabled'' \<mapsto> ''true''] p"

definition SetStripeConfig :: "string \<Rightarrow> price \<Rightarrow> price" where
  "SetStripeConfig priceID p = SetProcessorConfig ProcessorStripe [''price_id'' \<mapsto> priceID] p"

section \<open>NMI-backed processors\<close>

text \<open>The set \<^verbatim>\<open>NMIBackedProcessors\<close>, rebuilt from the configured NMI processor names.\<close>

definition InitNMIBackedProcessors :: "string list \<Rightarrow> string set" where
  "InitNMIBackedProcessors names =
     (let keys = filter (\<lambda>k. k \<noteq> '''') (map Lower names)
      in if keys = [] then {ProcessorMobius} else set keys)"

definition IsNMIBacked :: "string set \<Rightarrow> string \<Rightarrow> bool" where
  "IsNMIBacked backed processor = (Lower processor \<in> backed)"

definition SameProcessor :: "string \<Rightarrow> string \<Rightarrow> bool" where
  "SameProcessor a b = (let left = Lower a; right = Lower b in left \<noteq> '''' \<and> left = right)"

section \<open>Round trips\<close>

lemma is_space_lower [simp]: "is_space (lower_char c) = is_space c"
proof (cases "65 \<le> (of_char c :: nat) \<and> (of_char c :: nat) \<le> 90")
  case True
  then have "(of_char (lower_char c) :: nat) = of_char c + 32"
    by (simp add: lower_char_def Let_def)
  with True show ?thesis by (simp add: is_space_def Let_def)
next
  case False
  then have "lower_char c = c" by (auto simp: lower_char_def Let_def)
  then show ?thesis by simp
qed

lemma dropWhile_space_lower: "dropWhile is_space (map lower_char s) = map lower_char (dropWhile is_space s)"
  by (induction s) auto

lemma TrimSpace_ToLower: "TrimSpace (ToLower s) = ToLower (TrimSpace s)"
  by (simp add: TrimSpace_def ToLower_def dropWhile_space_lower rev_map)

lemma Lower_idem [simp]: "Lower (Lower s) = Lower s"
  by (simp add: Lower_def Trim_def TrimSpace_ToLower)

lemma Trim_Lower [simp]: "Trim (Lower s) = Lower s"
  by (simp add: Lower_def Trim_def TrimSpace_ToLower)

lemma Lower_mobius [simp]: "Lower ProcessorMobius = ProcessorMobius" "Trim ProcessorMobius = ProcessorMobius"
  by code_simp+

lemma ProcessorMobius_nonempty [simp]: "ProcessorMobius \<noteq> []"
  by (simp add: ProcessorMobius_def)

lemma Get_Set_ProcessorConfig: "GetProcessorConfig (SetProcessorConfig proc c p) proc' =
    (if proc' = proc then Some c else GetProcessorConfig p proc')"
  by (auto simp: GetProcessorConfig_def SetProcessorConfig_def Let_def split: option.splits)

text \<open>
  The NMI configuration of a price reads back what was written: the plan, and the provider in lower case without
  surrounding space, or \<open>mobius\<close> when none was given; the configurations of the other processors stay as they were.
\<close>

theorem SetNMIConfig_roundtrip:
  "GetNMIConfig (SetNMIConfig planID provider p) =
     (planID, if Lower provider = [] then ProcessorMobius else Lower provider, planID \<noteq> []) \<and>
   (proc = ProcessorMobius \<or> GetProcessorConfig (SetNMIConfig planID provider p) proc = GetProcessorConfig p proc)"
  by (simp add: GetNMIConfig_def SetNMIConfig_def Get_Set_ProcessorConfig Let_def map_read_def)

text \<open>
  The CCBill form of a price reads back trimmed, and is reported as configured exactly when form name and
  flex id are not blank.
\<close>

theorem SetCCBillConfig_roundtrip:
  "GetCCBillFlexForm (SetCCBillConfig formName flexID p) =
     (if TrimSpace formName = [] \<or> TrimSpace flexID = [] then ([], [], False)
      else (TrimSpace formName, TrimSpace flexID, True))"
  by (simp add: GetCCBillFlexForm_def SetCCBillConfig_def Get_Set_ProcessorConfig Let_def map_read_def)

text \<open>
  Processor names are compared without regard to case and surrounding space: two names of the same
  processor are NMI-backed or not together, and a configured name always is, whatever its spelling.
\<close>

theorem IsNMIBacked_normalised:
  "(SameProcessor a b \<longrightarrow> IsNMIBacked backed a = IsNMIBacked backed b) \<and>
   (SameProcessor a b \<and> a \<in> set names \<longrightarrow> IsNMIBacked (InitNMIBackedProcessors names) b)"
proof -
  have "Lower b \<in> set (filter (\<lambda>k. k \<noteq> []) (map Lower names))" if "SameProcessor a b" "a \<in> set names"
    using that imageI [OF that(2), of Lower] by (auto simp: SameProcessor_def Let_def simp del: imageI)
  then have "IsNMIBacked (InitNMIBackedProcessors names) b" if "SameProcessor a b" "a \<in> set names"
    using that unfolding IsNMIBacked_def InitNMIBackedProcessors_def Let_def by (metis empty_iff list.set(1))
  then show ?thesis by (auto simp: SameProcessor_def IsNMIBacked_def Let_def)
qed

theorem IsNMIBacked_normalised_witness:
  "IsNMIBacked (InitNMIBackedProcessors ['' Acme '']) ''ACME''"
proof -
  have "SameProcessor '' Acme '' ''ACME''" by code_simp
  with IsNMIBacked_normalised [of "'' Acme ''" "''ACME''" "{}" "['' Acme '']"] show ?thesis by simp
qed

end
