(* ===== verification/Subscriptions.thy ===== *)
theory Subscriptions
  imports Sql_Table Catalog
begin

text \<open>
  Subscriptions: \<^verbatim>\<open>internal/db/models/subscription.go\<close>, the repository \<^verbatim>\<open>internal/db/repo/subscription.go\<close>, the
  service methods of \<^verbatim>\<open>internal/modules/subscriptions/subscription.go\<close> and the transition policy of
  \<^verbatim>\<open>lifecycle_types.go\<close>. The constraints are those of the migrations 001, 007, 012 and 025.

  The ORM writes a pointer to the zero time as \<^verbatim>\<open>NULL\<close> for columns tagged \<^verbatim>\<open>nullzero\<close>; that is third-party behaviour,
  taken as the argument \<open>nz\<close> of the two writing methods. A query that joins the price and the payment method
  returns the row; the joined objects are read from their tables where the code uses them.
\<close>

section \<open>Rows and constraints\<close>

datatype SubscriptionStatus = StatusPending | StatusActive | StatusPastDue | StatusCancelled

text \<open>The last type is the text \<^verbatim>\<open>upgrade\<close>, which only the checkout writes.\<close>

datatype CancelType = CancelTypeUser | CancelTypeMerchant | CancelTypeExpired | CancelTypeChargeback | CancelTypeUpgrade

record subscription =
  sub_ID :: uuid
  sub_UserID :: string
  sub_ProductID :: uuid
  sub_PriceID :: uuid
  sub_ScheduledPriceID :: "uuid option"
  sub_Status :: SubscriptionStatus
  sub_StartedAt :: time
  sub_EndedAt :: "time option"
  sub_CurrentPeriodStartsAt :: "time option"
  sub_CurrentPeriodEndsAt :: "time option"
  sub_Processor :: string
  sub_ProcessorSubscriptionID :: string
  sub_UserEmail :: "string option"
  sub_PaymentMethodID :: "uuid option"
  sub_LastRetryAt :: "time option"
  sub_RetryAttempts :: "int option"
  sub_NextRetryAt :: "time option"
  sub_GraceEndsAt :: "time option"
  sub_CancelFeedback :: "string option"
  sub_CancelType :: "CancelType option"
  sub_CancelledAt :: "time option"
  sub_Metadata :: "string option"
  sub_CreatedAt :: time
  sub_UpdatedAt :: time

definition sub_check :: "subscription \<Rightarrow> string option" where
  "sub_check s =
     (if sub_Status s = StatusCancelled \<and> sub_CancelledAt s = None then Some ''chk_cancelled_has_timestamp''
      else if sub_Status s = StatusCancelled \<and> sub_CancelType s = None then Some ''chk_cancelled_has_type''
      else if (case (sub_CurrentPeriodStartsAt s, sub_CurrentPeriodEndsAt s) of
                 (Some a, Some b) \<Rightarrow> \<not> a < b | _ \<Rightarrow> False) then Some ''chk_valid_period''
      else if (case (sub_EndedAt s, sub_CancelledAt s) of (Some e, Some c) \<Rightarrow> \<not> e \<ge> c | _ \<Rightarrow> False)
           then Some ''chk_ended_not_before_cancelled''
      else None)"

definition active_or_pending :: "subscription \<Rightarrow> bool" where
  "active_or_pending s \<longleftrightarrow> sub_Status s = StatusActive \<or> sub_Status s = StatusPending"

definition sub_clash :: "subscription \<Rightarrow> subscription \<Rightarrow> string option" where
  "sub_clash a b =
     (if sub_ID a = sub_ID b then Some ''subscriptions_pkey''
      else if sub_UserID a = sub_UserID b \<and> sub_Status a = StatusActive \<and> sub_Status b = StatusActive
           then Some ''idx_subscriptions_user_active''
      else if sub_UserID a = sub_UserID b \<and> sub_ProductID a = sub_ProductID b \<and>
              active_or_pending a \<and> active_or_pending b
           then Some ''idx_subscriptions_user_product_active_pending''
      else None)"

abbreviation subs_ok :: "subscription list \<Rightarrow> bool" where
  "subs_ok \<equiv> tbl_ok sub_check sub_clash"

section \<open>State changes of the model\<close>

definition updateCurrentPeriods :: "time \<Rightarrow> duration option \<Rightarrow> subscription \<Rightarrow> subscription" where
  "updateCurrentPeriods now billingCycle s =
     (let periodStartsAt = (case sub_CurrentPeriodEndsAt s of
                              Some t \<Rightarrow> if t \<noteq> time_zero then t else now | None \<Rightarrow> now);
          periodEndsAt = (case billingCycle of
                            Some d \<Rightarrow> periodStartsAt + d | None \<Rightarrow> periodStartsAt + 30 * 24 * time_Hour)
      in s\<lparr>sub_CurrentPeriodStartsAt := Some periodStartsAt, sub_CurrentPeriodEndsAt := Some periodEndsAt\<rparr>)"

definition ActivateWithPrice :: "time \<Rightarrow> price \<Rightarrow> subscription \<Rightarrow> subscription result" where
  "ActivateWithPrice now price s =
     (case price_BillingCycleDays price of
        None \<Rightarrow> Inl (ErrMsg ''recurring price billing cycle is required'')
      | Some days \<Rightarrow>
          Inr ((updateCurrentPeriods now (Some (days_duration days)) s)
            \<lparr>sub_EndedAt := None, sub_CancelType := None, sub_CancelledAt := None,
             sub_PriceID := price_ID price, sub_ProductID := price_ProductID price,
             sub_CancelFeedback := None, sub_Status := StatusActive\<rparr>))"

definition ResetCurrentPeriods :: "time \<Rightarrow> subscription \<Rightarrow> subscription result" where
  "ResetCurrentPeriods now s =
     (case sub_CurrentPeriodEndsAt s of
        None \<Rightarrow> Inl (ErrMsg ''invalid subscription period end date'')
      | Some t \<Rightarrow>
          if t = time_zero then Inl (ErrMsg ''invalid subscription period end date'')
          else if t \<le> now
          then Inr (s\<lparr>sub_CurrentPeriodStartsAt := Some time_zero, sub_CurrentPeriodEndsAt := Some time_zero,
                      sub_EndedAt := Some (now - 2 * time_Minute)\<rparr>)
          else Inr s)"

definition Cancel :: "time \<Rightarrow> string \<Rightarrow> CancelType option \<Rightarrow> subscription \<Rightarrow> subscription result" where
  "Cancel now reason cancelType s =
     (case ResetCurrentPeriods now s of
        Inl e \<Rightarrow> Inl e
      | Inr s \<Rightarrow>
          Inr (s\<lparr>sub_CancelledAt := Some now, sub_CancelType := cancelType,
                 sub_CancelFeedback := (if reason \<noteq> '''' then Some reason else sub_CancelFeedback s),
                 sub_Status := StatusCancelled\<rparr>))"

text \<open>\<^verbatim>\<open>Validate\<close> takes its amount as a float that it only compares with zero: here its sign test.\<close>

definition Validate :: "time \<Rightarrow> bool \<Rightarrow> subscription \<Rightarrow> unit result" where
  "Validate now amount_positive s =
     (if (case sub_CurrentPeriodEndsAt s of None \<Rightarrow> False | Some t \<Rightarrow> t < now) \<and> sub_Status s = StatusActive
      then Inl (ErrMsg ''cannot activate expired subscription without proper renewal'')
      else if sub_Status s = StatusActive \<and> \<not> amount_positive
      then Inl (ErrMsg ''cannot activate subscription with invalid amount'')
      else if sub_Status s = StatusPastDue \<and> (case sub_RetryAttempts s of None \<Rightarrow> False | Some n \<Rightarrow> n \<ge> 5)
      then Inl (ErrMsg ''subscription has exceeded maximum dunning attempts, should be cancelled'')
      else Inr ())"

section \<open>Repository\<close>

definition null_zero :: "bool \<Rightarrow> time option \<Rightarrow> time option" where
  "null_zero nz t = (if nz \<and> t = Some time_zero then None else t)"

definition sub_row :: "bool \<Rightarrow> subscription \<Rightarrow> subscription" where
  "sub_row nz s = s\<lparr>sub_EndedAt := null_zero nz (sub_EndedAt s),
     sub_CurrentPeriodStartsAt := null_zero nz (sub_CurrentPeriodStartsAt s),
     sub_CurrentPeriodEndsAt := null_zero nz (sub_CurrentPeriodEndsAt s),
     sub_LastRetryAt := null_zero nz (sub_LastRetryAt s), sub_NextRetryAt := null_zero nz (sub_NextRetryAt s),
     sub_GraceEndsAt := null_zero nz (sub_GraceEndsAt s), sub_CancelledAt := null_zero nz (sub_CancelledAt s)\<rparr>"

definition SubscriptionRepoCreate :: "bool \<Rightarrow> subscription \<Rightarrow> subscription list \<Rightarrow> subscription list result" where
  "SubscriptionRepoCreate nz s rows = tbl_insert sub_check sub_clash (sub_row nz s) rows"

text \<open>All columns but the key, the owner and the creation time are written.\<close>

definition SubscriptionRepoUpdate ::
  "bool \<Rightarrow> time \<Rightarrow> subscription \<Rightarrow> subscription list \<Rightarrow> subscription list result" where
  "SubscriptionRepoUpdate nz now s rows =
     (let P = (\<lambda>r. sub_ID r = sub_ID s);
          f = (\<lambda>r. (sub_row nz s)\<lparr>sub_UserID := sub_UserID r, sub_CreatedAt := sub_CreatedAt r, sub_UpdatedAt := now\<rparr>)
      in case tbl_update sub_check sub_clash P f rows of
           Inl e \<Rightarrow> Inl e
         | Inr rows' \<Rightarrow> if filter P rows = [] then Inl (ErrMsg ''no rows affected'') else Inr rows')"

definition SubscriptionRepoDelete :: "uuid \<Rightarrow> subscription list \<Rightarrow> subscription list result" where
  "SubscriptionRepoDelete i rows =
     (if filter (\<lambda>s. sub_ID s = i) rows = [] then Inl (ErrMsg ''no rows affected'')
      else Inr (filter (\<lambda>s. sub_ID s \<noteq> i) rows))"

definition SubGetByID :: "uuid \<Rightarrow> subscription list \<Rightarrow> subscription result" where
  "SubGetByID i rows = sql_find (\<lambda>s. sub_ID s = i) rows"

definition GetLatestByUserID :: "string \<Rightarrow> subscription list \<Rightarrow> subscription result" where
  "GetLatestByUserID u rows =
     sql_find (\<lambda>_. True) (sort_key (\<lambda>s. - sub_CreatedAt s) (filter (\<lambda>s. sub_UserID s = u) rows))"

definition GetByUserIDAndPriceID :: "string \<Rightarrow> uuid \<Rightarrow> subscription list \<Rightarrow> subscription result" where
  "GetByUserIDAndPriceID u priceID rows = sql_find (\<lambda>s. sub_UserID s = u \<and> sub_PriceID s = priceID) rows"

text \<open>\<^verbatim>\<open>ORDER BY current_period_ends_at DESC NULLS FIRST\<close>.\<close>

definition period_end_order :: "subscription \<Rightarrow> nat \<times> time" where
  "period_end_order s = (case sub_CurrentPeriodEndsAt s of None \<Rightarrow> (0, 0) | Some t \<Rightarrow> (1, - t))"

definition GetActiveOrPendingByUserIDAndProductID ::
  "string \<Rightarrow> uuid \<Rightarrow> subscription list \<Rightarrow> subscription result" where
  "GetActiveOrPendingByUserIDAndProductID u productID rows =
     sql_find (\<lambda>_. True) (sort_key period_end_order
       (filter (\<lambda>s. sub_UserID s = u \<and> sub_ProductID s = productID \<and> active_or_pending s) rows))"

definition GetActiveSubscription :: "time \<Rightarrow> string \<Rightarrow> subscription list \<Rightarrow> subscription result" where
  "GetActiveSubscription now u rows =
     sql_find (\<lambda>_. True) (sort_key (\<lambda>s. - sub_CreatedAt s)
       (filter (\<lambda>s. sub_UserID s = u \<and> sub_Status s = StatusActive \<and>
          (case sub_CurrentPeriodEndsAt s of None \<Rightarrow> True | Some t \<Rightarrow> t > now)) rows))"

definition GetByProcessorSubscriptionID :: "string \<Rightarrow> string \<Rightarrow> subscription list \<Rightarrow> subscription result" where
  "GetByProcessorSubscriptionID processor pid rows =
     sql_find (\<lambda>s. sub_Processor s = processor \<and> sub_ProcessorSubscriptionID s = pid) rows"

definition GetActiveSubscriptionsByUserID :: "string \<Rightarrow> subscription list \<Rightarrow> subscription list" where
  "GetActiveSubscriptionsByUserID u rows =
     sort_key (\<lambda>s. - sub_CreatedAt s) (filter (\<lambda>s. sub_UserID s = u \<and> sub_Status s = StatusActive) rows)"

definition GetSubscriptionsByProcessorAndUserID :: "string \<Rightarrow> string \<Rightarrow> subscription list \<Rightarrow> subscription list" where
  "GetSubscriptionsByProcessorAndUserID u processor rows =
     sort_key (\<lambda>s. - sub_CreatedAt s) (filter (\<lambda>s. sub_UserID s = u \<and> sub_Processor s = processor) rows)"

definition GetActiveSubscriptionsByProcessor :: "string \<Rightarrow> subscription list \<Rightarrow> subscription list" where
  "GetActiveSubscriptionsByProcessor processor rows =
     filter (\<lambda>s. sub_Processor s = processor \<and> sub_Status s = StatusActive) rows"

definition SubGetPaginatedByUserID :: "string \<Rightarrow> int \<Rightarrow> int \<Rightarrow> subscription list \<Rightarrow> subscription list \<times> nat" where
  "SubGetPaginatedByUserID u page pageSize rows =
     (let mine = filter (\<lambda>s. sub_UserID s = u) rows
      in (take (nat pageSize) (drop (nat ((page - 1) * pageSize)) (sort_key (\<lambda>s. - sub_CreatedAt s) mine)), length mine))"

section \<open>Service\<close>

definition SubscriptionServiceCreate :: "bool \<Rightarrow> subscription \<Rightarrow> subscription list \<Rightarrow> subscription list result" where
  "SubscriptionServiceCreate nz s rows =
     (if active_or_pending s \<and> \<not> isl (GetActiveOrPendingByUserIDAndProductID (sub_UserID s) (sub_ProductID s) rows)
      then Inl ErrActiveSubscriptionExists
      else (case SubscriptionRepoCreate nz s rows of
              Inl (ErrConstraint c) \<Rightarrow>
                if c = ''idx_subscriptions_user_product_active_pending'' then Inl ErrActiveSubscriptionExists
                else Inl (ErrConstraint c)
            | Inl e \<Rightarrow> Inl e
            | Inr rows' \<Rightarrow> Inr rows'))"

section \<open>Terminal cancellations\<close>

definition TerminalCancelReason :: "subscription \<Rightarrow> string \<times> bool" where
  "TerminalCancelReason s =
     (if sub_Status s \<noteq> StatusCancelled then ('''', False)
      else if sub_CancelType s = Some CancelTypeChargeback then (''cancel_type=chargeback'', True)
      else
        (let feedback = FromPtr (sub_CancelFeedback s)
         in if feedback \<noteq> '''' \<and> Contains (ToUpper feedback) ''CHARGEBACK''
            then (''legacy_chargeback_feedback'', True)
            else ('''', False)))"

definition assertActiveTransitionAllowed :: "subscription \<Rightarrow> string \<Rightarrow> bool \<Rightarrow> unit result" where
  "assertActiveTransitionAllowed s trigger allowOverride =
     (if \<not> snd (TerminalCancelReason s) then Inr ()
      else if allowOverride then Inr ()
      else Inl (ErrTerminalTransitionBlocked trigger))"

fun IsTerminalTransitionBlocked :: "go_error \<Rightarrow> bool" where
  "IsTerminalTransitionBlocked (ErrWrap m e) = IsTerminalTransitionBlocked e"
| "IsTerminalTransitionBlocked (ErrTerminalTransitionBlocked t) = True"
| "IsTerminalTransitionBlocked e = False"

end
