(* ===== verification/Entitlements.thy ===== *)
theory Entitlements
  imports Sql_Table
begin

text \<open>
  Entitlement windows: \<^verbatim>\<open>internal/db/models/entitlement.go\<close>, the repository
  \<^verbatim>\<open>internal/db/repo/entitlement.go\<close>, \<^verbatim>\<open>entitlement_timeline.go\<close>, \<^verbatim>\<open>entitlement_grace.go\<close> and the service
  \<^verbatim>\<open>internal/modules/entitlements/entitlement_service.go\<close>. A row is a window \<open>[start_at, end_at)\<close> of
  access of a user to a named entitlement; windows are revoked or soft-deleted, never removed. The
  constraints are those of the migrations 001, 007, 014, 021 and 026.

  The advisory lock on a timeline only orders transactions; its two checks are modelled. The ORM adds
  \<^verbatim>\<open>deleted_at IS NULL\<close> to queries of a model with a soft-delete column; the three queries that do not
  state that condition themselves take it as the argument \<open>soft\<close>. Timestamps keep Go's nanoseconds.
\<close>

section \<open>Rows and constraints\<close>

datatype EntitlementSourceType =
  EntitlementSourceSubscription | EntitlementSourceOneOff | EntitlementSourceAdmin | EntitlementSourceGrace

datatype EntitlementRevokeReason =
  EntitlementRevokeAdmin | EntitlementRevokeDowngrade | EntitlementRevokeChargeback | EntitlementRevokeRefund
| EntitlementRevokeFraud | EntitlementRevokeDunning | EntitlementRevokeSuperseded

record entitlement =
  ent_ID :: uuid
  ent_UserID :: string
  ent_Entitlement :: string
  ent_StartAt :: time
  ent_EndAt :: "time option"
  ent_SourceID :: "uuid option"
  ent_SourceType :: EntitlementSourceType
  ent_RevokedAt :: "time option"
  ent_RevokeReason :: "EntitlementRevokeReason option"
  ent_CreatedAt :: time
  ent_UpdatedAt :: time
  ent_DeletedAt :: "time option"

abbreviation ent_key :: "entitlement \<Rightarrow> string \<times> string" where
  "ent_key e \<equiv> (ent_UserID e, ent_Entitlement e)"

definition ent_live :: "entitlement \<Rightarrow> bool" where
  "ent_live e \<longleftrightarrow> ent_RevokedAt e = None \<and> ent_DeletedAt e = None"

text \<open>\<open>end_at IS NULL OR end_at > t\<close>, and the window test of the access queries.\<close>

definition ends_after :: "time \<Rightarrow> entitlement \<Rightarrow> bool" where
  "ends_after t e \<longleftrightarrow> (case ent_EndAt e of None \<Rightarrow> True | Some x \<Rightarrow> t < x)"

definition covers :: "time \<Rightarrow> entitlement \<Rightarrow> bool" where
  "covers t e \<longleftrightarrow> ent_StartAt e \<le> t \<and> ends_after t e"

definition periods_overlap :: "entitlement \<Rightarrow> entitlement \<Rightarrow> bool" where
  "periods_overlap a b \<longleftrightarrow> ends_after (ent_StartAt b) a \<and> ends_after (ent_StartAt a) b"

definition ent_check :: "entitlement \<Rightarrow> string option" where
  "ent_check e =
     (if \<not> ends_after (ent_StartAt e) e then Some ''chk_valid_time_window''
      else if (ent_RevokedAt e = None) \<noteq> (ent_RevokeReason e = None) then Some ''chk_revoke_fields_together''
      else if ent_SourceID e = None then Some ''source_id''
      else None)"

definition ent_clash :: "entitlement \<Rightarrow> entitlement \<Rightarrow> string option" where
  "ent_clash a b =
     (if ent_ID a = ent_ID b then Some ''entitlements_pkey''
      else if ent_key a = ent_key b \<and> ent_RevokedAt a = None \<and> ent_EndAt a = None \<and>
              ent_RevokedAt b = None \<and> ent_EndAt b = None then Some ''uniq_entitlements_active''
      else if ent_key a = ent_key b \<and> ent_live a \<and> ent_live b \<and> periods_overlap a b
           then Some ''entitlements_no_overlap''
      else None)"

abbreviation ent_insert :: "entitlement \<Rightarrow> entitlement list \<Rightarrow> entitlement list result" where
  "ent_insert \<equiv> tbl_insert ent_check ent_clash"

abbreviation ent_update ::
  "(entitlement \<Rightarrow> bool) \<Rightarrow> (entitlement \<Rightarrow> entitlement) \<Rightarrow> entitlement list \<Rightarrow> entitlement list result" where
  "ent_update \<equiv> tbl_update ent_check ent_clash"

abbreviation ents_ok :: "entitlement list \<Rightarrow> bool" where
  "ents_ok \<equiv> tbl_ok ent_check ent_clash"

section \<open>Queries\<close>

definition IsEntitled :: "string \<Rightarrow> string \<Rightarrow> time \<Rightarrow> entitlement list \<Rightarrow> bool" where
  "IsEntitled userID entitlement t rows =
     list_ex (\<lambda>e. ent_key e = (userID, entitlement) \<and> covers t e \<and> ent_live e) rows"

definition HasActiveIndefinite :: "string \<Rightarrow> string \<Rightarrow> time \<Rightarrow> entitlement list \<Rightarrow> bool" where
  "HasActiveIndefinite userID entitlement t rows =
     list_ex (\<lambda>e. ent_key e = (userID, entitlement) \<and> ent_RevokedAt e = None \<and> ent_EndAt e = None \<and>
       ent_StartAt e \<le> t \<and> ent_DeletedAt e = None) rows"

definition GetLatestActive :: "string \<Rightarrow> string \<Rightarrow> entitlement list \<Rightarrow> entitlement result" where
  "GetLatestActive userID entitlement rows =
     sql_find (\<lambda>_. True) (sort_key (\<lambda>e. - ent_StartAt e)
       (filter (\<lambda>e. ent_key e = (userID, entitlement) \<and> ent_live e) rows))"

definition GetLatestFiniteActive :: "string \<Rightarrow> string \<Rightarrow> time \<Rightarrow> entitlement list \<Rightarrow> entitlement result" where
  "GetLatestFiniteActive userID entitlement t rows =
     sql_find (\<lambda>_. True) (sort_key (\<lambda>e. - the (ent_EndAt e))
       (filter (\<lambda>e. ent_key e = (userID, entitlement) \<and> ent_live e \<and> ent_EndAt e \<noteq> None \<and>
          ent_StartAt e \<le> t \<and> the (ent_EndAt e) > t) rows))"

definition ListActiveEntitlements :: "string \<Rightarrow> time \<Rightarrow> entitlement list \<Rightarrow> string list" where
  "ListActiveEntitlements userID t rows =
     remdups (map ent_Entitlement (filter (\<lambda>e. ent_UserID e = userID \<and> covers t e \<and> ent_live e) rows))"

definition ListActiveRecords :: "string \<Rightarrow> time \<Rightarrow> entitlement list \<Rightarrow> entitlement list" where
  "ListActiveRecords userID t rows =
     sort_key ent_StartAt (filter (\<lambda>e. ent_UserID e = userID \<and> ent_live e \<and> covers t e) rows)"

definition ListDistinctEntitlementNamesBySource ::
  "EntitlementSourceType \<Rightarrow> uuid \<Rightarrow> entitlement list \<Rightarrow> string list" where
  "ListDistinctEntitlementNamesBySource sourceType sourceID rows =
     remdups (map ent_Entitlement
       (filter (\<lambda>e. ent_SourceType e = sourceType \<and> ent_SourceID e = Some sourceID \<and> ent_live e) rows))"

definition ExistsBySource :: "EntitlementSourceType \<Rightarrow> uuid \<Rightarrow> string \<Rightarrow> entitlement list \<Rightarrow> bool" where
  "ExistsBySource sourceType sourceID entitlement rows =
     list_ex (\<lambda>e. ent_SourceType e = sourceType \<and> ent_SourceID e = Some sourceID \<and>
       ent_Entitlement e = entitlement \<and> ent_live e) rows"

definition ListByUser :: "bool \<Rightarrow> string \<Rightarrow> entitlement list \<Rightarrow> entitlement list" where
  "ListByUser soft userID rows =
     sort_key (\<lambda>e. - ent_StartAt e)
       (filter (\<lambda>e. ent_UserID e = userID \<and> (soft \<longrightarrow> ent_DeletedAt e = None)) rows)"

definition getEntitlementByIDTx :: "bool \<Rightarrow> uuid \<Rightarrow> entitlement list \<Rightarrow> entitlement result" where
  "getEntitlementByIDTx soft i rows =
     sql_find (\<lambda>e. ent_ID e = i \<and> (soft \<longrightarrow> ent_DeletedAt e = None)) rows"

section \<open>Updates by source\<close>

definition Insert :: "entitlement \<Rightarrow> entitlement list \<Rightarrow> entitlement list result" where
  "Insert e rows =
     (case ent_EndAt e of
        Some x \<Rightarrow> if \<not> x > ent_StartAt e then Inl (ErrMsg ''invalid entitlement'') else ent_insert e rows
      | None \<Rightarrow> ent_insert e rows)"

definition by_source :: "EntitlementSourceType \<Rightarrow> uuid \<Rightarrow> entitlement \<Rightarrow> bool" where
  "by_source st sid e \<longleftrightarrow> ent_SourceType e = st \<and> ent_SourceID e = Some sid"

definition EndActiveBySubscription ::
  "uuid \<Rightarrow> time \<Rightarrow> time \<Rightarrow> EntitlementRevokeReason option \<Rightarrow> entitlement list \<Rightarrow> entitlement list result" where
  "EndActiveBySubscription subscriptionID endAt now reason rows =
     (let P = (\<lambda>e. by_source EntitlementSourceSubscription subscriptionID e \<and> ent_live e \<and> ends_after endAt e)
      in if filter (\<lambda>e. P e \<and> ent_StartAt e \<ge> endAt) rows \<noteq> [] then Inl (ErrMsg ''cannot set end_at'')
         else ent_update P
           (\<lambda>e. case reason of
              None \<Rightarrow> e\<lparr>ent_EndAt := Some endAt, ent_UpdatedAt := now\<rparr>
            | Some _ \<Rightarrow> e\<lparr>ent_EndAt := Some endAt, ent_UpdatedAt := now,
                         ent_RevokedAt := Some now, ent_RevokeReason := reason\<rparr>) rows)"

definition ResumeBySubscription :: "uuid \<Rightarrow> time \<Rightarrow> entitlement list \<Rightarrow> entitlement list result" where
  "ResumeBySubscription subscriptionID now =
     ent_update (\<lambda>e. by_source EntitlementSourceSubscription subscriptionID e \<and> ent_live e \<and>
         (case ent_EndAt e of None \<Rightarrow> False | Some x \<Rightarrow> x > now))
       (\<lambda>e. e\<lparr>ent_EndAt := None, ent_UpdatedAt := now\<rparr>)"

definition EndActiveByPayment ::
  "uuid \<Rightarrow> time \<Rightarrow> time \<Rightarrow> EntitlementRevokeReason option \<Rightarrow> entitlement list \<Rightarrow> entitlement list result" where
  "EndActiveByPayment paymentID endAt now reason rows =
     (let P = (\<lambda>e. by_source EntitlementSourceOneOff paymentID e \<and> ent_EndAt e = None \<and> ent_DeletedAt e = None)
      in if filter (\<lambda>e. P e \<and> ent_StartAt e \<ge> endAt) rows \<noteq> [] then Inl (ErrMsg ''cannot set end_at'')
         else ent_update P
           (\<lambda>e. e\<lparr>ent_EndAt := Some endAt, ent_RevokedAt := Some now, ent_RevokeReason := reason,
                  ent_UpdatedAt := now\<rparr>) rows)"

definition RevokeByID :: "uuid \<Rightarrow> time \<Rightarrow> EntitlementRevokeReason \<Rightarrow> entitlement list \<Rightarrow> entitlement list result" where
  "RevokeByID i now reason rows =
     (let P = (\<lambda>e. ent_ID e = i \<and> ent_live e)
      in case ent_update P (\<lambda>e. e\<lparr>ent_RevokedAt := Some now, ent_RevokeReason := Some reason,
                               ent_UpdatedAt := now\<rparr>) rows of
           Inl e \<Rightarrow> Inl e
         | Inr rows' \<Rightarrow>
             if filter P rows = [] then Inl (ErrMsg ''entitlement not found or already revoked'') else Inr rows')"

definition RevokeBySubscriptionAndName ::
  "uuid \<Rightarrow> string \<Rightarrow> time \<Rightarrow> EntitlementRevokeReason \<Rightarrow> entitlement list \<Rightarrow> entitlement list result" where
  "RevokeBySubscriptionAndName subscriptionID entitlement revokeAt reason =
     ent_update (\<lambda>e. by_source EntitlementSourceSubscription subscriptionID e \<and>
         ent_Entitlement e = entitlement \<and> ent_live e)
       (\<lambda>e. e\<lparr>ent_RevokedAt := Some revokeAt, ent_RevokeReason := Some reason,
              ent_EndAt := Some revokeAt, ent_UpdatedAt := revokeAt\<rparr>)"

section \<open>Timeline\<close>

definition LockEntitlementTimeline :: "string \<Rightarrow> string \<Rightarrow> unit result" where
  "LockEntitlementTimeline userID entitlement =
     (if userID = '''' \<or> entitlement = ''''
      then Inl (ErrMsg ''userID and entitlement are required for entitlement timeline lock'')
      else Inr ())"

text \<open>\<^verbatim>\<open>Time.Sub\<close> saturates at the limits of a duration.\<close>

definition time_Sub :: "time \<Rightarrow> time \<Rightarrow> duration" where
  "time_Sub a b = max (- (2 ^ 63)) (min (2 ^ 63 - 1) (a - b))"

text \<open>\<^verbatim>\<open>int64(delta.Seconds())\<close>: whole seconds, towards zero.\<close>

definition whole_seconds :: "duration \<Rightarrow> int" where
  "whole_seconds d = sgn d * (\<bar>d\<bar> div time_Second)"

definition ShiftEntitlementTimeline ::
  "string \<Rightarrow> string \<Rightarrow> time \<Rightarrow> duration \<Rightarrow> time \<Rightarrow> uuid list \<Rightarrow> entitlement list \<Rightarrow> entitlement list result" where
  "ShiftEntitlementTimeline userID entitlement from delta now excludeIDs rows =
     (if delta = 0 then Inr rows
      else
        (let deltaSeconds = whole_seconds delta
         in if deltaSeconds = 0 then Inr rows
            else ent_update
              (\<lambda>e. ent_key e = (userID, entitlement) \<and> ent_live e \<and> ent_StartAt e \<ge> from \<and>
                   ent_ID e \<notin> set excludeIDs)
              (\<lambda>e. e\<lparr>ent_StartAt := ent_StartAt e + deltaSeconds * time_Second,
                     ent_EndAt := map_option (\<lambda>x. x + deltaSeconds * time_Second) (ent_EndAt e),
                     ent_UpdatedAt := now\<rparr>) rows))"

definition SetEntitlementEndAtTx ::
  "bool \<Rightarrow> uuid \<Rightarrow> time option \<Rightarrow> time \<Rightarrow> entitlement list \<Rightarrow> entitlement list result" where
  "SetEntitlementEndAtTx soft i endAt now rows =
     (case getEntitlementByIDTx soft i rows of
        Inl e \<Rightarrow> Inl e
      | Inr ent \<Rightarrow>
          if \<not> ent_live ent then Inr rows
          else if (case endAt of None \<Rightarrow> False | Some x \<Rightarrow> \<not> x > ent_StartAt ent)
               then Inl (ErrMsg ''invalid end_at: must be after start_at'')
          else
            (case LockEntitlementTimeline (ent_UserID ent) (ent_Entitlement ent) of
               Inl e \<Rightarrow> Inl e
             | Inr _ \<Rightarrow>
                 (case ent_update (\<lambda>e. ent_ID e = i \<and> ent_live e)
                         (\<lambda>e. e\<lparr>ent_EndAt := endAt, ent_UpdatedAt := now\<rparr>) rows of
                    Inl e \<Rightarrow> Inl e
                  | Inr rows1 \<Rightarrow>
                      (case (ent_EndAt ent, endAt) of
                         (Some oldEnd, Some newEnd) \<Rightarrow>
                           if newEnd \<noteq> oldEnd
                           then ShiftEntitlementTimeline (ent_UserID ent) (ent_Entitlement ent) oldEnd
                                  (time_Sub newEnd oldEnd) now [i] rows1
                           else Inr rows1
                       | (Some oldEnd, None) \<Rightarrow>
                           ent_update (\<lambda>e. ent_key e = ent_key ent \<and> ent_live e \<and>
                               ent_StartAt e \<ge> oldEnd \<and> ent_ID e \<noteq> i)
                             (\<lambda>e. e\<lparr>ent_DeletedAt := Some now, ent_UpdatedAt := now\<rparr>) rows1
                       | (None, _) \<Rightarrow> Inr rows1))))"

definition RevokeEntitlementNowTx ::
  "bool \<Rightarrow> uuid \<Rightarrow> time \<Rightarrow> EntitlementRevokeReason option \<Rightarrow> time \<Rightarrow> entitlement list \<Rightarrow> entitlement list result" where
  "RevokeEntitlementNowTx soft i revokeAt reason now rows =
     (case getEntitlementByIDTx soft i rows of
        Inl e \<Rightarrow> Inl e
      | Inr ent \<Rightarrow>
          if \<not> ent_live ent then Inr rows
          else if \<not> revokeAt > ent_StartAt ent
               then Inl (ErrMsg ''cannot revoke entitlement: revoke_at must be after start_at'')
          else
            (case LockEntitlementTimeline (ent_UserID ent) (ent_Entitlement ent) of
               Inl e \<Rightarrow> Inl e
             | Inr _ \<Rightarrow>
                 (case ent_update (\<lambda>e. ent_ID e = i \<and> ent_live e)
                         (\<lambda>e. e\<lparr>ent_EndAt := Some revokeAt, ent_RevokedAt := Some now,
                                ent_RevokeReason := reason, ent_UpdatedAt := now\<rparr>) rows of
                    Inl e \<Rightarrow> Inl e
                  | Inr rows1 \<Rightarrow>
                      (case ent_EndAt ent of
                         None \<Rightarrow> Inr rows1
                       | Some oldEnd \<Rightarrow>
                           if revokeAt \<noteq> oldEnd
                           then ShiftEntitlementTimeline (ent_UserID ent) (ent_Entitlement ent) oldEnd
                                  (time_Sub revokeAt oldEnd) now [i] rows1
                           else Inr rows1))))"

text \<open>The loop of \<^verbatim>\<open>ExtendActiveBySubscription\<close> over the selected windows.\<close>

fun extend_windows :: "time \<Rightarrow> time \<Rightarrow> entitlement list \<Rightarrow> entitlement list \<Rightarrow> entitlement list result" where
  "extend_windows endAt now [] rows = Inr rows"
| "extend_windows endAt now (ent # ents) rows =
     (case ent_EndAt ent of
        None \<Rightarrow> extend_windows endAt now ents rows
      | Some oldEnd \<Rightarrow>
          if oldEnd = time_zero then extend_windows endAt now ents rows
          else if \<not> endAt > oldEnd then extend_windows endAt now ents rows
          else if \<not> endAt > ent_StartAt ent then Inl (ErrMsg ''cannot extend end_at'')
          else
            (case LockEntitlementTimeline (ent_UserID ent) (ent_Entitlement ent) of
               Inl e \<Rightarrow> Inl e
             | Inr _ \<Rightarrow>
                 (case ent_update (\<lambda>e. ent_ID e = ent_ID ent \<and> ent_live e \<and> ent_EndAt e = Some oldEnd)
                         (\<lambda>e. e\<lparr>ent_EndAt := Some endAt, ent_UpdatedAt := now\<rparr>) rows of
                    Inl e \<Rightarrow> Inl e
                  | Inr rows1 \<Rightarrow>
                      (case ShiftEntitlementTimeline (ent_UserID ent) (ent_Entitlement ent) oldEnd
                              (time_Sub endAt oldEnd) now [ent_ID ent] rows1 of
                         Inl e \<Rightarrow> Inl e
                       | Inr rows2 \<Rightarrow> extend_windows endAt now ents rows2))))"

definition ExtendActiveBySubscription :: "uuid \<Rightarrow> time \<Rightarrow> time \<Rightarrow> entitlement list \<Rightarrow> entitlement list result" where
  "ExtendActiveBySubscription subscriptionID endAt now rows =
     extend_windows endAt now
       (filter (\<lambda>e. by_source EntitlementSourceSubscription subscriptionID e \<and> ent_live e \<and>
          (case ent_EndAt e of None \<Rightarrow> False | Some x \<Rightarrow> x < endAt)) rows) rows"

section \<open>Grace windows\<close>

definition SoftDeleteGraceBySubscription :: "uuid \<Rightarrow> time \<Rightarrow> entitlement list \<Rightarrow> entitlement list result" where
  "SoftDeleteGraceBySubscription subscriptionID now =
     ent_update (\<lambda>e. by_source EntitlementSourceGrace subscriptionID e \<and> ent_live e)
       (\<lambda>e. e\<lparr>ent_DeletedAt := Some now, ent_UpdatedAt := now\<rparr>)"

fun end_windows :: "bool \<Rightarrow> time \<Rightarrow> entitlement list \<Rightarrow> entitlement list \<Rightarrow> entitlement list result" where
  "end_windows soft now [] rows = Inr rows"
| "end_windows soft now (ent # ents) rows =
     (case SetEntitlementEndAtTx soft (ent_ID ent) (Some now) now rows of
        Inl e \<Rightarrow> Inl (ErrWrap ''end grace entitlement'' e)
      | Inr rows' \<Rightarrow> end_windows soft now ents rows')"

definition EndGraceNowBySubscription :: "bool \<Rightarrow> uuid \<Rightarrow> time \<Rightarrow> entitlement list \<Rightarrow> entitlement list result" where
  "EndGraceNowBySubscription soft subscriptionID now rows =
     (case end_windows soft now
             (filter (\<lambda>e. by_source EntitlementSourceGrace subscriptionID e \<and> ent_live e \<and>
                ent_StartAt e < now \<and> (case ent_EndAt e of None \<Rightarrow> False | Some x \<Rightarrow> x > now)) rows) rows of
        Inl e \<Rightarrow> Inl e
      | Inr rows' \<Rightarrow>
          ent_update (\<lambda>e. by_source EntitlementSourceGrace subscriptionID e \<and> ent_live e \<and> ent_StartAt e \<ge> now)
            (\<lambda>e. e\<lparr>ent_DeletedAt := Some now, ent_UpdatedAt := now\<rparr>) rows')"

section \<open>Service\<close>

record PushNewEntitlementParams =
  push_UserID :: string
  push_Entitlement :: string
  push_NotBefore :: "time option"
  push_Indefinite :: bool
  push_Duration :: "duration option"
  push_EndAt :: "time option"
  push_SourceType :: EntitlementSourceType
  push_SourceID :: uuid

definition push_validate :: "PushNewEntitlementParams \<Rightarrow> unit result" where
  "push_validate p =
     (let setCount = (if push_Indefinite p then 1 else 0) + (if push_Duration p \<noteq> None then 1 else 0) +
            (if push_EndAt p \<noteq> None then 1 else 0 :: nat)
      in if push_UserID p = '''' \<or> push_Entitlement p = '''' then Inl (ErrMsg ''userID and entitlement are required'')
         else if push_SourceID p = uuid_Nil then Inl (ErrMsg ''sourceID is required'')
         else if setCount \<noteq> 1
              then Inl (ErrMsg ''exactly one of Indefinite, Duration, or EndAt must be set'')
         else if (case push_Duration p of None \<Rightarrow> False | Some d \<Rightarrow> d \<le> 0) then Inl (ErrMsg ''duration must be > 0'')
         else if push_EndAt p = Some time_zero then Inl (ErrMsg ''endAt must be non-zero'')
         else Inr ())"

definition tail_end :: "string \<times> string \<Rightarrow> entitlement list \<Rightarrow> time option" where
  "tail_end k rows =
     (let ends = map (\<lambda>e. the (ent_EndAt e))
            (filter (\<lambda>e. ent_key e = k \<and> ent_live e \<and> ent_EndAt e \<noteq> None) rows)
      in if ends = [] then None else Some (Max (set ends)))"

definition push_start :: "time \<Rightarrow> PushNewEntitlementParams \<Rightarrow> entitlement list \<Rightarrow> time" where
  "push_start now p rows =
     (let start0 = now;
          start1 = (case push_NotBefore p of None \<Rightarrow> start0 | Some nb \<Rightarrow> if nb > start0 then nb else start0)
      in case tail_end (push_UserID p, push_Entitlement p) rows of
           None \<Rightarrow> start1
         | Some t \<Rightarrow> if t > start1 then t else start1)"

definition PushNewEntitlement ::
  "go_env \<Rightarrow> PushNewEntitlementParams \<Rightarrow> entitlement list \<Rightarrow> (entitlement option \<times> entitlement list) result" where
  "PushNewEntitlement env p rows =
     (let now = env_now env; k = (push_UserID p, push_Entitlement p) in
      case push_validate p of
        Inl e \<Rightarrow> Inl e
      | Inr _ \<Rightarrow>
          (case LockEntitlementTimeline (push_UserID p) (push_Entitlement p) of
             Inl e \<Rightarrow> Inl e
           | Inr _ \<Rightarrow>
               if list_ex (\<lambda>e. ent_key e = k \<and> ent_live e \<and> ent_EndAt e = None) rows then Inr (None, rows)
               else
                 (let start = push_start now p rows;
                      endAt = (if push_Indefinite p then None
                               else case push_Duration p of
                                      Some d \<Rightarrow> Some (start + d)
                                    | None \<Rightarrow> push_EndAt p);
                      created = \<lparr>ent_ID = env_uuid env 0, ent_UserID = push_UserID p,
                                 ent_Entitlement = push_Entitlement p, ent_StartAt = start, ent_EndAt = endAt,
                                 ent_SourceID = Some (push_SourceID p), ent_SourceType = push_SourceType p,
                                 ent_RevokedAt = None, ent_RevokeReason = None,
                                 ent_CreatedAt = now, ent_UpdatedAt = now, ent_DeletedAt = None\<rparr>
                  in if \<not> push_Indefinite p \<and> push_Duration p = None \<and>
                        (case push_EndAt p of None \<Rightarrow> False | Some x \<Rightarrow> \<not> x > start)
                     then Inr (None, rows)
                     else (case ent_insert created rows of
                             Inl e \<Rightarrow> Inl e
                           | Inr rows' \<Rightarrow> Inr (Some created, rows')))))"

record RevokeExistingEntitlementParams =
  rev_EntitlementID :: "uuid option"
  rev_UserID :: string
  rev_Entitlement :: string
  rev_SourceType :: "EntitlementSourceType option"
  rev_SourceID :: "uuid option"
  rev_Reason :: EntitlementRevokeReason

definition rev_source :: "RevokeExistingEntitlementParams \<Rightarrow> entitlement \<Rightarrow> bool" where
  "rev_source p e \<longleftrightarrow>
     (case rev_SourceType p of None \<Rightarrow> True | Some st \<Rightarrow> ent_SourceType e = st) \<and>
     (case rev_SourceID p of None \<Rightarrow> True | Some i \<Rightarrow> i \<noteq> uuid_Nil \<longrightarrow> ent_SourceID e = Some i)"

definition RevokeExistingEntitlement ::
  "bool \<Rightarrow> time \<Rightarrow> RevokeExistingEntitlementParams \<Rightarrow> entitlement list \<Rightarrow> entitlement list result" where
  "RevokeExistingEntitlement soft now p rows =
     (if rev_EntitlementID p = None \<and> (rev_UserID p = '''' \<or> rev_Entitlement p = '''')
      then Inl (ErrMsg ''entitlementID or (userID, entitlement) is required'')
      else if rev_EntitlementID p \<noteq> None \<and> (rev_UserID p \<noteq> '''' \<or> rev_Entitlement p \<noteq> '''')
      then Inl (ErrMsg ''provide either entitlementID or (userID, entitlement), not both'')
      else
        (case (case rev_EntitlementID p of
                 None \<Rightarrow> Inr (rev_UserID p, rev_Entitlement p)
               | Some i \<Rightarrow> map_sum id ent_key (getEntitlementByIDTx soft i rows)) of
           Inl e \<Rightarrow> Inl e
         | Inr k \<Rightarrow>
             (case LockEntitlementTimeline (fst k) (snd k) of
                Inl e \<Rightarrow> Inl e
              | Inr _ \<Rightarrow>
                  (case ent_update (\<lambda>e. ent_key e = k \<and> ent_live e \<and> covers now e \<and> rev_source p e)
                          (\<lambda>e. e\<lparr>ent_RevokedAt := Some now, ent_RevokeReason := Some (rev_Reason p),
                                 ent_UpdatedAt := now\<rparr>) rows of
                     Inl e \<Rightarrow> Inl e
                   | Inr rows1 \<Rightarrow>
                       ent_update (\<lambda>e. ent_key e = k \<and> ent_live e \<and> ent_StartAt e > now \<and> rev_source p e)
                         (\<lambda>e. e\<lparr>ent_DeletedAt := Some now, ent_UpdatedAt := now\<rparr>) rows1))))"

end
