(* ===== verification/Payments.thy ===== *)
theory Payments
  imports Sql_Table
begin

text \<open>
  Payments: \<^verbatim>\<open>internal/db/models/payment.go\<close>, the repository \<^verbatim>\<open>internal/db/repo/payment.go\<close> and the
  service \<^verbatim>\<open>internal/modules/payments/payment.go\<close>. The table is an event log: charges, and refunds as negative
  entries that point to their charge. The schema gives it its primary key, the unique pair of
  processor and transaction id, and the foreign key of refunds. JSON columns are opaque text; the discount
  columns, which no modelled code writes, are left out.
\<close>

section \<open>Rows and constraints\<close>

record payment =
  pay_ID :: uuid
  pay_UserID :: string
  pay_PriceID :: uuid
  pay_SubscriptionID :: "uuid option"
  pay_RefundedPaymentID :: "uuid option"
  pay_Processor :: string
  pay_TransactionID :: string
  pay_Amount :: int
  pay_ListAmount :: int
  pay_Currency :: string
  pay_Status :: string
  pay_Metadata :: "string option"
  pay_PurchasedAt :: time
  pay_CreatedAt :: time

definition pay_clash :: "payment \<Rightarrow> payment \<Rightarrow> string option" where
  "pay_clash a b =
     (if pay_ID a = pay_ID b then Some ''payments_pkey''
      else if pay_Processor a = pay_Processor b \<and> pay_TransactionID a = pay_TransactionID b
           then Some ''payments_processor_transaction_id_key''
      else None)"

text \<open>
  \<^verbatim>\<open>chk_payment_not_future\<close> is checked by an insertion against the database clock, here the one reading \<open>now\<close>;
  an empty status is written as the column default.
\<close>

definition pay_insert :: "time \<Rightarrow> payment \<Rightarrow> payment list \<Rightarrow> payment list result" where
  "pay_insert now p rows =
     (let p = (if pay_Status p = '''' then p\<lparr>pay_Status := ''completed''\<rparr> else p) in
      if pay_PurchasedAt p > now + 5 * time_Minute then Inl (ErrConstraint ''chk_payment_not_future'')
      else if (case pay_RefundedPaymentID p of None \<Rightarrow> False | Some i \<Rightarrow> i \<notin> set (map pay_ID rows))
      then Inl (ErrConstraint ''fk_payments_refunded_payment'')
      else tbl_insert (\<lambda>_. None) pay_clash p rows)"

abbreviation pays_ok :: "payment list \<Rightarrow> bool" where
  "pays_ok \<equiv> tbl_ok (\<lambda>_. None) pay_clash"

section \<open>Repository\<close>

definition PaymentCreate :: "time \<Rightarrow> payment \<Rightarrow> payment list \<Rightarrow> payment list result" where
  "PaymentCreate now p rows = pay_insert now p rows"

text \<open>\<^verbatim>\<open>INSERT ... ON CONFLICT (processor, transaction_id) DO NOTHING\<close>.\<close>

definition CreateIfNotExists :: "time \<Rightarrow> payment \<Rightarrow> payment list \<Rightarrow> (bool \<times> payment list) result" where
  "CreateIfNotExists now p rows =
     (if list_ex (\<lambda>q. pay_Processor q = pay_Processor p \<and> pay_TransactionID q = pay_TransactionID p) rows
      then (if pay_PurchasedAt p > now + 5 * time_Minute then Inl (ErrConstraint ''chk_payment_not_future'')
            else Inr (False, rows))
      else (case pay_insert now p rows of Inl e \<Rightarrow> Inl e | Inr rows' \<Rightarrow> Inr (True, rows')))"

definition PaymentGetByID :: "uuid \<Rightarrow> payment list \<Rightarrow> payment result" where
  "PaymentGetByID i rows = sql_find (\<lambda>p. pay_ID p = i) rows"

definition GetByIDWithDetails :: "uuid \<Rightarrow> payment list \<Rightarrow> (payment \<times> payment list) result" where
  "GetByIDWithDetails i rows =
     (case PaymentGetByID i rows of
        Inl e \<Rightarrow> Inl e
      | Inr p \<Rightarrow> Inr (p, sort_key (\<lambda>q. - pay_CreatedAt q) (filter (\<lambda>q. pay_RefundedPaymentID q = Some i) rows)))"

definition PaymentGetByUserID :: "string \<Rightarrow> payment list \<Rightarrow> payment list" where
  "PaymentGetByUserID u rows = sort_key (\<lambda>p. - pay_PurchasedAt p) (filter (\<lambda>p. pay_UserID p = u) rows)"

definition GetByTransactionID :: "string \<Rightarrow> string \<Rightarrow> payment list \<Rightarrow> payment result" where
  "GetByTransactionID processor transactionID rows =
     sql_find (\<lambda>p. pay_Processor p = processor \<and> pay_TransactionID p = transactionID) rows"

definition GetRefundTotalByPaymentID :: "uuid \<Rightarrow> payment list \<Rightarrow> int" where
  "GetRefundTotalByPaymentID i rows =
     row_sum (\<lambda>p. \<bar>pay_Amount p\<bar>) (filter (\<lambda>p. pay_RefundedPaymentID p = Some i) rows)"

definition PaymentGetPaginatedByUserID :: "string \<Rightarrow> int \<Rightarrow> int \<Rightarrow> payment list \<Rightarrow> payment list \<times> nat" where
  "PaymentGetPaginatedByUserID u page pageSize rows =
     (let offset = (page - 1) * pageSize; mine = PaymentGetByUserID u rows
      in (take (nat pageSize) (drop (nat offset) mine), length mine))"

definition GetLatestByUserAndProcessor :: "string \<Rightarrow> string \<Rightarrow> payment list \<Rightarrow> payment result" where
  "GetLatestByUserAndProcessor u processor rows =
     sql_find (\<lambda>_. True) (sort_key (\<lambda>p. - pay_PurchasedAt p)
       (filter (\<lambda>p. pay_UserID p = u \<and> pay_Processor p = processor) rows))"

definition GetLatestBySubscriptionID :: "uuid \<Rightarrow> payment list \<Rightarrow> payment result" where
  "GetLatestBySubscriptionID i rows =
     sql_find (\<lambda>_. True) (sort_key (\<lambda>p. - pay_PurchasedAt p) (filter (\<lambda>p. pay_SubscriptionID p = Some i) rows))"

definition GetLatestChargeBySubscriptionID :: "uuid \<Rightarrow> payment list \<Rightarrow> payment result" where
  "GetLatestChargeBySubscriptionID i rows =
     sql_find (\<lambda>_. True) (sort_key (\<lambda>p. - pay_PurchasedAt p)
       (filter (\<lambda>p. pay_SubscriptionID p = Some i \<and> pay_Amount p > 0) rows))"

definition CountByUserAndProcessor :: "string \<Rightarrow> string \<Rightarrow> payment list \<Rightarrow> (nat \<times> nat) result" where
  "CountByUserAndProcessor u processor rows =
     (if u = '''' then Inl (ErrMsg ''user_id is required'')
      else Inr (length (filter (\<lambda>p. pay_UserID p = u \<and> pay_Processor p = processor \<and> pay_Amount p > 0 \<and>
                          pay_Status p = ''completed'') rows),
                length (filter (\<lambda>p. pay_UserID p = u \<and> pay_Processor p = processor \<and>
                          pay_Status p = ''failed'') rows)))"

definition MarkFailed :: "uuid \<Rightarrow> payment list \<Rightarrow> payment list" where
  "MarkFailed i rows = sql_update (\<lambda>p. pay_ID p = i) (\<lambda>p. p\<lparr>pay_Status := ''failed''\<rparr>) rows"

section \<open>Service\<close>

definition PaymentUpdate :: "payment \<Rightarrow> payment list \<Rightarrow> payment list result" where
  "PaymentUpdate p rows = Inl (ErrMsg ''payments are immutable; updates are not supported'')"

definition PaymentDelete :: "uuid \<Rightarrow> payment list \<Rightarrow> payment list result" where
  "PaymentDelete i rows = Inl (ErrMsg ''payments cannot be deleted'')"

definition ValidateRefund :: "payment \<Rightarrow> int \<Rightarrow> payment list \<Rightarrow> unit result" where
  "ValidateRefund orig amount rows =
     (if amount \<le> 0 then Inl (ErrMsg ''refund amount must be > 0'')
      else if pay_Amount orig \<le> 0 \<or> pay_RefundedPaymentID orig \<noteq> None
      then Inl (ErrMsg ''only successful charge payments can be refunded'')
      else if HasPrefix (TrimSpace (pay_TransactionID orig)) ''sub:''
      then Inl (ErrMsg ''synthetic subscription references are not refundable'')
      else
        (let refundedTotal = GetRefundTotalByPaymentID (pay_ID orig) rows
         in if amount > pay_Amount orig then Inl (ErrMsg ''refund amount cannot exceed original payment amount'')
            else if refundedTotal > 0 \<and> i64 (amount + refundedTotal) > pay_Amount orig
            then Inl (ErrMsg ''refund total would exceed original payment'')
            else Inr ()))"

definition Refund :: "go_env \<Rightarrow> uuid \<Rightarrow> string \<Rightarrow> int \<Rightarrow> payment list \<Rightarrow> (payment \<times> payment list) result" where
  "Refund env originalPaymentID refundTransactionID amount rows =
     (case PaymentGetByID originalPaymentID rows of
        Inl e \<Rightarrow> Inl e
      | Inr orig \<Rightarrow>
          (case ValidateRefund orig amount rows of
             Inl e \<Rightarrow> Inl e
           | Inr _ \<Rightarrow>
               if TrimSpace refundTransactionID = '''' then Inl (ErrMsg ''refund transaction id is required'')
               else
                 (let now = env_now env;
                      refund = \<lparr>pay_ID = env_uuid env 0, pay_UserID = pay_UserID orig, pay_PriceID = pay_PriceID orig,
                                pay_SubscriptionID = pay_SubscriptionID orig, pay_RefundedPaymentID = Some (pay_ID orig),
                                pay_Processor = pay_Processor orig, pay_TransactionID = refundTransactionID,
                                pay_Amount = i64 (- amount), pay_ListAmount = pay_ListAmount orig,
                                pay_Currency = pay_Currency orig, pay_Status = '''', pay_Metadata = None,
                                pay_PurchasedAt = now, pay_CreatedAt = now\<rparr>
                  in case PaymentCreate now refund rows of
                       Inl e \<Rightarrow> Inl e
                     | Inr rows' \<Rightarrow> Inr (refund, rows'))))"

section \<open>Refunds never exceed their charge\<close>

interpretation pays: constrained_table "\<lambda>_ :: payment. None :: string option" pay_clash
  by unfold_locales (auto simp: pay_clash_def split: if_splits)

text \<open>Amounts whose sums of two an \<^verbatim>\<open>int64\<close> holds.\<close>

definition small_amount :: "int \<Rightarrow> bool" where
  "small_amount a \<longleftrightarrow> \<bar>a\<bar> < 2 ^ 62"

definition refunds_ok :: "payment list \<Rightarrow> bool" where
  "refunds_ok rows \<longleftrightarrow> pays_ok rows \<and>
     (\<forall>p \<in> set rows. small_amount (pay_Amount p) \<and>
        (case pay_RefundedPaymentID p of None \<Rightarrow> True | Some i \<Rightarrow> i \<in> set (map pay_ID rows))) \<and>
     (\<forall>p \<in> set rows. 0 < pay_Amount p \<longrightarrow> GetRefundTotalByPaymentID (pay_ID p) rows \<le> pay_Amount p)"

datatype pay_op =
    PayCreate time payment
  | PayCreateIfNotExists time payment
  | PayRefund go_env uuid string int
  | PayMarkFailed uuid

fun pay_step :: "pay_op \<Rightarrow> payment list \<Rightarrow> (bool \<times> payment list) result" where
  "pay_step (PayCreate now p) rows = map_sum id (Pair True) (PaymentCreate now p rows)"
| "pay_step (PayCreateIfNotExists now p) rows = CreateIfNotExists now p rows"
| "pay_step (PayRefund env i tid n) rows = map_sum id (\<lambda>(_, rows'). (True, rows')) (Refund env i tid n rows)"
| "pay_step (PayMarkFailed i) rows = Inr (True, MarkFailed i rows)"

text \<open>Charges are created with no refund link and a small amount; refunds go through \<open>Refund\<close>.\<close>

fun pay_guard :: "pay_op \<Rightarrow> payment list \<Rightarrow> bool" where
  "pay_guard (PayCreate now p) rows = (pay_RefundedPaymentID p = None \<and> small_amount (pay_Amount p))"
| "pay_guard (PayCreateIfNotExists now p) rows = (pay_RefundedPaymentID p = None \<and> small_amount (pay_Amount p))"
| "pay_guard _ rows = True"

lemma pays_distinct:
  assumes "pays_ok rows"
  shows "distinct (map pay_ID rows)"
proof -
  have "sorted_wrt (\<lambda>x y. pay_clash x y = None) rows" using assms by (simp add: tbl_ok_def)
  then show ?thesis by (induction rows) (auto simp: pay_clash_def split: if_splits)
qed

lemma pay_insert_Inr:
  assumes "pay_insert now p rows = Inr rows'"
  obtains q where "rows' = rows @ [q]" "pay_ID q = pay_ID p" "pay_Amount q = pay_Amount p"
    "pay_RefundedPaymentID q = pay_RefundedPaymentID p" "pay_ID p \<notin> set (map pay_ID rows)"
    "tbl_insert (\<lambda>_. None) pay_clash q rows = Inr rows'"
proof -
  define q where "q = (if pay_Status p = [] then p\<lparr>pay_Status := ''completed''\<rparr> else p)"
  have q: "pay_ID q = pay_ID p" "pay_Amount q = pay_Amount p" "pay_RefundedPaymentID q = pay_RefundedPaymentID p"
    by (simp_all add: q_def)
  from assms have ins: "tbl_insert (\<lambda>_. None) pay_clash q rows = Inr rows'"
    unfolding pay_insert_def Let_def q_def [symmetric] by (simp split: if_splits)
  then have rows': "rows' = rows @ [q]" and clash: "\<forall>x \<in> set rows. pay_clash q x = None"
    by (simp_all add: tbl_insert_Inr violation_None)
  have "pay_ID p \<notin> set (map pay_ID rows)"
    using clash q(1) by (auto simp: pay_clash_def split: if_splits)
  then show thesis using that [of q] rows' q ins by simp
qed

lemma refund_total_append:
  "GetRefundTotalByPaymentID i (rows @ [q]) =
     GetRefundTotalByPaymentID i rows + (if pay_RefundedPaymentID q = Some i then \<bar>pay_Amount q\<bar> else 0)"
  by (simp add: GetRefundTotalByPaymentID_def)

lemma refund_total_none:
  assumes "refunds_ok rows" "i \<notin> set (map pay_ID rows)"
  shows "GetRefundTotalByPaymentID i rows = 0"
proof -
  have "filter (\<lambda>p. pay_RefundedPaymentID p = Some i) rows = []"
    using assms unfolding filter_empty_conv refunds_ok_def by fastforce
  then show ?thesis by (simp add: GetRefundTotalByPaymentID_def)
qed

lemma refund_total_nonneg: "0 \<le> GetRefundTotalByPaymentID i rows"
  by (auto simp: GetRefundTotalByPaymentID_def intro: row_sum_nonneg)

text \<open>Appending an entry keeps the invariant when the refunds of its charge still fit.\<close>

lemma refunds_ok_append:
  assumes ok: "refunds_ok rows" and ins: "tbl_insert (\<lambda>_. None) pay_clash q rows = Inr rows'" and rows': "rows' = rows @ [q]"
    and q: "small_amount (pay_Amount q)" "pay_ID q \<notin> set (map pay_ID rows)"
    and target: "\<And>i. pay_RefundedPaymentID q = Some i \<Longrightarrow> i \<in> set (map pay_ID rows) \<and>
       (\<forall>p \<in> set rows. pay_ID p = i \<longrightarrow> 0 < pay_Amount p \<longrightarrow> GetRefundTotalByPaymentID i rows + \<bar>pay_Amount q\<bar> \<le> pay_Amount p)"
  shows "refunds_ok rows'"
proof -
  have "pays_ok rows'" using ok ins pays.insert_ok by (auto simp: refunds_ok_def)
  moreover have "small_amount (pay_Amount p) \<and> (case pay_RefundedPaymentID p of None \<Rightarrow> True | Some i \<Rightarrow> i \<in> set (map pay_ID rows'))"
    if "p \<in> set rows'" for p
    using that ok q(1) target by (auto simp: rows' refunds_ok_def split: option.splits)
  moreover have "GetRefundTotalByPaymentID (pay_ID p) rows' \<le> pay_Amount p" if p: "p \<in> set rows'" "0 < pay_Amount p" for p
  proof (cases "p = q")
    case True
    with q(2) target [of "pay_ID q"] refund_total_none [OF ok q(2)] p(2) show ?thesis
      by (auto simp: rows' refund_total_append)
  next
    case False
    with p have "p \<in> set rows" by (simp add: rows')
    with p(2) ok target [of "pay_ID p"] show ?thesis by (auto simp: rows' refund_total_append refunds_ok_def)
  qed
  ultimately show ?thesis by (simp add: refunds_ok_def)
qed

lemma PaymentCreate_ok:
  assumes ok: "refunds_ok rows" and p: "pay_RefundedPaymentID p = None" "small_amount (pay_Amount p)"
    and run: "pay_insert now p rows = Inr rows'"
  shows "refunds_ok rows'"
  using run
proof (rule pay_insert_Inr)
  fix q assume q: "rows' = rows @ [q]" "pay_ID q = pay_ID p" "pay_Amount q = pay_Amount p"
    "pay_RefundedPaymentID q = pay_RefundedPaymentID p" "pay_ID p \<notin> set (map pay_ID rows)"
    "tbl_insert (\<lambda>_. None) pay_clash q rows = Inr rows'"
  show ?thesis by (rule refunds_ok_append [OF ok q(6,1)]) (use q p in simp_all)
qed

lemma Refund_Inr:
  assumes "Refund env i tid n rows = Inr (r, rows')"
  obtains orig where "orig \<in> set rows" "pay_ID orig = i" "0 < n" "n \<le> pay_Amount orig" "pay_RefundedPaymentID orig = None"
    "0 < GetRefundTotalByPaymentID i rows \<longrightarrow> i64 (n + GetRefundTotalByPaymentID i rows) \<le> pay_Amount orig"
    "pay_insert (env_now env) r rows = Inr rows'" "pay_Amount r = i64 (- n)" "pay_RefundedPaymentID r = Some i"
    "pay_UserID r = pay_UserID orig" "pay_Processor r = pay_Processor orig" "pay_TransactionID r = tid"
proof -
  obtain orig where get: "PaymentGetByID i rows = Inr orig"
    using assms by (auto simp: Refund_def split: sum.splits)
  then have o: "orig \<in> set rows" "pay_ID orig = i"
    by (auto simp: PaymentGetByID_def dest: sql_find_memb)
  have v: "ValidateRefund orig n rows = Inr ()"
    using assms get by (cases "ValidateRefund orig n rows") (auto simp: Refund_def)
  then have amt: "0 < n" "n \<le> pay_Amount orig" "pay_RefundedPaymentID orig = None"
    "0 < GetRefundTotalByPaymentID i rows \<longrightarrow> i64 (n + GetRefundTotalByPaymentID i rows) \<le> pay_Amount orig"
    using o(2) by (auto simp: ValidateRefund_def Let_def split: if_splits)
  from assms get v have "pay_insert (env_now env) r rows = Inr rows'" "pay_Amount r = i64 (- n)"
    "pay_RefundedPaymentID r = Some (pay_ID orig)" "pay_UserID r = pay_UserID orig" "pay_Processor r = pay_Processor orig"
    "pay_TransactionID r = tid"
    by (auto simp: Refund_def Let_def PaymentCreate_def split: if_splits sum.splits)
  with o amt show thesis by (intro that) simp_all
qed

lemma Refund_ok:
  assumes ok: "refunds_ok rows" and run: "Refund env i tid n rows = Inr (r, rows')"
  shows "refunds_ok rows'"
  using run
proof (cases rule: Refund_Inr)
  case (1 orig)
  let ?T = "GetRefundTotalByPaymentID i rows"
  have bound: "?T \<le> pay_Amount orig" "small_amount (pay_Amount orig)"
  proof -
    show "small_amount (pay_Amount orig)" using ok 1(1) by (simp add: refunds_ok_def)
    have "0 < pay_Amount orig" using 1(3,4) by simp
    then show "?T \<le> pay_Amount orig" using ok 1(1,2) unfolding refunds_ok_def by blast
  qed
  have T0: "0 \<le> ?T" by (rule refund_total_nonneg)
  have lt: "pay_Amount orig < 2 ^ 62" using bound(2) by (simp add: small_amount_def)
  have i: "in_i64 (n + ?T)" "in_i64 (- n)" using 1(3,4) bound(1) T0 lt by (simp_all add: in_i64_def)
  have small: "i64 (n + ?T) = n + ?T" "i64 (- n) = - n" "small_amount (- n)"
    using 1(3,4) lt i by (simp_all add: small_amount_def)
  have fit: "n + ?T \<le> pay_Amount orig"
  proof (cases "0 < ?T")
    case True
    with 1(6) small(1) show ?thesis by simp
  next
    case False
    with 1(4) T0 show ?thesis by simp
  qed
  have uniq: "p = orig" if "p \<in> set rows" "pay_ID p = i" for p
  proof -
    have "inj_on pay_ID (set rows)" using pays_distinct [of rows] ok by (simp add: refunds_ok_def distinct_map)
    from inj_onD [OF this, of p orig] that 1(1,2) show ?thesis by simp
  qed
  from 1(7) show ?thesis
  proof (rule pay_insert_Inr)
    fix q assume q: "rows' = rows @ [q]" "pay_ID q = pay_ID r" "pay_Amount q = pay_Amount r"
      "pay_RefundedPaymentID q = pay_RefundedPaymentID r" "pay_ID r \<notin> set (map pay_ID rows)"
      "tbl_insert (\<lambda>_. None) pay_clash q rows = Inr rows'"
    show ?thesis
    proof (rule refunds_ok_append [OF ok q(6,1)])
      show "small_amount (pay_Amount q)" "pay_ID q \<notin> set (map pay_ID rows)"
        using q(2,3,5) 1(8) small by simp_all
      fix j assume "pay_RefundedPaymentID q = Some j"
      with q(4) 1(9) have j: "j = i" by simp
      have abs: "\<bar>pay_Amount q\<bar> = n" using q(3) 1(3,8) small(2) by simp
      show "j \<in> set (map pay_ID rows) \<and> (\<forall>p \<in> set rows. pay_ID p = j \<longrightarrow> 0 < pay_Amount p \<longrightarrow>
          GetRefundTotalByPaymentID j rows + \<bar>pay_Amount q\<bar> \<le> pay_Amount p)"
        unfolding abs j
      proof (intro conjI ballI impI)
        show "i \<in> set (map pay_ID rows)" using imageI [OF 1(1), of pay_ID] 1(2) by simp
        fix p assume "p \<in> set rows" "pay_ID p = i"
        then have "p = orig" by (rule uniq)
        with fit show "GetRefundTotalByPaymentID i rows + n \<le> pay_Amount p" by simp
      qed
    qed
  qed
qed

lemma MarkFailed_ok:
  assumes "refunds_ok rows"
  shows "refunds_ok (MarkFailed i rows)"
proof -
  let ?f = "\<lambda>p. if pay_ID p = i then p\<lparr>pay_Status := ''failed''\<rparr> else p"
  have rows: "MarkFailed i rows = map ?f rows" by (simp add: MarkFailed_def sql_update_def)
  have total: "GetRefundTotalByPaymentID j (map ?f rows) = GetRefundTotalByPaymentID j rows" for j
    by (induction rows) (auto simp: GetRefundTotalByPaymentID_def)
  have clash: "pay_clash (?f x) (?f y) = pay_clash x y" for x y by (simp add: pay_clash_def)
  have "pays_ok (map ?f rows)"
    using assms clash by (auto simp: refunds_ok_def tbl_ok_def sorted_wrt_map list_all_iff)
  moreover have "map pay_ID (map ?f rows) = map pay_ID rows" by simp
  ultimately show ?thesis
    using assms unfolding refunds_ok_def rows total
    by (auto simp: total split: option.splits)
qed

lemma pay_step_ok:
  assumes "refunds_ok rows" "pay_guard op rows" "pay_step op rows = Inr (b, rows')"
  shows "refunds_ok rows'"
proof (cases op)
  case (PayCreate now p)
  with assms show ?thesis by (auto simp: map_sum_Inr PaymentCreate_def intro: PaymentCreate_ok)
next
  case (PayCreateIfNotExists now p)
  with assms show ?thesis by (auto simp: CreateIfNotExists_def split: if_splits sum.splits intro: PaymentCreate_ok)
next
  case (PayRefund env i tid n)
  with assms show ?thesis by (auto simp: map_sum_Inr intro: Refund_ok)
next
  case (PayMarkFailed i)
  with assms MarkFailed_ok show ?thesis by auto
qed

interpretation payment_log: tx_system pay_step pay_guard refunds_ok
  by unfold_locales (rule pay_step_ok)

text \<open>
  C7: refunds never exceed their charge: in every state that charges, renewals' idempotent charges, refunds and
  failure marks reach from an empty log, the refunds of a charge add up to no more than its amount, and each
  refund points to a recorded payment. (Amounts are below \<open>2 ^ 62\<close>, so the check in \<^verbatim>\<open>ValidateRefund\<close> does not
  overflow.) The operations run one after the other: nothing in the code keeps two refunds of a charge from running at once.
\<close>

theorem refunds_bounded:
  assumes "tx_reach pay_step pay_guard [] rows" "p \<in> set rows"
  shows "(0 < pay_Amount p \<longrightarrow> GetRefundTotalByPaymentID (pay_ID p) rows \<le> pay_Amount p) \<and>
    (\<forall>i. pay_RefundedPaymentID p = Some i \<longrightarrow> i \<in> set (map pay_ID rows))"
proof -
  have "refunds_ok []" by (simp add: refunds_ok_def tbl_ok_def)
  with payment_log.reach_inv [OF assms(1)] have "refunds_ok rows" by simp
  with assms(2) show ?thesis by (auto simp: refunds_ok_def)
qed

definition ex_pay :: payment where
  "ex_pay = \<lparr>pay_ID = 1, pay_UserID = ''u'', pay_PriceID = 2, pay_SubscriptionID = None, pay_RefundedPaymentID = None,
     pay_Processor = ''mobius'', pay_TransactionID = ''t1'', pay_Amount = 500, pay_ListAmount = 500, pay_Currency = ''usd'',
     pay_Status = ''completed'', pay_Metadata = None, pay_PurchasedAt = 10, pay_CreatedAt = 10\<rparr>"

definition ex_refund_env :: go_env where
  "ex_refund_env = \<lparr>env_now = 20, env_uuid = (\<lambda>i. 2 + i), env_uuid_String = (\<lambda>_. [])\<rparr>"

definition ex_refund :: "payment list" where
  "ex_refund = snd (run_in_tx (pay_step (PayRefund ex_refund_env 1 ''r1'' 200)) [ex_pay])"

theorem refunds_bounded_witness:
  "GetRefundTotalByPaymentID 1 ex_refund = 200 \<and> GetRefundTotalByPaymentID 1 ex_refund \<le> 500"
proof -
  have guard: "pay_guard (PayCreate 10 ex_pay) []" by code_simp
  have "snd (run_in_tx (pay_step (PayCreate 10 ex_pay)) []) = [ex_pay]" by code_simp
  with tx_step [of pay_step pay_guard "[]" "[]", OF tx_start guard] have "tx_reach pay_step pay_guard [] [ex_pay]" by simp
  from tx_step [OF this, of "PayRefund ex_refund_env 1 ''r1'' 200"] have r: "tx_reach pay_step pay_guard [] ex_refund" by (simp add: ex_refund_def)
  have "GetRefundTotalByPaymentID 1 ex_refund = 200" "ex_pay \<in> set ex_refund" by code_simp+
  with refunds_bounded [OF r, of ex_pay] show ?thesis by (simp add: ex_pay_def)
qed

text \<open>
  Recording a charge that is keyed by processor and transaction id is idempotent: the second call reports that
  nothing was created and leaves the log as it is, whatever else the second entry says.
\<close>

theorem CreateIfNotExists_idempotent:
  assumes "CreateIfNotExists now p rows = Inr (b, rows')" "pay_PurchasedAt q \<le> now'"
    and "pay_Processor q = pay_Processor p" "pay_TransactionID q = pay_TransactionID p"
  shows "CreateIfNotExists now' q rows' = Inr (False, rows')"
proof -
  have "list_ex (\<lambda>x. pay_Processor x = pay_Processor p \<and> pay_TransactionID x = pay_TransactionID p) rows'"
    using assms(1)
    by (auto simp: CreateIfNotExists_def pay_insert_def Let_def tbl_insert_Inr split: if_splits sum.splits)
  then show ?thesis using assms(2-4) by (simp add: CreateIfNotExists_def duration_defs)
qed

theorem CreateIfNotExists_idempotent_witness:
  "CreateIfNotExists 20 (ex_pay\<lparr>pay_ID := 9\<rparr>) [ex_pay] = Inr (False, [ex_pay])"
proof -
  have "CreateIfNotExists 10 ex_pay [] = Inr (True, [ex_pay])" by code_simp
  from CreateIfNotExists_idempotent [OF this, of "ex_pay\<lparr>pay_ID := 9\<rparr>" 20] show ?thesis by (simp add: ex_pay_def)
qed

end
