(* ===== verification/Lifecycle.thy ===== *)
theory Lifecycle
  imports Subscriptions Entitlements Payments
begin

text \<open>
  The subscription lifecycle, \<^verbatim>\<open>internal/modules/subscriptions/lifecycle_service.go\<close>: creating, renewing,
  reactivating, cancelling, expiring and failing a membership. Each method is one transaction over the subscriptions,
  entitlements, payments and notifications tables; its error is the error of the transaction, which then changes nothing.
  The emails and the analytics events sent after the commit are outside the model.

  Where the code logs an error and goes on, the model goes on too, unless the error came from a statement that the
  database refused: PostgreSQL then refuses every later statement of the transaction (\<open>tx_logged\<close>).
  A nil pointer panics, which rolls the transaction back. One reading of the clock serves a whole call.
\<close>

section \<open>State and parameters\<close>

record notification =
  nq_ID :: uuid
  nq_UserID :: string
  nq_EventType :: string
  nq_Data :: "(string \<times> string) list"
  nq_Seen :: bool

record billing_db =
  bdb_prices :: "price list"
  bdb_products :: "product list"
  bdb_subs :: "subscription list"
  bdb_ents :: "entitlement list"
  bdb_payments :: "payment list"
  bdb_notifications :: "notification list"

text \<open>
  What the service is configured with: the effective dunning mode, the switch that disables expirations, the
  NMI-backed processors; and the two third-party functions the code relies on, how the ORM stores a zero time
  and how a UUID is parsed.
\<close>

record lifecycle_cfg =
  lc_nz :: bool
  lc_uuid_Parse :: "string \<Rightarrow> uuid option"
  lc_dunningMode :: string
  lc_expirationDisabled :: bool
  lc_nmi :: "string set"

record CreateMembershipParams =
  cm_UserID :: string
  cm_PriceID :: uuid
  cm_Processor :: string
  cm_ProcessorSubscriptionID :: "string option"
  cm_UserEmail :: "string option"
  cm_CurrentPeriodEndsAt :: "time option"
  cm_TransactionID :: string
  cm_Amount :: int
  cm_Currency :: string
  cm_PaymentMetadata :: "string option"

record RenewMembershipParams =
  rm_Processor :: string
  rm_ProcessorSubscriptionID :: string
  rm_CurrentPeriodEndsAt :: "time option"
  rm_TransactionID :: string
  rm_Amount :: int
  rm_Currency :: string
  rm_PaymentMetadata :: "string option"
  rm_AllowTerminalReactivation :: bool

record ReactivateMembershipParams =
  ra_Processor :: string
  ra_ProcessorSubscriptionID :: string
  ra_CurrentPeriodEndsAt :: "time option"
  ra_AllowTerminalReactivation :: bool

record CancelMembershipParams =
  ca_SubscriptionID :: "uuid option"
  ca_Processor :: "string option"
  ca_ProcessorSubscriptionID :: "string option"
  ca_CancelType :: CancelType
  ca_CancelFeedback :: "string option"
  ca_RevokeAccess :: bool

definition DunningInterval :: duration where "DunningInterval = 72 * time_Hour"
definition MaxDunningFailures :: int where "MaxDunningFailures = 5"

text \<open>\<^verbatim>\<open>FeatureFlags.GetDunningMode\<close> of \<^verbatim>\<open>config/config.go\<close>.\<close>

definition GetDunningMode :: "string option \<Rightarrow> string" where
  "GetDunningMode flag =
     (case flag of
        None \<Rightarrow> ''on''
      | Some f \<Rightarrow>
          if f = '''' then ''on''
          else (let mode = ToLower (TrimSpace f)
                in if mode \<in> {''on'', ''dry_run_only'', ''off''} then mode else ''on''))"

section \<open>Shared steps\<close>

definition tx_logged :: "'s result \<Rightarrow> 's \<Rightarrow> 's result" where
  "tx_logged r s =
     (case r of
        Inr s' \<Rightarrow> Inr s'
      | Inl e \<Rightarrow> if is_sql_error e then Inl (ErrWrap ''current transaction is aborted'' e) else Inr s)"

definition notify :: "uuid \<Rightarrow> string \<Rightarrow> string \<Rightarrow> (string \<times> string) list \<Rightarrow> billing_db \<Rightarrow> billing_db result" where
  "notify i u event data db =
     tx_logged (map_sum id (\<lambda>rows. db\<lparr>bdb_notifications := rows\<rparr>)
       (sql_insert nq_ID ''notification_queue_pkey''
          \<lparr>nq_ID = i, nq_UserID = u, nq_EventType = event, nq_Data = data, nq_Seen = False\<rparr> (bdb_notifications db))) db"

definition PriceGetByID :: "uuid \<Rightarrow> billing_db \<Rightarrow> price result" where
  "PriceGetByID i db = sql_find (\<lambda>p. price_ID p = i) (bdb_prices db)"

definition ProductGetByID :: "uuid \<Rightarrow> billing_db \<Rightarrow> product result" where
  "ProductGetByID i db = sql_find (\<lambda>p. prod_ID p = i) (bdb_products db)"

definition ent_names :: "product \<Rightarrow> string list" where
  "ent_names product =
     (if prod_EntitlementsSpec product \<noteq> [] then map fst (prod_EntitlementsSpec product) else [''premium''])"

definition push_window ::
  "go_env \<Rightarrow> string \<Rightarrow> string \<Rightarrow> time \<Rightarrow> time \<Rightarrow> EntitlementSourceType \<Rightarrow> uuid \<Rightarrow> entitlement list \<Rightarrow>
     (entitlement option \<times> entitlement list) result" where
  "push_window env u n notBefore endAt st sid rows =
     PushNewEntitlement env \<lparr>push_UserID = u, push_Entitlement = n, push_NotBefore = Some notBefore,
       push_Indefinite = False, push_Duration = None, push_EndAt = Some endAt,
       push_SourceType = st, push_SourceID = sid\<rparr> rows"

definition revoke_source ::
  "time \<Rightarrow> string \<Rightarrow> string \<Rightarrow> EntitlementSourceType \<Rightarrow> uuid \<Rightarrow> EntitlementRevokeReason \<Rightarrow> entitlement list \<Rightarrow>
     entitlement list result" where
  "revoke_source now u n st sid reason rows =
     RevokeExistingEntitlement True now \<lparr>rev_EntitlementID = None, rev_UserID = u, rev_Entitlement = n,
       rev_SourceType = Some st, rev_SourceID = Some sid, rev_Reason = reason\<rparr> rows"

text \<open>The loop that revokes the named entitlements of a source and logs its failures.\<close>

fun revoke_names ::
  "time \<Rightarrow> string \<Rightarrow> EntitlementSourceType \<Rightarrow> uuid \<Rightarrow> EntitlementRevokeReason \<Rightarrow> string list \<Rightarrow> entitlement list \<Rightarrow>
     entitlement list result" where
  "revoke_names now u st sid reason [] rows = Inr rows"
| "revoke_names now u st sid reason (n # ns) rows =
     (case tx_logged (revoke_source now u n st sid reason rows) rows of
        Inl e \<Rightarrow> Inl e
      | Inr rows' \<Rightarrow> revoke_names now u st sid reason ns rows')"

definition revoke_all ::
  "time \<Rightarrow> string \<Rightarrow> EntitlementSourceType \<Rightarrow> uuid \<Rightarrow> EntitlementRevokeReason \<Rightarrow> entitlement list \<Rightarrow>
     entitlement list result" where
  "revoke_all now u st sid reason rows =
     revoke_names now u st sid reason (ListDistinctEntitlementNamesBySource st sid rows) rows"

definition sub_update :: "string \<Rightarrow> lifecycle_cfg \<Rightarrow> time \<Rightarrow> subscription \<Rightarrow> billing_db \<Rightarrow> billing_db result" where
  "sub_update msg cfg now s db =
     (case SubscriptionRepoUpdate (lc_nz cfg) now s (bdb_subs db) of
        Inl e \<Rightarrow> Inl (ErrWrap msg e)
      | Inr rows \<Rightarrow> Inr (db\<lparr>bdb_subs := rows\<rparr>))"

section \<open>Creating a membership\<close>

fun grant_entitlements ::
  "go_env \<Rightarrow> string \<Rightarrow> uuid \<Rightarrow> time \<Rightarrow> time \<Rightarrow> string list \<Rightarrow> entitlement list \<Rightarrow> entitlement list result" where
  "grant_entitlements env u sid startsAt endsAt [] rows = Inr rows"
| "grant_entitlements env u sid startsAt endsAt (n # ns) rows =
     (if ExistsBySource EntitlementSourceSubscription sid n rows
      then grant_entitlements (env_shift 1 env) u sid startsAt endsAt ns rows
      else (case push_window env u n startsAt endsAt EntitlementSourceSubscription sid rows of
              Inl e \<Rightarrow> Inl (ErrWrap ''failed to grant entitlement'' e)
            | Inr (None, _) \<Rightarrow> Inl (NilDeref ''window'')
            | Inr (Some _, rows') \<Rightarrow> grant_entitlements (env_shift 1 env) u sid startsAt endsAt ns rows'))"

definition membership_period :: "time \<Rightarrow> time option \<Rightarrow> price \<Rightarrow> time" where
  "membership_period now given price =
     (case given of
        Some t \<Rightarrow>
          if t \<noteq> time_zero \<and> t > now then t
          else (case price_BillingCycleDays price of
                  Some d \<Rightarrow> if d > 0 then now + days_duration d else now + 30 * 24 * time_Hour
                | None \<Rightarrow> now + 30 * 24 * time_Hour)
      | None \<Rightarrow>
          (case price_BillingCycleDays price of
             Some d \<Rightarrow> if d > 0 then now + days_duration d else now + 30 * 24 * time_Hour
           | None \<Rightarrow> now + 30 * 24 * time_Hour))"

definition trimmed_email :: "string option \<Rightarrow> string option \<Rightarrow> string option" where
  "trimmed_email given old =
     (case given of Some e \<Rightarrow> if TrimSpace e \<noteq> '''' then Some (TrimSpace e) else old | None \<Rightarrow> old)"

text \<open>The subscription row of a new membership: an existing row for the price is reused.\<close>

definition create_subscription ::
  "lifecycle_cfg \<Rightarrow> go_env \<Rightarrow> CreateMembershipParams \<Rightarrow> price \<Rightarrow> time \<Rightarrow> billing_db \<Rightarrow> (subscription \<times> billing_db) result" where
  "create_subscription cfg env p price endsAt db =
     (let now = env_now env in
      case GetByUserIDAndPriceID (cm_UserID p) (price_ID price) (bdb_subs db) of
        Inr s \<Rightarrow>
          (let s' = s\<lparr>sub_UserEmail := trimmed_email (cm_UserEmail p) (sub_UserEmail s),
                      sub_PriceID := price_ID price, sub_Status := StatusActive, sub_Processor := cm_Processor p,
                      sub_ProcessorSubscriptionID :=
                        (case cm_ProcessorSubscriptionID p of Some i \<Rightarrow> i | None \<Rightarrow> sub_ProcessorSubscriptionID s),
                      sub_CurrentPeriodStartsAt := Some now, sub_CurrentPeriodEndsAt := Some endsAt,
                      sub_StartedAt := now, sub_CancelledAt := None, sub_CancelType := None,
                      sub_CancelFeedback := None, sub_EndedAt := None\<rparr>
           in case sub_update ''failed to update subscription'' cfg now s' db of Inl e \<Rightarrow> Inl e | Inr db' \<Rightarrow> Inr (s', db'))
      | Inl _ \<Rightarrow>
          (let s = \<lparr>sub_ID = env_uuid env 0, sub_UserID = cm_UserID p, sub_ProductID = price_ProductID price,
                    sub_PriceID = price_ID price, sub_ScheduledPriceID = None, sub_Status = StatusActive,
                    sub_StartedAt = now, sub_EndedAt = None, sub_CurrentPeriodStartsAt = Some now,
                    sub_CurrentPeriodEndsAt = Some endsAt, sub_Processor = cm_Processor p,
                    sub_ProcessorSubscriptionID = (case cm_ProcessorSubscriptionID p of Some i \<Rightarrow> i | None \<Rightarrow> ''''),
                    sub_UserEmail = trimmed_email (cm_UserEmail p) None, sub_PaymentMethodID = None,
                    sub_LastRetryAt = None, sub_RetryAttempts = None, sub_NextRetryAt = None, sub_GraceEndsAt = None,
                    sub_CancelFeedback = None, sub_CancelType = None, sub_CancelledAt = None, sub_Metadata = None,
                    sub_CreatedAt = now, sub_UpdatedAt = now\<rparr>
           in case SubscriptionServiceCreate (lc_nz cfg) s (bdb_subs db) of
                Inl e \<Rightarrow> Inl (ErrWrap ''failed to create subscription'' e)
              | Inr rows \<Rightarrow> Inr (s, db\<lparr>bdb_subs := rows\<rparr>)))"

text \<open>The payment of a new membership; a failure is logged.\<close>

definition create_payment ::
  "go_env \<Rightarrow> CreateMembershipParams \<Rightarrow> price \<Rightarrow> subscription \<Rightarrow> billing_db \<Rightarrow> billing_db result" where
  "create_payment env p price s db =
     (if cm_TransactionID p = '''' then Inr db
      else
        (let existing = GetByTransactionID (cm_Processor p) (cm_TransactionID p) (bdb_payments db) in
         if (case existing of Inr q \<Rightarrow> pay_UserID q = sub_UserID s | Inl _ \<Rightarrow> False) then Inr db
         else
           (let now = env_now env;
                amount = (if cm_Amount p = 0 then price_Amount price else cm_Amount p);
                currency = (if cm_Currency p = '''' then price_Currency price else cm_Currency p);
                payment = \<lparr>pay_ID = env_uuid env 2, pay_UserID = cm_UserID p, pay_PriceID = price_ID price,
                           pay_SubscriptionID = Some (sub_ID s), pay_RefundedPaymentID = None,
                           pay_Processor = cm_Processor p, pay_TransactionID = cm_TransactionID p,
                           pay_Amount = amount, pay_ListAmount = price_Amount price, pay_Currency = currency,
                           pay_Status = '''', pay_Metadata = cm_PaymentMetadata p,
                           pay_PurchasedAt = now, pay_CreatedAt = now\<rparr>
            in tx_logged (map_sum id (\<lambda>rows. db\<lparr>bdb_payments := rows\<rparr>)
                 (PaymentCreate now payment (bdb_payments db))) db)))"

definition createMembershipCore ::
  "lifecycle_cfg \<Rightarrow> go_env \<Rightarrow> CreateMembershipParams \<Rightarrow> billing_db \<Rightarrow> (subscription \<times> billing_db) result" where
  "createMembershipCore cfg env p db =
     (case PriceGetByID (cm_PriceID p) db of
        Inl e \<Rightarrow> Inl (ErrWrap ''failed to get price'' e)
      | Inr price \<Rightarrow>
          if (case GetActiveOrPendingByUserIDAndProductID (cm_UserID p) (price_ProductID price) (bdb_subs db) of
                Inr s \<Rightarrow> sub_Status s = StatusActive | Inl _ \<Rightarrow> False)
          then Inl (ErrMsg ''user already has an active or pending subscription for this product'')
          else
            (let now = env_now env; endsAt = membership_period now (cm_CurrentPeriodEndsAt p) price in
             case create_subscription cfg env p price endsAt db of
               Inl e \<Rightarrow> Inl e
             | Inr (s, db1) \<Rightarrow>
                 (case ProductGetByID (price_ProductID price) db1 of
                    Inl e \<Rightarrow> Inl (ErrWrap ''failed to get product'' e)
                  | Inr product \<Rightarrow>
                      (case grant_entitlements (env_shift 3 env) (cm_UserID p) (sub_ID s) now endsAt
                              (ent_names product) (bdb_ents db1) of
                         Inl e \<Rightarrow> Inl e
                       | Inr ents \<Rightarrow>
                           (case notify (env_uuid env 1) (cm_UserID p) ''premium_started'' [] (db1\<lparr>bdb_ents := ents\<rparr>) of
                              Inl e \<Rightarrow> Inl e
                            | Inr db2 \<Rightarrow>
                                (case create_payment env p price s db2 of
                                   Inl e \<Rightarrow> Inl e
                                 | Inr db3 \<Rightarrow> Inr (s, db3)))))))"

definition CreateMembership ::
  "lifecycle_cfg \<Rightarrow> go_env \<Rightarrow> CreateMembershipParams \<Rightarrow> billing_db \<Rightarrow> subscription result \<times> billing_db" where
  "CreateMembership cfg env p db = run_in_tx (createMembershipCore cfg env p) db"


section \<open>Renewing\<close>

record FailMembershipParams =
  fa_Processor :: string
  fa_SubscriptionID :: "uuid option"
  fa_FailureReason :: "string option"
  fa_FailureCode :: "string option"

text \<open>The subscription of a renewal: by the processor's identifier, or by its own when it is still pending.\<close>

definition renewal_subscription ::
  "lifecycle_cfg \<Rightarrow> RenewMembershipParams \<Rightarrow> subscription list \<Rightarrow> subscription result" where
  "renewal_subscription cfg p rows =
     (case GetByProcessorSubscriptionID (rm_Processor p) (rm_ProcessorSubscriptionID p) rows of
        Inr s \<Rightarrow> Inr s
      | Inl e \<Rightarrow>
          (case lc_uuid_Parse cfg (rm_ProcessorSubscriptionID p) of
             None \<Rightarrow> Inl (ErrWrap ''subscription not found'' e)
           | Some i \<Rightarrow>
               (case SubGetByID i rows of
                  Inl e' \<Rightarrow> Inl (ErrWrap ''subscription not found'' e')
                | Inr s \<Rightarrow>
                    if sub_Processor s \<noteq> rm_Processor p \<or> sub_Status s \<noteq> StatusPending
                    then Inl (ErrMsg ''subscription UUID fallback is only allowed for pending subscriptions on the same processor'')
                    else Inr s)))"

text \<open>
  The price of the renewed period. A scheduled downgrade moves the subscription to the scheduled price and
  yields the old and the new product.
\<close>

definition renewal_price ::
  "subscription \<Rightarrow> billing_db \<Rightarrow> (subscription \<times> price \<times> (product \<times> product) option) result" where
  "renewal_price s db =
     (case sub_ScheduledPriceID s of
        Some scheduled \<Rightarrow>
          (case PriceGetByID (sub_PriceID s) db of
             Inl e \<Rightarrow> Inl (ErrWrap ''failed to get current price'' e)
           | Inr oldPrice \<Rightarrow>
               (case ProductGetByID (price_ProductID oldPrice) db of
                  Inl e \<Rightarrow> Inl (ErrWrap ''failed to get current product'' e)
                | Inr oldProduct \<Rightarrow>
                    (case PriceGetByID scheduled db of
                       Inl e \<Rightarrow> Inl (ErrWrap ''failed to get scheduled price'' e)
                     | Inr price \<Rightarrow>
                         (case ProductGetByID (price_ProductID price) db of
                            Inl e \<Rightarrow> Inl (ErrWrap ''failed to get new product'' e)
                          | Inr newProduct \<Rightarrow>
                              Inr (s\<lparr>sub_PriceID := price_ID price, sub_ProductID := price_ProductID price,
                                     sub_ScheduledPriceID := None\<rparr>,
                                   price, Some (oldProduct, newProduct))))))
      | None \<Rightarrow>
          (case PriceGetByID (sub_PriceID s) db of
             Inl e \<Rightarrow> Inl (ErrWrap ''failed to get price'' e)
           | Inr price \<Rightarrow> Inr (s, price, None)))"

text \<open>The payment that marks the renewal as done; the flag is false when it was there already.\<close>

definition renewal_marker ::
  "go_env \<Rightarrow> RenewMembershipParams \<Rightarrow> subscription \<Rightarrow> price \<Rightarrow> billing_db \<Rightarrow> (bool \<times> billing_db) result" where
  "renewal_marker env p s price db =
     (if rm_TransactionID p = '''' then Inr (True, db)
      else
        (let now = env_now env;
             amount = (if rm_Amount p \<le> 0 then price_Amount price else rm_Amount p);
             currency = (if TrimSpace (rm_Currency p) = '''' then price_Currency price else TrimSpace (rm_Currency p));
             payment = \<lparr>pay_ID = env_uuid env 0, pay_UserID = sub_UserID s, pay_PriceID = price_ID price,
                        pay_SubscriptionID = Some (sub_ID s), pay_RefundedPaymentID = None,
                        pay_Processor = rm_Processor p, pay_TransactionID = rm_TransactionID p,
                        pay_Amount = amount, pay_ListAmount = amount, pay_Currency = currency,
                        pay_Status = '''', pay_Metadata = rm_PaymentMetadata p,
                        pay_PurchasedAt = now, pay_CreatedAt = now\<rparr>
         in case CreateIfNotExists now payment (bdb_payments db) of
              Inl e \<Rightarrow> Inl (ErrWrap ''failed to persist renewal payment marker'' e)
            | Inr (created, rows) \<Rightarrow> Inr (created, db\<lparr>bdb_payments := rows\<rparr>)))"

definition renewal_period ::
  "time \<Rightarrow> RenewMembershipParams \<Rightarrow> subscription \<Rightarrow> price \<Rightarrow> (time \<times> time) result" where
  "renewal_period now p s price =
     (case price_BillingCycleDays price of
        None \<Rightarrow> Inl (NilDeref ''price.BillingCycleDays'')
      | Some days \<Rightarrow>
          (let periodStartsAt = (case sub_CurrentPeriodEndsAt s of
                                   Some t \<Rightarrow> if t \<noteq> time_zero then t else now | None \<Rightarrow> now);
               periodEndsAt = (case rm_CurrentPeriodEndsAt p of
                                 Some t \<Rightarrow> if t \<noteq> time_zero \<and> t > periodStartsAt then t
                                           else periodStartsAt + days_duration days
                               | None \<Rightarrow> periodStartsAt + days_duration days)
           in Inr (periodStartsAt, periodEndsAt)))"

text \<open>The fields a renewal and a reactivation set.\<close>

definition activated :: "time \<Rightarrow> time \<Rightarrow> subscription \<Rightarrow> subscription" where
  "activated startsAt endsAt s =
     s\<lparr>sub_Status := StatusActive, sub_CurrentPeriodStartsAt := Some startsAt, sub_CurrentPeriodEndsAt := Some endsAt,
       sub_CancelledAt := None, sub_CancelType := None, sub_CancelFeedback := None, sub_EndedAt := None,
       sub_LastRetryAt := None, sub_RetryAttempts := None, sub_NextRetryAt := None, sub_GraceEndsAt := None\<rparr>"

text \<open>The loop that clears the grace windows of each entitlement and appends the next paid window.\<close>

fun append_paid_windows ::
  "string \<Rightarrow> string \<Rightarrow> go_env \<Rightarrow> string \<Rightarrow> uuid \<Rightarrow> time \<Rightarrow> time \<Rightarrow> string list \<Rightarrow> entitlement list \<Rightarrow> entitlement list result" where
  "append_paid_windows errGrace errPush env u sid notBefore endAt [] rows = Inr rows"
| "append_paid_windows errGrace errPush env u sid notBefore endAt (n # ns) rows =
     (case revoke_source (env_now env) u n EntitlementSourceGrace sid EntitlementRevokeSuperseded rows of
        Inl e \<Rightarrow> Inl (ErrWrap errGrace e)
      | Inr rows1 \<Rightarrow>
          (case push_window env u n notBefore endAt EntitlementSourceSubscription sid rows1 of
             Inl e \<Rightarrow> Inl (ErrWrap errPush e)
           | Inr (_, rows2) \<Rightarrow>
               append_paid_windows errGrace errPush (env_shift 1 env) u sid notBefore endAt ns rows2))"

text \<open>The entitlements of a renewed subscription: the next paid windows, then what a downgrade takes away.\<close>

definition renewal_entitlements ::
  "go_env \<Rightarrow> subscription \<Rightarrow> time \<Rightarrow> time \<Rightarrow> product \<Rightarrow> (product \<times> product) option \<Rightarrow> entitlement list \<Rightarrow>
     entitlement list result" where
  "renewal_entitlements env s startsAt endsAt product downgrade ents =
     (case append_paid_windows ''failed to clear grace entitlement on renewal'' ''failed to grant renewal entitlement''
             env (sub_UserID s) (sub_ID s) startsAt endsAt (map fst (prod_EntitlementsSpec product)) ents of
        Inl e \<Rightarrow> Inl e
      | Inr ents1 \<Rightarrow>
          (case downgrade of
             None \<Rightarrow> Inr ents1
           | Some (oldProduct, newProduct) \<Rightarrow>
               revoke_names (env_now env) (sub_UserID s) EntitlementSourceSubscription (sub_ID s) EntitlementRevokeDowngrade
                 (filter (\<lambda>n. n \<notin> set (map fst (prod_EntitlementsSpec newProduct)))
                    (map fst (prod_EntitlementsSpec oldProduct))) ents1))"

text \<open>The part of the renewal after its payment marker was written.\<close>

definition renewal_apply ::
  "lifecycle_cfg \<Rightarrow> go_env \<Rightarrow> RenewMembershipParams \<Rightarrow> subscription \<Rightarrow> price \<Rightarrow> (product \<times> product) option \<Rightarrow>
     billing_db \<Rightarrow> billing_db result" where
  "renewal_apply cfg env p s price downgrade db =
     (case renewal_period (env_now env) p s price of
        Inl e \<Rightarrow> Inl e
      | Inr (startsAt, endsAt) \<Rightarrow>
      (case sub_update ''failed to update subscription'' cfg (env_now env) (activated startsAt endsAt s) db of
         Inl e \<Rightarrow> Inl e
       | Inr db1 \<Rightarrow>
      (case (case downgrade of
               Some (_, newProduct) \<Rightarrow> Inr newProduct
             | None \<Rightarrow> map_sum (ErrWrap ''failed to get product for renewal'') id (ProductGetByID (price_ProductID price) db1)) of
         Inl e \<Rightarrow> Inl e
       | Inr product \<Rightarrow>
      (case renewal_entitlements (env_shift 2 env) s startsAt endsAt product downgrade (bdb_ents db1) of
         Inl e \<Rightarrow> Inl e
       | Inr ents \<Rightarrow>
           notify (env_uuid env 1) (sub_UserID s) ''premium_renewed''
             (case downgrade of
                None \<Rightarrow> []
              | Some (_, newProduct) \<Rightarrow>
                  [(''downgrade_applied'', ''true''), (''new_product'', prod_DisplayName newProduct)])
             (db1\<lparr>bdb_ents := ents\<rparr>)))))"

definition renewMembershipTx ::
  "lifecycle_cfg \<Rightarrow> go_env \<Rightarrow> RenewMembershipParams \<Rightarrow> billing_db \<Rightarrow> (bool \<times> billing_db) result" where
  "renewMembershipTx cfg env p db =
     (case renewal_subscription cfg p (bdb_subs db) of
        Inl e \<Rightarrow> Inl e
      | Inr s0 \<Rightarrow>
      (case assertActiveTransitionAllowed s0 ''renewal'' (rm_AllowTerminalReactivation p) of
         Inl e \<Rightarrow> Inl e
       | Inr _ \<Rightarrow>
      (case renewal_price s0 db of
         Inl e \<Rightarrow> Inl e
       | Inr (s1, price, downgrade) \<Rightarrow>
      (case renewal_marker env p s1 price db of
         Inl e \<Rightarrow> Inl e
       | Inr (created, db1) \<Rightarrow>
           if created then map_sum id (Pair True) (renewal_apply cfg env p s1 price downgrade db1)
           else Inr (False, db1)))))"

definition RenewMembership ::
  "lifecycle_cfg \<Rightarrow> go_env \<Rightarrow> RenewMembershipParams \<Rightarrow> billing_db \<Rightarrow> bool result \<times> billing_db" where
  "RenewMembership cfg env p db = run_in_tx (renewMembershipTx cfg env p) db"

section \<open>Reactivating\<close>

definition reactivateMembershipTx ::
  "lifecycle_cfg \<Rightarrow> go_env \<Rightarrow> ReactivateMembershipParams \<Rightarrow> time \<Rightarrow> billing_db \<Rightarrow> (subscription \<times> billing_db) result" where
  "reactivateMembershipTx cfg env p endsAt db =
     (let now = env_now env in
      case GetByProcessorSubscriptionID (ra_Processor p) (TrimSpace (ra_ProcessorSubscriptionID p)) (bdb_subs db) of
        Inl e \<Rightarrow> Inl (ErrWrap ''failed to get subscription for reactivation'' e)
      | Inr s0 \<Rightarrow>
      (case assertActiveTransitionAllowed s0 ''reactivation'' (ra_AllowTerminalReactivation p) of
         Inl e \<Rightarrow> Inl e
       | Inr _ \<Rightarrow>
      (case PriceGetByID (sub_PriceID s0) db of
         Inl e \<Rightarrow> Inl (ErrWrap ''failed to load subscription price'' e)
       | Inr price \<Rightarrow>
      (case ProductGetByID (price_ProductID price) db of
         Inl e \<Rightarrow> Inl (ErrWrap ''failed to load subscription product'' e)
       | Inr product \<Rightarrow>
      (let s1 = activated now endsAt s0 in
       case sub_update ''failed to update reactivated subscription'' cfg now s1 db of
         Inl e \<Rightarrow> Inl e
       | Inr db1 \<Rightarrow>
      (case append_paid_windows ''failed to clear grace entitlement on reactivation''
              ''failed to restore entitlement on reactivation''
              env (sub_UserID s1) (sub_ID s1) now endsAt (ent_names product) (bdb_ents db1) of
         Inl e \<Rightarrow> Inl e
       | Inr ents \<Rightarrow> Inr (s1, db1\<lparr>bdb_ents := ents\<rparr>)))))))"

definition ReactivateMembership ::
  "lifecycle_cfg \<Rightarrow> go_env \<Rightarrow> ReactivateMembershipParams \<Rightarrow> billing_db \<Rightarrow> subscription result \<times> billing_db" where
  "ReactivateMembership cfg env p db =
     (if TrimSpace (ra_ProcessorSubscriptionID p) = '''' then (Inl (ErrMsg ''processor subscription id is required''), db)
      else
        (case ra_CurrentPeriodEndsAt p of
           None \<Rightarrow> (Inl (ErrMsg ''reactivation requires a future paid-through period end''), db)
         | Some endsAt \<Rightarrow>
             if endsAt = time_zero \<or> \<not> endsAt > env_now env
             then (Inl (ErrMsg ''reactivation requires a future paid-through period end''), db)
             else run_in_tx (reactivateMembershipTx cfg env p endsAt) db))"


section \<open>Cancelling\<close>

definition cancel_subscription :: "CancelMembershipParams \<Rightarrow> subscription list \<Rightarrow> subscription result" where
  "cancel_subscription p rows =
     (case (ca_SubscriptionID p, ca_ProcessorSubscriptionID p, ca_Processor p) of
        (Some i, _, _) \<Rightarrow> map_sum (ErrWrap ''subscription not found'') id (SubGetByID i rows)
      | (None, Some pid, Some processor) \<Rightarrow>
          map_sum (ErrWrap ''subscription not found'') id (GetByProcessorSubscriptionID processor pid rows)
      | _ \<Rightarrow> Inl (ErrMsg ''either subscription_id or processor details must be provided''))"

definition cancelled :: "time \<Rightarrow> CancelMembershipParams \<Rightarrow> subscription \<Rightarrow> subscription" where
  "cancelled now p s =
     (let s1 = (if ca_RevokeAccess p
                then s\<lparr>sub_CurrentPeriodEndsAt := Some now,
                       sub_CurrentPeriodStartsAt :=
                         (case sub_CurrentPeriodStartsAt s of
                            None \<Rightarrow> None
                          | Some t \<Rightarrow> if \<not> t < now then Some (now - time_Second) else Some t)\<rparr>
                else s);
          endAt = (if ca_RevokeAccess p then now
                   else (case sub_CurrentPeriodEndsAt s of None \<Rightarrow> now | Some t \<Rightarrow> if t > now then t else now))
      in s1\<lparr>sub_Status := StatusCancelled, sub_EndedAt := Some endAt, sub_CancelType := Some (ca_CancelType p),
            sub_CancelFeedback := ca_CancelFeedback p, sub_CancelledAt := Some now\<rparr>)"

definition end_reason :: "CancelType \<Rightarrow> string" where
  "end_reason t =
     (case t of CancelTypeUser \<Rightarrow> ''user_cancel'' | CancelTypeExpired \<Rightarrow> ''expired''
      | CancelTypeMerchant \<Rightarrow> ''processor_cancel'' | CancelTypeChargeback \<Rightarrow> ''admin'' | CancelTypeUpgrade \<Rightarrow> ''admin'')"

definition cancelMembershipTx ::
  "lifecycle_cfg \<Rightarrow> go_env \<Rightarrow> CancelMembershipParams \<Rightarrow> billing_db \<Rightarrow> (unit \<times> billing_db) result" where
  "cancelMembershipTx cfg env p db =
     (let now = env_now env in
      case cancel_subscription p (bdb_subs db) of
        Inl e \<Rightarrow> Inl e
      | Inr s0 \<Rightarrow>
      (let s1 = cancelled now p s0 in
       case sub_update ''failed to update subscription'' cfg now s1 db of
         Inl e \<Rightarrow> Inl e
       | Inr db1 \<Rightarrow>
      (case (if ca_RevokeAccess p \<or>
                (case sub_CurrentPeriodEndsAt s1 of None \<Rightarrow> True | Some t \<Rightarrow> \<not> t > now)
             then revoke_all now (sub_UserID s1) EntitlementSourceSubscription (sub_ID s1)
                    (if ca_CancelType p = CancelTypeChargeback then EntitlementRevokeChargeback
                     else EntitlementRevokeAdmin) (bdb_ents db1)
             else Inr (bdb_ents db1)) of
         Inl e \<Rightarrow> Inl e
       | Inr ents \<Rightarrow>
           map_sum id (Pair ()) (notify (env_uuid env 0) (sub_UserID s1) ''premium_ended''
             [(''reason'', end_reason (ca_CancelType p))] (db1\<lparr>bdb_ents := ents\<rparr>)))))"

definition CancelMembership ::
  "lifecycle_cfg \<Rightarrow> go_env \<Rightarrow> CancelMembershipParams \<Rightarrow> billing_db \<Rightarrow> unit result \<times> billing_db" where
  "CancelMembership cfg env p db = run_in_tx (cancelMembershipTx cfg env p) db"

section \<open>Expiring\<close>

text \<open>The end of an expired or failed membership: its paid windows and its grace windows are revoked.\<close>

definition revoke_paid_and_grace :: "time \<Rightarrow> subscription \<Rightarrow> entitlement list \<Rightarrow> entitlement list result" where
  "revoke_paid_and_grace now s rows =
     (case revoke_all now (sub_UserID s) EntitlementSourceSubscription (sub_ID s) EntitlementRevokeDunning rows of
        Inl e \<Rightarrow> Inl e
      | Inr rows' \<Rightarrow>
          revoke_all now (sub_UserID s) EntitlementSourceGrace (sub_ID s) EntitlementRevokeDunning rows')"

definition expireMembershipTx ::
  "lifecycle_cfg \<Rightarrow> go_env \<Rightarrow> uuid \<Rightarrow> billing_db \<Rightarrow> (unit \<times> billing_db) result" where
  "expireMembershipTx cfg env i db =
     (let now = env_now env in
      case SubGetByID i (bdb_subs db) of
        Inl e \<Rightarrow> Inl (ErrWrap ''subscription not found'' e)
      | Inr s0 \<Rightarrow>
      (let s1 = s0\<lparr>sub_Status := StatusCancelled, sub_CancelledAt := Some now,
                   sub_CancelType := Some CancelTypeExpired, sub_EndedAt := Some now\<rparr> in
       case sub_update ''failed to update subscription'' cfg now s1 db of
         Inl e \<Rightarrow> Inl e
       | Inr db1 \<Rightarrow>
      (case revoke_paid_and_grace now s1 (bdb_ents db1) of
         Inl e \<Rightarrow> Inl e
       | Inr ents \<Rightarrow>
           map_sum id (Pair ()) (notify (env_uuid env 0) (sub_UserID s1) ''premium_ended''
             [(''reason'', ''expired'')] (db1\<lparr>bdb_ents := ents\<rparr>)))))"

definition ExpireMembership ::
  "lifecycle_cfg \<Rightarrow> go_env \<Rightarrow> uuid \<Rightarrow> billing_db \<Rightarrow> unit result \<times> billing_db" where
  "ExpireMembership cfg env i db = run_in_tx (expireMembershipTx cfg env i) db"

section \<open>Failing\<close>

text \<open>
  The new state of a subscription whose payment failed. \<^verbatim>\<open>Cancel\<close> is called for its effect only: when it
  returns an error the subscription stays as it is.
\<close>

definition failed_subscription :: "string \<Rightarrow> time \<Rightarrow> subscription \<Rightarrow> subscription" where
  "failed_subscription dunningMode now s =
     (if dunningMode = ''off'' then s\<lparr>sub_Status := StatusCancelled, sub_EndedAt := Some now\<rparr>
      else
        (let attempts = (case sub_RetryAttempts s of None \<Rightarrow> 1 | Some n \<Rightarrow> i64 (n + 1));
             s1 = s\<lparr>sub_Status := StatusPastDue, sub_LastRetryAt := Some now, sub_RetryAttempts := Some attempts\<rparr>
         in if attempts \<ge> MaxDunningFailures
            then (case Cancel now ''transaction_failure'' (Some CancelTypeExpired) s1 of Inl _ \<Rightarrow> s1 | Inr s2 \<Rightarrow> s2)
            else s1\<lparr>sub_NextRetryAt := Some (now + DunningInterval)\<rparr>))"

fun push_grace ::
  "go_env \<Rightarrow> string \<Rightarrow> uuid \<Rightarrow> time \<Rightarrow> time \<Rightarrow> string list \<Rightarrow> entitlement list \<Rightarrow> entitlement list result" where
  "push_grace env u sid notBefore graceUntil [] rows = Inr rows"
| "push_grace env u sid notBefore graceUntil (n # ns) rows =
     (case tx_logged (map_sum id snd (push_window env u n notBefore graceUntil EntitlementSourceGrace sid rows)) rows of
        Inl e \<Rightarrow> Inl e
      | Inr rows' \<Rightarrow> push_grace (env_shift 1 env) u sid notBefore graceUntil ns rows')"

text \<open>The grace windows that cover the time from the end of the paid term to the next retry.\<close>

definition grace_until_retry ::
  "lifecycle_cfg \<Rightarrow> go_env \<Rightarrow> subscription \<Rightarrow> entitlement list \<Rightarrow> entitlement list result" where
  "grace_until_retry cfg env s rows =
     (if IsNMIBacked (lc_nmi cfg) (sub_Processor s) \<and> sub_Status s = StatusPastDue
      then (case (sub_CurrentPeriodEndsAt s, sub_NextRetryAt s) of
              (Some paidEnd, Some graceUntil) \<Rightarrow>
                if graceUntil > paidEnd
                then push_grace env (sub_UserID s) (sub_ID s)
                       (if paidEnd > env_now env then paidEnd else env_now env) graceUntil
                       (ListDistinctEntitlementNamesBySource EntitlementSourceSubscription (sub_ID s) rows) rows
                else Inr rows
            | _ \<Rightarrow> Inr rows)
      else Inr rows)"

definition failMembershipTx ::
  "lifecycle_cfg \<Rightarrow> go_env \<Rightarrow> FailMembershipParams \<Rightarrow> billing_db \<Rightarrow> (SubscriptionStatus \<times> billing_db) result" where
  "failMembershipTx cfg env p db =
     (let now = env_now env in
      case fa_SubscriptionID p of
        None \<Rightarrow> Inl (NilDeref ''params.SubscriptionID'')
      | Some i \<Rightarrow>
      (case SubGetByID i (bdb_subs db) of
         Inl e \<Rightarrow> Inl (ErrWrap ''subscription not found'' e)
       | Inr s0 \<Rightarrow>
      (let s1 = failed_subscription (lc_dunningMode cfg) now s0 in
       case grace_until_retry cfg (env_shift 1 env) s1 (bdb_ents db) of
         Inl e \<Rightarrow> Inl e
       | Inr ents1 \<Rightarrow>
      (case sub_update ''failed to update subscription'' cfg now s1 (db\<lparr>bdb_ents := ents1\<rparr>) of
         Inl e \<Rightarrow> Inl e
       | Inr db1 \<Rightarrow>
      (case (if sub_Status s1 = StatusCancelled \<and> \<not> lc_expirationDisabled cfg
             then revoke_paid_and_grace now s1 (bdb_ents db1) else Inr (bdb_ents db1)) of
         Inl e \<Rightarrow> Inl e
       | Inr ents2 \<Rightarrow>
           map_sum id (Pair (sub_Status s1)) (notify (env_uuid env 0) (sub_UserID s1)
             (if sub_Status s1 = StatusCancelled then ''premium_ended'' else ''payment_method_failed'')
             (if sub_Status s1 = StatusCancelled then [(''reason'', ''expired'')] else [])
             (db1\<lparr>bdb_ents := ents2\<rparr>)))))))"

definition FailMembership ::
  "lifecycle_cfg \<Rightarrow> go_env \<Rightarrow> FailMembershipParams \<Rightarrow> billing_db \<Rightarrow> SubscriptionStatus result \<times> billing_db" where
  "FailMembership cfg env p db = run_in_tx (failMembershipTx cfg env p) db"

end
