(* ===== verification/Entitlement_Properties.thy ===== *)
theory Entitlement_Properties
  imports Entitlements
begin

text \<open>
  The properties of entitlement windows. The entitlements table is a \<open>constrained_table\<close>, its operations
  a \<open>tx_system\<close> whose invariant is that every constraint holds; so no user ever has two
  windows of one entitlement at once. Then the exact effect of appending, revoking and ending windows.
\<close>

section \<open>The table\<close>

lemma ent_clash_None:
  "ent_clash a b = None \<longleftrightarrow> ent_ID a \<noteq> ent_ID b \<and>
     (ent_key a = ent_key b \<longrightarrow>
        \<not> (ent_RevokedAt a = None \<and> ent_EndAt a = None \<and> ent_RevokedAt b = None \<and> ent_EndAt b = None) \<and>
        \<not> (ent_live a \<and> ent_live b \<and> periods_overlap a b))"
  by (auto simp: ent_clash_def)

lemma periods_overlap_sym: "periods_overlap a b \<longleftrightarrow> periods_overlap b a"
  by (auto simp: periods_overlap_def)

interpretation ents: constrained_table ent_check ent_clash
  by unfold_locales (auto simp: ent_clash_None periods_overlap_sym)

lemma ent_check_None:
  "ent_check e = None \<longleftrightarrow> ends_after (ent_StartAt e) e \<and>
     ((ent_RevokedAt e = None) = (ent_RevokeReason e = None)) \<and> ent_SourceID e \<noteq> None"
  by (auto simp: ent_check_def)

text \<open>Two live windows of one user and entitlement never cover the same moment.\<close>

lemma covers_overlap: "covers t a \<Longrightarrow> covers t b \<Longrightarrow> periods_overlap a b"
  by (auto simp: covers_def periods_overlap_def ends_after_def split: option.splits)

lemma one_window:
  assumes ok: "ents_ok rows" and a: "a \<in> set rows" "ent_live a" "covers t a"
    and b: "b \<in> set rows" "ent_live b" "covers t b" and key: "ent_key a = ent_key b"
  shows "a = b"
proof (rule ccontr)
  assume "a \<noteq> b"
  with ents.ok_pair [OF ok a(1) b(1)] have "ent_clash a b = None" by simp
  with a b key covers_overlap [OF a(3) b(3)] show False by (simp add: ent_clash_None)
qed

lemma ents_ok_distinct:
  assumes "ents_ok rows"
  shows "distinct (map ent_ID rows)"
proof -
  have "sorted_wrt (\<lambda>x y. ent_clash x y = None) rows" using assms by (simp add: tbl_ok_def)
  then show ?thesis by (induction rows) (auto simp: ent_clash_None)
qed

section \<open>Operations keep the constraints\<close>

datatype ent_op =
    EntInsert entitlement
  | EntEndActiveBySubscription uuid time time "EntitlementRevokeReason option"
  | EntExtendActiveBySubscription uuid time time
  | EntResumeBySubscription uuid time
  | EntEndActiveByPayment uuid time time "EntitlementRevokeReason option"
  | EntRevokeByID uuid time EntitlementRevokeReason
  | EntRevokeBySubscriptionAndName uuid string time EntitlementRevokeReason
  | EntSetEndAt bool uuid "time option" time
  | EntRevokeNow bool uuid time "EntitlementRevokeReason option" time
  | EntSoftDeleteGrace uuid time
  | EntEndGraceNow bool uuid time
  | EntPush go_env PushNewEntitlementParams
  | EntRevokeExisting bool time RevokeExistingEntitlementParams

fun ent_step :: "ent_op \<Rightarrow> entitlement list \<Rightarrow> (entitlement option \<times> entitlement list) result" where
  "ent_step (EntInsert e) rows = map_sum id (Pair None) (Insert e rows)"
| "ent_step (EntEndActiveBySubscription i x now r) rows = map_sum id (Pair None) (EndActiveBySubscription i x now r rows)"
| "ent_step (EntExtendActiveBySubscription i x now) rows = map_sum id (Pair None) (ExtendActiveBySubscription i x now rows)"
| "ent_step (EntResumeBySubscription i now) rows = map_sum id (Pair None) (ResumeBySubscription i now rows)"
| "ent_step (EntEndActiveByPayment i x now r) rows = map_sum id (Pair None) (EndActiveByPayment i x now r rows)"
| "ent_step (EntRevokeByID i now r) rows = map_sum id (Pair None) (RevokeByID i now r rows)"
| "ent_step (EntRevokeBySubscriptionAndName i n x r) rows = map_sum id (Pair None) (RevokeBySubscriptionAndName i n x r rows)"
| "ent_step (EntSetEndAt soft i x now) rows = map_sum id (Pair None) (SetEntitlementEndAtTx soft i x now rows)"
| "ent_step (EntRevokeNow soft i x r now) rows = map_sum id (Pair None) (RevokeEntitlementNowTx soft i x r now rows)"
| "ent_step (EntSoftDeleteGrace i now) rows = map_sum id (Pair None) (SoftDeleteGraceBySubscription i now rows)"
| "ent_step (EntEndGraceNow soft i now) rows = map_sum id (Pair None) (EndGraceNowBySubscription soft i now rows)"
| "ent_step (EntPush env p) rows = PushNewEntitlement env p rows"
| "ent_step (EntRevokeExisting soft now p) rows = map_sum id (Pair None) (RevokeExistingEntitlement soft now p rows)"

lemma Shift_ok:
  "ents_ok rows \<Longrightarrow> ShiftEntitlementTimeline u n from d now ex rows = Inr rows' \<Longrightarrow> ents_ok rows'"
  by (auto simp: ShiftEntitlementTimeline_def Let_def split: if_splits intro: ents.update_ok)

lemma SetEndAt_ok:
  "ents_ok rows \<Longrightarrow> SetEntitlementEndAtTx soft i x now rows = Inr rows' \<Longrightarrow> ents_ok rows'"
  by (auto simp: SetEntitlementEndAtTx_def split: if_splits sum.splits option.splits
      dest: ents.update_ok intro: Shift_ok ents.update_ok)

lemma RevokeNow_ok:
  "ents_ok rows \<Longrightarrow> RevokeEntitlementNowTx soft i x r now rows = Inr rows' \<Longrightarrow> ents_ok rows'"
  by (auto simp: RevokeEntitlementNowTx_def split: if_splits sum.splits option.splits
      dest: ents.update_ok intro: Shift_ok)

lemma extend_windows_ok:
  "ents_ok rows \<Longrightarrow> extend_windows x now es rows = Inr rows' \<Longrightarrow> ents_ok rows'"
  by (induction es arbitrary: rows)
     (auto split: if_splits sum.splits option.splits, blast intro: ents.update_ok Shift_ok)

lemma end_windows_ok:
  "ents_ok rows \<Longrightarrow> end_windows soft now es rows = Inr rows' \<Longrightarrow> ents_ok rows'"
  by (induction es arbitrary: rows) (auto split: sum.splits dest: SetEndAt_ok)

lemma Push_ok: "ents_ok rows \<Longrightarrow> PushNewEntitlement env p rows = Inr (r, rows') \<Longrightarrow> ents_ok rows'"
  by (auto simp: PushNewEntitlement_def Let_def split: if_splits sum.splits dest: ents.insert_ok)

lemma RevokeExisting_ok:
  "ents_ok rows \<Longrightarrow> RevokeExistingEntitlement soft now p rows = Inr rows' \<Longrightarrow> ents_ok rows'"
  by (auto simp: RevokeExistingEntitlement_def split: if_splits sum.splits dest: ents.update_ok)

lemma ent_step_ok:
  assumes "ents_ok rows" "ent_step op rows = Inr (r, rows')"
  shows "ents_ok rows'"
  using assms
  by (cases op)
     (auto simp: Insert_def EndActiveBySubscription_def ExtendActiveBySubscription_def ResumeBySubscription_def
       EndActiveByPayment_def RevokeByID_def RevokeBySubscriptionAndName_def SoftDeleteGraceBySubscription_def
       EndGraceNowBySubscription_def Let_def map_sum_Inr
       split: if_splits sum.splits option.splits
       dest: ents.insert_ok ents.update_ok extend_windows_ok SetEndAt_ok RevokeNow_ok end_windows_ok Push_ok RevokeExisting_ok)

interpretation timeline: tx_system ent_step "\<lambda>_ _. True" ents_ok
  by unfold_locales (rule ent_step_ok)

section \<open>Access\<close>

lemma IsEntitled_iff:
  "IsEntitled u n t rows \<longleftrightarrow> (\<exists>e \<in> set rows. ent_key e = (u, n) \<and> covers t e \<and> ent_live e)"
  by (simp add: IsEntitled_def list_ex_iff)

text \<open>
  In every state that the entitlement operations reach from a valid table, a user has at most one
  window of an entitlement at any moment, so access is decided by exactly that window.
\<close>

theorem one_window_per_moment:
  assumes "tx_reach ent_step (\<lambda>_ _. True) rows0 rows" "ents_ok rows0"
  shows "length (filter (\<lambda>e. ent_key e = (u, n) \<and> ent_live e \<and> covers t e) rows) = (if IsEntitled u n t rows then 1 else 0)"
proof -
  have ok: "ents_ok rows" by (rule timeline.reach_inv [OF assms])
  let ?P = "\<lambda>e. ent_key e = (u, n) \<and> ent_live e \<and> covers t e"
  have "distinct (filter ?P rows)" using ents_ok_distinct [OF ok] by (simp add: distinct_map)
  moreover have "a = b" if "a \<in> set (filter ?P rows)" "b \<in> set (filter ?P rows)" for a b
    using that one_window [OF ok, of a t b] by auto
  ultimately have "length (filter ?P rows) \<le> 1" by (rule distinct_all_eq)
  moreover have "filter ?P rows = [] \<longleftrightarrow> \<not> IsEntitled u n t rows"
    by (auto simp: IsEntitled_iff filter_empty_conv)
  ultimately show ?thesis by (cases "filter ?P rows") auto
qed

definition ex_ent :: "uuid \<Rightarrow> time \<Rightarrow> time option \<Rightarrow> entitlement" where
  "ex_ent i a b = \<lparr>ent_ID = i, ent_UserID = ''u'', ent_Entitlement = ''pro'', ent_StartAt = a, ent_EndAt = b,
     ent_SourceID = Some 5, ent_SourceType = EntitlementSourceSubscription, ent_RevokedAt = None,
     ent_RevokeReason = None, ent_CreatedAt = 1, ent_UpdatedAt = 1, ent_DeletedAt = None\<rparr>"

definition ex_ents :: "entitlement list" where
  "ex_ents = [ex_ent 1 10 (Some 20), ex_ent 2 20 (Some 40)]"

lemma ex_ents_ok: "ents_ok ex_ents"
  by code_simp

theorem one_window_per_moment_witness:
  "length (filter (\<lambda>e. ent_key e = (''u'', ''pro'') \<and> ent_live e \<and> covers 20 e) ex_ents) = 1"
proof -
  have "IsEntitled ''u'' ''pro'' 20 ex_ents" by code_simp
  with one_window_per_moment [OF tx_start ex_ents_ok, of "''u''" "''pro''" 20] show ?thesis by simp
qed

section \<open>Appending a window\<close>

lemma tail_end_ge:
  assumes "e \<in> set rows" "ent_key e = k" "ent_live e" "ent_EndAt e = Some x"
  shows "\<exists>t. tail_end k rows = Some t \<and> x \<le> t"
proof -
  let ?ends = "map (\<lambda>e. the (ent_EndAt e)) (filter (\<lambda>e. ent_key e = k \<and> ent_live e \<and> ent_EndAt e \<noteq> None) rows)"
  have "x \<in> set ?ends" using assms by (auto simp: image_iff intro!: exI [of _ e])
  then have "?ends \<noteq> []" "x \<le> Max (set ?ends)" by (auto simp del: set_map)
  then show ?thesis unfolding tail_end_def Let_def by (simp only: if_False simp_thms option.inject ex_simps)
qed

lemma push_start_ge:
  "now \<le> push_start now p rows"
  "push_NotBefore p = Some nb \<Longrightarrow> nb \<le> push_start now p rows"
  "tail_end (push_UserID p, push_Entitlement p) rows = Some t \<Longrightarrow> t \<le> push_start now p rows"
  by (auto simp: push_start_def Let_def split: option.splits)

lemma after_tail_no_overlap:
  "ent_EndAt e = Some x \<Longrightarrow> x \<le> ent_StartAt c \<Longrightarrow> \<not> periods_overlap c e"
  by (auto simp: periods_overlap_def ends_after_def)

lemma push_appends:
  assumes ok: "ents_ok rows" and valid: "push_validate p = Inr ()"
    and new: "env_uuid env 0 \<notin> set (map ent_ID rows)"
    and free: "push_Indefinite p \<Longrightarrow> \<not> list_ex (\<lambda>e. ent_key e = (push_UserID p, push_Entitlement p) \<and>
      ent_RevokedAt e = None \<and> ent_EndAt e = None \<and> ent_DeletedAt e \<noteq> None) rows"
  shows "\<exists>r rows'. PushNewEntitlement env p rows = Inr (r, rows') \<and> ents_ok rows' \<and>
    (case r of
       None \<Rightarrow> rows' = rows \<and>
         (list_ex (\<lambda>e. ent_key e = (push_UserID p, push_Entitlement p) \<and> ent_live e \<and> ent_EndAt e = None) rows \<or>
          (\<exists>x. push_EndAt p = Some x \<and> x \<le> push_start (env_now env) p rows))
     | Some c \<Rightarrow> rows' = rows @ [c] \<and> ent_key c = (push_UserID p, push_Entitlement p) \<and> ent_live c \<and>
         env_now env \<le> ent_StartAt c \<and> (\<forall>nb. push_NotBefore p = Some nb \<longrightarrow> nb \<le> ent_StartAt c) \<and>
         (\<forall>e \<in> set rows. ent_key e = ent_key c \<and> ent_live e \<longrightarrow> (\<exists>x. ent_EndAt e = Some x \<and> x \<le> ent_StartAt c)) \<and>
         (\<forall>u n t. IsEntitled u n t rows' \<longleftrightarrow> IsEntitled u n t rows \<or> ent_key c = (u, n) \<and> covers t c))"
proof -
  let ?k = "(push_UserID p, push_Entitlement p)" and ?s = "push_start (env_now env) p rows"
  have lock: "LockEntitlementTimeline (push_UserID p) (push_Entitlement p) = Inr ()"
    using valid by (auto simp: push_validate_def LockEntitlementTimeline_def Let_def split: if_splits)
  show ?thesis
  proof (cases "list_ex (\<lambda>e. ent_key e = ?k \<and> ent_live e \<and> ent_EndAt e = None) rows")
    case True
    then show ?thesis using ok valid lock by (simp add: PushNewEntitlement_def)
  next
    case False
    define noop where "noop \<longleftrightarrow> \<not> push_Indefinite p \<and> push_Duration p = None \<and>
      (case push_EndAt p of None \<Rightarrow> False | Some x \<Rightarrow> \<not> x > ?s)"
    define x where "x = (if push_Indefinite p then None else case push_Duration p of Some d \<Rightarrow> Some (?s + d) | None \<Rightarrow> push_EndAt p)"
    define c where "c = \<lparr>ent_ID = env_uuid env 0, ent_UserID = push_UserID p, ent_Entitlement = push_Entitlement p,
      ent_StartAt = ?s, ent_EndAt = x, ent_SourceID = Some (push_SourceID p), ent_SourceType = push_SourceType p,
      ent_RevokedAt = None, ent_RevokeReason = None, ent_CreatedAt = env_now env, ent_UpdatedAt = env_now env,
      ent_DeletedAt = None\<rparr>"
    have run: "PushNewEntitlement env p rows = (if noop then Inr (None, rows) else
      (case ent_insert c rows of Inl e \<Rightarrow> Inl e | Inr rows' \<Rightarrow> Inr (Some c, rows')))"
      unfolding PushNewEntitlement_def Let_def valid lock sum.case noop_def c_def x_def using False by simp
    show ?thesis
    proof (cases noop)
      case True
      then show ?thesis using ok run by (auto simp: noop_def split: option.splits)
    next
      case noopF: False
      have before: "\<exists>y. ent_EndAt e = Some y \<and> y \<le> ?s" if e: "e \<in> set rows" "ent_key e = ?k" "ent_live e" for e
      proof -
        obtain y where y: "ent_EndAt e = Some y" using False e by (auto simp: list_ex_iff)
        with tail_end_ge [OF e] push_start_ge(3) [of p rows _ "env_now env"] show ?thesis by fastforce
      qed
      have check: "ent_check c = None"
        using valid noopF by (auto simp: ent_check_None c_def ends_after_def x_def noop_def push_validate_def Let_def
            split: option.splits if_splits)
      have "ent_clash c e = None" if e: "e \<in> set rows" for e
      proof -
        have "ent_ID c \<noteq> ent_ID e" using new e by (auto simp: c_def)
        moreover have indef: "push_Indefinite p" if "ent_EndAt c = None"
          using that valid noopF
          by (auto simp: c_def x_def push_validate_def Let_def noop_def split: option.splits if_splits)
        have "\<not> (ent_EndAt c = None \<and> ent_RevokedAt e = None \<and> ent_EndAt e = None)" if "ent_key e = ?k"
          using that e False free indef unfolding list_ex_iff ent_live_def by blast
        moreover have "\<not> periods_overlap c e" if "ent_key c = ent_key e" "ent_live e"
          using before [OF e] that after_tail_no_overlap [of e _ c] by (auto simp: c_def)
        ultimately show ?thesis by (auto simp: ent_clash_None c_def)
      qed
      with check have ins: "ent_insert c rows = Inr (rows @ [c])"
        by (simp add: tbl_insert_Inr violation_None)
      have "ents_ok (rows @ [c])" by (rule ents.insert_ok [OF ok ins])
      moreover have "ent_key c = ?k" "ent_live c" "ent_StartAt c = ?s" by (simp_all add: c_def ent_live_def)
      ultimately show ?thesis
        using run noopF ins before push_start_ge(1) [of "env_now env" p rows]
          push_start_ge(2) [where now = "env_now env" and p = p and rows = rows]
        by (auto simp: IsEntitled_iff)
    qed
  qed
qed


definition ex_ent_env :: "time \<Rightarrow> nat \<Rightarrow> go_env" where
  "ex_ent_env now base = \<lparr>env_now = now, env_uuid = (\<lambda>i. base + i), env_uuid_String = (\<lambda>u. [])\<rparr>"

definition ex_push :: PushNewEntitlementParams where
  "ex_push = \<lparr>push_UserID = ''u'', push_Entitlement = ''pro'', push_NotBefore = None, push_Indefinite = False,
     push_Duration = Some 7, push_EndAt = None, push_SourceType = EntitlementSourceSubscription, push_SourceID = 5\<rparr>"


section \<open>Revoking\<close>

definition no_clash_more :: "entitlement \<Rightarrow> entitlement \<Rightarrow> bool" where
  "no_clash_more e e' \<longleftrightarrow> ent_ID e' = ent_ID e \<and> ent_key e' = ent_key e \<and>
     (ent_RevokedAt e' = None \<and> ent_EndAt e' = None \<longrightarrow> ent_RevokedAt e = None \<and> ent_EndAt e = None) \<and>
     (ent_live e' \<longrightarrow> ent_live e \<and> ent_StartAt e \<le> ent_StartAt e' \<and>
        (\<forall>t. ends_after t e' \<longrightarrow> ends_after t e))"

text \<open>A window that shrinks, or is revoked or deleted, conflicts with nothing new.\<close>

lemma no_clash_more:
  assumes "no_clash_more e e'" "ent_clash e x = None"
  shows "ent_clash e' x = None"
proof -
  have "ends_after a x \<Longrightarrow> b \<le> a \<Longrightarrow> ends_after b x" for a b :: time
    by (auto simp: ends_after_def split: option.splits)
  then have "periods_overlap e' x \<Longrightarrow> ent_live e' \<Longrightarrow> periods_overlap e x"
    using assms(1) unfolding no_clash_more_def periods_overlap_def by blast
  with assms show ?thesis unfolding no_clash_more_def ent_clash_None by auto
qed

lemma ent_update_shrink:
  assumes "ents_ok rows" "\<And>e. e \<in> set rows \<Longrightarrow> P e \<Longrightarrow> ent_check (f e) = None \<and> no_clash_more e (f e)"
  shows "ent_update P f rows = Inr (sql_update P f rows) \<and> ents_ok (sql_update P f rows)"
proof -
  have "ent_update P f rows = Inr (sql_update P f rows)"
    by (rule ents.update_succeeds [OF assms(1)]) (use assms(2) no_clash_more in blast)+
  with ents.update_ok [OF assms(1)] show ?thesis by blast
qed

lemma revoked_row:
  assumes "ent_check e = None"
  shows "ent_check (e\<lparr>ent_RevokedAt := Some t, ent_RevokeReason := Some r, ent_UpdatedAt := u\<rparr>) = None \<and>
    no_clash_more e (e\<lparr>ent_RevokedAt := Some t, ent_RevokeReason := Some r, ent_UpdatedAt := u\<rparr>)"
  using assms by (auto simp: ent_check_None no_clash_more_def ent_live_def ends_after_def)

lemma deleted_row:
  assumes "ent_check e = None"
  shows "ent_check (e\<lparr>ent_DeletedAt := Some t, ent_UpdatedAt := u\<rparr>) = None \<and>
    no_clash_more e (e\<lparr>ent_DeletedAt := Some t, ent_UpdatedAt := u\<rparr>)"
  using assms by (auto simp: ent_check_None no_clash_more_def ent_live_def ends_after_def)

lemma IsEntitled_update_other:
  assumes "\<And>e. P e \<Longrightarrow> ent_key e = k \<and> ent_key (f e) = k" "(u, n) \<noteq> k"
  shows "IsEntitled u n t (sql_update P f rows) = IsEntitled u n t rows"
proof (induction rows)
  case (Cons e rows)
  then show ?case using assms(1) [of e] assms(2) by (auto simp: IsEntitled_def)
qed simp

text \<open>
  Revoking an entitlement by user and name always succeeds on a valid table and takes all access
  away from now on: the active window is revoked, the scheduled windows are deleted, and no other
  user or entitlement is affected at any moment.
\<close>

theorem RevokeExistingEntitlement_removes_access:
  assumes ok: "ents_ok rows" and names: "u \<noteq> []" "n \<noteq> []"
    and p: "p = \<lparr>rev_EntitlementID = None, rev_UserID = u, rev_Entitlement = n, rev_SourceType = None,
      rev_SourceID = None, rev_Reason = reason\<rparr>"
  shows "\<exists>rows'. RevokeExistingEntitlement soft now p rows = Inr rows' \<and> ents_ok rows' \<and>
    (\<forall>t. now \<le> t \<longrightarrow> \<not> IsEntitled u n t rows') \<and>
    (\<forall>u' n' t. (u', n') \<noteq> (u, n) \<longrightarrow> IsEntitled u' n' t rows' = IsEntitled u' n' t rows)"
proof -
  let ?P1 = "\<lambda>e. ent_key e = (u, n) \<and> ent_live e \<and> covers now e \<and> rev_source p e"
  let ?f1 = "\<lambda>e. e\<lparr>ent_RevokedAt := Some now, ent_RevokeReason := Some reason, ent_UpdatedAt := now\<rparr>"
  let ?P2 = "\<lambda>e. ent_key e = (u, n) \<and> ent_live e \<and> ent_StartAt e > now \<and> rev_source p e"
  let ?f2 = "\<lambda>e. e\<lparr>ent_DeletedAt := Some now, ent_UpdatedAt := now\<rparr>"
  let ?rows1 = "sql_update ?P1 ?f1 rows" and ?rows2 = "sql_update ?P2 ?f2 (sql_update ?P1 ?f1 rows)"
  have s1: "ent_update ?P1 ?f1 rows = Inr ?rows1 \<and> ents_ok ?rows1"
    by (rule ent_update_shrink [OF ok]) (rule revoked_row, rule tbl_okD [OF ok])
  have s2: "ent_update ?P2 ?f2 ?rows1 = Inr ?rows2 \<and> ents_ok ?rows2"
    by (rule ent_update_shrink [OF conjunct2 [OF s1]]) (rule deleted_row, rule tbl_okD [OF conjunct2 [OF s1]])
  have run: "RevokeExistingEntitlement soft now p rows = Inr ?rows2"
    using s1 s2 names unfolding RevokeExistingEntitlement_def by (simp add: p LockEntitlementTimeline_def)
  have src: "rev_source p e" for e by (simp add: p rev_source_def)
  have "\<not> IsEntitled u n t ?rows2" if t: "now \<le> t" for t
  proof
    assume "IsEntitled u n t ?rows2"
    then obtain x where x: "x \<in> set ?rows2" "ent_key x = (u, n)" "covers t x" "ent_live x"
      unfolding IsEntitled_iff by blast
    from x(1) obtain y where y: "y \<in> set ?rows1" "x = (if ?P2 y then ?f2 y else y)"
      unfolding set_sql_update by blast
    with x(4) have y2: "\<not> ?P2 y" "x = y" by (auto simp: ent_live_def split: if_splits)
    from y(1) obtain z where z: "x = (if ?P1 z then ?f1 z else z)"
      unfolding set_sql_update y2 by blast
    with x(4) have "\<not> ?P1 z" "x = z" by (auto simp: ent_live_def split: if_splits)
    with x y2 src t show False by (auto simp: covers_def ends_after_def split: option.splits)
  qed
  moreover have "IsEntitled u' n' t ?rows2 = IsEntitled u' n' t rows" if "(u', n') \<noteq> (u, n)" for u' n' t
    using that IsEntitled_update_other [of ?P2 "(u, n)" ?f2 u' n' t ?rows1]
      IsEntitled_update_other [of ?P1 "(u, n)" ?f1 u' n' t rows] by simp
  ultimately show ?thesis using run s2 by blast
qed

theorem RevokeExistingEntitlement_removes_access_witness:
  "\<exists>rows'. RevokeExistingEntitlement True 15 \<lparr>rev_EntitlementID = None, rev_UserID = ''u'', rev_Entitlement = ''pro'',
      rev_SourceType = None, rev_SourceID = None, rev_Reason = EntitlementRevokeFraud\<rparr> ex_ents = Inr rows' \<and>
    \<not> IsEntitled ''u'' ''pro'' 25 rows'"
proof -
  have "''u'' \<noteq> []" "''pro'' \<noteq> []" "(15::int) \<le> 25" by simp_all
  with RevokeExistingEntitlement_removes_access [OF ex_ents_ok this(1,2) refl, of True 15 EntitlementRevokeFraud]
  show ?thesis by blast
qed

section \<open>Moving the end of a window\<close>

lemma find_ent:
  assumes "ents_ok rows" "e \<in> set rows" "ent_live e"
  shows "getEntitlementByIDTx soft (ent_ID e) rows = Inr e"
proof -
  have "find (\<lambda>x. ent_ID x = ent_ID e \<and> (soft \<longrightarrow> ent_DeletedAt x = None)) rows = Some e"
    by (rule find_unique) (use assms ents_ok_distinct [OF assms(1)] in \<open>auto simp: ent_live_def distinct_map inj_on_def\<close>)
  then show ?thesis by (simp add: getEntitlementByIDTx_def sql_find_def)
qed

lemma update_by_id:
  assumes "ents_ok rows" "e \<in> set rows" "Q e"
  obtains xs ys where "rows = xs @ e # ys" "\<forall>x \<in> set (xs @ ys). ent_ID x \<noteq> ent_ID e"
    "ent_update (\<lambda>x. ent_ID x = ent_ID e \<and> Q x) f rows =
       (case violation ent_check ent_clash (f e) (xs @ ys) of
          Some c \<Rightarrow> Inl (ErrConstraint c) | None \<Rightarrow> Inr (xs @ f e # ys))"
proof -
  obtain xs ys where rows: "rows = xs @ e # ys" using assms(2) by (auto dest: split_list)
  have "ent_ID e \<notin> set (map ent_ID (xs @ ys))" using ents_ok_distinct [OF assms(1)] by (auto simp: rows)
  then have "\<forall>x \<in> set (xs @ ys). ent_ID x \<noteq> ent_ID e" by (auto simp: image_iff)
  with that [OF rows] tbl_update_single [of "\<lambda>x. ent_ID x = ent_ID e \<and> Q x" e xs ys ent_check ent_clash f] assms(3)
  show thesis by (auto simp: rows)
qed

lemma first_clash_Some: "first_clash clash r xs = Some c \<Longrightarrow> \<exists>x \<in> set xs. clash r x = Some c"
  by (induction xs) (auto split: option.splits)

text \<open>
  Extending a window never works while a later window of the same user and entitlement starts before
  the new end: the row is extended before the later windows are shifted, so the statement breaks the
  overlap constraint and nothing changes. The code means to shift the later windows out of the way.
\<close>

theorem SetEntitlementEndAtTx_extend_blocked:
  assumes ok: "ents_ok rows" and e: "e \<in> set rows" "ent_live e" "ent_EndAt e = Some oldEnd"
    and w: "w \<in> set rows" "ent_live w" "ent_key w = ent_key e" "w \<noteq> e" "ent_StartAt e < ent_StartAt w" "ent_StartAt w < newEnd"
    and names: "ent_UserID e \<noteq> []" "ent_Entitlement e \<noteq> []"
  shows "SetEntitlementEndAtTx soft (ent_ID e) (Some newEnd) now rows = Inl (ErrConstraint ''entitlements_no_overlap'')"
proof -
  let ?e = "e\<lparr>ent_EndAt := Some newEnd, ent_UpdatedAt := now\<rparr>"
  obtain xs ys where rows: "rows = xs @ e # ys" and ids: "\<forall>x \<in> set (xs @ ys). ent_ID x \<noteq> ent_ID e"
    and up: "ent_update (\<lambda>x. ent_ID x = ent_ID e \<and> ent_live x) (\<lambda>x. x\<lparr>ent_EndAt := Some newEnd, ent_UpdatedAt := now\<rparr>) rows =
       (case violation ent_check ent_clash ?e (xs @ ys) of Some c \<Rightarrow> Inl (ErrConstraint c) | None \<Rightarrow> Inr (xs @ ?e # ys))"
    by (rule update_by_id [of rows e ent_live "\<lambda>x. x\<lparr>ent_EndAt := Some newEnd, ent_UpdatedAt := now\<rparr>", OF ok e(1,2)])
  have check: "ent_check ?e = None"
    using tbl_okD [OF ok e(1)] w(5,6) by (auto simp: ent_check_None ends_after_def)
  have wm: "w \<in> set (xs @ ys)" using w(1,4) rows by auto

  have start: "ends_after (ent_StartAt e) w"
    using tbl_okD [OF ok w(1)] w(5) by (auto simp: ent_check_None ends_after_def split: option.splits)
  have "periods_overlap ?e w" "ent_live ?e"
    using start w(6) e(2) by (simp_all add: periods_overlap_def ends_after_def ent_live_def)
  then have ov: "ent_clash ?e w = Some ''entitlements_no_overlap''"
    using bspec [OF ids wm] w(2,3) by (simp add: ent_clash_def)
  have only: "c = ''entitlements_no_overlap''" if "x \<in> set (xs @ ys)" "ent_clash ?e x = Some c" for x c
    using bspec [OF ids that(1)] that(2) by (simp add: ent_clash_def split: if_splits)
  have "violation ent_check ent_clash ?e (xs @ ys) = Some ''entitlements_no_overlap''"
  proof (cases "first_clash ent_clash ?e (xs @ ys)")
    case None
    with wm ov show ?thesis unfolding first_clash_None by fastforce
  next
    case (Some c)
    obtain x where "x \<in> set (xs @ ys)" "ent_clash ?e x = Some c" using first_clash_Some [OF Some] by blast
    then have "c = ''entitlements_no_overlap''" by (rule only)
    with Some check show ?thesis by (simp add: violation_def)
  qed
  with up w(5,6) names e(2) show ?thesis
    by (simp add: SetEntitlementEndAtTx_def find_ent [OF ok e(1,2)] LockEntitlementTimeline_def)
qed

theorem SetEntitlementEndAtTx_extend_blocked_witness:
  "SetEntitlementEndAtTx True 1 (Some 30) 15 ex_ents = Inl (ErrConstraint ''entitlements_no_overlap'')"
proof -
  have "SetEntitlementEndAtTx True (ent_ID (ex_ent 1 10 (Some 20))) (Some 30) 15 ex_ents = Inl (ErrConstraint ''entitlements_no_overlap'')"
    by (rule SetEntitlementEndAtTx_extend_blocked [OF ex_ents_ok, of _ 20 "ex_ent 2 20 (Some 40)"])
       (simp_all add: ex_ents_def ex_ent_def ent_live_def)
  then show ?thesis by (simp add: ex_ent_def)
qed

lemma ended_row:
  assumes "ent_check e = None" "ends_after x e" "ent_StartAt e < x"
  shows "ent_check (e\<lparr>ent_EndAt := Some x, ent_UpdatedAt := now\<rparr>) = None \<and>
      no_clash_more e (e\<lparr>ent_EndAt := Some x, ent_UpdatedAt := now\<rparr>)"
    and "ent_check (e\<lparr>ent_EndAt := Some x, ent_UpdatedAt := now, ent_RevokedAt := Some now, ent_RevokeReason := Some r\<rparr>) = None \<and>
      no_clash_more e (e\<lparr>ent_EndAt := Some x, ent_UpdatedAt := now, ent_RevokedAt := Some now, ent_RevokeReason := Some r\<rparr>)"
  using assms by (auto simp: ent_check_None no_clash_more_def ent_live_def ends_after_def split: option.splits)

definition sub_window :: "uuid \<Rightarrow> entitlement \<Rightarrow> bool" where
  "sub_window i e \<longleftrightarrow> by_source EntitlementSourceSubscription i e \<and> ent_live e"

text \<open>
  Ending the windows of a subscription fails, changing nothing, exactly when one of them would start at or
  after the new end. Otherwise it succeeds: no live window of the subscription reaches past the new
  end, and the windows that are not cut are untouched.
\<close>

theorem EndActiveBySubscription_ends:
  assumes ok: "ents_ok rows"
  shows "if list_ex (\<lambda>e. sub_window i e \<and> ends_after x e \<and> x \<le> ent_StartAt e) rows
    then EndActiveBySubscription i x now reason rows = Inl (ErrMsg ''cannot set end_at'')
    else \<exists>rows'. EndActiveBySubscription i x now reason rows = Inr rows' \<and> ents_ok rows' \<and>
      (\<forall>e \<in> set rows'. sub_window i e \<longrightarrow> \<not> ends_after x e) \<and>
      (\<forall>e \<in> set rows. sub_window i e \<and> ends_after x e \<or> e \<in> set rows')"
proof -
  define P where "P = (\<lambda>e. by_source EntitlementSourceSubscription i e \<and> ent_live e \<and> ends_after x e)"
  define f :: "entitlement \<Rightarrow> entitlement" where "f = (\<lambda>e. case reason of
      None \<Rightarrow> e\<lparr>ent_EndAt := Some x, ent_UpdatedAt := now\<rparr>
    | Some _ \<Rightarrow> e\<lparr>ent_EndAt := Some x, ent_UpdatedAt := now, ent_RevokedAt := Some now, ent_RevokeReason := reason\<rparr>)"
  have run: "EndActiveBySubscription i x now reason rows =
    (if filter (\<lambda>e. P e \<and> ent_StartAt e \<ge> x) rows \<noteq> [] then Inl (ErrMsg ''cannot set end_at'') else ent_update P f rows)"
    by (simp add: EndActiveBySubscription_def P_def f_def)
  have eq: "list_ex (\<lambda>e. sub_window i e \<and> ends_after x e \<and> x \<le> ent_StartAt e) rows \<longleftrightarrow>
    filter (\<lambda>e. P e \<and> ent_StartAt e \<ge> x) rows \<noteq> []"
    by (auto simp: list_ex_iff filter_empty_conv P_def sub_window_def)
  show ?thesis
  proof (cases "filter (\<lambda>e. P e \<and> ent_StartAt e \<ge> x) rows = []")
    case True
    have "ent_check (f e) = None \<and> no_clash_more e (f e)" if "e \<in> set rows" "P e" for e
      using that True ended_row(1) [of e x now] ended_row(2) [of e x _ now] tbl_okD [OF ok, of e]
      by (auto simp: f_def P_def filter_empty_conv not_le split: option.splits)
    from ent_update_shrink [OF ok this] have up: "ent_update P f rows = Inr (sql_update P f rows)"
      "ents_ok (sql_update P f rows)" by simp_all
    have "\<not> (sub_window i e' \<and> ends_after x e')" if "e' = (if P e then f e else e)" for e e'
      using that by (auto simp: sub_window_def P_def f_def ends_after_def by_source_def split: option.splits if_splits)
    then have "\<forall>e \<in> set (sql_update P f rows). sub_window i e \<longrightarrow> \<not> ends_after x e"
      unfolding set_sql_update by blast
    moreover have "\<forall>e \<in> set rows. sub_window i e \<and> ends_after x e \<or> e \<in> set (sql_update P f rows)"
      by (force simp: set_sql_update sub_window_def P_def)
    ultimately show ?thesis using True up run eq by auto
  next
    case False
    then show ?thesis using run eq by simp
  qed
qed

theorem EndActiveBySubscription_ends_witness:
  "\<exists>rows'. EndActiveBySubscription 5 30 15 None ex_ents = Inr rows' \<and>
     (\<forall>e \<in> set rows'. sub_window 5 e \<longrightarrow> \<not> ends_after 30 e)"
proof -
  have "\<not> list_ex (\<lambda>e. sub_window 5 e \<and> ends_after 30 e \<and> 30 \<le> ent_StartAt e) ex_ents" by code_simp
  with EndActiveBySubscription_ends [OF ex_ents_ok, of 5 30 15 None] show ?thesis by auto
qed

section \<open>Shifting\<close>

lemma whole_seconds_bounds:
  assumes "d < 0"
  shows "d \<le> whole_seconds d * time_Second" "whole_seconds d * time_Second < d + time_Second"
proof -
  have "(- d) div time_Second * time_Second + (- d) mod time_Second = - d" by (rule div_mult_mod_eq)
  moreover have "0 \<le> (- d) mod time_Second" "(- d) mod time_Second < time_Second"
    by (simp_all add: time_Second_def)
  moreover have "whole_seconds d * time_Second = - ((- d) div time_Second * time_Second)"
    using assms by (simp add: whole_seconds_def)
  ultimately show "d \<le> whole_seconds d * time_Second" "whole_seconds d * time_Second < d + time_Second" by linarith+
qed

text \<open>
  Shortening a window moves the windows after it along, in whole seconds: on success the window that
  started where the old one ended keeps its length and starts at the new end or less than one second after it,
  so the access gap stays below a second.
\<close>

theorem SetEntitlementEndAtTx_shorten_gap:
  assumes ok: "ents_ok rows" and e: "e \<in> set rows" "ent_live e" "ent_EndAt e = Some oldEnd"
    and w: "w \<in> set rows" "ent_live w" "ent_key w = ent_key e" "ent_StartAt w = oldEnd"
    and new: "newEnd < oldEnd" "oldEnd - newEnd < 2 ^ 63"
    and run: "SetEntitlementEndAtTx soft (ent_ID e) (Some newEnd) now rows = Inr rows'"
  shows "\<exists>w' \<in> set rows'. ent_ID w' = ent_ID w \<and> newEnd \<le> ent_StartAt w' \<and> ent_StartAt w' < newEnd + time_Second \<and>
    map_option (\<lambda>t. t - ent_StartAt w') (ent_EndAt w') = map_option (\<lambda>t. t - ent_StartAt w) (ent_EndAt w)"
proof -
  let ?f = "\<lambda>x. x\<lparr>ent_EndAt := Some newEnd, ent_UpdatedAt := now\<rparr>"
  let ?d = "newEnd - oldEnd"
  let ?s = "whole_seconds ?d * time_Second"
  have sub: "time_Sub newEnd oldEnd = ?d" using new by (simp add: time_Sub_def)
  have ne: "w \<noteq> e"
    using w(4) e(3) tbl_okD [OF ok e(1)] by (auto simp: ent_check_None ends_after_def)
  have id: "ent_ID w \<noteq> ent_ID e"
    using ents.ok_pair [OF ok w(1) e(1) ne] by (simp add: ent_clash_None)
  from run obtain rows1 where up: "ent_update (\<lambda>x. ent_ID x = ent_ID e \<and> ent_live x) ?f rows = Inr rows1"
    and sh: "ShiftEntitlementTimeline (ent_UserID e) (ent_Entitlement e) oldEnd ?d now [ent_ID e] rows1 = Inr rows'"
    using e(2,3) new(1) by (auto simp: SetEntitlementEndAtTx_def find_ent [OF ok e(1,2)] sub split: sum.splits if_splits)
  have w1: "w \<in> set rows1" using tbl_update_Inr [OF up] w(1) id by (force simp: set_sql_update)
  have bounds: "?d \<le> ?s" "?s < ?d + time_Second" using whole_seconds_bounds [of ?d] new(1) by simp_all
  show ?thesis
  proof (cases "whole_seconds ?d = 0")
    case True
    with sh have "rows' = rows1" by (auto simp: ShiftEntitlementTimeline_def Let_def split: if_splits)
    with w1 w(4) bounds True show ?thesis by (intro bexI [of _ w]) auto
  next
    case False
    let ?g = "\<lambda>x. x\<lparr>ent_StartAt := ent_StartAt x + ?s, ent_EndAt := map_option (\<lambda>t. t + ?s) (ent_EndAt x), ent_UpdatedAt := now\<rparr>"
    let ?P = "\<lambda>x. ent_key x = (ent_UserID e, ent_Entitlement e) \<and> ent_live x \<and> oldEnd \<le> ent_StartAt x \<and> ent_ID x \<notin> set [ent_ID e]"
    have "ent_update ?P ?g rows1 = Inr rows'"
      using sh False new(1) by (simp add: ShiftEntitlementTimeline_def Let_def)
    then have rows': "rows' = sql_update ?P ?g rows1" by (rule tbl_update_Inr)
    have "?P w" using w id by simp
    with w1 have "?g w \<in> set rows'" unfolding rows' set_sql_update image_iff by (intro bexI [of _ w]) simp_all
    then show ?thesis using bounds w(4) by (intro bexI [of _ "?g w"]) (auto simp: option.map_comp comp_def)
  qed
qed

theorem SetEntitlementEndAtTx_shorten_gap_witness:
  "\<exists>rows'. SetEntitlementEndAtTx True 1 (Some 15) 12 ex_ents = Inr rows' \<and>
     (\<exists>w' \<in> set rows'. ent_ID w' = 2 \<and> 15 \<le> ent_StartAt w' \<and> ent_StartAt w' < 15 + time_Second)"
proof -
  have "\<not> isl (SetEntitlementEndAtTx True (ent_ID (ex_ent 1 10 (Some 20))) (Some 15) 12 ex_ents)" by code_simp
  then obtain rows' where r: "SetEntitlementEndAtTx True (ent_ID (ex_ent 1 10 (Some 20))) (Some 15) 12 ex_ents = Inr rows'"
    by (auto simp: isl_def) (metis sum.exhaust)
  from SetEntitlementEndAtTx_shorten_gap [OF ex_ents_ok _ _ _ _ _ _ _ _ _ r, of 20 "ex_ent 2 20 (Some 40)"]
  have "\<exists>w' \<in> set rows'. ent_ID w' = 2 \<and> 15 \<le> ent_StartAt w' \<and> ent_StartAt w' < 15 + time_Second"
    by (auto simp: ex_ents_def ex_ent_def ent_live_def)
  with r show ?thesis by (simp add: ex_ent_def)
qed

end
