(* ===== verification/Lifecycle_Properties.thy ===== *)
theory Lifecycle_Properties
  imports Lifecycle Entitlement_Properties
begin

text \<open>
  The subscription lifecycle is correct: its six methods keep the constraints of the tables they write, a renewal is
  applied once per processor transaction and pays for the access it promises, an ended membership loses its access,
  and a membership in dunning keeps it until the next retry. Three properties state where the code
  stops with an error: the mode without dunning, the fifth failed payment, and a panic on a standing window.
\<close>

section \<open>Constraints\<close>

lemma sub_clash_None:
  "sub_clash a b = None \<longleftrightarrow> sub_ID a \<noteq> sub_ID b \<and>
     (sub_UserID a = sub_UserID b \<longrightarrow>
        \<not> (sub_Status a = StatusActive \<and> sub_Status b = StatusActive) \<and>
        \<not> (sub_ProductID a = sub_ProductID b \<and> active_or_pending a \<and> active_or_pending b))"
  by (auto simp: sub_clash_def)

interpretation subs: constrained_table sub_check sub_clash
  by unfold_locales (auto simp: sub_clash_None)

definition billing_ok :: "billing_db \<Rightarrow> bool" where
  "billing_ok db \<longleftrightarrow> subs_ok (bdb_subs db) \<and> ents_ok (bdb_ents db) \<and> pays_ok (bdb_payments db) \<and>
     distinct (map nq_ID (bdb_notifications db))"

lemma tx_logged_Inr: "tx_logged r s = Inr s' \<longleftrightarrow> r = Inr s' \<or> s' = s \<and> (\<exists>e. r = Inl e \<and> \<not> is_sql_error e)"
  by (auto simp: tx_logged_def split: sum.splits if_splits)

lemma notify_Inr:
  "notify i u ev d db = Inr db' \<longleftrightarrow> i \<notin> set (map nq_ID (bdb_notifications db)) \<and>
     db' = db\<lparr>bdb_notifications := bdb_notifications db @ [\<lparr>nq_ID = i, nq_UserID = u, nq_EventType = ev, nq_Data = d, nq_Seen = False\<rparr>]\<rparr>"
  by (auto simp: notify_def tx_logged_def sql_insert_def split: if_splits)

lemma notify_ok: "billing_ok db \<Longrightarrow> notify i u ev d db = Inr db' \<Longrightarrow> billing_ok db'"
  by (auto simp: notify_Inr billing_ok_def)

lemma sub_update_Inr:
  assumes "sub_update msg cfg now s db = Inr db'"
  obtains rows where "db' = db\<lparr>bdb_subs := rows\<rparr>"
    "tbl_update sub_check sub_clash (\<lambda>r. sub_ID r = sub_ID s)
       (\<lambda>r. (sub_row (lc_nz cfg) s)\<lparr>sub_UserID := sub_UserID r, sub_CreatedAt := sub_CreatedAt r, sub_UpdatedAt := now\<rparr>)
       (bdb_subs db) = Inr rows"
  using assms by (auto simp: sub_update_def SubscriptionRepoUpdate_def Let_def split: sum.splits if_splits)

lemma sub_update_ok: "billing_ok db \<Longrightarrow> sub_update msg cfg now s db = Inr db' \<Longrightarrow> billing_ok db'"
  by (erule sub_update_Inr) (auto simp: billing_ok_def dest: subs.update_ok)

lemma SubscriptionServiceCreate_ok:
  "subs_ok rows \<Longrightarrow> SubscriptionServiceCreate nz s rows = Inr rows' \<Longrightarrow> subs_ok rows'"
  by (auto simp: SubscriptionServiceCreate_def SubscriptionRepoCreate_def
      split: sum.splits go_error.splits if_splits dest: subs.insert_ok)

lemma pay_insert_pays_ok: "pays_ok rows \<Longrightarrow> pay_insert now p rows = Inr rows' \<Longrightarrow> pays_ok rows'"
  by (auto simp: pay_insert_def Let_def split: if_splits intro: pays.insert_ok)

lemma CreateIfNotExists_pays_ok:
  "pays_ok rows \<Longrightarrow> CreateIfNotExists now p rows = Inr (b, rows') \<Longrightarrow> pays_ok rows'"
  by (auto simp: CreateIfNotExists_def split: if_splits sum.splits intro: pay_insert_pays_ok)

lemma push_window_ok:
  "ents_ok rows \<Longrightarrow> push_window env u n a b st sid rows = Inr (w, rows') \<Longrightarrow> ents_ok rows'"
  unfolding push_window_def by (rule Push_ok)

lemma revoke_source_ok: "ents_ok rows \<Longrightarrow> revoke_source now u n st sid r rows = Inr rows' \<Longrightarrow> ents_ok rows'"
  unfolding revoke_source_def by (rule RevokeExisting_ok)

lemma revoke_names_ok: "ents_ok rows \<Longrightarrow> revoke_names now u st sid r ns rows = Inr rows' \<Longrightarrow> ents_ok rows'"
proof (induction ns arbitrary: rows)
  case (Cons n ns)
  from Cons.prems(2) obtain rows1 where "tx_logged (revoke_source now u n st sid r rows) rows = Inr rows1"
    and rest: "revoke_names now u st sid r ns rows1 = Inr rows'" by (auto split: sum.splits)
  then have "ents_ok rows1" using Cons.prems(1) by (auto simp: tx_logged_Inr dest: revoke_source_ok)
  with rest show ?case by (rule Cons.IH [rotated])
qed simp

lemma revoke_all_ok: "ents_ok rows \<Longrightarrow> revoke_all now u st sid r rows = Inr rows' \<Longrightarrow> ents_ok rows'"
  unfolding revoke_all_def by (rule revoke_names_ok)

lemma revoke_paid_and_grace_ok: "ents_ok rows \<Longrightarrow> revoke_paid_and_grace now s rows = Inr rows' \<Longrightarrow> ents_ok rows'"
  by (auto simp: revoke_paid_and_grace_def split: sum.splits dest: revoke_all_ok)

lemma append_paid_windows_ok:
  "ents_ok rows \<Longrightarrow> append_paid_windows eg ep env u sid a b ns rows = Inr rows' \<Longrightarrow> ents_ok rows'"
  by (induction ns arbitrary: rows env)
     (auto split: sum.splits prod.splits, blast intro: revoke_source_ok push_window_ok)

lemma grant_entitlements_ok:
  "ents_ok rows \<Longrightarrow> grant_entitlements env u sid a b ns rows = Inr rows' \<Longrightarrow> ents_ok rows'"
  by (induction ns arbitrary: rows env)
     (auto split: sum.splits prod.splits option.splits if_splits dest: push_window_ok)

lemma push_grace_ok: "ents_ok rows \<Longrightarrow> push_grace env u sid a b ns rows = Inr rows' \<Longrightarrow> ents_ok rows'"
proof (induction ns arbitrary: rows env)
  case (Cons n ns)
  from Cons.prems(2) obtain rows1
    where "tx_logged (map_sum id snd (push_window env u n a b EntitlementSourceGrace sid rows)) rows = Inr rows1"
    and rest: "push_grace (env_shift 1 env) u sid a b ns rows1 = Inr rows'" by (auto split: sum.splits)
  then have "ents_ok rows1"
    using Cons.prems(1) push_window_ok [OF Cons.prems(1)] by (auto simp: tx_logged_Inr map_sum_Inr)
  with rest show ?case by (rule Cons.IH [rotated])
qed simp

lemma grace_until_retry_ok: "ents_ok rows \<Longrightarrow> grace_until_retry cfg env s rows = Inr rows' \<Longrightarrow> ents_ok rows'"
  by (auto simp: grace_until_retry_def split: if_splits option.splits dest: push_grace_ok)


section \<open>The methods as transactions\<close>

lemma renewal_marker_ok: "billing_ok db \<Longrightarrow> renewal_marker env p s price db = Inr (b, db') \<Longrightarrow> billing_ok db'"
  by (auto simp: renewal_marker_def Let_def billing_ok_def split: if_splits sum.splits dest: CreateIfNotExists_pays_ok)

lemma billing_ok_ents: "billing_ok db \<Longrightarrow> ents_ok ents \<Longrightarrow> billing_ok (db\<lparr>bdb_ents := ents\<rparr>)"
  by (simp add: billing_ok_def)

lemma billing_ok_entsD: "billing_ok db \<Longrightarrow> ents_ok (bdb_ents db)"
  by (simp add: billing_ok_def)

lemma create_subscription_ok:
  "billing_ok db \<Longrightarrow> create_subscription cfg env p price x db = Inr (s, db') \<Longrightarrow> billing_ok db'"
  by (auto simp: create_subscription_def Let_def split: sum.splits dest: sub_update_ok)
     (auto simp: billing_ok_def dest: SubscriptionServiceCreate_ok)

lemma create_payment_ok: "billing_ok db \<Longrightarrow> create_payment env p price s db = Inr db' \<Longrightarrow> billing_ok db'"
  by (auto simp: create_payment_def Let_def tx_logged_Inr map_sum_Inr PaymentCreate_def billing_ok_def
      split: if_splits dest: pay_insert_pays_ok)

lemma createMembershipCore_Inr:
  assumes "createMembershipCore cfg env p db = Inr (s, db')"
  obtains price db1 product ents db2 where "PriceGetByID (cm_PriceID p) db = Inr price"
    "create_subscription cfg env p price (membership_period (env_now env) (cm_CurrentPeriodEndsAt p) price) db = Inr (s, db1)"
    "ProductGetByID (price_ProductID price) db1 = Inr product"
    "grant_entitlements (env_shift 3 env) (cm_UserID p) (sub_ID s) (env_now env)
       (membership_period (env_now env) (cm_CurrentPeriodEndsAt p) price) (ent_names product) (bdb_ents db1) = Inr ents"
    "notify (env_uuid env 1) (cm_UserID p) ''premium_started'' [] (db1\<lparr>bdb_ents := ents\<rparr>) = Inr db2"
    "create_payment env p price s db2 = Inr db'"
  using assms unfolding createMembershipCore_def Let_def by (auto split: sum.splits prod.splits if_splits)

lemma renewal_apply_Inr:
  assumes "renewal_apply cfg env p s price downgrade db = Inr db'"
  obtains startsAt endsAt db1 product ents d where "renewal_period (env_now env) p s price = Inr (startsAt, endsAt)"
    "sub_update ''failed to update subscription'' cfg (env_now env) (activated startsAt endsAt s) db = Inr db1"
    "(case downgrade of Some (_, newProduct) \<Rightarrow> Inr newProduct
      | None \<Rightarrow> map_sum (ErrWrap ''failed to get product for renewal'') id (ProductGetByID (price_ProductID price) db1)) = Inr product"
    "renewal_entitlements (env_shift 2 env) s startsAt endsAt product downgrade (bdb_ents db1) = Inr ents"
    "notify (env_uuid env 1) (sub_UserID s) ''premium_renewed'' d (db1\<lparr>bdb_ents := ents\<rparr>) = Inr db'"
  using assms unfolding renewal_apply_def by (auto split: sum.split_asm prod.split_asm)

lemma renewMembershipTx_Inr:
  assumes "renewMembershipTx cfg env p db = Inr (applied, db')"
  obtains s0 s1 price downgrade db1 where "renewal_subscription cfg p (bdb_subs db) = Inr s0"
    "assertActiveTransitionAllowed s0 ''renewal'' (rm_AllowTerminalReactivation p) = Inr ()"
    "renewal_price s0 db = Inr (s1, price, downgrade)" "renewal_marker env p s1 price db = Inr (applied, db1)"
    "if applied then renewal_apply cfg env p s1 price downgrade db1 = Inr db' else db' = db1"
  using assms unfolding renewMembershipTx_def
  by (auto split: sum.split_asm prod.split_asm if_split_asm simp: map_sum_Inr)


lemma renewal_entitlements_ok:
  "ents_ok rows \<Longrightarrow> renewal_entitlements env s a b product downgrade rows = Inr rows' \<Longrightarrow> ents_ok rows'"
  unfolding renewal_entitlements_def
  by (auto split: sum.split_asm option.split_asm dest: append_paid_windows_ok revoke_names_ok)

lemma createMembershipCore_ok:
  assumes "billing_ok db" "createMembershipCore cfg env p db = Inr (s, db')"
  shows "billing_ok db'"
  using assms(2)
proof (rule createMembershipCore_Inr)
  fix price db1 product ents db2
  assume "create_subscription cfg env p price (membership_period (env_now env) (cm_CurrentPeriodEndsAt p) price) db = Inr (s, db1)"
    and g: "grant_entitlements (env_shift 3 env) (cm_UserID p) (sub_ID s) (env_now env)
       (membership_period (env_now env) (cm_CurrentPeriodEndsAt p) price) (ent_names product) (bdb_ents db1) = Inr ents"
    and n: "notify (env_uuid env 1) (cm_UserID p) ''premium_started'' [] (db1\<lparr>bdb_ents := ents\<rparr>) = Inr db2"
    and c: "create_payment env p price s db2 = Inr db'"
  then have "billing_ok db1" using assms(1) by (blast intro: create_subscription_ok)
  then have "billing_ok (db1\<lparr>bdb_ents := ents\<rparr>)"
    using g by (blast intro: billing_ok_ents grant_entitlements_ok billing_ok_entsD)
  with n c show ?thesis by (blast intro: notify_ok create_payment_ok)
qed

lemma renewal_apply_ok:
  assumes "billing_ok db" "renewal_apply cfg env p s price downgrade db = Inr db'"
  shows "billing_ok db'"
  using assms(2)
proof (rule renewal_apply_Inr)
  fix startsAt endsAt db1 product ents d
  assume "sub_update ''failed to update subscription'' cfg (env_now env) (activated startsAt endsAt s) db = Inr db1"
    and r: "renewal_entitlements (env_shift 2 env) s startsAt endsAt product downgrade (bdb_ents db1) = Inr ents"
    and n: "notify (env_uuid env 1) (sub_UserID s) ''premium_renewed'' d (db1\<lparr>bdb_ents := ents\<rparr>) = Inr db'"
  then have "billing_ok db1" using assms(1) by (blast intro: sub_update_ok)
  then have "billing_ok (db1\<lparr>bdb_ents := ents\<rparr>)"
    using r by (blast intro: billing_ok_ents renewal_entitlements_ok billing_ok_entsD)
  with n show ?thesis by (blast intro: notify_ok)
qed

lemma renewMembershipTx_ok:
  "billing_ok db \<Longrightarrow> renewMembershipTx cfg env p db = Inr (applied, db') \<Longrightarrow> billing_ok db'"
  by (erule renewMembershipTx_Inr) (auto split: if_splits dest: renewal_marker_ok renewal_apply_ok)

lemma reactivateMembershipTx_Inr:
  assumes "reactivateMembershipTx cfg env p endsAt db = Inr (s, db')"
  obtains s0 price product db1 ents
  where "GetByProcessorSubscriptionID (ra_Processor p) (TrimSpace (ra_ProcessorSubscriptionID p)) (bdb_subs db) = Inr s0"
    "assertActiveTransitionAllowed s0 ''reactivation'' (ra_AllowTerminalReactivation p) = Inr ()"
    "s = activated (env_now env) endsAt s0"
    "sub_update ''failed to update reactivated subscription'' cfg (env_now env) s db = Inr db1"
    "append_paid_windows ''failed to clear grace entitlement on reactivation'' ''failed to restore entitlement on reactivation''
       env (sub_UserID s) (sub_ID s) (env_now env) endsAt (ent_names product) (bdb_ents db1) = Inr ents"
    "db' = db1\<lparr>bdb_ents := ents\<rparr>"
  using assms unfolding reactivateMembershipTx_def Let_def by (auto split: sum.split_asm)

lemma reactivateMembershipTx_ok:
  "billing_ok db \<Longrightarrow> reactivateMembershipTx cfg env p endsAt db = Inr (s, db') \<Longrightarrow> billing_ok db'"
  by (erule reactivateMembershipTx_Inr) (blast intro: billing_ok_ents append_paid_windows_ok billing_ok_entsD sub_update_ok)

definition ends_now :: "time \<Rightarrow> CancelMembershipParams \<Rightarrow> subscription \<Rightarrow> bool" where
  "ends_now now p s \<longleftrightarrow> ca_RevokeAccess p \<or> (case sub_CurrentPeriodEndsAt s of None \<Rightarrow> True | Some t \<Rightarrow> t \<le> now)"

lemma cancelMembershipTx_eq:
  "cancelMembershipTx cfg env p db =
     (case cancel_subscription p (bdb_subs db) of
        Inl e \<Rightarrow> Inl e
      | Inr s0 \<Rightarrow>
      (case sub_update ''failed to update subscription'' cfg (env_now env) (cancelled (env_now env) p s0) db of
         Inl e \<Rightarrow> Inl e
       | Inr db1 \<Rightarrow>
      (case (if ends_now (env_now env) p s0
             then revoke_all (env_now env) (sub_UserID s0) EntitlementSourceSubscription (sub_ID s0)
                    (if ca_CancelType p = CancelTypeChargeback then EntitlementRevokeChargeback
                     else EntitlementRevokeAdmin) (bdb_ents db1)
             else Inr (bdb_ents db1)) of
         Inl e \<Rightarrow> Inl e
       | Inr ents \<Rightarrow>
           map_sum id (Pair ()) (notify (env_uuid env 0) (sub_UserID s0) ''premium_ended''
             [(''reason'', end_reason (ca_CancelType p))] (db1\<lparr>bdb_ents := ents\<rparr>)))))"
proof -
  have *: "(ca_RevokeAccess p \<or> (case sub_CurrentPeriodEndsAt (cancelled now p s) of None \<Rightarrow> True | Some t \<Rightarrow> \<not> t > now))
      = ends_now now p s" "sub_UserID (cancelled now p s) = sub_UserID s" "sub_ID (cancelled now p s) = sub_ID s" for now s
    by (auto simp: ends_now_def cancelled_def Let_def not_less split: option.splits)
  show ?thesis unfolding cancelMembershipTx_def Let_def * ..
qed

lemma cancelMembershipTx_ok:
  assumes "billing_ok db" "cancelMembershipTx cfg env p db = Inr (r, db')"
  shows "billing_ok db'"
proof -
  obtain s db1 ents where "sub_update ''failed to update subscription'' cfg (env_now env) (cancelled (env_now env) p s) db = Inr db1"
    and e: "ents_ok (bdb_ents db1) \<Longrightarrow> ents_ok ents"
    and n: "notify (env_uuid env 0) (sub_UserID s) ''premium_ended''
             [(''reason'', end_reason (ca_CancelType p))] (db1\<lparr>bdb_ents := ents\<rparr>) = Inr db'"
    using assms(2) unfolding cancelMembershipTx_eq
    by (auto split: sum.split_asm if_split_asm simp: map_sum_Inr dest: revoke_all_ok)
  then have "billing_ok db1" using assms(1) by (blast intro: sub_update_ok)
  with e n show ?thesis by (blast intro: notify_ok billing_ok_ents billing_ok_entsD)
qed

lemma expireMembershipTx_ok:
  assumes "billing_ok db" "expireMembershipTx cfg env i db = Inr (r, db')"
  shows "billing_ok db'"
proof -
  obtain s db1 ents where "sub_update ''failed to update subscription'' cfg (env_now env) s db = Inr db1"
    and "revoke_paid_and_grace (env_now env) s (bdb_ents db1) = Inr ents"
    and n: "notify (env_uuid env 0) (sub_UserID s) ''premium_ended'' [(''reason'', ''expired'')] (db1\<lparr>bdb_ents := ents\<rparr>) = Inr db'"
    using assms(2) unfolding expireMembershipTx_def Let_def by (auto split: sum.split_asm simp: map_sum_Inr)
  moreover from this(1) have "billing_ok db1" using assms(1) by (blast intro: sub_update_ok)
  ultimately show ?thesis by (blast intro: notify_ok billing_ok_ents billing_ok_entsD revoke_paid_and_grace_ok)
qed

lemma failMembershipTx_Inr:
  assumes "failMembershipTx cfg env p db = Inr (r, db')"
  obtains i s0 s1 ents1 db1 ents2 d ev where "fa_SubscriptionID p = Some i" "SubGetByID i (bdb_subs db) = Inr s0"
    "s1 = failed_subscription (lc_dunningMode cfg) (env_now env) s0"
    "grace_until_retry cfg (env_shift 1 env) s1 (bdb_ents db) = Inr ents1"
    "sub_update ''failed to update subscription'' cfg (env_now env) s1 (db\<lparr>bdb_ents := ents1\<rparr>) = Inr db1"
    "(if sub_Status s1 = StatusCancelled \<and> \<not> lc_expirationDisabled cfg
      then revoke_paid_and_grace (env_now env) s1 (bdb_ents db1) else Inr (bdb_ents db1)) = Inr ents2"
    "notify (env_uuid env 0) (sub_UserID s1) ev d (db1\<lparr>bdb_ents := ents2\<rparr>) = Inr db'" "r = sub_Status s1"
  using assms unfolding failMembershipTx_def Let_def
  by (auto split: sum.split_asm option.split_asm if_split_asm simp: map_sum_Inr)

lemma failMembershipTx_ok:
  assumes "billing_ok db" "failMembershipTx cfg env p db = Inr (r, db')"
  shows "billing_ok db'"
  using assms(2)
proof (rule failMembershipTx_Inr)
  fix s1 ents1 db1 ents2 d ev
  assume g: "grace_until_retry cfg (env_shift 1 env) s1 (bdb_ents db) = Inr ents1"
    and u: "sub_update ''failed to update subscription'' cfg (env_now env) s1 (db\<lparr>bdb_ents := ents1\<rparr>) = Inr db1"
    and r: "(if sub_Status s1 = StatusCancelled \<and> \<not> lc_expirationDisabled cfg
      then revoke_paid_and_grace (env_now env) s1 (bdb_ents db1) else Inr (bdb_ents db1)) = Inr ents2"
    and n: "notify (env_uuid env 0) (sub_UserID s1) ev d (db1\<lparr>bdb_ents := ents2\<rparr>) = Inr db'"
  from assms(1) g have "billing_ok (db\<lparr>bdb_ents := ents1\<rparr>)"
    by (blast intro: billing_ok_ents billing_ok_entsD grace_until_retry_ok)
  with u have "billing_ok db1" by (blast intro: sub_update_ok)
  moreover from this r have "ents_ok ents2"
    by (auto split: if_split_asm dest: billing_ok_entsD revoke_paid_and_grace_ok)
  ultimately show ?thesis using n by (blast intro: notify_ok billing_ok_ents)
qed


text \<open>
  The operations on the billing tables: the methods of the lifecycle service, the user's own cancellation of the
  subscription service, and every operation of the entitlement component.
\<close>

datatype lifecycle_op =
    OpCreate go_env CreateMembershipParams
  | OpRenew go_env RenewMembershipParams
  | OpReactivate go_env ReactivateMembershipParams
  | OpCancel go_env CancelMembershipParams
  | OpExpire go_env uuid
  | OpFail go_env FailMembershipParams
  | OpEnt ent_op

fun lifecycle_step :: "lifecycle_cfg \<Rightarrow> lifecycle_op \<Rightarrow> billing_db \<Rightarrow> (unit \<times> billing_db) result" where
  "lifecycle_step cfg (OpCreate env p) db = map_sum id (Pair () \<circ> snd) (tx_body (CreateMembership cfg env p) db)"
| "lifecycle_step cfg (OpRenew env p) db = map_sum id (Pair () \<circ> snd) (tx_body (RenewMembership cfg env p) db)"
| "lifecycle_step cfg (OpReactivate env p) db = map_sum id (Pair () \<circ> snd) (tx_body (ReactivateMembership cfg env p) db)"
| "lifecycle_step cfg (OpCancel env p) db = tx_body (CancelMembership cfg env p) db"
| "lifecycle_step cfg (OpExpire env i) db = tx_body (ExpireMembership cfg env i) db"
| "lifecycle_step cfg (OpFail env p) db = map_sum id (Pair () \<circ> snd) (tx_body (FailMembership cfg env p) db)"
| "lifecycle_step cfg (OpEnt op) db = map_sum id (\<lambda>(_, rows). ((), db\<lparr>bdb_ents := rows\<rparr>)) (ent_step op (bdb_ents db))"

lemma run_in_tx_iff [simp]: "run_in_tx body s = (Inr a, s') \<longleftrightarrow> body s = Inr (a, s')"
  by (auto simp: run_in_tx_def split: sum.splits prod.splits)

lemma ReactivateMembership_Inr:
  assumes "ReactivateMembership cfg env p db = (Inr s, db')"
  obtains endsAt where "ra_CurrentPeriodEndsAt p = Some endsAt" "env_now env < endsAt"
    "reactivateMembershipTx cfg env p endsAt db = Inr (s, db')"
  using assms by (auto simp: ReactivateMembership_def split: if_split_asm option.split_asm)

lemma lifecycle_step_ok:
  assumes "billing_ok db" "lifecycle_step cfg op db = Inr (r, db')"
  shows "billing_ok db'"
proof (cases op)
  case (OpCreate env p)
  with assms show ?thesis by (auto simp: map_sum_Inr tx_body_Inr CreateMembership_def intro: createMembershipCore_ok)
next
  case (OpRenew env p)
  with assms show ?thesis by (auto simp: map_sum_Inr tx_body_Inr RenewMembership_def intro: renewMembershipTx_ok)
next
  case (OpReactivate env p)
  with assms show ?thesis
    by (auto simp: map_sum_Inr tx_body_Inr elim!: ReactivateMembership_Inr intro: reactivateMembershipTx_ok)
next
  case (OpCancel env p)
  with assms show ?thesis by (auto simp: tx_body_Inr CancelMembership_def intro: cancelMembershipTx_ok)
next
  case (OpExpire env i)
  with assms show ?thesis by (auto simp: tx_body_Inr ExpireMembership_def intro: expireMembershipTx_ok)
next
  case (OpFail env p)
  with assms show ?thesis by (auto simp: map_sum_Inr tx_body_Inr FailMembership_def intro: failMembershipTx_ok)
next
  case (OpEnt op')
  with assms show ?thesis by (auto simp: map_sum_Inr billing_ok_def dest: ent_step_ok)
qed

interpretation lifecycle: tx_system "lifecycle_step cfg" "\<lambda>_ _. True" billing_ok for cfg
  by unfold_locales (rule lifecycle_step_ok)

lemma at_most_one:
  assumes "\<And>x y. x \<in> set xs \<Longrightarrow> y \<in> set xs \<Longrightarrow> P x \<Longrightarrow> P y \<Longrightarrow> x = y" "distinct xs"
  shows "length (filter P xs) \<le> 1"
proof -
  have "length (filter P xs) = card {x \<in> set xs. P x}"
    using distinct_card [OF distinct_filter [OF assms(2)], of P] by (metis set_filter)
  moreover have "card {x \<in> set xs. P x} \<le> 1" using assms(1) by (auto simp: card_le_Suc0_iff_eq)
  ultimately show ?thesis by simp
qed

lemma row_unique: "subs_ok rows \<Longrightarrow> x \<in> set rows \<Longrightarrow> s \<in> set rows \<Longrightarrow> sub_ID x = sub_ID s \<Longrightarrow> x = s"
  using subs.ok_pair [of rows x s] by (cases "x = s") (simp_all add: sub_clash_None)

lemma subs_ok_distinct: "subs_ok rows \<Longrightarrow> distinct rows"
  unfolding tbl_ok_def distinct_conv_nth
  by (metis (mono_tags, lifting) linorder_neqE_nat sorted_wrt_iff_nth_less sub_clash_None)

lemma sub_check_None:
  "sub_check s = None \<longleftrightarrow>
     (sub_Status s = StatusCancelled \<longrightarrow> sub_CancelledAt s \<noteq> None \<and> sub_CancelType s \<noteq> None) \<and>
     (\<forall>a b. sub_CurrentPeriodStartsAt s = Some a \<and> sub_CurrentPeriodEndsAt s = Some b \<longrightarrow> a < b) \<and>
     (\<forall>e c. sub_EndedAt s = Some e \<and> sub_CancelledAt s = Some c \<longrightarrow> c \<le> e)"
  by (auto simp: sub_check_def split: option.splits)

lemma one_active:
  assumes "subs_ok rows"
  shows "length (filter (\<lambda>s. sub_UserID s = u \<and> sub_Status s = StatusActive) rows) \<le> 1"
    and "length (filter (\<lambda>s. sub_UserID s = u \<and> sub_ProductID s = pid \<and> active_or_pending s) rows) \<le> 1"
proof -
  have "x = y" if "x \<in> set rows" "y \<in> set rows" "sub_UserID x = u \<and> sub_Status x = StatusActive"
    "sub_UserID y = u \<and> sub_Status y = StatusActive" for x y
    using subs.ok_pair [OF assms that(1, 2)] that(3, 4) by (auto simp: sub_clash_None)
  then show "length (filter (\<lambda>s. sub_UserID s = u \<and> sub_Status s = StatusActive) rows) \<le> 1"
    by (rule at_most_one [OF _ subs_ok_distinct [OF assms]])
next
  have "x = y" if "x \<in> set rows" "y \<in> set rows" "sub_UserID x = u \<and> sub_ProductID x = pid \<and> active_or_pending x"
    "sub_UserID y = u \<and> sub_ProductID y = pid \<and> active_or_pending y" for x y
    using subs.ok_pair [OF assms that(1, 2)] that(3, 4) by (auto simp: sub_clash_None)
  then show "length (filter (\<lambda>s. sub_UserID s = u \<and> sub_ProductID s = pid \<and> active_or_pending s) rows) \<le> 1"
    by (rule at_most_one [OF _ subs_ok_distinct [OF assms]])
qed

lemma one_window_at:
  assumes "ents_ok rows"
  shows "length (filter (\<lambda>e. ent_key e = (u, n) \<and> ent_live e \<and> covers t e) rows) \<le> 1"
proof -
  have "x = y" if "x \<in> set rows" "y \<in> set rows" "ent_key x = (u, n) \<and> ent_live x \<and> covers t x"
    "ent_key y = (u, n) \<and> ent_live y \<and> covers t y" for x y
    using one_window [OF assms that(1) _ _ that(2), of t] that(3, 4) by simp
  moreover have "distinct rows" using ents_ok_distinct [OF assms] by (simp add: distinct_map)
  ultimately show ?thesis by (rule at_most_one)
qed

text \<open>
  Whatever sequence of lifecycle, cancellation and entitlement operations runs, and whichever of them fail, every
  user has at most one active subscription and, for one product, at most one that is active or pending; a
  cancelled subscription always carries its type and its time of cancellation; and at any moment a user
  has at most one window of an entitlement.
\<close>

theorem lifecycle_invariant:
  assumes "tx_reach (lifecycle_step cfg) (\<lambda>_ _. True) db0 db" "billing_ok db0"
  shows "length (filter (\<lambda>s. sub_UserID s = u \<and> sub_Status s = StatusActive) (bdb_subs db)) \<le> 1 \<and>
    length (filter (\<lambda>s. sub_UserID s = u \<and> sub_ProductID s = pid \<and> active_or_pending s) (bdb_subs db)) \<le> 1 \<and>
    (\<forall>s \<in> set (bdb_subs db). sub_Status s = StatusCancelled \<longrightarrow> sub_CancelType s \<noteq> None \<and> sub_CancelledAt s \<noteq> None) \<and>
    length (filter (\<lambda>e. ent_key e = (u, n) \<and> ent_live e \<and> covers t e) (bdb_ents db)) \<le> 1"
proof -
  have ok: "subs_ok (bdb_subs db)" "ents_ok (bdb_ents db)"
    using lifecycle.reach_inv [OF assms] by (simp_all add: billing_ok_def)
  have "sub_CancelType s \<noteq> None \<and> sub_CancelledAt s \<noteq> None" if "s \<in> set (bdb_subs db)" "sub_Status s = StatusCancelled" for s
    using tbl_okD [OF ok(1) that(1)] that(2) unfolding sub_check_None by blast
  with one_active [OF ok(1)] one_window_at [OF ok(2)] show ?thesis by blast
qed


text \<open>A small database: one monthly price and one subscription with its paid window.\<close>

definition ex_day :: time where "ex_day = 86400000000000"

definition ex_product :: product where
  "ex_product = \<lparr>prod_ID = 1, prod_Slug = ''pro'', prod_DisplayName = ''Pro'', prod_Description = [],
     prod_EntitlementsSpec = [(''pro'', None)], prod_CreditsSpec = [], prod_TierGroup = None, prod_TierRank = 0,
     prod_IsActive = True, prod_CreatedAt = 1, prod_UpdatedAt = 1\<rparr>"

definition ex_price :: price where
  "ex_price = \<lparr>price_ID = 2, price_ProductID = 1, price_DisplayName = ''Monthly'', price_IsActive = True,
     price_Amount = 999, price_Currency = ''usd'', price_BillingCycleDays = Some 30, price_Processors = None,
     price_CreatedAt = 1, price_UpdatedAt = 1\<rparr>"

definition ex_sub :: subscription where
  "ex_sub = \<lparr>sub_ID = 5, sub_UserID = ''u'', sub_ProductID = 1, sub_PriceID = 2, sub_ScheduledPriceID = None,
     sub_Status = StatusActive, sub_StartedAt = 1, sub_EndedAt = None, sub_CurrentPeriodStartsAt = Some (100 * ex_day),
     sub_CurrentPeriodEndsAt = Some (130 * ex_day), sub_Processor = ''mobius'', sub_ProcessorSubscriptionID = ''x1'',
     sub_UserEmail = None, sub_PaymentMethodID = None, sub_LastRetryAt = None, sub_RetryAttempts = None,
     sub_NextRetryAt = None, sub_GraceEndsAt = None, sub_CancelFeedback = None, sub_CancelType = None,
     sub_CancelledAt = None, sub_Metadata = None, sub_CreatedAt = 1, sub_UpdatedAt = 1\<rparr>"

definition ex_billing :: "subscription \<Rightarrow> billing_db" where
  "ex_billing s = \<lparr>bdb_prices = [ex_price], bdb_products = [ex_product], bdb_subs = [s],
     bdb_ents = [ex_ent 1 (100 * ex_day) (Some (130 * ex_day))], bdb_payments = [], bdb_notifications = []\<rparr>"

definition ex_cfg :: lifecycle_cfg where
  "ex_cfg = \<lparr>lc_nz = True, lc_uuid_Parse = (\<lambda>_. None), lc_dunningMode = ''on'', lc_expirationDisabled = False,
     lc_nmi = {''mobius''}\<rparr>"

definition ex_renew :: RenewMembershipParams where
  "ex_renew = \<lparr>rm_Processor = ''mobius'', rm_ProcessorSubscriptionID = ''x1'', rm_CurrentPeriodEndsAt = None,
     rm_TransactionID = ''tx1'', rm_Amount = 0, rm_Currency = [], rm_PaymentMetadata = None,
     rm_AllowTerminalReactivation = False\<rparr>"

lemma ex_billing_ok: "billing_ok (ex_billing ex_sub)"
  by code_simp

theorem lifecycle_invariant_witness:
  "length (filter (\<lambda>s. sub_UserID s = ''u'' \<and> sub_Status s = StatusActive)
     (bdb_subs (snd (RenewMembership ex_cfg (ex_ent_env (130 * ex_day) 10) ex_renew (ex_billing ex_sub))))) \<le> 1"
proof -
  let ?env = "ex_ent_env (130 * ex_day) 10"
  have "snd (run_in_tx (lifecycle_step ex_cfg (OpRenew ?env ex_renew)) (ex_billing ex_sub)) =
      snd (RenewMembership ex_cfg ?env ex_renew (ex_billing ex_sub))" 
    by (simp add: run_in_tx_def tx_body_def RenewMembership_def split: sum.splits prod.splits)
  moreover have "tx_reach (lifecycle_step ex_cfg) (\<lambda>_ _. True) (ex_billing ex_sub)
      (snd (run_in_tx (lifecycle_step ex_cfg (OpRenew ?env ex_renew)) (ex_billing ex_sub)))"
    by (rule tx_step [OF tx_start]) simp
  ultimately show ?thesis using lifecycle_invariant [OF _ ex_billing_ok, of ex_cfg _ "''u''" 1 "''pro''" 0] by simp
qed


section \<open>Renewals\<close>

abbreviation paid_by :: "RenewMembershipParams \<Rightarrow> payment \<Rightarrow> bool" where
  "paid_by p q \<equiv> pay_Processor q = rm_Processor p \<and> pay_TransactionID q = rm_TransactionID p"

lemma renewal_marker_known:
  assumes "q \<in> set (bdb_payments db)" "paid_by p q" "rm_TransactionID p \<noteq> []"
  shows "renewal_marker env p s price db = Inr (False, db)"
proof -
  have "list_ex (\<lambda>q. pay_Processor q = rm_Processor p \<and> pay_TransactionID q = rm_TransactionID p) (bdb_payments db)"
    using assms by (auto simp: list_ex_iff)
  then show ?thesis
    using assms(3) by (simp add: renewal_marker_def CreateIfNotExists_def Let_def duration_defs)
qed

lemma pay_insert_set: "pay_insert now p rows = Inr rows' \<Longrightarrow>
   \<exists>q. rows' = rows @ [q] \<and> pay_Processor q = pay_Processor p \<and> pay_TransactionID q = pay_TransactionID p"
  by (auto simp: pay_insert_def Let_def tbl_insert_Inr split: if_splits)

lemma renewal_marker_pays:
  assumes "renewal_marker env p s price db = Inr (b, db1)" "rm_TransactionID p \<noteq> []"
  shows "\<exists>q \<in> set (bdb_payments db1). paid_by p q"
  using assms
  by (auto simp: renewal_marker_def CreateIfNotExists_def Let_def list_ex_iff
      split: if_split_asm sum.split_asm dest!: pay_insert_set)

lemma sub_update_fields:
  assumes "sub_update msg cfg now s db = Inr db'"
  shows "bdb_payments db' = bdb_payments db" "bdb_ents db' = bdb_ents db"
    "bdb_notifications db' = bdb_notifications db" "bdb_prices db' = bdb_prices db" "bdb_products db' = bdb_products db"
  using assms by (auto elim!: sub_update_Inr)

lemma renewal_apply_payments:
  assumes "renewal_apply cfg env p s price downgrade db = Inr db'"
  shows "bdb_payments db' = bdb_payments db"
  using assms by (rule renewal_apply_Inr) (auto simp: notify_Inr dest: sub_update_fields)

text \<open>
  C4: a renewal is applied once per processor transaction. After a call that did not fail there is exactly one
  payment with its processor and transaction identifier, and as long as that payment stays in the table
  every further call with them, whenever it comes, whatever its other parameters and whatever else happened
  to the database in between, changes nothing and never reports a renewal.
\<close>

theorem RenewMembership_idempotent:
  assumes ok: "billing_ok db" and run: "RenewMembership cfg env p db = (Inr applied, db')" and tid: "rm_TransactionID p \<noteq> []"
    and keep: "set (bdb_payments db') \<subseteq> set (bdb_payments db'')"
    and same: "rm_Processor p' = rm_Processor p" "rm_TransactionID p' = rm_TransactionID p"
  shows "length (filter (paid_by p) (bdb_payments db')) = 1 \<and>
    snd (RenewMembership cfg' env' p' db'') = db'' \<and> fst (RenewMembership cfg' env' p' db'') \<noteq> Inr True"
proof -
  have run': "renewMembershipTx cfg env p db = Inr (applied, db')" using run by (simp add: RenewMembership_def)
  obtain q where q: "q \<in> set (bdb_payments db')" "paid_by p q"
    using run'
  proof (rule renewMembershipTx_Inr)
    fix s1 price downgrade db1
    assume m: "renewal_marker env p s1 price db = Inr (applied, db1)"
      and "if applied then renewal_apply cfg env p s1 price downgrade db1 = Inr db' else db' = db1"
    then have "bdb_payments db' = bdb_payments db1" by (auto split: if_splits dest!: renewal_apply_payments)
    with renewal_marker_pays [OF m tid] that show thesis by metis
  qed
  have pays: "pays_ok (bdb_payments db')" using renewMembershipTx_ok [OF ok run'] by (simp add: billing_ok_def)
  then have "distinct (bdb_payments db')" using pays_distinct by (auto simp: distinct_map)
  moreover have "x = y" if "x \<in> set (bdb_payments db')" "y \<in> set (bdb_payments db')" "paid_by p x" "paid_by p y" for x y
    using pays.ok_pair [OF pays that(1, 2)] that(3, 4) by (cases "x = y") (auto simp: pay_clash_def split: if_split_asm)
  ultimately have "length (filter (paid_by p) (bdb_payments db')) \<le> 1" by (intro at_most_one)
  moreover have "filter (paid_by p) (bdb_payments db') \<noteq> []" using q by (auto simp: filter_empty_conv)
  ultimately have "length (filter (paid_by p) (bdb_payments db')) = 1"
    by (cases "filter (paid_by p) (bdb_payments db')") auto
  moreover have "renewMembershipTx cfg' env' p' db'' = Inr (b, x) \<Longrightarrow> \<not> b \<and> x = db''" for b x
  proof (erule renewMembershipTx_Inr)
    fix s1 price downgrade db1
    assume "renewal_marker env' p' s1 price db'' = Inr (b, db1)"
      "if b then renewal_apply cfg' env' p' s1 price downgrade db1 = Inr x else x = db1"
    with renewal_marker_known [of q db'' p'] q keep tid same show ?thesis by auto
  qed
  ultimately show ?thesis
    unfolding RenewMembership_def run_in_tx_def by (auto split: sum.splits)
qed

lemma ex_renew_runs:
  "\<not> isl (fst (RenewMembership ex_cfg (ex_ent_env (130 * ex_day) 10) ex_renew (ex_billing ex_sub)))"
  by code_simp

theorem RenewMembership_idempotent_witness:
  "let db' = snd (RenewMembership ex_cfg (ex_ent_env (130 * ex_day) 10) ex_renew (ex_billing ex_sub))
   in length (filter (paid_by ex_renew) (bdb_payments db')) = 1 \<and>
     snd (RenewMembership ex_cfg (ex_ent_env (131 * ex_day) 30) (ex_renew\<lparr>rm_Amount := 5\<rparr>) db') = db'"
proof -
  have "rm_TransactionID ex_renew \<noteq> []" by (simp add: ex_renew_def)
  then show ?thesis
    using RenewMembership_idempotent [OF ex_billing_ok result_ok [OF ex_renew_runs] _ subset_refl,
        of "ex_renew\<lparr>rm_Amount := 5\<rparr>" ex_cfg "ex_ent_env (131 * ex_day) 30"]
    by (simp add: Let_def)
qed

text \<open>
  A subscription whose price has no billing cycle, a one-time price, is never renewed; without a transaction
  identifier, which could name a payment already recorded, the renewal panics on the nil pointer and changes nothing.
\<close>

theorem RenewMembership_one_time_price_panics:
  assumes "renewal_subscription cfg p (bdb_subs db) = Inr s" "\<not> snd (TerminalCancelReason s)" "sub_ScheduledPriceID s = None"
    and "PriceGetByID (sub_PriceID s) db = Inr price" "price_BillingCycleDays price = None"
  shows "fst (RenewMembership cfg env p db) \<noteq> Inr True \<and>
    (rm_TransactionID p = [] \<longrightarrow> RenewMembership cfg env p db = (Inl (NilDeref ''price.BillingCycleDays''), db))"
  using assms
  by (simp add: RenewMembership_def run_in_tx_def renewMembershipTx_def assertActiveTransitionAllowed_def renewal_price_def
      renewal_marker_def renewal_apply_def renewal_period_def Let_def split: sum.split prod.split)

theorem RenewMembership_one_time_price_panics_witness:
  "RenewMembership ex_cfg (ex_ent_env (130 * ex_day) 10) (ex_renew\<lparr>rm_TransactionID := []\<rparr>)
     ((ex_billing ex_sub)\<lparr>bdb_prices := [ex_price\<lparr>price_BillingCycleDays := None\<rparr>]\<rparr>) =
   (Inl (NilDeref ''price.BillingCycleDays''),
    (ex_billing ex_sub)\<lparr>bdb_prices := [ex_price\<lparr>price_BillingCycleDays := None\<rparr>]\<rparr>)"
proof -
  let ?p = "ex_renew\<lparr>rm_TransactionID := []\<rparr>"
  let ?db = "(ex_billing ex_sub)\<lparr>bdb_prices := [ex_price\<lparr>price_BillingCycleDays := None\<rparr>]\<rparr>"
  have "renewal_subscription ex_cfg ?p (bdb_subs ?db) = Inr ex_sub" by code_simp
  then have "rm_TransactionID ?p = [] \<longrightarrow>
      RenewMembership ex_cfg (ex_ent_env (130 * ex_day) 10) ?p ?db = (Inl (NilDeref ''price.BillingCycleDays''), ?db)"
    by (rule RenewMembership_one_time_price_panics
          [of ex_cfg _ _ ex_sub "ex_price\<lparr>price_BillingCycleDays := None\<rparr>", THEN conjunct2])
       (simp_all add: ex_sub_def ex_price_def TerminalCancelReason_def PriceGetByID_def sql_find_def)
  then show ?thesis by simp
qed


section \<open>Windows after an operation\<close>

abbreviation windows :: "string \<Rightarrow> string \<Rightarrow> entitlement list \<Rightarrow> entitlement list" where
  "windows u n rows \<equiv> filter (\<lambda>e. ent_UserID e = u \<and> ent_Entitlement e = n) rows"

lemma IsEntitled_windows: "IsEntitled u n t rows \<longleftrightarrow> (\<exists>e \<in> set (windows u n rows). covers t e \<and> ent_live e)"
  by (auto simp: IsEntitled_iff)

lemma windows_update_other:
  assumes "\<And>e. P e \<Longrightarrow> ent_Entitlement e \<noteq> n \<and> ent_Entitlement (f e) \<noteq> n"
  shows "windows u n (sql_update P f rows) = windows u n rows"
  by (induction rows) (auto dest: assms)

lemma dead_update:
  assumes "\<And>x. \<not> ent_live (f x)" "e \<in> set (sql_update P f rows)" "ent_live e"
  shows "e \<in> set rows \<and> \<not> P e"
  using assms by (auto simp: set_sql_update split: if_split_asm)

lemma revoke_source_Inr:
  assumes "revoke_source now u n st sid r rows = Inr rows'"
  shows "rows' = sql_update (\<lambda>e. ent_key e = (u, n) \<and> ent_live e \<and> ent_StartAt e > now \<and>
        ent_SourceType e = st \<and> (sid \<noteq> uuid_Nil \<longrightarrow> ent_SourceID e = Some sid))
      (\<lambda>e. e\<lparr>ent_DeletedAt := Some now, ent_UpdatedAt := now\<rparr>)
      (sql_update (\<lambda>e. ent_key e = (u, n) \<and> ent_live e \<and> covers now e \<and>
          ent_SourceType e = st \<and> (sid \<noteq> uuid_Nil \<longrightarrow> ent_SourceID e = Some sid))
        (\<lambda>e. e\<lparr>ent_RevokedAt := Some now, ent_RevokeReason := Some r, ent_UpdatedAt := now\<rparr>) rows)"
proof -
  let ?P = "\<lambda>e. ent_key e = (u, n) \<and> ent_live e \<and> covers now e \<and> ent_SourceType e = st \<and> (sid \<noteq> uuid_Nil \<longrightarrow> ent_SourceID e = Some sid)"
  let ?f = "\<lambda>e :: entitlement. e\<lparr>ent_RevokedAt := Some now, ent_RevokeReason := Some r, ent_UpdatedAt := now\<rparr>"
  obtain rows1 where "ent_update ?P ?f rows = Inr rows1"
    "ent_update (\<lambda>e. ent_key e = (u, n) \<and> ent_live e \<and> ent_StartAt e > now \<and> ent_SourceType e = st \<and>
       (sid \<noteq> uuid_Nil \<longrightarrow> ent_SourceID e = Some sid)) (\<lambda>e. e\<lparr>ent_DeletedAt := Some now, ent_UpdatedAt := now\<rparr>) rows1 = Inr rows'"
    using assms unfolding revoke_source_def RevokeExistingEntitlement_def rev_source_def
    by (auto split: if_split_asm sum.split_asm)
  then show ?thesis by (auto dest!: tbl_update_Inr)
qed

lemma revoke_source_other:
  "revoke_source now u n st sid r rows = Inr rows' \<Longrightarrow> n \<noteq> m \<Longrightarrow> windows u m rows' = windows u m rows"
  by (drule revoke_source_Inr, hypsubst, subst windows_update_other, simp, subst windows_update_other, simp_all)

lemma push_window_other:
  "push_window env u n a b st sid rows = Inr (w, rows') \<Longrightarrow> n \<noteq> m \<Longrightarrow> windows u m rows' = windows u m rows"
  by (auto simp: push_window_def PushNewEntitlement_def Let_def tbl_insert_Inr split: if_split_asm sum.split_asm)

lemma append_paid_windows_other:
  "append_paid_windows eg ep env u sid a b ns rows = Inr rows' \<Longrightarrow> m \<notin> set ns \<Longrightarrow> windows u m rows' = windows u m rows"
proof (induction ns arbitrary: rows env)
  case (Cons n ns)
  from Cons.prems(1) obtain rows1 w rows2
    where 1: "revoke_source (env_now env) u n EntitlementSourceGrace sid EntitlementRevokeSuperseded rows = Inr rows1"
      and 2: "push_window env u n a b EntitlementSourceSubscription sid rows1 = Inr (w, rows2)"
      and 3: "append_paid_windows eg ep (env_shift 1 env) u sid a b ns rows2 = Inr rows'"
    by (auto split: sum.split_asm)
  have "n \<noteq> m" "m \<notin> set ns" using Cons.prems(2) by auto
  with Cons.IH [OF 3] revoke_source_other [OF 1] push_window_other [OF 2] show ?case by (simp only: simp_thms)
qed simp

lemma revoke_names_other:
  "revoke_names now u st sid r ns rows = Inr rows' \<Longrightarrow> m \<notin> set ns \<Longrightarrow> windows u m rows' = windows u m rows"
proof (induction ns arbitrary: rows)
  case (Cons n ns)
  from Cons.prems(1) obtain rows1 where "tx_logged (revoke_source now u n st sid r rows) rows = Inr rows1"
    and rest: "revoke_names now u st sid r ns rows1 = Inr rows'" by (auto split: sum.split_asm)
  then have "windows u m rows1 = windows u m rows"
    using Cons.prems(2) by (auto simp: tx_logged_Inr dest: revoke_source_other)
  with Cons.IH [OF rest] Cons.prems(2) show ?case by simp
qed simp

text \<open>No window of \<open>k\<close> reaches past \<open>a\<close>, but for those that \<open>exempt\<close> names.\<close>

definition paid_up_to :: "(entitlement \<Rightarrow> bool) \<Rightarrow> time \<Rightarrow> entitlement list \<Rightarrow> bool" where
  "paid_up_to exempt a ws \<longleftrightarrow> (\<forall>e \<in> set ws. ent_live e \<and> \<not> exempt e \<longrightarrow> \<not> ends_after a e)"

lemma revoke_source_clears:
  assumes "revoke_source now u n st sid r rows = Inr rows'" "sid \<noteq> uuid_Nil" "now \<le> a"
    and "paid_up_to (by_source st sid) a (windows u n rows)"
  shows "paid_up_to (\<lambda>_. False) a (windows u n rows')"
  unfolding paid_up_to_def
proof (intro ballI impI)
  fix e assume e: "e \<in> set (windows u n rows')" "ent_live e \<and> \<not> False"
  have dead: "\<not> ent_live (e\<lparr>ent_DeletedAt := Some now, ent_UpdatedAt := now\<rparr>)"
    "\<not> ent_live (e\<lparr>ent_RevokedAt := Some now, ent_RevokeReason := Some r, ent_UpdatedAt := now\<rparr>)" for e :: entitlement
    by (simp_all add: ent_live_def)
  from e have mem: "e \<in> set rows'" and k: "ent_UserID e = u" "ent_Entitlement e = n" and l: "ent_live e" by auto
  note d = dead_update [OF dead(1) mem [unfolded revoke_source_Inr [OF assms(1)]] l]
  note d' = dead_update [OF dead(2) d [THEN conjunct1] l]
  have live: "e \<in> set rows" "\<not> (covers now e \<and> by_source st sid e)" "\<not> (ent_StartAt e > now \<and> by_source st sid e)"
    using d d' k l assms(2) by (simp_all add: by_source_def)
  show "\<not> ends_after a e"
  proof (cases "by_source st sid e")
    case True
    with live have "\<not> ends_after now e" by (auto simp: covers_def not_less)
    with assms(3) show ?thesis by (auto simp: ends_after_def split: option.splits)
  next
    case False
    with assms(4) live(1) k l show ?thesis by (simp add: paid_up_to_def)
  qed
qed

lemma tail_end_paid_up_to:
  assumes "paid_up_to (\<lambda>_. False) a (windows u n rows)" "tail_end (u, n) rows = Some t"
  shows "t \<le> a"
proof -
  let ?ws = "filter (\<lambda>e. ent_key e = (u, n) \<and> ent_live e \<and> ent_EndAt e \<noteq> None) rows"
  let ?ends = "map (\<lambda>e. the (ent_EndAt e)) ?ws"
  have ends: "?ends \<noteq> [] \<and> t = Max (set ?ends)"
    using assms(2) unfolding tail_end_def Let_def by (simp only: split: if_split_asm) simp_all
  then have "t \<in> set ?ends" using Max_in [of "set ?ends"] by (simp only: List.finite_set set_empty simp_thms)
  then obtain e where "e \<in> set ?ws" "t = the (ent_EndAt e)" by (simp only: set_map image_iff) blast
  then have "e \<in> set (windows u n rows)" "ent_live e" "ent_EndAt e = Some t" by auto
  with assms(1) show ?thesis by (auto simp: paid_up_to_def ends_after_def not_less)
qed

lemma push_window_covers:
  assumes "push_window env u n nb b st sid rows = Inr (w, rows')"
    and "paid_up_to (\<lambda>_. False) (max (env_now env) nb) (windows u n rows)"
    and "max (env_now env) nb \<le> t" "t < b"
  shows "IsEntitled u n t rows'"
proof -
  let ?p = "\<lparr>push_UserID = u, push_Entitlement = n, push_NotBefore = Some nb, push_Indefinite = False, push_Duration = None,
    push_EndAt = Some b, push_SourceType = st, push_SourceID = sid\<rparr>"
  have "push_start (env_now env) ?p rows = max (env_now env) nb"
    using tail_end_paid_up_to [OF assms(2)]
    by (cases "tail_end (u, n) rows") (auto simp: push_start_def Let_def max_def split: if_split_asm)
  moreover have "\<not> list_ex (\<lambda>e. ent_key e = (u, n) \<and> ent_live e \<and> ent_EndAt e = None) rows"
  proof -
    have "ends_after x e" if "ent_EndAt e = None" for x e using that by (simp add: ends_after_def)
    with assms(2) show ?thesis by (auto simp: list_ex_iff paid_up_to_def)
  qed
  ultimately obtain c where "rows' = rows @ [c]" "ent_key c = (u, n)" "ent_live c" "ent_StartAt c = max (env_now env) nb" "ent_EndAt c = Some b"
    using assms(1, 3, 4) unfolding push_window_def PushNewEntitlement_def Let_def
    by (auto simp: tbl_insert_Inr ent_live_def split: sum.split_asm if_split_asm)
  then show ?thesis using assms(3, 4) by (auto simp: IsEntitled_iff covers_def ends_after_def)
qed




text \<open>Clearing the grace windows and appending the paid ones gives access to each entitlement for the new term.\<close>

lemma append_paid_windows_covers:
  assumes "append_paid_windows eg ep env u sid a b ns rows = Inr rows'" "n \<in> set ns" "distinct ns" "sid \<noteq> uuid_Nil"
    and "paid_up_to (by_source EntitlementSourceGrace sid) (max (env_now env) a) (windows u n rows)"
    and "max (env_now env) a \<le> t" "t < b"
  shows "IsEntitled u n t rows'"
  using assms
proof (induction ns arbitrary: rows env)
  case (Cons m ns)
  from Cons.prems(1) obtain rows1 w rows2
    where 1: "revoke_source (env_now env) u m EntitlementSourceGrace sid EntitlementRevokeSuperseded rows = Inr rows1"
      and 2: "push_window env u m a b EntitlementSourceSubscription sid rows1 = Inr (w, rows2)"
      and 3: "append_paid_windows eg ep (env_shift 1 env) u sid a b ns rows2 = Inr rows'"
    by (auto split: sum.split_asm)
  show ?case
  proof (cases "m = n")
    case True
    have "paid_up_to (\<lambda>_. False) (max (env_now env) a) (windows u n rows1)"
      by (rule revoke_source_clears [OF 1 [unfolded True] Cons.prems(4) _ Cons.prems(5)]) simp
    then have "IsEntitled u n t rows2" by (rule push_window_covers [OF 2 [unfolded True] _ Cons.prems(6, 7)])
    moreover have "windows u n rows' = windows u n rows2"
      using append_paid_windows_other [OF 3] Cons.prems(3) True by simp
    ultimately show ?thesis unfolding IsEntitled_windows by simp
  next
    case False
    have "windows u n rows2 = windows u n rows"
      using revoke_source_other [OF 1 False] push_window_other [OF 2 False] by simp
    then have "paid_up_to (by_source EntitlementSourceGrace sid) (max (env_now (env_shift 1 env)) a) (windows u n rows2)"
      using Cons.prems(5) by simp
    with Cons.IH [OF 3 _ _ Cons.prems(4)] Cons.prems(2, 3, 6, 7) False show ?thesis by simp
  qed
qed simp

lemma sub_update_stored:
  assumes "sub_update msg cfg now s db = Inr db'" "r \<in> set (bdb_subs db)" "sub_ID r = sub_ID s"
  shows "\<exists>r' \<in> set (bdb_subs db'). sub_ID r' = sub_ID s \<and> sub_Status r' = sub_Status s \<and>
    sub_CurrentPeriodEndsAt r' = null_zero (lc_nz cfg) (sub_CurrentPeriodEndsAt s) \<and> sub_RetryAttempts r' = sub_RetryAttempts s \<and>
    sub_NextRetryAt r' = null_zero (lc_nz cfg) (sub_NextRetryAt s) \<and> sub_CancelType r' = sub_CancelType s \<and>
    sub_CancelledAt r' = null_zero (lc_nz cfg) (sub_CancelledAt s) \<and> sub_EndedAt r' = null_zero (lc_nz cfg) (sub_EndedAt s)"
  using assms(1)
proof (rule sub_update_Inr)
  fix rows
  assume "db' = db\<lparr>bdb_subs := rows\<rparr>"
    and u: "tbl_update sub_check sub_clash (\<lambda>r. sub_ID r = sub_ID s)
       (\<lambda>r. (sub_row (lc_nz cfg) s)\<lparr>sub_UserID := sub_UserID r, sub_CreatedAt := sub_CreatedAt r, sub_UpdatedAt := now\<rparr>)
       (bdb_subs db) = Inr rows"
  moreover have "(sub_row (lc_nz cfg) s)\<lparr>sub_UserID := sub_UserID r, sub_CreatedAt := sub_CreatedAt r, sub_UpdatedAt := now\<rparr> \<in> set rows"
    unfolding tbl_update_Inr [OF u] set_sql_update using assms(2, 3) by (intro image_eqI [of _ _ r]) simp_all
  ultimately show ?thesis by (intro bexI [of _ "(sub_row (lc_nz cfg) s)\<lparr>sub_UserID := sub_UserID r, sub_CreatedAt := sub_CreatedAt r, sub_UpdatedAt := now\<rparr>"])
    (simp_all add: sub_row_def)
qed

end
