(* ===== verification/Membership_Access.thy ===== *)
theory Membership_Access
  imports Lifecycle_Properties
begin

text \<open>
  What the lifecycle methods do to a member's access: a renewal pays for the whole new term, a cancellation with
  revocation and an expiration take the subscription's access away at once, a failed payment keeps it until the next
  retry. The last section holds the cases in which the code cannot finish, or lets a blocked subscription through.
\<close>

section \<open>A renewal pays for its term\<close>

text \<open>
  C2: after a renewal that was applied, the subscription is active until the end of the new term, and its user has
  every entitlement of the product (of the new product, when a downgrade was due) at every moment of the term, from
  the later of its start and the present, provided no other window of that entitlement reached into the
  term already; the subscription's own grace windows may, since the renewal removes them.
\<close>

theorem RenewMembership_pays_for_term:
  assumes run: "RenewMembership cfg env p db = (Inr True, db')"
    and sub: "renewal_subscription cfg p (bdb_subs db) = Inr s0" "renewal_price s0 db = Inr (s, price, downgrade)" "sub_ID s \<noteq> 0"
    and product: "case downgrade of None \<Rightarrow> ProductGetByID (price_ProductID price) db = Inr product | Some (_, q) \<Rightarrow> product = q"
    and names: "n \<in> set (map fst (prod_EntitlementsSpec product))" "distinct (map fst (prod_EntitlementsSpec product))"
    and period: "renewal_period (env_now env) p s price = Inr (startsAt, endsAt)" "0 \<le> env_now env"
    and free: "paid_up_to (by_source EntitlementSourceGrace (sub_ID s)) (max (env_now env) startsAt)
      (windows (sub_UserID s) n (bdb_ents db))"
    and t: "max (env_now env) startsAt \<le> t" "t < endsAt"
  shows "IsEntitled (sub_UserID s) n t (bdb_ents db') \<and>
    (\<exists>r \<in> set (bdb_subs db'). sub_ID r = sub_ID s \<and> sub_Status r = StatusActive \<and> sub_CurrentPeriodEndsAt r = Some endsAt)"
proof -
  have "renewMembershipTx cfg env p db = Inr (True, db')" using run by (simp add: RenewMembership_def)
  then obtain db1 where m: "renewal_marker env p s price db = Inr (True, db1)"
    and "renewal_apply cfg env p s price downgrade db1 = Inr db'"
    using sub by (auto elim!: renewMembershipTx_Inr)
  then obtain db2 pr ents d
    where u: "sub_update ''failed to update subscription'' cfg (env_now env) (activated startsAt endsAt s) db1 = Inr db2"
    and pr: "(case downgrade of Some (_, newProduct) \<Rightarrow> Inr newProduct
      | None \<Rightarrow> map_sum (ErrWrap ''failed to get product for renewal'') id (ProductGetByID (price_ProductID price) db2)) = Inr pr"
    and e: "renewal_entitlements (env_shift 2 env) s startsAt endsAt pr downgrade (bdb_ents db2) = Inr ents"
    and "notify (env_uuid env 1) (sub_UserID s) ''premium_renewed'' d (db2\<lparr>bdb_ents := ents\<rparr>) = Inr db'"
    using period by (auto elim!: renewal_apply_Inr)
  then have db': "bdb_ents db' = ents" "bdb_subs db' = bdb_subs db2" by (auto simp: notify_Inr)
  have db1: "bdb_subs db1 = bdb_subs db" "bdb_ents db1 = bdb_ents db" "bdb_products db1 = bdb_products db"
    using m by (auto simp: renewal_marker_def Let_def split: if_split_asm sum.split_asm)
  have "pr = product"
    using pr product sub_update_fields(5) [OF u] db1(3)
    by (auto simp: ProductGetByID_def split: option.split_asm)
  with e obtain ents1 where a: "append_paid_windows ''failed to clear grace entitlement on renewal'' ''failed to grant renewal entitlement''
             (env_shift 2 env) (sub_UserID s) (sub_ID s) startsAt endsAt (map fst (prod_EntitlementsSpec product)) (bdb_ents db2) = Inr ents1"
    and r: "case downgrade of None \<Rightarrow> ents = ents1
           | Some (oldProduct, newProduct) \<Rightarrow>
               revoke_names (env_now env) (sub_UserID s) EntitlementSourceSubscription (sub_ID s) EntitlementRevokeDowngrade
                 (filter (\<lambda>n. n \<notin> set (map fst (prod_EntitlementsSpec newProduct)))
                    (map fst (prod_EntitlementsSpec oldProduct))) ents1 = Inr ents"
    unfolding renewal_entitlements_def by (auto split: sum.split_asm option.split_asm)
  have "IsEntitled (sub_UserID s) n t ents1"
    by (rule append_paid_windows_covers [OF a names sub(3)])
       (use free t sub_update_fields(2) [OF u] db1(2) in simp_all)
  moreover have "windows (sub_UserID s) n ents = windows (sub_UserID s) n ents1"
  proof (cases downgrade)
    case (Some d)
    with r names(1) product show ?thesis
      by (cases d) (simp, erule revoke_names_other, simp only: set_filter mem_Collect_eq set_map, blast)
  qed (use r in simp)
  ultimately have "IsEntitled (sub_UserID s) n t (bdb_ents db')" by (simp add: IsEntitled_windows db'(1))
  moreover have "sub_ID s = sub_ID s0" using sub(2)
    by (auto simp: renewal_price_def split: option.split_asm sum.split_asm)
  moreover have "s0 \<in> set (bdb_subs db)" using sub(1)
    by (auto simp: renewal_subscription_def GetByProcessorSubscriptionID_def SubGetByID_def
        split: sum.split_asm option.split_asm if_split_asm dest: sql_find_memb)
  ultimately show ?thesis
    using sub_update_stored [OF u, of s0] db1(1) db'(2) t period(2)
    by (auto simp: activated_def null_zero_def split: if_split_asm)
qed

theorem RenewMembership_pays_for_term_witness:
  "IsEntitled ''u'' ''pro'' (159 * ex_day)
     (bdb_ents (snd (RenewMembership ex_cfg (ex_ent_env (130 * ex_day) 10) ex_renew (ex_billing ex_sub))))"
proof -
  let ?env = "ex_ent_env (130 * ex_day) 10"
  have run: "RenewMembership ex_cfg ?env ex_renew (ex_billing ex_sub) =
      (Inr True, snd (RenewMembership ex_cfg ?env ex_renew (ex_billing ex_sub)))"
  proof -
    have "fst (RenewMembership ex_cfg ?env ex_renew (ex_billing ex_sub)) = Inr True" by code_simp
    then show ?thesis by (metis prod.collapse)
  qed
  have "renewal_subscription ex_cfg ex_renew (bdb_subs (ex_billing ex_sub)) = Inr ex_sub" by code_simp
  moreover have "renewal_price ex_sub (ex_billing ex_sub) = Inr (ex_sub, ex_price, None)"
    by (simp add: renewal_price_def PriceGetByID_def ex_sub_def ex_billing_def ex_price_def sql_find_def)
  moreover have "ProductGetByID (price_ProductID ex_price) (ex_billing ex_sub) = Inr ex_product" by code_simp
  moreover have "renewal_period (env_now ?env) ex_renew ex_sub ex_price = Inr (130 * ex_day, 160 * ex_day)" by code_simp
  moreover have "paid_up_to (by_source EntitlementSourceGrace (sub_ID ex_sub)) (max (env_now ?env) (130 * ex_day))
      (windows (sub_UserID ex_sub) ''pro'' (bdb_ents (ex_billing ex_sub)))" by code_simp
  ultimately have "IsEntitled (sub_UserID ex_sub) ''pro'' (159 * ex_day)
      (bdb_ents (snd (RenewMembership ex_cfg ?env ex_renew (ex_billing ex_sub))))"
    using RenewMembership_pays_for_term [OF run, of ex_sub ex_sub ex_price None ex_product "''pro''" "130 * ex_day" "160 * ex_day" "159 * ex_day"]
    by (simp add: ex_sub_def ex_product_def ex_day_def ex_ent_env_def)
  then show ?thesis by (simp add: ex_sub_def)
qed


section \<open>Ending a membership\<close>

lemma revoke_source_live:
  assumes "revoke_source now u n st sid r rows = Inr rows'" "sid \<noteq> uuid_Nil" "e \<in> set rows'" "ent_live e"
  shows "e \<in> set rows \<and> (ent_key e = (u, n) \<and> by_source st sid e \<longrightarrow> \<not> ends_after now e)"
proof -
  have dead: "\<not> ent_live (e\<lparr>ent_DeletedAt := Some now, ent_UpdatedAt := now\<rparr>)"
    "\<not> ent_live (e\<lparr>ent_RevokedAt := Some now, ent_RevokeReason := Some r, ent_UpdatedAt := now\<rparr>)" for e :: entitlement
    by (simp_all add: ent_live_def)
  note d = dead_update [OF dead(1) assms(3) [unfolded revoke_source_Inr [OF assms(1)]] assms(4)]
  note d' = dead_update [OF dead(2) d [THEN conjunct1] assms(4)]
  show ?thesis using d d' assms(2, 4) by (auto simp: by_source_def covers_def)
qed

lemma revoke_source_keeps:
  assumes "revoke_source now u n st sid r rows = Inr rows'" "sid \<noteq> uuid_Nil" "e \<in> set rows" "\<not> by_source st sid e"
  shows "e \<in> set rows'"
proof -
  have keep: "e \<in> set (sql_update P f xs)" if "e \<in> set xs" "\<not> P e" for P f xs
    using that by (induction xs) auto
  show ?thesis unfolding revoke_source_Inr [OF assms(1)]
    by (rule keep, rule keep, rule assms(3)) (use assms(2, 4) in \<open>simp_all add: by_source_def\<close>)
qed

lemma revoke_source_succeeds:
  assumes "ents_ok rows" "u \<noteq> []" "n \<noteq> []"
  shows "\<exists>rows'. revoke_source now u n st sid r rows = Inr rows'"
proof -
  note row = tbl_okD [where check = ent_check and clash = ent_clash]
  let ?p = "\<lparr>rev_EntitlementID = None, rev_UserID = u, rev_Entitlement = n, rev_SourceType = Some st, rev_SourceID = Some sid, rev_Reason = r\<rparr>"
  let ?P = "\<lambda>e. ent_key e = (u, n) \<and> ent_live e \<and> covers now e \<and> rev_source ?p e"
  let ?f = "\<lambda>e :: entitlement. e\<lparr>ent_RevokedAt := Some now, ent_RevokeReason := Some r, ent_UpdatedAt := now\<rparr>"
  have 1: "ent_update ?P ?f rows = Inr (sql_update ?P ?f rows)" and ok1: "ents_ok (sql_update ?P ?f rows)"
    using ent_update_shrink [OF assms(1), of ?P ?f] revoked_row row [OF assms(1)] by (simp_all only: simp_thms)
  let ?Q = "\<lambda>e. ent_key e = (u, n) \<and> ent_live e \<and> ent_StartAt e > now \<and> rev_source ?p e"
  let ?g = "\<lambda>e :: entitlement. e\<lparr>ent_DeletedAt := Some now, ent_UpdatedAt := now\<rparr>"
  have "ent_update ?Q ?g (sql_update ?P ?f rows) = Inr (sql_update ?Q ?g (sql_update ?P ?f rows))"
    using ent_update_shrink [OF ok1, of ?Q ?g] deleted_row row [OF ok1] by (simp only: simp_thms)
  with 1 have "RevokeExistingEntitlement True now ?p rows = Inr (sql_update ?Q ?g (sql_update ?P ?f rows))"
    using assms(2, 3) by (simp add: RevokeExistingEntitlement_def LockEntitlementTimeline_def)
  then show ?thesis by (auto simp: revoke_source_def)
qed

lemma revoke_logged:
  assumes "ents_ok rows" "u \<noteq> []"
  obtains "n = []" "tx_logged (revoke_source now u n st sid r rows) rows = Inr rows"
  | rows1 where "n \<noteq> []" "revoke_source now u n st sid r rows = Inr rows1"
    "tx_logged (revoke_source now u n st sid r rows) rows = Inr rows1" "ents_ok rows1"
proof (cases "n = []")
  case True
  then show thesis by (rule that(1)) (simp add: True revoke_source_def RevokeExistingEntitlement_def tx_logged_def)
next
  case False
  with revoke_source_succeeds [OF assms] obtain rows1 where "revoke_source now u n st sid r rows = Inr rows1" by blast
  with False assms(1) show thesis by (intro that(2) [of rows1]) (auto simp: tx_logged_def dest: revoke_source_ok)
qed

text \<open>
  What the loop over the entitlements of a source does: it never fails, it ends every window of the source it
  is asked to end, it leaves the windows of other sources alone and makes none.
\<close>

lemma revoke_names_spec:
  assumes "ents_ok rows" "u \<noteq> []" "sid \<noteq> uuid_Nil"
  shows "\<exists>rows'. revoke_names now u st sid r ns rows = Inr rows' \<and>
    (\<forall>e \<in> set rows'. ent_live e \<longrightarrow> e \<in> set rows \<and>
       (ent_UserID e = u \<and> ent_Entitlement e \<in> set ns \<and> ent_Entitlement e \<noteq> [] \<and> by_source st sid e \<longrightarrow> \<not> ends_after now e)) \<and>
    (\<forall>e \<in> set rows. \<not> by_source st sid e \<longrightarrow> e \<in> set rows')"
  using assms(1)
proof (induction ns arbitrary: rows)
  case (Cons n ns)
  obtain rows1 where 1: "tx_logged (revoke_source now u n st sid r rows) rows = Inr rows1" and ok: "ents_ok rows1"
    and l1: "\<forall>e \<in> set rows1. ent_live e \<longrightarrow> e \<in> set rows \<and>
      (ent_UserID e = u \<and> ent_Entitlement e = n \<and> n \<noteq> [] \<and> by_source st sid e \<longrightarrow> \<not> ends_after now e)"
    and k1: "\<forall>e \<in> set rows. \<not> by_source st sid e \<longrightarrow> e \<in> set rows1"
  proof (rule revoke_logged [OF Cons.prems assms(2), of n now st sid r])
    assume "n = []" "tx_logged (revoke_source now u n st sid r rows) rows = Inr rows"
    with Cons.prems show thesis by (intro that [of rows]) simp_all
  next
    fix rows1 assume r: "revoke_source now u n st sid r rows = Inr rows1"
      and "tx_logged (revoke_source now u n st sid r rows) rows = Inr rows1" "ents_ok rows1"
    then show thesis
      using revoke_source_live [OF r assms(3)] revoke_source_keeps [OF r assms(3)] by (intro that [of rows1]) simp_all
  qed
  obtain rows' where rest: "revoke_names now u st sid r ns rows1 = Inr rows'"
    and live: "\<forall>e \<in> set rows'. ent_live e \<longrightarrow> e \<in> set rows1 \<and>
       (ent_UserID e = u \<and> ent_Entitlement e \<in> set ns \<and> ent_Entitlement e \<noteq> [] \<and> by_source st sid e \<longrightarrow> \<not> ends_after now e)"
    and keep: "\<forall>e \<in> set rows1. \<not> by_source st sid e \<longrightarrow> e \<in> set rows'"
    using Cons.IH [OF ok] by blast
  have "revoke_names now u st sid r (n # ns) rows = Inr rows'" using 1 rest by simp
  moreover have "e \<in> set rows \<and> (ent_UserID e = u \<and> ent_Entitlement e \<in> set (n # ns) \<and> ent_Entitlement e \<noteq> [] \<and>
      by_source st sid e \<longrightarrow> \<not> ends_after now e)" if "e \<in> set rows'" "ent_live e" for e
  proof -
    have "e \<in> set rows1" using live that by blast
    with l1 live that show ?thesis unfolding set_simps insert_iff by metis
  qed
  ultimately show ?case using keep k1 by blast
qed auto

definition source_ended :: "EntitlementSourceType \<Rightarrow> uuid \<Rightarrow> string \<Rightarrow> time \<Rightarrow> entitlement list \<Rightarrow> bool" where
  "source_ended st sid u now rows \<longleftrightarrow> (\<forall>e \<in> set rows. ent_live e \<and> ent_UserID e = u \<and> ent_Entitlement e \<noteq> [] \<and>
     by_source st sid e \<longrightarrow> \<not> ends_after now e)"

lemma revoke_all_spec:
  assumes "ents_ok rows" "u \<noteq> []" "sid \<noteq> uuid_Nil"
  obtains rows' where "revoke_all now u st sid r rows = Inr rows'" "source_ended st sid u now rows'"
    "\<forall>e \<in> set rows'. ent_live e \<longrightarrow> e \<in> set rows" "\<forall>e \<in> set rows. \<not> by_source st sid e \<longrightarrow> e \<in> set rows'"
proof -
  let ?ns = "ListDistinctEntitlementNamesBySource st sid rows"
  obtain rows' where run: "revoke_names now u st sid r ?ns rows = Inr rows'"
    and live: "\<forall>e \<in> set rows'. ent_live e \<longrightarrow> e \<in> set rows \<and>
      (ent_UserID e = u \<and> ent_Entitlement e \<in> set ?ns \<and> ent_Entitlement e \<noteq> [] \<and> by_source st sid e \<longrightarrow> \<not> ends_after now e)"
    and keep: "\<forall>e \<in> set rows. \<not> by_source st sid e \<longrightarrow> e \<in> set rows'"
    using revoke_names_spec [OF assms] by blast
  have listed: "ent_Entitlement e \<in> set ?ns" if "e \<in> set rows" "ent_live e" "by_source st sid e" for e
    using that by (auto simp: ListDistinctEntitlementNamesBySource_def by_source_def)
  have "source_ended st sid u now rows'" unfolding source_ended_def using live listed by blast
  with run live keep that show thesis unfolding revoke_all_def by blast
qed

text \<open>A row that ends up neither active nor pending conflicts with nothing.\<close>

lemma sub_update_inactive:
  assumes ok: "subs_ok (bdb_subs db)" and s: "s0 \<in> set (bdb_subs db)" "sub_ID s = sub_ID s0" "\<not> active_or_pending s"
    and check: "sub_check (sub_row (lc_nz cfg) s) = None"
  shows "\<exists>db'. sub_update msg cfg now s db = Inr db'"
proof -
  let ?f = "\<lambda>r. (sub_row (lc_nz cfg) s)\<lparr>sub_UserID := sub_UserID r, sub_CreatedAt := sub_CreatedAt r, sub_UpdatedAt := now\<rparr>"
  have "tbl_update sub_check sub_clash (\<lambda>r. sub_ID r = sub_ID s) ?f (bdb_subs db) =
      Inr (sql_update (\<lambda>r. sub_ID r = sub_ID s) ?f (bdb_subs db))"
  proof (rule subs.update_succeeds [OF ok])
    fix r x assume "sub_ID r = sub_ID s" "sub_clash r x = None"
    then show "sub_clash (?f r) x = None" using s(3) by (simp add: sub_clash_None sub_row_def active_or_pending_def)
  next
    show "sub_check (?f r) = None" for r using check unfolding sub_check_None by simp
  qed
  moreover have "filter (\<lambda>r. sub_ID r = sub_ID s) (bdb_subs db) \<noteq> []" using s by (auto simp: filter_empty_conv)
  ultimately show ?thesis by (simp add: sub_update_def SubscriptionRepoUpdate_def)
qed


lemma cancel_subscription_in: "cancel_subscription p rows = Inr s \<Longrightarrow> s \<in> set rows"
proof -
  have "map_sum f id x = Inr s \<Longrightarrow> x = Inr s" for f and x :: "subscription result" by (cases x) simp_all
  then show "cancel_subscription p rows = Inr s \<Longrightarrow> s \<in> set rows"
    unfolding cancel_subscription_def SubGetByID_def GetByProcessorSubscriptionID_def
    by (auto split: option.split_asm dest!: sql_find_memb)
qed

lemma null_zero_Some: "null_zero nz t = Some x \<Longrightarrow> t = Some x"
  by (auto simp: null_zero_def split: if_split_asm)

lemma cancelled_check:
  assumes "sub_check s = None" "0 < now"
  shows "sub_check (sub_row nz (cancelled now p s)) = None"
proof -
  have period: "sub_CurrentPeriodStartsAt s = Some a \<Longrightarrow> sub_CurrentPeriodEndsAt s = Some b \<Longrightarrow> a < b" for a b
    using assms(1) unfolding sub_check_None by blast
  have "sub_CancelledAt (sub_row nz (cancelled now p s)) = Some now"
    using assms(2) by (simp add: sub_row_def cancelled_def Let_def null_zero_def)
  moreover have "a < b" if "sub_CurrentPeriodStartsAt (sub_row nz (cancelled now p s)) = Some a"
    "sub_CurrentPeriodEndsAt (sub_row nz (cancelled now p s)) = Some b" for a b
    using that period
    by (auto simp: sub_row_def cancelled_def Let_def duration_defs dest!: null_zero_Some split: if_split_asm option.split_asm)
  moreover have "now \<le> e" if "sub_EndedAt (sub_row nz (cancelled now p s)) = Some e" for e
    using that by (auto simp: sub_row_def cancelled_def Let_def dest!: null_zero_Some split: if_split_asm option.split_asm)
  moreover have "sub_CancelType (sub_row nz (cancelled now p s)) \<noteq> None"
    by (simp add: sub_row_def cancelled_def Let_def)
  ultimately show ?thesis unfolding sub_check_None by (metis option.inject option.distinct(1))
qed

text \<open>What identifies a subscription: no operation that ends it changes this.\<close>

definition sub_key :: "subscription \<Rightarrow> uuid \<times> string \<times> string \<times> uuid option" where
  "sub_key s = (sub_ID s, sub_UserID s, sub_Processor s, sub_PaymentMethodID s)"

lemma sub_update_others:
  assumes "sub_update msg cfg now s db = Inr db'"
  shows "\<forall>r \<in> set (bdb_subs db). sub_ID r \<noteq> sub_ID s \<longrightarrow> r \<in> set (bdb_subs db')"
    and "\<forall>r \<in> set (bdb_subs db). sub_ID r = sub_ID s \<longrightarrow> sub_key r = sub_key s \<Longrightarrow> map sub_key (bdb_subs db') = map sub_key (bdb_subs db)"
  using assms
  by (auto elim!: sub_update_Inr dest!: tbl_update_Inr simp: sql_update_def sub_key_def sub_row_def intro!: image_eqI)

lemma revoke_if:
  assumes "ents_ok rows" "u \<noteq> []" "sid \<noteq> uuid_Nil"
  obtains rows' where "(if b then revoke_all now u st sid r rows else Inr rows) = Inr rows'"
    "if b then source_ended st sid u now rows' else rows' = rows"
    "\<forall>e \<in> set rows'. ent_live e \<longrightarrow> e \<in> set rows" "\<forall>e \<in> set rows. \<not> by_source st sid e \<longrightarrow> e \<in> set rows'"
proof (cases b)
  case True
  show thesis by (rule revoke_all_spec [OF assms, of now st r], rule that) (use True in simp_all)
next
  case False
  with that [of rows] show thesis by simp
qed

text \<open>When a cancelled membership ends: at once, or with the paid period.\<close>

definition cancelled_end :: "time \<Rightarrow> CancelMembershipParams \<Rightarrow> subscription \<Rightarrow> time" where
  "cancelled_end now p s = (if ends_now now p s then now else the (sub_CurrentPeriodEndsAt s))"

lemma CancelMembership_spec:
  assumes ok: "billing_ok db" and sub: "cancel_subscription p (bdb_subs db) = Inr s" "sub_UserID s \<noteq> []" "sub_ID s \<noteq> 0"
    and env: "0 < env_now env" "env_uuid env 0 \<notin> set (map nq_ID (bdb_notifications db))"
  obtains db' where "CancelMembership cfg env p db = (Inr (), db')"
    "\<exists>r \<in> set (bdb_subs db'). sub_ID r = sub_ID s \<and> sub_Status r = StatusCancelled \<and> sub_CancelType r = Some (ca_CancelType p) \<and>
      sub_CancelledAt r = Some (env_now env) \<and> sub_EndedAt r = Some (cancelled_end (env_now env) p s)"
    "if ends_now (env_now env) p s
     then source_ended EntitlementSourceSubscription (sub_ID s) (sub_UserID s) (env_now env) (bdb_ents db')
     else bdb_ents db' = bdb_ents db"
    "\<forall>e \<in> set (bdb_ents db). \<not> by_source EntitlementSourceSubscription (sub_ID s) e \<longrightarrow> e \<in> set (bdb_ents db')"
    "\<forall>e \<in> set (bdb_ents db'). ent_live e \<longrightarrow> e \<in> set (bdb_ents db)"
    "\<forall>r \<in> set (bdb_subs db). sub_ID r \<noteq> sub_ID s \<longrightarrow> r \<in> set (bdb_subs db')"
    "map sub_key (bdb_subs db') = map sub_key (bdb_subs db)" "bdb_payments db' = bdb_payments db"
    "map nq_ID (bdb_notifications db') = map nq_ID (bdb_notifications db) @ [env_uuid env 0]"
proof -
  let ?now = "env_now env" and ?c = "cancelled (env_now env) p s"
  have s: "s \<in> set (bdb_subs db)" by (rule cancel_subscription_in [OF sub(1)])
  have subs: "subs_ok (bdb_subs db)" and ents: "ents_ok (bdb_ents db)" using ok by (simp_all add: billing_ok_def)
  have c: "sub_ID ?c = sub_ID s" "sub_Status ?c = StatusCancelled" "sub_CancelType ?c = Some (ca_CancelType p)"
    "\<not> active_or_pending ?c" "sub_key ?c = sub_key s"
    by (simp_all add: cancelled_def Let_def active_or_pending_def sub_key_def)
  have ends: "sub_CancelledAt ?c = Some ?now" "sub_EndedAt ?c = Some (cancelled_end ?now p s)" "cancelled_end ?now p s \<noteq> 0"
    using env(1) by (auto simp: cancelled_def cancelled_end_def ends_now_def Let_def split: option.splits)
  obtain db1 where u: "sub_update ''failed to update subscription'' cfg ?now ?c db = Inr db1"
    using sub_update_inactive [OF subs s c(1) c(4) cancelled_check [OF tbl_okD [OF subs s] env(1)]] by blast
  note fields = sub_update_fields [OF u]
  have same: "sub_key r = sub_key ?c" if "r \<in> set (bdb_subs db)" "sub_ID r = sub_ID ?c" for r
    using subs.ok_pair [OF subs that(1) s] that(2) c(1, 5) by (cases "r = s") (simp_all add: sub_clash_None)
  obtain rows' where rows': "(if ends_now ?now p s
      then revoke_all ?now (sub_UserID s) EntitlementSourceSubscription (sub_ID s)
        (if ca_CancelType p = CancelTypeChargeback then EntitlementRevokeChargeback else EntitlementRevokeAdmin) (bdb_ents db)
      else Inr (bdb_ents db)) = Inr rows'"
    "if ends_now ?now p s then source_ended EntitlementSourceSubscription (sub_ID s) (sub_UserID s) ?now rows' else rows' = bdb_ents db"
    "\<forall>e \<in> set rows'. ent_live e \<longrightarrow> e \<in> set (bdb_ents db)"
    "\<forall>e \<in> set (bdb_ents db). \<not> by_source EntitlementSourceSubscription (sub_ID s) e \<longrightarrow> e \<in> set rows'"
    by (rule revoke_if [OF ents sub(2, 3)])
  let ?n = "\<lparr>nq_ID = env_uuid env 0, nq_UserID = sub_UserID s, nq_EventType = ''premium_ended'', nq_Data = [(''reason'', end_reason (ca_CancelType p))], nq_Seen = False\<rparr>"
  let ?db' = "db1\<lparr>bdb_ents := rows', bdb_notifications := bdb_notifications db1 @ [?n]\<rparr>"
  have "notify (env_uuid env 0) (sub_UserID s) ''premium_ended'' [(''reason'', end_reason (ca_CancelType p))] (db1\<lparr>bdb_ents := rows'\<rparr>) = Inr ?db'"
    unfolding notify_Inr using env(2) fields(3) by simp
  with sub(1) u rows'(1) [folded fields(2)] have run: "CancelMembership cfg env p db = (Inr (), ?db')"
    unfolding CancelMembership_def run_in_tx_iff cancelMembershipTx_eq by (simp split del: if_split)
  show thesis
  proof (rule that [OF run])
    show "\<exists>r \<in> set (bdb_subs ?db'). sub_ID r = sub_ID s \<and> sub_Status r = StatusCancelled \<and> sub_CancelType r = Some (ca_CancelType p) \<and>
        sub_CancelledAt r = Some ?now \<and> sub_EndedAt r = Some (cancelled_end ?now p s)"
      using sub_update_stored [OF u s c(1) [symmetric]] c ends env(1) by (auto simp: null_zero_def)
    show "map sub_key (bdb_subs ?db') = map sub_key (bdb_subs db)" using sub_update_others(2) [OF u] same by simp
    show "\<forall>r \<in> set (bdb_subs db). sub_ID r \<noteq> sub_ID s \<longrightarrow> r \<in> set (bdb_subs ?db')"
      using sub_update_others(1) [OF u] c(1) by simp
  qed (use rows'(2-4) fields in simp_all)
qed

text \<open>
  C11: cancelling a membership never fails once its subscription is found: the subscription is stored as
  cancelled with the given type and the time of the call, and it ends at that time when the caller revokes access or
  nothing of the paid period is left, and with the paid period otherwise. In the first case no window the subscription gave its user is usable at any later moment; in the second
  every window stays. Windows from other sources always stay.
\<close>

theorem CancelMembership_ends_access:
  assumes ok: "billing_ok db" and sub: "cancel_subscription p (bdb_subs db) = Inr s" "sub_UserID s \<noteq> []" "sub_ID s \<noteq> 0"
    and env: "0 < env_now env" "env_uuid env 0 \<notin> set (map nq_ID (bdb_notifications db))"
  shows "\<exists>db'. CancelMembership cfg env p db = (Inr (), db') \<and>
    (\<exists>r \<in> set (bdb_subs db'). sub_ID r = sub_ID s \<and> sub_Status r = StatusCancelled \<and> sub_CancelType r = Some (ca_CancelType p) \<and>
      sub_CancelledAt r = Some (env_now env) \<and> sub_EndedAt r = Some (cancelled_end (env_now env) p s)) \<and>
    (if ends_now (env_now env) p s
     then source_ended EntitlementSourceSubscription (sub_ID s) (sub_UserID s) (env_now env) (bdb_ents db')
     else bdb_ents db' = bdb_ents db) \<and>
    (\<forall>e \<in> set (bdb_ents db). \<not> by_source EntitlementSourceSubscription (sub_ID s) e \<longrightarrow> e \<in> set (bdb_ents db'))"
  by (rule CancelMembership_spec [OF assms]) blast

definition ex_cancel :: CancelMembershipParams where
  "ex_cancel = \<lparr>ca_SubscriptionID = Some 5, ca_Processor = None, ca_ProcessorSubscriptionID = None,
     ca_CancelType = CancelTypeChargeback, ca_CancelFeedback = None, ca_RevokeAccess = True\<rparr>"

theorem CancelMembership_ends_access_witness:
  "\<exists>db'. CancelMembership ex_cfg (ex_ent_env (110 * ex_day) 10) ex_cancel (ex_billing ex_sub) = (Inr (), db') \<and>
     source_ended EntitlementSourceSubscription 5 ''u'' (110 * ex_day) (bdb_ents db')"
proof -
  let ?env = "ex_ent_env (110 * ex_day) 10"
  have "cancel_subscription ex_cancel (bdb_subs (ex_billing ex_sub)) = Inr ex_sub" "ends_now (env_now ?env) ex_cancel ex_sub"
    "sub_UserID ex_sub = ''u''" "sub_ID ex_sub = 5" "0 < env_now ?env"
    "env_uuid ?env 0 \<notin> set (map nq_ID (bdb_notifications (ex_billing ex_sub)))" by code_simp+
  with CancelMembership_ends_access [OF ex_billing_ok, of ex_cancel ex_sub ?env ex_cfg] show ?thesis
    by (auto simp: ex_ent_env_def)
qed

text \<open>
  C15: expiring a membership never fails once its subscription is found: the subscription is cancelled
  as expired and neither the paid nor the grace windows it gave its user are usable at any later moment; the
  windows from other sources stay.
\<close>

theorem ExpireMembership_ends_access:
  assumes ok: "billing_ok db" and sub: "SubGetByID i (bdb_subs db) = Inr s" "sub_UserID s \<noteq> []" "i \<noteq> 0"
    and env: "0 < env_now env" "env_uuid env 0 \<notin> set (map nq_ID (bdb_notifications db))"
  shows "\<exists>db'. ExpireMembership cfg env i db = (Inr (), db') \<and>
    (\<exists>r \<in> set (bdb_subs db'). sub_ID r = i \<and> sub_Status r = StatusCancelled \<and> sub_CancelType r = Some CancelTypeExpired) \<and>
    source_ended EntitlementSourceSubscription i (sub_UserID s) (env_now env) (bdb_ents db') \<and>
    source_ended EntitlementSourceGrace i (sub_UserID s) (env_now env) (bdb_ents db') \<and>
    (\<forall>e \<in> set (bdb_ents db). \<not> by_source EntitlementSourceSubscription i e \<and> \<not> by_source EntitlementSourceGrace i e \<longrightarrow>
       e \<in> set (bdb_ents db'))"
proof -
  let ?now = "env_now env"
  define c where "c = s\<lparr>sub_Status := StatusCancelled, sub_CancelledAt := Some ?now,
    sub_CancelType := Some CancelTypeExpired, sub_EndedAt := Some ?now\<rparr>"
  have s: "s \<in> set (bdb_subs db)" "sub_ID s = i" using sub(1) by (auto simp: SubGetByID_def dest: sql_find_memb)
  have subs: "subs_ok (bdb_subs db)" and ents: "ents_ok (bdb_ents db)" using ok by (simp_all add: billing_ok_def)
  have "sub_check (sub_row (lc_nz cfg) c) = None"
    using tbl_okD [OF subs s(1)] env(1) unfolding sub_check_None
    by (auto simp: c_def sub_row_def null_zero_def split: if_split_asm)
  moreover have "sub_ID c = sub_ID s" "\<not> active_or_pending c" by (simp_all add: c_def active_or_pending_def)
  ultimately obtain db1 where u: "sub_update ''failed to update subscription'' cfg ?now c db = Inr db1"
    using sub_update_inactive [OF subs s(1)] by blast
  note fields = sub_update_fields [OF u]
  obtain rows1 where r1: "revoke_all ?now (sub_UserID s) EntitlementSourceSubscription i EntitlementRevokeDunning (bdb_ents db) = Inr rows1"
    and e1: "source_ended EntitlementSourceSubscription i (sub_UserID s) ?now rows1"
    and k1: "\<forall>e \<in> set (bdb_ents db). \<not> by_source EntitlementSourceSubscription i e \<longrightarrow> e \<in> set rows1"
    using revoke_all_spec [OF ents sub(2, 3)] by metis
  obtain rows2 where r2: "revoke_all ?now (sub_UserID s) EntitlementSourceGrace i EntitlementRevokeDunning rows1 = Inr rows2"
    and e2: "source_ended EntitlementSourceGrace i (sub_UserID s) ?now rows2"
    and l2: "\<forall>e \<in> set rows2. ent_live e \<longrightarrow> e \<in> set rows1"
    and k2: "\<forall>e \<in> set rows1. \<not> by_source EntitlementSourceGrace i e \<longrightarrow> e \<in> set rows2"
    using revoke_all_spec [OF revoke_all_ok [OF ents r1] sub(2, 3)] by metis
  have e3: "source_ended EntitlementSourceSubscription i (sub_UserID s) ?now rows2"
    using e1 l2 unfolding source_ended_def by blast
  let ?n = "\<lparr>nq_ID = env_uuid env 0, nq_UserID = sub_UserID s, nq_EventType = ''premium_ended'', nq_Data = [(''reason'', ''expired'')], nq_Seen = False\<rparr>"
  let ?db' = "db1\<lparr>bdb_ents := rows2, bdb_notifications := bdb_notifications db1 @ [?n]\<rparr>"
  have "notify (env_uuid env 0) (sub_UserID s) ''premium_ended'' [(''reason'', ''expired'')] (db1\<lparr>bdb_ents := rows2\<rparr>) = Inr ?db'"
    unfolding notify_Inr using env(2) fields(3) by simp
  then have "ExpireMembership cfg env i db = (Inr (), ?db')"
    using sub(1) u r1 r2 s(2) fields(2)
    by (simp add: ExpireMembership_def expireMembershipTx_def Let_def revoke_paid_and_grace_def c_def)
  moreover have "\<exists>r \<in> set (bdb_subs ?db'). sub_ID r = i \<and> sub_Status r = StatusCancelled \<and> sub_CancelType r = Some CancelTypeExpired"
    using sub_update_stored [OF u s(1)] s(2) by (auto simp: c_def)
  moreover have "\<forall>e \<in> set (bdb_ents db). \<not> by_source EntitlementSourceSubscription i e \<and> \<not> by_source EntitlementSourceGrace i e \<longrightarrow> e \<in> set rows2"
    using k1 k2 by blast
  ultimately show ?thesis using e2 e3 by (intro exI [of _ ?db']) simp
qed

theorem ExpireMembership_ends_access_witness:
  "\<exists>db'. ExpireMembership ex_cfg (ex_ent_env (110 * ex_day) 10) 5 (ex_billing ex_sub) = (Inr (), db') \<and>
     source_ended EntitlementSourceSubscription 5 ''u'' (110 * ex_day) (bdb_ents db')"
proof -
  let ?env = "ex_ent_env (110 * ex_day) 10"
  have "SubGetByID 5 (bdb_subs (ex_billing ex_sub)) = Inr ex_sub" "sub_UserID ex_sub = ''u''" "0 < env_now ?env"
    "env_uuid ?env 0 \<notin> set (map nq_ID (bdb_notifications (ex_billing ex_sub)))" by code_simp+
  with ExpireMembership_ends_access [OF ex_billing_ok, of 5 ex_sub ?env ex_cfg] show ?thesis
    by (auto simp: ex_ent_env_def)
qed


section \<open>Creating a membership beside a standing window\<close>

lemma push_window_adds:
  assumes "push_window env u m a b st sid rows = Inr (w, rows')"
  shows "rows' = rows \<or> (\<exists>c. rows' = rows @ [c] \<and> ent_Entitlement c = m)"
  using assms unfolding push_window_def PushNewEntitlement_def Let_def
  by (auto simp: tbl_insert_Inr split: if_split_asm sum.split_asm)

lemma grant_entitlements_standing:
  assumes "n \<in> set ns" "e \<in> set rows" "ent_key e = (u, n)" "ent_live e" "ent_EndAt e = None"
    and "\<not> ExistsBySource EntitlementSourceSubscription sid n rows"
  shows "isl (grant_entitlements env u sid a b ns rows)"
  using assms(1, 2, 6)
proof (induction ns arbitrary: env rows)
  case (Cons m ns)
  show ?case
  proof (cases "m = n")
    case True
    have "list_ex (\<lambda>x. ent_key x = (u, n) \<and> ent_live x \<and> ent_EndAt x = None) rows"
      using Cons.prems(2) assms(3 - 5) unfolding list_ex_iff by blast
    then have "\<exists>x. push_window env u n a b EntitlementSourceSubscription sid rows = Inl x \<or>
        push_window env u n a b EntitlementSourceSubscription sid rows = Inr (None, rows)"
      unfolding push_window_def PushNewEntitlement_def Let_def by (auto split: sum.split)
    then show ?thesis using Cons.prems(3) True by auto
  next
    case False
    have "isl (grant_entitlements (env_shift 1 env) u sid a b ns rows')"
      if "rows' = rows \<or> (\<exists>c. rows' = rows @ [c] \<and> ent_Entitlement c = m)" for rows'
      using that Cons.prems False by (intro Cons.IH) (auto simp: ExistsBySource_def)
    then show ?thesis using Cons.prems(1) False push_window_adds [of env u m a b EntitlementSourceSubscription sid rows]
      by (auto split: sum.split option.split)
  qed
qed simp

lemma create_subscription_ID:
  assumes "create_subscription cfg env p price x db = Inr (s, db1)"
  shows "(sub_ID s = env_uuid env 0 \<or> (\<exists>r \<in> set (bdb_subs db). sub_UserID r = cm_UserID p \<and> sub_ID r = sub_ID s)) \<and>
    bdb_ents db1 = bdb_ents db \<and> bdb_products db1 = bdb_products db"
proof (cases "GetByUserIDAndPriceID (cm_UserID p) (price_ID price) (bdb_subs db)")
  case (Inl e)
  with assms show ?thesis by (auto simp: create_subscription_def Let_def split: sum.split_asm)
next
  case (Inr r)
  then have "r \<in> set (bdb_subs db)" "sub_UserID r = cm_UserID p"
    by (auto simp: GetByUserIDAndPriceID_def dest: sql_find_memb)
  with assms Inr show ?thesis
    by (auto simp: create_subscription_def Let_def split: sum.split_asm dest: sub_update_fields)
qed

text \<open>
  A membership can never be created for a user who already has, from another source, an indefinite window of one
  of the product's entitlements: the new window has nowhere to go, \<^verbatim>\<open>PushNewEntitlement\<close> returns nil without an
  error, and the log line after it dereferences that nil (or an earlier step fails). Nothing is changed.
\<close>

theorem CreateMembership_standing_window_fails:
  assumes price: "PriceGetByID (cm_PriceID p) db = Inr price" "ProductGetByID (price_ProductID price) db = Inr product"
    and n: "n \<in> set (ent_names product)"
    and e: "e \<in> set (bdb_ents db)" "ent_key e = (cm_UserID p, n)" "ent_live e" "ent_EndAt e = None"
    and src: "\<And>sid. sid = env_uuid env 0 \<or> (\<exists>r \<in> set (bdb_subs db). sub_UserID r = cm_UserID p \<and> sub_ID r = sid) \<Longrightarrow>
      \<not> ExistsBySource EntitlementSourceSubscription sid n (bdb_ents db)"
  shows "isl (fst (CreateMembership cfg env p db)) \<and> snd (CreateMembership cfg env p db) = db"
proof -
  have "createMembershipCore cfg env p db \<noteq> Inr (s, db')" for s db'
  proof
    assume "createMembershipCore cfg env p db = Inr (s, db')"
    then show False
    proof (rule createMembershipCore_Inr)
      fix price' db1 product' ents
      assume pr: "PriceGetByID (cm_PriceID p) db = Inr price'"
        and c: "create_subscription cfg env p price' (membership_period (env_now env) (cm_CurrentPeriodEndsAt p) price') db = Inr (s, db1)"
        and pd: "ProductGetByID (price_ProductID price') db1 = Inr product'"
        and g: "grant_entitlements (env_shift 3 env) (cm_UserID p) (sub_ID s) (env_now env)
          (membership_period (env_now env) (cm_CurrentPeriodEndsAt p) price') (ent_names product') (bdb_ents db1) = Inr ents"
      note c' = create_subscription_ID [OF c]
      have "product' = product" using pr pd price c' by (simp add: ProductGetByID_def)
      with grant_entitlements_standing [OF n e(1) e(2) e(3) e(4) src] c' g show False by (metis sum.disc(2))
    qed
  qed
  then show ?thesis
    by (cases "createMembershipCore cfg env p db") (auto simp: CreateMembership_def run_in_tx_def)
qed

definition ex_create :: CreateMembershipParams where
  "ex_create = \<lparr>cm_UserID = ''u'', cm_PriceID = 2, cm_Processor = ''mobius'', cm_ProcessorSubscriptionID = Some ''x2'',
     cm_UserEmail = None, cm_CurrentPeriodEndsAt = None, cm_TransactionID = [], cm_Amount = 0, cm_Currency = [],
     cm_PaymentMetadata = None\<rparr>"

definition ex_standing :: billing_db where
  "ex_standing = (ex_billing ex_sub)\<lparr>bdb_subs := [], bdb_ents := [ex_ent 1 (100 * ex_day) None]\<rparr>"

theorem CreateMembership_standing_window_fails_witness:
  "isl (fst (CreateMembership ex_cfg (ex_ent_env (110 * ex_day) 10) ex_create ex_standing)) \<and>
   fst (CreateMembership ex_cfg (ex_ent_env (110 * ex_day) 10) ex_create ex_standing) = Inl (NilDeref ''window'')"
proof
  let ?e = "ex_ent 1 (100 * ex_day) None" and ?env = "ex_ent_env (110 * ex_day) 10"
  have "PriceGetByID (cm_PriceID ex_create) ex_standing = Inr ex_price"
    by (simp add: PriceGetByID_def sql_find_def ex_create_def ex_standing_def ex_billing_def ex_price_def)
  moreover have "ProductGetByID (price_ProductID ex_price) ex_standing = Inr ex_product" by code_simp
  moreover have "''pro'' \<in> set (ent_names ex_product)" "?e \<in> set (bdb_ents ex_standing)"
    "ent_key ?e = (cm_UserID ex_create, ''pro'')" "ent_live ?e" "ent_EndAt ?e = None"
    "\<not> ExistsBySource EntitlementSourceSubscription (env_uuid ?env 0) ''pro'' (bdb_ents ex_standing)" "bdb_subs ex_standing = []"
    by code_simp+
  ultimately show "isl (fst (CreateMembership ex_cfg ?env ex_create ex_standing))"
    using CreateMembership_standing_window_fails [of ex_create ex_standing ex_price ex_product "''pro''" ?e ?env ex_cfg] by simp
qed code_simp

end
