(* ===== verification/Dunning.thy ===== *)
theory Dunning
  imports Membership_Access
begin

text \<open>
  Failed payments. Below the limit of failures \<^verbatim>\<open>FailMembership\<close> counts the failure, schedules the next retry and
  keeps the member's access until then; at the limit, and in the mode without dunning, the database refuses what
  it writes. The last section is about subscriptions cancelled by a chargeback, which the lifecycle policy calls terminal.
\<close>

section \<open>Grace until the next retry\<close>

definition fresh_env :: "go_env \<Rightarrow> entitlement list \<Rightarrow> bool" where
  "fresh_env env rows \<longleftrightarrow> inj (env_uuid env) \<and> (\<forall>i. env_uuid env i \<notin> set (map ent_ID rows))"

lemma fresh_env_shift:
  assumes "fresh_env env rows" "set (map ent_ID rows') \<subseteq> insert (env_uuid env 0) (set (map ent_ID rows))"
  shows "fresh_env (env_shift 1 env) rows'"
proof -
  have "inj (env_uuid env)" using assms(1) by (simp add: fresh_env_def)
  then have "inj (env_uuid (env_shift 1 env))" "env_uuid env (1 + i) \<noteq> env_uuid env 0" for i by (auto simp: inj_on_def)
  with assms show ?thesis unfolding fresh_env_def env_shift_uuid by blast
qed

lemma push_window_cases:
  assumes "ents_ok rows" "fresh_env env rows"
  obtains e where "push_window env u n a b st sid rows = Inl e" "\<not> is_sql_error e" "u = [] \<or> n = [] \<or> sid = uuid_Nil \<or> b = time_zero"
  | w rows' where "push_window env u n a b st sid rows = Inr (w, rows')" "ents_ok rows'" "fresh_env (env_shift 1 env) rows'"
proof -
  let ?p = "\<lparr>push_UserID = u, push_Entitlement = n, push_NotBefore = Some a, push_Indefinite = False,
       push_Duration = None, push_EndAt = Some b, push_SourceType = st, push_SourceID = sid\<rparr>"
  show thesis
  proof (cases "push_validate ?p")
    case (Inl e)
    then have "\<not> is_sql_error e" "u = [] \<or> n = [] \<or> sid = uuid_Nil \<or> b = time_zero"
      by (auto simp: push_validate_def Let_def split: if_split_asm)
    with that(1) Inl show thesis by (simp add: push_window_def PushNewEntitlement_def)
  next
    case (Inr r)
    have new: "env_uuid env 0 \<notin> set (map ent_ID rows)" using assms(2) unfolding fresh_env_def by blast
    obtain w rows' where run: "push_window env u n a b st sid rows = Inr (w, rows')" and ok: "ents_ok rows'"
      using push_appends [OF assms(1) _ new, of ?p] Inr unfolding push_window_def by auto
    then have "set (map ent_ID rows') \<subseteq> insert (env_uuid env 0) (set (map ent_ID rows))"
      by (auto simp: push_window_def PushNewEntitlement_def Let_def tbl_insert_Inr split: if_split_asm sum.split_asm)
    with run ok that(2) fresh_env_shift [OF assms(2)] show thesis by blast
  qed
qed

lemma push_grace_covers:
  assumes "ents_ok rows" "fresh_env env rows" "u \<noteq> []" "sid \<noteq> uuid_Nil" "b \<noteq> time_zero" "distinct ns"
  shows "\<exists>rows'. push_grace env u sid a b ns rows = Inr rows' \<and>
    (\<forall>m. m \<notin> set ns \<longrightarrow> windows u m rows' = windows u m rows) \<and>
    (\<forall>n \<in> set ns. n \<noteq> [] \<and> paid_up_to (\<lambda>_. False) (max (env_now env) a) (windows u n rows) \<longrightarrow>
       (\<forall>t. max (env_now env) a \<le> t \<and> t < b \<longrightarrow> IsEntitled u n t rows'))"
  using assms
proof (induction ns arbitrary: rows env)
  case (Cons n ns)
  note push = push_window_cases [OF Cons.prems(1, 2), of u n a b EntitlementSourceGrace sid]
  obtain rows1 where 1: "tx_logged (map_sum id snd (push_window env u n a b EntitlementSourceGrace sid rows)) rows = Inr rows1"
    and ok: "ents_ok rows1" "fresh_env (env_shift 1 env) rows1"
    and n: "n \<noteq> [] \<Longrightarrow> \<exists>w. push_window env u n a b EntitlementSourceGrace sid rows = Inr (w, rows1)"
    and other: "\<And>m. m \<noteq> n \<Longrightarrow> windows u m rows1 = windows u m rows"
  proof (rule push)
    fix e assume "push_window env u n a b EntitlementSourceGrace sid rows = Inl e" "\<not> is_sql_error e"
      "u = [] \<or> n = [] \<or> sid = uuid_Nil \<or> b = time_zero"
    moreover have "fresh_env (env_shift 1 env) rows" by (rule fresh_env_shift [OF Cons.prems(2)]) blast
    ultimately show thesis using Cons.prems by (intro that [of rows]) (auto simp: tx_logged_def)
  next
    fix w rows' assume r: "push_window env u n a b EntitlementSourceGrace sid rows = Inr (w, rows')" "ents_ok rows'"
      "fresh_env (env_shift 1 env) rows'"
    with push_window_other [OF r(1)] show thesis by (intro that [of rows']) (auto simp: tx_logged_def)
  qed
  obtain rows' where rest: "push_grace (env_shift 1 env) u sid a b ns rows1 = Inr rows'"
    and other': "\<And>m. m \<notin> set ns \<Longrightarrow> windows u m rows' = windows u m rows1"
    and cov: "\<And>m t. m \<in> set ns \<Longrightarrow> m \<noteq> [] \<Longrightarrow> paid_up_to (\<lambda>_. False) (max (env_now env) a) (windows u m rows1) \<Longrightarrow>
       max (env_now env) a \<le> t \<Longrightarrow> t < b \<Longrightarrow> IsEntitled u m t rows'"
    using Cons.IH [OF ok Cons.prems(3, 4, 5)] Cons.prems(6) by auto
  have "push_grace env u sid a b (n # ns) rows = Inr rows'" using 1 rest by simp
  moreover have "windows u m rows' = windows u m rows" if "m \<notin> set (n # ns)" for m using that other other' by simp
  moreover have "IsEntitled u m t rows'" if m: "m \<in> set (n # ns)" "m \<noteq> []"
    and p: "paid_up_to (\<lambda>_. False) (max (env_now env) a) (windows u m rows)" and t: "max (env_now env) a \<le> t" "t < b" for m t
  proof (cases "m = n")
    case True
    with n m(2) push_window_covers p t have "IsEntitled u m t rows1" by blast
    with other' [of m] Cons.prems(6) True show ?thesis by (simp add: IsEntitled_windows)
  next
    case False
    with cov [OF _ m(2) _ t] other [OF False] p m(1) show ?thesis by simp
  qed
  ultimately show ?case by blast
qed simp


section \<open>Failures below the limit\<close>

lemma failed_subscription_retry:
  assumes "mode \<noteq> ''off''" "case sub_RetryAttempts s of None \<Rightarrow> True | Some k \<Rightarrow> 0 \<le> k \<and> k < 4"
  shows "failed_subscription mode now s = s\<lparr>sub_Status := StatusPastDue, sub_LastRetryAt := Some now,
    sub_RetryAttempts := Some ((case sub_RetryAttempts s of None \<Rightarrow> 0 | Some k \<Rightarrow> k) + 1),
    sub_NextRetryAt := Some (now + DunningInterval)\<rparr>"
proof -
  have wrap: "i64 (k + 1) = k + 1" if "0 \<le> k" "k < 4" for k :: int using that by (intro i64_id) (simp add: in_i64_def)
  show ?thesis
  proof (cases "sub_RetryAttempts s")
    case (Some k)
    with assms wrap [of k] show ?thesis by (simp add: failed_subscription_def MaxDunningFailures_def)
  qed (use assms in \<open>simp add: failed_subscription_def MaxDunningFailures_def\<close>)
qed

text \<open>
  C13: below the limit of failures, a failed payment of a card subscription never ends it: the method succeeds,
  the subscription is past due with one more failure and the next retry three days ahead, and
  from the end of the paid term (or the present, if that is later) up to that retry the member keeps every
  entitlement the subscription gave, provided no other window of it starts beyond the paid term.
\<close>

theorem FailMembership_keeps_access_until_retry:
  assumes ok: "billing_ok db" and p: "fa_SubscriptionID p = Some i" "SubGetByID i (bdb_subs db) = Inr s" "sub_UserID s \<noteq> []" "i \<noteq> 0"
    and mode: "lc_dunningMode cfg \<noteq> ''off''" "IsNMIBacked (lc_nmi cfg) (sub_Processor s)"
    and attempts: "case sub_RetryAttempts s of None \<Rightarrow> True | Some k \<Rightarrow> 0 \<le> k \<and> k < 4"
    and paid: "sub_CurrentPeriodEndsAt s = Some paidEnd"
    and env: "0 < env_now env" "env_uuid env 0 \<notin> set (map nq_ID (bdb_notifications db))" "fresh_env env (bdb_ents db)"
  shows "\<exists>db'. FailMembership cfg env p db = (Inr StatusPastDue, db') \<and>
    (\<exists>r \<in> set (bdb_subs db'). sub_ID r = i \<and> sub_Status r = StatusPastDue \<and> sub_NextRetryAt r = Some (env_now env + DunningInterval) \<and>
       sub_RetryAttempts r = Some ((case sub_RetryAttempts s of None \<Rightarrow> 0 | Some k \<Rightarrow> k) + 1)) \<and>
    (\<forall>n t. n \<noteq> [] \<and> ExistsBySource EntitlementSourceSubscription i n (bdb_ents db) \<and>
       paid_up_to (\<lambda>_. False) (max (env_now env) paidEnd) (windows (sub_UserID s) n (bdb_ents db)) \<and>
       max (env_now env) paidEnd \<le> t \<and> t < env_now env + DunningInterval \<longrightarrow>
       IsEntitled (sub_UserID s) n t (bdb_ents db'))"
proof -
  let ?now = "env_now env" and ?next = "env_now env + DunningInterval" and ?u = "sub_UserID s"
  let ?ns = "ListDistinctEntitlementNamesBySource EntitlementSourceSubscription i (bdb_ents db)"
  define c where "c = failed_subscription (lc_dunningMode cfg) ?now s"
  note c = failed_subscription_retry [OF mode(1) attempts, of ?now, folded c_def]
  have s: "s \<in> set (bdb_subs db)" "sub_ID s = i" using p(2) by (auto simp: SubGetByID_def dest: sql_find_memb)
  have subs: "subs_ok (bdb_subs db)" and ents: "ents_ok (bdb_ents db)" using ok by (simp_all add: billing_ok_def)
  have next_pos: "0 < ?next" using env(1) by (simp add: DunningInterval_def duration_defs)
  have fresh: "fresh_env (env_shift 1 env) (bdb_ents db)" by (rule fresh_env_shift [OF env(3)]) blast
  obtain ents1 where g: "grace_until_retry cfg (env_shift 1 env) c (bdb_ents db) = Inr ents1"
    and cov: "\<And>n t. n \<noteq> [] \<Longrightarrow> n \<in> set ?ns \<Longrightarrow> paid_up_to (\<lambda>_. False) (max ?now paidEnd) (windows ?u n (bdb_ents db)) \<Longrightarrow>
      max ?now paidEnd \<le> t \<Longrightarrow> t < ?next \<Longrightarrow> IsEntitled ?u n t ents1"
  proof (cases "?next > paidEnd")
    case True
    obtain ents1 where run: "push_grace (env_shift 1 env) ?u i (max ?now paidEnd) ?next ?ns (bdb_ents db) = Inr ents1"
      and cov: "\<forall>n \<in> set ?ns. n \<noteq> [] \<and> paid_up_to (\<lambda>_. False) (max ?now paidEnd) (windows ?u n (bdb_ents db)) \<longrightarrow>
       (\<forall>t. max ?now paidEnd \<le> t \<and> t < ?next \<longrightarrow> IsEntitled ?u n t ents1)"
      using push_grace_covers [OF ents fresh p(3, 4), of ?next ?ns "max ?now paidEnd"] next_pos
      by (auto simp: ListDistinctEntitlementNamesBySource_def)
    have "max ?now paidEnd = (if ?now < paidEnd then paidEnd else ?now)" by (simp add: max_def)
    with run True have "grace_until_retry cfg (env_shift 1 env) c (bdb_ents db) = Inr ents1"
      using mode(2) paid s(2) by (simp add: grace_until_retry_def c split: if_split_asm)
    then show thesis by (rule that) (use cov in blast)
  next
    case False
    then have "grace_until_retry cfg (env_shift 1 env) c (bdb_ents db) = Inr (bdb_ents db)"
      using paid by (simp add: grace_until_retry_def c)
    then show thesis by (rule that) (use False in simp)
  qed
  have "sub_check (sub_row (lc_nz cfg) c) = None"
    using tbl_okD [OF subs s(1)] unfolding sub_check_None c by (auto simp: sub_row_def dest!: null_zero_Some)
  then obtain db1 where u: "sub_update ''failed to update subscription'' cfg ?now c (db\<lparr>bdb_ents := ents1\<rparr>) = Inr db1"
    using sub_update_inactive [of "db\<lparr>bdb_ents := ents1\<rparr>" s c cfg] subs s(1) by (auto simp: c active_or_pending_def)
  note fields = sub_update_fields [OF u]
  let ?n = "\<lparr>nq_ID = env_uuid env 0, nq_UserID = ?u, nq_EventType = ''payment_method_failed'', nq_Data = [], nq_Seen = False\<rparr>"
  let ?db' = "db1\<lparr>bdb_notifications := bdb_notifications db1 @ [?n]\<rparr>"
  have "notify (env_uuid env 0) ?u ''payment_method_failed'' [] (db1\<lparr>bdb_ents := bdb_ents db1\<rparr>) = Inr ?db'"
    unfolding notify_Inr using env(2) fields(3) by simp
  moreover have "sub_Status c = StatusPastDue" "sub_UserID c = ?u" by (simp_all add: c)
  ultimately have "FailMembership cfg env p db = (Inr StatusPastDue, ?db')"
    using p(1, 2) g u by (simp add: FailMembership_def failMembershipTx_def Let_def c_def)
  moreover have "\<exists>r \<in> set (bdb_subs ?db'). sub_ID r = i \<and> sub_Status r = StatusPastDue \<and> sub_NextRetryAt r = Some ?next \<and>
       sub_RetryAttempts r = Some ((case sub_RetryAttempts s of None \<Rightarrow> 0 | Some k \<Rightarrow> k) + 1)"
    using sub_update_stored [OF u, of s] s next_pos by (auto simp: c null_zero_def)
  moreover have "ExistsBySource EntitlementSourceSubscription i n (bdb_ents db) \<Longrightarrow> n \<in> set ?ns" for n
    by (auto simp: ExistsBySource_def list_ex_iff ListDistinctEntitlementNamesBySource_def)
  ultimately show ?thesis using cov fields(2) by (intro exI [of _ ?db']) simp
qed


definition ex_fail :: FailMembershipParams where
  "ex_fail = \<lparr>fa_Processor = ''mobius'', fa_SubscriptionID = Some 5, fa_FailureReason = None, fa_FailureCode = None\<rparr>"

lemma ex_fresh: "fresh_env (ex_ent_env now 10) (bdb_ents (ex_billing s))"
  by (simp add: fresh_env_def ex_ent_env_def ex_billing_def ex_ent_def inj_on_def)

theorem FailMembership_keeps_access_until_retry_witness:
  "\<exists>db'. FailMembership ex_cfg (ex_ent_env (130 * ex_day) 10) ex_fail (ex_billing ex_sub) = (Inr StatusPastDue, db') \<and>
     IsEntitled ''u'' ''pro'' (132 * ex_day) (bdb_ents db')"
proof -
  let ?env = "ex_ent_env (130 * ex_day) 10" and ?db = "ex_billing ex_sub"
  have 1: "SubGetByID 5 (bdb_subs ?db) = Inr ex_sub" "lc_dunningMode ex_cfg \<noteq> ''off''" "IsNMIBacked (lc_nmi ex_cfg) (sub_Processor ex_sub)"
    "0 < env_now ?env" "env_uuid ?env 0 \<notin> set (map nq_ID (bdb_notifications ?db))"
    "ExistsBySource EntitlementSourceSubscription 5 ''pro'' (bdb_ents ?db)"
    "paid_up_to (\<lambda>_. False) (max (env_now ?env) (130 * ex_day)) (windows (sub_UserID ex_sub) ''pro'' (bdb_ents ?db))"
    "max (env_now ?env) (130 * ex_day) \<le> 132 * ex_day" "132 * ex_day < env_now ?env + DunningInterval"
    by code_simp+
  have 2: "fa_SubscriptionID ex_fail = Some 5" "sub_UserID ex_sub = ''u''" "sub_RetryAttempts ex_sub = None"
    "sub_CurrentPeriodEndsAt ex_sub = Some (130 * ex_day)" by (simp_all add: ex_fail_def ex_sub_def)
  show ?thesis
    using FailMembership_keeps_access_until_retry [OF ex_billing_ok 2(1) 1(1) _ _ 1(2, 3) _ 2(4) 1(4, 5) ex_fresh] 1(6-9) 2(2, 3)
    by auto
qed

section \<open>Failures the database refuses\<close>

lemma tbl_update_check:
  assumes "r \<in> set rows" "P r" "\<And>x. P x \<Longrightarrow> check (f x) = Some c"
  shows "tbl_update check clash P f rows = Inl (ErrConstraint c)"
proof -
  have "tbl_update_from check clash P f seen rows = Inl (ErrConstraint c)" for seen
    using assms(1) by (induction rows arbitrary: seen) (auto simp: violation_def assms(2, 3))
  then show ?thesis by (simp add: tbl_update_def)
qed

lemma sub_update_refused:
  assumes "s0 \<in> set (bdb_subs db)" "sub_ID s0 = sub_ID s" "sub_check (sub_row (lc_nz cfg) s) = Some c"
  shows "sub_update msg cfg now s db = Inl (ErrWrap msg (ErrConstraint c))"
proof -
  let ?f = "\<lambda>r. (sub_row (lc_nz cfg) s)\<lparr>sub_UserID := sub_UserID r, sub_CreatedAt := sub_CreatedAt r, sub_UpdatedAt := now\<rparr>"
  have "sub_check (?f r) = sub_check (sub_row (lc_nz cfg) s)" for r by (simp add: sub_check_def)
  then have "sub_check (?f r) = Some c" for r using assms(3) by simp
  then have "tbl_update sub_check sub_clash (\<lambda>r. sub_ID r = sub_ID s) ?f (bdb_subs db) = Inl (ErrConstraint c)"
    by (intro tbl_update_check [OF assms(1)]) (simp_all add: assms(2))
  then show ?thesis by (simp add: sub_update_def SubscriptionRepoUpdate_def)
qed

lemma FailMembership_refused:
  assumes "fa_SubscriptionID p = Some i" "SubGetByID i (bdb_subs db) = Inr s"
    and "sub_Status (failed_subscription (lc_dunningMode cfg) (env_now env) s) = StatusCancelled"
    and "sub_ID (failed_subscription (lc_dunningMode cfg) (env_now env) s) = sub_ID s"
    and "sub_check (sub_row (lc_nz cfg) (failed_subscription (lc_dunningMode cfg) (env_now env) s)) = Some c"
  shows "FailMembership cfg env p db = (Inl (ErrWrap ''failed to update subscription'' (ErrConstraint c)), db)"
proof -
  have "s \<in> set (bdb_subs (db\<lparr>bdb_ents := bdb_ents db\<rparr>))" using assms(2) by (auto simp: SubGetByID_def dest: sql_find_memb)
  from sub_update_refused [OF this assms(4) [symmetric] assms(5)] assms(1 - 3) show ?thesis
    by (simp add: FailMembership_def run_in_tx_def failMembershipTx_def grace_until_retry_def Let_def)
qed

text \<open>
  With dunning switched off, a failed payment cannot be recorded: the method only sets the status and the end of
  the subscription, the database asks a cancelled subscription for the time of its cancellation, so the call fails
  and changes nothing; the subscription stays as it was and its member keeps access. The comment on the method and the
  configuration reference promise an immediate cancellation.
\<close>

theorem FailMembership_off_refused:
  assumes "fa_SubscriptionID p = Some i" "SubGetByID i (bdb_subs db) = Inr s" "sub_CancelledAt s = None" "lc_dunningMode cfg = ''off''"
  shows "FailMembership cfg env p db =
    (Inl (ErrWrap ''failed to update subscription'' (ErrConstraint ''chk_cancelled_has_timestamp'')), db)"
proof -
  let ?c = "failed_subscription (lc_dunningMode cfg) (env_now env) s"
  have c: "sub_Status ?c = StatusCancelled" "sub_ID ?c = sub_ID s" "sub_CancelledAt ?c = None"
    using assms(3, 4) by (simp_all add: failed_subscription_def)
  then have "sub_Status (sub_row (lc_nz cfg) ?c) = StatusCancelled" "sub_CancelledAt (sub_row (lc_nz cfg) ?c) = None"
    by (simp_all add: sub_row_def null_zero_def)
  then have "sub_check (sub_row (lc_nz cfg) ?c) = Some ''chk_cancelled_has_timestamp''" by (simp add: sub_check_def)
  with FailMembership_refused [OF assms(1, 2) c(1, 2)] show ?thesis by simp
qed

theorem FailMembership_off_refused_witness:
  "fst (FailMembership (ex_cfg\<lparr>lc_dunningMode := ''off''\<rparr>) (ex_ent_env (130 * ex_day) 10) ex_fail (ex_billing ex_sub)) =
    Inl (ErrWrap ''failed to update subscription'' (ErrConstraint ''chk_cancelled_has_timestamp''))"
proof -
  have "SubGetByID 5 (bdb_subs (ex_billing ex_sub)) = Inr ex_sub" by code_simp
  then show ?thesis
    using FailMembership_off_refused [of ex_fail 5 "ex_billing ex_sub" ex_sub "ex_cfg\<lparr>lc_dunningMode := ''off''\<rparr>"]
    by (simp add: ex_fail_def ex_sub_def)
qed

text \<open>
  Once the paid period is over, the failure that reaches the limit cannot be recorded either: \<^verbatim>\<open>Cancel\<close> moves the
  end of the subscription two minutes before the present and the cancellation to the present, which one of the two
  constraints on the dates refuses, whichever way the ORM stores the cleared period. The call changes nothing: the
  subscription stays past due one failure below the limit, however often this repeats.
\<close>

theorem FailMembership_last_failure_refused:
  assumes "fa_SubscriptionID p = Some i" "SubGetByID i (bdb_subs db) = Inr s" "lc_dunningMode cfg \<noteq> ''off''"
    and "sub_RetryAttempts s = Some k" "4 \<le> k" "k < 2 ^ 63 - 1"
    and "sub_CurrentPeriodEndsAt s = Some t" "t \<noteq> 0" "t \<le> env_now env" "2 * time_Minute < env_now env"
  shows "FailMembership cfg env p db = (Inl (ErrWrap ''failed to update subscription'' (ErrConstraint
    (if lc_nz cfg then ''chk_ended_not_before_cancelled'' else ''chk_valid_period''))), db)"
proof -
  have "i64 (k + 1) = k + 1" using assms(5, 6) by (intro i64_id) (simp add: in_i64_def)
  then have f: "failed_subscription (lc_dunningMode cfg) (env_now env) s = s\<lparr>sub_LastRetryAt := Some (env_now env),
      sub_RetryAttempts := Some (k + 1), sub_CurrentPeriodStartsAt := Some 0, sub_CurrentPeriodEndsAt := Some 0,
      sub_EndedAt := Some (env_now env - 2 * time_Minute), sub_CancelledAt := Some (env_now env),
      sub_CancelType := Some CancelTypeExpired, sub_CancelFeedback := Some ''transaction_failure'', sub_Status := StatusCancelled\<rparr>"
    using assms(3 - 9) by (simp add: failed_subscription_def MaxDunningFailures_def Cancel_def ResetCurrentPeriods_def)
  have "0 < time_Minute" by (simp add: duration_defs)
  then show ?thesis
    using assms(1, 2, 10)
    by (intro FailMembership_refused) (auto simp: f sub_check_def sub_row_def null_zero_def)
qed

theorem FailMembership_last_failure_refused_witness:
  "isl (fst (FailMembership ex_cfg (ex_ent_env (145 * ex_day) 10) ex_fail
     (ex_billing (ex_sub\<lparr>sub_Status := StatusPastDue, sub_RetryAttempts := Some 4\<rparr>))))"
proof -
  let ?s = "ex_sub\<lparr>sub_Status := StatusPastDue, sub_RetryAttempts := Some 4\<rparr>"
  have "SubGetByID 5 (bdb_subs (ex_billing ?s)) = Inr ?s" by code_simp
  then show ?thesis
    using FailMembership_last_failure_refused [of ex_fail 5 "ex_billing ?s" ?s ex_cfg 4 "130 * ex_day" "ex_ent_env (145 * ex_day) 10"]
    by (simp add: ex_fail_def ex_sub_def ex_cfg_def ex_day_def ex_ent_env_def duration_defs)
qed


section \<open>Terminal subscriptions\<close>

lemma other_rows_kept:
  assumes "subs_ok (bdb_subs db)" "s0 \<in> set (bdb_subs db)" "sub_ID s = sub_ID s0" "r \<in> set (bdb_subs db)" "r \<noteq> s0"
    and "sub_update msg cfg now s db = Inr db'"
  shows "r \<in> set (bdb_subs db')"
proof -
  have id: "sub_ID r \<noteq> sub_ID s" using subs.ok_pair [OF assms(1) assms(4, 2) assms(5)] assms(3) by (simp add: sub_clash_None)
  obtain rows where "db' = db\<lparr>bdb_subs := rows\<rparr>"
    and u: "tbl_update sub_check sub_clash (\<lambda>r. sub_ID r = sub_ID s)
       (\<lambda>r. (sub_row (lc_nz cfg) s)\<lparr>sub_UserID := sub_UserID r, sub_CreatedAt := sub_CreatedAt r, sub_UpdatedAt := now\<rparr>)
       (bdb_subs db) = Inr rows"
    using assms(6) by (rule sub_update_Inr)
  with id assms(4) show ?thesis unfolding tbl_update_Inr [OF u] by (auto simp: set_sql_update intro!: image_eqI [of _ _ r])
qed

lemma renewal_subscription_in: "renewal_subscription cfg p rows = Inr s \<Longrightarrow> s \<in> set rows"
  by (auto simp: renewal_subscription_def GetByProcessorSubscriptionID_def SubGetByID_def
      split: sum.split_asm option.split_asm if_split_asm dest: sql_find_memb)

lemma renewal_price_ID: "renewal_price s db = Inr (s', pr, d) \<Longrightarrow> sub_ID s' = sub_ID s"
  by (auto simp: renewal_price_def split: option.split_asm sum.split_asm)

lemma renewal_marker_subs: "renewal_marker env p s pr db = Inr (b, db') \<Longrightarrow> bdb_subs db' = bdb_subs db"
  by (auto simp: renewal_marker_def Let_def split: if_split_asm sum.split_asm)

lemma transition_allowed:
  "assertActiveTransitionAllowed s trigger False = Inr () \<longleftrightarrow> \<not> snd (TerminalCancelReason s)"
  by (simp add: assertActiveTransitionAllowed_def)

lemma renewMembershipTx_keeps_terminal:
  assumes ok: "billing_ok db" and r: "r \<in> set (bdb_subs db)" "snd (TerminalCancelReason r)" "\<not> rm_AllowTerminalReactivation p"
    and run: "renewMembershipTx cfg env p db = Inr (b, db')"
  shows "r \<in> set (bdb_subs db')"
  using run
proof (rule renewMembershipTx_Inr)
  fix s0 s1 price downgrade db1
  assume s0: "renewal_subscription cfg p (bdb_subs db) = Inr s0" and "assertActiveTransitionAllowed s0 ''renewal'' (rm_AllowTerminalReactivation p) = Inr ()"
    and s1: "renewal_price s0 db = Inr (s1, price, downgrade)" and m: "renewal_marker env p s1 price db = Inr (b, db1)"
    and a: "if b then renewal_apply cfg env p s1 price downgrade db1 = Inr db' else db' = db1"
  then have ne: "r \<noteq> s0" using r(2, 3) by (auto simp: transition_allowed)
  have subs: "bdb_subs db1 = bdb_subs db" by (rule renewal_marker_subs [OF m])
  show ?thesis
  proof (cases b)
    case True
    with a have "renewal_apply cfg env p s1 price downgrade db1 = Inr db'" by simp
    then show ?thesis
    proof (rule renewal_apply_Inr)
      fix startsAt endsAt db2 product ents d
      assume u: "sub_update ''failed to update subscription'' cfg (env_now env) (activated startsAt endsAt s1) db1 = Inr db2"
        and "notify (env_uuid env 1) (sub_UserID s1) ''premium_renewed'' d (db2\<lparr>bdb_ents := ents\<rparr>) = Inr db'"
      moreover have "r \<in> set (bdb_subs db2)"
        by (rule other_rows_kept [OF _ _ _ _ ne u])
           (use ok renewal_subscription_in [OF s0] renewal_price_ID [OF s1] r(1) subs in \<open>simp_all add: billing_ok_def activated_def\<close>)
      ultimately show ?thesis by (auto simp: notify_Inr)
    qed
  qed (use a r(1) subs in simp)
qed

lemma reactivateMembershipTx_keeps_terminal:
  assumes ok: "billing_ok db" and r: "r \<in> set (bdb_subs db)" "snd (TerminalCancelReason r)" "\<not> ra_AllowTerminalReactivation p"
    and run: "reactivateMembershipTx cfg env p endsAt db = Inr (s, db')"
  shows "r \<in> set (bdb_subs db')"
  using run
proof (rule reactivateMembershipTx_Inr)
  fix s0 db1 ents
  assume s0: "GetByProcessorSubscriptionID (ra_Processor p) (TrimSpace (ra_ProcessorSubscriptionID p)) (bdb_subs db) = Inr s0"
    and "assertActiveTransitionAllowed s0 ''reactivation'' (ra_AllowTerminalReactivation p) = Inr ()"
    and s: "s = activated (env_now env) endsAt s0"
    and u: "sub_update ''failed to update reactivated subscription'' cfg (env_now env) s db = Inr db1" and "db' = db1\<lparr>bdb_ents := ents\<rparr>"
  moreover from this(2) have ne: "r \<noteq> s0" using r(2, 3) by (auto simp: transition_allowed)
  moreover have "s0 \<in> set (bdb_subs db)" using s0 by (auto simp: GetByProcessorSubscriptionID_def dest: sql_find_memb)
  ultimately show ?thesis using other_rows_kept [OF _ _ _ r(1) ne u] ok by (simp add: billing_ok_def activated_def)
qed

text \<open>
  C32: the lifecycle policy holds for renewals and reactivations: without the override, a subscription cancelled by
  a chargeback is left exactly as it is by any call of either, and a call that asks for that subscription fails with the
  policy error; a reactivation must name the subscription and an end in the future to be considered at all.
\<close>

theorem terminal_subscription_untouched:
  assumes ok: "billing_ok db" and r: "r \<in> set (bdb_subs db)" "snd (TerminalCancelReason r)"
    and p: "\<not> rm_AllowTerminalReactivation p" "\<not> ra_AllowTerminalReactivation q"
  shows "r \<in> set (bdb_subs (snd (RenewMembership cfg env p db))) \<and> r \<in> set (bdb_subs (snd (ReactivateMembership cfg env q db))) \<and>
    (renewal_subscription cfg p (bdb_subs db) = Inr r \<longrightarrow>
       fst (RenewMembership cfg env p db) = Inl (ErrTerminalTransitionBlocked ''renewal'')) \<and>
    (GetByProcessorSubscriptionID (ra_Processor q) (TrimSpace (ra_ProcessorSubscriptionID q)) (bdb_subs db) = Inr r \<and>
     TrimSpace (ra_ProcessorSubscriptionID q) \<noteq> [] \<and> ra_CurrentPeriodEndsAt q = Some endsAt \<and> endsAt \<noteq> time_zero \<and> env_now env < endsAt \<longrightarrow>
       ReactivateMembership cfg env q db = (Inl (ErrTerminalTransitionBlocked ''reactivation''), db))"
proof -
  have "r \<in> set (bdb_subs (snd (RenewMembership cfg env p db)))"
    using renewMembershipTx_keeps_terminal [OF ok r p(1)] r(1)
    by (cases "renewMembershipTx cfg env p db") (auto simp: RenewMembership_def run_in_tx_def)
  moreover have "r \<in> set (bdb_subs (snd (ReactivateMembership cfg env q db)))"
  proof (cases "fst (ReactivateMembership cfg env q db)")
    case (Inl e)
    then have "snd (ReactivateMembership cfg env q db) = db"
      by (auto simp: ReactivateMembership_def run_in_tx_def split: if_split_asm option.split_asm sum.split_asm)
    with r(1) show ?thesis by simp
  next
    case (Inr s)
    then have "ReactivateMembership cfg env q db = (Inr s, snd (ReactivateMembership cfg env q db))" by (metis prod.collapse)
    then show ?thesis by (rule ReactivateMembership_Inr) (rule reactivateMembershipTx_keeps_terminal [OF ok r p(2)])
  qed
  moreover have "fst (RenewMembership cfg env p db) = Inl (ErrTerminalTransitionBlocked ''renewal'')"
    if "renewal_subscription cfg p (bdb_subs db) = Inr r"
    using that r(2) p(1) by (simp add: RenewMembership_def run_in_tx_def renewMembershipTx_def assertActiveTransitionAllowed_def)
  moreover have "ReactivateMembership cfg env q db = (Inl (ErrTerminalTransitionBlocked ''reactivation''), db)"
    if "GetByProcessorSubscriptionID (ra_Processor q) (TrimSpace (ra_ProcessorSubscriptionID q)) (bdb_subs db) = Inr r"
      "TrimSpace (ra_ProcessorSubscriptionID q) \<noteq> []" "ra_CurrentPeriodEndsAt q = Some endsAt" "endsAt \<noteq> time_zero" "env_now env < endsAt"
    using that r(2) p(2)
    by (simp add: ReactivateMembership_def run_in_tx_def reactivateMembershipTx_def assertActiveTransitionAllowed_def Let_def)
  ultimately show ?thesis by blast
qed

definition ex_charged_back :: subscription where
  "ex_charged_back = ex_sub\<lparr>sub_Status := StatusCancelled, sub_CancelType := Some CancelTypeChargeback,
     sub_CancelledAt := Some (110 * ex_day), sub_EndedAt := Some (110 * ex_day)\<rparr>"

definition ex_reactivate :: ReactivateMembershipParams where
  "ex_reactivate = \<lparr>ra_Processor = ''mobius'', ra_ProcessorSubscriptionID = ''x1'', ra_CurrentPeriodEndsAt = Some (170 * ex_day),
     ra_AllowTerminalReactivation = False\<rparr>"

theorem terminal_subscription_untouched_witness:
  "ex_charged_back \<in> set (bdb_subs (snd (RenewMembership ex_cfg (ex_ent_env (130 * ex_day) 10) ex_renew (ex_billing ex_charged_back)))) \<and>
   fst (ReactivateMembership ex_cfg (ex_ent_env (130 * ex_day) 10) ex_reactivate (ex_billing ex_charged_back)) =
     Inl (ErrTerminalTransitionBlocked ''reactivation'')"
proof -
  let ?env = "ex_ent_env (130 * ex_day) 10"
  have "GetByProcessorSubscriptionID (ra_Processor ex_reactivate) (TrimSpace (ra_ProcessorSubscriptionID ex_reactivate))
      (bdb_subs (ex_billing ex_charged_back)) = Inr ex_charged_back"
    "TrimSpace (ra_ProcessorSubscriptionID ex_reactivate) \<noteq> []" "170 * ex_day \<noteq> time_zero" "env_now ?env < 170 * ex_day" by code_simp+
  moreover
  have "billing_ok (ex_billing ex_charged_back)" "snd (TerminalCancelReason ex_charged_back)"
    "ex_charged_back \<in> set (bdb_subs (ex_billing ex_charged_back))" by code_simp+
  ultimately show ?thesis
    using terminal_subscription_untouched [of "ex_billing ex_charged_back" ex_charged_back ex_renew ex_reactivate ex_cfg ?env "170 * ex_day"]
    by (simp add: ex_renew_def ex_reactivate_def)
qed

text \<open>
  But a failed payment lifts the block. Reported for a subscription that was cancelled by a chargeback, it makes
  it past due, which the policy no longer calls terminal; the renewal it refused before then goes through without any override.
\<close>

theorem FailMembership_lifts_block:
  "fst (RenewMembership ex_cfg (ex_ent_env (130 * ex_day) 10) ex_renew (ex_billing ex_charged_back)) =
     Inl (ErrTerminalTransitionBlocked ''renewal'') \<and>
   fst (RenewMembership ex_cfg (ex_ent_env (131 * ex_day) 20) ex_renew
     (snd (FailMembership ex_cfg (ex_ent_env (130 * ex_day) 10) ex_fail (ex_billing ex_charged_back)))) = Inr True"
  by code_simp

end
