(* ===== verification/Go_Time.thy ===== *)
theory Go_Time
  imports Go_Prelude
begin

text \<open>
  Times as text: what the code uses of \<^verbatim>\<open>time.Time.Format\<close> with the layouts RFC3339 and RFC3339Nano, for UTC times of the
  years 1 to 9999. The keys of credit grants and of rebills contain such texts, so that a text determines its time
  is what keeps the keys of two billing periods apart.
\<close>

section \<open>Dates as text\<close>

text \<open>
  \<^verbatim>\<open>Format(time.RFC3339Nano)\<close> of a UTC time: the civil date of a day counted from 1 January of the year 1, the time of day, and
  the fraction of the second without its trailing zeros. The years from 1 to 9999 have four digits.
\<close>

fun pad_digits :: "nat \<Rightarrow> int \<Rightarrow> string" where
  "pad_digits 0 n = []"
| "pad_digits (Suc w) n = pad_digits w (n div 10) @ [char_of (48 + n mod 10)]"

definition is_leap :: "int \<Rightarrow> bool" where
  "is_leap y \<longleftrightarrow> y mod 4 = 0 \<and> (y mod 100 \<noteq> 0 \<or> y mod 400 = 0)"

text \<open>The day of the year, from zero, to month and day of the month.\<close>

definition month_lengths :: "bool \<Rightarrow> int list" where
  "month_lengths leap = [31, if leap then 29 else 28, 31, 30, 31, 30, 31, 31, 30, 31, 30, 31]"

fun month_day :: "int list \<Rightarrow> int \<Rightarrow> int \<Rightarrow> int \<times> int" where
  "month_day [] m d = (m, d + 1)"
| "month_day (l # ls) m d = (if d < l then (m, d + 1) else month_day ls (m + 1) (d - l))"

text \<open>Cycles of 400, 100, 4 and 1 years; the last day of a leap cycle belongs to its last year.\<close>

definition year_yday :: "int \<Rightarrow> int \<times> int" where
  "year_yday d0 =
     (let n400 = d0 div 146097; d1 = d0 mod 146097;
          n100 = min 3 (d1 div 36524); d2 = d1 - 36524 * n100;
          n4 = d2 div 1461; d3 = d2 mod 1461;
          n1 = min 3 (d3 div 365)
      in (400 * n400 + 100 * n100 + 4 * n4 + n1 + 1, d3 - 365 * n1))"

definition civil :: "int \<Rightarrow> int \<times> int \<times> int" where
  "civil d = (case year_yday d of (y, yd) \<Rightarrow> (y, month_day (month_lengths (is_leap y)) 1 yd))"

definition trim_zeros :: "string \<Rightarrow> string" where
  "trim_zeros s = rev (dropWhile (\<lambda>c. c = CHR ''0'') (rev s))"

definition format_seconds :: "time \<Rightarrow> string" where
  "format_seconds t =
     (let secs = t div time_Second; d = secs div 86400; s = secs mod 86400
      in case civil d of
           (y, m, dd) \<Rightarrow>
             pad_digits 4 y @ ''-'' @ pad_digits 2 m @ ''-'' @ pad_digits 2 dd @ ''T'' @
             pad_digits 2 (s div 3600) @ '':'' @ pad_digits 2 (s mod 3600 div 60) @ '':'' @ pad_digits 2 (s mod 60))"

definition format_RFC3339Nano :: "time \<Rightarrow> string" where
  "format_RFC3339Nano t =
     (let frac = trim_zeros (pad_digits 9 (t mod time_Second))
      in format_seconds t @ (if frac = [] then [] else ''.'' @ frac) @ ''Z'')"

section \<open>A text determines its time\<close>

lemma length_pad_digits [simp]: "length (pad_digits w n) = w"
  by (induction w arbitrary: n) simp_all

lemma div_mod_inj:
  fixes a b n :: int
  assumes "a div n = b div n" "a mod n = b mod n"
  shows "a = b"
proof -
  have "a = a div n * n + a mod n" by simp
  also have "\<dots> = b div n * n + b mod n" by (simp only: assms)
  also have "\<dots> = b" by simp
  finally show ?thesis .
qed

lemma digit_char_inj:
  assumes "char_of (48 + a mod 10) = (char_of (48 + b mod 10 :: int) :: char)"
  shows "a mod 10 = (b mod 10 :: int)"
proof -
  have "of_char (char_of (48 + a mod 10) :: char) = (of_char (char_of (48 + b mod 10) :: char) :: int)"
    using assms by (simp only:)
  then have "(48 + a mod 10) mod 256 = (48 + b mod 10) mod 256"
    by simp
  moreover have "0 \<le> a mod 10" "a mod 10 < 10" "0 \<le> b mod 10" "b mod 10 < 10" by simp_all
  ultimately show ?thesis by simp
qed

lemma pad_digits_inj:
  assumes "pad_digits w a = pad_digits w b" "0 \<le> a" "a < 10 ^ w" "0 \<le> b" "b < 10 ^ w"
  shows "a = b"
  using assms
proof (induction w arbitrary: a b)
  case (Suc w)
  have "a mod 10 = b mod 10" using Suc.prems(1) by (intro digit_char_inj) simp
  moreover have "a div 10 = b div 10"
  proof (rule Suc.IH)
    show "pad_digits w (a div 10) = pad_digits w (b div 10)" using Suc.prems(1) by simp
  qed (use Suc.prems in simp_all)
  ultimately show ?case by (blast intro: div_mod_inj)
qed simp

lemma pad_digits_2_inj: "pad_digits 2 a = pad_digits 2 b \<Longrightarrow> 0 \<le> a \<Longrightarrow> a < 100 \<Longrightarrow> 0 \<le> b \<Longrightarrow> b < 100 \<Longrightarrow> a = b"
  using pad_digits_inj [of 2 a b] by simp

text \<open>The day number of a civil date inverts \<open>civil\<close>.\<close>

definition day_number :: "int \<Rightarrow> int \<Rightarrow> int \<Rightarrow> int" where
  "day_number y m d =
     365 * (y - 1) + (y - 1) div 4 - (y - 1) div 100 + (y - 1) div 400 +
     sum_list (take (nat (m - 1)) (month_lengths (is_leap y))) + d - 1"

lemma month_day_sum:
  "month_day ls m d = (m', d') \<Longrightarrow> 0 \<le> d \<Longrightarrow>
     m \<le> m' \<and> sum_list (take (nat (m' - m)) ls) + d' - 1 = d"
proof (induction ls m d rule: month_day.induct)
  case (2 l ls m d)
  show ?case
  proof (cases "d < l")
    case False
    with 2 have IH: "m + 1 \<le> m'" "sum_list (take (nat (m' - (m + 1))) ls) + d' - 1 = d - l" by simp_all
    then have "nat (m' - m) = Suc (nat (m' - (m + 1)))" by simp
    with IH show ?thesis by simp
  qed (use 2 in auto)
qed auto

lemma year_cycles:
  fixes a b c e :: int
  assumes "0 \<le> b" "b \<le> 3" "0 \<le> c" "c \<le> 24" "0 \<le> e" "e \<le> 3" and y: "y - 1 = 400 * a + 100 * b + 4 * c + e"
  shows "(y - 1) div 4 = 100 * a + 25 * b + c" "(y - 1) div 100 = 4 * a + b" "(y - 1) div 400 = a"
proof -
  show "(y - 1) div 4 = 100 * a + 25 * b + c" unfolding y using assms by (intro int_div_pos_eq [of _ _ _ e]) simp_all
  show "(y - 1) div 100 = 4 * a + b" unfolding y using assms by (intro int_div_pos_eq [of _ _ _ "4 * c + e"]) simp_all
  show "(y - 1) div 400 = a" unfolding y using assms by (intro int_div_pos_eq [of _ _ _ "100 * b + 4 * c + e"]) simp_all
qed

lemma year_yday_sum:
  assumes "0 \<le> n" "year_yday n = (y, yd)"
  shows "365 * (y - 1) + (y - 1) div 4 - (y - 1) div 100 + (y - 1) div 400 + yd = n"
    and "0 \<le> yd" "yd \<le> 365" "1 \<le> y" "y \<le> n div 146097 * 400 + 400"
proof -
  define a where "a = n div 146097"
  define d1 where "d1 = n mod 146097"
  define b where "b = min 3 (d1 div 36524)"
  define d2 where "d2 = d1 - 36524 * b"
  define c where "c = d2 div 1461"
  define d3 where "d3 = d2 mod 1461"
  define e where "e = min 3 (d3 div 365)"
  have "year_yday n = (400 * a + 100 * b + 4 * c + e + 1, d3 - 365 * e)"
    unfolding year_yday_def Let_def a_def d1_def b_def d2_def c_def d3_def e_def by (rule refl)
  with assms(2) have y: "y - 1 = 400 * a + 100 * b + 4 * c + e" "yd = d3 - 365 * e" by simp_all
  have d1: "0 \<le> d1" "d1 < 146097" "n = 146097 * a + d1"
    using mult_div_mod_eq [of 146097 n] by (simp_all add: d1_def a_def del: mult_div_mod_eq)
  have b: "0 \<le> b" "b \<le> 3" using d1 by (auto simp: b_def)
  have "36524 * (d1 div 36524) \<le> d1" "d1 < 36524 * (d1 div 36524) + 36524"
    using div_mult_mod_eq [of d1 36524] pos_mod_bound [of 36524 d1] pos_mod_sign [of 36524 d1] by linarith+
  then have d2: "0 \<le> d2" "d2 \<le> 36524" using d1(1, 2) unfolding d2_def b_def min_def by (simp_all split: if_split)
  have c: "0 \<le> c" "c \<le> 24" and d3: "0 \<le> d3" "d3 < 1461"
    using d2 by (simp_all add: c_def d3_def)
  have d2': "d2 = 1461 * c + d3" using mult_div_mod_eq [of 1461 d2] unfolding c_def d3_def by (rule sym)
  have e: "0 \<le> e" "e \<le> 3" using d3 by (auto simp: e_def)
  have "365 * (d3 div 365) \<le> d3" "d3 < 365 * (d3 div 365) + 365"
    using div_mult_mod_eq [of d3 365] pos_mod_bound [of 365 d3] pos_mod_sign [of 365 d3] by linarith+
  then have yd: "0 \<le> yd" "yd \<le> 365" using d3(1, 2) unfolding y(2) e_def min_def by (simp_all split: if_split)
  note cyc = year_cycles [OF b c e y(1)]
  show "365 * (y - 1) + (y - 1) div 4 - (y - 1) div 100 + (y - 1) div 400 + yd = n"
    unfolding cyc unfolding y using d1(3) d2_def d2' by simp
  show "0 \<le> yd" "yd \<le> 365" by (fact yd)+
  have "0 \<le> a" using assms(1) by (simp add: a_def pos_imp_zdiv_nonneg_iff)
  then show "1 \<le> y" "y \<le> n div 146097 * 400 + 400" using y(1) b c e unfolding a_def by linarith+
qed

lemma month_day_range:
  "month_day ls m d = (m', d') \<Longrightarrow> 0 \<le> d \<Longrightarrow> d \<le> sum_list ls + 31 \<Longrightarrow> \<forall>l \<in> set ls. l \<le> 31 \<Longrightarrow>
     m \<le> m' \<and> m' \<le> m + int (length ls) \<and> 1 \<le> d' \<and> d' \<le> 32"
proof (induction ls m d rule: month_day.induct)
  case (2 l ls m d)
  show ?case
  proof (cases "d < l")
    case True
    with 2 show ?thesis by auto
  next
    case False
    with 2 have "m + 1 \<le> m' \<and> m' \<le> m + 1 + int (length ls) \<and> 1 \<le> d' \<and> d' \<le> 32" by simp
    then show ?thesis by simp
  qed
qed auto

lemma month_day_bounds:
  assumes "0 \<le> yd" "yd \<le> 365" "month_day (month_lengths leap) 1 yd = (m, d)"
  shows "1 \<le> m" "m \<le> 13" "1 \<le> d" "d \<le> 32"
  using month_day_range [OF assms(3, 1)] assms(2) by (simp_all add: month_lengths_def)

lemma civil_day_number:
  assumes "0 \<le> n" "civil n = (y, m, d)"
  shows "day_number y m d = n" "1 \<le> m" "m \<le> 13" "1 \<le> d" "d \<le> 32" "1 \<le> y" "y \<le> n div 146097 * 400 + 400"
proof -
  obtain yd where yd: "year_yday n = (y, yd)" "month_day (month_lengths (is_leap y)) 1 yd = (m, d)"
    using assms(2) by (auto simp: civil_def split: prod.splits)
  note s = year_yday_sum [OF assms(1) yd(1)]
  show "day_number y m d = n" using s month_day_sum [OF yd(2) s(2)] by (simp add: day_number_def)
  show "1 \<le> m" "m \<le> 13" "1 \<le> d" "d \<le> 32" using month_day_bounds [OF s(2, 3) yd(2)] by simp_all
  show "1 \<le> y" "y \<le> n div 146097 * 400 + 400" by (fact s)+
qed

lemma civil_year:
  assumes "0 \<le> n" "n < 3652059" "civil n = (y, m, d)"
  shows "y \<le> 9999"
proof (rule ccontr)
  assume "\<not> y \<le> 9999"
  moreover have "n div 146097 \<le> 24" using assms(2) by simp
  ultimately have y: "y = 10000" using civil_day_number(7) [OF assms(1, 3)] by linarith
  obtain yd where "year_yday n = (y, yd)" using assms(3) by (auto simp: civil_def split: prod.splits)
  from year_yday_sum(1, 2) [OF assms(1) this] assms(2) show False by (simp add: y)
qed

lemma trim_zeros_inj:
  assumes "trim_zeros a = trim_zeros b" "length a = length b"
  shows "a = b"
proof -
  let ?z = "\<lambda>c. c = CHR ''0''"
  have z: "takeWhile ?z xs = replicate (length (takeWhile ?z xs)) (CHR ''0'')" for xs :: string
    by (rule replicate_length_same [symmetric]) (auto dest: set_takeWhileD)
  have d: "dropWhile ?z (rev a) = dropWhile ?z (rev b)" using assms(1) by (simp add: trim_zeros_def)
  have "length (takeWhile ?z (rev a)) = length (takeWhile ?z (rev b))"
    using arg_cong [OF d, of length] assms(2)
    by (metis add_right_cancel length_append length_rev takeWhile_dropWhile_id)
  with z [of "rev a"] z [of "rev b"] d have "rev a = rev b" by (metis takeWhile_dropWhile_id)
  then show ?thesis by simp
qed

text \<open>The first second of the year 10000.\<close>

definition year_10000 :: time where
  "year_10000 = 146097 * 25 * 86400 * time_Second - 366 * 86400 * time_Second"

lemma clock_inj:
  fixes s r :: int
  assumes "s div 86400 = r div 86400" "s mod 86400 div 3600 = r mod 86400 div 3600"
    "s mod 86400 mod 3600 div 60 = r mod 86400 mod 3600 div 60" "s mod 86400 mod 60 = r mod 86400 mod 60"
  shows "s = r"
proof -
  have "x mod 3600 mod 60 = x mod 60" for x :: int by (rule mod_mod_cancel) simp
  then have "s mod 86400 mod 3600 = r mod 86400 mod 3600" using assms(3, 4) div_mod_inj [of "s mod 86400 mod 3600" 60 "r mod 86400 mod 3600"] by (simp only:)
  then have "s mod 86400 = r mod 86400" using assms(2) by (blast intro: div_mod_inj)
  then show ?thesis using assms(1) by (blast intro: div_mod_inj)
qed

lemma clock_bounds:
  fixes x :: int
  shows "0 \<le> x mod 86400 div 3600" "x mod 86400 div 3600 < 100" "0 \<le> x mod 86400 mod 3600 div 60"
    "x mod 86400 mod 3600 div 60 < 100" "0 \<le> x mod 86400 mod 60" "x mod 86400 mod 60 < 100"
proof -
  have hours: "0 \<le> r div 3600 \<and> r div 3600 < 100" if "0 \<le> r" "r < 86400" for r :: int
    using that zdiv_mono1 [of r 86399 3600] by (simp add: pos_imp_zdiv_nonneg_iff)
  have minutes: "0 \<le> r div 60 \<and> r div 60 < 100" if "0 \<le> r" "r < 3600" for r :: int
    using that zdiv_mono1 [of r 3599 60] by (simp add: pos_imp_zdiv_nonneg_iff)
  show "0 \<le> x mod 86400 div 3600" "x mod 86400 div 3600 < 100" using hours [of "x mod 86400"] by simp_all
  show "0 \<le> x mod 86400 mod 3600 div 60" "x mod 86400 mod 3600 div 60 < 100"
    using minutes [of "x mod 86400 mod 3600"] by simp_all
  show "0 \<le> x mod 86400 mod 60" "x mod 86400 mod 60 < 100"
    using pos_mod_bound [of 60 "x mod 86400"] pos_mod_sign [of 60 "x mod 86400"] by linarith+
qed

lemma format_seconds_inj:
  assumes eq: "format_seconds t = format_seconds u" and t: "0 \<le> t" "t < year_10000" and u: "0 \<le> u" "u < year_10000"
  shows "t div time_Second = u div time_Second"
proof -
  let ?s = "t div time_Second" and ?r = "u div time_Second"
  obtain y m d where c: "civil (?s div 86400) = (y, m, d)" by (metis prod_cases3)
  obtain y' m' d' where c': "civil (?r div 86400) = (y', m', d')" by (metis prod_cases3)
  have day: "0 \<le> ?s div 86400" "?s div 86400 < 3652059" "0 \<le> ?r div 86400" "?r div 86400 < 3652059"
    using t u by (simp_all add: year_10000_def time_Second_def)
  note b = civil_day_number [OF day(1) c] and b' = civil_day_number [OF day(3) c']
  have y: "y \<le> 9999" "y' \<le> 9999" using civil_year day c c' by blast+
  have "pad_digits 4 y = pad_digits 4 y' \<and> pad_digits 2 m = pad_digits 2 m' \<and> pad_digits 2 d = pad_digits 2 d' \<and>
    pad_digits 2 (?s mod 86400 div 3600) = pad_digits 2 (?r mod 86400 div 3600) \<and>
    pad_digits 2 (?s mod 86400 mod 3600 div 60) = pad_digits 2 (?r mod 86400 mod 3600 div 60) \<and>
    pad_digits 2 (?s mod 86400 mod 60) = pad_digits 2 (?r mod 86400 mod 60)"
    using eq unfolding format_seconds_def Let_def c c' prod.case by 
    (simp only: append_eq_append_conv length_pad_digits simp_thms list.inject append.simps)
  then have parts: "pad_digits 4 y = pad_digits 4 y'" "pad_digits 2 m = pad_digits 2 m'" "pad_digits 2 d = pad_digits 2 d'"
    "pad_digits 2 (?s mod 86400 div 3600) = pad_digits 2 (?r mod 86400 div 3600)"
    "pad_digits 2 (?s mod 86400 mod 3600 div 60) = pad_digits 2 (?r mod 86400 mod 3600 div 60)"
    "pad_digits 2 (?s mod 86400 mod 60) = pad_digits 2 (?r mod 86400 mod 60)" by blast+
  have "y = y'" by (rule pad_digits_inj [OF parts(1)]) (use b(6) b'(6) y in simp_all)
  moreover have "m = m'" by (rule pad_digits_2_inj [OF parts(2)]) (use b(2, 3) b'(2, 3) in linarith)+
  moreover have "d = d'" by (rule pad_digits_2_inj [OF parts(3)]) (use b(4, 5) b'(4, 5) in linarith)+
  ultimately have "?s div 86400 = ?r div 86400" using b(1) b'(1) by simp
  moreover have "?s mod 86400 div 3600 = ?r mod 86400 div 3600"
    by (rule pad_digits_2_inj [OF parts(4)]) (use clock_bounds in blast)+
  moreover have "?s mod 86400 mod 3600 div 60 = ?r mod 86400 mod 3600 div 60"
    by (rule pad_digits_2_inj [OF parts(5)]) (use clock_bounds in blast)+
  moreover have "?s mod 86400 mod 60 = ?r mod 86400 mod 60"
    by (rule pad_digits_2_inj [OF parts(6)]) (use clock_bounds in blast)+
  ultimately show ?thesis by (rule clock_inj)
qed

lemma length_format_seconds: "0 \<le> t \<Longrightarrow> length (format_seconds t) = 19"
  by (simp add: format_seconds_def Let_def split: prod.split)

lemma format_RFC3339Nano_inj:
  assumes eq: "format_RFC3339Nano t = format_RFC3339Nano u" and t: "0 \<le> t" "t < year_10000" and u: "0 \<le> u" "u < year_10000"
  shows "t = u"
proof -
  let ?f = "\<lambda>t. trim_zeros (pad_digits 9 (t mod time_Second))"
  have split: "format_seconds t = format_seconds u"
    "(if ?f t = [] then [] else ''.'' @ ?f t) @ ''Z'' = (if ?f u = [] then [] else ''.'' @ ?f u) @ ''Z''"
    using eq t u by (simp_all add: format_RFC3339Nano_def Let_def append_eq_append_conv length_format_seconds
        split del: if_split)
  have "?f t = ?f u" using split(2) by (simp split: if_splits)
  then have "t mod time_Second = u mod time_Second"
    using pad_digits_inj [OF trim_zeros_inj] by (auto simp: time_Second_def)
  moreover have "t div time_Second = u div time_Second" by (rule format_seconds_inj [OF split(1) t u])
  ultimately show ?thesis by (blast intro: div_mod_inj)
qed

end
