(* ===== verification/Subscription_Credits.thy ===== *)
theory Subscription_Credits
  imports Credit_Ledger Lifecycle Go_Time
begin

text \<open>
  The credits a subscription grants, \<^verbatim>\<open>internal/modules/credits/subscription_credits.go\<close>, and the administration of
  credit types, \<^verbatim>\<open>internal/modules/credits/credit_type_service.go\<close> over \<^verbatim>\<open>internal/db/repo/credit_type.go\<close>.

  \<^verbatim>\<open>uuid.NewSHA1(uuid.NameSpaceOID, data)\<close> is third-party code: it is the argument \<open>sha1\<close>, a function of the data. The
  iteration over the map \<^verbatim>\<open>CreditsSpec\<close> follows the order of the list that models it; the theorems hold for every order.
\<close>

section \<open>Grants\<close>

record GrantSubscriptionCreditsParams =
  gsc_SubscriptionID :: uuid
  gsc_PeriodEnd :: time
  gsc_Cadence :: CreditGrantCadence
  gsc_Source :: string

fun cadence_text :: "CreditGrantCadence \<Rightarrow> string" where
  "cadence_text CreditGrantCadenceUnset = []"
| "cadence_text CreditGrantCadenceOnce = ''once''"
| "cadence_text CreditGrantCadencePerRenewal = ''per_renewal''"
| "cadence_text (CreditGrantCadenceOther s) = s"

definition effective_cadence :: "credit_grant_spec \<Rightarrow> CreditGrantCadence" where
  "effective_cadence spec =
     (if cgs_Cadence spec = CreditGrantCadenceUnset then CreditGrantCadenceOnce else cgs_Cadence spec)"

definition validateCreditGrantSpec :: "string \<Rightarrow> credit_grant_spec \<Rightarrow> unit result" where
  "validateCreditGrantSpec creditTypeName spec =
     (if TrimSpace creditTypeName = [] then Inl (ErrMsg ''credit type name is empty'')
      else if cgs_Amount spec \<le> 0
      then Inl (ErrMsg (''invalid credits_spec: '' @ creditTypeName @ '' amount must be > 0''))
      else if (case cgs_ExpiresDays spec of None \<Rightarrow> False | Some d \<Rightarrow> d \<le> 0)
      then Inl (ErrMsg (''invalid credits_spec: '' @ creditTypeName @ '' expires_days must be > 0''))
      else if effective_cadence spec \<noteq> CreditGrantCadenceOnce \<and> effective_cadence spec \<noteq> CreditGrantCadencePerRenewal
      then Inl (ErrMsg (''invalid credits_spec: '' @ creditTypeName @ '' cadence must be '' @ [CHR 0x27] @ ''once'' @ [CHR 0x27] @
              '' or '' @ [CHR 0x27] @ ''per_renewal'' @ [CHR 0x27]))
      else Inr ())"

definition grant_name :: "go_env \<Rightarrow> uuid \<Rightarrow> uuid \<Rightarrow> time \<Rightarrow> string" where
  "grant_name env subID ctID periodEnd =
     ''openrails:sub_credit_grant:'' @ env_uuid_String env subID @ '':'' @ env_uuid_String env ctID @ '':'' @
     format_RFC3339Nano periodEnd"

definition grant_deposit ::
  "(string \<Rightarrow> uuid) \<Rightarrow> go_env \<Rightarrow> subscription \<Rightarrow> time \<Rightarrow> credit_type \<Rightarrow> string \<Rightarrow> credit_grant_spec \<Rightarrow> credit_deposit_params" where
  "grant_deposit sha1 env sub periodEnd ct creditTypeName spec =
     \<lparr>cdp_UserID = sub_UserID sub, cdp_CreditType = creditTypeName, cdp_Amount = cgs_Amount spec,
      cdp_Source = ''subscription_credit_grant'',
      cdp_SourceID = Some (sha1 (grant_name env (sub_ID sub) (ct_ID ct) periodEnd)),
      cdp_ExpiresAt = (case cgs_ExpiresDays spec of
                         Some d \<Rightarrow> if d > 0 then Some (env_now env + days_duration d) else None | None \<Rightarrow> None),
      cdp_Description = None\<rparr>"

text \<open>One iteration of the loop, and the loop.\<close>

definition grant_one ::
  "(string \<Rightarrow> uuid) \<Rightarrow> go_env \<Rightarrow> subscription \<Rightarrow> GrantSubscriptionCreditsParams \<Rightarrow> string \<Rightarrow> credit_grant_spec \<Rightarrow>
   credit_db \<Rightarrow> credit_db result" where
  "grant_one sha1 env sub p creditTypeName spec db =
     (case validateCreditGrantSpec creditTypeName spec of
        Inl e \<Rightarrow> Inl e
      | Inr _ \<Rightarrow>
          if effective_cadence spec \<noteq> gsc_Cadence p then Inr db
          else
            (case GetCreditTypeByName creditTypeName db of
               Inl e \<Rightarrow> if errors_Is e ErrNoRows then Inl (ErrMsg (''unknown credit type: '' @ creditTypeName)) else Inl e
             | Inr ct \<Rightarrow>
                 if \<not> ct_IsActive ct then Inl ErrCreditTypeInactive
                 else
                   (case depositTx env ct (grant_deposit sha1 env sub (gsc_PeriodEnd p) ct creditTypeName spec) db of
                      Inl e \<Rightarrow> Inl e
                    | Inr (_, db') \<Rightarrow> Inr db')))"

fun grant_all ::
  "(string \<Rightarrow> uuid) \<Rightarrow> go_env \<Rightarrow> subscription \<Rightarrow> GrantSubscriptionCreditsParams \<Rightarrow> (string \<times> credit_grant_spec) list \<Rightarrow>
   credit_db \<Rightarrow> credit_db result" where
  "grant_all sha1 env sub p [] db = Inr db"
| "grant_all sha1 env sub p ((name, spec) # specs) db =
     (case grant_one sha1 env sub p (TrimSpace name) spec db of
        Inl e \<Rightarrow> Inl e
      | Inr db' \<Rightarrow> grant_all sha1 (env_shift 3 env) sub p specs db')"

definition GrantSubscriptionCredits ::
  "(string \<Rightarrow> uuid) \<Rightarrow> go_env \<Rightarrow> GrantSubscriptionCreditsParams \<Rightarrow> billing_db \<Rightarrow> credit_db \<Rightarrow> unit result \<times> credit_db" where
  "GrantSubscriptionCredits sha1 env p bdb db =
     (if gsc_SubscriptionID p = uuid_Nil then (Inl (ErrMsg ''subscription_id required''), db)
      else if gsc_PeriodEnd p = time_zero then (Inl (ErrMsg ''period_end required''), db)
      else if TrimSpace (cadence_text (gsc_Cadence p)) = [] then (Inl (ErrMsg ''cadence required''), db)
      else if TrimSpace (gsc_Source p) = [] then (Inl (ErrMsg ''source required''), db)
      else run_in_tx (\<lambda>db.
        (case sql_find (\<lambda>s. sub_ID s = gsc_SubscriptionID p) (bdb_subs bdb) of
           Inl e \<Rightarrow> Inl e
         | Inr sub \<Rightarrow>
             (case sql_find (\<lambda>pr. prod_ID pr = sub_ProductID sub) (bdb_products bdb) of
                Inl e \<Rightarrow> Inl e
              | Inr product \<Rightarrow>
                  if prod_CreditsSpec product = [] then Inr ((), db)
                  else map_sum id (\<lambda>db. ((), db)) (grant_all sha1 env sub p (prod_CreditsSpec product) db)))) db)"

section \<open>Credit types\<close>

text \<open>\<^verbatim>\<open>^[a-z][a-z0-9_]{0,62}$\<close>\<close>

definition creditTypeNameRE :: "string \<Rightarrow> bool" where
  "creditTypeNameRE s =
     (case s of
        [] \<Rightarrow> False
      | c # cs \<Rightarrow>
          (let lower = (\<lambda>c. 97 \<le> (of_char c :: nat) \<and> (of_char c :: nat) \<le> 122);
               digit = (\<lambda>c. 48 \<le> (of_char c :: nat) \<and> (of_char c :: nat) \<le> 57)
           in lower c \<and> list_all (\<lambda>c. lower c \<or> digit c \<or> c = CHR ''_'') cs \<and> length cs \<le> 62))"

definition CreditTypeRepoCreate :: "credit_type \<Rightarrow> credit_db \<Rightarrow> credit_db result" where
  "CreditTypeRepoCreate ct db =
     (if ct_Name ct \<in> set (map ct_Name (cdb_types db)) then Inl (ErrConstraint ''credit_types_name_key'')
      else (case sql_insert ct_ID ''credit_types_pkey'' ct (cdb_types db) of
              Inl e \<Rightarrow> Inl e | Inr rows \<Rightarrow> Inr (db\<lparr>cdb_types := rows\<rparr>)))"

text \<open>An update by primary key; a new name that another row has is refused.\<close>

definition CreditTypeRepoUpdate :: "credit_type \<Rightarrow> credit_db \<Rightarrow> credit_db result" where
  "CreditTypeRepoUpdate ct db =
     (if \<not> list_ex (\<lambda>r. ct_ID r = ct_ID ct) (cdb_types db) then Inl (ErrMsg ''no rows affected'')
      else if list_ex (\<lambda>r. ct_ID r \<noteq> ct_ID ct \<and> ct_Name r = ct_Name ct) (cdb_types db)
      then Inl (ErrConstraint ''credit_types_name_key'')
      else Inr (db\<lparr>cdb_types := sql_update (\<lambda>r. ct_ID r = ct_ID ct) (\<lambda>_. ct) (cdb_types db)\<rparr>))"

definition CreditTypeCreate :: "go_env \<Rightarrow> credit_type \<Rightarrow> credit_db \<Rightarrow> credit_db result" where
  "CreditTypeCreate env ct0 db =
     (let ct = ct0\<lparr>ct_Name := TrimSpace (ct_Name ct0), ct_DisplayName := TrimSpace (ct_DisplayName ct0),
                    ct_Unit := TrimSpace (ct_Unit ct0),
                    ct_ID := (if ct_ID ct0 = uuid_Nil then env_uuid env 0 else ct_ID ct0)\<rparr>
      in if ct_Name ct = [] \<or> \<not> creditTypeNameRE (ct_Name ct) then Inl (ErrMsg ''invalid credit type name'')
         else if ct_DisplayName ct = [] then Inl (ErrMsg ''display_name required'')
         else if ct_Unit ct = [] then Inl (ErrMsg ''unit required'')
         else if ct_DecimalPlaces ct < 0 \<or> ct_DecimalPlaces ct > 18
         then Inl (ErrMsg ''decimal_places must be between 0 and 18'')
         else CreditTypeRepoCreate
                (ct\<lparr>ct_CreatedAt := (if ct_CreatedAt ct = time_zero then env_now env else ct_CreatedAt ct), ct_IsActive := True\<rparr>) db)"

definition CreditTypeList :: "bool \<Rightarrow> credit_db \<Rightarrow> credit_type list" where
  "CreditTypeList activeOnly db =
     filter (\<lambda>ct. activeOnly \<longrightarrow> ct_IsActive ct) (sort_key ct_CreatedAt (cdb_types db))"

definition CreditTypeUpdate ::
  "string \<Rightarrow> string option \<Rightarrow> bool option \<Rightarrow> credit_db \<Rightarrow> (credit_type \<times> credit_db) result" where
  "CreditTypeUpdate name displayName isActive db =
     (case GetCreditTypeByName (TrimSpace name) db of
        Inl e \<Rightarrow> Inl e
      | Inr ct \<Rightarrow>
          if (case displayName of Some v \<Rightarrow> TrimSpace v = [] | None \<Rightarrow> False)
          then Inl (ErrMsg ''display_name cannot be empty'')
          else
            (let ct1 = (case displayName of Some v \<Rightarrow> ct\<lparr>ct_DisplayName := TrimSpace v\<rparr> | None \<Rightarrow> ct);
                 ct2 = (case isActive of Some b \<Rightarrow> ct1\<lparr>ct_IsActive := b\<rparr> | None \<Rightarrow> ct1)
             in case CreditTypeRepoUpdate ct2 db of Inl e \<Rightarrow> Inl e | Inr db' \<Rightarrow> Inr (ct2, db')))"

definition CreditTypeDeactivate :: "string \<Rightarrow> credit_db \<Rightarrow> credit_db result" where
  "CreditTypeDeactivate name db =
     (case GetCreditTypeByName (TrimSpace name) db of
        Inl e \<Rightarrow> Inl e
      | Inr ct \<Rightarrow> if \<not> ct_IsActive ct then Inr db else CreditTypeRepoUpdate (ct\<lparr>ct_IsActive := False\<rparr>) db)"

definition CreditTypeActivate :: "string \<Rightarrow> credit_db \<Rightarrow> credit_db result" where
  "CreditTypeActivate name db =
     (case GetCreditTypeByName (TrimSpace name) db of
        Inl e \<Rightarrow> Inl e
      | Inr ct \<Rightarrow> if ct_IsActive ct then Inr db else CreditTypeRepoUpdate (ct\<lparr>ct_IsActive := True\<rparr>) db)"

section \<open>Repeated grants\<close>

lemma lockBalance_rows: "lockBalance env k db = Inr (bal, db') \<Longrightarrow> bal_row db k' \<noteq> None \<Longrightarrow> bal_row db' k' \<noteq> None"
  by (auto simp: lockBalance_def bal_row_def sql_find_def sql_insert_Inr Let_def find_append_Some
      split: sum.splits option.splits if_splits)

lemma depositTx_rows:
  assumes run: "depositTx env ct p db = Inr (t, db')" and row: "bal_row db k' \<noteq> None"
  shows "bal_row db' k' \<noteq> None"
proof -
  from run obtain bal db1 where lock: "lockBalance env (cdp_UserID p, ct_ID ct) db = Inr (bal, db1)"
    by (auto simp: depositTx_def Let_def split: sum.splits)
  from run lock lockBalance_rows [OF lock row] show ?thesis
    by (auto simp: depositTx_def Let_def row_frame split: option.splits sum.splits dest!: insert_transaction_Inr(1) insert_block_Inr(1))
qed

text \<open>A ledger that has grown: the same credit types, more transactions, no balance row lost.\<close>

definition ledger_grows :: "credit_db \<Rightarrow> credit_db \<Rightarrow> bool" where
  "ledger_grows db db' \<longleftrightarrow> cdb_types db' = cdb_types db \<and> (\<exists>ts. cdb_transactions db' = cdb_transactions db @ ts) \<and>
     (\<forall>k. bal_row db k \<noteq> None \<longrightarrow> bal_row db' k \<noteq> None)"

lemma ledger_grows_refl [simp]: "ledger_grows db db"
  by (simp add: ledger_grows_def)

lemma ledger_grows_trans: "ledger_grows a b \<Longrightarrow> ledger_grows b c \<Longrightarrow> ledger_grows a c"
  by (auto simp: ledger_grows_def)

lemma depositTx_grows:
  assumes run: "depositTx env ct p db = Inr (t, db')"
  shows "ledger_grows db db'"
proof -
  from run have "cdb_types db' = cdb_types db \<and> (\<exists>ts. cdb_transactions db' = cdb_transactions db @ ts)"
    by (cases rule: depositTx_cases) (simp_all add: same_rest_def)
  with depositTx_rows [OF run] show ?thesis unfolding ledger_grows_def by blast
qed

text \<open>Once recorded, the deposit is a replay on every ledger grown from there.\<close>

lemma depositTx_replays:
  assumes run: "depositTx env ct p db = Inr (t, db1)" and g: "ledger_grows db1 db2"
    and p: "cdp_SourceID p = Some sid" "cdp_SourceID p' = Some sid" "cdp_UserID p' = cdp_UserID p" "cdp_Source p' = cdp_Source p"
    and "env_uuid_String env' = env_uuid_String env"
  shows "depositTx env' ct p' db2 = Inr (t, db2)"
proof -
  let ?k = "(cdp_UserID p, ct_ID ct)"
  let ?key = "idem_key ''deposit'' ?k (cdp_Source p) (env_uuid_String env sid)"
  from run have "find ?key (cdb_transactions db1) = Some t \<and> bal_row db1 ?k \<noteq> None"
  proof (cases rule: depositTx_cases)
    case (fresh b)
    have "?key t" using fresh p by (simp add: idem_key_def)
    with fresh p show ?thesis by (simp add: find_append_None)
  qed (use p in \<open>simp add: same_rest_def\<close>)
  with g have "find ?key (cdb_transactions db2) = Some t \<and> bal_row db2 ?k \<noteq> None"
    unfolding ledger_grows_def using find_append_Some by metis
  then obtain bal where f: "find ?key (cdb_transactions db2) = Some t" "bal_row db2 ?k = Some bal" by blast
  then have "lockBalance env' ?k db2 = Inr (bal, db2)" by (simp add: lockBalance_def bal_row_def sql_find_def)
  with f p assms(7) show ?thesis by (simp add: depositTx_def)
qed

lemma grant_one_Inr:
  "grant_one sha1 env sub p name spec db = Inr db' \<longleftrightarrow>
     validateCreditGrantSpec name spec = Inr () \<and>
     (if effective_cadence spec = gsc_Cadence p
      then \<exists>ct t. GetCreditTypeByName name db = Inr ct \<and> ct_IsActive ct \<and>
             depositTx env ct (grant_deposit sha1 env sub (gsc_PeriodEnd p) ct name spec) db = Inr (t, db')
      else db' = db)"
  by (auto simp: grant_one_def split: sum.splits)

lemma grant_one_grows: "grant_one sha1 env sub p name spec db = Inr db' \<Longrightarrow> ledger_grows db db'"
  by (auto simp: grant_one_Inr dest: depositTx_grows split: if_splits)

lemma grant_all_grows: "grant_all sha1 env sub p specs db = Inr db' \<Longrightarrow> ledger_grows db db'"
proof (induction sha1 env sub p specs db rule: grant_all.induct)
  case (2 sha1 env sub p name spec specs db)
  then show ?case by (auto split: sum.splits dest: grant_one_grows intro: ledger_grows_trans)
qed simp

lemma grant_one_replays:
  assumes "grant_one sha1 env sub p name spec db = Inr db1" "ledger_grows db1 db2"
    and "env_uuid_String env' = env_uuid_String env"
  shows "grant_one sha1 env' sub p name spec db2 = Inr db2"
proof (cases "effective_cadence spec = gsc_Cadence p")
  case True
  with assms(1) obtain ct t where v: "validateCreditGrantSpec name spec = Inr ()" and ct: "GetCreditTypeByName name db = Inr ct" "ct_IsActive ct"
    and run: "depositTx env ct (grant_deposit sha1 env sub (gsc_PeriodEnd p) ct name spec) db = Inr (t, db1)"
    by (auto simp: grant_one_Inr)
  have types: "GetCreditTypeByName name db2 = Inr ct"
    using ct ledger_grows_trans [OF depositTx_grows [OF run] assms(2)] by (simp add: GetCreditTypeByName_def ledger_grows_def)
  have "depositTx env' ct (grant_deposit sha1 env' sub (gsc_PeriodEnd p) ct name spec) db2 = Inr (t, db2)"
    by (rule depositTx_replays [OF run assms(2) _ _ _ _ assms(3)]) (simp_all add: grant_deposit_def grant_name_def assms(3))
  with v ct types show ?thesis by (auto simp: grant_one_Inr)
qed (use assms(1) in \<open>simp add: grant_one_Inr\<close>)

lemma grant_all_replays:
  "grant_all sha1 env sub p specs db = Inr db1 \<Longrightarrow> ledger_grows db1 db2 \<Longrightarrow> env_uuid_String env' = env_uuid_String env \<Longrightarrow>
   grant_all sha1 env' sub p specs db2 = Inr db2"
proof (induction sha1 env sub p specs db arbitrary: env' rule: grant_all.induct)
  case (2 sha1 env sub p name spec specs db)
  from 2(2) obtain db' where one: "grant_one sha1 env sub p (TrimSpace name) spec db = Inr db'"
    and rest: "grant_all sha1 (env_shift 3 env) sub p specs db' = Inr db1" by (auto split: sum.splits)
  have "grant_one sha1 env' sub p (TrimSpace name) spec db2 = Inr db2"
    by (rule grant_one_replays [OF one ledger_grows_trans [OF grant_all_grows [OF rest] 2(3)] 2(4)])
  moreover have "grant_all sha1 (env_shift 3 env') sub p specs db2 = Inr db2"
    using 2 by (intro 2(1) [OF one rest]) (simp_all add: env_shift_def)
  ultimately show ?case by simp
qed simp

section \<open>What a grant credits\<close>

lemma env_shift_String [simp]: "env_uuid_String (env_shift n env) = env_uuid_String env"
  by (simp add: env_shift_def)

lemma grant_name_shift [simp]: "grant_name (env_shift n env) = grant_name env"
  by (simp add: grant_name_def fun_eq_iff)

text \<open>Whether the grant of a period is recorded, and what a list of specifications grants to an account.\<close>

definition grant_recorded :: "(string \<Rightarrow> uuid) \<Rightarrow> go_env \<Rightarrow> subscription \<Rightarrow> time \<Rightarrow> credit_type \<Rightarrow> credit_db \<Rightarrow> bool" where
  "grant_recorded sha1 env sub periodEnd ct db \<longleftrightarrow>
     list_ex (idem_key ''deposit'' (sub_UserID sub, ct_ID ct) ''subscription_credit_grant''
       (env_uuid_String env (sha1 (grant_name env (sub_ID sub) (ct_ID ct) periodEnd)))) (cdb_transactions db)"

definition grants_to :: "credit_db \<Rightarrow> string \<Rightarrow> CreditGrantCadence \<Rightarrow> string \<times> uuid \<Rightarrow> string \<times> credit_grant_spec \<Rightarrow> bool" where
  "grants_to db u cadence k ns \<longleftrightarrow> effective_cadence (snd ns) = cadence \<and>
     (case GetCreditTypeByName (TrimSpace (fst ns)) db of Inl _ \<Rightarrow> False | Inr ct \<Rightarrow> k = (u, ct_ID ct))"

definition granted_amount :: "credit_db \<Rightarrow> string \<Rightarrow> CreditGrantCadence \<Rightarrow> string \<times> uuid \<Rightarrow> (string \<times> credit_grant_spec) list \<Rightarrow> int" where
  "granted_amount db u cadence k specs = (\<Sum>ns\<leftarrow>filter (grants_to db u cadence k) specs. cgs_Amount (snd ns))"

text \<open>The grant of a period is still open for a specification and fits the balance.\<close>

definition grant_open :: "(string \<Rightarrow> uuid) \<Rightarrow> go_env \<Rightarrow> subscription \<Rightarrow> time \<Rightarrow> credit_db \<Rightarrow> string \<times> credit_grant_spec \<Rightarrow> bool" where
  "grant_open sha1 env sub periodEnd db ns \<longleftrightarrow>
     (case GetCreditTypeByName (TrimSpace (fst ns)) db of
        Inl _ \<Rightarrow> True
      | Inr ct \<Rightarrow> \<not> grant_recorded sha1 env sub periodEnd ct db \<and>
          in_i64 (balance_of db (sub_UserID sub, ct_ID ct) + cgs_Amount (snd ns)))"

lemma GetCreditTypeByName_Inr: "GetCreditTypeByName n db = Inr ct \<Longrightarrow> ct \<in> set (cdb_types db) \<and> ct_Name ct = n"
  by (auto simp: GetCreditTypeByName_def dest: sql_find_memb)

lemma grant_one_credits:
  assumes run: "grant_one sha1 env sub p (TrimSpace name) spec db = Inr db1"
    and "open": "grant_open sha1 env sub (gsc_PeriodEnd p) db (name, spec)"
  shows "balance_of db1 k = balance_of db k + granted_amount db (sub_UserID sub) (gsc_Cadence p) k [(name, spec)]"
    and "distinct (map ct_ID (cdb_types db)) \<Longrightarrow> TrimSpace name' \<noteq> TrimSpace name \<Longrightarrow>
      grant_open sha1 env sub (gsc_PeriodEnd p) db (name', spec') \<Longrightarrow> grant_open sha1 env sub (gsc_PeriodEnd p) db1 (name', spec')"
proof -
  let ?open = "grant_open sha1 env sub (gsc_PeriodEnd p)"
  have "balance_of db1 k = balance_of db k + granted_amount db (sub_UserID sub) (gsc_Cadence p) k [(name, spec)] \<and>
    (distinct (map ct_ID (cdb_types db)) \<longrightarrow> TrimSpace name' \<noteq> TrimSpace name \<longrightarrow> ?open db (name', spec') \<longrightarrow> ?open db1 (name', spec'))"
  proof (cases "effective_cadence spec = gsc_Cadence p")
    case True
    then obtain ct t where ct: "GetCreditTypeByName (TrimSpace name) db = Inr ct"
      and dep: "depositTx env ct (grant_deposit sha1 env sub (gsc_PeriodEnd p) ct (TrimSpace name) spec) db = Inr (t, db1)"
      using run by (auto simp: grant_one_Inr)
    let ?k = "(sub_UserID sub, ct_ID ct)"
    from dep show ?thesis
    proof (cases rule: depositTx_cases)
      case (replay sid)
      then have "grant_recorded sha1 env sub (gsc_PeriodEnd p) ct db"
        by (auto simp: grant_recorded_def grant_deposit_def list_ex_iff dest: find_SomeD)
      with "open" ct show ?thesis by (simp add: grant_open_def)
    next
      case (fresh b)
      have bal: "balance_of db1 = (balance_of db)(?k := balance_of db ?k + cgs_Amount spec)"
        using fresh(5) "open" ct by (simp add: grant_open_def grant_deposit_def)
      have "?open db1 (name', spec')" if d: "distinct (map ct_ID (cdb_types db))" "TrimSpace name' \<noteq> TrimSpace name" "?open db (name', spec')"
      proof (cases "GetCreditTypeByName (TrimSpace name') db")
        case (Inr ct')
        have "ct_ID ct' \<noteq> ct_ID ct"
          using d(1, 2) GetCreditTypeByName_Inr [OF ct] GetCreditTypeByName_Inr [OF Inr]
          by (auto simp: distinct_map inj_on_def)
        moreover have "GetCreditTypeByName (TrimSpace name') db1 = Inr ct'"
          using Inr fresh(3) by (simp add: GetCreditTypeByName_def)
        ultimately show ?thesis
          using d(3) Inr fresh(1, 8) bal by (simp add: grant_open_def grant_recorded_def idem_key_def grant_deposit_def)
      qed (use fresh(3) in \<open>simp add: grant_open_def GetCreditTypeByName_def\<close>)
      with bal ct True show ?thesis by (auto simp: granted_amount_def grants_to_def)
    qed
  qed (use run in \<open>simp add: grant_one_Inr granted_amount_def grants_to_def\<close>)
  then show "balance_of db1 k = balance_of db k + granted_amount db (sub_UserID sub) (gsc_Cadence p) k [(name, spec)]"
    "distinct (map ct_ID (cdb_types db)) \<Longrightarrow> TrimSpace name' \<noteq> TrimSpace name \<Longrightarrow> ?open db (name', spec') \<Longrightarrow> ?open db1 (name', spec')"
    by blast+
qed

lemma granted_amount_types: "cdb_types db' = cdb_types db \<Longrightarrow> granted_amount db' = granted_amount db"
proof -
  assume "cdb_types db' = cdb_types db"
  then have "grants_to db' = grants_to db" by (intro ext) (simp add: grants_to_def GetCreditTypeByName_def)
  then show ?thesis by (intro ext) (simp only: granted_amount_def)
qed

lemma granted_amount_Cons: "granted_amount db u c k (ns # specs) = granted_amount db u c k [ns] + granted_amount db u c k specs"
  by (simp add: granted_amount_def)

lemma grant_open_shift [simp]: "grant_open sha1 (env_shift n env) = grant_open sha1 env"
  by (intro ext) (simp only: grant_open_def grant_recorded_def grant_name_shift env_shift_String)

lemma grant_all_credits:
  assumes "grant_all sha1 env sub p specs db = Inr db'" "distinct (map ct_ID (cdb_types db))"
    "distinct (map (TrimSpace \<circ> fst) specs)" "\<forall>ns \<in> set specs. grant_open sha1 env sub (gsc_PeriodEnd p) db ns"
  shows "balance_of db' k = balance_of db k + granted_amount db (sub_UserID sub) (gsc_Cadence p) k specs"
  using assms
proof (induction sha1 env sub p specs db rule: grant_all.induct)
  case (2 sha1 env sub p name spec specs db)
  from 2(2) obtain db1 where one: "grant_one sha1 env sub p (TrimSpace name) spec db = Inr db1"
    and rest: "grant_all sha1 (env_shift 3 env) sub p specs db1 = Inr db'" by (auto split: sum.splits)
  have types: "cdb_types db1 = cdb_types db" using grant_one_grows [OF one] by (simp add: ledger_grows_def)
  have "open": "grant_open sha1 env sub (gsc_PeriodEnd p) db (name, spec)" using 2(5) by simp
  have "grant_open sha1 env sub (gsc_PeriodEnd p) db1 ns" if "ns \<in> set specs" for ns
  proof -
    have "TrimSpace (fst ns) \<noteq> TrimSpace name" using that 2(4) by (force simp: image_iff)
    from grant_one_credits(2) [OF one "open" 2(3) this, of "snd ns"] that 2(5) show ?thesis by simp
  qed
  then have "balance_of db' k = balance_of db1 k + granted_amount db1 (sub_UserID sub) (gsc_Cadence p) k specs"
    using 2(3, 4) types by (intro 2(1) [OF one rest]) simp_all
  with grant_one_credits(1) [OF one "open", of k] show ?case
    by (simp add: granted_amount_types [OF types] granted_amount_Cons [of _ _ _ _ "(name, spec)" specs])
qed (simp add: granted_amount_def)


section \<open>The table of credit types\<close>

text \<open>Ids and names are unique, and every name has the form of an identifier.\<close>

definition types_ok :: "credit_db \<Rightarrow> bool" where
  "types_ok db \<longleftrightarrow> distinct (map ct_ID (cdb_types db)) \<and> distinct (map ct_Name (cdb_types db)) \<and>
     list_all (\<lambda>ct. creditTypeNameRE (ct_Name ct) \<and> 0 \<le> ct_DecimalPlaces ct \<and> ct_DecimalPlaces ct \<le> 18) (cdb_types db)"

lemma CreditTypeCreate_ok: "types_ok db \<Longrightarrow> CreditTypeCreate env ct db = Inr db' \<Longrightarrow> types_ok db'"
  by (auto simp: types_ok_def CreditTypeCreate_def CreditTypeRepoCreate_def Let_def sql_insert_Inr split: if_splits sum.splits)

lemma CreditTypeRepoUpdate_ok:
  assumes "types_ok db" "CreditTypeRepoUpdate ct db = Inr db'"
    and "ct' \<in> set (cdb_types db)" "ct_ID ct = ct_ID ct'" "ct_Name ct = ct_Name ct'" "ct_DecimalPlaces ct = ct_DecimalPlaces ct'"
  shows "types_ok db'"
proof -
  have db': "db' = db\<lparr>cdb_types := sql_update (\<lambda>r. ct_ID r = ct_ID ct) (\<lambda>_. ct) (cdb_types db)\<rparr>"
    using assms(2) by (auto simp: CreditTypeRepoUpdate_def split: if_splits)
  have same: "r = ct'" if "r \<in> set (cdb_types db)" "ct_ID r = ct_ID ct" for r
    using that assms(1, 3, 4) by (auto simp: types_ok_def distinct_map inj_on_def)
  have "map f (sql_update (\<lambda>r. ct_ID r = ct_ID ct) (\<lambda>_. ct) (cdb_types db)) = map f (cdb_types db)" if "f ct = f ct'" for f
    using that same by (auto simp: sql_update_def)
  note ids = this [of ct_ID, OF assms(4)] and names = this [of ct_Name, OF assms(5)]
  have "creditTypeNameRE (ct_Name r) \<and> 0 \<le> ct_DecimalPlaces r \<and> ct_DecimalPlaces r \<le> 18" if "r \<in> insert ct (set (cdb_types db))" for r
    using that assms(1, 3, 5, 6) by (auto simp: types_ok_def list_all_iff)
  then have "list_all (\<lambda>r. creditTypeNameRE (ct_Name r) \<and> 0 \<le> ct_DecimalPlaces r \<and> ct_DecimalPlaces r \<le> 18) (cdb_types db')"
    unfolding list_all_iff db' by (auto simp: set_sql_update split: if_splits)
  with assms(1) show ?thesis by (simp add: types_ok_def db' ids names)
qed

lemma CreditTypeUpdate_ok: "types_ok db \<Longrightarrow> CreditTypeUpdate n d a db = Inr (ct, db') \<Longrightarrow> types_ok db'"
  by (auto simp: CreditTypeUpdate_def Let_def dest!: GetCreditTypeByName_Inr split: sum.splits if_splits option.splits
      elim!: CreditTypeRepoUpdate_ok)

lemma CreditTypeDeactivate_ok: "types_ok db \<Longrightarrow> CreditTypeDeactivate n db = Inr db' \<Longrightarrow> types_ok db'"
  by (auto simp: CreditTypeDeactivate_def dest!: GetCreditTypeByName_Inr split: sum.splits if_splits elim!: CreditTypeRepoUpdate_ok)

lemma CreditTypeActivate_ok: "types_ok db \<Longrightarrow> CreditTypeActivate n db = Inr db' \<Longrightarrow> types_ok db'"
  by (auto simp: CreditTypeActivate_def dest!: GetCreditTypeByName_Inr split: sum.splits if_splits elim!: CreditTypeRepoUpdate_ok)

end
