(* ===== verification/Grant_Properties.thy ===== *)
theory Grant_Properties
  imports Subscription_Credits Credit_Properties Lifecycle_Properties
begin

text \<open>
  The properties of subscription credits: a grant is credited exactly once per subscription, credit type and billing
  period.
\<close>

section \<open>Example\<close>

definition ex_specs :: "(string \<times> credit_grant_spec) list" where
  "ex_specs = [(''api'', \<lparr>cgs_Amount = 100, cgs_ExpiresDays = Some 30, cgs_Cadence = CreditGrantCadencePerRenewal\<rparr>),
     (''bonus'', \<lparr>cgs_Amount = 5, cgs_ExpiresDays = None, cgs_Cadence = CreditGrantCadenceUnset\<rparr>)]"

definition ex_granting :: billing_db where
  "ex_granting = (ex_billing ex_sub)\<lparr>bdb_products := [ex_product\<lparr>prod_CreditsSpec := ex_specs\<rparr>]\<rparr>"

definition ex_grant :: GrantSubscriptionCreditsParams where
  "ex_grant = \<lparr>gsc_SubscriptionID = sub_ID ex_sub, gsc_PeriodEnd = 63870000000 * time_Second, gsc_Cadence = CreditGrantCadencePerRenewal,
     gsc_Source = ''subscription_renewal''\<rparr>"

section \<open>Once per period\<close>

lemma GrantSubscriptionCredits_Inr:
  "GrantSubscriptionCredits sha1 env p bdb db = (Inr (), db') \<longleftrightarrow>
     gsc_SubscriptionID p \<noteq> uuid_Nil \<and> gsc_PeriodEnd p \<noteq> time_zero \<and> TrimSpace (cadence_text (gsc_Cadence p)) \<noteq> [] \<and>
     TrimSpace (gsc_Source p) \<noteq> [] \<and>
     (\<exists>sub product. SubGetByID (gsc_SubscriptionID p) (bdb_subs bdb) = Inr sub \<and> ProductGetByID (sub_ProductID sub) bdb = Inr product \<and>
        grant_all sha1 env sub p (prod_CreditsSpec product) db = Inr db')"
  by (auto simp: GrantSubscriptionCredits_def SubGetByID_def ProductGetByID_def run_in_tx_ok map_sum_Inr split: sum.splits)

text \<open>
  C36: Granting the credits of a billing period is idempotent. After a successful grant, the same grant repeated at any later
  time, and after any further deposits, succeeds and changes nothing.
\<close>

theorem GrantSubscriptionCredits_idempotent:
  assumes "GrantSubscriptionCredits sha1 env p bdb db = (Inr (), db1)" "ledger_grows db1 db2"
    and "env_uuid_String env' = env_uuid_String env"
  shows "GrantSubscriptionCredits sha1 env' p bdb db2 = (Inr (), db2)"
  using assms by (auto simp: GrantSubscriptionCredits_Inr intro: grant_all_replays)

theorem GrantSubscriptionCredits_idempotent_witness:
  "GrantSubscriptionCredits length (ex_env 99 900) ex_grant ex_granting
     (snd (GrantSubscriptionCredits length (ex_env 10 100) ex_grant ex_granting (empty_ledger [ex_type]))) =
   (Inr (), snd (GrantSubscriptionCredits length (ex_env 10 100) ex_grant ex_granting (empty_ledger [ex_type])))"
proof -
  have "\<not> isl (fst (GrantSubscriptionCredits length (ex_env 10 100) ex_grant ex_granting (empty_ledger [ex_type])))"
    by code_simp
  from result_ok [OF this] have "GrantSubscriptionCredits length (ex_env 10 100) ex_grant ex_granting (empty_ledger [ex_type]) =
    (Inr (), snd (GrantSubscriptionCredits length (ex_env 10 100) ex_grant ex_granting (empty_ledger [ex_type])))" by simp
  from GrantSubscriptionCredits_idempotent [OF this, of _ "ex_env 99 900"] show ?thesis by (simp add: ex_env_def)
qed

text \<open>
  C35: A successful grant of a period that was not granted yet credits every account with exactly the amounts that the
  product specifies for the cadence of the event, and no other account.
\<close>

theorem GrantSubscriptionCredits_credits:
  assumes "GrantSubscriptionCredits sha1 env p bdb db = (Inr (), db')"
    and "SubGetByID (gsc_SubscriptionID p) (bdb_subs bdb) = Inr sub" "ProductGetByID (sub_ProductID sub) bdb = Inr product"
    and "distinct (map ct_ID (cdb_types db))" "distinct (map (TrimSpace \<circ> fst) (prod_CreditsSpec product))"
    and "\<forall>ns \<in> set (prod_CreditsSpec product). grant_open sha1 env sub (gsc_PeriodEnd p) db ns"
  shows "balance_of db' k = balance_of db k + granted_amount db (sub_UserID sub) (gsc_Cadence p) k (prod_CreditsSpec product)"
  using assms by (auto simp: GrantSubscriptionCredits_Inr intro: grant_all_credits)

theorem GrantSubscriptionCredits_credits_witness:
  "balance_of (snd (GrantSubscriptionCredits length (ex_env 10 100) ex_grant ex_granting (empty_ledger [ex_type])))
     (sub_UserID ex_sub, 7) = 100"
proof -
  have "\<not> isl (fst (GrantSubscriptionCredits length (ex_env 10 100) ex_grant ex_granting (empty_ledger [ex_type])))"
    by code_simp
  from result_ok [OF this] have run: "GrantSubscriptionCredits length (ex_env 10 100) ex_grant ex_granting (empty_ledger [ex_type]) =
    (Inr (), snd (GrantSubscriptionCredits length (ex_env 10 100) ex_grant ex_granting (empty_ledger [ex_type])))" by simp
  have "SubGetByID (gsc_SubscriptionID ex_grant) (bdb_subs ex_granting) = Inr ex_sub"
    "ProductGetByID (sub_ProductID ex_sub) ex_granting = Inr (ex_product\<lparr>prod_CreditsSpec := ex_specs\<rparr>)"
    by (simp_all add: ex_grant_def ex_granting_def ex_billing_def SubGetByID_def ProductGetByID_def sql_find_def ex_sub_def ex_product_def)
  from GrantSubscriptionCredits_credits [OF run this, of "(sub_UserID ex_sub, 7)"] show ?thesis
    by (simp add: empty_ledger_def) code_simp
qed

section \<open>One name per grant\<close>

lemma split_at_separator:
  "c \<notin> set a \<Longrightarrow> c \<notin> set a' \<Longrightarrow> a @ c # b = a' @ c # b' \<Longrightarrow> a = a' \<and> b = b'"
proof (induction a arbitrary: a')
  case Nil
  then show ?case by (cases a') auto
next
  case (Cons x a)
  then show ?case by (cases a') auto
qed

text \<open>
  The name from which the idempotency key of a grant is computed determines the subscription, the credit type and the end
  of the period, to the nanosecond: no two grants share a name. The text of a UUID is assumed to determine it and to have no
  colon.
\<close>

theorem grant_name_injective:
  assumes "inj (env_uuid_String env)" "\<forall>u. CHR '':'' \<notin> set (env_uuid_String env u)"
    and "0 \<le> t" "t < year_10000" "0 \<le> t'" "t' < year_10000"
  shows "grant_name env s c t = grant_name env s' c' t' \<longleftrightarrow> s = s' \<and> c = c' \<and> t = t'"
proof
  assume "grant_name env s c t = grant_name env s' c' t'"
  then have "env_uuid_String env s @ CHR '':'' # env_uuid_String env c @ CHR '':'' # format_RFC3339Nano t =
      env_uuid_String env s' @ CHR '':'' # env_uuid_String env c' @ CHR '':'' # format_RFC3339Nano t'"
    by (simp add: grant_name_def)
  then have "env_uuid_String env s = env_uuid_String env s'" "env_uuid_String env c = env_uuid_String env c'"
    "format_RFC3339Nano t = format_RFC3339Nano t'"
    using assms(2) split_at_separator by metis+
  with assms show "s = s' \<and> c = c' \<and> t = t'" by (auto dest: injD format_RFC3339Nano_inj)
qed simp

theorem grant_name_injective_witness:
  "grant_name (ex_env 10 100) 5 7 (63870000000 * time_Second) \<noteq> grant_name (ex_env 10 100) 5 7 (63870000000 * time_Second + 1)"
proof -
  have "inj (env_uuid_String (ex_env 10 100))" 
    by (rule injI, drule arg_cong [of _ _ length]) (simp add: ex_env_def)
  moreover have "\<forall>u. CHR '':'' \<notin> set (env_uuid_String (ex_env 10 100) u)" by (simp add: ex_env_def)
  moreover have "63870000000 * time_Second + 1 < year_10000" by (simp add: year_10000_def time_Second_def)
  ultimately show ?thesis
    using grant_name_injective [of "ex_env 10 100" "63870000000 * time_Second" "63870000000 * time_Second + 1" 5 7 5 7]
    by (simp add: time_Second_def)
qed

end
