(* ===== verification/Idempotency.thy ===== *)
theory Idempotency
  imports Go_Prelude
begin

text \<open>
  The idempotency store, \<^verbatim>\<open>internal/modules/idempotency/service.go\<close>, and its client, the webhook deduplication of
  \<^verbatim>\<open>internal/modules/webhooks/deduplication.go\<close>. The Redis client is third-party code: \<open>redis_client\<close> gives, for each of the
  three commands the service sends, what it answers (an error, or a value) and the state of the server after it. Records are
  stored as they are; their JSON form is not modelled. The map in memory is guarded by one mutex, so its operations
  run one after the other, each with one reading of the clock.
\<close>

section \<open>Records and the store\<close>

datatype IdempotencyStatus = IdempotencyStatusPending | IdempotencyStatusSuccess | IdempotencyStatusFailed

record IdempotencyRecord =
  ir_Status :: IdempotencyStatus
  ir_Result :: string
  ir_Error :: string
  ir_CreatedAt :: time

record memEntry =
  me_record :: IdempotencyRecord
  me_expiresAt :: time

text \<open>\<open>Inr None\<close> is the answer \<^verbatim>\<open>redis.Nil\<close>.\<close>

record 'r redis_client =
  rc_Get :: "time \<Rightarrow> string \<Rightarrow> 'r \<Rightarrow> IdempotencyRecord option result"
  rc_SetNX :: "time \<Rightarrow> string \<Rightarrow> IdempotencyRecord \<Rightarrow> duration \<Rightarrow> 'r \<Rightarrow> bool result \<times> 'r"
  rc_Set :: "time \<Rightarrow> string \<Rightarrow> IdempotencyRecord \<Rightarrow> duration \<Rightarrow> 'r \<Rightarrow> unit result \<times> 'r"

record 'r IdempotencyService =
  is_client :: "'r redis_client option"
  is_ttl :: duration
  is_redis :: 'r
  is_memStore :: "string \<rightharpoonup> memEntry"

definition DefaultIdempotencyTTL :: duration where "DefaultIdempotencyTTL = 5 * time_Minute"

definition buildKey :: "string \<Rightarrow> string \<Rightarrow> string" where
  "buildKey operation key = ''idemp:'' @ operation @ '':'' @ key"

text \<open>One round of \<^verbatim>\<open>cleanupLoop\<close>.\<close>

definition cleanup :: "time \<Rightarrow> 'r IdempotencyService \<Rightarrow> 'r IdempotencyService" where
  "cleanup now s = s\<lparr>is_memStore := (\<lambda>k. case is_memStore s k of
     None \<Rightarrow> None | Some entry \<Rightarrow> if now > me_expiresAt entry then None else Some entry)\<rparr>"

section \<open>Operations\<close>

definition pending_record :: "time \<Rightarrow> IdempotencyRecord" where
  "pending_record now = \<lparr>ir_Status = IdempotencyStatusPending, ir_Result = '''', ir_Error = '''', ir_CreatedAt = now\<rparr>"

definition beginMemory ::
  "time \<Rightarrow> string \<Rightarrow> 'r IdempotencyService \<Rightarrow> (IdempotencyRecord \<times> bool) \<times> 'r IdempotencyService" where
  "beginMemory now key s =
     (case is_memStore s key of
        Some entry \<Rightarrow>
          if now < me_expiresAt entry then ((me_record entry, True), s)
          else ((pending_record now, False),
                s\<lparr>is_memStore := (is_memStore s)(key \<mapsto> \<lparr>me_record = pending_record now, me_expiresAt = now + is_ttl s\<rparr>)\<rparr>)
      | None \<Rightarrow> ((pending_record now, False),
                s\<lparr>is_memStore := (is_memStore s)(key \<mapsto> \<lparr>me_record = pending_record now, me_expiresAt = now + is_ttl s\<rparr>)\<rparr>))"

definition beginRedis ::
  "'r redis_client \<Rightarrow> time \<Rightarrow> string \<Rightarrow> duration \<Rightarrow> 'r \<Rightarrow> (IdempotencyRecord \<times> bool) result \<times> 'r" where
  "beginRedis client now redisKey ttl r =
     (case rc_Get client now redisKey r of
        Inr (Some existing) \<Rightarrow> (Inr (existing, True), r)
      | Inl e \<Rightarrow> (Inl (ErrWrap ''redis get'' e), r)
      | Inr None \<Rightarrow>
          (case rc_SetNX client now redisKey (pending_record now) ttl r of
             (Inl e, r') \<Rightarrow> (Inl (ErrWrap ''redis setnx'' e), r')
           | (Inr True, r') \<Rightarrow> (Inr (pending_record now, False), r')
           | (Inr False, r') \<Rightarrow>
               (case rc_Get client now redisKey r' of
                  Inr (Some existing) \<Rightarrow> (Inr (existing, True), r')
                | Inr None \<Rightarrow> (Inl (ErrWrap ''redis get after race'' (ErrMsg ''redis: nil'')), r')
                | Inl e \<Rightarrow> (Inl (ErrWrap ''redis get after race'' e), r'))))"

definition Begin ::
  "time \<Rightarrow> string \<Rightarrow> string \<Rightarrow> 'r IdempotencyService \<Rightarrow> (IdempotencyRecord \<times> bool) \<times> 'r IdempotencyService" where
  "Begin now operation key s =
     (let fullKey = buildKey operation key in
      case is_client s of
        None \<Rightarrow> beginMemory now fullKey s
      | Some client \<Rightarrow>
          (case beginRedis client now fullKey (is_ttl s) (is_redis s) of
             (Inr x, r) \<Rightarrow> (x, s\<lparr>is_redis := r\<rparr>)
           | (Inl e, r) \<Rightarrow> beginMemory now fullKey (s\<lparr>is_redis := r\<rparr>)))"

definition setMemoryWithTTL :: "time \<Rightarrow> string \<Rightarrow> IdempotencyRecord \<Rightarrow> duration \<Rightarrow> 'r IdempotencyService \<Rightarrow> 'r IdempotencyService" where
  "setMemoryWithTTL now key record ttl s =
     s\<lparr>is_memStore := (is_memStore s)(key \<mapsto> \<lparr>me_record = record, me_expiresAt = now + ttl\<rparr>)\<rparr>"

text \<open>The end of \<^verbatim>\<open>Complete\<close> and \<^verbatim>\<open>Fail\<close>: Redis if it takes the record, the map in memory otherwise.\<close>

definition store_record :: "time \<Rightarrow> string \<Rightarrow> IdempotencyRecord \<Rightarrow> duration \<Rightarrow> 'r IdempotencyService \<Rightarrow> 'r IdempotencyService" where
  "store_record now fullKey record ttl s =
     (case is_client s of
        None \<Rightarrow> setMemoryWithTTL now fullKey record ttl s
      | Some client \<Rightarrow>
          (case rc_Set client now fullKey record ttl (is_redis s) of
             (Inr _, r) \<Rightarrow> s\<lparr>is_redis := r\<rparr>
           | (Inl e, r) \<Rightarrow> setMemoryWithTTL now fullKey record ttl (s\<lparr>is_redis := r\<rparr>)))"

definition Complete :: "time \<Rightarrow> string \<Rightarrow> string \<Rightarrow> string \<Rightarrow> 'r IdempotencyService \<Rightarrow> 'r IdempotencyService" where
  "Complete now operation key result s =
     store_record now (buildKey operation key)
       \<lparr>ir_Status = IdempotencyStatusSuccess, ir_Result = result, ir_Error = '''', ir_CreatedAt = now\<rparr> (is_ttl s) s"

definition failureTTL :: "duration \<Rightarrow> duration" where
  "failureTTL ttl = (let t = sgn ttl * (\<bar>ttl\<bar> div 2) in if t < time_Minute then time_Minute else t)"

definition Fail :: "time \<Rightarrow> string \<Rightarrow> string \<Rightarrow> string \<Rightarrow> 'r IdempotencyService \<Rightarrow> 'r IdempotencyService" where
  "Fail now operation key errMsg s =
     store_record now (buildKey operation key)
       \<lparr>ir_Status = IdempotencyStatusFailed, ir_Result = '''', ir_Error = errMsg, ir_CreatedAt = now\<rparr> (failureTTL (is_ttl s)) s"

definition getMemory :: "time \<Rightarrow> string \<Rightarrow> 'r IdempotencyService \<Rightarrow> IdempotencyRecord option" where
  "getMemory now key s =
     (case is_memStore s key of
        None \<Rightarrow> None | Some entry \<Rightarrow> if now < me_expiresAt entry then Some (me_record entry) else None)"

definition IdempotencyGet :: "time \<Rightarrow> string \<Rightarrow> string \<Rightarrow> 'r IdempotencyService \<Rightarrow> IdempotencyRecord option" where
  "IdempotencyGet now operation key s =
     (let fullKey = buildKey operation key in
      case is_client s of
        None \<Rightarrow> getMemory now fullKey s
      | Some client \<Rightarrow>
          (case rc_Get client now fullKey (is_redis s) of Inr (Some rec) \<Rightarrow> Some rec | _ \<Rightarrow> getMemory now fullKey s))"

definition GenerateKeyForRebill :: "string \<Rightarrow> string \<Rightarrow> string" where
  "GenerateKeyForRebill subscriptionID periodEndISO = subscriptionID @ '':'' @ periodEndISO"


section \<open>Webhook deduplication\<close>

fun isWebhookErrorNonRetryable :: "go_error \<Rightarrow> bool" where
  "isWebhookErrorNonRetryable (ErrWrap m e) = isWebhookErrorNonRetryable e"
| "isWebhookErrorNonRetryable (NonRetryableWebhookError e) = True"
| "isWebhookErrorNonRetryable e = False"

definition MarkWebhookErrorNonRetryable :: "go_error \<Rightarrow> go_error" where
  "MarkWebhookErrorNonRetryable err = (if isWebhookErrorNonRetryable err then err else NonRetryableWebhookError err)"

text \<open>
  \<^verbatim>\<open>ProcessWebhook\<close> in its two halves, over the operations of the store they call: what happens up to the call of the
  processing function (\<open>webhook_admit\<close>: \<open>None\<close> when the delivery is acknowledged without processing, otherwise
  \<^verbatim>\<open>shouldRecordOutcome\<close>) and what is recorded and answered after it (\<open>webhook_outcome\<close>). Between the two, other
  deliveries may run. The message of an error is a function of the error that the caller passes. A panic of the
  processing function unwinds the call: nothing is recorded and the record stays pending.
\<close>

type_synonym 'st begin_op = "time \<Rightarrow> string \<Rightarrow> string \<Rightarrow> 'st \<Rightarrow> (IdempotencyRecord \<times> bool) \<times> 'st"
type_synonym 'st record_op = "time \<Rightarrow> string \<Rightarrow> string \<Rightarrow> string \<Rightarrow> 'st \<Rightarrow> 'st"

definition webhook_admit :: "'st begin_op \<Rightarrow> time \<Rightarrow> string \<Rightarrow> string \<Rightarrow> 'st option \<Rightarrow> bool option \<times> 'st option" where
  "webhook_admit begins t0 op trimmedEventID idem =
     (if trimmedEventID = [] then (Some False, idem)
      else (case idem of
              None \<Rightarrow> (Some False, None)
            | Some st \<Rightarrow>
                (case begins t0 op trimmedEventID st of
                   ((rec, alreadyExists), st') \<Rightarrow>
                     if alreadyExists \<and> ir_Status rec = IdempotencyStatusSuccess then (None, Some st')
                     else if alreadyExists \<and> ir_Status rec = IdempotencyStatusPending then (None, Some st')
                     else (Some (ir_Status rec \<noteq> IdempotencyStatusSuccess), Some st'))))"

definition webhook_outcome ::
  "'st record_op \<Rightarrow> 'st record_op \<Rightarrow> (go_error \<Rightarrow> string) \<Rightarrow> time \<Rightarrow> string \<Rightarrow> string \<Rightarrow> string \<Rightarrow> bool \<Rightarrow>
   unit result \<Rightarrow> 'st option \<Rightarrow> unit result \<times> 'st option" where
  "webhook_outcome completes fails message t1 op trimmedEventID payload shouldRecordOutcome outcome idem =
     (let complete = (if shouldRecordOutcome \<and> trimmedEventID \<noteq> []
                      then map_option (completes t1 op trimmedEventID payload) idem else idem)
      in case outcome of
           Inr _ \<Rightarrow> (Inr (), complete)
         | Inl e \<Rightarrow>
             if isWebhookErrorNonRetryable e then (Inr (), complete)
             else (Inl (ErrWrap ''webhook processing failed'' e),
                   if shouldRecordOutcome \<and> trimmedEventID \<noteq> []
                   then map_option (fails t1 op trimmedEventID (message e)) idem else idem))"

definition webhook_run ::
  "'st begin_op \<Rightarrow> 'st record_op \<Rightarrow> 'st record_op \<Rightarrow> (go_error \<Rightarrow> string) \<Rightarrow> time \<Rightarrow> time \<Rightarrow>
   string \<Rightarrow> string \<Rightarrow> string \<Rightarrow> string \<Rightarrow> ('w \<Rightarrow> unit result \<times> 'w) \<Rightarrow> 'st option \<times> 'w \<Rightarrow> unit result \<times> 'st option \<times> 'w" where
  "webhook_run begins completes fails message t0 t1 eventID eventType processor payload processingFunc sw =
     (let trimmedEventID = TrimSpace eventID;
          op = ''webhook.'' @ processor @ ''.'' @ eventType
      in case webhook_admit begins t0 op trimmedEventID (fst sw) of
           (None, idem) \<Rightarrow> (Inr (), idem, snd sw)
         | (Some shouldRecordOutcome, idem) \<Rightarrow>
             (case processingFunc (snd sw) of
                (outcome, w) \<Rightarrow>
                  if panics outcome then (outcome, idem, w)
                  else
                  (case webhook_outcome completes fails message t1 op trimmedEventID payload shouldRecordOutcome outcome idem of
                     (answer, idem') \<Rightarrow> (answer, idem', w))))"

definition ProcessWebhook where
  "ProcessWebhook = webhook_run Begin Complete Fail"

definition IsDuplicate ::
  "time \<Rightarrow> string \<Rightarrow> string \<Rightarrow> 'r IdempotencyService option \<Rightarrow> bool \<times> 'r IdempotencyService option" where
  "IsDuplicate now processor eventID idem =
     (let trimmedEventID = TrimSpace eventID in
      if trimmedEventID = '''' then (False, idem)
      else (case idem of
              None \<Rightarrow> (False, None)
            | Some s \<Rightarrow>
                (case Begin now (''webhook.'' @ processor @ ''.event'') trimmedEventID s of
                   ((rec, alreadyExists), s') \<Rightarrow>
                     (alreadyExists \<and> ir_Status rec = IdempotencyStatusSuccess, Some s'))))"

section \<open>The contract of the store\<close>

text \<open>An outcome of the processing that the deduplication records as final.\<close>

definition settled :: "unit result \<Rightarrow> bool" where
  "settled r \<longleftrightarrow> (case r of Inr _ \<Rightarrow> True | Inl e \<Rightarrow> isWebhookErrorNonRetryable e)"

text \<open>
  What the store promises its clients, over the records that are alive at a moment: the first to begin a key gets a
  fresh pending record, everyone else gets the live record and changes nothing; completing and failing replace the
  record; each record lives for its time and no operation touches another key.
\<close>

locale idempotency_store =
  fixes begins :: "'st begin_op"
    and completes :: "'st record_op"
    and fails :: "'st record_op"
    and sweeps :: "time \<Rightarrow> 'st \<Rightarrow> 'st"
    and live :: "time \<Rightarrow> string \<Rightarrow> 'st \<Rightarrow> IdempotencyRecord option"
    and lifetime :: "'st \<Rightarrow> duration"
    and inv :: "'st \<Rightarrow> bool"
  assumes begins_live: "inv st \<Longrightarrow> live now (buildKey op k) st = Some r \<Longrightarrow> begins now op k st = ((r, True), st)"
    and begins_first: "inv st \<Longrightarrow> live now (buildKey op k) st = None \<Longrightarrow>
      \<exists>st'. begins now op k st = ((pending_record now, False), st') \<and> inv st' \<and> lifetime st' = lifetime st \<and>
        (\<forall>t k'. live t k' st' = (if k' = buildKey op k then (if t < now + lifetime st then Some (pending_record now) else None)
                                 else live t k' st))"
    and completes_live: "inv st \<Longrightarrow> inv (completes now op k v st) \<and> lifetime (completes now op k v st) = lifetime st \<and>
        (\<forall>t k'. live t k' (completes now op k v st) = (if k' = buildKey op k then (if t < now + lifetime st
           then Some \<lparr>ir_Status = IdempotencyStatusSuccess, ir_Result = v, ir_Error = [], ir_CreatedAt = now\<rparr> else None)
           else live t k' st))"
    and fails_live: "inv st \<Longrightarrow> inv (fails now op k v st) \<and> lifetime (fails now op k v st) = lifetime st \<and>
        (\<forall>t k'. live t k' (fails now op k v st) = (if k' = buildKey op k then (if t < now + failureTTL (lifetime st)
           then Some \<lparr>ir_Status = IdempotencyStatusFailed, ir_Result = [], ir_Error = v, ir_CreatedAt = now\<rparr> else None)
           else live t k' st))"
    and sweeps_inv: "inv st \<Longrightarrow> inv (sweeps now st) \<and> lifetime (sweeps now st) = lifetime st"
    and sweeps_keeps: "inv st \<Longrightarrow> live now k' st \<noteq> None \<Longrightarrow> live t k' (sweeps now st) = live t k' st"
    and sweeps_adds_none: "inv st \<Longrightarrow> live t k' st = None \<Longrightarrow> live t k' (sweeps now st) = None"
begin

lemma run_skips:
  assumes "inv st" "TrimSpace ev \<noteq> []" "live t0 (buildKey (''webhook.'' @ pr @ ''.'' @ ty) (TrimSpace ev)) st = Some r"
    and "ir_Status r \<noteq> IdempotencyStatusFailed"
  shows "webhook_run begins completes fails msg t0 t1 ev ty pr pl f (Some st, w) = (Inr (), Some st, w)"
proof -
  have "begins t0 (''webhook.'' @ pr @ ''.'' @ ty) (TrimSpace ev) st = ((r, True), st)" using assms by (intro begins_live)
  with assms(2, 4) show ?thesis by (cases "ir_Status r") (simp_all add: webhook_run_def webhook_admit_def)
qed

text \<open>The first half of a delivery, on a store and a key.\<close>

lemma admit_free:
  assumes "inv st" "k \<noteq> []" and free: "case live t0 (buildKey op k) st of None \<Rightarrow> True | Some r \<Rightarrow> ir_Status r = IdempotencyStatusFailed"
  obtains st1 where "webhook_admit begins t0 op k (Some st) = (Some True, Some st1)" "inv st1" "lifetime st1 = lifetime st"
    "\<And>t k'. k' \<noteq> buildKey op k \<Longrightarrow> live t k' st1 = live t k' st"
    "\<And>t. live t0 (buildKey op k) st = None \<Longrightarrow> t < t0 + lifetime st \<Longrightarrow> live t (buildKey op k) st1 = Some (pending_record t0)"
proof (cases "live t0 (buildKey op k) st")
  case None
  with begins_first [OF \<open>inv st\<close> None] \<open>k \<noteq> []\<close> show thesis
    by (auto simp: pending_record_def webhook_admit_def intro!: that)
next
  case (Some r)
  with begins_live [OF \<open>inv st\<close> Some] free \<open>inv st\<close> \<open>k \<noteq> []\<close> show thesis
    by (intro that [of st]) (simp_all add: webhook_admit_def)
qed

lemma admit_taken:
  assumes "inv st" "k \<noteq> []" "live t0 (buildKey op k) st = Some r" "ir_Status r \<noteq> IdempotencyStatusFailed"
  shows "webhook_admit begins t0 op k (Some st) = (None, Some st)"
  using assms begins_live [OF assms(1, 3)] by (cases "ir_Status r") (simp_all add: webhook_admit_def)

text \<open>The second half: what is recorded and answered.\<close>

lemma outcome_recorded:
  assumes "inv st" "k \<noteq> []"
  obtains st' where "webhook_outcome completes fails msg t1 op k pl True out (Some st) =
      ((if settled out then Inr () else Inl (ErrWrap ''webhook processing failed'' (projl out))), Some st')"
    "inv st'" "lifetime st' = lifetime st" "\<And>t k'. k' \<noteq> buildKey op k \<Longrightarrow> live t k' st' = live t k' st"
    "\<And>t. t < t1 + (if settled out then lifetime st else failureTTL (lifetime st)) \<Longrightarrow>
      \<exists>r. live t (buildKey op k) st' = Some r \<and>
        ir_Status r = (if settled out then IdempotencyStatusSuccess else IdempotencyStatusFailed)"
proof -
  define st' where "st' = (if settled out then completes t1 op k pl st else fails t1 op k (msg (projl out)) st)"
  have "webhook_outcome completes fails msg t1 op k pl True out (Some st) =
      ((if settled out then Inr () else Inl (ErrWrap ''webhook processing failed'' (projl out))), Some st')"
    using assms by (cases out) (auto simp: webhook_outcome_def Let_def settled_def st'_def)
  moreover have "inv st'" "lifetime st' = lifetime st"
    using assms completes_live fails_live by (auto simp: st'_def)
  moreover have "live t k' st' = live t k' st" if "k' \<noteq> buildKey op k" for t k'
    using that assms completes_live fails_live by (simp add: st'_def)
  moreover have "\<exists>r. live t (buildKey op k) st' = Some r \<and>
      ir_Status r = (if settled out then IdempotencyStatusSuccess else IdempotencyStatusFailed)"
    if "t < t1 + (if settled out then lifetime st else failureTTL (lifetime st))" for t
    using that assms completes_live fails_live by (cases "settled out") (simp_all add: st'_def)
  ultimately show thesis by (rule that)
qed

lemma run_processes:
  assumes "inv st" and ev: "TrimSpace ev \<noteq> []"
    and free: "case live t0 (buildKey (''webhook.'' @ pr @ ''.'' @ ty) (TrimSpace ev)) st of
      None \<Rightarrow> True | Some r \<Rightarrow> ir_Status r = IdempotencyStatusFailed"
    and f: "f w = (out, w')" "\<not> panics out"
  obtains st' where "webhook_run begins completes fails msg t0 t1 ev ty pr pl f (Some st, w) =
      ((if settled out then Inr () else Inl (ErrWrap ''webhook processing failed'' (projl out))), Some st', w')"
    "inv st'" "lifetime st' = lifetime st"
    "\<And>t k. k \<noteq> buildKey (''webhook.'' @ pr @ ''.'' @ ty) (TrimSpace ev) \<Longrightarrow> live t k st' = live t k st"
    "\<And>t. t < t1 + (if settled out then lifetime st else failureTTL (lifetime st)) \<Longrightarrow>
      \<exists>r. live t (buildKey (''webhook.'' @ pr @ ''.'' @ ty) (TrimSpace ev)) st' = Some r \<and>
        ir_Status r = (if settled out then IdempotencyStatusSuccess else IdempotencyStatusFailed)"
proof -
  let ?op = "''webhook.'' @ pr @ ''.'' @ ty" and ?k = "TrimSpace ev"
  obtain st1 where st1: "webhook_admit begins t0 ?op ?k (Some st) = (Some True, Some st1)" "inv st1" "lifetime st1 = lifetime st"
    "\<And>t k'. k' \<noteq> buildKey ?op ?k \<Longrightarrow> live t k' st1 = live t k' st"
    by (rule admit_free [OF \<open>inv st\<close> ev free]) (rule that)
  obtain st' where st': "webhook_outcome completes fails msg t1 ?op ?k pl True out (Some st1) =
      ((if settled out then Inr () else Inl (ErrWrap ''webhook processing failed'' (projl out))), Some st')"
    "inv st'" "lifetime st' = lifetime st1" "\<And>t k'. k' \<noteq> buildKey ?op ?k \<Longrightarrow> live t k' st' = live t k' st1"
    "\<And>t. t < t1 + (if settled out then lifetime st1 else failureTTL (lifetime st1)) \<Longrightarrow>
      \<exists>r. live t (buildKey ?op ?k) st' = Some r \<and>
        ir_Status r = (if settled out then IdempotencyStatusSuccess else IdempotencyStatusFailed)"
    by (rule outcome_recorded [OF st1(2) ev]) (rule that)
  show thesis
  proof (rule that)
    show "webhook_run begins completes fails msg t0 t1 ev ty pr pl f (Some st, w) =
      ((if settled out then Inr () else Inl (ErrWrap ''webhook processing failed'' (projl out))), Some st', w')"
      using st1(1) st'(1) f by (simp add: webhook_run_def Let_def)
    show "inv st'" "lifetime st' = lifetime st" using st1(3) st'(2, 3) by simp_all
    show "live t k st' = live t k st" if "k \<noteq> buildKey ?op ?k" for t k using st1(4) st'(4) that by metis
    show "\<exists>r. live t (buildKey ?op ?k) st' = Some r \<and>
        ir_Status r = (if settled out then IdempotencyStatusSuccess else IdempotencyStatusFailed)"
      if "t < t1 + (if settled out then lifetime st else failureTTL (lifetime st))" for t
      using st'(5) [of t] that unfolding st1(3) .
  qed
qed

end

section \<open>Interleaved deliveries\<close>

text \<open>
  Deliveries run concurrently. \<open>Arrive\<close> is the first half of one, \<open>Finish\<close> the second half of a delivery in flight, with
  the outcome of its processing function, and \<open>Sweep\<close> a round of the store's cleanup. The log holds, for every processing
  that ended, the key of the store and whether the outcome was final.
\<close>

datatype dedup_event =
    Arrive time string string
  | Finish time string string string "unit result"
  | Sweep time

record 'st dedup_state =
  ds_store :: 'st
  ds_flight :: "(string \<times> bool) list"
  ds_log :: "(string \<times> bool) list"

fun dedup_step where
  "dedup_step begins completes fails sweeps (Arrive t op k) s =
     (case webhook_admit begins t op k (Some (ds_store s)) of
        (None, st) \<Rightarrow> s\<lparr>ds_store := the st\<rparr>
      | (Some shouldRecordOutcome, st) \<Rightarrow>
          s\<lparr>ds_store := the st, ds_flight := (buildKey op k, shouldRecordOutcome) # ds_flight s\<rparr>)"
| "dedup_step begins completes fails sweeps (Finish t op k payload out) s =
     (case map_of (ds_flight s) (buildKey op k) of
        None \<Rightarrow> s
      | Some shouldRecordOutcome \<Rightarrow>
          s\<lparr>ds_store := the (snd (webhook_outcome completes fails (\<lambda>e. ''error'') t op k payload shouldRecordOutcome out
                                   (Some (ds_store s)))),
            ds_flight := remove1 (buildKey op k, shouldRecordOutcome) (ds_flight s),
            ds_log := (buildKey op k, settled out) # ds_log s\<rparr>)"
| "dedup_step begins completes fails sweeps (Sweep t) s = s\<lparr>ds_store := sweeps t (ds_store s)\<rparr>"

definition dedup_run where
  "dedup_run begins completes fails sweeps evs s = fold (dedup_step begins completes fails sweeps) evs s"

text \<open>A run stays in the window of length \<open>ttl\<close> from \<open>T\<close>, and no processing for the key \<open>K\<close> fails retryably.\<close>

fun in_window :: "time \<Rightarrow> duration \<Rightarrow> string \<Rightarrow> dedup_event \<Rightarrow> bool" where
  "in_window T ttl K (Arrive t op k) \<longleftrightarrow> k \<noteq> [] \<and> T \<le> t \<and> t < T + ttl"
| "in_window T ttl K (Finish t op k pl out) \<longleftrightarrow> k \<noteq> [] \<and> T \<le> t \<and> (buildKey op k = K \<longrightarrow> settled out)"
| "in_window T ttl K (Sweep t) \<longleftrightarrow> t < T + ttl"

lemma length_filter_remove1:
  "length (filter P (remove1 x xs)) = length (filter P xs) - (if x \<in> set xs \<and> P x then 1 else 0)"
proof (induction xs)
  case (Cons y ys)
  then show ?case by (cases "filter P ys") (auto simp: filter_empty_conv)
qed simp

context idempotency_store
begin

definition claimed where
  "claimed T ttl K s \<longleftrightarrow> inv (ds_store s) \<and> lifetime (ds_store s) = ttl \<and> (\<forall>x \<in> set (ds_flight s). snd x) \<and>
     (let n = length (filter (\<lambda>x. fst x = K) (ds_flight s @ ds_log s)) in
      n = 0 \<and> (\<forall>t. live t K (ds_store s) = None) \<or>
      n = 1 \<and> (\<forall>t < T + ttl. \<exists>r. live t K (ds_store s) = Some r \<and> ir_Status r \<noteq> IdempotencyStatusFailed))"

lemma arrive_claimed:
  assumes s: "claimed T ttl K s" and ev: "k \<noteq> []" "T \<le> t" "t < T + ttl"
  shows "claimed T ttl K (dedup_step begins completes fails sweeps (Arrive t op k) s)"
proof (cases "\<exists>r. live t (buildKey op k) (ds_store s) = Some r \<and> ir_Status r \<noteq> IdempotencyStatusFailed")
  case True
  then have "webhook_admit begins t op k (Some (ds_store s)) = (None, Some (ds_store s))"
    using s ev(1) admit_taken by (auto simp: claimed_def)
  with s show ?thesis by (simp add: claimed_def)
next
  case False
  with s have free: "case live t (buildKey op k) (ds_store s) of None \<Rightarrow> True | Some r \<Rightarrow> ir_Status r = IdempotencyStatusFailed"
    by (auto split: option.split)
  have inv: "inv (ds_store s)" using s by (simp add: claimed_def)
  obtain st1 where st1: "webhook_admit begins t op k (Some (ds_store s)) = (Some True, Some st1)" "inv st1"
    "lifetime st1 = lifetime (ds_store s)" "\<And>t k'. k' \<noteq> buildKey op k \<Longrightarrow> live t k' st1 = live t k' (ds_store s)"
    "\<And>t'. live t (buildKey op k) (ds_store s) = None \<Longrightarrow> t' < t + lifetime (ds_store s) \<Longrightarrow>
       live t' (buildKey op k) st1 = Some (pending_record t)"
    by (rule admit_free [OF inv ev(1) free]) (rule that)
  show ?thesis
  proof (cases "buildKey op k = K")
    case True
    with False s ev have none: "filter (\<lambda>x. fst x = K) (ds_flight s @ ds_log s) = []" "live t K (ds_store s) = None"
      by (auto simp: claimed_def Let_def)
    have "\<exists>r. live t' K st1 = Some r \<and> ir_Status r \<noteq> IdempotencyStatusFailed" if "t' < T + ttl" for t'
      using st1(5) [of t'] that none(2) True ev s by (simp add: claimed_def pending_record_def)
    with s st1 True none show ?thesis by (simp add: claimed_def)
  next
    case False
    with s st1 show ?thesis by (simp add: claimed_def)
  qed
qed

lemma finish_claimed:
  assumes s: "claimed T ttl K s" and ev: "k \<noteq> []" "T \<le> t" "buildKey op k = K \<Longrightarrow> settled out"
  shows "claimed T ttl K (dedup_step begins completes fails sweeps (Finish t op k pl out) s)"
proof (cases "map_of (ds_flight s) (buildKey op k)")
  case None
  with s show ?thesis by simp
next
  case (Some b)
  then have mem: "(buildKey op k, b) \<in> set (ds_flight s)" by (rule map_of_SomeD)
  with s have [simp]: "b = True" by (auto simp: claimed_def)
  have inv: "inv (ds_store s)" using s by (simp add: claimed_def)
  obtain st' where st': "webhook_outcome completes fails (\<lambda>e. ''error'') t op k pl True out (Some (ds_store s)) =
      ((if settled out then Inr () else Inl (ErrWrap ''webhook processing failed'' (projl out))), Some st')"
    "inv st'" "lifetime st' = lifetime (ds_store s)" "\<And>t k'. k' \<noteq> buildKey op k \<Longrightarrow> live t k' st' = live t k' (ds_store s)"
    "\<And>t'. t' < t + (if settled out then lifetime (ds_store s) else failureTTL (lifetime (ds_store s))) \<Longrightarrow>
      \<exists>r. live t' (buildKey op k) st' = Some r \<and>
        ir_Status r = (if settled out then IdempotencyStatusSuccess else IdempotencyStatusFailed)"
    by (rule outcome_recorded [OF inv ev(1)]) (rule that)
  have sub: "\<forall>x \<in> set (remove1 (buildKey op k, True) (ds_flight s)). snd x"
    using s set_remove1_subset [of "(buildKey op k, True)" "ds_flight s"] by (auto simp: claimed_def)
  show ?thesis
  proof (cases "buildKey op k = K")
    case True
    have pos: "length (filter (\<lambda>x. fst x = K) (ds_flight s)) \<noteq> 0" using mem True by (force simp: filter_empty_conv)
    then have "length (filter (\<lambda>x. fst x = K) (ds_flight s)) = 1" "filter (\<lambda>x. fst x = K) (ds_log s) = []"
      using s by (cases "filter (\<lambda>x. fst x = K) (ds_log s)"; auto simp: claimed_def Let_def)+
    moreover have "\<exists>r. live t' K st' = Some r \<and> ir_Status r \<noteq> IdempotencyStatusFailed" if "t' < T + ttl" for t'
      using st'(5) [of t'] that ev True s by (auto simp: claimed_def)
    ultimately show ?thesis using s st' sub True Some mem
      by (simp add: claimed_def Let_def length_filter_remove1)
  next
    case False
    with s st' sub Some mem show ?thesis by (simp add: claimed_def Let_def length_filter_remove1)
  qed
qed

lemma sweep_claimed:
  assumes "claimed T ttl K s" "t < T + ttl"
  shows "claimed T ttl K (dedup_step begins completes fails sweeps (Sweep t) s)"
proof -
  have "live t' K (sweeps t (ds_store s)) = live t' K (ds_store s)" for t'
    using assms sweeps_keeps [of "ds_store s" t K t'] sweeps_adds_none [of "ds_store s" t' K t]
    by (auto simp: claimed_def Let_def)
  with assms sweeps_inv [of "ds_store s" t] show ?thesis by (simp add: claimed_def)
qed

lemma run_claimed:
  assumes "claimed T ttl K s" "\<forall>e \<in> set evs. in_window T ttl K e"
  shows "claimed T ttl K (dedup_run begins completes fails sweeps evs s)"
  using assms
proof (induction evs arbitrary: s)
  case (Cons e evs)
  have "claimed T ttl K (dedup_step begins completes fails sweeps e s)"
    using Cons.prems by (cases e) (auto intro: arrive_claimed finish_claimed sweep_claimed simp del: dedup_step.simps)
  with Cons show ?case by (simp add: dedup_run_def)
qed (simp add: dedup_run_def)

lemma run_once:
  assumes "inv st" "lifetime st = ttl" "\<And>t. live t K st = None" "\<forall>e \<in> set evs. in_window T ttl K e"
  shows "length (filter (\<lambda>x. fst x = K)
    (ds_log (dedup_run begins completes fails sweeps evs \<lparr>ds_store = st, ds_flight = [], ds_log = []\<rparr>))) \<le> 1"
proof -
  have "claimed T ttl K \<lparr>ds_store = st, ds_flight = [], ds_log = []\<rparr>" using assms by (simp add: claimed_def)
  from run_claimed [OF this assms(4)] show ?thesis by (auto simp: claimed_def Let_def)
qed

end

section \<open>The map in memory keeps the contract\<close>

lemma beginMemory_def':
  "beginMemory now key s =
     (case getMemory now key s of
        Some r \<Rightarrow> ((r, True), s)
      | None \<Rightarrow> ((pending_record now, False), setMemoryWithTTL now key (pending_record now) (is_ttl s) s))"
  by (simp add: beginMemory_def getMemory_def setMemoryWithTTL_def split: option.split)

lemma getMemory_set:
  "getMemory t k' (setMemoryWithTTL now k r ttl s) =
     (if k' = k then (if t < now + ttl then Some r else None) else getMemory t k' s)"
  by (simp add: getMemory_def setMemoryWithTTL_def)

lemma setMemoryWithTTL_fields [simp]:
  "is_client (setMemoryWithTTL now k r ttl s) = is_client s" "is_ttl (setMemoryWithTTL now k r ttl s) = is_ttl s"
  by (simp_all add: setMemoryWithTTL_def)

interpretation mem: idempotency_store Begin Complete Fail cleanup getMemory is_ttl "\<lambda>s. is_client s = None"
proof (unfold_locales, goal_cases)
  case (6 st now k' t) then show ?case by (auto simp: getMemory_def cleanup_def split: option.splits if_splits)
next
  case (7 st t k' now) then show ?case by (auto simp: getMemory_def cleanup_def split: option.splits if_splits)
qed (auto simp: Begin_def beginMemory_def' Complete_def Fail_def store_record_def getMemory_set cleanup_def)


section \<open>Properties\<close>

lemma IdempotencyGet_memory: "is_client s = None \<Longrightarrow> IdempotencyGet t op k s = getMemory t (buildKey op k) s"
  by (simp add: IdempotencyGet_def)

definition empty_store :: "duration \<Rightarrow> unit IdempotencyService" where
  "empty_store ttl = \<lparr>is_client = None, is_ttl = ttl, is_redis = (), is_memStore = Map.empty\<rparr>"

text \<open>
  A webhook with an event id is acknowledged without any effect when its record is pending or successful. Otherwise it
  is processed once; the outcome, unless it is a panic, is answered (an error only when the processor should retry) and the store remembers it:
  as a success for the lifetime of the store, or as a failure, which lets the next delivery through, for the lifetime
  of failures.
\<close>

theorem ProcessWebhook_dedupes:
  assumes s: "is_client s = None" and ev: "TrimSpace ev \<noteq> []" and f: "f w = (out, w')" "\<not> panics out"
  shows "(\<exists>r. IdempotencyGet t0 (''webhook.'' @ pr @ ''.'' @ ty) (TrimSpace ev) s = Some r \<and> ir_Status r \<noteq> IdempotencyStatusFailed) \<and>
       ProcessWebhook msg t0 t1 ev ty pr pl f (Some s, w) = (Inr (), Some s, w) \<or>
     (\<exists>s'. ProcessWebhook msg t0 t1 ev ty pr pl f (Some s, w) =
         ((if settled out then Inr () else Inl (ErrWrap ''webhook processing failed'' (projl out))), Some s', w') \<and>
       (\<forall>t. t1 \<le> t \<longrightarrow> t < t1 + (if settled out then is_ttl s else failureTTL (is_ttl s)) \<longrightarrow>
          map_option ir_Status (IdempotencyGet t (''webhook.'' @ pr @ ''.'' @ ty) (TrimSpace ev) s') =
            Some (if settled out then IdempotencyStatusSuccess else IdempotencyStatusFailed)))"
proof (cases "\<exists>r. getMemory t0 (buildKey (''webhook.'' @ pr @ ''.'' @ ty) (TrimSpace ev)) s = Some r \<and>
    ir_Status r \<noteq> IdempotencyStatusFailed")
  case True
  then show ?thesis using mem.run_skips [OF s ev] s by (auto simp: ProcessWebhook_def IdempotencyGet_memory)
next
  case False
  then have free: "case getMemory t0 (buildKey (''webhook.'' @ pr @ ''.'' @ ty) (TrimSpace ev)) s of
      None \<Rightarrow> True | Some r \<Rightarrow> ir_Status r = IdempotencyStatusFailed" by (auto split: option.split)
  show ?thesis
    by (rule mem.run_processes [where f = f and msg = msg and ?t1.0 = t1 and pl = pl, OF s ev free f], rule disjI2, rule exI, rule conjI)
      (unfold ProcessWebhook_def, assumption, fastforce simp: IdempotencyGet_memory)
qed

theorem ProcessWebhook_dedupes_witness:
  "\<exists>s'. ProcessWebhook (\<lambda>e. ''x'') 0 1 '' e1 '' ''NewSale'' ''ccbill'' [] (\<lambda>n. (Inr (), n + 1)) (Some (empty_store 300), 0::nat) =
      (Inr (), Some s', 1) \<and>
    map_option ir_Status (IdempotencyGet 5 ''webhook.ccbill.NewSale'' ''e1'' s') = Some IdempotencyStatusSuccess"
proof -
  have "is_client (empty_store 300) = None" "TrimSpace '' e1 '' = ''e1''" by (simp_all add: empty_store_def) code_simp
  then show ?thesis
    using ProcessWebhook_dedupes [of "empty_store 300" "'' e1 ''" "\<lambda>n::nat. (Inr (), n + 1)" 0 "Inr ()" 1 0 "''ccbill''" "''NewSale''"
        "\<lambda>e. ''x''" 1 "[]"]
    by (auto simp: settled_def IdempotencyGet_memory getMemory_def empty_store_def)
qed


definition two_deliveries :: "dedup_event list" where
  "two_deliveries = [Arrive 0 ''webhook.nmi.sale'' ''e1'', Arrive 1 ''webhook.nmi.sale'' ''e1'',
     Finish 2 ''webhook.nmi.sale'' ''e1'' [] (Inr ()), Sweep 3, Arrive 4 ''webhook.nmi.sale'' ''e1'']"


text \<open>
  The restriction is needed: after a retryable failure two deliveries of the same event that overlap are both
  processed, because the failed record does not become pending again when a delivery is let through.
\<close>

theorem webhook_retried_twice:
  "ds_log (dedup_run Begin Complete Fail cleanup
     [Arrive 0 ''webhook.nmi.sale'' ''e1'', Finish 1 ''webhook.nmi.sale'' ''e1'' [] (Inl (ErrMsg ''db down'')),
      Arrive 2 ''webhook.nmi.sale'' ''e1'', Arrive 3 ''webhook.nmi.sale'' ''e1'',
      Finish 4 ''webhook.nmi.sale'' ''e1'' [] (Inr ()), Finish 5 ''webhook.nmi.sale'' ''e1'' [] (Inr ())]
     \<lparr>ds_store = empty_store DefaultIdempotencyTTL, ds_flight = [], ds_log = []\<rparr>) =
   [(buildKey ''webhook.nmi.sale'' ''e1'', True), (buildKey ''webhook.nmi.sale'' ''e1'', True),
    (buildKey ''webhook.nmi.sale'' ''e1'', False)]"
  by (simp add: dedup_run_def webhook_admit_def webhook_outcome_def Begin_def beginMemory_def pending_record_def
      Complete_def Fail_def store_record_def setMemoryWithTTL_def failureTTL_def empty_store_def DefaultIdempotencyTTL_def
      time_Minute_def time_Second_def Let_def settled_def)

end
