(* ===== verification/Payment_Methods.thy ===== *)
theory Payment_Methods
  imports Subscriptions
begin

text \<open>
  Stored payment methods: \<^verbatim>\<open>internal/db/models/payment_method.go\<close> and \<^verbatim>\<open>internal/db/repo/payment_method.go\<close>, with the
  unique indexes of the migrations 001 and 003 and the foreign key of the subscriptions (\<^verbatim>\<open>ON DELETE SET NULL\<close>). The
  metadata are kept as text.
\<close>

record payment_method =
  pm_ID :: uuid
  pm_UserID :: string
  pm_Processor :: string
  pm_VaultID :: string
  pm_BillingID :: "string option"
  pm_InitialTransactionID :: string
  pm_LastFour :: "string option"
  pm_CardType :: "string option"
  pm_ExpiryDate :: "string option"
  pm_FailureReason :: "string option"
  pm_Metadata :: "string option"
  pm_CreatedAt :: time
  pm_UpdatedAt :: time

definition pm_clash :: "payment_method \<Rightarrow> payment_method \<Rightarrow> string option" where
  "pm_clash a b =
     (if pm_ID a = pm_ID b then Some ''payment_methods_pkey''
      else if pm_Processor a = pm_Processor b \<and> pm_VaultID a = pm_VaultID b
      then Some ''idx_payment_methods_processor_vault_id''
      else if pm_UserID a = pm_UserID b \<and> pm_VaultID a = pm_VaultID b then Some ''uq_payment_methods_user_vault''
      else None)"

abbreviation pms_ok :: "payment_method list \<Rightarrow> bool" where
  "pms_ok \<equiv> tbl_ok (\<lambda>_. None) pm_clash"

abbreviation (input) ErrPaymentMethodNotFound :: go_error where
  "ErrPaymentMethodNotFound \<equiv> ErrMsg ''payment method not found''"

definition PaymentMethodCreate :: "payment_method \<Rightarrow> payment_method list \<Rightarrow> payment_method list result" where
  "PaymentMethodCreate m rows = tbl_insert (\<lambda>_. None) pm_clash m rows"

definition PaymentMethodGetByID :: "(uuid \<Rightarrow> string) \<Rightarrow> uuid \<Rightarrow> payment_method list \<Rightarrow> payment_method result" where
  "PaymentMethodGetByID uuid_String i rows =
     (case sql_find (\<lambda>m. pm_ID m = i) rows of
        Inr pm \<Rightarrow> Inr pm
      | Inl e \<Rightarrow> if errors_Is e ErrNoRows
                then Inl (ErrWrap (''payment method '' @ uuid_String i) ErrPaymentMethodNotFound) else Inl e)"

text \<open>The rows of the subscriptions that referred to the method lose the reference.\<close>

definition PaymentMethodDelete ::
  "uuid \<Rightarrow> payment_method list \<Rightarrow> subscription list \<Rightarrow> (payment_method list \<times> subscription list) result" where
  "PaymentMethodDelete i rows subs =
     (if \<not> list_ex (\<lambda>m. pm_ID m = i) rows then Inl ErrPaymentMethodNotFound
      else Inr (filter (\<lambda>m. pm_ID m \<noteq> i) rows,
                sql_update (\<lambda>s. sub_PaymentMethodID s = Some i) (\<lambda>s. s\<lparr>sub_PaymentMethodID := None\<rparr>) subs))"

definition newest_first :: "payment_method list \<Rightarrow> payment_method list" where
  "newest_first rows = sort_key (\<lambda>m. - pm_CreatedAt m) rows"

definition PaymentMethodGetByUserID :: "string \<Rightarrow> payment_method list \<Rightarrow> payment_method list" where
  "PaymentMethodGetByUserID u rows = newest_first (filter (\<lambda>m. pm_UserID m = u) rows)"

definition PaymentMethodListByUserID :: "string \<Rightarrow> int \<Rightarrow> int \<Rightarrow> payment_method list \<Rightarrow> payment_method list \<times> int" where
  "PaymentMethodListByUserID u limit offset rows =
     (let items = PaymentMethodGetByUserID u rows;
          page = (if offset > 0 then drop (nat offset) items else items)
      in (if limit > 0 then take (nat limit) page else page, int (length items)))"

definition find_method :: "(payment_method \<Rightarrow> bool) \<Rightarrow> payment_method list \<Rightarrow> payment_method result" where
  "find_method P rows =
     (case sql_find P rows of
        Inr pm \<Rightarrow> Inr pm | Inl e \<Rightarrow> if errors_Is e ErrNoRows then Inl ErrPaymentMethodNotFound else Inl e)"

definition GetByVaultID :: "string \<Rightarrow> string \<Rightarrow> payment_method list \<Rightarrow> payment_method result" where
  "GetByVaultID processor vaultID = find_method (\<lambda>m. pm_Processor m = processor \<and> pm_VaultID m = vaultID)"

definition GetByInitialTransactionID :: "string \<Rightarrow> string \<Rightarrow> payment_method list \<Rightarrow> payment_method result" where
  "GetByInitialTransactionID processor txID =
     find_method (\<lambda>m. pm_Processor m = processor \<and> pm_InitialTransactionID m = txID)"

definition PaymentMethodUpdate :: "payment_method \<Rightarrow> payment_method list \<Rightarrow> payment_method list result" where
  "PaymentMethodUpdate m rows =
     (if \<not> list_ex (\<lambda>r. pm_ID r = pm_ID m) rows then Inl ErrPaymentMethodNotFound
      else tbl_update (\<lambda>_. None) pm_clash (\<lambda>r. pm_ID r = pm_ID m) (\<lambda>_. m) rows)"

definition GetAllNMIBacked :: "string set \<Rightarrow> payment_method list \<Rightarrow> payment_method list" where
  "GetAllNMIBacked backed rows = newest_first (filter (\<lambda>m. pm_Processor m \<in> backed) rows)"

definition GetNMIBackedByUserID :: "string set \<Rightarrow> string \<Rightarrow> payment_method list \<Rightarrow> payment_method list" where
  "GetNMIBackedByUserID backed u rows =
     newest_first (filter (\<lambda>m. pm_UserID m = u \<and> pm_Processor m \<in> backed) rows)"

definition ExistsForUser :: "uuid \<Rightarrow> string \<Rightarrow> payment_method list \<Rightarrow> bool" where
  "ExistsForUser i u rows = (length (filter (\<lambda>m. pm_ID m = i \<and> pm_UserID m = u) rows) > 0)"

definition PaymentMethodGetByProcessor :: "string \<Rightarrow> payment_method list \<Rightarrow> payment_method list" where
  "PaymentMethodGetByProcessor processor rows = newest_first (filter (\<lambda>m. pm_Processor m = processor) rows)"

section \<open>A method of a vault\<close>

lemma pm_clash_sym: "pm_clash a b = None \<Longrightarrow> pm_clash b a = None"
  by (auto simp: pm_clash_def split: if_splits)

lemma PaymentMethodCreate_ok: "pms_ok rows \<Longrightarrow> PaymentMethodCreate m rows = Inr rows' \<Longrightarrow> pms_ok rows'"
  by (auto simp: PaymentMethodCreate_def tbl_insert_Inr violation_None tbl_ok_def sorted_wrt_append pm_clash_sym)

lemma PaymentMethodDelete_ok:
  "pms_ok rows \<Longrightarrow> PaymentMethodDelete i rows subs = Inr (rows', subs') \<Longrightarrow> pms_ok rows' \<and> \<not> list_ex (\<lambda>m. pm_ID m = i) rows' \<and>
     (\<forall>s \<in> set subs'. sub_PaymentMethodID s \<noteq> Some i)"
  by (auto simp: PaymentMethodDelete_def tbl_ok_def list_all_iff list_ex_iff sorted_wrt_filter set_sql_update split: if_splits)

text \<open>A vault of a processor is stored once, so the lookup by it after its creation finds what was created.\<close>

lemma GetByVaultID_create:
  assumes "PaymentMethodCreate m rows = Inr rows'"
  shows "GetByVaultID (pm_Processor m) (pm_VaultID m) rows' = Inr m"
proof -
  have "pm_clash m x = None" if "x \<in> set rows" for x
    using assms that by (auto simp: PaymentMethodCreate_def tbl_insert_Inr violation_None)
  then have "find (\<lambda>x. pm_Processor x = pm_Processor m \<and> pm_VaultID x = pm_VaultID m) rows = None"
    unfolding find_None_iff pm_clash_def by (metis option.distinct(1))
  with assms show ?thesis
    by (auto simp: GetByVaultID_def find_method_def sql_find_def PaymentMethodCreate_def tbl_insert_Inr find_append_None)
qed

end
