(* ===== verification/Url_Values.thy ===== *)
theory Url_Values
  imports Go_Prelude "HOL-Library.List_Lexorder" "HOL-Library.Char_ord"
begin

text \<open>
  Forms and query strings, as the clients of the payment processors use them from Go's \<^verbatim>\<open>net/url\<close>: the escaping of a text,
  \<^verbatim>\<open>ParseQuery\<close>, \<^verbatim>\<open>Values.Get\<close> and \<^verbatim>\<open>Values.Encode\<close>; and \<^verbatim>\<open>strconv.Atoi\<close> and \<^verbatim>\<open>strings.Join\<close>, which read and write the fields.
  A form is the list of its fields; every key of the program's forms has one value.
\<close>

section \<open>Escaping\<close>

definition hex_digit :: "nat \<Rightarrow> char" where
  "hex_digit n = char_of (if n < 10 then 48 + n else 55 + n)"

definition unhex :: "char \<Rightarrow> nat option" where
  "unhex c =
     (let n = of_char c in
      if 48 \<le> n \<and> n \<le> 57 then Some (n - 48)
      else if 97 \<le> n \<and> n \<le> 102 then Some (n - 87)
      else if 65 \<le> n \<and> n \<le> 70 then Some (n - 55)
      else None)"

definition unreserved :: "char \<Rightarrow> bool" where
  "unreserved c \<longleftrightarrow>
     (let n = (of_char c :: nat) in
      48 \<le> n \<and> n \<le> 57 \<or> 65 \<le> n \<and> n \<le> 90 \<or> 97 \<le> n \<and> n \<le> 122 \<or> n = 45 \<or> n = 46 \<or> n = 95 \<or> n = 126)"

definition escape_char :: "char \<Rightarrow> string" where
  "escape_char c =
     (if unreserved c then [c]
      else if c = CHR '' '' then ''+''
      else [CHR ''%'', hex_digit (of_char c div 16), hex_digit (of_char c mod 16)])"

definition QueryEscape :: "string \<Rightarrow> string" where
  "QueryEscape s = concat (map escape_char s)"

fun QueryUnescape :: "string \<Rightarrow> string option" where
  "QueryUnescape [] = Some []"
| "QueryUnescape (c # cs) =
     (if c = CHR ''%''
      then (case cs of
              a # b # rest \<Rightarrow>
                (case (unhex a, unhex b) of
                   (Some x, Some y) \<Rightarrow> map_option ((#) (char_of (16 * x + y))) (QueryUnescape rest)
                 | _ \<Rightarrow> None)
            | _ \<Rightarrow> None)
      else map_option ((#) (if c = CHR ''+'' then CHR '' '' else c)) (QueryUnescape cs))"

section \<open>Forms\<close>

fun split_at :: "char \<Rightarrow> string \<Rightarrow> string list" where
  "split_at d [] = [[]]"
| "split_at d (c # cs) =
     (if c = d then [] # split_at d cs
      else (case split_at d cs of [] \<Rightarrow> [[c]] | p # ps \<Rightarrow> (c # p) # ps))"

text \<open>\<^verbatim>\<open>strings.Cut\<close> at the first equals sign.\<close>

definition cut_eq :: "string \<Rightarrow> string \<times> string" where
  "cut_eq s = (takeWhile (\<lambda>c. c \<noteq> CHR ''='') s, drop 1 (dropWhile (\<lambda>c. c \<noteq> CHR ''='') s))"

definition parse_pair :: "string \<Rightarrow> (string \<times> string) option" where
  "parse_pair s =
     (if CHR '';'' \<in> set s then None
      else (case (QueryUnescape (fst (cut_eq s)), QueryUnescape (snd (cut_eq s))) of
              (Some k, Some v) \<Rightarrow> Some (k, v)
            | _ \<Rightarrow> None))"

text \<open>An error is reported, whatever the other pairs are; empty pairs are skipped.\<close>

definition ParseQuery :: "string \<Rightarrow> (string \<times> string) list option" where
  "ParseQuery query =
     (let pairs = map parse_pair (filter (\<lambda>s. s \<noteq> []) (split_at CHR ''&'' query))
      in if None \<in> set pairs then None else Some (map the pairs))"

definition Values_Get :: "(string \<times> string) list \<Rightarrow> string \<Rightarrow> string" where
  "Values_Get values key = (case map_of values key of None \<Rightarrow> [] | Some v \<Rightarrow> v)"

fun Join :: "string list \<Rightarrow> string \<Rightarrow> string" where
  "Join [] sep = []"
| "Join [s] sep = s"
| "Join (s # t # ts) sep = s @ sep @ Join (t # ts) sep"

definition Encode :: "(string \<times> string) list \<Rightarrow> string" where
  "Encode values =
     Join (map (\<lambda>(k, v). QueryEscape k @ ''='' @ QueryEscape v) (sort_key fst values)) ''&''"

section \<open>Integers\<close>

text \<open>The value that \<^verbatim>\<open>strconv.Atoi\<close> returns, beside an error that the code drops.\<close>

definition Atoi :: "string \<Rightarrow> int" where
  "Atoi s =
     (let neg = (s \<noteq> [] \<and> hd s = CHR ''-'');
          ds = (if s \<noteq> [] \<and> hd s \<in> {CHR ''-'', CHR ''+''} then tl s else s);
          digit = (\<lambda>c. int (of_char c) - 48)
      in if ds = [] \<or> \<not> list_all (\<lambda>c. 0 \<le> digit c \<and> digit c \<le> 9) ds then 0
         else (let n = foldl (\<lambda>a c. 10 * a + digit c) 0 ds
               in if neg then - min n (2 ^ 63) else min n (2 ^ 63 - 1)))"

end
