(* ===== verification/Dunning_Job.thy ===== *)
theory Dunning_Job
  imports Lifecycle Subscription_Credits Idempotency Payment_Methods Url_Values
begin

text \<open>
  The dunning worker, \<^verbatim>\<open>internal/river/jobs_dunning.go\<close>, and the call of the NMI gateway it makes,
  \<^verbatim>\<open>internal/integrations/nmi/subscriptions.go\<close> and \<^verbatim>\<open>client.go\<close>. What lies behind the HTTP request is a parameter:
  \<open>nc_post\<close> answers the fields of a request with an error or with the body of the answer, and changes the state of the gateway. The JSON text of the result that is cached is the argument \<open>json_result\<close>.

  One attempt reads the clock and creates UUIDs twice: before the call of the gateway (\<open>env0\<close>) and after it (\<open>env1\<close>).
\<close>

section \<open>The gateway client\<close>

record 'g nmi_client =
  nc_providerName :: string
  nc_SecurityKey :: string
  nc_post :: "(string \<times> string) list \<Rightarrow> 'g \<Rightarrow> string result \<times> 'g"

record ManualRebillParams =
  mr_VaultID :: string
  mr_BillingID :: string
  mr_SubscriptionID :: string
  mr_OrderID :: string
  mr_PONumber :: string

record ManualRebillResponse =
  mrr_Success :: bool
  mrr_TransactionID :: string
  mrr_ErrorMessage :: string

definition checkConfiguration :: "'g nmi_client \<Rightarrow> unit result" where
  "checkConfiguration c =
     (if nc_SecurityKey c = []
      then Inl (ErrMsg (''nmi provider '' @ [CHR 0x27] @ nc_providerName c @ [CHR 0x27] @
        '' payment processing is not configured - this feature is disabled in development mode''))
      else Inr ())"

definition parseDirectResponse :: "string \<Rightarrow> (string \<Rightarrow> string) result" where
  "parseDirectResponse response =
     (case ParseQuery response of
        None \<Rightarrow> Inl (ErrMsg (''failed to parse response: '' @ response))
      | Some values \<Rightarrow> Inr (Values_Get values))"

definition isDirectResponseApproved :: "(string \<Rightarrow> string) \<Rightarrow> bool" where
  "isDirectResponseApproved output = (TrimSpace (output ''response'') = ''1'')"

definition responseText :: "(string \<Rightarrow> string) \<Rightarrow> string \<Rightarrow> string" where
  "responseText output fallback =
     (if TrimSpace (output ''responsetext'') \<noteq> [] then TrimSpace (output ''responsetext'')
      else if TrimSpace (output ''response_message'') \<noteq> [] then TrimSpace (output ''response_message'')
      else fallback)"

definition rebill_values :: "'g nmi_client \<Rightarrow> ManualRebillParams \<Rightarrow> (string \<times> string) list" where
  "rebill_values c p =
     [(''type'', ''sale''), (''security_key'', nc_SecurityKey c), (''customer_vault_id'', mr_VaultID p),
      (''billing_id'', mr_BillingID p), (''subscription_id'', mr_SubscriptionID p), (''recurring'', ''rebill_subscription''),
      (''order_description'', ''Manual Rebill - Open Rails Subscription'')] @
     (if TrimSpace (mr_OrderID p) \<noteq> [] then [(''orderid'', TrimSpace (mr_OrderID p))] else []) @
     (if TrimSpace (mr_PONumber p) \<noteq> [] then [(''ponumber'', TrimSpace (mr_PONumber p))] else [])"

definition AttemptManualRebill :: "'g nmi_client \<Rightarrow> ManualRebillParams \<Rightarrow> 'g \<Rightarrow> ManualRebillResponse result \<times> 'g" where
  "AttemptManualRebill c p g =
     (case checkConfiguration c of
        Inl e \<Rightarrow> (Inl e, g)
      | Inr _ \<Rightarrow>
          if mr_VaultID p = [] \<or> mr_BillingID p = [] \<or> mr_SubscriptionID p = []
          then (Inl (ErrMsg ''vault ID, billing ID, and subscription ID are required''), g)
          else
            (case nc_post c (rebill_values c p) g of
               (Inl e, g') \<Rightarrow> (Inl e, g')
             | (Inr response, g') \<Rightarrow>
                 (case parseDirectResponse response of
                    Inl e \<Rightarrow> (Inl e, g')
                  | Inr output \<Rightarrow>
                      if isDirectResponseApproved output
                      then (Inr \<lparr>mrr_Success = True, mrr_TransactionID = output ''transactionid'', mrr_ErrorMessage = []\<rparr>, g')
                      else (Inr \<lparr>mrr_Success = False, mrr_TransactionID = [],
                                 mrr_ErrorMessage = responseText output ''Unknown error''\<rparr>, g'))))"

section \<open>Keys and references\<close>

definition time_Unix :: "time \<Rightarrow> int" where
  "time_Unix t = t div time_Second - 62135596800"

definition format_RFC3339 :: "time \<Rightarrow> string" where
  "format_RFC3339 t = format_seconds t @ ''Z''"

definition rebillOrderReference :: "go_env \<Rightarrow> subscription \<Rightarrow> string" where
  "rebillOrderReference env s =
     (case sub_CurrentPeriodEndsAt s of
        None \<Rightarrow> []
      | Some t \<Rightarrow> ''rebill-'' @ env_uuid_String env (sub_ID s) @ ''-'' @ decimal_int (time_Unix t))"

text \<open>
  The dynamic type of the argument of \<^verbatim>\<open>normalizeProcessor\<close>: a pointer to a string, a string, or any other type. The two
  fields it is called on have the named type \<^verbatim>\<open>models.Processor\<close>, which a type switch tells from \<^verbatim>\<open>string\<close>.
\<close>

datatype iface = IfaceStringPtr "string option" | IfaceString string | IfaceProcessor string

fun normalizeProcessor :: "iface \<Rightarrow> string" where
  "normalizeProcessor (IfaceStringPtr None) = []"
| "normalizeProcessor (IfaceStringPtr (Some v)) = Lower v"
| "normalizeProcessor (IfaceString v) = Lower v"
| "normalizeProcessor (IfaceProcessor v) = []"

definition resolveSubscriptionProcessor :: "subscription \<Rightarrow> payment_method option \<Rightarrow> string" where
  "resolveSubscriptionProcessor s pm =
     (if normalizeProcessor (IfaceProcessor (sub_Processor s)) \<noteq> []
      then normalizeProcessor (IfaceProcessor (sub_Processor s))
      else (case pm of
              Some m \<Rightarrow> normalizeProcessor (IfaceProcessor (pm_Processor m))
            | None \<Rightarrow> []))"

section \<open>The worker\<close>

record ('r, 'g) dunning_world =
  dw_billing :: billing_db
  dw_methods :: "payment_method list"
  dw_credits :: credit_db
  dw_idem :: "'r IdempotencyService option"
  dw_gateway :: 'g

definition dunningAttemptLease :: duration where "dunningAttemptLease = 15 * time_Minute"

definition claimable :: "time \<Rightarrow> uuid \<Rightarrow> subscription \<Rightarrow> bool" where
  "claimable now i s \<longleftrightarrow> sub_ID s = i \<and> sub_Status s = StatusPastDue \<and>
     (case sub_NextRetryAt s of None \<Rightarrow> False | Some t \<Rightarrow> t \<le> now)"

definition claimDunningAttempt :: "time \<Rightarrow> uuid \<Rightarrow> subscription list \<Rightarrow> (bool \<times> subscription list) result" where
  "claimDunningAttempt now i rows =
     (case tbl_update sub_check sub_clash (claimable now i)
             (\<lambda>s. s\<lparr>sub_NextRetryAt := Some (now + dunningAttemptLease), sub_LastRetryAt := Some now, sub_UpdatedAt := now\<rparr>) rows of
        Inl e \<Rightarrow> Inl (ErrWrap ''claim dunning attempt'' e)
      | Inr rows' \<Rightarrow> Inr (filter (claimable now i) rows \<noteq> [], rows'))"

text \<open>A lifecycle call whose error is only logged; a panic is not.\<close>

definition logged :: "'a result \<times> billing_db \<Rightarrow> ('r, 'g) dunning_world \<Rightarrow> unit result \<times> ('r, 'g) dunning_world" where
  "logged r w = (case r of
     (Inl (NilDeref m), db) \<Rightarrow> (Inl (NilDeref m), w\<lparr>dw_billing := db\<rparr>)
   | (_, db) \<Rightarrow> (Inr (), w\<lparr>dw_billing := db\<rparr>))"

definition idem_fail :: "time \<Rightarrow> bool \<Rightarrow> string \<Rightarrow> string \<Rightarrow> ('r, 'g) dunning_world \<Rightarrow> ('r, 'g) dunning_world" where
  "idem_fail now idemClaimed idemKey msg w =
     (if idemClaimed then w\<lparr>dw_idem := map_option (Fail now ''nmi_rebill'' idemKey msg) (dw_idem w)\<rparr> else w)"

text \<open>The three ends in a failure: the key is released for a retry and the failure is counted.\<close>

definition attempt_failed ::
  "lifecycle_cfg \<Rightarrow> go_env \<Rightarrow> string \<Rightarrow> subscription \<Rightarrow> bool \<Rightarrow> string \<Rightarrow> string \<Rightarrow> string \<Rightarrow>
   ('r, 'g) dunning_world \<Rightarrow> bool result \<times> ('r, 'g) dunning_world" where
  "attempt_failed cfg env processor s idemClaimed idemKey idemMsg reason w =
     (let w1 = idem_fail (env_now env) idemClaimed idemKey idemMsg w
      in case logged (FailMembership cfg env
                \<lparr>fa_Processor = processor, fa_SubscriptionID = Some (sub_ID s), fa_FailureReason = Some reason, fa_FailureCode = None\<rparr>
                (dw_billing w1)) w1 of
           (Inl e, w2) \<Rightarrow> (Inl e, w2)
         | (Inr _, w2) \<Rightarrow> (Inr False, w2))"

text \<open>The end in a success: the membership is renewed, the credits of the new period granted, the key completed.\<close>

definition grant_renewal_credits ::
  "(string \<Rightarrow> uuid) \<Rightarrow> go_env \<Rightarrow> subscription \<Rightarrow> ('r, 'g) dunning_world \<Rightarrow> ('r, 'g) dunning_world" where
  "grant_renewal_credits sha1 env s w =
     (case sql_find (\<lambda>r. sub_ID r = sub_ID s) (bdb_subs (dw_billing w)) of
        Inl e \<Rightarrow> w
      | Inr updated \<Rightarrow>
          (case sub_CurrentPeriodEndsAt updated of
             None \<Rightarrow> w
           | Some e \<Rightarrow>
               if e = time_zero then w
               else w\<lparr>dw_credits := snd (GrantSubscriptionCredits sha1 env
                      \<lparr>gsc_SubscriptionID = sub_ID s, gsc_PeriodEnd = e, gsc_Cadence = CreditGrantCadencePerRenewal,
                       gsc_Source = ''subscription_renewal''\<rparr> (dw_billing w) (dw_credits w))\<rparr>))"

definition rebill_price :: "subscription \<Rightarrow> billing_db \<Rightarrow> int \<times> string" where
  "rebill_price s db = (case PriceGetByID (sub_PriceID s) db of Inr p \<Rightarrow> (price_Amount p, price_Currency p) | Inl _ \<Rightarrow> (0, ''usd''))"

definition attempt_succeeded ::
  "lifecycle_cfg \<Rightarrow> (string \<Rightarrow> uuid) \<Rightarrow> (string \<Rightarrow> string) \<Rightarrow> (go_error \<Rightarrow> string) \<Rightarrow> go_env \<Rightarrow> string \<Rightarrow> subscription \<Rightarrow> bool \<Rightarrow> string \<Rightarrow> string \<Rightarrow>
   ('r, 'g) dunning_world \<Rightarrow> bool result \<times> ('r, 'g) dunning_world" where
  "attempt_succeeded cfg sha1 json_result message env processor s idemClaimed idemKey transactionID w =
     (case RenewMembership cfg env
             \<lparr>rm_Processor = processor, rm_ProcessorSubscriptionID = sub_ProcessorSubscriptionID s, rm_CurrentPeriodEndsAt = None,
              rm_TransactionID = transactionID, rm_Amount = fst (rebill_price s (dw_billing w)),
              rm_Currency = snd (rebill_price s (dw_billing w)), rm_PaymentMetadata = None, rm_AllowTerminalReactivation = False\<rparr>
             (dw_billing w) of
        (Inl (NilDeref m), db) \<Rightarrow> (Inl (NilDeref m), w\<lparr>dw_billing := db\<rparr>)
      | (Inl e, db) \<Rightarrow> (Inr False, idem_fail (env_now env) idemClaimed idemKey (message e) (w\<lparr>dw_billing := db\<rparr>))
      | (Inr _, db) \<Rightarrow>
          (let w1 = grant_renewal_credits sha1 (env_shift 40 env) s (w\<lparr>dw_billing := db\<rparr>)
           in (Inr True,
               if idemClaimed
               then w1\<lparr>dw_idem := map_option (Complete (env_now env) ''nmi_rebill'' idemKey (json_result transactionID)) (dw_idem w1)\<rparr>
               else w1)))"

text \<open>From the claim of the row to the outcome of the charge.\<close>

definition attempt_charge ::
  "lifecycle_cfg \<Rightarrow> (string \<Rightarrow> uuid) \<Rightarrow> (string \<Rightarrow> string) \<Rightarrow> (go_error \<Rightarrow> string) \<Rightarrow> go_env \<Rightarrow> go_env \<Rightarrow> string \<Rightarrow> 'g nmi_client \<Rightarrow> subscription \<Rightarrow>
   payment_method option \<Rightarrow> bool \<Rightarrow> string \<Rightarrow> ('r, 'g) dunning_world \<Rightarrow> bool result \<times> ('r, 'g) dunning_world" where
  "attempt_charge cfg sha1 json_result message env0 env1 processor client s pm idemClaimed idemKey w =
     (case claimDunningAttempt (env_now env0) (sub_ID s) (bdb_subs (dw_billing w)) of
        Inl e \<Rightarrow> (Inr False, idem_fail (env_now env0) idemClaimed idemKey (message e) w)
      | Inr (False, _) \<Rightarrow> (Inr False, w)
      | Inr (True, rows) \<Rightarrow>
          (let w1 = w\<lparr>dw_billing := (dw_billing w)\<lparr>bdb_subs := rows\<rparr>\<rparr>;
               reason = ''payment method unavailable for rebill''
           in case pm of
                None \<Rightarrow> attempt_failed cfg env1 processor s idemClaimed idemKey reason reason w1
              | Some m \<Rightarrow>
                  (case pm_BillingID m of
                     None \<Rightarrow> attempt_failed cfg env1 processor s idemClaimed idemKey reason reason w1
                   | Some billingID \<Rightarrow>
                       if pm_VaultID m = [] \<or> billingID = []
                       then attempt_failed cfg env1 processor s idemClaimed idemKey reason reason w1
                       else
                         (case AttemptManualRebill client
                                 \<lparr>mr_VaultID = pm_VaultID m, mr_BillingID = billingID, mr_SubscriptionID = sub_ProcessorSubscriptionID s,
                                  mr_OrderID = rebillOrderReference env0 s, mr_PONumber = rebillOrderReference env0 s\<rparr> (dw_gateway w1) of
                            (Inl e, g) \<Rightarrow>
                              attempt_failed cfg env1 processor s idemClaimed idemKey (message e)
                                (''manual rebill request failed: '' @ message e) (w1\<lparr>dw_gateway := g\<rparr>)
                          | (Inr resp, g) \<Rightarrow>
                              if \<not> mrr_Success resp
                              then (let reason = (if mrr_ErrorMessage resp \<noteq> [] then mrr_ErrorMessage resp else ''rebill declined'')
                                    in attempt_failed cfg env1 processor s idemClaimed idemKey reason reason (w1\<lparr>dw_gateway := g\<rparr>))
                              else attempt_succeeded cfg sha1 json_result message env1 processor s idemClaimed idemKey
                                     (mrr_TransactionID resp) (w1\<lparr>dw_gateway := g\<rparr>)))))"

text \<open>An attempt for a provider whose client is known: the idempotency key of the period first.\<close>

definition dunning_attempt ::
  "lifecycle_cfg \<Rightarrow> (string \<Rightarrow> uuid) \<Rightarrow> (string \<Rightarrow> string) \<Rightarrow> (go_error \<Rightarrow> string) \<Rightarrow> go_env \<Rightarrow> go_env \<Rightarrow> string \<Rightarrow> 'g nmi_client \<Rightarrow> subscription \<Rightarrow>
   payment_method option \<Rightarrow> ('r, 'g) dunning_world \<Rightarrow> bool result \<times> ('r, 'g) dunning_world" where
  "dunning_attempt cfg sha1 json_result message env0 env1 processor client s pm w =
     (case sub_CurrentPeriodEndsAt s of
        None \<Rightarrow> (Inl (NilDeref ''sub.CurrentPeriodEndsAt''), w)
      | Some periodEnd \<Rightarrow>
          (let idemKey = GenerateKeyForRebill (env_uuid_String env0 (sub_ID s)) (format_RFC3339 periodEnd)
           in case dw_idem w of
                None \<Rightarrow> attempt_charge cfg sha1 json_result message env0 env1 processor client s pm False idemKey w
              | Some idem \<Rightarrow>
                  (case Begin (env_now env0) ''nmi_rebill'' idemKey idem of
                     ((rec, alreadyExists), idem') \<Rightarrow>
                       (let w' = w\<lparr>dw_idem := Some idem'\<rparr>
                        in if alreadyExists \<and> ir_Status rec = IdempotencyStatusSuccess then (Inr True, w')
                           else if alreadyExists \<and> ir_Status rec = IdempotencyStatusPending then (Inr False, w')
                           else attempt_charge cfg sha1 json_result message env0 env1 processor client s pm True idemKey w'))))"

definition processSubscription ::
  "lifecycle_cfg \<Rightarrow> (string \<Rightarrow> uuid) \<Rightarrow> (string \<Rightarrow> string) \<Rightarrow> (go_error \<Rightarrow> string) \<Rightarrow> go_env \<Rightarrow> go_env \<Rightarrow> (string \<rightharpoonup> 'g nmi_client) \<Rightarrow>
   subscription \<Rightarrow> payment_method option \<Rightarrow> ('r, 'g) dunning_world \<Rightarrow> bool result \<times> ('r, 'g) dunning_world" where
  "processSubscription cfg sha1 json_result message env0 env1 NMIClients s pm w =
     (let provider = resolveSubscriptionProcessor s pm
      in case NMIClients provider of
           None \<Rightarrow> (Inr False, w)
         | Some client \<Rightarrow> dunning_attempt cfg sha1 json_result message env0 env1 provider client s pm w)"

definition due_subscriptions :: "lifecycle_cfg \<Rightarrow> time \<Rightarrow> subscription list \<Rightarrow> subscription list" where
  "due_subscriptions cfg now rows =
     filter (\<lambda>s. sub_Processor s \<in> lc_nmi cfg \<and> sub_Status s = StatusPastDue \<and>
       (case sub_NextRetryAt s of None \<Rightarrow> False | Some t \<Rightarrow> t \<le> now)) rows"

definition method_of :: "subscription \<Rightarrow> payment_method list \<Rightarrow> payment_method option" where
  "method_of s rows = (case sub_PaymentMethodID s of None \<Rightarrow> None | Some i \<Rightarrow> find (\<lambda>m. pm_ID m = i) rows)"

text \<open>The loop over the rows selected at the start; the environments are those of the successive attempts.\<close>

fun process_all ::
  "lifecycle_cfg \<Rightarrow> (string \<Rightarrow> uuid) \<Rightarrow> (string \<Rightarrow> string) \<Rightarrow> (go_error \<Rightarrow> string) \<Rightarrow> (nat \<Rightarrow> go_env \<times> go_env) \<Rightarrow> (string \<rightharpoonup> 'g nmi_client) \<Rightarrow>
   (subscription \<times> payment_method option) list \<Rightarrow> ('r, 'g) dunning_world \<Rightarrow> unit result \<times> ('r, 'g) dunning_world" where
  "process_all cfg sha1 json_result message envs NMIClients [] w = (Inr (), w)"
| "process_all cfg sha1 json_result message envs NMIClients ((s, pm) # rest) w =
     (case processSubscription cfg sha1 json_result message (fst (envs 0)) (snd (envs 0)) NMIClients s pm w of
        (Inl e, w') \<Rightarrow> (Inl e, w')
      | (Inr _, w') \<Rightarrow> process_all cfg sha1 json_result message (\<lambda>i. envs (Suc i)) NMIClients rest w')"

definition DunningWork ::
  "lifecycle_cfg \<Rightarrow> (string \<Rightarrow> uuid) \<Rightarrow> (string \<Rightarrow> string) \<Rightarrow> (go_error \<Rightarrow> string) \<Rightarrow> time \<Rightarrow> (nat \<Rightarrow> go_env \<times> go_env) \<Rightarrow>
   (string \<rightharpoonup> 'g nmi_client) option \<Rightarrow> ('r, 'g) dunning_world \<Rightarrow> unit result \<times> ('r, 'g) dunning_world" where
  "DunningWork cfg sha1 json_result message now envs NMIClients w =
     (if lc_dunningMode cfg = ''off'' then (Inr (), w)
      else (case NMIClients of
              None \<Rightarrow> (Inr (), w)
            | Some clients \<Rightarrow>
                (let due = due_subscriptions cfg now (bdb_subs (dw_billing w))
                 in if due = [] then (Inr (), w)
                    else if lc_dunningMode cfg = ''dry_run_only'' then (Inr (), w)
                    else process_all cfg sha1 json_result message envs clients
                           (map (\<lambda>s. (s, method_of s (dw_methods w))) due) w)))"

end
