(* ===== verification/Dunning_Job_Properties.thy ===== *)
theory Dunning_Job_Properties
  imports Dunning_Job Dunning
begin

text \<open>
  Properties of the dunning worker: an attempt is claimed by one worker at a time, a period is charged once, and, because the
  provider of a subscription is never resolved, the worker as it stands charges nobody.
\<close>

section \<open>Claims\<close>

lemma subs_ok_same_id:
  assumes "subs_ok rows" "a \<in> set rows" "b \<in> set rows" "sub_ID a = sub_ID b"
  shows "a = b"
  using assms by (auto simp: tbl_ok_def sorted_wrt_iff_nth_less in_set_conv_nth sub_clash_def) (metis linorder_neqE_nat option.distinct(1))

text \<open>
  A claim on a due subscription is exclusive. After a successful claim no other claim of the subscription succeeds, or changes
  anything, until the lease of fifteen minutes is over.
\<close>

theorem claimDunningAttempt_exclusive:
  assumes ok: "subs_ok rows" and run: "claimDunningAttempt now i rows = Inr (True, rows')" and t: "now' < now + dunningAttemptLease"
  shows "claimDunningAttempt now' i rows' = Inr (False, rows')"
proof -
  let ?f = "\<lambda>s. s\<lparr>sub_NextRetryAt := Some (now + dunningAttemptLease), sub_LastRetryAt := Some now, sub_UpdatedAt := now\<rparr>"
  have upd: "tbl_update sub_check sub_clash (claimable now i) ?f rows = Inr rows'" and ne: "filter (claimable now i) rows \<noteq> []"
    using run unfolding claimDunningAttempt_def by (simp_all split: sum.split_asm)
  note rows' = tbl_update_Inr [OF upd]
  from ne obtain c where c: "c \<in> set rows" "claimable now i c" unfolding filter_empty_conv by blast
  have not: "\<not> claimable now' i r" if r: "r \<in> set rows'" for r
  proof -
    from r obtain x where x: "x \<in> set rows" "r = (if claimable now i x then ?f x else x)"
      unfolding rows' set_sql_update by blast
    show ?thesis
    proof (cases "claimable now i x")
      case False
      have "sub_ID x \<noteq> i"
      proof
        assume "sub_ID x = i"
        with c(2) have "sub_ID c = sub_ID x" by (simp add: claimable_def)
        from subs_ok_same_id [OF ok c(1) x(1) this] c(2) False show False by simp
      qed
      with False x(2) show ?thesis by (simp add: claimable_def)
    next
      case True
      with x(2) have "sub_NextRetryAt r = Some (now + dunningAttemptLease)" by simp
      with t show ?thesis by (simp add: claimable_def)
    qed
  qed
  have "filter (claimable now' i) rows' = []" using not by (simp add: filter_empty_conv)
  moreover have "tbl_update sub_check sub_clash (claimable now' i) g rows' = Inr rows'" for g
    using not by (intro tbl_update_none)
  ultimately show ?thesis unfolding claimDunningAttempt_def by simp
qed

section \<open>Charges\<close>

lemma idem_fail_frame [simp]:
  "dw_billing (idem_fail t b k m w) = dw_billing w" "dw_methods (idem_fail t b k m w) = dw_methods w"
  "dw_credits (idem_fail t b k m w) = dw_credits w" "dw_gateway (idem_fail t b k m w) = dw_gateway w"
  by (simp_all add: idem_fail_def)

lemma attempt_failed_not_True: "fst (attempt_failed cfg env pr s b k m r w) \<noteq> Inr True"
  by (auto simp: attempt_failed_def Let_def split: prod.splits sum.splits)

lemma grant_renewal_credits_idem [simp]: "dw_idem (grant_renewal_credits sha1 env s w) = dw_idem w"
  by (simp add: grant_renewal_credits_def split: sum.splits option.splits)

lemma attempt_succeeded_True:
  assumes "attempt_succeeded cfg sha1 jr msg env pr s True k tid w = (Inr True, w')"
  shows "dw_idem w' = map_option (Complete (env_now env) ''nmi_rebill'' k (jr tid)) (dw_idem w)"
  using assms by (auto simp: attempt_succeeded_def Let_def split: prod.splits sum.splits go_error.splits)

text \<open>An attempt that reports success has completed the key of the period.\<close>

lemma attempt_charge_True:
  fixes w w' :: "('r, 'g) dunning_world"
  assumes run: "attempt_charge cfg sha1 jr msg env0 env1 pr client s pm True k w = (Inr True, w')"
  obtains tid where "dw_idem w' = map_option (Complete (env_now env1) ''nmi_rebill'' k (jr tid)) (dw_idem w)"
proof -
  have nf: "attempt_failed cfg env1 pr s True k m r w1 \<noteq> (Inr True, w')" for m r and w1 :: "('r, 'g) dunning_world"
    using attempt_failed_not_True [of cfg env1 pr s True k m r w1] by auto
  from run nf obtain tid w1 where "attempt_succeeded cfg sha1 jr msg env1 pr s True k tid w1 = (Inr True, w')" "dw_idem w1 = dw_idem w"
    unfolding attempt_charge_def Let_def
    by (auto split: sum.split_asm prod.split_asm bool.split_asm option.split_asm if_split_asm)
  from attempt_succeeded_True [OF this(1)] this(2) show thesis by (intro that) simp
qed

text \<open>
  C26: A billing period is not charged again while the store in memory remembers its charge. After an attempt that reported success,
  every further attempt for the period within the lifetime of the record (five minutes by default) reports success without calling the gateway and without changing anything.
\<close>

theorem dunning_attempt_once:
  assumes s: "sub_CurrentPeriodEndsAt s = Some e" and idem: "dw_idem w = Some st" "is_client st = None"
    and fresh: "IdempotencyGet (env_now env0) ''nmi_rebill'' (GenerateKeyForRebill (env_uuid_String env0 (sub_ID s)) (format_RFC3339 e)) st = None"
    and run: "dunning_attempt cfg sha1 jr msg env0 env1 pr client s pm w = (Inr True, w')"
    and t: "env_now env < env_now env1 + is_ttl st" and str: "env_uuid_String env = env_uuid_String env0"
  shows "dunning_attempt cfg' sha1' jr' msg' env env' pr' client' s pm' w' = (Inr True, w')"
proof -
  let ?k = "GenerateKeyForRebill (env_uuid_String env0 (sub_ID s)) (format_RFC3339 e)"
  have none: "getMemory (env_now env0) (buildKey ''nmi_rebill'' ?k) st = None"
    using fresh by (simp add: IdempotencyGet_memory [OF idem(2)])
  from mem.begins_first [OF idem(2) none] obtain st1 where
    st1: "Begin (env_now env0) ''nmi_rebill'' ?k st = ((pending_record (env_now env0), False), st1)" "is_client st1 = None" "is_ttl st1 = is_ttl st"
    by blast
  have "attempt_charge cfg sha1 jr msg env0 env1 pr client s pm True ?k (w\<lparr>dw_idem := Some st1\<rparr>) = (Inr True, w')"
    using run s idem(1) st1(1) unfolding dunning_attempt_def by (simp add: Let_def)
  from attempt_charge_True [OF this] obtain tid where
    w': "dw_idem w' = Some (Complete (env_now env1) ''nmi_rebill'' ?k (jr tid) st1)" by auto
  let ?r = "\<lparr>ir_Status = IdempotencyStatusSuccess, ir_Result = jr tid, ir_Error = [], ir_CreatedAt = env_now env1\<rparr>"
  note fin = mem.completes_live [OF st1(2), of "env_now env1" "''nmi_rebill''" ?k "jr tid"]
  have "getMemory (env_now env) (buildKey ''nmi_rebill'' ?k) (Complete (env_now env1) ''nmi_rebill'' ?k (jr tid) st1) = Some ?r"
    using fin t st1(3) by simp
  from mem.begins_live [OF _ this] fin
  have "Begin (env_now env) ''nmi_rebill'' ?k (Complete (env_now env1) ''nmi_rebill'' ?k (jr tid) st1) =
      ((?r, True), Complete (env_now env1) ''nmi_rebill'' ?k (jr tid) st1)" by simp
  with s w' str show ?thesis unfolding dunning_attempt_def by (simp add: Let_def)
qed

section \<open>The provider is never resolved\<close>

lemma resolveSubscriptionProcessor_empty [simp]: "resolveSubscriptionProcessor s pm = []"
  by (simp add: resolveSubscriptionProcessor_def split: option.split)

text \<open>
  C27: The worker charges nobody. Both fields that name the provider have a named string type, which the type switch of
  \<^verbatim>\<open>normalizeProcessor\<close> does not take for a string; the provider is always empty, no client is registered under the
  empty name, and the run changes nothing, whatever subscriptions are due.
\<close>

theorem DunningWork_charges_nobody:
  assumes "clients [] = None"
  shows "DunningWork cfg sha1 jr msg now envs (Some clients) w = (Inr (), w)"
proof -
  have "process_all cfg sha1 jr msg envs clients due w = (Inr (), w)" for envs due
    using assms by (induction due arbitrary: envs) (auto simp: processSubscription_def)
  then show ?thesis by (simp add: DunningWork_def Let_def)
qed

section \<open>Examples\<close>

definition ex_due :: subscription where
  "ex_due = ex_sub\<lparr>sub_Status := StatusPastDue, sub_NextRetryAt := Some (131 * ex_day), sub_RetryAttempts := Some 1,
     sub_PaymentMethodID := Some 9\<rparr>"

definition ex_method :: payment_method where
  "ex_method = \<lparr>pm_ID = 9, pm_UserID = ''u'', pm_Processor = ''mobius'', pm_VaultID = ''v'', pm_BillingID = Some ''b'',
     pm_InitialTransactionID = ''t0'', pm_LastFour = None, pm_CardType = None, pm_ExpiryDate = None, pm_FailureReason = None,
     pm_Metadata = None, pm_CreatedAt = 1, pm_UpdatedAt = 1\<rparr>"

text \<open>A gateway that approves every request and counts them.\<close>

definition ex_client :: "nat nmi_client" where
  "ex_client = \<lparr>nc_providerName = ''mobius'', nc_SecurityKey = ''key'',
     nc_post = (\<lambda>values n. (Inr ''response=1&transactionid=tx9'', n + 1))\<rparr>"

definition ex_world :: "(unit, nat) dunning_world" where
  "ex_world = \<lparr>dw_billing = ex_billing ex_due, dw_methods = [ex_method],
     dw_credits = \<lparr>cdb_types = [], cdb_balances = [], cdb_transactions = [], cdb_blocks = []\<rparr>,
     dw_idem = Some (empty_store (60 * time_Minute)), dw_gateway = 0\<rparr>"

theorem claimDunningAttempt_exclusive_witness:
  "claimDunningAttempt (132 * ex_day + 1) 5 (snd (projr (claimDunningAttempt (132 * ex_day) 5 [ex_due]))) =
     Inr (False, snd (projr (claimDunningAttempt (132 * ex_day) 5 [ex_due])))"
proof -
  have "subs_ok [ex_due]" by (simp add: tbl_ok_def sub_check_def ex_due_def ex_sub_def ex_day_def)
  moreover have "claimDunningAttempt (132 * ex_day) 5 [ex_due] = Inr (True, snd (projr (claimDunningAttempt (132 * ex_day) 5 [ex_due])))"
    by (simp add: claimDunningAttempt_def tbl_update_def claimable_def violation_def sub_check_def ex_due_def ex_sub_def ex_day_def)
  ultimately show ?thesis
    by (rule claimDunningAttempt_exclusive) (simp add: dunningAttemptLease_def time_Minute_def time_Second_def)
qed

theorem DunningWork_charges_nobody_witness:
  "due_subscriptions ex_cfg (132 * ex_day) (bdb_subs (dw_billing ex_world)) = [ex_due] \<and>
   DunningWork ex_cfg length id (\<lambda>_. []) (132 * ex_day) (\<lambda>i. (ex_ent_env (132 * ex_day) 10, ex_ent_env (132 * ex_day) 20))
     (Some [''mobius'' \<mapsto> ex_client]) ex_world = (Inr (), ex_world)"
  using DunningWork_charges_nobody [of "[''mobius'' \<mapsto> ex_client]"]
  by (simp add: due_subscriptions_def ex_world_def ex_billing_def ex_due_def ex_sub_def ex_cfg_def ex_day_def)

lemma ex_attempt_True:
  "fst (dunning_attempt ex_cfg length id (\<lambda>_. []) (ex_ent_env (132 * ex_day) 10) (ex_ent_env (132 * ex_day) 20) ''mobius'' ex_client
     ex_due (Some ex_method) ex_world) = Inr True"
  by code_simp

theorem dunning_attempt_once_witness:
  "let w' = snd (dunning_attempt ex_cfg length id (\<lambda>_. []) (ex_ent_env (132 * ex_day) 10) (ex_ent_env (132 * ex_day) 20) ''mobius''
       ex_client ex_due (Some ex_method) ex_world)
   in dunning_attempt ex_cfg length id (\<lambda>_. []) (ex_ent_env (132 * ex_day + 5) 30) (ex_ent_env (132 * ex_day + 5) 40) ''mobius''
       ex_client ex_due (Some ex_method) w' = (Inr True, w')"
proof -
  let ?e0 = "ex_ent_env (132 * ex_day) 10" and ?e1 = "ex_ent_env (132 * ex_day) 20"
  let ?run = "dunning_attempt ex_cfg length id (\<lambda>_. []) ?e0 ?e1 ''mobius'' ex_client ex_due (Some ex_method) ex_world"
  have run: "?run = (Inr True, snd ?run)" using ex_attempt_True by (metis prod.collapse)
  have "sub_CurrentPeriodEndsAt ex_due = Some (130 * ex_day)" by (simp add: ex_due_def ex_sub_def)
  moreover have "dw_idem ex_world = Some (empty_store (60 * time_Minute))" "is_client (empty_store (60 * time_Minute)) = None"
    by (simp_all add: ex_world_def empty_store_def)
  moreover have "IdempotencyGet t op k (empty_store (60 * time_Minute)) = None" for t op k
    by (simp add: IdempotencyGet_def getMemory_def empty_store_def)
  ultimately show ?thesis
    using dunning_attempt_once [OF _ _ _ _ run, of "130 * ex_day" "empty_store (60 * time_Minute)" "ex_ent_env (132 * ex_day + 5) 30"]
    by (simp add: ex_ent_env_def empty_store_def time_Minute_def time_Second_def Let_def)
qed

end
