(* ===== verification/Checkout_Sessions.thy ===== *)
theory Checkout_Sessions
  imports Lifecycle "HOL-Library.AList"
begin

text \<open>
  Checkout sessions: \<^verbatim>\<open>internal/db/models/checkout_session.go\<close>, the repository \<^verbatim>\<open>internal/db/repo/checkout_session.go\<close> and the
  operations of \<^verbatim>\<open>internal/modules/checkout/session_service.go\<close> by which the webhooks and the polling of payments settle a
  session. The constraints are those of the migration 013, the references to payments and subscriptions included.
  The processor's state is the list of its fields; an absent map is the empty one.
\<close>

section \<open>Rows and constraints\<close>

datatype CheckoutSessionMode = CheckoutSessionModeOneOff | CheckoutSessionModeSubscription

datatype CheckoutSessionStatus =
    CheckoutSessionStatusCreated
  | CheckoutSessionStatusRequiresAction
  | CheckoutSessionStatusSucceeded
  | CheckoutSessionStatusFailed
  | CheckoutSessionStatusExpired
  | CheckoutSessionStatusCanceled

record checkout_session =
  cs_ID :: uuid
  cs_UserID :: string
  cs_PriceID :: uuid
  cs_Mode :: CheckoutSessionMode
  cs_Processor :: string
  cs_Status :: CheckoutSessionStatus
  cs_Amount :: int
  cs_Currency :: string
  cs_ExpiresAt :: "time option"
  cs_Reference :: "string option"
  cs_TransactionID :: "string option"
  cs_PaymentID :: "uuid option"
  cs_SubscriptionID :: "uuid option"
  cs_Metadata :: "(string \<times> string) list"
  cs_ProcessorFields :: "(string \<times> string) list"
  cs_ProcessorState :: "(string \<times> string) list"
  cs_IdempotencyKey :: "string option"
  cs_CreatedAt :: time
  cs_UpdatedAt :: time

definition cs_check :: "billing_db \<Rightarrow> checkout_session \<Rightarrow> string option" where
  "cs_check db s =
     (if cs_PriceID s \<notin> set (map price_ID (bdb_prices db)) then Some ''checkout_sessions_price_id_fkey''
      else if (case cs_PaymentID s of None \<Rightarrow> False | Some i \<Rightarrow> i \<notin> set (map pay_ID (bdb_payments db)))
           then Some ''checkout_sessions_payment_id_fkey''
      else if (case cs_SubscriptionID s of None \<Rightarrow> False | Some i \<Rightarrow> i \<notin> set (map sub_ID (bdb_subs db)))
           then Some ''checkout_sessions_subscription_id_fkey''
      else None)"

definition cs_clash :: "checkout_session \<Rightarrow> checkout_session \<Rightarrow> string option" where
  "cs_clash a b =
     (if cs_ID a = cs_ID b then Some ''checkout_sessions_pkey''
      else if cs_Processor a = cs_Processor b \<and> cs_TransactionID a \<noteq> None \<and> cs_TransactionID a = cs_TransactionID b
           then Some ''checkout_sessions_processor_transaction_id_idx''
      else if cs_Processor a = cs_Processor b \<and> cs_Reference a \<noteq> None \<and> cs_Reference a = cs_Reference b
           then Some ''checkout_sessions_processor_reference_idx''
      else None)"

section \<open>Repository\<close>

definition SessionCreate :: "billing_db \<Rightarrow> checkout_session \<Rightarrow> checkout_session list \<Rightarrow> checkout_session list result" where
  "SessionCreate db s rows = tbl_insert (cs_check db) cs_clash s rows"

definition SessionGetByID :: "uuid \<Rightarrow> checkout_session list \<Rightarrow> checkout_session result" where
  "SessionGetByID i rows = sql_find (\<lambda>s. cs_ID s = i) rows"

definition SessionUpdate :: "billing_db \<Rightarrow> checkout_session \<Rightarrow> checkout_session list \<Rightarrow> checkout_session list result" where
  "SessionUpdate db s rows =
     (case tbl_update (cs_check db) cs_clash (\<lambda>r. cs_ID r = cs_ID s) (\<lambda>_. s) rows of
        Inl e \<Rightarrow> Inl e
      | Inr rows' \<Rightarrow> if filter (\<lambda>r. cs_ID r = cs_ID s) rows = [] then Inl (ErrMsg ''no rows affected'') else Inr rows')"

definition openStatus :: "CheckoutSessionStatus \<Rightarrow> bool" where
  "openStatus st \<longleftrightarrow> st = CheckoutSessionStatusCreated \<or> st = CheckoutSessionStatusRequiresAction"

definition GetLatestOpenByUserPriceProcessor ::
  "string \<Rightarrow> uuid \<Rightarrow> string \<Rightarrow> checkout_session list \<Rightarrow> checkout_session result" where
  "GetLatestOpenByUserPriceProcessor u priceID processor rows =
     sql_find (\<lambda>_. True) (sort_key (\<lambda>s. - cs_CreatedAt s)
       (filter (\<lambda>s. cs_UserID s = u \<and> cs_PriceID s = priceID \<and> cs_Processor s = processor \<and> openStatus (cs_Status s)) rows))"

section \<open>Settling a session\<close>

definition isTerminal :: "CheckoutSessionStatus \<Rightarrow> bool" where
  "isTerminal st =
     (case st of
        CheckoutSessionStatusSucceeded \<Rightarrow> True | CheckoutSessionStatusFailed \<Rightarrow> True
      | CheckoutSessionStatusExpired \<Rightarrow> True | CheckoutSessionStatusCanceled \<Rightarrow> True
      | _ \<Rightarrow> False)"

definition isExpired :: "time \<Rightarrow> checkout_session \<Rightarrow> bool" where
  "isExpired now s = (case cs_ExpiresAt s of None \<Rightarrow> False | Some t \<Rightarrow> t \<noteq> time_zero \<and> t < now)"

text \<open>A field of the processor's state, set.\<close>

definition set_field :: "string \<Rightarrow> string \<Rightarrow> (string \<times> string) list \<Rightarrow> (string \<times> string) list" where
  "set_field k v state = AList.update k v state"

text \<open>The session as it is marked succeeded, with the identifiers that were given.\<close>

definition succeeded :: "time \<Rightarrow> uuid \<Rightarrow> string \<Rightarrow> uuid \<Rightarrow> checkout_session \<Rightarrow> checkout_session" where
  "succeeded now paymentID transactionID subscriptionID s =
     s\<lparr>cs_Status := CheckoutSessionStatusSucceeded, cs_UpdatedAt := now,
       cs_PaymentID := (if paymentID \<noteq> uuid_Nil then Some paymentID else cs_PaymentID s),
       cs_SubscriptionID := (if subscriptionID \<noteq> uuid_Nil then Some subscriptionID else cs_SubscriptionID s),
       cs_TransactionID := (if TrimSpace transactionID \<noteq> [] then OptionalString transactionID else cs_TransactionID s)\<rparr>"

definition MarkSucceededWithSubscription ::
  "billing_db \<Rightarrow> time \<Rightarrow> uuid \<Rightarrow> uuid \<Rightarrow> string \<Rightarrow> uuid \<Rightarrow> checkout_session list \<Rightarrow> checkout_session list result" where
  "MarkSucceededWithSubscription db now i paymentID transactionID subscriptionID rows =
     (case SessionGetByID i rows of
        Inl _ \<Rightarrow> Inl ErrCheckoutSessionNotFound
      | Inr s \<Rightarrow>
          if isTerminal (cs_Status s) \<and> cs_Status s = CheckoutSessionStatusSucceeded then Inr rows
          else if isTerminal (cs_Status s) \<and> cs_Status s \<noteq> CheckoutSessionStatusExpired then Inl ErrCheckoutSessionConflict
          else SessionUpdate db (succeeded now paymentID transactionID subscriptionID s) rows)"

definition MarkSucceeded ::
  "billing_db \<Rightarrow> time \<Rightarrow> uuid \<Rightarrow> uuid \<Rightarrow> string \<Rightarrow> checkout_session list \<Rightarrow> checkout_session list result" where
  "MarkSucceeded db now i paymentID transactionID rows =
     (case SessionGetByID i rows of
        Inl _ \<Rightarrow> Inl ErrCheckoutSessionNotFound
      | Inr s \<Rightarrow>
          if isTerminal (cs_Status s) \<and> cs_Status s = CheckoutSessionStatusSucceeded then Inr rows
          else if isTerminal (cs_Status s) \<and> cs_Status s \<noteq> CheckoutSessionStatusExpired then Inl ErrCheckoutSessionConflict
          else SessionUpdate db (succeeded now paymentID transactionID uuid_Nil s) rows)"

definition SessionMarkFailed ::
  "billing_db \<Rightarrow> time \<Rightarrow> uuid \<Rightarrow> string \<Rightarrow> string \<Rightarrow> checkout_session list \<Rightarrow> checkout_session list result" where
  "SessionMarkFailed db now i reason code rows =
     (case SessionGetByID i rows of
        Inl _ \<Rightarrow> Inl ErrCheckoutSessionNotFound
      | Inr s \<Rightarrow>
          if isTerminal (cs_Status s)
          then (if cs_Status s \<in> {CheckoutSessionStatusFailed, CheckoutSessionStatusSucceeded,
                                   CheckoutSessionStatusExpired, CheckoutSessionStatusCanceled}
                then Inr rows else Inl ErrCheckoutSessionConflict)
          else
            (let msg = TrimSpace reason;
                 state1 = (if msg \<noteq> [] then set_field ''failure_reason'' msg (set_field ''message'' msg (cs_ProcessorState s))
                            else cs_ProcessorState s);
                 state2 = (if TrimSpace code \<noteq> [] then set_field ''failure_code'' (TrimSpace code) state1 else state1)
             in SessionUpdate db (s\<lparr>cs_Status := CheckoutSessionStatusFailed, cs_UpdatedAt := now, cs_ProcessorState := state2\<rparr>) rows))"

definition MarkExpired ::
  "billing_db \<Rightarrow> time \<Rightarrow> uuid \<Rightarrow> string \<Rightarrow> checkout_session list \<Rightarrow> checkout_session list result" where
  "MarkExpired db now i message rows =
     (case SessionGetByID i rows of
        Inl _ \<Rightarrow> Inl ErrCheckoutSessionNotFound
      | Inr s \<Rightarrow>
          if isTerminal (cs_Status s) then Inr rows
          else SessionUpdate db (s\<lparr>cs_Status := CheckoutSessionStatusExpired, cs_UpdatedAt := now,
                 cs_ProcessorState := (if TrimSpace message \<noteq> [] then set_field ''message'' (TrimSpace message) (cs_ProcessorState s)
                                       else cs_ProcessorState s)\<rparr>) rows)"

definition FindOpenByUserPriceProcessor ::
  "string \<Rightarrow> uuid \<Rightarrow> string \<Rightarrow> checkout_session list \<Rightarrow> checkout_session option result" where
  "FindOpenByUserPriceProcessor u priceID processor rows =
     (case GetLatestOpenByUserPriceProcessor u priceID processor rows of
        Inl e \<Rightarrow> if errors_Is e ErrNoRows then Inr None else Inl e
      | Inr s \<Rightarrow> Inr (Some s))"


section \<open>Settled sessions\<close>

datatype session_op =
    SessionSucceed billing_db time uuid uuid string
  | SessionSucceedWithSubscription billing_db time uuid uuid string uuid
  | SessionFail billing_db time uuid string string
  | SessionExpire billing_db time uuid string

fun session_step :: "session_op \<Rightarrow> checkout_session list \<Rightarrow> (unit \<times> checkout_session list) result" where
  "session_step (SessionSucceed db now i p tx) rows = map_sum id (Pair ()) (MarkSucceeded db now i p tx rows)"
| "session_step (SessionSucceedWithSubscription db now i p tx sub) rows =
     map_sum id (Pair ()) (MarkSucceededWithSubscription db now i p tx sub rows)"
| "session_step (SessionFail db now i reason code) rows = map_sum id (Pair ()) (SessionMarkFailed db now i reason code rows)"
| "session_step (SessionExpire db now i msg) rows = map_sum id (Pair ()) (MarkExpired db now i msg rows)"

text \<open>How a step may change a session: not at all, or from an open or expired state.\<close>

definition session_moves :: "checkout_session \<Rightarrow> checkout_session \<Rightarrow> bool" where
  "session_moves r r' \<longleftrightarrow> cs_ID r' = cs_ID r \<and>
     (r' = r \<or> \<not> isTerminal (cs_Status r) \<and> isTerminal (cs_Status r') \<or>
      cs_Status r = CheckoutSessionStatusExpired \<and> cs_Status r' = CheckoutSessionStatusSucceeded)"

lemma SessionUpdate_Inr:
  "SessionUpdate db s rows = Inr rows' \<Longrightarrow> rows' = sql_update (\<lambda>r. cs_ID r = cs_ID s) (\<lambda>_. s) rows"
  by (auto simp: SessionUpdate_def split: sum.split_asm if_split_asm dest: tbl_update_Inr)

lemma sessions_update_move:
  assumes "SessionUpdate db s' rows = Inr rows'" "SessionGetByID i rows = Inr s" "session_moves s s'" "distinct (map cs_ID rows)"
  shows "list_all2 session_moves rows rows'"
proof -
  have s: "s \<in> set rows" using assms(2) by (auto simp: SessionGetByID_def dest: sql_find_memb)
  have id: "cs_ID s' = cs_ID s" using assms(3) by (simp add: session_moves_def)
  have "session_moves r (if cs_ID r = cs_ID s' then s' else r)" if "r \<in> set rows" for r
  proof (cases "cs_ID r = cs_ID s'")
    case True
    then have "r = s" using that s assms(4) id by (metis distinct_map inj_on_eq_iff)
    with True assms(3) show ?thesis by simp
  qed (simp add: session_moves_def)
  then show ?thesis
    unfolding SessionUpdate_Inr [OF assms(1)] sql_update_def by (simp add: list_all2_map2 list_all2_same)
qed

lemma session_moves_refl: "session_moves r r"
  by (simp add: session_moves_def)

lemma sessions_same [simp]: "list_all2 session_moves rows rows"
  by (simp add: list_all2_same session_moves_refl)

lemma succeeded_moves:
  "\<not> isTerminal (cs_Status s) \<or> cs_Status s = CheckoutSessionStatusExpired \<Longrightarrow> session_moves s (succeeded now p tx sub s)"
  by (auto simp: session_moves_def succeeded_def isTerminal_def)

lemma session_step_moves:
  assumes "session_step op rows = Inr (u, rows')" "distinct (map cs_ID rows)"
  shows "list_all2 session_moves rows rows'"
proof -
  note upd = sessions_update_move [OF _ _ _ assms(2)]
  note defs = MarkSucceeded_def MarkSucceededWithSubscription_def SessionMarkFailed_def MarkExpired_def Let_def map_sum_Inr
  show ?thesis
  proof (cases op)
    case (SessionFail db now i reason code)
    with assms(1) show ?thesis
      by (auto simp: defs split: sum.split_asm if_split_asm elim!: upd) (simp_all add: session_moves_def isTerminal_def)
  next
    case (SessionExpire db now i msg)
    with assms(1) show ?thesis
      by (auto simp: defs split: sum.split_asm if_split_asm elim!: upd) (simp_all add: session_moves_def isTerminal_def)
  qed (use assms(1) in \<open>auto simp: defs split: sum.split_asm if_split_asm elim!: upd intro!: succeeded_moves\<close>)
qed


lemma session_moves_trans: "session_moves a b \<Longrightarrow> session_moves b c \<Longrightarrow> session_moves a c"
  by (auto simp: session_moves_def isTerminal_def)

lemma session_moves_IDs: "list_all2 session_moves rows rows' \<Longrightarrow> map cs_ID rows' = map cs_ID rows"
  by (induction rule: list_all2_induct) (simp_all add: session_moves_def)

interpretation sessions: tx_system session_step "\<lambda>_ _. True" "\<lambda>rows. distinct (map cs_ID rows) \<and> list_all2 session_moves rows0 rows"
  for rows0
proof
  fix s op a s'
  assume *: "distinct (map cs_ID s) \<and> list_all2 session_moves rows0 s" "session_step op s = Inr (a, s')"
  then have m: "list_all2 session_moves s s'" by (auto intro: session_step_moves)
  with * show "distinct (map cs_ID s') \<and> list_all2 session_moves rows0 s'"
    by (auto simp: session_moves_IDs intro: list_all2_trans session_moves_trans)
qed

text \<open>
  C22: settling a session is final. In whatever order the four operations that mark sessions are called, one after the other, a session that has succeeded,
  failed or was cancelled is never changed again, and one that has expired can only become a success (a payment that
  arrived late); no session is lost or invented.
\<close>

theorem settled_session_final:
  assumes "tx_reach session_step (\<lambda>_ _. True) rows rows'" "distinct (map cs_ID rows)" "i < length rows"
  shows "cs_ID (rows' ! i) = cs_ID (rows ! i) \<and> length rows' = length rows \<and>
    (cs_Status (rows ! i) \<in> {CheckoutSessionStatusSucceeded, CheckoutSessionStatusFailed, CheckoutSessionStatusCanceled} \<longrightarrow>
       rows' ! i = rows ! i) \<and>
    (cs_Status (rows ! i) = CheckoutSessionStatusExpired \<longrightarrow>
       rows' ! i = rows ! i \<or> cs_Status (rows' ! i) = CheckoutSessionStatusSucceeded)"
proof -
  have l: "list_all2 session_moves rows rows'"
    using sessions.reach_inv [OF assms(1), of rows] assms(2) by simp
  then have "session_moves (rows ! i) (rows' ! i)" using assms(3) by (rule list_all2_nthD)
  then show ?thesis using list_all2_lengthD [OF l] by (auto simp: session_moves_def isTerminal_def)
qed

definition ex_session :: "uuid \<Rightarrow> CheckoutSessionStatus \<Rightarrow> checkout_session" where
  "ex_session i st = \<lparr>cs_ID = i, cs_UserID = ''u'', cs_PriceID = 2, cs_Mode = CheckoutSessionModeSubscription, cs_Processor = ''ccbill'',
     cs_Status = st, cs_Amount = 999, cs_Currency = ''usd'', cs_ExpiresAt = None, cs_Reference = None, cs_TransactionID = None,
     cs_PaymentID = None, cs_SubscriptionID = None, cs_Metadata = [], cs_ProcessorFields = [], cs_ProcessorState = [],
     cs_IdempotencyKey = None, cs_CreatedAt = 1, cs_UpdatedAt = 1\<rparr>"

definition ex_session_db :: billing_db where
  "ex_session_db = \<lparr>bdb_prices = [\<lparr>price_ID = 2, price_ProductID = 1, price_DisplayName = [], price_IsActive = True, price_Amount = 999, price_Currency = ''usd'',
         price_BillingCycleDays = Some 30, price_Processors = None, price_CreatedAt = 1, price_UpdatedAt = 1\<rparr>],
       bdb_products = [], bdb_subs = [], bdb_ents = [], bdb_payments = [], bdb_notifications = []\<rparr>"

theorem settled_session_final_witness:
  "snd (run_in_tx (session_step (SessionSucceed ex_session_db 6 8 3 ''t''))
     (snd (run_in_tx (session_step (SessionExpire ex_session_db 5 8 ''late''))
       [ex_session 8 CheckoutSessionStatusFailed, ex_session 9 CheckoutSessionStatusCreated]))) ! 0 = ex_session 8 CheckoutSessionStatusFailed"
proof -
  let ?rows = "[ex_session 8 CheckoutSessionStatusFailed, ex_session 9 CheckoutSessionStatusCreated]"
  let ?r1 = "snd (run_in_tx (session_step (SessionExpire ex_session_db 5 8 ''late'')) ?rows)"
  have "tx_reach session_step (\<lambda>_ _. True) ?rows ?r1" by (rule tx_step [OF tx_start]) simp
  from tx_step [OF this, of "SessionSucceed ex_session_db 6 8 3 ''t''"]
  have r: "tx_reach session_step (\<lambda>_ _. True) ?rows (snd (run_in_tx (session_step (SessionSucceed ex_session_db 6 8 3 ''t'')) ?r1))" by simp
  from settled_session_final [OF r, of 0] show ?thesis by (simp add: ex_session_def)
qed

end
