(* ===== verification/Notifications.thy ===== *)
theory Notifications
  imports Lifecycle_Properties
begin

text \<open>
  The queue of notifications: \<^verbatim>\<open>internal/db/repo/notification_queue.go\<close> and the storage side of
  \<^verbatim>\<open>internal/modules/subscriptions/notification_service.go\<close>. The rows stand in the order of their creation, so the newest first
  is the reversed list. Sending email is outside the model. \<^verbatim>\<open>CreateAndDeliver\<close> works on the pool's connection, not on a
  transaction of its caller.
\<close>

section \<open>Repository\<close>

definition NotificationCreate :: "notification \<Rightarrow> notification list \<Rightarrow> notification list result" where
  "NotificationCreate n rows = sql_insert nq_ID ''notification_queue_pkey'' n rows"

definition NotificationGetByID :: "uuid \<Rightarrow> notification list \<Rightarrow> notification result" where
  "NotificationGetByID i rows = sql_find (\<lambda>n. nq_ID n = i) rows"

definition NotificationGetByUserID :: "string \<Rightarrow> notification list \<Rightarrow> notification list" where
  "NotificationGetByUserID u rows = rev (filter (\<lambda>n. nq_UserID n = u) rows)"

definition GetUnseenByUserID :: "string \<Rightarrow> notification list \<Rightarrow> notification list" where
  "GetUnseenByUserID u rows = rev (filter (\<lambda>n. nq_UserID n = u \<and> \<not> nq_Seen n) rows)"

definition GetByEventType :: "string \<Rightarrow> notification list \<Rightarrow> notification list" where
  "GetByEventType ev rows = rev (filter (\<lambda>n. nq_EventType n = ev) rows)"

definition MarkAsSeen :: "uuid \<Rightarrow> notification list \<Rightarrow> notification list result" where
  "MarkAsSeen i rows =
     (if filter (\<lambda>n. nq_ID n = i) rows = [] then Inl (ErrMsg ''no rows affected'')
      else Inr (sql_update (\<lambda>n. nq_ID n = i) (\<lambda>n. n\<lparr>nq_Seen := True\<rparr>) rows))"

definition NotificationUpdate :: "notification \<Rightarrow> notification list \<Rightarrow> notification list result" where
  "NotificationUpdate n rows =
     (if filter (\<lambda>r. nq_ID r = nq_ID n) rows = [] then Inl (ErrMsg ''no rows affected'')
      else Inr (sql_update (\<lambda>r. nq_ID r = nq_ID n) (\<lambda>_. n) rows))"

definition NotificationDelete :: "uuid \<Rightarrow> notification list \<Rightarrow> notification list result" where
  "NotificationDelete i rows =
     (if filter (\<lambda>n. nq_ID n = i) rows = [] then Inl (ErrMsg ''no rows affected'')
      else Inr (filter (\<lambda>n. nq_ID n \<noteq> i) rows))"

record NotificationFilters =
  nf_UserID :: string
  nf_EventType :: string
  nf_Seen :: "bool option"

definition nf_match :: "NotificationFilters \<Rightarrow> notification \<Rightarrow> bool" where
  "nf_match f n \<longleftrightarrow>
     (nf_UserID f \<noteq> [] \<longrightarrow> nq_UserID n = nf_UserID f) \<and>
     (nf_EventType f \<noteq> [] \<longrightarrow> nq_EventType n = nf_EventType f) \<and>
     (case nf_Seen f of None \<Rightarrow> True | Some b \<Rightarrow> nq_Seen n = b)"

definition GetNotifications :: "NotificationFilters \<Rightarrow> nat \<Rightarrow> nat \<Rightarrow> notification list \<Rightarrow> notification list \<times> nat" where
  "GetNotifications f limit offset rows =
     (let found = filter (nf_match f) rows in (take limit (drop offset (rev found)), length found))"

section \<open>Service\<close>

definition obsoleteEventTypes :: "string \<Rightarrow> string list" where
  "obsoleteEventTypes ev =
     (if ev = ''premium_started'' \<or> ev = ''premium_renewed'' then [''premium_ended'']
      else if ev = ''payment_method_auto_updated'' then [''payment_method_failed'', ''payment_method_update_required'']
      else [])"

text \<open>The loop over the newest 1000 unseen notifications of the user; a failed deletion is logged.\<close>

fun delete_obsolete :: "string list \<Rightarrow> notification list \<Rightarrow> notification list \<Rightarrow> nat \<times> notification list" where
  "delete_obsolete types [] rows = (0, rows)"
| "delete_obsolete types (n # ns) rows =
     (if nq_EventType n \<in> set types
      then (case NotificationDelete (nq_ID n) rows of
              Inl _ \<Rightarrow> delete_obsolete types ns rows
            | Inr rows' \<Rightarrow> (case delete_obsolete types ns rows' of (c, rows'') \<Rightarrow> (Suc c, rows'')))
      else delete_obsolete types ns rows)"

definition removeObsoleteNotifications :: "string \<Rightarrow> string list \<Rightarrow> notification list \<Rightarrow> nat \<times> notification list" where
  "removeObsoleteNotifications u types rows =
     delete_obsolete types (fst (GetNotifications \<lparr>nf_UserID = u, nf_EventType = [], nf_Seen = Some False\<rparr> 1000 0 rows)) rows"

definition cleanupObsoleteNotifications :: "notification \<Rightarrow> notification list \<Rightarrow> notification list" where
  "cleanupObsoleteNotifications n rows =
     (let types = obsoleteEventTypes (nq_EventType n)
      in if types = [] then rows else snd (removeObsoleteNotifications (nq_UserID n) types rows))"

definition CreateAndDeliver :: "notification \<Rightarrow> notification list \<Rightarrow> unit result \<times> notification list" where
  "CreateAndDeliver n rows =
     (let rows1 = cleanupObsoleteNotifications n rows
      in case NotificationCreate n rows1 of
           Inl e \<Rightarrow> (Inl (ErrWrap ''failed to create notification'' e), rows1)
         | Inr rows2 \<Rightarrow> (Inr (), rows2))"

section \<open>Properties\<close>

lemma delete_obsolete_rows:
  "snd (delete_obsolete types ns rows) =
     filter (\<lambda>r. \<not> (\<exists>n \<in> set ns. nq_EventType n \<in> set types \<and> nq_ID n = nq_ID r)) rows"
proof (induction types ns rows rule: delete_obsolete.induct)
  case (2 types n ns rows)
  have *: "filter (\<lambda>r. nq_ID r \<noteq> nq_ID n) rows = rows" if "filter (\<lambda>r. nq_ID r = nq_ID n) rows = []"
    using that by (auto simp: filter_empty_conv filter_id_conv)
  show ?case
  proof (cases "nq_EventType n \<in> set types \<and> filter (\<lambda>r. nq_ID r = nq_ID n) rows \<noteq> []")
    case True
    then have d: "NotificationDelete (nq_ID n) rows = Inr (filter (\<lambda>r. nq_ID r \<noteq> nq_ID n) rows)"
      by (simp add: NotificationDelete_def)
    show ?thesis using True 2(2) [OF _ d] d by (auto split: prod.split intro!: filter_cong)
  next
    case False
    then have s: "snd (delete_obsolete types (n # ns) rows) = snd (delete_obsolete types ns rows)"
      by (auto simp: NotificationDelete_def)
    have ih: "snd (delete_obsolete types ns rows) = filter (\<lambda>r. \<not> (\<exists>n \<in> set ns. nq_EventType n \<in> set types \<and> nq_ID n = nq_ID r)) rows"
      using False 2(1, 3) by (auto simp: NotificationDelete_def)
    show ?thesis unfolding s ih using False by (intro filter_cong) (auto simp: filter_empty_conv)
  qed
qed simp


lemma set_newest_unseen:
  assumes "length (filter (nf_match f) rows) \<le> limit"
  shows "set (fst (GetNotifications f limit 0 rows)) = {n \<in> set rows. nf_match f n}"
  using assms by (auto simp: GetNotifications_def Let_def)

text \<open>
  A notification that is stored takes the place of the unseen ones of its user that it makes obsolete: those are gone, every
  other notification is still there, unchanged and in its place, and the new one stands last. This holds up to 1000
  unseen notifications of the user.
\<close>

theorem CreateAndDeliver_supersedes:
  assumes "nq_UserID n \<noteq> []" "nq_ID n \<notin> set (map nq_ID rows)" "distinct (map nq_ID rows)"
    and "length (filter (\<lambda>r. nq_UserID r = nq_UserID n \<and> \<not> nq_Seen r) rows) \<le> 1000"
  shows "CreateAndDeliver n rows =
    (Inr (), filter (\<lambda>r. \<not> (nq_UserID r = nq_UserID n \<and> \<not> nq_Seen r \<and>
       nq_EventType r \<in> set (obsoleteEventTypes (nq_EventType n)))) rows @ [n])"
proof -
  let ?types = "obsoleteEventTypes (nq_EventType n)" and ?f = "\<lparr>nf_UserID = nq_UserID n, nf_EventType = [], nf_Seen = Some False\<rparr>"
  let ?gone = "\<lambda>r. nq_UserID r = nq_UserID n \<and> \<not> nq_Seen r \<and> nq_EventType r \<in> set ?types"
  have match: "nf_match ?f = (\<lambda>r. nq_UserID r = nq_UserID n \<and> \<not> nq_Seen r)" using assms(1) by (auto simp: nf_match_def)
  have "set (fst (GetNotifications ?f 1000 0 rows)) = {r \<in> set rows. nf_match ?f r}"
    by (rule set_newest_unseen) (use assms(4) in \<open>simp add: match\<close>)
  then have m: "set (fst (GetNotifications ?f 1000 0 rows)) = {r \<in> set rows. nq_UserID r = nq_UserID n \<and> \<not> nq_Seen r}"
    by (simp add: match)
  have "snd (removeObsoleteNotifications (nq_UserID n) ?types rows) = filter (\<lambda>r. \<not> ?gone r) rows"
    unfolding removeObsoleteNotifications_def delete_obsolete_rows m
    using assms(3) by (intro filter_cong) (auto simp: distinct_map dest: inj_onD)
  then have c: "cleanupObsoleteNotifications n rows = filter (\<lambda>r. \<not> ?gone r) rows"
    by (auto simp: cleanupObsoleteNotifications_def Let_def)
  show ?thesis using assms(2) unfolding CreateAndDeliver_def c NotificationCreate_def sql_insert_def by (auto simp: Let_def)
qed

definition ex_note :: "uuid \<Rightarrow> string \<Rightarrow> notification" where
  "ex_note i ev = \<lparr>nq_ID = i, nq_UserID = ''u'', nq_EventType = ev, nq_Data = [], nq_Seen = False\<rparr>"

theorem CreateAndDeliver_supersedes_witness:
  "CreateAndDeliver (ex_note 3 ''premium_started'') [ex_note 1 ''premium_ended'', ex_note 2 ''payment_method_failed''] =
     (Inr (), [ex_note 2 ''payment_method_failed'', ex_note 3 ''premium_started''])"
  using CreateAndDeliver_supersedes [of "ex_note 3 ''premium_started''" "[ex_note 1 ''premium_ended'', ex_note 2 ''payment_method_failed'']"]
  by (simp add: ex_note_def obsoleteEventTypes_def)

end
