(* ===== verification/Money.thy ===== *)
theory Money
  imports Go_Time Complex_Main
begin

text \<open>
  Amounts of money, \<^verbatim>\<open>internal/shared/moneyutil/moneyutil.go\<close>: decimal text to cents and back. A \<^verbatim>\<open>big.Rat\<close> is a rational
  number. \<^verbatim>\<open>Rat.SetString\<close> reads many notations; it is the argument \<open>SetString\<close>, of which the round trip needs only
  the plain decimals.
\<close>

section \<open>Reading\<close>

definition roundHalfAwayFromZero :: "rat \<Rightarrow> int result" where
  "roundHalfAwayFromZero value =
     (if value = 0 then Inr 0
      else
        (let num = \<bar>fst (quotient_of value)\<bar>; den = snd (quotient_of value);
             quotient = num div den; remainder = num mod den;
             quotient' = (if 2 * remainder \<ge> den then quotient + 1 else quotient)
         in if \<not> in_i64 quotient' then Inl (ErrMsg ''amount is out of int64 range'')
            else Inr (if value < 0 then - quotient' else quotient')))"

definition ParseDecimalToCents :: "(string \<Rightarrow> rat option) \<Rightarrow> string \<Rightarrow> int result" where
  "ParseDecimalToCents SetString value =
     (let trimmed = TrimSpace value
      in if trimmed = [] then Inl (ErrMsg ''amount is empty'')
         else case SetString trimmed of
                None \<Rightarrow> Inl (ErrMsg (''invalid decimal amount '' @ trimmed))
              | Some parsed \<Rightarrow> roundHalfAwayFromZero (parsed * 100))"

section \<open>Writing\<close>

text \<open>The magnitude as an unsigned word: \<^verbatim>\<open>uint64(-(cents + 1)) + 1\<close> for a negative amount.\<close>

definition cents_abs :: "int \<Rightarrow> 64 word" where
  "cents_abs cents = (if cents < 0 then word_of_int (- (cents + 1)) + 1 else word_of_int cents)"

definition FormatCentsDecimal :: "int \<Rightarrow> string" where
  "FormatCentsDecimal cents =
     (let major = uint (cents_abs cents div 100); minor = uint (cents_abs cents mod 100)
      in (if cents < 0 then ''-'' else []) @ decimal major @ ''.'' @ pad_digits 2 minor)"

definition TrimPrefix :: "string \<Rightarrow> string \<Rightarrow> string" where
  "TrimPrefix s p = (if HasPrefix s p then drop (length p) s else s)"

definition FormatDisplay :: "int \<Rightarrow> string \<Rightarrow> string" where
  "FormatDisplay cents currency =
     (let code = ToUpper (TrimSpace currency); amount = FormatCentsDecimal cents
      in if code = [] then amount
         else if code = ''USD''
         then (if HasPrefix amount ''-'' then ''-$'' @ TrimPrefix amount ''-'' @ '' '' @ code else ''$'' @ amount @ '' '' @ code)
         else amount @ '' '' @ code)"

definition FormatUSD :: "int \<Rightarrow> string" where
  "FormatUSD cents =
     (let amount = FormatCentsDecimal cents
      in if HasPrefix amount ''-'' then ''-$'' @ TrimPrefix amount ''-'' else ''$'' @ amount)"

section \<open>Rounding\<close>

text \<open>The reference: the nearest integer, ties away from zero.\<close>

definition nearest :: "rat \<Rightarrow> int" where
  "nearest q = (if q < 0 then - \<lfloor>- q + 1 / 2\<rfloor> else \<lfloor>q + 1 / 2\<rfloor>)"

lemma floor_half:
  fixes n d :: int
  assumes "0 < d"
  shows "\<lfloor>of_int n / of_int d + 1 / (2 :: rat)\<rfloor> = (if 2 * (n mod d) \<ge> d then n div d + 1 else n div d)"
proof (rule floor_unique)
  let ?q = "if 2 * (n mod d) \<ge> d then n div d + 1 else n div d"
  have d: "(0 :: rat) < of_int d" using assms by simp
  have r: "0 \<le> n mod d" "n mod d < d" using assms by simp_all
  define q s where "q = n div d" and "s = n mod d"
  have n: "n = q * d + s" unfolding q_def s_def by simp
  have "2 * d * (if 2 * s \<ge> d then q + 1 else q) \<le> 2 * (q * d + s) + d"
    using r(1) assms unfolding s_def [symmetric] by (simp add: algebra_simps)
  then have lo: "2 * d * ?q \<le> 2 * n + d" unfolding n [symmetric] unfolding q_def s_def .
  have "2 * (q * d + s) + d < 2 * d * ((if 2 * s \<ge> d then q + 1 else q) + 1)"
    using r(2) unfolding s_def [symmetric] by (simp add: algebra_simps)
  then have hi: "2 * n + d < 2 * d * (?q + 1)" unfolding n [symmetric] unfolding q_def s_def .
  have eq: "of_int n / of_int d + 1 / 2 = (of_int (2 * n + d) / of_int (2 * d) :: rat)" using d by (simp add: field_simps)
  have "of_int (2 * d * ?q) \<le> (of_int (2 * n + d) :: rat)" using lo by (rule of_int_le_iff [THEN iffD2])
  then show "of_int ?q \<le> (of_int n / of_int d + 1 / 2 :: rat)" unfolding eq using d by (simp add: field_simps)
  have "(of_int (2 * n + d) :: rat) < of_int (2 * d * (?q + 1))" using hi by (rule of_int_less_iff [THEN iffD2])
  then show "(of_int n / of_int d + 1 / 2 :: rat) < of_int ?q + 1" unfolding eq using d by (simp add: field_simps)
qed

text \<open>The quotient computed by the code is the reference on the magnitude.\<close>

lemma rounded_quotient:
  "(let num = \<bar>fst (quotient_of v)\<bar>; den = snd (quotient_of v)
    in if 2 * (num mod den) \<ge> den then num div den + 1 else num div den) = nearest \<bar>v\<bar>"
proof -
  obtain n d where q: "quotient_of v = (n, d)" by (cases "quotient_of v")
  then have d: "0 < d" and v: "v = of_int n / of_int d" by (auto dest: quotient_of_denom_pos quotient_of_div)
  have "\<bar>v\<bar> = of_int \<bar>n\<bar> / of_int d" using d by (simp add: v abs_div)
  then have "nearest \<bar>v\<bar> = \<lfloor>of_int \<bar>n\<bar> / of_int d + 1 / (2 :: rat)\<rfloor>" unfolding nearest_def by (metis abs_not_less_zero)
  with floor_half [OF d, of "\<bar>n\<bar>"] show ?thesis by (simp only: q Let_def fst_conv snd_conv)
qed

lemma floor_one_half [simp]: "\<lfloor>1 / 2 :: rat\<rfloor> = 0"
  by (rule floor_unique) auto

lemma nearest_neg: "nearest (- q) = - nearest q"
  by (cases "q = 0") (auto simp: nearest_def)

lemma nearest_abs: "nearest q = (if q < 0 then - nearest \<bar>q\<bar> else nearest \<bar>q\<bar>)"
  using nearest_neg [of "- q"] by auto

lemma nearest_nonneg: "0 \<le> nearest \<bar>q\<bar>"
  by (simp add: nearest_def)

text \<open>
  Rounding is the mathematical one: the nearest number of cents, a tie away from zero, for every amount whose
  magnitude fits an \<^verbatim>\<open>int64\<close>; every other amount is refused.
\<close>

theorem roundHalfAwayFromZero_nearest:
  "roundHalfAwayFromZero v =
     (if nearest \<bar>v\<bar> < 2 ^ 63 then Inr (nearest v) else Inl (ErrMsg ''amount is out of int64 range''))"
proof (cases "v = 0")
  case False
  have "in_i64 (nearest \<bar>v\<bar>) \<longleftrightarrow> nearest \<bar>v\<bar> < 2 ^ 63" using nearest_nonneg [of v] by (simp add: in_i64_nonneg)
  moreover have "roundHalfAwayFromZero v =
      (if \<not> in_i64 (nearest \<bar>v\<bar>) then Inl (ErrMsg ''amount is out of int64 range'')
       else Inr (if v < 0 then - nearest \<bar>v\<bar> else nearest \<bar>v\<bar>))"
    using False unfolding rounded_quotient [symmetric] roundHalfAwayFromZero_def Let_def by (simp only: if_False)
  ultimately show ?thesis unfolding nearest_abs [of v, symmetric] by simp
qed (simp add: roundHalfAwayFromZero_def nearest_def)

section \<open>Round trip\<close>

text \<open>Plain decimals: an optional sign, digits, a point and digits; and their values.\<close>

definition digit_value :: "char \<Rightarrow> int" where
  "digit_value c = of_char c - 48"

definition is_digit :: "char \<Rightarrow> bool" where
  "is_digit c \<longleftrightarrow> 48 \<le> (of_char c :: int) \<and> (of_char c :: int) \<le> 57"

fun digits_value :: "int \<Rightarrow> string \<Rightarrow> int" where
  "digits_value acc [] = acc"
| "digits_value acc (c # cs) = digits_value (10 * acc + digit_value c) cs"

definition reads_decimals :: "(string \<Rightarrow> rat option) \<Rightarrow> bool" where
  "reads_decimals SetString \<longleftrightarrow>
     (\<forall>neg ds fs. ds \<noteq> [] \<and> fs \<noteq> [] \<and> list_all is_digit (ds @ fs) \<longrightarrow>
        SetString ((if neg then ''-'' else []) @ ds @ ''.'' @ fs) =
          Some ((if neg then -1 else 1) * (of_int (digits_value 0 (ds @ fs)) / 10 ^ length fs)))"

lemma digits_value_append: "digits_value acc (xs @ ys) = digits_value (digits_value acc xs) ys"
  by (induction xs arbitrary: acc) simp_all

lemma digit_char: "0 \<le> n \<Longrightarrow> n < 10 \<Longrightarrow> digit_value (char_of (48 + n)) = n \<and> is_digit (char_of (48 + n))"
  by (simp add: digit_value_def is_digit_def)

lemma decimal_digits: "0 \<le> n \<Longrightarrow> digits_value 0 (decimal n) = n \<and> list_all is_digit (decimal n) \<and> decimal n \<noteq> []"
proof (induction n rule: decimal.induct)
  case (1 n)
  show ?case
  proof (cases "n < 10")
    case True
    with 1 digit_char [of n] show ?thesis by (simp add: decimal.simps [of n])
  next
    case False
    with 1 have IH: "digits_value 0 (decimal (n div 10)) = n div 10" "list_all is_digit (decimal (n div 10))" by simp_all
    have d: "digit_value (char_of (48 + n mod 10)) = n mod 10" "is_digit (char_of (48 + n mod 10))"
      using digit_char [of "n mod 10"] by simp_all
    have "10 * (n div 10) + n mod 10 = n" by simp
    with False IH d show ?thesis by (simp add: decimal.simps [of n] digits_value_append)
  qed
qed

lemma pad_digits_value:
  "0 \<le> n \<Longrightarrow> n < 10 ^ w \<Longrightarrow> digits_value acc (pad_digits w n) = acc * 10 ^ w + n \<and> list_all is_digit (pad_digits w n)"
proof (induction w arbitrary: n)
  case (Suc w)
  have "n div 10 < 10 ^ w" using Suc.prems by simp
  with Suc have IH: "digits_value acc (pad_digits w (n div 10)) = acc * 10 ^ w + n div 10" "list_all is_digit (pad_digits w (n div 10))"
    by simp_all
  have d: "digit_value (char_of (48 + n mod 10)) = n mod 10" "is_digit (char_of (48 + n mod 10))"
    using digit_char [of "n mod 10"] by simp_all
  have "10 * (acc * 10 ^ w + n div 10) + n mod 10 = acc * 10 ^ Suc w + n" by (simp add: algebra_simps)
  with IH d show ?case by (simp add: digits_value_append)
qed simp

lemma cents_abs_uint: "in_i64 cents \<Longrightarrow> uint (cents_abs cents) = \<bar>cents\<bar>"
proof (cases "cents < 0")
  case True
  assume "in_i64 cents"
  with True have "0 \<le> - (cents + 1)" "- (cents + 1) < 2 ^ 63" by (simp_all add: in_i64_def)
  then have "uint (word_of_int (- (cents + 1)) :: 64 word) = - (cents + 1)" by (simp add: word_of_int_inverse)
  then have "word_of_int (- (cents + 1)) + (1 :: 64 word) = word_of_int (- cents)" by simp
  moreover have "uint (word_of_int (- cents) :: 64 word) = - cents"
    using True \<open>in_i64 cents\<close> by (intro word_of_int_inverse) (simp_all add: in_i64_def)
  ultimately show ?thesis using True by (simp add: cents_abs_def)
next
  case False
  assume "in_i64 cents"
  with False show ?thesis by (simp add: cents_abs_def in_i64_def word_of_int_inverse)
qed


lemma is_digit_not_space: "is_digit c \<Longrightarrow> \<not> is_space c"
proof -
  assume "is_digit c"
  then have "48 \<le> int (of_char c)" unfolding is_digit_def of_nat_of_char by blast
  then show ?thesis by (simp add: is_space_def Let_def)
qed

lemma nearest_of_int [simp]: "nearest (of_int n) = n"
  by (simp add: nearest_def floor_unique)

lemma FormatCentsDecimal_parts:
  assumes "in_i64 cents"
  shows "FormatCentsDecimal cents =
    (if cents < 0 then ''-'' else []) @ decimal (\<bar>cents\<bar> div 100) @ ''.'' @ pad_digits 2 (\<bar>cents\<bar> mod 100)"
  using cents_abs_uint [OF assms] by (simp add: FormatCentsDecimal_def uint_div uint_mod Let_def)

text \<open>
  C38: Writing an amount and reading it back gives the amount, for every \<^verbatim>\<open>int64\<close> but the least one, which the rounding refuses
  although it is representable. Reading relies on the documented value of plain decimals only.
\<close>

theorem ParseDecimalToCents_FormatCentsDecimal:
  assumes "reads_decimals SetString" "in_i64 cents"
  shows "ParseDecimalToCents SetString (FormatCentsDecimal cents) =
    (if cents = - (2 ^ 63) then Inl (ErrMsg ''amount is out of int64 range'') else Inr cents)"
proof -
  let ?ds = "decimal (\<bar>cents\<bar> div 100)" and ?fs = "pad_digits 2 (\<bar>cents\<bar> mod 100)"
  have ds: "digits_value 0 ?ds = \<bar>cents\<bar> div 100" "list_all is_digit ?ds" "?ds \<noteq> []"
    using decimal_digits [of "\<bar>cents\<bar> div 100"] by (simp_all add: pos_imp_zdiv_nonneg_iff)
  have fs: "digits_value (\<bar>cents\<bar> div 100) ?fs = \<bar>cents\<bar>" "list_all is_digit ?fs" "?fs \<noteq> []"
    using pad_digits_value [of "\<bar>cents\<bar> mod 100" 2 "\<bar>cents\<bar> div 100"] by (simp_all flip: length_greater_0_conv)
  have "SetString (FormatCentsDecimal cents) = Some ((if cents < 0 then -1 else 1) * (of_int \<bar>cents\<bar> / 10 ^ 2))"
    using assms(1) ds fs unfolding FormatCentsDecimal_parts [OF assms(2)] reads_decimals_def
    by (auto simp: digits_value_append)
  then have set: "SetString (FormatCentsDecimal cents) = Some (of_int cents / 100)" by (auto split: if_splits)
  have trim: "TrimSpace (FormatCentsDecimal cents) = FormatCentsDecimal cents" "FormatCentsDecimal cents \<noteq> []"
    using ds fs is_digit_not_space [of "hd ?ds"] is_digit_not_space [of "last ?fs"]
    unfolding FormatCentsDecimal_parts [OF assms(2)]
    by (auto intro!: TrimSpace_none simp: list_all_iff is_space_def [of "CHR ''-''"])
  have "nearest (\<bar>of_int cents\<bar>) < 2 ^ 63 \<longleftrightarrow> cents \<noteq> - (2 ^ 63)"
    using assms(2) nearest_of_int [of "\<bar>cents\<bar>"] by (auto simp: in_i64_def)
  then show ?thesis by (simp add: ParseDecimalToCents_def Let_def trim set roundHalfAwayFromZero_nearest)
qed


text \<open>A reader of plain decimals: what the round trip asks of \<^verbatim>\<open>SetString\<close> can be met.\<close>

definition read_decimal :: "string \<Rightarrow> rat option" where
  "read_decimal s =
     (let neg = (case s of c # _ \<Rightarrow> c = CHR ''-'' | [] \<Rightarrow> False);
          t = (if neg then tl s else s);
          ds = takeWhile is_digit t; fs = tl (dropWhile is_digit t)
      in Some ((if neg then -1 else 1) * (of_int (digits_value 0 (ds @ fs)) / 10 ^ length fs)))"

lemma read_decimal_reads: "reads_decimals read_decimal"
proof -
  have "takeWhile is_digit (ds @ CHR ''.'' # fs) = ds \<and> dropWhile is_digit (ds @ CHR ''.'' # fs) = CHR ''.'' # fs"
    if "list_all is_digit ds" for ds fs
    using that by (induction ds) (auto simp: is_digit_def)
  moreover have "\<not> is_digit (CHR ''-'')" by (simp add: is_digit_def)
  ultimately show ?thesis
    by (auto simp: reads_decimals_def read_decimal_def Let_def neq_Nil_conv split: list.splits)
qed

theorem ParseDecimalToCents_FormatCentsDecimal_witness:
  "ParseDecimalToCents read_decimal (FormatCentsDecimal (-1205)) = Inr (-1205) \<and>
   ParseDecimalToCents read_decimal (FormatCentsDecimal (- (2 ^ 63))) = Inl (ErrMsg ''amount is out of int64 range'')"
  using ParseDecimalToCents_FormatCentsDecimal [OF read_decimal_reads, of "-1205"]
    ParseDecimalToCents_FormatCentsDecimal [OF read_decimal_reads, of "- (2 ^ 63)"]
  by (simp add: in_i64_def)

end
