(* ===== verification/Time_Parsing.thy ===== *)
theory Time_Parsing
  imports Go_Time
begin

text \<open>
  Text as times: what \<^verbatim>\<open>time.ParseInLocation\<close> does in UTC with the layouts that the code uses, and the functions of
  \<^verbatim>\<open>internal/shared/timeutil/timeutil.go\<close> over it. A layout is the list of its elements, as \<^verbatim>\<open>nextStdChunk\<close> finds them. The main
  result is that reading undoes writing: a time printed in RFC3339 with nanoseconds is read back as it was.
\<close>

section \<open>Elements of a layout\<close>

datatype std =
    Lit char
  | stdLongYear
  | stdMonth
  | stdZeroMonth
  | stdDay
  | stdZeroDay
  | stdHour
  | stdZeroMinute
  | stdZeroSecond
  | stdISO8601ColonTZ

record clock =
  ck_year :: int
  ck_month :: int
  ck_day :: int
  ck_hour :: int
  ck_min :: int
  ck_sec :: int
  ck_nsec :: int
  ck_zone :: int

definition digit :: "char \<Rightarrow> int option" where
  "digit c = (let n = (of_char c :: int) in if 48 \<le> n \<and> n \<le> 57 then Some (n - 48) else None)"

fun digits :: "int \<Rightarrow> string \<Rightarrow> int option" where
  "digits acc [] = Some acc"
| "digits acc (c # cs) = (case digit c of None \<Rightarrow> None | Some d \<Rightarrow> digits (10 * acc + d) cs)"

text \<open>One or two digits; exactly two if \<open>fixed\<close>.\<close>

fun getnum :: "bool \<Rightarrow> string \<Rightarrow> (int \<times> string) option" where
  "getnum fixed [] = None"
| "getnum fixed [c] = (case digit c of None \<Rightarrow> None | Some a \<Rightarrow> if fixed then None else Some (a, []))"
| "getnum fixed (c # d # r) =
     (case digit c of
        None \<Rightarrow> None
      | Some a \<Rightarrow>
          (case digit d of
             None \<Rightarrow> if fixed then None else Some (a, d # r)
           | Some b \<Rightarrow> Some (10 * a + b, r)))"

text \<open>A space of the layout matches any number of spaces, and none at the end of the text.\<close>

definition skip :: "char \<Rightarrow> string \<Rightarrow> string option" where
  "skip c value =
     (if c = CHR '' ''
      then (if value \<noteq> [] \<and> hd value \<noteq> CHR '' '' then None else Some (dropWhile (\<lambda>x. x = CHR '' '') value))
      else (case value of [] \<Rightarrow> None | v # r \<Rightarrow> if v = c then Some r else None))"

text \<open>A fraction of a second may follow the seconds although the layout has none; nine of its digits count.\<close>

definition parseNanoseconds :: "string \<Rightarrow> int" where
  "parseNanoseconds ds = (case digits 0 (take 9 ds) of None \<Rightarrow> 0 | Some n \<Rightarrow> n * 10 ^ (9 - length (take 9 ds)))"

definition fraction :: "string \<Rightarrow> int \<times> string" where
  "fraction value =
     (let ds = takeWhile (\<lambda>c. digit c \<noteq> None) (drop 1 value)
      in if take 1 value \<in> {''.'', '',''} \<and> ds \<noteq> [] then (parseNanoseconds ds, drop (Suc (length ds)) value) else (0, value))"

definition zone :: "string \<Rightarrow> (int \<times> string) option" where
  "zone value =
     (if take 1 value = ''Z'' then Some (0, drop 1 value)
      else if length value < 6 \<or> value ! 3 \<noteq> CHR '':'' then None
      else (case (getnum True (take 2 (drop 1 value)), getnum True (take 2 (drop 4 value))) of
              (Some (hr, _), Some (mm, _)) \<Rightarrow>
                if hr > 24 \<or> mm > 60 then None
                else if value ! 0 = CHR ''+'' then Some ((hr * 60 + mm) * 60, drop 6 value)
                else if value ! 0 = CHR ''-'' then Some (- ((hr * 60 + mm) * 60), drop 6 value)
                else None
            | _ \<Rightarrow> None))"

text \<open>A number within its range, stored.\<close>

definition ranged :: "int \<Rightarrow> int \<Rightarrow> (int \<Rightarrow> clock) \<Rightarrow> (int \<times> string) option \<Rightarrow> (string \<times> clock) option" where
  "ranged lo hi f r = (case r of None \<Rightarrow> None | Some (n, rest) \<Rightarrow> if lo \<le> n \<and> n \<le> hi then Some (rest, f n) else None)"

fun chunk :: "std \<Rightarrow> string \<Rightarrow> clock \<Rightarrow> (string \<times> clock) option" where
  "chunk (Lit c) value k = (case skip c value of None \<Rightarrow> None | Some rest \<Rightarrow> Some (rest, k))"
| "chunk stdLongYear value k =
     (if length value < 4 then None
      else (case digits 0 (take 4 value) of None \<Rightarrow> None | Some y \<Rightarrow> Some (drop 4 value, k\<lparr>ck_year := y\<rparr>)))"
| "chunk stdMonth value k = ranged 1 12 (\<lambda>n. k\<lparr>ck_month := n\<rparr>) (getnum False value)"
| "chunk stdZeroMonth value k = ranged 1 12 (\<lambda>n. k\<lparr>ck_month := n\<rparr>) (getnum True value)"
| "chunk stdDay value k = ranged 0 99 (\<lambda>n. k\<lparr>ck_day := n\<rparr>) (getnum False value)"
| "chunk stdZeroDay value k = ranged 0 99 (\<lambda>n. k\<lparr>ck_day := n\<rparr>) (getnum True value)"
| "chunk stdHour value k = ranged 0 23 (\<lambda>n. k\<lparr>ck_hour := n\<rparr>) (getnum False value)"
| "chunk stdZeroMinute value k = ranged 0 59 (\<lambda>n. k\<lparr>ck_min := n\<rparr>) (getnum True value)"
| "chunk stdZeroSecond value k =
     (case ranged 0 59 (\<lambda>n. k\<lparr>ck_sec := n\<rparr>) (getnum True value) of
        None \<Rightarrow> None
      | Some (rest, k') \<Rightarrow> (case fraction rest of (ns, rest') \<Rightarrow> Some (rest', k'\<lparr>ck_nsec := ns\<rparr>)))"
| "chunk stdISO8601ColonTZ value k = (case zone value of None \<Rightarrow> None | Some (z, rest) \<Rightarrow> Some (rest, k\<lparr>ck_zone := z\<rparr>))"

fun parse :: "std list \<Rightarrow> string \<Rightarrow> clock \<Rightarrow> clock option" where
  "parse [] value k = (if value = [] then Some k else None)"
| "parse (c # cs) value k = (case chunk c value k of None \<Rightarrow> None | Some (rest, k') \<Rightarrow> parse cs rest k')"

definition daysIn :: "int \<Rightarrow> int \<Rightarrow> int" where
  "daysIn m y = month_lengths (is_leap y) ! nat (m - 1)"

definition day_ns :: duration where "day_ns = 86400 * time_Second"

definition clock_time :: "clock \<Rightarrow> time" where
  "clock_time k =
     day_number (ck_year k) (ck_month k) (ck_day k) * day_ns +
     (ck_hour k * 3600 + ck_min k * 60 + ck_sec k - ck_zone k) * time_Second + ck_nsec k"

definition ParseInLocation :: "std list \<Rightarrow> string \<Rightarrow> time result" where
  "ParseInLocation layout value =
     (case parse layout value \<lparr>ck_year = 0, ck_month = 1, ck_day = 1, ck_hour = 0, ck_min = 0, ck_sec = 0, ck_nsec = 0, ck_zone = 0\<rparr> of
        None \<Rightarrow> Inl (ErrMsg ''cannot parse'')
      | Some k \<Rightarrow>
          if ck_day k < 1 \<or> ck_day k > daysIn (ck_month k) (ck_year k) then Inl (ErrMsg ''day out of range'')
          else Inr (clock_time k))"

section \<open>The functions of timeutil\<close>

definition layout_date :: "std list" where
  "layout_date = [stdLongYear, Lit (CHR ''-''), stdZeroMonth, Lit (CHR ''-''), stdZeroDay]"

definition layout_clock :: "std list" where
  "layout_clock = [stdHour, Lit (CHR '':''), stdZeroMinute, Lit (CHR '':''), stdZeroSecond]"

definition RFC3339 :: "std list" where
  "RFC3339 = layout_date @ [Lit (CHR ''T'')] @ layout_clock @ [stdISO8601ColonTZ]"

fun parse_first :: "string \<Rightarrow> std list list \<Rightarrow> time result" where
  "parse_first value [] = Inl (ErrMsg ''unable to parse time'')"
| "parse_first value (l # ls) = (case ParseInLocation l value of Inr t \<Rightarrow> Inr t | Inl _ \<Rightarrow> parse_first value ls)"

definition ParseFirstUTC :: "string \<Rightarrow> std list list \<Rightarrow> time result" where
  "ParseFirstUTC s layouts =
     (let value = TrimSpace s in if value = [] then Inl (ErrMsg ''time value is empty'') else parse_first value layouts)"

definition ParseRFC3339UTC :: "string \<Rightarrow> time result" where
  "ParseRFC3339UTC value = ParseFirstUTC (TrimSpace value) [RFC3339]"

definition ParseDateUTC :: "string \<Rightarrow> time result" where
  "ParseDateUTC s =
     (let value = TrimSpace s in if value = [] then Inl (ErrMsg ''date is empty'') else ParseInLocation layout_date value)"

definition ParseDateOrRFC3339UTC :: "string \<Rightarrow> time result" where
  "ParseDateOrRFC3339UTC value = ParseFirstUTC (TrimSpace value) [RFC3339, layout_date]"


section \<open>Reading back what was written\<close>

text \<open>Only a leap year has a day 365, so that month and day of a date are within the calendar.\<close>

lemma year_yday_leap:
  assumes "0 \<le> n" "year_yday n = (y, yd)"
  shows "yd < sum_list (month_lengths (is_leap y))"
proof -
  define a where "a = n div 146097"
  define d1 where "d1 = n mod 146097"
  define b where "b = min 3 (d1 div 36524)"
  define d2 where "d2 = d1 - 36524 * b"
  define c where "c = d2 div 1461"
  define d3 where "d3 = d2 mod 1461"
  define e where "e = min 3 (d3 div 365)"
  have "year_yday n = (400 * a + 100 * b + 4 * c + e + 1, d3 - 365 * e)"
    unfolding year_yday_def Let_def a_def d1_def b_def d2_def c_def d3_def e_def by (rule refl)
  with assms(2) have y: "y = 400 * a + 100 * b + 4 * c + e + 1" "yd = d3 - 365 * e" by simp_all
  have d1: "0 \<le> d1" "d1 < 146097" by (simp_all add: d1_def)
  have d1': "36524 * (d1 div 36524) \<le> d1" "d1 < 36524 * (d1 div 36524) + 36524"
    using div_mult_mod_eq [of d1 36524] pos_mod_bound [of 36524 d1] pos_mod_sign [of 36524 d1] by linarith+
  have b: "0 \<le> b" "b \<le> 3" using d1 by (auto simp: b_def)
  have d2: "0 \<le> d2" "d2 \<le> 36524" "b < 3 \<Longrightarrow> d2 < 36524"
    using d1 d1' unfolding d2_def b_def min_def by (simp_all split: if_splits)
  have c: "0 \<le> c" "c \<le> 24" and d3: "0 \<le> d3" "d3 < 1461" using d2(1, 2) by (simp_all add: c_def d3_def)
  have d2': "d2 = 1461 * c + d3" using mult_div_mod_eq [of 1461 d2] unfolding c_def d3_def by (rule sym)
  have d3': "365 * (d3 div 365) \<le> d3" "d3 < 365 * (d3 div 365) + 365"
    using div_mult_mod_eq [of d3 365] pos_mod_bound [of 365 d3] pos_mod_sign [of 365 d3] by linarith+
  have yd: "yd \<le> 365" "e < 3 \<Longrightarrow> yd < 365" "e \<le> 3" "0 \<le> e"
    using d3 d3' unfolding y(2) e_def min_def by (simp_all split: if_splits)
  show ?thesis
  proof (cases "yd = 365")
    case True
    then have e: "e = 3" "d3 = 1460" using yd y(2) by linarith+
    have y4: "y = 4 * (100 * a + 25 * b + c + 1)" using y(1) e(1) by simp
    have "is_leap y"
    proof (cases "c = 24")
      case True
      then have "\<not> b < 3" using d2(3) d2' e(2) by linarith
      then have "y = 400 * (a + 1)" using y4 b True by simp
      then show ?thesis by (simp add: is_leap_def)
    next
      case False
      have "y = (4 * c + 4) + 100 * (4 * a + b)" using y4 by simp
      then have "y mod 100 = (4 * c + 4) mod 100" by (simp only: mod_mult_self2)
      also have "\<dots> = 4 * c + 4" using c False by simp
      finally show ?thesis using c y4 by (simp add: is_leap_def)
    qed
    with True show ?thesis by (simp add: month_lengths_def)
  next
    case False
    with yd(1) show ?thesis by (simp add: month_lengths_def)
  qed
qed

lemma month_day_in_month:
  "month_day ls m d = (m', d') \<Longrightarrow> 0 \<le> d \<Longrightarrow> d < sum_list ls \<Longrightarrow>
     m \<le> m' \<and> m' < m + int (length ls) \<and> 1 \<le> d' \<and> d' \<le> ls ! nat (m' - m)"
proof (induction ls m d rule: month_day.induct)
  case (2 l ls m d)
  show ?case
  proof (cases "d < l")
    case True
    with 2 show ?thesis by auto
  next
    case False
    with 2 have IH: "m + 1 \<le> m'" "m' < m + 1 + int (length ls) \<and> 1 \<le> d' \<and> d' \<le> ls ! nat (m' - (m + 1))" by simp_all
    then have "nat (m' - m) = Suc (nat (m' - (m + 1)))" by simp
    with IH show ?thesis by simp
  qed
qed simp

lemma civil_in_calendar:
  assumes "0 \<le> n" "civil n = (y, m, d)"
  shows "1 \<le> m" "m \<le> 12" "1 \<le> d" "d \<le> daysIn m y"
proof -
  obtain yd where yd: "year_yday n = (y, yd)" "month_day (month_lengths (is_leap y)) 1 yd = (m, d)"
    using assms(2) by (auto simp: civil_def split: prod.splits)
  from month_day_in_month [OF yd(2) year_yday_sum(2) [OF assms(1) yd(1)] year_yday_leap [OF assms(1) yd(1)]]
  show "1 \<le> m" "m \<le> 12" "1 \<le> d" "d \<le> daysIn m y" by (simp_all add: daysIn_def month_lengths_def)
qed


text \<open>What is written with a fixed number of digits is read as the same number.\<close>

lemma digit_char_of: "0 \<le> n \<Longrightarrow> n < 10 \<Longrightarrow> digit (char_of (48 + n)) = Some n"
  by (simp add: digit_def Let_def)

lemma digits_append: "digits acc (xs @ ys) = (case digits acc xs of None \<Rightarrow> None | Some a \<Rightarrow> digits a ys)"
  by (induction xs arbitrary: acc) (simp_all split: option.split)

lemma digits_pad: "0 \<le> n \<Longrightarrow> n < 10 ^ w \<Longrightarrow> digits acc (pad_digits w n) = Some (acc * 10 ^ w + n)"
proof (induction w arbitrary: n)
  case (Suc w)
  have "digits acc (pad_digits w (n div 10)) = Some (acc * 10 ^ w + n div 10)" using Suc by simp
  moreover have "10 * (acc * 10 ^ w + n div 10) + n mod 10 = acc * 10 ^ Suc w + n"
    using mult_div_mod_eq [of 10 n] by (simp add: algebra_simps)
  ultimately show ?case by (simp add: digits_append digit_char_of)
qed simp

lemma getnum_pad: "0 \<le> n \<Longrightarrow> n < 100 \<Longrightarrow> getnum fixed (pad_digits 2 n @ r) = Some (n, r)"
  using mult_div_mod_eq [of 10 n] by (simp add: numeral_2_eq_2 digit_char_of)

lemma chunk_year: "0 \<le> y \<Longrightarrow> y < 10000 \<Longrightarrow> chunk stdLongYear (pad_digits 4 y @ r) k = Some (r, k\<lparr>ck_year := y\<rparr>)"
  by (simp add: digits_pad)

lemma digit_colon [simp]: "digit (CHR ''Z'') = None" "digit (CHR '':'') = None" by (simp_all add: digit_def Let_def)

lemma all_digits_pad: "\<forall>c \<in> set (pad_digits w n). digit c \<noteq> None"
  by (induction w arbitrary: n) (auto simp: digit_char_of)

lemma trim_zeros_append: "\<exists>j. s = trim_zeros s @ replicate j (CHR ''0'')"
proof -
  let ?z = "takeWhile (\<lambda>c. c = CHR ''0'') (rev s)"
  have "?z = replicate (length ?z) (CHR ''0'')"
    by (rule replicate_length_same [symmetric]) (auto dest: set_takeWhileD)
  moreover have "s = trim_zeros s @ rev ?z" by (metis rev_append rev_rev_ident takeWhile_dropWhile_id trim_zeros_def)
  ultimately show ?thesis by (metis rev_replicate)
qed

lemma digits_zeros: "digits acc (replicate j (CHR ''0'')) = Some (acc * 10 ^ j)"
  by (induction j arbitrary: acc) (simp_all add: digit_def Let_def algebra_simps)

lemma parseNanoseconds_trim:
  assumes "0 \<le> n" "n < 10 ^ 9"
  shows "parseNanoseconds (trim_zeros (pad_digits 9 n)) = n"
proof -
  let ?s = "pad_digits 9 n"
  obtain j where j: "?s = trim_zeros ?s @ replicate j (CHR ''0'')" using trim_zeros_append by blast
  from arg_cong [OF j, of length] have len: "length (trim_zeros ?s) = 9 - j" "j \<le> 9" by simp_all
  have "digits 0 (trim_zeros ?s @ replicate j (CHR ''0'')) = Some n"
    using digits_pad [of n 9 0] assms j by simp
  then obtain a where "digits 0 (trim_zeros ?s) = Some a" "a * 10 ^ j = n"
    by (auto simp: digits_append digits_zeros split: option.splits)
  with len show ?thesis by (simp add: parseNanoseconds_def)
qed

lemma fraction_written:
  assumes "0 \<le> n" "n < 10 ^ 9"
  defines "frac \<equiv> trim_zeros (pad_digits 9 n)"
  shows "fraction ((if frac = [] then [] else ''.'' @ frac) @ ''Z'') = (n, ''Z'')"
proof -
  have "set frac \<subseteq> set (pad_digits 9 n)" using trim_zeros_append [of "pad_digits 9 n"] unfolding frac_def by (metis set_append sup_ge1)
  then have "takeWhile (\<lambda>c. digit c \<noteq> None) (frac @ ''Z'') = frac"
    using all_digits_pad by (subst takeWhile_append2) (auto dest: subsetD)
  moreover have "parseNanoseconds frac = n" unfolding frac_def by (rule parseNanoseconds_trim [OF assms(1, 2)])
  ultimately show ?thesis by (cases "frac = []") (simp_all add: fraction_def Let_def parseNanoseconds_def)
qed

text \<open>The elements of the layout one after the other.\<close>

lemma parse_written:
  assumes "0 \<le> y" "y < 10000" "1 \<le> m" "m \<le> 12" "0 \<le> d" "d < 100" "0 \<le> h" "h < 24" "0 \<le> i" "i < 60" "0 \<le> s" "s < 60"
    and "fraction r = (n, ''Z'')"
  shows "parse RFC3339 (pad_digits 4 y @ ''-'' @ pad_digits 2 m @ ''-'' @ pad_digits 2 d @ ''T'' @
      pad_digits 2 h @ '':'' @ pad_digits 2 i @ '':'' @ pad_digits 2 s @ r) k =
    Some \<lparr>ck_year = y, ck_month = m, ck_day = d, ck_hour = h, ck_min = i, ck_sec = s, ck_nsec = n, ck_zone = 0\<rparr>"
  using assms
  by (simp add: RFC3339_def layout_date_def layout_clock_def chunk_year getnum_pad ranged_def skip_def zone_def del: chunk.simps(2))

lemma daysIn_le:
  assumes "1 \<le> m" "m \<le> 12"
  shows "daysIn m y \<le> 31"
proof -
  have "daysIn m y \<in> set (month_lengths (is_leap y))"
    unfolding daysIn_def using assms by (intro nth_mem) (simp add: month_lengths_def)
  then show ?thesis by (auto simp: month_lengths_def)
qed

lemma day_and_clock: "(a * 86400 + b) * time_Second + n = t \<Longrightarrow> a * day_ns + (b - 0) * time_Second + n = t"
  by (simp add: day_ns_def distrib_right)

lemma clock_of_seconds:
  fixes x :: int
  shows "0 \<le> x mod 86400 div 3600" "x mod 86400 div 3600 < 24" "0 \<le> x mod 86400 mod 3600 div 60"
    "x mod 86400 mod 3600 div 60 < 60" "0 \<le> x mod 86400 mod 60" "x mod 86400 mod 60 < 60"
    "x div 86400 * 86400 + (x mod 86400 div 3600 * 3600 + x mod 86400 mod 3600 div 60 * 60 + x mod 86400 mod 60) = x"
proof -
  define r where "r = x mod 86400"
  define q where "q = r mod 3600"
  have r: "0 \<le> r" "r < 86400" and q: "0 \<le> q" "q < 3600" by (simp_all add: r_def q_def)
  have "q mod 60 = r mod 60" unfolding q_def by (rule mod_mod_cancel) simp
  then have "r div 3600 * 3600 + q div 60 * 60 + r mod 60 = r"
    using div_mult_mod_eq [of q 60] div_mult_mod_eq [of r 3600] unfolding q_def by linarith
  then show "x div 86400 * 86400 + (x mod 86400 div 3600 * 3600 + x mod 86400 mod 3600 div 60 * 60 + x mod 86400 mod 60) = x"
    using div_mult_mod_eq [of x 86400] unfolding r_def q_def by linarith
  show "0 \<le> x mod 86400 div 3600" "x mod 86400 div 3600 < 24" "0 \<le> x mod 86400 mod 3600 div 60"
    "x mod 86400 mod 3600 div 60 < 60" "0 \<le> x mod 86400 mod 60" "x mod 86400 mod 60 < 60"
    using r q unfolding r_def q_def by (simp_all add: pos_imp_zdiv_nonneg_iff)
qed

lemma ParseInLocation_format:
  assumes "0 \<le> t" "t < year_10000"
  shows "ParseInLocation RFC3339 (format_RFC3339Nano t) = Inr t"
proof -
  let ?x = "t div time_Second" and ?n = "t mod time_Second"
  obtain y m d where c: "civil (?x div 86400) = (y, m, d)" by (metis prod_cases3)
  have day: "0 \<le> ?x div 86400" "?x div 86400 < 3652059" using assms by (simp_all add: year_10000_def time_Second_def)
  note b = civil_day_number [OF day(1) c] and l = civil_in_calendar [OF day(1) c] and k = clock_of_seconds [of ?x]
  have d: "0 \<le> d" "d < 100" using l(3, 4) daysIn_le [OF l(1, 2), of y] by linarith+
  have y: "0 \<le> y" "y < 10000" using b(6) civil_year [OF day c] by linarith+
  have n: "0 \<le> ?n" "?n < 10 ^ 9" by (simp_all add: time_Second_def)
  have "parse RFC3339 (format_RFC3339Nano t) k0 =
      Some \<lparr>ck_year = y, ck_month = m, ck_day = d, ck_hour = ?x mod 86400 div 3600, ck_min = ?x mod 86400 mod 3600 div 60,
            ck_sec = ?x mod 86400 mod 60, ck_nsec = ?n, ck_zone = 0\<rparr>" for k0
    using parse_written [OF y l(1, 2) d k(1-6) fraction_written [OF n], of k0]
    unfolding format_RFC3339Nano_def format_seconds_def Let_def c prod.case append_assoc .
  moreover have "?x div 86400 * day_ns + (?x mod 86400 div 3600 * 3600 + ?x mod 86400 mod 3600 div 60 * 60 + ?x mod 86400 mod 60 - 0) * time_Second + ?n = t"
  proof (rule day_and_clock)
    show "(?x div 86400 * 86400 + (?x mod 86400 div 3600 * 3600 + ?x mod 86400 mod 3600 div 60 * 60 + ?x mod 86400 mod 60)) * time_Second + ?n = t"
      unfolding k(7) by (rule div_mult_mod_eq)
  qed
  ultimately show ?thesis using l(3, 4) b(1) by (simp only: ParseInLocation_def clock_time_def option.case clock.select_convs not_less [symmetric] simp_thms if_False)
qed


lemma format_seconds_hd: "\<exists>c r. format_seconds t = c # r \<and> \<not> is_space c"
proof -
  obtain y m d where c: "civil (t div time_Second div 86400) = (y, m, d)" by (metis prod_cases3)
  have p: "pad_digits 4 y = char_of (48 + y div 10 div 10 div 10 mod 10) # tl (pad_digits 4 y)" by (simp add: numeral_eq_Suc)
  have "\<not> is_space (char_of (48 + n mod 10 :: int))" for n
  proof -
    have "digit (char_of (48 + n mod 10)) = Some (n mod 10)" by (rule digit_char_of) simp_all
    then have "48 \<le> (of_char (char_of (48 + n mod 10 :: int) :: char) :: int)" by (simp add: digit_def Let_def split: if_splits)
    then have "48 \<le> (of_char (char_of (48 + n mod 10 :: int) :: char) :: nat)" by (metis of_nat_le_iff of_nat_numeral of_nat_of_char)
    then show ?thesis by (simp add: is_space_def Let_def)
  qed
  then show ?thesis unfolding format_seconds_def Let_def c prod.case by (subst p) simp
qed

text \<open>
  C40: reading undoes writing. A time from the year 1 to the year 9999 that is printed in RFC3339 with nanoseconds is read
  back by the functions of \<^verbatim>\<open>timeutil\<close> as the same time, to the nanosecond.
\<close>

theorem ParseRFC3339UTC_format:
  assumes "0 \<le> t" "t < year_10000"
  shows "ParseRFC3339UTC (format_RFC3339Nano t) = Inr t \<and> ParseDateOrRFC3339UTC (format_RFC3339Nano t) = Inr t"
proof -
  obtain c r where "format_seconds t = c # r" "\<not> is_space c" using format_seconds_hd by blast
  then have s: "TrimSpace (format_RFC3339Nano t) = format_RFC3339Nano t" "format_RFC3339Nano t \<noteq> []"
    by (auto simp: format_RFC3339Nano_def Let_def is_space_def intro!: TrimSpace_none)
  with ParseInLocation_format [OF assms] show ?thesis
    by (simp add: ParseRFC3339UTC_def ParseDateOrRFC3339UTC_def ParseFirstUTC_def Let_def)
qed

theorem ParseRFC3339UTC_format_witness:
  "format_RFC3339Nano (63713433600 * time_Second + 5000000) = ''2020-01-01T00:00:00.005Z'' \<and>
   ParseRFC3339UTC ''2020-01-01T00:00:00.005Z'' = Inr (63713433600 * time_Second + 5000000)"
proof -
  have f: "format_RFC3339Nano (63713433600 * time_Second + 5000000) = ''2020-01-01T00:00:00.005Z''" by code_simp
  have "0 \<le> 63713433600 * time_Second + 5000000" "63713433600 * time_Second + 5000000 < year_10000" by code_simp+
  from ParseRFC3339UTC_format [OF this] f show ?thesis by simp
qed

end
