(* ===== verification/CCBill_Values.thy ===== *)
theory CCBill_Values
  imports Money Catalog Idempotency Time_Parsing
begin

text \<open>
  The values in CCBill's webhooks, \<^verbatim>\<open>internal/modules/webhooks/ccbill.go\<close>: dates without a time of day, amounts as decimal
  text, the tolerance of two per cent, currencies, forms, and which errors are worth a retry.
\<close>

section \<open>Dates\<close>

definition parseCCBillDate :: "string \<Rightarrow> time result" where
  "parseCCBillDate dateStr = ParseDateUTC dateStr"

definition parseCCBillDateUsingTimestamp :: "string \<Rightarrow> time option result" where
  "parseCCBillDateUsingTimestamp dateStr =
     (if TrimSpace dateStr = [] then Inr None
      else (case parseCCBillDate dateStr of
              Inl e \<Rightarrow> Inl e
            | Inr d \<Rightarrow> Inr (Some (d + 86399 * time_Second))))"

section \<open>Amounts\<close>

text \<open>
  \<^verbatim>\<open>float64\<close> values that are not negative, as integers with a fixed scale: a number is rounded to 53 significant bits, ties to
  even. The constant \<open>0.02\<close> is \<open>5764607523034235 / 2 ^ 58\<close>; none of the products leaves the normal range.
\<close>

function bits :: "int \<Rightarrow> nat" where
  "bits n = (if n \<le> 0 then 0 else Suc (bits (n div 2)))"
  by auto

termination by (relation "measure nat") auto

declare bits.simps [simp del]

definition round53 :: "int \<Rightarrow> int" where
  "round53 n =
     (let h = 2 ^ (bits n - 53); q = n div h; r = n mod h
      in if 2 * r > h \<or> 2 * r = h \<and> odd q then (q + 1) * h else q * h)"

definition tolerance :: "int \<Rightarrow> int" where
  "tolerance expectedAmountCents =
     sgn expectedAmountCents * (round53 (round53 \<bar>expectedAmountCents\<bar> * 5764607523034235) div 2 ^ 58)"

definition validateCCBillBilledAmount :: "int \<Rightarrow> int \<Rightarrow> unit result" where
  "validateCCBillBilledAmount billed expected =
     (if billed \<ge> i64 (expected - tolerance expected) \<and> billed \<le> i64 (expected + tolerance expected) then Inr ()
      else Inl (BillingError ''amount_mismatch'' ''Billed amount does not match expected price''))"

text \<open>The text of an amount in an error is quoted.\<close>

definition quoted :: "string \<Rightarrow> string" where
  "quoted s = [CHR 0x27] @ s @ [CHR 0x27]"

definition parseCCBillPositiveAmountCents ::
  "(string \<Rightarrow> rat option) \<Rightarrow> string \<Rightarrow> string \<Rightarrow> string \<Rightarrow> int result" where
  "parseCCBillPositiveAmountCents SetString rawAmount parseFieldName invalidFieldName =
     (case ParseDecimalToCents SetString rawAmount of
        Inl e \<Rightarrow> Inl (ErrWrap (''failed to parse '' @ parseFieldName @ '' '' @ quoted rawAmount) e)
      | Inr amountCents \<Rightarrow>
          if amountCents \<le> 0
          then Inl (ErrMsg (''invalid '' @ invalidFieldName @ '': '' @ decimal_int amountCents @ '' cents - must be greater than 0''))
          else Inr amountCents)"

definition requireCCBillCurrency :: "string \<Rightarrow> string result" where
  "requireCCBillCurrency currencyCode =
     (let normalized = ToLower (TrimSpace currencyCode)
      in if normalized = [] then Inl (BillingError ''validation_error'' ''missing required currency code'')
         else Inr normalized)"

definition ensureFlexFormMatches :: "price \<Rightarrow> string \<Rightarrow> string \<Rightarrow> unit result" where
  "ensureFlexFormMatches price flexID formName =
     (case GetCCBillFlexForm price of
        (expectedFormName, expectedFlexID, ok) \<Rightarrow>
          if \<not> ok then Inl (ErrMsg ''price is missing CCBill flexform configuration'')
          else if TrimSpace flexID \<noteq> expectedFlexID
          then Inl (ErrMsg (''payment form id mismatch: got '' @ flexID @ '', want '' @ expectedFlexID))
          else if TrimSpace formName \<noteq> expectedFormName
          then Inl (ErrMsg (''payment form name mismatch: got '' @ formName @ '', want '' @ expectedFormName))
          else Inr ())"

section \<open>Errors worth a retry\<close>

text \<open>
  \<^verbatim>\<open>Error()\<close>: the text of an error. The texts of the errors of the database driver and of panics are the
  argument \<open>driver\<close>.
\<close>

fun Error :: "(go_error \<Rightarrow> string) \<Rightarrow> go_error \<Rightarrow> string" where
  "Error driver (ErrMsg m) = m"
| "Error driver (ErrWrap m e) = m @ '': '' @ Error driver e"
| "Error driver (NonRetryableWebhookError e) = Error driver e"
| "Error driver (BillingError t m) = t @ '': '' @ m"
| "Error driver ErrNoRows = ''sql: no rows in result set''"
| "Error driver ErrInsufficientCredits = ''insufficient_credits''"
| "Error driver ErrCreditTypeInactive = ''credit_type_inactive''"
| "Error driver ErrActiveSubscriptionExists = ''active or pending subscription already exists for this product''"
| "Error driver (ErrTerminalTransitionBlocked t) = ''terminal-to-active transition blocked by lifecycle policy: trigger='' @ t"
| "Error driver e = driver e"

text \<open>\<^verbatim>\<open>errors.As\<close> with a \<^verbatim>\<open>BillingError\<close>: the type of the first one in the chain.\<close>

fun billing_error :: "go_error \<Rightarrow> string option" where
  "billing_error (BillingError t m) = Some t"
| "billing_error (ErrWrap m e) = billing_error e"
| "billing_error (NonRetryableWebhookError e) = billing_error e"
| "billing_error e = None"

definition nonretryable_text :: "string \<Rightarrow> bool" where
  "nonretryable_text msg \<longleftrightarrow>
     list_ex (Contains msg) [''failed to parse billedinitialprice'', ''failed to parse billedamount'', ''invalid billedamount'',
       ''failed to parse nextrenewaldate'', ''payment form id mismatch'', ''payment form name mismatch'']"

definition shouldTreatCCBillErrorAsNonRetryable :: "(go_error \<Rightarrow> string) \<Rightarrow> go_error \<Rightarrow> bool" where
  "shouldTreatCCBillErrorAsNonRetryable driver err =
     (let rest = (if errors_Is err ErrNoRows then False else nonretryable_text (ToLower (Error driver err)))
      in case billing_error err of
           Some t \<Rightarrow>
             if t \<in> {''validation_error'', ''amount_mismatch'', ''duplicate_transaction'', ''invalid_status_change''} then True
             else if t \<in> {''business_logic_error'', ''database_error'', ''not_found''} then False
             else rest
         | None \<Rightarrow> rest)"

definition wrapCCBillWebhookErrorForRetry :: "(go_error \<Rightarrow> string) \<Rightarrow> unit result \<Rightarrow> unit result" where
  "wrapCCBillWebhookErrorForRetry driver r =
     (case r of
        Inr u \<Rightarrow> Inr u
      | Inl (NilDeref m) \<Rightarrow> Inl (NilDeref m)
      | Inl e \<Rightarrow> if shouldTreatCCBillErrorAsNonRetryable driver e then Inl (MarkWebhookErrorNonRetryable e) else Inl e)"


section \<open>The tolerance\<close>

lemma bits_le: "n < 2 ^ k \<Longrightarrow> bits n \<le> k"
proof (induction k arbitrary: n)
  case 0
  then show ?case by (simp add: bits.simps)
next
  case (Suc k)
  show ?case
  proof (cases "n \<le> 0")
    case False
    have "n div 2 < 2 ^ k" using Suc.prems by simp
    then have "bits (n div 2) \<le> k" by (rule Suc.IH)
    with False show ?thesis by (simp add: bits.simps [of n])
  qed (simp add: bits.simps)
qed

lemma round53_exact: "n < 2 ^ 53 \<Longrightarrow> round53 n = n"
  using bits_le [of n 53] by (simp add: round53_def Let_def)

lemma round53_cases:
  obtains h where "h = 2 ^ (bits n - 53)" "round53 n \<in> {n div h * h, (n div h + 1) * h}" "2 * round53 n \<le> 2 * n + h"
proof -
  let ?h = "2 ^ (bits n - 53) :: int"
  have n: "n = n div ?h * ?h + n mod ?h" by (rule div_mult_mod_eq [symmetric])
  have "2 * round53 n \<le> 2 * n + ?h"
  proof (cases "2 * (n mod ?h) > ?h \<or> 2 * (n mod ?h) = ?h \<and> odd (n div ?h)")
    case True
    then have "round53 n = n div ?h * ?h + ?h" by (simp add: round53_def Let_def algebra_simps)
    with n True show ?thesis by linarith
  next
    case False
    then have "round53 n = n div ?h * ?h" by (simp add: round53_def Let_def)
    moreover have "0 \<le> n mod ?h" "0 < ?h" by simp_all
    ultimately show ?thesis using n by linarith
  qed
  then show thesis by (intro that [of ?h]) (auto simp: round53_def Let_def)
qed

lemma round53_ge:
  assumes "c * 2 ^ j \<le> n" "bits n - 53 \<le> j"
  shows "c * 2 ^ j \<le> round53 n"
proof -
  obtain h where h: "h = 2 ^ (bits n - 53)" "round53 n \<in> {n div h * h, (n div h + 1) * h}" by (rule round53_cases)
  have pos: "0 < h" by (simp add: h(1))
  obtain d where j: "j = bits n - 53 + d" using assms(2) le_Suc_ex by blast
  have c: "c * 2 ^ j = c * 2 ^ d * h" by (simp add: h(1) j power_add)
  have "c * 2 ^ d \<le> n div h" using assms(1) pos unfolding c by (metis pos_zdiv_mult_2 nonzero_mult_div_cancel_right order_less_irrefl zdiv_mono1)
  then have "c * 2 ^ d * h \<le> n div h * h" using pos by (simp add: mult_right_mono)
  moreover have "n div h * h \<le> round53 n" using h(2) pos by (auto simp: algebra_simps)
  ultimately show ?thesis unfolding c by (rule order_trans)
qed

lemma tolerance_div_50:
  assumes "0 \<le> x" "x < 2 ^ 52"
  shows "tolerance x = x div 50"
proof -
  define k where "k = x div 50"
  have k: "50 * k \<le> x" "x \<le> 50 * k + 49" unfolding k_def by linarith+
  let ?n = "x * 5764607523034235"
  have n: "50 * ?n = x * 2 ^ 58 + 6 * x" by simp
  have "?n < 2 ^ 105" using assms by simp
  then have b: "bits ?n \<le> 105" by (rule bits_le)
  obtain h where h: "h = 2 ^ (bits ?n - 53)" "2 * round53 ?n \<le> 2 * ?n + h" by (rule round53_cases)
  have "h \<le> 2 ^ 52" unfolding h(1) using b by (intro power_increasing) simp_all
  with h(2) n k(2) assms have "round53 ?n < (k + 1) * 2 ^ 58" by simp
  moreover have "k * 2 ^ 58 \<le> round53 ?n"
  proof (rule round53_ge)
    show "k * 2 ^ 58 \<le> ?n" using n k(1) assms(1) by simp
  qed (use b in simp)
  ultimately have "round53 ?n div 2 ^ 58 = k" by (intro int_div_pos_eq [of _ _ _ "round53 ?n - k * 2 ^ 58"]) (simp_all add: algebra_simps)
  moreover have "round53 \<bar>x\<bar> = x" using assms by (simp add: round53_exact)
  ultimately show ?thesis using assms(1) unfolding tolerance_def k_def by (cases "x = 0") simp_all
qed

text \<open>
  C24: the tolerance that the code computes in floating point is exactly one fiftieth of the price, rounded down to whole
  cents, for every price below 2 ^ 52 cents: no rounding of \<open>0.02\<close> or of the product shows.
\<close>

theorem tolerance_is_two_percent:
  assumes "0 \<le> x" "x < 2 ^ 52"
  shows "tolerance x = x div 50"
  using assms by (rule tolerance_div_50)

theorem tolerance_is_two_percent_witness: "tolerance 1999 = 39"
  using tolerance_is_two_percent [of 1999] by simp

end
