(* ===== verification/Processor_Customers.thy ===== *)
theory Processor_Customers
  imports Sql_Table Catalog
begin

text \<open>
  The customers that processors know users as, \<^verbatim>\<open>internal/db/models/processor_customer.go\<close> and
  \<^verbatim>\<open>internal/modules/payments/processor_customer_service.go\<close>, with the constraints of the migration 009. The model is inserted
  with the zero UUID as its key. Whether the ORM leaves such a key to the default of the column or writes it
  is third-party behaviour: the argument \<open>row_id\<close> is the key that the database sees.
\<close>

section \<open>Rows and constraints\<close>

record processor_customer =
  pc_ID :: uuid
  pc_UserID :: string
  pc_Processor :: string
  pc_CustomerID :: string
  pc_CreatedAt :: time
  pc_UpdatedAt :: time

definition pc_clash :: "processor_customer \<Rightarrow> processor_customer \<Rightarrow> string option" where
  "pc_clash a b =
     (if pc_ID a = pc_ID b then Some ''processor_customers_pkey''
      else if pc_UserID a = pc_UserID b \<and> pc_Processor a = pc_Processor b then Some ''processor_customers_user_id_processor_key''
      else if pc_Processor a = pc_Processor b \<and> pc_CustomerID a = pc_CustomerID b then Some ''processor_customers_processor_customer_id_key''
      else None)"

abbreviation customers_ok :: "processor_customer list \<Rightarrow> bool" where
  "customers_ok \<equiv> tbl_ok (\<lambda>_. None) pc_clash"

section \<open>Service\<close>

abbreviation customer_of :: "string \<Rightarrow> string \<Rightarrow> processor_customer \<Rightarrow> bool" where
  "customer_of u p c \<equiv> pc_UserID c = u \<and> pc_Processor c = p"

text \<open>\<^verbatim>\<open>INSERT ... ON CONFLICT (user_id, processor) DO UPDATE\<close>; a conflict with another index is an error.\<close>

definition Upsert :: "uuid \<Rightarrow> time \<Rightarrow> string \<Rightarrow> string \<Rightarrow> string \<Rightarrow> processor_customer list \<Rightarrow> processor_customer list result" where
  "Upsert row_id now userID processor customerID rows =
     (let u = TrimSpace userID; p = TrimSpace processor; c = TrimSpace customerID in
      if u = [] \<or> p = [] \<or> c = [] then Inl (ErrMsg ''invalid processor customer args'')
      else if list_ex (customer_of u p) rows
           then tbl_update (\<lambda>_. None) pc_clash (customer_of u p) (\<lambda>r. r\<lparr>pc_CustomerID := c, pc_UpdatedAt := now\<rparr>) rows
           else tbl_insert (\<lambda>_. None) pc_clash
                  \<lparr>pc_ID = row_id, pc_UserID = u, pc_Processor = p, pc_CustomerID = c, pc_CreatedAt = now, pc_UpdatedAt = now\<rparr> rows)"

definition GetCustomerID :: "string \<Rightarrow> string \<Rightarrow> processor_customer list \<Rightarrow> string result" where
  "GetCustomerID userID processor rows =
     (let u = TrimSpace userID; p = TrimSpace processor in
      if u = [] \<or> p = [] then Inl (ErrMsg ''invalid processor customer args'')
      else map_sum id pc_CustomerID (sql_find (customer_of u p) rows))"

section \<open>Reading after writing\<close>

interpretation customers: constrained_table "\<lambda>_ :: processor_customer. None :: string option" pc_clash
  by unfold_locales (auto simp: pc_clash_def split: if_splits)

lemma Upsert_ok:
  assumes "customers_ok rows" "Upsert row_id now u p c rows = Inr rows'"
  shows "customers_ok rows'"
  using assms by (auto simp: Upsert_def Let_def split: if_split_asm intro: customers.insert_ok customers.update_ok)

lemma find_sql_update:
  "(\<And>r. r \<in> set rows \<Longrightarrow> P (f r) = P r) \<Longrightarrow> find P (sql_update P f rows) = map_option f (find P rows)"
  by (induction rows) (auto simp: sql_update_def)

lemma find_sql_update_other:
  "(\<And>r. Q r \<Longrightarrow> \<not> P r) \<Longrightarrow> (\<And>r. P r \<Longrightarrow> \<not> Q (f r)) \<Longrightarrow> find Q (sql_update P f rows) = find Q rows"
  by (induction rows) (auto simp: sql_update_def)

lemma find_snoc_other: "\<not> Q x \<Longrightarrow> find Q (rows @ [x]) = find Q rows"
  by (induction rows) auto

text \<open>
  A recorded customer is read back. After a successful \<^verbatim>\<open>Upsert\<close> the processor's customer of the user is the one given, without
  surrounding space, whether or not there was one before, and that of any other user or processor is what it was.
\<close>

theorem GetCustomerID_Upsert:
  assumes "Upsert row_id now u p c rows = Inr rows'"
  shows "GetCustomerID u p rows' = Inr (TrimSpace c) \<and>
    ((TrimSpace u', TrimSpace p') \<noteq> (TrimSpace u, TrimSpace p) \<longrightarrow> GetCustomerID u' p' rows' = GetCustomerID u' p' rows)"
proof (cases "list_ex (customer_of (TrimSpace u) (TrimSpace p)) rows")
  case True
  let ?P = "customer_of (TrimSpace u) (TrimSpace p)" and ?f = "\<lambda>r. r\<lparr>pc_CustomerID := TrimSpace c, pc_UpdatedAt := now\<rparr>"
  from True obtain r where "find ?P rows = Some r" by (metis (no_types, lifting) find_None_iff list_ex_iff not_None_eq)
  moreover from assms True have "rows' = sql_update ?P ?f rows" "TrimSpace u \<noteq> []" "TrimSpace p \<noteq> []"
    by (auto simp: Upsert_def Let_def split: if_split_asm dest: tbl_update_Inr)
  moreover have "find (customer_of a b) (sql_update ?P ?f rows) = find (customer_of a b) rows" if "(a, b) \<noteq> (TrimSpace u, TrimSpace p)" for a b
    by (rule find_sql_update_other) (use that in auto)
  ultimately show ?thesis
    by (auto simp: GetCustomerID_def Let_def sql_find_def find_sql_update)
next
  case False
  with assms have "rows' = rows @ [\<lparr>pc_ID = row_id, pc_UserID = TrimSpace u, pc_Processor = TrimSpace p, pc_CustomerID = TrimSpace c,
      pc_CreatedAt = now, pc_UpdatedAt = now\<rparr>]" "TrimSpace u \<noteq> []" "TrimSpace p \<noteq> []"
    by (auto simp: Upsert_def Let_def tbl_insert_Inr split: if_split_asm)
  moreover from False have "find (customer_of (TrimSpace u) (TrimSpace p)) rows = None" by (simp add: find_None_iff list_ex_iff)
  moreover have "find (customer_of a b) (rows @ [x]) = find (customer_of a b) rows" if "\<not> customer_of a b x" for a b x
    using that by (rule find_snoc_other)
  ultimately show ?thesis by (auto simp: GetCustomerID_def Let_def sql_find_def find_append_None)
qed

theorem GetCustomerID_Upsert_witness:
  "GetCustomerID ''u'' ''stripe'' (projr (Upsert 1 5 ''u'' ''stripe'' '' cus_1 '' [])) = Inr ''cus_1''"
proof -
  have "Upsert 1 5 ''u'' ''stripe'' '' cus_1 '' [] = Inr (projr (Upsert 1 5 ''u'' ''stripe'' '' cus_1 '' []))" "TrimSpace '' cus_1 '' = ''cus_1''"
    by code_simp+
  with GetCustomerID_Upsert [of 1 5 "''u''" "''stripe''" "'' cus_1 ''" "[]"] show ?thesis by simp
qed

text \<open>
  A flaw. When the ORM writes the zero key as it is, the table holds one row: once a customer is recorded, the \<^verbatim>\<open>Upsert\<close> of
  every other user or processor fails on the primary key and changes nothing, so that the customer of nobody else is ever known.
\<close>

theorem Upsert_zero_key_single_row:
  assumes "Upsert uuid_Nil now u p c [] = Inr rows" "(TrimSpace u', TrimSpace p') \<noteq> (TrimSpace u, TrimSpace p)"
    and "TrimSpace u' \<noteq> []" "TrimSpace p' \<noteq> []" "TrimSpace c' \<noteq> []"
  shows "Upsert uuid_Nil now' u' p' c' rows = Inl (ErrConstraint ''processor_customers_pkey'') \<and>
    GetCustomerID u' p' rows = Inl ErrNoRows"
proof -
  have rows: "rows = [\<lparr>pc_ID = uuid_Nil, pc_UserID = TrimSpace u, pc_Processor = TrimSpace p, pc_CustomerID = TrimSpace c,
      pc_CreatedAt = now, pc_UpdatedAt = now\<rparr>]"
    using assms(1) by (auto simp: Upsert_def Let_def tbl_insert_Inr split: if_split_asm)
  from assms(2-5) show ?thesis unfolding rows
    by (auto simp: Upsert_def Let_def tbl_insert_def violation_def pc_clash_def GetCustomerID_def sql_find_def)
qed

theorem Upsert_zero_key_single_row_witness:
  "GetCustomerID ''v'' ''stripe'' (projr (Upsert uuid_Nil 5 ''u'' ''stripe'' ''cus_1'' [])) = Inl ErrNoRows"
proof -
  have "Upsert uuid_Nil 5 ''u'' ''stripe'' ''cus_1'' [] = Inr (projr (Upsert uuid_Nil 5 ''u'' ''stripe'' ''cus_1'' []))"
    "TrimSpace ''u'' = ''u''" "TrimSpace ''v'' = ''v''" "TrimSpace ''stripe'' = ''stripe''" "TrimSpace ''cus_2'' = ''cus_2''"
    by code_simp+
  with Upsert_zero_key_single_row [of 5 "''u''" "''stripe''" "''cus_1''" _ "''v''" "''stripe''" "''cus_2''"] show ?thesis by simp
qed

end
