(* ===== verification/CCBill_Webhooks.thy ===== *)
theory CCBill_Webhooks
  imports Checkout_Sessions Notifications CCBill_Values Subscription_Credits Processor_Customers
begin

text \<open>
  The handlers of CCBill's webhooks, \<^verbatim>\<open>internal/modules/webhooks/ccbill.go\<close>, with all their services configured. An event is the
  record of the decoded fields that its handler reads. What is outside the model: the decoding of JSON (an event that does
  not decode is \<open>CCBillMalformed\<close>), the events written to the analytics store, email and logging.

  A handler works on the database (one transaction per \<open>run_in_tx\<close>), the ledger of credits, the checkout sessions and the
  store of the deduplication. Notifications and checkout sessions are written on the pool's connection: they stay
  when the transaction around them is rolled back.
\<close>

section \<open>State and events\<close>



record 'r webhook_world =
  ww_billing :: billing_db
  ww_credits :: credit_db
  ww_sessions :: "checkout_session list"
  ww_idem :: "'r IdempotencyService option"
  ww_users :: "(string \<times> string) list"
  ww_customers :: "processor_customer list"

text \<open>
  The parameters: the configuration of the lifecycle, \<^verbatim>\<open>Rat.SetString\<close>, \<^verbatim>\<open>uuid.NewSHA1\<close>, the texts of the driver's errors, and the
  SQL expression over JSON that marks a subscription as superseded.
\<close>

record webhook_cfg =
  wc_lifecycle :: lifecycle_cfg
  wc_SetString :: "string \<Rightarrow> rat option"
  wc_sha1 :: "string \<Rightarrow> uuid"
  wc_driver :: "go_error \<Rightarrow> string"
  wc_superseded :: "time \<Rightarrow> uuid option \<Rightarrow> string option \<Rightarrow> string option"

record CCBillNewSaleSuccessEvent =
  ns_Username :: string
  ns_Email :: string
  ns_FlexID :: string
  ns_FormName :: string
  ns_SubscriptionID :: string
  ns_TransactionID :: string
  ns_BilledInitialPrice :: string
  ns_BilledCurrencyCode :: string
  ns_NextRenewalDate :: string

record CCBillNewSaleFailureEvent =
  sf_Username :: string
  sf_FlexID :: string
  sf_BilledCurrencyCode :: string
  sf_FailureReason :: string
  sf_FailureCode :: string

record CCBillUpgradeSuccessEvent =
  us_FlexID :: string
  us_FormName :: string
  us_SubscriptionID :: string
  us_TransactionID :: string
  us_OriginalSubscriptionID :: string
  us_BilledInitialPrice :: string
  us_BilledCurrencyCode :: string

record CCBillUpgradeFailureEvent =
  uf_Username :: string
  uf_BilledCurrencyCode :: string

record CCBillBillingDateChangeEvent =
  bd_SubscriptionID :: string
  bd_NextRenewalDate :: string

record CCBillUserReactivationEvent =
  ur_SubscriptionID :: string
  ur_TransactionID :: string
  ur_NextRenewalDate :: string

text \<open>The events \<^verbatim>\<open>Refund\<close>, \<^verbatim>\<open>Void\<close> and \<^verbatim>\<open>Chargeback\<close> have the same fields.\<close>

record CCBillReversalEvent =
  rv_SubscriptionID :: string
  rv_TransactionID :: string
  rv_Amount :: string
  rv_CurrencyCode :: string
  rv_Reason :: string

record CCBillRenewalSuccessEvent =
  rs_SubscriptionID :: string
  rs_TransactionID :: string
  rs_BilledAmount :: string
  rs_BilledCurrencyCode :: string
  rs_NextRenewalDate :: string

record CCBillRenewalFailureEvent =
  rf_SubscriptionID :: string
  rf_NextRetryDate :: string

record CCBillCancellationEvent =
  cx_SubscriptionID :: string
  cx_Reason :: string
  cx_Source :: string

section \<open>Lookups and shared steps\<close>

definition GetUserIDByUsername :: "string \<Rightarrow> (string \<times> string) list \<Rightarrow> string result" where
  "GetUserIDByUsername username users = map_sum id snd (sql_find (\<lambda>u. fst u = username) users)"

definition resolveUserID :: "(string \<times> string) list \<Rightarrow> string \<Rightarrow> string result" where
  "resolveUserID users username =
     wrapped (''failed to resolve username '' @ quoted username) (GetUserIDByUsername username users)"

definition GetByCCBillPriceID :: "string \<Rightarrow> billing_db \<Rightarrow> price result" where
  "GetByCCBillPriceID ccbillPriceID db =
     sql_find (\<lambda>p. price_IsActive p \<and>
       (case price_Processors p of
          None \<Rightarrow> False
        | Some m \<Rightarrow> (case m ''ccbill'' of None \<Rightarrow> False | Some c \<Rightarrow> c ''flex_id'' = Some ccbillPriceID))) (bdb_prices db)"

definition capCCBillRetryAt :: "time option \<Rightarrow> time option \<Rightarrow> time option" where
  "capCCBillRetryAt nextRetryAt paidTermEnd =
     (case nextRetryAt of
        None \<Rightarrow> None
      | Some candidate \<Rightarrow>
          (case paidTermEnd of
             None \<Rightarrow> Some candidate
           | Some t \<Rightarrow> if candidate > t + DunningInterval then Some (t + DunningInterval) else Some candidate))"

text \<open>The subscription with an identifier of the processor; a missing row becomes an error of its own.\<close>

definition ccbill_subscription :: "string \<Rightarrow> string \<Rightarrow> billing_db \<Rightarrow> subscription result" where
  "ccbill_subscription missing pid db =
     (case GetByProcessorSubscriptionID ProcessorCCBill pid (bdb_subs db) of
        Inl e \<Rightarrow> if errors_Is e ErrNoRows then Inl (ErrMsg (missing @ pid)) else Inl (ErrWrap ''failed to get subscription'' e)
      | Inr s \<Rightarrow> Inr s)"

definition not_found :: string where "not_found = ''subscription not found for processor subscription ID: ''"

text \<open>The price that the query of the subscription joins.\<close>

definition sub_Price :: "subscription \<Rightarrow> billing_db \<Rightarrow> price option" where
  "sub_Price s db = (case PriceGetByID (sub_PriceID s) db of Inl _ \<Rightarrow> None | Inr p \<Rightarrow> Some p)"

text \<open>A notification that is stored and sent; a failure is logged.\<close>

definition deliver :: "uuid \<Rightarrow> string \<Rightarrow> string \<Rightarrow> (string \<times> string) list \<Rightarrow> billing_db \<Rightarrow> billing_db" where
  "deliver i u event data db = db\<lparr>bdb_notifications := snd (CreateAndDeliver
     \<lparr>nq_ID = i, nq_UserID = u, nq_EventType = event, nq_Data = data, nq_Seen = False\<rparr> (bdb_notifications db))\<rparr>"

text \<open>The error of a call as the handler returns it: wrapped, unless the call panicked.\<close>

definition call_error :: "string \<Rightarrow> go_error \<Rightarrow> go_error" where
  "call_error m e = (case e of NilDeref x \<Rightarrow> NilDeref x | _ \<Rightarrow> ErrWrap m e)"

text \<open>The credits of the period that was paid; a failure is logged.\<close>

definition grant_period_credits ::
  "webhook_cfg \<Rightarrow> go_env \<Rightarrow> subscription \<Rightarrow> time option \<Rightarrow> CreditGrantCadence \<Rightarrow> string \<Rightarrow> 'r webhook_world \<Rightarrow> 'r webhook_world" where
  "grant_period_credits cfg env s paidTermEnd cadence source w =
     (let periodEnd = (case paidTermEnd of
                         Some t \<Rightarrow> t
                       | None \<Rightarrow> (case sub_CurrentPeriodEndsAt s of Some t \<Rightarrow> t | None \<Rightarrow> time_zero))
      in if periodEnd = time_zero then w
         else w\<lparr>ww_credits := snd (GrantSubscriptionCredits (wc_sha1 cfg) env
                  \<lparr>gsc_SubscriptionID = sub_ID s, gsc_PeriodEnd = periodEnd, gsc_Cadence = cadence, gsc_Source = source\<rparr>
                  (ww_billing w) (ww_credits w))\<rparr>)"

text \<open>A handler behind the deduplication; an event without an identifier is processed as it comes.\<close>

definition deduplicated ::
  "webhook_cfg \<Rightarrow> time \<Rightarrow> time \<Rightarrow> string \<Rightarrow> string \<Rightarrow> string \<Rightarrow> ('r webhook_world \<Rightarrow> unit result \<times> 'r webhook_world) \<Rightarrow>
   'r webhook_world \<Rightarrow> unit result \<times> 'r webhook_world" where
  "deduplicated cfg t0 t1 transactionID eventType payload process w =
     (if TrimSpace transactionID \<noteq> []
      then (case ProcessWebhook (Error (wc_driver cfg)) t0 t1 transactionID eventType ProcessorCCBill payload process (ww_idem w, w) of
              (r, idem, w') \<Rightarrow> (r, w'\<lparr>ww_idem := idem\<rparr>))
      else process w)"

section \<open>New sales\<close>

definition RemoveCancelledSubscriptionsForActivation ::
  "(time \<Rightarrow> uuid option \<Rightarrow> string option \<Rightarrow> string option) \<Rightarrow> time \<Rightarrow> string \<Rightarrow> uuid \<Rightarrow> uuid \<Rightarrow> subscription list \<Rightarrow>
   (nat \<times> subscription list) result" where
  "RemoveCancelledSubscriptionsForActivation superseded now u productID excludeID rows =
     (if TrimSpace u = [] then Inl (ErrMsg ''userID is required'')
      else if productID = uuid_Nil then Inl (ErrMsg ''productID is required'')
      else
        (let P = (\<lambda>s. sub_UserID s = u \<and> sub_ProductID s = productID \<and> sub_Status s = StatusCancelled \<and>
                   (excludeID \<noteq> uuid_Nil \<longrightarrow> sub_ID s \<noteq> excludeID));
             by = (if excludeID \<noteq> uuid_Nil then Some excludeID else None)
         in case tbl_update sub_check sub_clash P
                   (\<lambda>s. s\<lparr>sub_Metadata := superseded now by (sub_Metadata s), sub_UpdatedAt := now\<rparr>) rows of
              Inl e \<Rightarrow> Inl (ErrWrap ''mark cancelled subscriptions superseded'' e)
            | Inr rows' \<Rightarrow> Inr (length (filter P rows), rows')))"

text \<open>What is read and checked before anything is written: the user, the amount, the price, the currency and the paid term.\<close>

definition newSale_checks ::
  "webhook_cfg \<Rightarrow> CCBillNewSaleSuccessEvent \<Rightarrow> 'r webhook_world \<Rightarrow> (string \<times> int \<times> price \<times> string \<times> time option) result" where
  "newSale_checks cfg data w =
     rbind (resolveUserID (ww_users w) (ns_Username data)) (\<lambda>userID.
     rbind (parseCCBillPositiveAmountCents (wc_SetString cfg) (ns_BilledInitialPrice data) ''billedInitialPrice'' ''billedAmount'') (\<lambda>billed.
     rbind (wrapped (''failed to find price for CCBill price ID '' @ ns_FlexID data) (GetByCCBillPriceID (ns_FlexID data) (ww_billing w))) (\<lambda>price.
     rbind (ensureFlexFormMatches price (ns_FlexID data) (ns_FormName data)) (\<lambda>_.
     rbind (validateCCBillBilledAmount billed (price_Amount price)) (\<lambda>_.
     rbind (requireCCBillCurrency (ns_BilledCurrencyCode data)) (\<lambda>currency.
     rbind (wrapped (''failed to parse nextRenewalDate '' @ quoted (ns_NextRenewalDate data))
              (parseCCBillDateUsingTimestamp (ns_NextRenewalDate data))) (\<lambda>paidTermEnd.
       Inr (userID, billed, price, currency, paidTermEnd))))))))"

definition newSale_membership ::
  "CCBillNewSaleSuccessEvent \<Rightarrow> string \<Rightarrow> int \<Rightarrow> price \<Rightarrow> string \<Rightarrow> time option \<Rightarrow> CreateMembershipParams" where
  "newSale_membership data userID billed price currency paidTermEnd =
     \<lparr>cm_UserID = userID, cm_PriceID = price_ID price, cm_Processor = ProcessorCCBill,
      cm_ProcessorSubscriptionID = Some (ns_SubscriptionID data),
      cm_UserEmail = (if TrimSpace (ns_Email data) \<noteq> [] then Some (TrimSpace (ns_Email data)) else None),
      cm_CurrentPeriodEndsAt = paidTermEnd, cm_TransactionID = ns_TransactionID data, cm_Amount = billed,
      cm_Currency = currency, cm_PaymentMetadata = None\<rparr>"

text \<open>The open checkout session of the buyer is marked succeeded; a failure is logged.\<close>

definition settle_session ::
  "time \<Rightarrow> string \<Rightarrow> uuid \<Rightarrow> string \<Rightarrow> uuid \<Rightarrow> 'r webhook_world \<Rightarrow> 'r webhook_world" where
  "settle_session now userID priceID transactionID subscriptionID w =
     (case FindOpenByUserPriceProcessor userID priceID ProcessorCCBill (ww_sessions w) of
        Inl _ \<Rightarrow> w
      | Inr None \<Rightarrow> w
      | Inr (Some session) \<Rightarrow>
          (let paymentID =
             (if TrimSpace transactionID \<noteq> []
              then (case GetByTransactionID ProcessorCCBill transactionID (bdb_payments (ww_billing w)) of
                      Inr p \<Rightarrow> pay_ID p | Inl _ \<Rightarrow> uuid_Nil)
              else uuid_Nil)
           in case MarkSucceededWithSubscription (ww_billing w) now (cs_ID session) paymentID transactionID subscriptionID (ww_sessions w) of
                Inl _ \<Rightarrow> w
              | Inr rows \<Rightarrow> w\<lparr>ww_sessions := rows\<rparr>))"

definition handleNewSaleSuccessInternal ::
  "webhook_cfg \<Rightarrow> go_env \<Rightarrow> CCBillNewSaleSuccessEvent \<Rightarrow> 'r webhook_world \<Rightarrow> unit result \<times> 'r webhook_world" where
  "handleNewSaleSuccessInternal cfg env data w =
     (case newSale_checks cfg data w of
        Inl e \<Rightarrow> (Inl e, w)
      | Inr (userID, billed, price, currency, paidTermEnd) \<Rightarrow>
          (case RemoveCancelledSubscriptionsForActivation (wc_superseded cfg) (env_now env) userID (price_ProductID price) uuid_Nil
                  (bdb_subs (ww_billing w)) of
             Inl e \<Rightarrow> (Inl (ErrWrap ''failed to cleanup cancelled subscriptions before activation'' e), w)
           | Inr (_, rows) \<Rightarrow>
               (let w1 = w\<lparr>ww_billing := (ww_billing w)\<lparr>bdb_subs := rows\<rparr>\<rparr> in
                case CreateMembership (wc_lifecycle cfg) env (newSale_membership data userID billed price currency paidTermEnd)
                       (ww_billing w1) of
                  (Inl e, _) \<Rightarrow> (Inl (call_error ''failed to create membership'' e), w1)
                | (Inr s, db) \<Rightarrow>
                    (let w2 = grant_period_credits cfg env s paidTermEnd CreditGrantCadenceOnce ''subscription_initial''
                                (w1\<lparr>ww_billing := db\<rparr>)
                     in (Inr (), settle_session (env_now env) userID (price_ID price) (ns_TransactionID data) (sub_ID s) w2)))))"

definition handleNewSaleSuccess ::
  "webhook_cfg \<Rightarrow> go_env \<Rightarrow> time \<Rightarrow> string \<Rightarrow> CCBillNewSaleSuccessEvent \<Rightarrow> 'r webhook_world \<Rightarrow> unit result \<times> 'r webhook_world" where
  "handleNewSaleSuccess cfg env t1 payload data =
     deduplicated cfg (env_now env) t1 (ns_TransactionID data) ''NewSaleSuccess'' payload
       (\<lambda>w. apfst (wrapCCBillWebhookErrorForRetry (wc_driver cfg)) (handleNewSaleSuccessInternal cfg env data w))"

text \<open>The open checkout session of the buyer is marked failed; a failure is logged.\<close>

definition fail_session :: "time \<Rightarrow> string \<Rightarrow> uuid \<Rightarrow> string \<Rightarrow> string \<Rightarrow> 'r webhook_world \<Rightarrow> 'r webhook_world" where
  "fail_session now userID priceID reason code w =
     (case FindOpenByUserPriceProcessor userID priceID ProcessorCCBill (ww_sessions w) of
        Inl _ \<Rightarrow> w
      | Inr None \<Rightarrow> w
      | Inr (Some session) \<Rightarrow>
          (let message = (if TrimSpace reason = [] then ''payment failed'' else TrimSpace reason)
           in case SessionMarkFailed (ww_billing w) now (cs_ID session) message code (ww_sessions w) of
                Inl _ \<Rightarrow> w
              | Inr rows \<Rightarrow> w\<lparr>ww_sessions := rows\<rparr>))"

definition handleNewSaleFailure ::
  "webhook_cfg \<Rightarrow> go_env \<Rightarrow> CCBillNewSaleFailureEvent \<Rightarrow> 'r webhook_world \<Rightarrow> unit result \<times> 'r webhook_world" where
  "handleNewSaleFailure cfg env data w =
     (case requireCCBillCurrency (sf_BilledCurrencyCode data) of
        Inl e \<Rightarrow> (Inl e, w)
      | Inr _ \<Rightarrow>
          (case resolveUserID (ww_users w) (sf_Username data) of
             Inl e \<Rightarrow> (Inl e, w)
           | Inr userID \<Rightarrow>
               (let w1 = (if userID \<noteq> []
                          then w\<lparr>ww_billing := deliver (env_uuid env 0) userID ''payment_method_failed'' [] (ww_billing w)\<rparr> else w)
                in (Inr (),
                    case GetByCCBillPriceID (sf_FlexID data) (ww_billing w) of
                      Inl _ \<Rightarrow> w1
                    | Inr price \<Rightarrow> fail_session (env_now env) userID (price_ID price) (sf_FailureReason data) (sf_FailureCode data) w1))))"


section \<open>Upgrades\<close>

definition upgrade_checks :: "webhook_cfg \<Rightarrow> CCBillUpgradeSuccessEvent \<Rightarrow> (int \<times> string) result" where
  "upgrade_checks cfg data =
     (if TrimSpace (us_BilledInitialPrice data) = [] then Inl (ErrMsg ''missing required field: billedInitialPrice'')
      else
        rbind (parseCCBillPositiveAmountCents (wc_SetString cfg) (TrimSpace (us_BilledInitialPrice data)) ''billedInitialPrice'' ''billedAmount'')
          (\<lambda>billed.
             if TrimSpace (us_SubscriptionID data) = [] then Inl (ErrMsg ''missing required field: subscriptionId'')
             else if TrimSpace (us_OriginalSubscriptionID data) = [] then Inl (ErrMsg ''missing required field: originalSubscriptionId'')
             else if TrimSpace (us_TransactionID data) = [] then Inl (ErrMsg ''missing required field: transactionId'')
             else rbind (requireCCBillCurrency (us_BilledCurrencyCode data)) (\<lambda>currency. Inr (billed, currency))))"

definition upgrade_payment :: "go_env \<Rightarrow> subscription \<Rightarrow> price \<Rightarrow> string \<Rightarrow> int \<Rightarrow> string \<Rightarrow> payment" where
  "upgrade_payment env s newPrice transactionID billed currency =
     \<lparr>pay_ID = env_uuid env 0, pay_UserID = sub_UserID s, pay_PriceID = price_ID newPrice, pay_SubscriptionID = Some (sub_ID s),
      pay_RefundedPaymentID = None, pay_Processor = ProcessorCCBill, pay_TransactionID = transactionID, pay_Amount = billed,
      pay_ListAmount = price_Amount newPrice, pay_Currency = currency, pay_Status = [], pay_Metadata = None,
      pay_PurchasedAt = env_now env, pay_CreatedAt = env_now env\<rparr>"

text \<open>The transaction up to the entitlements: the subscription, its old price and the new one, or nothing for a duplicate.\<close>

definition upgradeTx ::
  "webhook_cfg \<Rightarrow> go_env \<Rightarrow> CCBillUpgradeSuccessEvent \<Rightarrow> int \<Rightarrow> string \<Rightarrow> billing_db \<Rightarrow>
   ((subscription \<times> uuid \<times> uuid) option \<times> billing_db) result" where
  "upgradeTx cfg env data billed currency db =
     rbind (ccbill_subscription ''subscription not found for original processor subscription ID: ''
              (TrimSpace (us_OriginalSubscriptionID data)) db) (\<lambda>s.
     rbind (wrapped (''failed to find new price for CCBill price ID '' @ us_FlexID data) (GetByCCBillPriceID (us_FlexID data) db)) (\<lambda>newPrice.
     rbind (ensureFlexFormMatches newPrice (TrimSpace (us_FlexID data)) (TrimSpace (us_FormName data))) (\<lambda>_.
     if billed < i64 (price_Amount newPrice - tolerance (price_Amount newPrice)) \<or>
        billed > i64 (price_Amount newPrice + tolerance (price_Amount newPrice))
     then Inl (BillingError ''amount_mismatch'' ''Upgrade billed amount does not match expected price'')
     else
       rbind (wrapped ''failed to create upgrade payment'' (CreateIfNotExists (env_now env)
                (upgrade_payment env s newPrice (TrimSpace (us_TransactionID data)) billed currency) (bdb_payments db))) (\<lambda>(created, pays).
       if \<not> created then Inr (None, db)
       else
         rbind (wrapped ''failed to activate subscription'' (ActivateWithPrice (env_now env) newPrice s)) (\<lambda>s1.
         let s2 = s1\<lparr>sub_ProcessorSubscriptionID := TrimSpace (us_SubscriptionID data)\<rparr> in
         rbind (wrapped ''failed to validate subscription'' (Validate (env_now env) (billed > 0) s2)) (\<lambda>_.
         rbind (sub_update ''failed to update subscription'' (wc_lifecycle cfg) (env_now env) s2 (db\<lparr>bdb_payments := pays\<rparr>)) (\<lambda>db2.
         Inr (Some (s2, sub_PriceID s, price_ID newPrice), db2))))))))"

text \<open>The loop that grants what only the new product has; a failure is logged.\<close>

fun upgrade_grants :: "go_env \<Rightarrow> subscription \<Rightarrow> string list \<Rightarrow> entitlement list \<Rightarrow> entitlement list result" where
  "upgrade_grants env s [] rows = Inr rows"
| "upgrade_grants env s (n # ns) rows =
     (if ExistsBySource EntitlementSourceSubscription (sub_ID s) n rows then upgrade_grants (env_shift 1 env) s ns rows
      else
        (let now = env_now env;
             finite = (case sub_CurrentPeriodEndsAt s of None \<Rightarrow> False | Some t \<Rightarrow> t > now);
             params = \<lparr>push_UserID = sub_UserID s, push_Entitlement = n, push_NotBefore = Some now, push_Indefinite = \<not> finite,
                       push_Duration = None, push_EndAt = (if finite then sub_CurrentPeriodEndsAt s else None),
                       push_SourceType = EntitlementSourceSubscription, push_SourceID = sub_ID s\<rparr>
         in case tx_logged (map_sum id snd (PushNewEntitlement env params rows)) rows of
              Inl e \<Rightarrow> Inl e
            | Inr rows' \<Rightarrow> upgrade_grants (env_shift 1 env) s ns rows'))"

definition updateEntitlementsForUpgrade ::
  "go_env \<Rightarrow> subscription \<Rightarrow> uuid \<Rightarrow> uuid \<Rightarrow> billing_db \<Rightarrow> entitlement list result" where
  "updateEntitlementsForUpgrade env s oldPriceID newPriceID db =
     rbind (wrapped ''failed to get old price'' (PriceGetByID oldPriceID db)) (\<lambda>oldPrice.
     rbind (wrapped ''failed to get new price'' (PriceGetByID newPriceID db)) (\<lambda>newPrice.
     rbind (wrapped ''failed to get old product'' (ProductGetByID (price_ProductID oldPrice) db)) (\<lambda>oldProduct.
     rbind (wrapped ''failed to get new product'' (ProductGetByID (price_ProductID newPrice) db)) (\<lambda>newProduct.
     rbind (revoke_names (env_now env) (sub_UserID s) EntitlementSourceSubscription (sub_ID s) EntitlementRevokeDowngrade
              (filter (\<lambda>n. n \<notin> set (ent_names newProduct)) (ent_names oldProduct)) (bdb_ents db)) (\<lambda>rows.
     upgrade_grants env s (filter (\<lambda>n. n \<notin> set (ent_names oldProduct)) (ent_names newProduct)) rows)))))"

definition handleUpgradeSuccess ::
  "webhook_cfg \<Rightarrow> go_env \<Rightarrow> CCBillUpgradeSuccessEvent \<Rightarrow> billing_db \<Rightarrow> unit result \<times> billing_db" where
  "handleUpgradeSuccess cfg env data db =
     (case upgrade_checks cfg data of
        Inl e \<Rightarrow> (Inl e, db)
      | Inr (billed, currency) \<Rightarrow>
          (case GetByTransactionID ProcessorCCBill (TrimSpace (us_TransactionID data)) (bdb_payments db) of
             Inr _ \<Rightarrow> (Inr (), db)
           | Inl e0 \<Rightarrow>
               if \<not> errors_Is e0 ErrNoRows then (Inl (ErrWrap ''failed to check existing upgrade payment'' e0), db)
               else
                 (case upgradeTx cfg env data billed currency db of
                    Inl e \<Rightarrow> (Inl e, db)
                  | Inr (None, _) \<Rightarrow> (Inr (), db)
                  | Inr (Some (s, oldPriceID, newPriceID), db1) \<Rightarrow>
                      (case tx_logged (updateEntitlementsForUpgrade (env_shift 2 env) s oldPriceID newPriceID db1) (bdb_ents db1) of
                         Inl e \<Rightarrow> (Inl e, deliver (env_uuid env 1) (sub_UserID s) ''premium_renewed'' [] db)
                       | Inr ents \<Rightarrow>
                           (Inr (), deliver (env_uuid env 1) (sub_UserID s) ''premium_renewed'' [] (db1\<lparr>bdb_ents := ents\<rparr>))))))"

definition handleUpgradeFailure ::
  "go_env \<Rightarrow> CCBillUpgradeFailureEvent \<Rightarrow> (string \<times> string) list \<Rightarrow> billing_db \<Rightarrow> unit result \<times> billing_db" where
  "handleUpgradeFailure env data users db =
     (case requireCCBillCurrency (uf_BilledCurrencyCode data) of
        Inl e \<Rightarrow> (Inl e, db)
      | Inr _ \<Rightarrow>
          (case resolveUserID users (uf_Username data) of
             Inl e \<Rightarrow> (Inl e, db)
           | Inr userID \<Rightarrow>
               (Inr (), if userID \<noteq> [] then deliver (env_uuid env 0) userID ''payment_method_failed'' [] db else db)))"

section \<open>Changes of dates and data\<close>

definition handleBillingDateChange ::
  "webhook_cfg \<Rightarrow> go_env \<Rightarrow> CCBillBillingDateChangeEvent \<Rightarrow> billing_db \<Rightarrow> unit result \<times> billing_db" where
  "handleBillingDateChange cfg env data db =
     run_in_tx (\<lambda>db.
       rbind (ccbill_subscription not_found (bd_SubscriptionID data) db) (\<lambda>s.
       rbind (wrapped (''failed to parse nextRenewalDate '' @ quoted (bd_NextRenewalDate data))
                (parseCCBillDateUsingTimestamp (bd_NextRenewalDate data))) (\<lambda>parsed.
       if parsed = None then Inl (ErrMsg ''missing nextRenewalDate'')
       else map_sum id (Pair ()) (sub_update ''failed to update subscription billing date'' (wc_lifecycle cfg) (env_now env)
              (s\<lparr>sub_CurrentPeriodEndsAt := parsed\<rparr>) db)))) db"

definition handleCustomerDataUpdate :: "string \<Rightarrow> billing_db \<Rightarrow> unit result \<times> billing_db" where
  "handleCustomerDataUpdate pid db = run_in_tx (\<lambda>db. rbind (ccbill_subscription not_found pid db) (\<lambda>s. Inr ((), db))) db"

definition handleUserReactivation ::
  "webhook_cfg \<Rightarrow> go_env \<Rightarrow> CCBillUserReactivationEvent \<Rightarrow> billing_db \<Rightarrow> unit result \<times> billing_db" where
  "handleUserReactivation cfg env data db =
     (if TrimSpace (ur_SubscriptionID data) = [] then (Inl (ErrMsg ''missing required field: subscriptionId''), db)
      else if TrimSpace (ur_TransactionID data) = [] then (Inl (ErrMsg ''missing required field: transactionId''), db)
      else
        (case parseCCBillDateUsingTimestamp (TrimSpace (ur_NextRenewalDate data)) of
           Inl e \<Rightarrow> (Inl (ErrWrap (''failed to parse nextRenewalDate '' @ quoted (TrimSpace (ur_NextRenewalDate data))) e), db)
         | Inr renewalDate \<Rightarrow>
             if (case renewalDate of None \<Rightarrow> True | Some t \<Rightarrow> \<not> t > env_now env)
             then (Inl (ErrMsg ''reactivation requires future nextRenewalDate''), db)
             else
               (case ReactivateMembership (wc_lifecycle cfg) env
                       \<lparr>ra_Processor = ProcessorCCBill, ra_ProcessorSubscriptionID = TrimSpace (ur_SubscriptionID data),
                        ra_CurrentPeriodEndsAt = renewalDate, ra_AllowTerminalReactivation = False\<rparr> db of
                  (Inl e, db1) \<Rightarrow>
                    if IsTerminalTransitionBlocked e then (Inr (), db1)
                    else (Inl (call_error ''failed to reactivate membership'' e), db1)
                | (Inr s, db1) \<Rightarrow> (Inr (), deliver (env_uuid env 0) (sub_UserID s) ''premium_started'' [] db1))))"

section \<open>Reversals\<close>

text \<open>The checks that the three reversals share.\<close>

definition reversal_checks :: "webhook_cfg \<Rightarrow> string \<Rightarrow> CCBillReversalEvent \<Rightarrow> int result" where
  "reversal_checks cfg what data =
     rbind (parseCCBillPositiveAmountCents (wc_SetString cfg) (rv_Amount data) what ''amount'') (\<lambda>cents.
     rbind (requireCCBillCurrency (rv_CurrencyCode data)) (\<lambda>_. Inr cents))"

definition go_div :: "int \<Rightarrow> int \<Rightarrow> int" where
  "go_div a b = sgn a * sgn b * (\<bar>a\<bar> div \<bar>b\<bar>)"

definition refund_terminates :: "int \<Rightarrow> price option \<Rightarrow> bool" where
  "refund_terminates cents price =
     (case price of
        None \<Rightarrow> False
      | Some p \<Rightarrow> price_Amount p > 0 \<and> go_div (i64 (cents * 100)) (price_Amount p) \<ge> 80)"

text \<open>The refund in the table of payments, unless it is there already or there is no charge to link it to.\<close>

definition record_refund :: "go_env \<Rightarrow> subscription \<Rightarrow> string \<Rightarrow> int \<Rightarrow> payment list \<Rightarrow> payment list result" where
  "record_refund env s transactionID cents rows =
     (if transactionID \<noteq> [] \<and> cents > 0
      then (case GetByTransactionID ProcessorCCBill transactionID rows of
              Inr _ \<Rightarrow> Inr rows
            | Inl e0 \<Rightarrow>
                if \<not> errors_Is e0 ErrNoRows then Inl (ErrWrap ''failed to check existing refund payment'' e0)
                else
                  (case GetLatestChargeBySubscriptionID (sub_ID s) rows of
                     Inl e1 \<Rightarrow> if \<not> errors_Is e1 ErrNoRows then Inl (ErrWrap ''failed to resolve original payment for refund'' e1) else Inr rows
                   | Inr orig \<Rightarrow>
                       wrapped ''failed to persist CCBill refund payment''
                         (map_sum id snd (Refund env (pay_ID orig) transactionID cents rows))))
      else Inr rows)"

definition refunded_subscription :: "time \<Rightarrow> string \<Rightarrow> subscription \<Rightarrow> subscription" where
  "refunded_subscription now reason s =
     s\<lparr>sub_Status := StatusCancelled, sub_CancelType := Some CancelTypeMerchant, sub_CancelledAt := Some now,
       sub_CancelFeedback := (if reason \<noteq> [] then Some reason else sub_CancelFeedback s)\<rparr>"

definition handleRefund ::
  "webhook_cfg \<Rightarrow> go_env \<Rightarrow> CCBillReversalEvent \<Rightarrow> billing_db \<Rightarrow> unit result \<times> billing_db" where
  "handleRefund cfg env data db =
     (let now = env_now env; msg = ''failed to update subscription after refund'' in
      case rbind (reversal_checks cfg ''refund amount'' data) (\<lambda>cents.
           rbind (ccbill_subscription not_found (rv_SubscriptionID data) db) (\<lambda>s.
           rbind (record_refund env s (rv_TransactionID data) cents (bdb_payments db)) (\<lambda>pays. Inr (cents, s, pays)))) of
        Inl e \<Rightarrow> (Inl e, db)
      | Inr (cents, s, pays) \<Rightarrow>
          (let db1 = db\<lparr>bdb_payments := pays\<rparr> in
           if refund_terminates cents (sub_Price s db)
           then
             (case ResetCurrentPeriods now s of
                Inl e \<Rightarrow> (Inl e, db)
              | Inr s1 \<Rightarrow>
                  (let ended = deliver (env_uuid env 1) (sub_UserID s) ''premium_ended'' [(''reason'', ''refund'')] in
                   case rbind (wrapped msg (revoke_all now (sub_UserID s) EntitlementSourceSubscription (sub_ID s) EntitlementRevokeRefund
                                 (bdb_ents db1)))
                          (\<lambda>ents. sub_update msg (wc_lifecycle cfg) now (refunded_subscription now (rv_Reason data) s1) (db1\<lparr>bdb_ents := ents\<rparr>)) of
                     Inl e \<Rightarrow> (Inl e, ended db)
                   | Inr db2 \<Rightarrow> (Inr (), ended db2)))
           else
             (case sub_update msg (wc_lifecycle cfg) now s db1 of Inl e \<Rightarrow> (Inl e, db) | Inr db2 \<Rightarrow> (Inr (), db2))))"

definition handleVoid :: "webhook_cfg \<Rightarrow> CCBillReversalEvent \<Rightarrow> billing_db \<Rightarrow> unit result \<times> billing_db" where
  "handleVoid cfg data db =
     (case reversal_checks cfg ''void amount'' data of
        Inl e \<Rightarrow> (Inl e, db)
      | Inr _ \<Rightarrow>
          run_in_tx (\<lambda>db.
            case GetByProcessorSubscriptionID ProcessorCCBill (rv_SubscriptionID data) (bdb_subs db) of
              Inl e \<Rightarrow> if errors_Is e ErrNoRows then Inr ((), db) else Inl (ErrWrap ''failed to get subscription'' e)
            | Inr _ \<Rightarrow> Inr ((), db)) db)"

definition charged_back :: "time \<Rightarrow> string \<Rightarrow> subscription \<Rightarrow> subscription" where
  "charged_back now reason s =
     s\<lparr>sub_Status := StatusCancelled, sub_CancelType := Some CancelTypeChargeback, sub_CancelledAt := Some now,
       sub_EndedAt := Some now,
       sub_CancelFeedback := Some (''CHARGEBACK: '' @ reason @ '' (Code: unknown, Dispute: unknown)'')\<rparr>"

definition handleChargeback ::
  "webhook_cfg \<Rightarrow> go_env \<Rightarrow> CCBillReversalEvent \<Rightarrow> billing_db \<Rightarrow> unit result \<times> billing_db" where
  "handleChargeback cfg env data db =
     (let now = env_now env in
      case reversal_checks cfg ''chargeback amount'' data of
        Inl e \<Rightarrow> (Inl e, db)
      | Inr _ \<Rightarrow>
          (case GetByProcessorSubscriptionID ProcessorCCBill (rv_SubscriptionID data) (bdb_subs db) of
             Inl e \<Rightarrow> if errors_Is e ErrNoRows then (Inr (), db) else (Inl (ErrWrap ''failed to get subscription'' e), db)
           | Inr s \<Rightarrow>
               (case rbind (ResetCurrentPeriods now s) (\<lambda>s1.
                     sub_update ''failed to update subscription after chargeback'' (wc_lifecycle cfg) now
                       (charged_back now (rv_Reason data) s1) db) of
                  Inl e \<Rightarrow> (Inl e, db)
                | Inr db1 \<Rightarrow>
                    (let ended = deliver (env_uuid env 0) (sub_UserID s) ''premium_ended'' [(''reason'', ''chargeback'')] in
                     case revoke_all now (sub_UserID s) EntitlementSourceSubscription (sub_ID s) EntitlementRevokeChargeback (bdb_ents db1) of
                       Inl e \<Rightarrow> (Inl e, ended db)
                     | Inr ents \<Rightarrow> (Inr (), ended (db1\<lparr>bdb_ents := ents\<rparr>))))))"

section \<open>Renewals\<close>

definition renewalSuccess_checks ::
  "webhook_cfg \<Rightarrow> CCBillRenewalSuccessEvent \<Rightarrow> billing_db \<Rightarrow> (int \<times> string \<times> time option) result" where
  "renewalSuccess_checks cfg data db =
     rbind (parseCCBillPositiveAmountCents (wc_SetString cfg) (rs_BilledAmount data) ''billedAmount'' ''billedAmount'') (\<lambda>billed.
     rbind (requireCCBillCurrency (rs_BilledCurrencyCode data)) (\<lambda>currency.
     rbind (wrapped ''failed to get subscription for renewal''
              (GetByProcessorSubscriptionID ProcessorCCBill (rs_SubscriptionID data) (bdb_subs db))) (\<lambda>prevSub.
     case sub_Price prevSub db of
       None \<Rightarrow> Inl (ErrMsg ''subscription price is required for CCBill renewal amount validation'')
     | Some price \<Rightarrow>
         rbind (validateCCBillBilledAmount billed (price_Amount price)) (\<lambda>_.
         rbind (wrapped (''failed to parse nextRenewalDate '' @ quoted (rs_NextRenewalDate data))
                  (parseCCBillDateUsingTimestamp (rs_NextRenewalDate data))) (\<lambda>paidTermEnd.
         Inr (billed, currency, paidTermEnd))))))"

definition renewalSuccess_membership ::
  "CCBillRenewalSuccessEvent \<Rightarrow> int \<Rightarrow> string \<Rightarrow> time option \<Rightarrow> RenewMembershipParams" where
  "renewalSuccess_membership data billed currency paidTermEnd =
     \<lparr>rm_Processor = ProcessorCCBill, rm_ProcessorSubscriptionID = rs_SubscriptionID data, rm_CurrentPeriodEndsAt = paidTermEnd,
      rm_TransactionID = rs_TransactionID data, rm_Amount = billed, rm_Currency = currency, rm_PaymentMetadata = None,
      rm_AllowTerminalReactivation = False\<rparr>"

definition handleRenewalSuccessInternal ::
  "webhook_cfg \<Rightarrow> go_env \<Rightarrow> CCBillRenewalSuccessEvent \<Rightarrow> 'r webhook_world \<Rightarrow> unit result \<times> 'r webhook_world" where
  "handleRenewalSuccessInternal cfg env data w =
     (case renewalSuccess_checks cfg data (ww_billing w) of
        Inl e \<Rightarrow> (Inl e, w)
      | Inr (billed, currency, paidTermEnd) \<Rightarrow>
          (case RenewMembership (wc_lifecycle cfg) env (renewalSuccess_membership data billed currency paidTermEnd) (ww_billing w) of
             (Inl e, _) \<Rightarrow>
               if IsTerminalTransitionBlocked e then (Inr (), w) else (Inl (call_error ''failed to renew membership'' e), w)
           | (Inr _, db) \<Rightarrow>
               (let w1 = w\<lparr>ww_billing := db\<rparr> in
                case GetByProcessorSubscriptionID ProcessorCCBill (rs_SubscriptionID data) (bdb_subs db) of
                  Inl e \<Rightarrow> (Inl (ErrWrap ''failed to get subscription for logging'' e), w1)
                | Inr s \<Rightarrow>
                    (Inr (), grant_period_credits cfg env s paidTermEnd CreditGrantCadencePerRenewal ''subscription_renewal'' w1))))"

definition handleRenewalSuccess ::
  "webhook_cfg \<Rightarrow> go_env \<Rightarrow> time \<Rightarrow> string \<Rightarrow> CCBillRenewalSuccessEvent \<Rightarrow> 'r webhook_world \<Rightarrow> unit result \<times> 'r webhook_world" where
  "handleRenewalSuccess cfg env t1 payload data =
     deduplicated cfg (env_now env) t1 (rs_TransactionID data) ''RenewalSuccess'' payload
       (\<lambda>w. apfst (wrapCCBillWebhookErrorForRetry (wc_driver cfg)) (handleRenewalSuccessInternal cfg env data w))"

text \<open>The loop that appends the grace windows; here an error ends it.\<close>

fun append_grace_windows ::
  "go_env \<Rightarrow> string \<Rightarrow> uuid \<Rightarrow> time \<Rightarrow> time \<Rightarrow> string list \<Rightarrow> entitlement list \<Rightarrow> entitlement list result" where
  "append_grace_windows env u sid notBefore endAt [] rows = Inr rows"
| "append_grace_windows env u sid notBefore endAt (n # ns) rows =
     (case push_window env u n notBefore endAt EntitlementSourceGrace sid rows of
        Inl e \<Rightarrow> Inl (ErrWrap ''failed to append grace entitlement window'' e)
      | Inr (_, rows') \<Rightarrow> append_grace_windows (env_shift 1 env) u sid notBefore endAt ns rows')"

definition past_due :: "time option \<Rightarrow> subscription \<Rightarrow> subscription" where
  "past_due nextRetryAt s =
     s\<lparr>sub_Status := StatusPastDue, sub_NextRetryAt := nextRetryAt, sub_LastRetryAt := None, sub_RetryAttempts := None,
       sub_GraceEndsAt := (case (sub_CurrentPeriodEndsAt s, nextRetryAt) of
                             (Some paidTermEnd, Some t) \<Rightarrow> if t > paidTermEnd then Some t else None
                           | _ \<Rightarrow> None)\<rparr>"

definition renewalFailureTx ::
  "webhook_cfg \<Rightarrow> go_env \<Rightarrow> string \<Rightarrow> time option \<Rightarrow> billing_db \<Rightarrow> (unit \<times> billing_db) result" where
  "renewalFailureTx cfg env pid retryAt db =
     rbind (wrapped ''subscription not found'' (GetByProcessorSubscriptionID ProcessorCCBill pid (bdb_subs db))) (\<lambda>s0.
     let paidTermEnd = sub_CurrentPeriodEndsAt s0; s = past_due (capCCBillRetryAt retryAt paidTermEnd) s0 in
     rbind (sub_update ''failed to update subscription during renewal failure'' (wc_lifecycle cfg) (env_now env) s db) (\<lambda>db1.
     case sub_GraceEndsAt s of
       None \<Rightarrow> Inr ((), db1)
     | Some graceUntil \<Rightarrow>
         rbind (wrapped ''failed to load subscription price for grace entitlements'' (PriceGetByID (sub_PriceID s) db1)) (\<lambda>price.
         rbind (wrapped ''failed to load subscription product for grace entitlements'' (ProductGetByID (price_ProductID price) db1)) (\<lambda>product.
         rbind (append_grace_windows env (sub_UserID s) (sub_ID s)
                  (case paidTermEnd of None \<Rightarrow> env_now env | Some t \<Rightarrow> if t > env_now env then t else env_now env)
                  graceUntil (ent_names product) (bdb_ents db1)) (\<lambda>ents.
         Inr ((), db1\<lparr>bdb_ents := ents\<rparr>))))))"

definition handleRenewalFailure ::
  "webhook_cfg \<Rightarrow> go_env \<Rightarrow> CCBillRenewalFailureEvent \<Rightarrow> billing_db \<Rightarrow> unit result \<times> billing_db" where
  "handleRenewalFailure cfg env data db =
     (case parseCCBillDateUsingTimestamp (rf_NextRetryDate data) of
        Inl e \<Rightarrow> (Inl (ErrWrap (''failed to parse nextRetryDate '' @ quoted (rf_NextRetryDate data)) e), db)
      | Inr retryAt \<Rightarrow> run_in_tx (renewalFailureTx cfg env (rf_SubscriptionID data) retryAt) db)"

section \<open>Ends\<close>

definition handleCancel ::
  "webhook_cfg \<Rightarrow> go_env \<Rightarrow> CCBillCancellationEvent \<Rightarrow> billing_db \<Rightarrow> unit result \<times> billing_db" where
  "handleCancel cfg env data db =
     (if cx_SubscriptionID data = [] then (Inl (ErrMsg ''missing required field: subscriptionId''), db)
      else
        (case ccbill_subscription not_found (cx_SubscriptionID data) db of
           Inl e \<Rightarrow> (Inl e, db)
         | Inr s \<Rightarrow>
             apfst (map_sum (call_error ''failed to cancel membership'') id)
               (CancelMembership (wc_lifecycle cfg) env
                 \<lparr>ca_SubscriptionID = Some (sub_ID s), ca_Processor = Some ProcessorCCBill,
                  ca_ProcessorSubscriptionID = Some (cx_SubscriptionID data),
                  ca_CancelType = (if cx_Source data = ''failedRB'' then CancelTypeExpired else CancelTypeMerchant),
                  ca_CancelFeedback = Some (cx_Reason data), ca_RevokeAccess = False\<rparr> db)))"

definition handleExpiration :: "webhook_cfg \<Rightarrow> go_env \<Rightarrow> string \<Rightarrow> billing_db \<Rightarrow> unit result \<times> billing_db" where
  "handleExpiration cfg env pid db =
     (case ccbill_subscription not_found pid db of
        Inl e \<Rightarrow> (Inl e, db)
      | Inr s \<Rightarrow>
          apfst (map_sum (call_error ''failed to expire membership'') id) (ExpireMembership (wc_lifecycle cfg) env (sub_ID s) db))"

section \<open>Dispatch\<close>

datatype ccbill_event =
    EventTypeNewSaleSuccess CCBillNewSaleSuccessEvent
  | EventTypeNewSaleFailure CCBillNewSaleFailureEvent
  | EventTypeRenewalSuccess CCBillRenewalSuccessEvent
  | EventTypeRenewalFailure CCBillRenewalFailureEvent
  | EventTypeUpgradeSuccess CCBillUpgradeSuccessEvent
  | EventTypeUpgradeFailure CCBillUpgradeFailureEvent
  | EventTypeCancellation CCBillCancellationEvent
  | EventTypeExpiration string
  | EventTypeBillingDateChange CCBillBillingDateChangeEvent
  | EventTypeCustomerDataUpdate string
  | EventTypeUserReactivation CCBillUserReactivationEvent
  | EventTypeRefund CCBillReversalEvent
  | EventTypeVoid CCBillReversalEvent
  | EventTypeChargeback CCBillReversalEvent
  | CCBillMalformed go_error
  | CCBillUnsupported string

definition on_billing ::
  "(billing_db \<Rightarrow> unit result \<times> billing_db) \<Rightarrow> 'r webhook_world \<Rightarrow> unit result \<times> 'r webhook_world" where
  "on_billing f w = (case f (ww_billing w) of (r, db) \<Rightarrow> (r, w\<lparr>ww_billing := db\<rparr>))"

fun HandleCCBillWebhook ::
  "webhook_cfg \<Rightarrow> go_env \<Rightarrow> time \<Rightarrow> string \<Rightarrow> ccbill_event \<Rightarrow> 'r webhook_world \<Rightarrow> unit result \<times> 'r webhook_world" where
  "HandleCCBillWebhook cfg env t1 payload (EventTypeNewSaleSuccess data) w = handleNewSaleSuccess cfg env t1 payload data w"
| "HandleCCBillWebhook cfg env t1 payload (EventTypeNewSaleFailure data) w = handleNewSaleFailure cfg env data w"
| "HandleCCBillWebhook cfg env t1 payload (EventTypeRenewalSuccess data) w = handleRenewalSuccess cfg env t1 payload data w"
| "HandleCCBillWebhook cfg env t1 payload (EventTypeRenewalFailure data) w = on_billing (handleRenewalFailure cfg env data) w"
| "HandleCCBillWebhook cfg env t1 payload (EventTypeUpgradeSuccess data) w = on_billing (handleUpgradeSuccess cfg env data) w"
| "HandleCCBillWebhook cfg env t1 payload (EventTypeUpgradeFailure data) w = on_billing (handleUpgradeFailure env data (ww_users w)) w"
| "HandleCCBillWebhook cfg env t1 payload (EventTypeCancellation data) w = on_billing (handleCancel cfg env data) w"
| "HandleCCBillWebhook cfg env t1 payload (EventTypeExpiration pid) w = on_billing (handleExpiration cfg env pid) w"
| "HandleCCBillWebhook cfg env t1 payload (EventTypeBillingDateChange data) w = on_billing (handleBillingDateChange cfg env data) w"
| "HandleCCBillWebhook cfg env t1 payload (EventTypeCustomerDataUpdate pid) w = on_billing (handleCustomerDataUpdate pid) w"
| "HandleCCBillWebhook cfg env t1 payload (EventTypeUserReactivation data) w = on_billing (handleUserReactivation cfg env data) w"
| "HandleCCBillWebhook cfg env t1 payload (EventTypeRefund data) w = on_billing (handleRefund cfg env data) w"
| "HandleCCBillWebhook cfg env t1 payload (EventTypeVoid data) w = on_billing (handleVoid cfg data) w"
| "HandleCCBillWebhook cfg env t1 payload (EventTypeChargeback data) w = on_billing (handleChargeback cfg env data) w"
| "HandleCCBillWebhook cfg env t1 payload (CCBillMalformed e) w = (Inl e, w)"
| "HandleCCBillWebhook cfg env t1 payload (CCBillUnsupported ty) w = (Inl (ErrMsg (''unsupported event type: '' @ ty)), w)"

end
