(* ===== verification/NMI_Webhooks.thy ===== *)
theory NMI_Webhooks
  imports CCBill_Webhooks Payment_Methods
begin

text \<open>
  The handlers of the webhooks of NMI-backed gateways, \<^verbatim>\<open>internal/modules/webhooks/nmi.go\<close>, with all their services configured.
  As for CCBill, an event is the record of the decoded fields that its handlers read; JSON, analytics and logging are left
  out. The handlers share their state with those of CCBill. The payment methods, which only the reconciliation of chargebacks
  reads, are an argument.
\<close>

section \<open>Events\<close>

record NMIPlan =
  np_ID :: string
  np_Amount :: string

record NMIRecurringEventBody =
  re_SubscriptionID :: string
  re_NextChargeDate :: string
  re_Plan :: "NMIPlan option"

record NMIAction =
  na_Amount :: string
  na_ResponseCode :: string
  na_ResponseText :: string

record NMITransactionDetail =
  td_TransactionID :: string
  td_Amount :: string
  td_Currency :: string
  td_OrderID :: string
  td_PONumber :: string
  td_Subscription :: "string option"
  td_Action :: "NMIAction option"

text \<open>A reference to a subscription is its identifier at the gateway.\<close>

record NMITransactionEventBody =
  te_TransactionID :: string
  te_Amount :: string
  te_Currency :: string
  te_OrderID :: string
  te_PONumber :: string
  te_Subscription :: "string option"
  te_Action :: "NMIAction option"
  te_TransactionDetail :: "NMITransactionDetail option"

record NMIChargebackEntry =
  ce_ID :: string
  ce_Date :: string
  ce_CCNumber :: string
  ce_Amount :: string
  ce_ReasonCode :: string
  ce_Reason :: string

section \<open>What a transaction says\<close>

definition opt_list :: "('a \<Rightarrow> 'b) \<Rightarrow> 'a option \<Rightarrow> 'b list" where
  "opt_list f x = (case x of None \<Rightarrow> [] | Some a \<Rightarrow> [f a])"

definition normalizedProcessor :: "string \<Rightarrow> string result" where
  "normalizedProcessor processor =
     (let p = TrimSpace (ToLower processor)
      in if p = [] then Inl (ErrMsg ''nmi webhook processor is required'') else Inr p)"

definition transactionSubscriptionID :: "NMITransactionEventBody \<Rightarrow> string" where
  "transactionSubscriptionID body =
     FirstNonEmpty
       (opt_list id (te_Subscription body) @
        (case te_TransactionDetail body of None \<Rightarrow> [] | Some d \<Rightarrow> opt_list id (td_Subscription d)) @
        [te_OrderID body] @ opt_list td_OrderID (te_TransactionDetail body) @
        [te_PONumber body] @ opt_list td_PONumber (te_TransactionDetail body))"

definition resolveSubscriptionFromReference ::
  "(string \<Rightarrow> uuid option) \<Rightarrow> string \<Rightarrow> string \<Rightarrow> subscription list \<Rightarrow> subscription result" where
  "resolveSubscriptionFromReference uuid_Parse processor reference rows =
     (let ref = TrimSpace reference in
      if ref = [] then Inl ErrNoRows
      else
        (case GetByProcessorSubscriptionID processor ref rows of
           Inr s \<Rightarrow> Inr s
         | Inl e \<Rightarrow>
             if \<not> errors_Is e ErrNoRows then Inl (ErrWrap ''load subscription by processor subscription ID'' e)
             else (case uuid_Parse ref of None \<Rightarrow> Inl ErrNoRows | Some i \<Rightarrow> SubGetByID i rows)))"

definition transactionAmountCandidates :: "NMITransactionEventBody \<Rightarrow> string list" where
  "transactionAmountCandidates body =
     [te_Amount body] @ opt_list td_Amount (te_TransactionDetail body) @ opt_list na_Amount (te_Action body) @
     (case te_TransactionDetail body of None \<Rightarrow> [] | Some d \<Rightarrow> opt_list na_Amount (td_Action d))"

fun first_amount :: "(string \<Rightarrow> rat option) \<Rightarrow> string list \<Rightarrow> go_error option \<Rightarrow> int result" where
  "first_amount SetString [] firstErr = Inl (case firstErr of Some e \<Rightarrow> e | None \<Rightarrow> ErrMsg ''amount not provided'')"
| "first_amount SetString (raw # rest) firstErr =
     (if TrimSpace raw = [] then first_amount SetString rest firstErr
      else (case ParseDecimalToCents SetString (TrimSpace raw) of
              Inr amount \<Rightarrow> Inr amount
            | Inl e \<Rightarrow> first_amount SetString rest (case firstErr of None \<Rightarrow> Some e | Some e0 \<Rightarrow> Some e0)))"

definition transactionAmountCents :: "(string \<Rightarrow> rat option) \<Rightarrow> NMITransactionEventBody \<Rightarrow> int result" where
  "transactionAmountCents SetString body = first_amount SetString (transactionAmountCandidates body) None"

definition transactionCurrency :: "NMITransactionEventBody \<Rightarrow> string" where
  "transactionCurrency body =
     (if TrimSpace (te_Currency body) \<noteq> [] then TrimSpace (te_Currency body)
      else (case te_TransactionDetail body of None \<Rightarrow> [] | Some d \<Rightarrow> TrimSpace (td_Currency d)))"

definition normalizeNMICurrencyValue :: "string list \<Rightarrow> string" where
  "normalizeNMICurrencyValue values =
     (case filter (\<lambda>v. v \<noteq> []) (map (\<lambda>v. ToLower (TrimSpace v)) values) of [] \<Rightarrow> ''usd'' | v # _ \<Rightarrow> v)"

definition getOriginalTransactionID :: "NMITransactionEventBody \<Rightarrow> string" where
  "getOriginalTransactionID body = (case te_TransactionDetail body of None \<Rightarrow> [] | Some d \<Rightarrow> TrimSpace (td_TransactionID d))"

text \<open>The identifier of the transaction, and amount and currency with those of the price in their place.\<close>

definition transaction_id :: "NMITransactionEventBody \<Rightarrow> string" where
  "transaction_id body =
     (if TrimSpace (te_TransactionID body) \<noteq> [] then TrimSpace (te_TransactionID body) else getOriginalTransactionID body)"

definition charge_amount :: "(string \<Rightarrow> rat option) \<Rightarrow> NMITransactionEventBody \<Rightarrow> price option \<Rightarrow> int" where
  "charge_amount SetString body price =
     (case transactionAmountCents SetString body of
        Inr amount \<Rightarrow> amount
      | Inl _ \<Rightarrow> (case price of None \<Rightarrow> 0 | Some p \<Rightarrow> if price_Amount p > 0 then price_Amount p else 0))"

definition charge_currency :: "NMITransactionEventBody \<Rightarrow> price option \<Rightarrow> string" where
  "charge_currency body price =
     normalizeNMICurrencyValue [transactionCurrency body, case price of None \<Rightarrow> [] | Some p \<Rightarrow> price_Currency p]"

section \<open>Dates\<close>

definition layout_slashes :: "std list" where
  "layout_slashes = [stdLongYear, Lit (CHR ''/''), stdZeroMonth, Lit (CHR ''/''), stdZeroDay]"

definition layout_american :: "std \<Rightarrow> std \<Rightarrow> char \<Rightarrow> std list" where
  "layout_american m d sep = [m, Lit sep, d, Lit sep, stdLongYear]"

definition nmi_layouts :: "std list list" where
  "nmi_layouts =
     [layout_date, layout_slashes, [stdLongYear, stdZeroMonth, stdZeroDay],
      layout_american stdMonth stdDay (CHR ''/''), layout_american stdZeroMonth stdZeroDay (CHR ''/''),
      layout_american stdMonth stdDay (CHR ''-''), layout_american stdZeroMonth stdZeroDay (CHR ''-''),
      layout_date @ [Lit (CHR '' '')] @ layout_clock, RFC3339, RFC3339]"

definition parseNMIDate :: "string \<Rightarrow> time option" where
  "parseNMIDate raw =
     (if TrimSpace raw = [] then None
      else (case ParseFirstUTC (TrimSpace raw) nmi_layouts of Inl _ \<Rightarrow> None | Inr t \<Rightarrow> Some t))"

definition startOfUTCDate :: "time \<Rightarrow> time" where
  "startOfUTCDate t = t div day_ns * day_ns"

definition shouldDeferNMIActivation :: "string \<Rightarrow> time \<Rightarrow> bool" where
  "shouldDeferNMIActivation nextChargeDate now =
     (case parseNMIDate nextChargeDate of None \<Rightarrow> False | Some target \<Rightarrow> startOfUTCDate target > startOfUTCDate now)"

section \<open>Events of a subscription\<close>

definition GetByNMIPlan :: "string \<Rightarrow> string \<Rightarrow> billing_db \<Rightarrow> price result" where
  "GetByNMIPlan provider planID db =
     (let provider = Lower provider;
          plan = (\<lambda>p key. case price_Processors p of
                     None \<Rightarrow> False
                   | Some m \<Rightarrow> (case m key of None \<Rightarrow> False | Some c \<Rightarrow> c ''plan_id'' = Some planID))
      in if provider = [] then Inl (ErrMsg (''nmi provider is required for plan '' @ planID))
         else sql_find (\<lambda>p. price_IsActive p \<and> (plan p provider \<or> provider \<noteq> ''nmi'' \<and> plan p ''nmi'')) (bdb_prices db))"

definition nmi_error :: "string \<Rightarrow> go_error" where
  "nmi_error m = BillingError ''validation_error'' m"

definition plan_amount :: "(string \<Rightarrow> rat option) \<Rightarrow> NMIPlan option \<Rightarrow> price \<Rightarrow> int" where
  "plan_amount SetString plan price =
     (let parsed = (case plan of
                      None \<Rightarrow> 0
                    | Some p \<Rightarrow> if TrimSpace (np_Amount p) = [] then 0
                                else (case ParseDecimalToCents SetString (TrimSpace (np_Amount p)) of Inr a \<Rightarrow> a | Inl _ \<Rightarrow> 0))
      in if parsed = 0 \<and> price_Amount price > 0 then price_Amount price else parsed)"

text \<open>What is read and checked before the membership: the subscription and its price, or nothing if the event is ignored.\<close>

definition add_checks ::
  "webhook_cfg \<Rightarrow> string \<Rightarrow> time \<Rightarrow> NMIRecurringEventBody \<Rightarrow> billing_db \<Rightarrow> (string \<times> subscription \<times> price) option result" where
  "add_checks cfg processor now body db =
     (let nmiSubID = TrimSpace (re_SubscriptionID body);
          nmiPlanID = (case re_Plan body of None \<Rightarrow> [] | Some p \<Rightarrow> TrimSpace (np_ID p)) in
      if nmiSubID = [] then Inl (nmi_error ''Missing subscription ID'')
      else
        rbind (normalizedProcessor processor) (\<lambda>provider.
        if nmiPlanID = [] then Inl (nmi_error ''Missing plan ID'')
        else
          rbind (wrapped (''failed to find price for NMI plan ID '' @ nmiPlanID) (GetByNMIPlan provider nmiPlanID db)) (\<lambda>price.
          rbind (wrapped (''failed to load subscription for processor ID '' @ nmiSubID)
                   (GetByProcessorSubscriptionID processor nmiSubID (bdb_subs db))) (\<lambda>s.
          if sub_Status s \<noteq> StatusPending then Inr None
          else if shouldDeferNMIActivation (TrimSpace (re_NextChargeDate body)) now then Inr None
          else Inr (Some (provider, s, price))))))"

definition add_membership ::
  "(string \<Rightarrow> rat option) \<Rightarrow> NMIRecurringEventBody \<Rightarrow> string \<Rightarrow> subscription \<Rightarrow> price \<Rightarrow> CreateMembershipParams" where
  "add_membership SetString body provider s price =
     \<lparr>cm_UserID = sub_UserID s, cm_PriceID = price_ID price, cm_Processor = provider,
      cm_ProcessorSubscriptionID = Some (sub_ProcessorSubscriptionID s), cm_UserEmail = sub_UserEmail s,
      cm_CurrentPeriodEndsAt = None, cm_TransactionID = ''sub:'' @ TrimSpace (re_SubscriptionID body),
      cm_Amount = plan_amount SetString (re_Plan body) price,
      cm_Currency = normalizeNMICurrencyValue [price_Currency price], cm_PaymentMetadata = None\<rparr>"

definition handleAddSubscription ::
  "webhook_cfg \<Rightarrow> string \<Rightarrow> go_env \<Rightarrow> NMIRecurringEventBody \<Rightarrow> billing_db \<Rightarrow> unit result \<times> billing_db" where
  "handleAddSubscription cfg processor env body db =
     (case add_checks cfg processor (env_now env) body db of
        Inl e \<Rightarrow> (Inl e, db)
      | Inr None \<Rightarrow> (Inr (), db)
      | Inr (Some (provider, s, price)) \<Rightarrow>
          (case CreateMembership (wc_lifecycle cfg) env (add_membership (wc_SetString cfg) body provider s price) db of
             (Inl e, db') \<Rightarrow> (Inl (call_error ''failed to create membership'' e), db')
           | (Inr _, db') \<Rightarrow> (Inr (), db')))"

definition handleUpdateSubscription :: "NMIRecurringEventBody \<Rightarrow> unit result" where
  "handleUpdateSubscription body =
     (if TrimSpace (re_SubscriptionID body) = [] then Inl (nmi_error ''Missing subscription ID'') else Inr ())"

definition handleDeleteSubscription ::
  "webhook_cfg \<Rightarrow> string \<Rightarrow> go_env \<Rightarrow> NMIRecurringEventBody \<Rightarrow> billing_db \<Rightarrow> unit result \<times> billing_db" where
  "handleDeleteSubscription cfg processor env body db =
     (let nmiSubID = TrimSpace (re_SubscriptionID body) in
      case normalizedProcessor processor of
        Inl e \<Rightarrow> (Inl e, db)
      | Inr provider \<Rightarrow>
          if nmiSubID = [] then (Inl (nmi_error ''Missing subscription ID''), db)
          else
            (case GetByProcessorSubscriptionID processor nmiSubID (bdb_subs db) of
               Inl e \<Rightarrow> if errors_Is e ErrNoRows then (Inr (), db) else (Inl (ErrWrap ''failed to get subscription'' e), db)
             | Inr s \<Rightarrow>
                 if sub_Status s = StatusCancelled then (Inr (), db)
                 else
                   apfst (map_sum (call_error ''failed to cancel subscription'') id)
                     (CancelMembership (wc_lifecycle cfg) env
                       \<lparr>ca_SubscriptionID = Some (sub_ID s), ca_Processor = Some provider,
                        ca_ProcessorSubscriptionID = Some nmiSubID, ca_CancelType = CancelTypeMerchant,
                        ca_CancelFeedback = Some ''Cancelled via NMI webhook'', ca_RevokeAccess = False\<rparr> db)))"


section \<open>Sales\<close>

definition sale_reference :: "string \<Rightarrow> NMITransactionEventBody \<Rightarrow> (string \<times> string) result" where
  "sale_reference processor body =
     rbind (normalizedProcessor processor) (\<lambda>provider.
     let nmiSubID = transactionSubscriptionID body
     in if nmiSubID = [] then Inl (nmi_error ''Missing subscription reference'') else Inr (provider, nmiSubID))"

abbreviation referenced :: "webhook_cfg \<Rightarrow> string \<Rightarrow> string \<Rightarrow> billing_db \<Rightarrow> subscription result" where
  "referenced cfg processor nmiSubID db \<equiv>
     resolveSubscriptionFromReference (lc_uuid_Parse (wc_lifecycle cfg)) processor nmiSubID (bdb_subs db)"

text \<open>The credits of the period that the subscription now has; a failure is logged.\<close>

definition grant_sale_credits ::
  "webhook_cfg \<Rightarrow> go_env \<Rightarrow> string \<Rightarrow> string \<Rightarrow> CreditGrantCadence \<Rightarrow> string \<Rightarrow> 'r webhook_world \<Rightarrow> 'r webhook_world" where
  "grant_sale_credits cfg env provider nmiSubID cadence source w =
     (case GetByProcessorSubscriptionID provider nmiSubID (bdb_subs (ww_billing w)) of
        Inl _ \<Rightarrow> w
      | Inr s \<Rightarrow> grant_period_credits cfg env s None cadence source w)"

definition sale_membership ::
  "(string \<Rightarrow> rat option) \<Rightarrow> NMITransactionEventBody \<Rightarrow> string \<Rightarrow> subscription \<Rightarrow> price option \<Rightarrow> CreateMembershipParams" where
  "sale_membership SetString body provider s price =
     \<lparr>cm_UserID = sub_UserID s, cm_PriceID = sub_PriceID s, cm_Processor = provider,
      cm_ProcessorSubscriptionID = Some (sub_ProcessorSubscriptionID s), cm_UserEmail = sub_UserEmail s,
      cm_CurrentPeriodEndsAt = None, cm_TransactionID = transaction_id body, cm_Amount = charge_amount SetString body price,
      cm_Currency = charge_currency body price, cm_PaymentMetadata = None\<rparr>"

definition sale_renewal ::
  "(string \<Rightarrow> rat option) \<Rightarrow> NMITransactionEventBody \<Rightarrow> string \<Rightarrow> string \<Rightarrow> price option \<Rightarrow> RenewMembershipParams" where
  "sale_renewal SetString body provider nmiSubID price =
     \<lparr>rm_Processor = provider, rm_ProcessorSubscriptionID = nmiSubID, rm_CurrentPeriodEndsAt = None,
      rm_TransactionID = transaction_id body, rm_Amount = charge_amount SetString body price,
      rm_Currency = charge_currency body price, rm_PaymentMetadata = None, rm_AllowTerminalReactivation = False\<rparr>"

definition activate_sale ::
  "webhook_cfg \<Rightarrow> go_env \<Rightarrow> NMITransactionEventBody \<Rightarrow> string \<Rightarrow> string \<Rightarrow> subscription \<Rightarrow> 'r webhook_world \<Rightarrow>
   unit result \<times> 'r webhook_world" where
  "activate_sale cfg env body provider nmiSubID s w =
     (case RemoveCancelledSubscriptionsForActivation (wc_superseded cfg) (env_now env) (sub_UserID s) (sub_ProductID s) (sub_ID s)
             (bdb_subs (ww_billing w)) of
        Inl e \<Rightarrow> (Inl (ErrWrap ''failed to cleanup cancelled subscriptions before activation'' e), w)
      | Inr (_, rows) \<Rightarrow>
          (let w1 = w\<lparr>ww_billing := (ww_billing w)\<lparr>bdb_subs := rows\<rparr>\<rparr> in
           case CreateMembership (wc_lifecycle cfg) env (sale_membership (wc_SetString cfg) body provider s (sub_Price s (ww_billing w)))
                  (ww_billing w1) of
             (Inl e, _) \<Rightarrow> (Inl (call_error ''failed to activate subscription'' e), w1)
           | (Inr _, db) \<Rightarrow>
               (Inr (), grant_sale_credits cfg env provider nmiSubID CreditGrantCadenceOnce ''subscription_initial''
                          (w1\<lparr>ww_billing := db\<rparr>))))"

definition renew_sale ::
  "webhook_cfg \<Rightarrow> go_env \<Rightarrow> NMITransactionEventBody \<Rightarrow> string \<Rightarrow> string \<Rightarrow> subscription \<Rightarrow> 'r webhook_world \<Rightarrow>
   unit result \<times> 'r webhook_world" where
  "renew_sale cfg env body provider nmiSubID s w =
     (case RenewMembership (wc_lifecycle cfg) env (sale_renewal (wc_SetString cfg) body provider nmiSubID (sub_Price s (ww_billing w)))
             (ww_billing w) of
        (Inl e, _) \<Rightarrow>
          if IsTerminalTransitionBlocked e then (Inr (), w) else (Inl (call_error ''failed to renew subscription'' e), w)
      | (Inr _, db) \<Rightarrow>
          (Inr (), grant_sale_credits cfg env provider nmiSubID CreditGrantCadencePerRenewal ''subscription_renewal''
                     (w\<lparr>ww_billing := db\<rparr>)))"

definition handleTransactionSaleSuccess ::
  "webhook_cfg \<Rightarrow> string \<Rightarrow> go_env \<Rightarrow> NMITransactionEventBody \<Rightarrow> 'r webhook_world \<Rightarrow> unit result \<times> 'r webhook_world" where
  "handleTransactionSaleSuccess cfg processor env body w =
     (case rbind (sale_reference processor body) (\<lambda>(provider, nmiSubID).
           rbind (wrapped ''failed to load subscription for transaction event'' (referenced cfg processor nmiSubID (ww_billing w))) (\<lambda>s.
           Inr (provider, nmiSubID, s))) of
        Inl e \<Rightarrow> (Inl e, w)
      | Inr (provider, nmiSubID, s) \<Rightarrow>
          if sub_Status s = StatusPending then activate_sale cfg env body provider nmiSubID s w
          else renew_sale cfg env body provider nmiSubID s w)"

text \<open>The gateway's words for a failure.\<close>

definition failure_text :: "NMITransactionEventBody \<Rightarrow> string option \<times> string option" where
  "failure_text body =
     (let of_action = (\<lambda>a. (OptionalString (na_ResponseText a), OptionalString (na_ResponseCode a))) in
      case te_Action body of
        Some a \<Rightarrow> of_action a
      | None \<Rightarrow>
          (case te_TransactionDetail body of
             None \<Rightarrow> (None, None)
           | Some d \<Rightarrow> (case td_Action d of None \<Rightarrow> (None, None) | Some a \<Rightarrow> of_action a)))"

definition failed_payment ::
  "(string \<Rightarrow> rat option) \<Rightarrow> go_env \<Rightarrow> string \<Rightarrow> NMITransactionEventBody \<Rightarrow> subscription \<Rightarrow> price option \<Rightarrow> payment" where
  "failed_payment SetString env processor body s price =
     (let amount = charge_amount SetString body price in
      \<lparr>pay_ID = env_uuid env 0, pay_UserID = sub_UserID s, pay_PriceID = sub_PriceID s, pay_SubscriptionID = Some (sub_ID s),
       pay_RefundedPaymentID = None, pay_Processor = processor, pay_TransactionID = transaction_id body, pay_Amount = amount,
       pay_ListAmount = (case price of None \<Rightarrow> amount | Some p \<Rightarrow> if price_Amount p > 0 then price_Amount p else amount),
       pay_Currency = charge_currency body price, pay_Status = [], pay_Metadata = None,
       pay_PurchasedAt = env_now env, pay_CreatedAt = env_now env\<rparr>)"

text \<open>The charge that failed, marked or recorded as failed.\<close>

definition record_failure ::
  "(string \<Rightarrow> rat option) \<Rightarrow> go_env \<Rightarrow> string \<Rightarrow> NMITransactionEventBody \<Rightarrow> subscription \<Rightarrow> billing_db \<Rightarrow> payment list result" where
  "record_failure SetString env processor body s db =
     (let rows = bdb_payments db; p = failed_payment SetString env processor body s (sub_Price s db) in
      if transaction_id body = [] then Inr rows
      else
        (case GetByTransactionID processor (transaction_id body) rows of
           Inr q \<Rightarrow> Inr (MarkFailed (pay_ID q) rows)
         | Inl e \<Rightarrow>
             if \<not> errors_Is e ErrNoRows then Inl (ErrWrap ''failed to fetch existing payment for transaction'' e)
             else
               (case PaymentCreate (env_now env) p rows of
                  Inl e' \<Rightarrow> Inl (ErrWrap ''failed to create payment for failure'' e')
                | Inr rows' \<Rightarrow> Inr (MarkFailed (pay_ID p) rows'))))"

definition handleTransactionSaleFailure ::
  "webhook_cfg \<Rightarrow> string \<Rightarrow> go_env \<Rightarrow> NMITransactionEventBody \<Rightarrow> billing_db \<Rightarrow> unit result \<times> billing_db" where
  "handleTransactionSaleFailure cfg processor env body db =
     (case sale_reference processor body of
        Inl e \<Rightarrow> (Inl e, db)
      | Inr (_, nmiSubID) \<Rightarrow>
          (case referenced cfg processor nmiSubID db of
             Inl e \<Rightarrow>
               if errors_Is e ErrNoRows then (Inr (), db)
               else (Inl (ErrWrap ''failed to load subscription for transaction event'' e), db)
           | Inr s \<Rightarrow>
               (case record_failure (wc_SetString cfg) env processor body s db of
                  Inl e \<Rightarrow> (Inl e, db)
                | Inr rows \<Rightarrow>
                    (case FailMembership (wc_lifecycle cfg) (env_shift 1 env)
                            \<lparr>fa_Processor = processor, fa_SubscriptionID = Some (sub_ID s),
                             fa_FailureReason = fst (failure_text body), fa_FailureCode = snd (failure_text body)\<rparr>
                            (db\<lparr>bdb_payments := rows\<rparr>) of
                       (Inl e, db') \<Rightarrow> (Inl (call_error ''failed to mark subscription as failed'' e), db')
                     | (Inr _, db') \<Rightarrow> (Inr (), db')))))"

section \<open>Chargebacks\<close>

definition last4 :: "string \<Rightarrow> string" where
  "last4 v = drop (length v - 4) v"

definition normalizeNMIChargebackLast4 :: "string \<Rightarrow> string" where
  "normalizeNMIChargebackLast4 raw = (let v = filter is_digit raw in if length v < 4 then [] else last4 v)"

definition parseNMIChargebackAmountCents :: "(string \<Rightarrow> rat option) \<Rightarrow> string \<Rightarrow> int result" where
  "parseNMIChargebackAmountCents SetString raw =
     rbind (ParseDecimalToCents SetString raw) (\<lambda>cents. if cents \<le> 0 then Inl (ErrMsg ''amount must be positive'') else Inr cents)"

definition parseNMIChargebackDate :: "string \<Rightarrow> time option" where
  "parseNMIChargebackDate raw = (if TrimSpace raw = [] then None else parseNMIDate (TrimSpace raw))"

definition splitNMIChargebackReason :: "string \<Rightarrow> string \<Rightarrow> string \<times> string" where
  "splitNMIChargebackReason rawReason rawReasonCode =
     (let reasonCode = TrimSpace rawReasonCode; reason = TrimSpace rawReason;
          before = takeWhile (\<lambda>c. c \<noteq> CHR '':'') reason; candidate = TrimSpace before
      in if reasonCode = [] \<and> before \<noteq> [] \<and> length before < length reason \<and> candidate \<noteq> [] \<and> list_all is_digit candidate
         then (candidate, TrimSpace (drop (Suc (length before)) reason))
         else (reasonCode, reason))"

text \<open>The query: charges of the amount within a week of the date, on a card with these last digits, the nearest first.\<close>

definition card_digits :: "payment_method list \<Rightarrow> subscription \<Rightarrow> string" where
  "card_digits methods s =
     (case find (\<lambda>m. sub_PaymentMethodID s = Some (pm_ID m)) methods of
        None \<Rightarrow> []
      | Some m \<Rightarrow> last4 (filter is_digit (case pm_LastFour m of None \<Rightarrow> [] | Some v \<Rightarrow> v)))"

definition chargeback_matches ::
  "string \<Rightarrow> payment_method list \<Rightarrow> int \<Rightarrow> string \<Rightarrow> time \<Rightarrow> billing_db \<Rightarrow> (payment \<times> subscription) list" where
  "chargeback_matches processor methods amount cardLast4 target db =
     sort_key (\<lambda>m. \<bar>pay_PurchasedAt (fst m) - target\<bar>) (sort_key (\<lambda>m. - pay_PurchasedAt (fst m))
       (filter (\<lambda>(p, s). pay_SubscriptionID p = Some (sub_ID s) \<and> pay_Processor p = processor \<and> sub_Processor s = processor \<and>
            pay_Amount p > 0 \<and> pay_Amount p = amount \<and> card_digits methods s = cardLast4 \<and>
            pay_PurchasedAt p \<ge> target - 7 * day_ns \<and> pay_PurchasedAt p \<le> target + 7 * day_ns)
          (List.product (bdb_payments db) (bdb_subs db))))"

definition reconcileNMIChargebackEntry ::
  "(string \<Rightarrow> rat option) \<Rightarrow> string \<Rightarrow> payment_method list \<Rightarrow> NMIChargebackEntry \<Rightarrow> billing_db \<Rightarrow> (payment \<times> subscription) option" where
  "reconcileNMIChargebackEntry SetString processor methods cb db =
     (let cardLast4 = normalizeNMIChargebackLast4 (ce_CCNumber cb) in
      case (parseNMIChargebackAmountCents SetString (ce_Amount cb), parseNMIChargebackDate (ce_Date cb)) of
        (Inr amount, Some target) \<Rightarrow>
          if cardLast4 = [] then None
          else (case take 2 (chargeback_matches processor methods amount cardLast4 target db) of [m] \<Rightarrow> Some m | _ \<Rightarrow> None)
      | _ \<Rightarrow> None)"

definition chargeback_cancellation :: "string \<Rightarrow> NMIChargebackEntry \<Rightarrow> subscription \<Rightarrow> CancelMembershipParams" where
  "chargeback_cancellation processor cb s =
     (case splitNMIChargebackReason (ce_Reason cb) (ce_ReasonCode cb) of
        (reasonCode, reasonText) \<Rightarrow>
          \<lparr>ca_SubscriptionID = Some (sub_ID s), ca_Processor = Some processor,
           ca_ProcessorSubscriptionID = OptionalString (sub_ProcessorSubscriptionID s), ca_CancelType = CancelTypeChargeback,
           ca_CancelFeedback = Some (''CHARGEBACK: '' @ (if reasonText = [] then TrimSpace (ce_Reason cb) else reasonText) @
             '' (Code: '' @ (if reasonCode = [] then ''unknown'' else reasonCode) @ '', Dispute: '' @ TrimSpace (ce_ID cb) @ '')''),
           ca_RevokeAccess = True\<rparr>)"

text \<open>The loop over the entries; \<open>seen\<close> are the subscriptions of this batch. Failures are counted, not returned. A
  match is a row of the table, so that loading the subscription again succeeds.\<close>

fun chargeback_loop ::
  "webhook_cfg \<Rightarrow> string \<Rightarrow> payment_method list \<Rightarrow> go_env \<Rightarrow> uuid list \<Rightarrow> NMIChargebackEntry list \<Rightarrow> billing_db \<Rightarrow>
   unit result \<times> billing_db" where
  "chargeback_loop cfg processor methods env seen [] db = (Inr (), db)"
| "chargeback_loop cfg processor methods env seen (cb # cbs) db =
     (case reconcileNMIChargebackEntry (wc_SetString cfg) processor methods cb db of
        None \<Rightarrow> chargeback_loop cfg processor methods (env_shift 1 env) seen cbs db
      | Some (_, s) \<Rightarrow>
          if sub_ID s \<in> set seen then chargeback_loop cfg processor methods (env_shift 1 env) seen cbs db
          else
            (case CancelMembership (wc_lifecycle cfg) env (chargeback_cancellation processor cb s) db of
               (Inl (NilDeref m), db') \<Rightarrow> (Inl (NilDeref m), db')
             | (_, db') \<Rightarrow> chargeback_loop cfg processor methods (env_shift 1 env) (sub_ID s # seen) cbs db'))"

text \<open>A body that does not decode (\<open>None\<close>) is logged.\<close>

definition handleChargebackComplete ::
  "webhook_cfg \<Rightarrow> string \<Rightarrow> payment_method list \<Rightarrow> go_env \<Rightarrow> NMIChargebackEntry list option \<Rightarrow> billing_db \<Rightarrow> unit result \<times> billing_db" where
  "handleChargebackComplete cfg processor methods env body db =
     (case body of
        None \<Rightarrow> (Inr (), db)
      | Some entries \<Rightarrow>
          (case normalizedProcessor processor of
             Inl e \<Rightarrow> (Inl e, db)
           | Inr provider \<Rightarrow> chargeback_loop cfg provider methods env [] entries db))"

section \<open>Refunds and voids\<close>

definition refund_subscription ::
  "(string \<Rightarrow> uuid option) \<Rightarrow> string \<Rightarrow> string \<Rightarrow> subscription list \<Rightarrow> subscription option" where
  "refund_subscription uuid_Parse processor nmiSubID rows =
     (if nmiSubID = [] then None
      else (case (case uuid_Parse nmiSubID of Some i \<Rightarrow> SubGetByID i rows | None \<Rightarrow> GetByProcessorSubscriptionID processor nmiSubID rows) of
              Inr s \<Rightarrow> Some s | Inl _ \<Rightarrow> None))"

text \<open>The charge that was refunded: by the transaction that is named, or the last charge of the subscription.\<close>

definition refunded_charge :: "string \<Rightarrow> string \<Rightarrow> string \<Rightarrow> subscription \<Rightarrow> payment list \<Rightarrow> payment option result" where
  "refunded_charge processor originalTxnID txnID s rows =
     rbind (if originalTxnID \<noteq> [] \<and> originalTxnID \<noteq> txnID
            then (case GetByTransactionID processor originalTxnID rows of
                    Inr p \<Rightarrow> Inr (Some p)
                  | Inl e \<Rightarrow> if errors_Is e ErrNoRows then Inr None else Inl (ErrWrap ''resolve original payment by transaction ID'' e))
            else Inr None) (\<lambda>named.
     case named of
       Some p \<Rightarrow> Inr (Some p)
     | None \<Rightarrow>
         (case GetLatestChargeBySubscriptionID (sub_ID s) rows of
            Inr p \<Rightarrow> Inr (Some p)
          | Inl e \<Rightarrow> if errors_Is e ErrNoRows then Inr None else Inl (ErrWrap ''resolve original payment by subscription fallback'' e)))"

definition persist_refund :: "go_env \<Rightarrow> string \<Rightarrow> NMITransactionEventBody \<Rightarrow> int \<Rightarrow> subscription \<Rightarrow> payment list \<Rightarrow> payment list result" where
  "persist_refund env processor body cents s rows =
     (let txnID = TrimSpace (te_TransactionID body) in
      if txnID \<noteq> [] \<and> cents > 0
      then (case GetByTransactionID processor txnID rows of
              Inr _ \<Rightarrow> Inr rows
            | Inl e0 \<Rightarrow>
                if \<not> errors_Is e0 ErrNoRows then Inl (ErrWrap ''check existing refund payment'' e0)
                else
                  rbind (refunded_charge processor (getOriginalTransactionID body) txnID s rows) (\<lambda>orig.
                  case orig of
                    None \<Rightarrow> Inr rows
                  | Some p \<Rightarrow> wrapped ''persist refund payment record'' (map_sum id snd (Refund env (pay_ID p) txnID cents rows))))
      else Inr rows)"

definition refund_cents :: "(string \<Rightarrow> rat option) \<Rightarrow> NMITransactionEventBody \<Rightarrow> int" where
  "refund_cents SetString body =
     (case transactionAmountCents SetString body of Inl _ \<Rightarrow> 0 | Inr a \<Rightarrow> if a < 0 then i64 (- a) else a)"

definition handleRefundSuccess ::
  "webhook_cfg \<Rightarrow> string \<Rightarrow> go_env \<Rightarrow> NMITransactionEventBody \<Rightarrow> billing_db \<Rightarrow> unit result \<times> billing_db" where
  "handleRefundSuccess cfg processor env body db =
     (let nmiSubID = transactionSubscriptionID body; cents = refund_cents (wc_SetString cfg) body in
      case normalizedProcessor processor of
        Inl e \<Rightarrow> (Inl e, db)
      | Inr _ \<Rightarrow>
          (case refund_subscription (lc_uuid_Parse (wc_lifecycle cfg)) processor nmiSubID (bdb_subs db) of
             None \<Rightarrow> (Inr (), db)
           | Some s \<Rightarrow>
               (case persist_refund env processor body cents s (bdb_payments db) of
                  Inl e \<Rightarrow> (Inl e, db)
                | Inr rows \<Rightarrow>
                    (let db1 = db\<lparr>bdb_payments := rows\<rparr> in
                     if refund_terminates cents (sub_Price s db)
                     then
                       (case CancelMembership (wc_lifecycle cfg) (env_shift 1 env)
                               \<lparr>ca_SubscriptionID = Some (sub_ID s), ca_Processor = Some processor,
                                ca_ProcessorSubscriptionID = Some nmiSubID, ca_CancelType = CancelTypeMerchant,
                                ca_CancelFeedback = Some ''Refund processed'', ca_RevokeAccess = True\<rparr> db1 of
                          (Inl (NilDeref m), db2) \<Rightarrow> (Inl (NilDeref m), db2)
                        | (_, db2) \<Rightarrow> (Inr (), db2))
                     else (Inr (), db1)))))"

text \<open>A void only asks for the processor; the failures of refunds and voids and the updates of cards are only logged.\<close>

definition handleVoidSuccess :: "string \<Rightarrow> unit result" where
  "handleVoidSuccess processor = map_sum id (\<lambda>_. ()) (normalizedProcessor processor)"

section \<open>Dispatch\<close>

datatype nmi_event =
    EventTypeNMIAddSubscription NMIRecurringEventBody
  | EventTypeNMIUpdateSubscription NMIRecurringEventBody
  | EventTypeNMIDeleteSubscription NMIRecurringEventBody
  | EventTypeNMITransactionSuccess NMITransactionEventBody
  | EventTypeNMITransactionFailure NMITransactionEventBody
  | EventTypeNMIRefundSuccess NMITransactionEventBody
  | EventTypeNMIRefundFailure
  | EventTypeNMIVoidSuccess
  | EventTypeNMIVoidFailure
  | EventTypeNMIACU
  | EventTypeNMIChargebackComplete "NMIChargebackEntry list option"
  | NMIMalformed go_error
  | NMIUnsupported string

fun handleWebhook ::
  "webhook_cfg \<Rightarrow> string \<Rightarrow> payment_method list \<Rightarrow> go_env \<Rightarrow> nmi_event \<Rightarrow> 'r webhook_world \<Rightarrow> unit result \<times> 'r webhook_world" where
  "handleWebhook cfg processor methods env (EventTypeNMIAddSubscription body) w = on_billing (handleAddSubscription cfg processor env body) w"
| "handleWebhook cfg processor methods env (EventTypeNMIUpdateSubscription body) w = (handleUpdateSubscription body, w)"
| "handleWebhook cfg processor methods env (EventTypeNMIDeleteSubscription body) w = on_billing (handleDeleteSubscription cfg processor env body) w"
| "handleWebhook cfg processor methods env (EventTypeNMITransactionSuccess body) w = handleTransactionSaleSuccess cfg processor env body w"
| "handleWebhook cfg processor methods env (EventTypeNMITransactionFailure body) w = on_billing (handleTransactionSaleFailure cfg processor env body) w"
| "handleWebhook cfg processor methods env (EventTypeNMIRefundSuccess body) w = on_billing (handleRefundSuccess cfg processor env body) w"
| "handleWebhook cfg processor methods env EventTypeNMIRefundFailure w = (Inr (), w)"
| "handleWebhook cfg processor methods env EventTypeNMIVoidSuccess w = (handleVoidSuccess processor, w)"
| "handleWebhook cfg processor methods env EventTypeNMIVoidFailure w = (Inr (), w)"
| "handleWebhook cfg processor methods env EventTypeNMIACU w = (Inr (), w)"
| "handleWebhook cfg processor methods env (EventTypeNMIChargebackComplete body) w =
     on_billing (handleChargebackComplete cfg processor methods env body) w"
| "handleWebhook cfg processor methods env (NMIMalformed e) w = (Inl e, w)"
| "handleWebhook cfg processor methods env (NMIUnsupported ty) w = (Inl (ErrMsg (''unsupported event type: '' @ ty)), w)"

definition HandleNMIWebhook ::
  "webhook_cfg \<Rightarrow> string \<Rightarrow> payment_method list \<Rightarrow> go_env \<Rightarrow> time \<Rightarrow> string \<Rightarrow> string \<Rightarrow> string \<Rightarrow> nmi_event \<Rightarrow> 'r webhook_world \<Rightarrow>
   unit result \<times> 'r webhook_world" where
  "HandleNMIWebhook cfg processor methods env t1 eventID eventType payload ev w =
     (case ProcessWebhook (Error (wc_driver cfg)) (env_now env) t1 eventID eventType processor payload
             (handleWebhook cfg processor methods env ev) (ww_idem w, w) of
        (r, idem, w') \<Rightarrow> (r, w'\<lparr>ww_idem := idem\<rparr>))"

end
