(* ===== verification/Membership_Creation.thy ===== *)
theory Membership_Creation
  imports Membership_Access
begin

text \<open>
  What a member may access after a membership was created: the term of a first purchase, nothing new for a member who
  buys the same price again after the old windows ran out, and nothing for the renewals of a product without a
  specification of entitlements.
\<close>

section \<open>The windows of a new membership\<close>

lemma push_window_keeps:
  assumes "push_window env u m a b st sid rows = Inr (w, rows')" "IsEntitled u' n t rows"
  shows "IsEntitled u' n t rows'"
  using push_window_adds [OF assms(1)] assms(2) by (auto simp: IsEntitled_iff)

lemma grant_entitlements_keeps:
  "grant_entitlements env u sid a b ns rows = Inr rows' \<Longrightarrow> IsEntitled u' n t rows \<Longrightarrow> IsEntitled u' n t rows'"
proof (induction ns arbitrary: rows env)
  case (Cons m ns)
  then show ?case by (auto split: if_split_asm sum.split_asm option.split_asm dest: push_window_keeps)
qed simp

lemma ExistsBySource_push_other:
  assumes "push_window env u m a b st sid rows = Inr (w, rows')" "m \<noteq> n"
  shows "ExistsBySource st' sid' n rows' = ExistsBySource st' sid' n rows"
  using push_window_adds [OF assms(1)] assms(2) by (auto simp: ExistsBySource_def)

lemma grant_entitlements_covers:
  assumes "grant_entitlements env u sid a b ns rows = Inr rows'" "n \<in> set ns"
    and "\<not> ExistsBySource EntitlementSourceSubscription sid n rows"
    and "paid_up_to (\<lambda>_. False) (max (env_now env) a) (windows u n rows)"
    and "max (env_now env) a \<le> t" "t < b"
  shows "IsEntitled u n t rows'"
  using assms
proof (induction ns arbitrary: rows env)
  case (Cons m ns)
  show ?case
  proof (cases "m = n")
    case True
    with Cons.prems(1, 3) obtain w rows1
      where 1: "push_window env u n a b EntitlementSourceSubscription sid rows = Inr (Some w, rows1)"
        and 2: "grant_entitlements (env_shift 1 env) u sid a b ns rows1 = Inr rows'"
      by (auto split: sum.split_asm option.split_asm)
    have "IsEntitled u n t rows1" by (rule push_window_covers [OF 1 Cons.prems(4 - 6)])
    then show ?thesis by (rule grant_entitlements_keeps [OF 2])
  next
    case False
    show ?thesis
    proof (cases "ExistsBySource EntitlementSourceSubscription sid m rows")
      case True
      with Cons.prems False show ?thesis by (intro Cons.IH [of "env_shift 1 env" rows]) auto
    next
      case new: False
      with Cons.prems(1) obtain w rows1
        where 1: "push_window env u m a b EntitlementSourceSubscription sid rows = Inr (Some w, rows1)"
          and 2: "grant_entitlements (env_shift 1 env) u sid a b ns rows1 = Inr rows'"
        by (auto split: sum.split_asm option.split_asm)
      show ?thesis
        by (rule Cons.IH [OF 2])
           (use Cons.prems False ExistsBySource_push_other [OF 1 False] push_window_other [OF 1 False] in simp_all)
    qed
  qed
qed simp


lemma create_payment_frame:
  assumes "create_payment env p price s db = Inr db'"
  shows "bdb_subs db' = bdb_subs db \<and> bdb_ents db' = bdb_ents db"
  using assms by (auto simp: create_payment_def Let_def tx_logged_Inr map_sum_Inr split: if_split_asm)

lemma tbl_insert_in: "tbl_insert check clash r rows = Inr rows' \<Longrightarrow> r \<in> set rows'"
  by (auto simp: tbl_insert_Inr)

lemma create_subscription_stored:
  assumes "create_subscription cfg env p price endsAt db = Inr (s, db1)" "endsAt \<noteq> 0"
  shows "\<exists>r \<in> set (bdb_subs db1). sub_ID r = sub_ID s \<and> sub_Status r = StatusActive \<and> sub_CurrentPeriodEndsAt r = Some endsAt"
proof (cases "GetByUserIDAndPriceID (cm_UserID p) (price_ID price) (bdb_subs db)")
  case (Inl e)
  with assms(1) obtain rows where "SubscriptionServiceCreate (lc_nz cfg) s (bdb_subs db) = Inr rows" and db1: "db1 = db\<lparr>bdb_subs := rows\<rparr>"
    and s: "sub_Status s = StatusActive" "sub_CurrentPeriodEndsAt s = Some endsAt"
    by (auto simp: create_subscription_def Let_def split: sum.split_asm)
  then have "tbl_insert sub_check sub_clash (sub_row (lc_nz cfg) s) (bdb_subs db) = Inr rows"
    by (auto simp: SubscriptionServiceCreate_def SubscriptionRepoCreate_def split: if_split_asm sum.split_asm go_error.split_asm)
  then have "sub_row (lc_nz cfg) s \<in> set (bdb_subs db1)" using db1 by (simp add: tbl_insert_in)
  then show ?thesis by (rule rev_bexI) (use s assms(2) in \<open>simp add: sub_row_def null_zero_def\<close>)
next
  case (Inr r)
  then have r: "r \<in> set (bdb_subs db)" by (auto simp: GetByUserIDAndPriceID_def dest: sql_find_memb)
  from assms(1) Inr have s: "sub_update ''failed to update subscription'' cfg (env_now env) s db = Inr db1" "sub_ID s = sub_ID r"
    "sub_Status s = StatusActive" "sub_CurrentPeriodEndsAt s = Some endsAt"
    by (auto simp: create_subscription_def Let_def split: sum.split_asm)
  from sub_update_stored [OF s(1) r s(2) [symmetric]] s(3, 4) assms(2) show ?thesis by (auto simp: null_zero_def)
qed

text \<open>
  C3: after a membership was created, the subscription is active until the end of the term the processor reported (or of
  one billing cycle), and its user has every entitlement of the product at every moment from now to that end,
  provided the subscription's row never had a window of the entitlement (an ended one counts, so that a purchase that reuses the
  row grants nothing) and no other window of it reaches into the term.
\<close>

theorem CreateMembership_grants_term:
  assumes run: "CreateMembership cfg env p db = (Inr s, db')"
    and price: "PriceGetByID (cm_PriceID p) db = Inr price" "ProductGetByID (price_ProductID price) db = Inr product"
    and n: "n \<in> set (ent_names product)" "\<not> ExistsBySource EntitlementSourceSubscription (sub_ID s) n (bdb_ents db)"
    and free: "paid_up_to (\<lambda>_. False) (env_now env) (windows (cm_UserID p) n (bdb_ents db))"
    and endsAt: "endsAt = membership_period (env_now env) (cm_CurrentPeriodEndsAt p) price"
    and t: "0 \<le> env_now env" "env_now env \<le> t" "t < endsAt"
  shows "IsEntitled (cm_UserID p) n t (bdb_ents db') \<and>
    (\<exists>r \<in> set (bdb_subs db'). sub_ID r = sub_ID s \<and> sub_Status r = StatusActive \<and> sub_CurrentPeriodEndsAt r = Some endsAt)"
proof -
  from run have "createMembershipCore cfg env p db = Inr (s, db')" by (simp add: CreateMembership_def)
  then obtain db1 product' ents db2 where c: "create_subscription cfg env p price endsAt db = Inr (s, db1)"
    and pd: "ProductGetByID (price_ProductID price) db1 = Inr product'"
    and g: "grant_entitlements (env_shift 3 env) (cm_UserID p) (sub_ID s) (env_now env) endsAt (ent_names product') (bdb_ents db1) = Inr ents"
    and nt: "notify (env_uuid env 1) (cm_UserID p) ''premium_started'' [] (db1\<lparr>bdb_ents := ents\<rparr>) = Inr db2"
    and py: "create_payment env p price s db2 = Inr db'"
    unfolding endsAt using price(1) by (auto elim!: createMembershipCore_Inr)
  note c' = create_subscription_ID [OF c]
  have "product' = product" using pd price(2) c' by (simp add: ProductGetByID_def)
  then have "IsEntitled (cm_UserID p) n t ents"
    by (intro grant_entitlements_covers [OF g]) (use n free t c' in simp_all)
  then show ?thesis
    using create_payment_frame [OF py] nt create_subscription_stored [OF c] t by (auto simp: notify_Inr)
qed

theorem CreateMembership_grants_term_witness:
  "IsEntitled ''u'' ''pro'' (139 * ex_day)
     (bdb_ents (snd (CreateMembership ex_cfg (ex_ent_env (110 * ex_day) 10) ex_create (ex_standing\<lparr>bdb_ents := []\<rparr>))))"
proof -
  let ?env = "ex_ent_env (110 * ex_day) 10" and ?db = "ex_standing\<lparr>bdb_ents := []\<rparr>"
  have "\<not> isl (fst (CreateMembership ex_cfg ?env ex_create ?db))" by code_simp
  then obtain s where run: "CreateMembership ex_cfg ?env ex_create ?db = (Inr s, snd (CreateMembership ex_cfg ?env ex_create ?db))"
    by (metis prod.collapse sum.collapse(2))
  have "PriceGetByID (cm_PriceID ex_create) ?db = Inr ex_price"
    by (simp add: PriceGetByID_def sql_find_def ex_create_def ex_standing_def ex_billing_def ex_price_def)
  moreover have "ProductGetByID (price_ProductID ex_price) ?db = Inr ex_product" "''pro'' \<in> set (ent_names ex_product)"
    "\<not> ExistsBySource EntitlementSourceSubscription (sub_ID s) ''pro'' (bdb_ents ?db)"
    "paid_up_to (\<lambda>_. False) (env_now ?env) (windows (cm_UserID ex_create) ''pro'' (bdb_ents ?db))"
    "140 * ex_day = membership_period (env_now ?env) (cm_CurrentPeriodEndsAt ex_create) ex_price"
    "0 \<le> env_now ?env" "env_now ?env \<le> 139 * ex_day" "139 * ex_day < 140 * ex_day"
    by code_simp+
  ultimately have "IsEntitled (cm_UserID ex_create) ''pro'' (139 * ex_day) (bdb_ents (snd (CreateMembership ex_cfg ?env ex_create ?db)))"
    by (rule CreateMembership_grants_term [OF run, THEN conjunct1])
  then show ?thesis by (simp add: ex_create_def)
qed

section \<open>Buying again\<close>

lemma grant_entitlements_existing:
  assumes "\<And>n. n \<in> set ns \<Longrightarrow> ExistsBySource EntitlementSourceSubscription sid n rows"
  shows "grant_entitlements env u sid a b ns rows = Inr rows"
  using assms by (induction ns arbitrary: env) auto

text \<open>
  A member who buys a price again gets no access for it when the subscription row of the first purchase still has a
  live window of each entitlement, even one that is over: the row is reused, a window of the row counts as
  granted whether or not it has ended, and no window is added. The membership is reported as created.
\<close>

theorem CreateMembership_again_grants_nothing:
  assumes "PriceGetByID (cm_PriceID p) db = Inr price" "ProductGetByID (price_ProductID price) db = Inr product"
    and old: "GetByUserIDAndPriceID (cm_UserID p) (price_ID price) (bdb_subs db) = Inr s"
    and windows: "\<And>n. n \<in> set (ent_names product) \<Longrightarrow> ExistsBySource EntitlementSourceSubscription (sub_ID s) n (bdb_ents db)"
  shows "bdb_ents (snd (CreateMembership cfg env p db)) = bdb_ents db"
proof (cases "createMembershipCore cfg env p db")
  case (Inr r)
  then obtain s' db' where r: "createMembershipCore cfg env p db = Inr (s', db')" by (cases r) auto
  then obtain db1 product' ents db2 where
    c: "create_subscription cfg env p price (membership_period (env_now env) (cm_CurrentPeriodEndsAt p) price) db = Inr (s', db1)"
    and pd: "ProductGetByID (price_ProductID price) db1 = Inr product'"
    and g: "grant_entitlements (env_shift 3 env) (cm_UserID p) (sub_ID s') (env_now env)
       (membership_period (env_now env) (cm_CurrentPeriodEndsAt p) price) (ent_names product') (bdb_ents db1) = Inr ents"
    and nt: "notify (env_uuid env 1) (cm_UserID p) ''premium_started'' [] (db1\<lparr>bdb_ents := ents\<rparr>) = Inr db2"
    and py: "create_payment env p price s' db2 = Inr db'"
    using assms(1) by (auto elim!: createMembershipCore_Inr)
  have "sub_ID s' = sub_ID s" using c old by (auto simp: create_subscription_def Let_def split: sum.split_asm)
  moreover have "product' = product" using pd assms(2) create_subscription_ID [OF c] by (simp add: ProductGetByID_def)
  ultimately have "ents = bdb_ents db"
    using g create_subscription_ID [OF c] windows by (simp add: grant_entitlements_existing)
  then show ?thesis using create_payment_frame [OF py] nt r by (auto simp: notify_Inr CreateMembership_def)
qed (simp add: CreateMembership_def)

text \<open>A member whose first term, from day 100 to day 130, is over buys the same price again on day 200.\<close>

definition ex_lapsed :: billing_db where
  "ex_lapsed = ex_billing (ex_sub\<lparr>sub_Status := StatusCancelled, sub_CancelType := Some CancelTypeUser,
     sub_CancelledAt := Some (110 * ex_day), sub_EndedAt := Some (130 * ex_day)\<rparr>)"

theorem CreateMembership_again_grants_nothing_witness:
  "bdb_ents (snd (CreateMembership ex_cfg (ex_ent_env (200 * ex_day) 10) ex_create ex_lapsed)) = bdb_ents ex_lapsed \<and>
   \<not> isl (fst (CreateMembership ex_cfg (ex_ent_env (200 * ex_day) 10) ex_create ex_lapsed)) \<and>
   \<not> IsEntitled ''u'' ''pro'' (201 * ex_day)
     (bdb_ents (snd (CreateMembership ex_cfg (ex_ent_env (200 * ex_day) 10) ex_create ex_lapsed)))"
proof -
  let ?env = "ex_ent_env (200 * ex_day) 10" and ?s = "hd (bdb_subs ex_lapsed)"
  have "PriceGetByID (cm_PriceID ex_create) ex_lapsed = Inr ex_price"
    by (simp add: PriceGetByID_def sql_find_def ex_create_def ex_lapsed_def ex_billing_def ex_price_def)
  moreover have "ProductGetByID (price_ProductID ex_price) ex_lapsed = Inr ex_product" by code_simp
  moreover have "GetByUserIDAndPriceID (cm_UserID ex_create) (price_ID ex_price) (bdb_subs ex_lapsed) = Inr ?s" by code_simp
  moreover have "ExistsBySource EntitlementSourceSubscription (sub_ID ?s) n (bdb_ents ex_lapsed)"
    if "n \<in> set (ent_names ex_product)" for n
  proof -
    have "n = ''pro''" using that by (simp add: ent_names_def ex_product_def)
    moreover have "ExistsBySource EntitlementSourceSubscription (sub_ID ?s) ''pro'' (bdb_ents ex_lapsed)" by code_simp
    ultimately show ?thesis by simp
  qed
  ultimately have e: "bdb_ents (snd (CreateMembership ex_cfg ?env ex_create ex_lapsed)) = bdb_ents ex_lapsed"
    by (rule CreateMembership_again_grants_nothing)
  moreover have "\<not> isl (fst (CreateMembership ex_cfg ?env ex_create ex_lapsed))" by code_simp
  moreover have "\<not> IsEntitled ''u'' ''pro'' (201 * ex_day) (bdb_ents ex_lapsed)" by code_simp
  ultimately show ?thesis by simp
qed

section \<open>Products without a specification\<close>

text \<open>
  A renewal of a product without a specification of entitlements extends no access, although the membership was
  created with a window of the default entitlement \<^verbatim>\<open>premium\<close>: the windows are left as they are.
\<close>

theorem RenewMembership_default_product_extends_nothing:
  assumes "renewal_subscription cfg p (bdb_subs db) = Inr s" "sub_ScheduledPriceID s = None"
    and "PriceGetByID (sub_PriceID s) db = Inr price" "ProductGetByID (price_ProductID price) db = Inr product"
    and "prod_EntitlementsSpec product = []"
  shows "bdb_ents (snd (RenewMembership cfg env p db)) = bdb_ents db \<and> ent_names product = [''premium'']"
proof
  show "bdb_ents (snd (RenewMembership cfg env p db)) = bdb_ents db"
  proof (cases "renewMembershipTx cfg env p db")
    case (Inr r)
    then obtain b db' where r: "renewMembershipTx cfg env p db = Inr (b, db')" by (cases r) auto
    have pr: "renewal_price s db = Inr (s, price, None)" using assms(2, 3) by (simp add: renewal_price_def)
    from r assms(1) pr obtain db1 where m: "renewal_marker env p s price db = Inr (b, db1)"
      and a: "if b then renewal_apply cfg env p s price None db1 = Inr db' else db' = db1"
      by (cases b) (auto elim!: renewMembershipTx_Inr)
    have db1: "bdb_ents db1 = bdb_ents db \<and> bdb_products db1 = bdb_products db"
      using m by (auto simp: renewal_marker_def Let_def split: if_split_asm sum.split_asm)
    have "bdb_ents db' = bdb_ents db1" if "renewal_apply cfg env p s price None db1 = Inr db'"
      using that
    proof (rule renewal_apply_Inr)
      fix a b' db2 product' ents d
      assume u: "sub_update ''failed to update subscription'' cfg (env_now env) (activated a b' s) db1 = Inr db2"
        and "(case None of Some (_, newProduct) \<Rightarrow> Inr newProduct
           | None \<Rightarrow> map_sum (ErrWrap ''failed to get product for renewal'') id (ProductGetByID (price_ProductID price) db2)) = Inr product'"
        and e: "renewal_entitlements (env_shift 2 env) s a b' product' None (bdb_ents db2) = Inr ents"
        and n: "notify (env_uuid env 1) (sub_UserID s) ''premium_renewed'' d (db2\<lparr>bdb_ents := ents\<rparr>) = Inr db'"
      then have "product' = product"
        using assms(4) db1 sub_update_fields(5) [OF u] by (simp add: ProductGetByID_def)
      with e assms(5) have "ents = bdb_ents db2" by (simp add: renewal_entitlements_def)
      with n sub_update_fields(2) [OF u] show ?thesis by (auto simp: notify_Inr)
    qed
    with a db1 r show ?thesis by (cases b) (simp_all add: RenewMembership_def)
  qed (simp add: RenewMembership_def)
qed (simp add: ent_names_def assms(5))

theorem RenewMembership_default_product_extends_nothing_witness:
  "bdb_ents (snd (RenewMembership ex_cfg (ex_ent_env (130 * ex_day) 10) ex_renew
     ((ex_billing ex_sub)\<lparr>bdb_products := [ex_product\<lparr>prod_EntitlementsSpec := []\<rparr>]\<rparr>))) = bdb_ents (ex_billing ex_sub) \<and>
   fst (RenewMembership ex_cfg (ex_ent_env (130 * ex_day) 10) ex_renew
     ((ex_billing ex_sub)\<lparr>bdb_products := [ex_product\<lparr>prod_EntitlementsSpec := []\<rparr>]\<rparr>)) = Inr True"
proof -
  let ?db = "(ex_billing ex_sub)\<lparr>bdb_products := [ex_product\<lparr>prod_EntitlementsSpec := []\<rparr>]\<rparr>"
  have "renewal_subscription ex_cfg ex_renew (bdb_subs ?db) = Inr ex_sub" "sub_ScheduledPriceID ex_sub = None" by code_simp+
  moreover have "PriceGetByID (sub_PriceID ex_sub) ?db = Inr ex_price"
    by (simp add: PriceGetByID_def sql_find_def ex_sub_def ex_billing_def ex_price_def)
  moreover have "ProductGetByID (price_ProductID ex_price) ?db = Inr (ex_product\<lparr>prod_EntitlementsSpec := []\<rparr>)" by code_simp
  ultimately have "bdb_ents (snd (RenewMembership ex_cfg (ex_ent_env (130 * ex_day) 10) ex_renew ?db)) = bdb_ents ?db"
    by (rule RenewMembership_default_product_extends_nothing [THEN conjunct1]) simp
  moreover have "fst (RenewMembership ex_cfg (ex_ent_env (130 * ex_day) 10) ex_renew ?db) = Inr True" by code_simp
  ultimately show ?thesis by simp
qed

end
