(* ===== verification/CCBill_Properties.thy ===== *)
theory CCBill_Properties
  imports CCBill_Webhooks Membership_Creation Grant_Properties Dunning
begin

text \<open>
  What CCBill's webhooks do to the tables: every event keeps their constraints, a chargeback ends the subscription and its
  paid access, a failed renewal gives bounded grace, a renewal is applied once and only for about its price; and what goes
  wrong with refunds after the paid period, upgrades of charged-back subscriptions and changes of the billing date.
\<close>

section \<open>The constraints hold after every event\<close>

lemma run_in_tx_keeps:
  "Q db \<Longrightarrow> (\<And>a db'. body db = Inr (a, db') \<Longrightarrow> Q db') \<Longrightarrow> Q (snd (run_in_tx body db))"
  by (auto simp: run_in_tx_def split: sum.split)

lemmas tx_ok = run_in_tx_keeps [where Q = billing_ok]

lemma CreateMembership_ok: "billing_ok db \<Longrightarrow> billing_ok (snd (CreateMembership cfg env p db))"
  unfolding CreateMembership_def by (rule tx_ok) (auto intro: createMembershipCore_ok)

lemma RenewMembership_ok: "billing_ok db \<Longrightarrow> billing_ok (snd (RenewMembership cfg env p db))"
  unfolding RenewMembership_def by (rule tx_ok) (auto intro: renewMembershipTx_ok)

lemma CancelMembership_ok: "billing_ok db \<Longrightarrow> billing_ok (snd (CancelMembership cfg env p db))"
  unfolding CancelMembership_def by (rule tx_ok) (auto intro: cancelMembershipTx_ok)

lemma ExpireMembership_ok: "billing_ok db \<Longrightarrow> billing_ok (snd (ExpireMembership cfg env i db))"
  unfolding ExpireMembership_def by (rule tx_ok) (auto intro: expireMembershipTx_ok)

lemma ReactivateMembership_ok:
  assumes "billing_ok db"
  shows "billing_ok (snd (ReactivateMembership cfg env p db))"
proof -
  have "billing_ok (snd (run_in_tx (reactivateMembershipTx cfg env p t) db))" for t
    using assms by (rule tx_ok) (auto intro: reactivateMembershipTx_ok [OF assms])
  with assms show ?thesis unfolding ReactivateMembership_def by (simp split: option.split)
qed

lemmas lifecycle_calls_ok = CreateMembership_ok RenewMembership_ok ReactivateMembership_ok CancelMembership_ok ExpireMembership_ok

lemma CreateAndDeliver_distinct: "distinct (map nq_ID rows) \<Longrightarrow> distinct (map nq_ID (snd (CreateAndDeliver n rows)))"
proof -
  assume d: "distinct (map nq_ID rows)"
  obtain Q where "cleanupObsoleteNotifications n rows = filter Q rows"
    by (cases "obsoleteEventTypes (nq_EventType n) = []")
       (auto simp: cleanupObsoleteNotifications_def Let_def removeObsoleteNotifications_def delete_obsolete_rows
         intro: that [of "\<lambda>_. True"])
  then show ?thesis using d
    by (auto simp: CreateAndDeliver_def NotificationCreate_def sql_insert_def Let_def distinct_map_filter split: if_split)
qed

lemma deliver_ok: "billing_ok db \<Longrightarrow> billing_ok (deliver i u ev d db)"
  by (simp add: deliver_def billing_ok_def CreateAndDeliver_distinct)

lemma deliver_fields [simp]:
  "bdb_subs (deliver i u ev d db) = bdb_subs db" "bdb_ents (deliver i u ev d db) = bdb_ents db"
  "bdb_payments (deliver i u ev d db) = bdb_payments db" "bdb_prices (deliver i u ev d db) = bdb_prices db"
  "bdb_products (deliver i u ev d db) = bdb_products db"
  by (simp_all add: deliver_def)

lemma append_grace_windows_ok:
  "ents_ok rows \<Longrightarrow> append_grace_windows env u sid a b ns rows = Inr rows' \<Longrightarrow> ents_ok rows'"
  by (induction ns arbitrary: env rows) (auto split: sum.split_asm dest: push_window_ok)

lemma upgrade_grants_ok: "ents_ok rows \<Longrightarrow> upgrade_grants env s ns rows = Inr rows' \<Longrightarrow> ents_ok rows'"
proof (induction ns arbitrary: env rows)
  case (Cons n ns)
  have "ents_ok rows1" if "tx_logged (map_sum id snd (PushNewEntitlement env p rows)) rows = Inr rows1" for p rows1
    using that Cons.prems(1) by (auto simp: tx_logged_Inr map_sum_Inr dest: Push_ok)
  with Cons show ?case by (auto simp: Let_def split: if_split_asm sum.split_asm)
qed simp

lemma updateEntitlementsForUpgrade_Inr:
  assumes "updateEntitlementsForUpgrade env s oldPriceID newPriceID db = Inr rows'"
  obtains oldPrice newPrice oldProduct newProduct rows where
    "PriceGetByID oldPriceID db = Inr oldPrice" "PriceGetByID newPriceID db = Inr newPrice"
    "ProductGetByID (price_ProductID oldPrice) db = Inr oldProduct" "ProductGetByID (price_ProductID newPrice) db = Inr newProduct"
    "revoke_names (env_now env) (sub_UserID s) EntitlementSourceSubscription (sub_ID s) EntitlementRevokeDowngrade
       (filter (\<lambda>n. n \<notin> set (ent_names newProduct)) (ent_names oldProduct)) (bdb_ents db) = Inr rows"
    "upgrade_grants env s (filter (\<lambda>n. n \<notin> set (ent_names oldProduct)) (ent_names newProduct)) rows = Inr rows'"
  using assms unfolding updateEntitlementsForUpgrade_def rbind_Inr wrapped_Inr by blast

lemma updateEntitlementsForUpgrade_ok:
  "billing_ok db \<Longrightarrow> updateEntitlementsForUpgrade env s a b db = Inr rows \<Longrightarrow> ents_ok rows"
  by (erule updateEntitlementsForUpgrade_Inr, drule billing_ok_entsD)
     (rule upgrade_grants_ok, erule revoke_names_ok, assumption, assumption)

lemma upgradeTx_Inr:
  assumes "upgradeTx cfg env data billed currency db = Inr (Some x, db')"
  obtains s newPrice pays s1 where
    "ccbill_subscription ''subscription not found for original processor subscription ID: '' (TrimSpace (us_OriginalSubscriptionID data)) db = Inr s"
    "GetByCCBillPriceID (us_FlexID data) db = Inr newPrice"
    "CreateIfNotExists (env_now env)
       (upgrade_payment env s newPrice (TrimSpace (us_TransactionID data)) billed currency) (bdb_payments db) = Inr (True, pays)"
    "ActivateWithPrice (env_now env) newPrice s = Inr s1"
    "sub_update ''failed to update subscription'' (wc_lifecycle cfg) (env_now env)
       (s1\<lparr>sub_ProcessorSubscriptionID := TrimSpace (us_SubscriptionID data)\<rparr>) (db\<lparr>bdb_payments := pays\<rparr>) = Inr db'"
    "x = (s1\<lparr>sub_ProcessorSubscriptionID := TrimSpace (us_SubscriptionID data)\<rparr>, sub_PriceID s, price_ID newPrice)"
  using assms unfolding upgradeTx_def by (auto simp: rbind_Inr Let_def split: if_split_asm)

lemma billing_ok_payments: "billing_ok db \<Longrightarrow> pays_ok pays \<Longrightarrow> billing_ok (db\<lparr>bdb_payments := pays\<rparr>)"
  by (simp add: billing_ok_def)

lemma billing_ok_subs: "billing_ok db \<Longrightarrow> subs_ok rows \<Longrightarrow> billing_ok (db\<lparr>bdb_subs := rows\<rparr>)"
  by (simp add: billing_ok_def)

lemma billing_ok_paymentsD: "billing_ok db \<Longrightarrow> pays_ok (bdb_payments db)"
  by (simp add: billing_ok_def)

lemma upgradeTx_ok: "billing_ok db \<Longrightarrow> upgradeTx cfg env data billed currency db = Inr (Some x, db') \<Longrightarrow> billing_ok db'"
  by (erule upgradeTx_Inr)
     (auto intro: sub_update_ok billing_ok_payments dest: CreateIfNotExists_pays_ok [OF billing_ok_paymentsD])

lemma handleUpgradeSuccess_ok:
  assumes "billing_ok db"
  shows "billing_ok (snd (handleUpgradeSuccess cfg env data db))"
proof -
  have "billing_ok (db1\<lparr>bdb_ents := ents\<rparr>)"
    if "upgradeTx cfg env data billed currency db = Inr (Some (s, a, b), db1)"
      "tx_logged (updateEntitlementsForUpgrade (env_shift 2 env) s a b db1) (bdb_ents db1) = Inr ents" for billed currency s a b db1 ents
    using upgradeTx_ok [OF assms that(1)] that(2)
    by (auto simp: tx_logged_Inr intro!: billing_ok_ents intro: updateEntitlementsForUpgrade_ok billing_ok_entsD)
  with assms show ?thesis
    unfolding handleUpgradeSuccess_def by (auto intro!: deliver_ok split: sum.split prod.split option.split)
qed

lemma record_refund_ok: "pays_ok rows \<Longrightarrow> record_refund env s tx cents rows = Inr rows' \<Longrightarrow> pays_ok rows'"
  by (auto simp: record_refund_def Refund_def PaymentCreate_def Let_def map_sum_Inr
      split: if_split_asm sum.split_asm intro: pay_insert_pays_ok)

lemma handleRefund_ok:
  assumes "billing_ok db"
  shows "billing_ok (snd (handleRefund cfg env data db))"
proof -
  have 1: "billing_ok (db\<lparr>bdb_payments := pays\<rparr>)" if "record_refund env s tx cents (bdb_payments db) = Inr pays" for s tx cents pays
    using that assms by (intro billing_ok_payments) (auto dest: record_refund_ok [OF billing_ok_paymentsD])
  have 2: "billing_ok db2"
    if "record_refund env s tx cents (bdb_payments db) = Inr pays" "revoke_all now u st sid r (bdb_ents db) = Inr ents"
      "sub_update msg c now s' (db\<lparr>bdb_payments := pays, bdb_ents := ents\<rparr>) = Inr db2" for s tx cents pays now u st sid r ents msg c s' db2
  proof (rule sub_update_ok [OF _ that(3)])
    have "ents_ok ents" using revoke_all_ok [OF billing_ok_entsD [OF assms] that(2)] .
    then show "billing_ok (db\<lparr>bdb_payments := pays, bdb_ents := ents\<rparr>)" by (rule billing_ok_ents [OF 1 [OF that(1)]])
  qed
  show ?thesis using assms unfolding handleRefund_def Let_def
    by (auto simp: rbind_Inr intro!: deliver_ok intro: 2 sub_update_ok [OF 1] split: sum.split prod.split)
qed

lemma handleChargeback_ok:
  assumes "billing_ok db"
  shows "billing_ok (snd (handleChargeback cfg env data db))"
proof -
  have "billing_ok (db1\<lparr>bdb_ents := ents\<rparr>)"
    if "sub_update msg c now s db = Inr db1" "revoke_all now u st sid r (bdb_ents db1) = Inr ents" for msg c now s db1 u st sid r ents
    using sub_update_ok [OF assms that(1)] that(2) by (auto intro!: billing_ok_ents dest: revoke_all_ok [OF billing_ok_entsD])
  with assms show ?thesis unfolding handleChargeback_def Let_def
    by (auto simp: rbind_Inr intro!: deliver_ok split: sum.split)
qed

lemma renewalFailureTx_Inr:
  assumes "renewalFailureTx cfg env pid retryAt db = Inr (u, db')"
  obtains s0 s db1 where "GetByProcessorSubscriptionID ProcessorCCBill pid (bdb_subs db) = Inr s0"
    "s = past_due (capCCBillRetryAt retryAt (sub_CurrentPeriodEndsAt s0)) s0"
    "sub_update ''failed to update subscription during renewal failure'' (wc_lifecycle cfg) (env_now env) s db = Inr db1"
    "sub_GraceEndsAt s = None" "db' = db1"
  | s0 s db1 graceUntil price product ents where "GetByProcessorSubscriptionID ProcessorCCBill pid (bdb_subs db) = Inr s0"
    "s = past_due (capCCBillRetryAt retryAt (sub_CurrentPeriodEndsAt s0)) s0"
    "sub_update ''failed to update subscription during renewal failure'' (wc_lifecycle cfg) (env_now env) s db = Inr db1"
    "sub_GraceEndsAt s = Some graceUntil" "PriceGetByID (sub_PriceID s) db1 = Inr price"
    "ProductGetByID (price_ProductID price) db1 = Inr product"
    "append_grace_windows env (sub_UserID s) (sub_ID s)
       (case sub_CurrentPeriodEndsAt s0 of None \<Rightarrow> env_now env | Some t \<Rightarrow> if t > env_now env then t else env_now env)
       graceUntil (ent_names product) (bdb_ents db1) = Inr ents"
    "db' = db1\<lparr>bdb_ents := ents\<rparr>"
proof -
  from assms obtain s0 db1 where s0: "GetByProcessorSubscriptionID ProcessorCCBill pid (bdb_subs db) = Inr s0"
    and u: "sub_update ''failed to update subscription during renewal failure'' (wc_lifecycle cfg) (env_now env)
      (past_due (capCCBillRetryAt retryAt (sub_CurrentPeriodEndsAt s0)) s0) db = Inr db1"
    unfolding renewalFailureTx_def Let_def rbind_Inr wrapped_Inr by blast
  show thesis
  proof (cases "sub_GraceEndsAt (past_due (capCCBillRetryAt retryAt (sub_CurrentPeriodEndsAt s0)) s0)")
    case None
    with assms s0 u show thesis by (intro that(1) [OF s0 refl u]) (simp_all add: renewalFailureTx_def Let_def)
  next
    case (Some g)
    with assms s0 u show thesis
      unfolding renewalFailureTx_def Let_def by (auto simp: rbind_Inr elim!: that(2) [OF s0 refl u Some])
  qed
qed

lemma renewalFailureTx_ok:
  assumes "billing_ok db" "renewalFailureTx cfg env pid r db = Inr (u, db')"
  shows "billing_ok db'"
  using assms(2)
proof (rule renewalFailureTx_Inr)
  fix s db1 assume "sub_update ''failed to update subscription during renewal failure'' (wc_lifecycle cfg) (env_now env) s db = Inr db1" "db' = db1"
  with assms(1) show ?thesis by (simp add: sub_update_ok)
next
  fix s0 s db1 graceUntil product ents
  assume "sub_update ''failed to update subscription during renewal failure'' (wc_lifecycle cfg) (env_now env) s db = Inr db1"
    and g: "append_grace_windows env (sub_UserID s) (sub_ID s)
       (case sub_CurrentPeriodEndsAt s0 of None \<Rightarrow> env_now env | Some t \<Rightarrow> if t > env_now env then t else env_now env)
       graceUntil (ent_names product) (bdb_ents db1) = Inr ents"
    and db': "db' = db1\<lparr>bdb_ents := ents\<rparr>"
  then have ok: "billing_ok db1" using assms(1) by (simp add: sub_update_ok)
  then show ?thesis unfolding db' by (rule billing_ok_ents) (rule append_grace_windows_ok [OF billing_ok_entsD [OF ok] g])
qed

lemma handleUpgradeFailure_ok: "billing_ok db \<Longrightarrow> billing_ok (snd (handleUpgradeFailure env data users db))"
  by (auto simp: handleUpgradeFailure_def intro: deliver_ok split: sum.split)

lemma handleBillingDateChange_ok: "billing_ok db \<Longrightarrow> billing_ok (snd (handleBillingDateChange cfg env data db))"
  unfolding handleBillingDateChange_def
  by (rule tx_ok) (auto simp: rbind_Inr map_sum_Inr split: if_split_asm intro: sub_update_ok)

lemma handleCustomerDataUpdate_ok: "billing_ok db \<Longrightarrow> billing_ok (snd (handleCustomerDataUpdate pid db))"
  unfolding handleCustomerDataUpdate_def by (rule tx_ok) (auto simp: rbind_Inr)

lemma handleUserReactivation_ok:
  assumes "billing_ok db"
  shows "billing_ok (snd (handleUserReactivation cfg env data db))"
proof -
  have "billing_ok db1" if "ReactivateMembership c e p db = (r, db1)" for c e p r db1
    using ReactivateMembership_ok [OF assms, of c e p] that by simp
  with assms show ?thesis unfolding handleUserReactivation_def
    by (auto intro!: deliver_ok split: sum.split prod.split)
qed

lemma handleVoid_eq: "snd (handleVoid cfg data db) = db"
  by (auto simp: handleVoid_def run_in_tx_def split: sum.split)

lemma handleRenewalFailure_ok: "billing_ok db \<Longrightarrow> billing_ok (snd (handleRenewalFailure cfg env data db))"
  unfolding handleRenewalFailure_def by (auto intro!: tx_ok intro: renewalFailureTx_ok split: sum.split)

lemma handleCancel_ok: "billing_ok db \<Longrightarrow> billing_ok (snd (handleCancel cfg env data db))"
  by (auto simp: handleCancel_def CancelMembership_ok split: sum.split)

lemma handleExpiration_ok: "billing_ok db \<Longrightarrow> billing_ok (snd (handleExpiration cfg env pid db))"
  by (auto simp: handleExpiration_def ExpireMembership_ok split: sum.split)


lemma Remove_ok:
  "subs_ok rows \<Longrightarrow> RemoveCancelledSubscriptionsForActivation f now u pid x rows = Inr (n, rows') \<Longrightarrow> subs_ok rows'"
  by (auto simp: RemoveCancelledSubscriptionsForActivation_def Let_def split: if_split_asm sum.split_asm dest: subs.update_ok)

lemma grant_period_credits_fields [simp]:
  "ww_billing (grant_period_credits cfg env s t c src w) = ww_billing w"
  "ww_sessions (grant_period_credits cfg env s t c src w) = ww_sessions w"
  "ww_idem (grant_period_credits cfg env s t c src w) = ww_idem w"
  "ww_users (grant_period_credits cfg env s t c src w) = ww_users w"
  by (simp_all add: grant_period_credits_def Let_def)

lemma settle_session_fields [simp]:
  "ww_billing (settle_session now u p tx sid w) = ww_billing w" "ww_credits (settle_session now u p tx sid w) = ww_credits w"
  by (simp_all add: settle_session_def Let_def split: sum.split option.split)

lemma fail_session_fields [simp]:
  "ww_billing (fail_session now u p r c w) = ww_billing w" "ww_credits (fail_session now u p r c w) = ww_credits w"
  by (simp_all add: fail_session_def Let_def split: sum.split option.split)

text \<open>The checkout sessions move only as settling moves them.\<close>

lemma session_step_reach:
  "map_sum id (Pair ()) x = session_step op rows \<Longrightarrow> x = Inr rows' \<Longrightarrow> distinct (map cs_ID rows) \<Longrightarrow> list_all2 session_moves rows rows'"
  by (rule session_step_moves [of op]) auto

lemma settle_session_moves:
  assumes "distinct (map cs_ID (ww_sessions w))"
  shows "list_all2 session_moves (ww_sessions w) (ww_sessions (settle_session now u p tx sid w))"
  unfolding settle_session_def Let_def
  by (auto split: sum.split option.split intro!: session_step_reach [OF session_step.simps(2) [symmetric] _ assms])

lemma fail_session_moves:
  assumes "distinct (map cs_ID (ww_sessions w))"
  shows "list_all2 session_moves (ww_sessions w) (ww_sessions (fail_session now u p r c w))"
  unfolding fail_session_def Let_def
  by (auto split: sum.split option.split intro!: session_step_reach [OF session_step.simps(3) [symmetric] _ assms])

definition world_ok :: "checkout_session list \<Rightarrow> 'r webhook_world \<Rightarrow> bool" where
  "world_ok sessions w \<longleftrightarrow> billing_ok (ww_billing w) \<and> distinct (map cs_ID (ww_sessions w)) \<and>
     list_all2 session_moves sessions (ww_sessions w)"

lemma world_ok_moves:
  assumes "world_ok ss w" "billing_ok (ww_billing w')" "list_all2 session_moves (ww_sessions w) (ww_sessions w')"
  shows "world_ok ss w'"
  using assms session_moves_IDs [OF assms(3)] unfolding world_ok_def
  by (auto intro: list_all2_trans [OF session_moves_trans])

lemma world_ok_billing: "world_ok ss w \<Longrightarrow> billing_ok db \<Longrightarrow> world_ok ss (w\<lparr>ww_billing := db\<rparr>)"
  by (simp add: world_ok_def)

lemma handleNewSaleSuccessInternal_ok:
  assumes "world_ok ss w"
  shows "world_ok ss (snd (handleNewSaleSuccessInternal cfg env data w))"
proof (cases "newSale_checks cfg data w")
  case (Inr x)
  obtain userID billed price currency paidTermEnd where x: "x = (userID, billed, price, currency, paidTermEnd)" by (metis prod.exhaust)
  show ?thesis
  proof (cases "RemoveCancelledSubscriptionsForActivation (wc_superseded cfg) (env_now env) userID (price_ProductID price) uuid_Nil
                  (bdb_subs (ww_billing w))")
    case R: (Inr y)
    obtain n rows where y: "y = (n, rows)" by (metis prod.exhaust)
    let ?w1 = "w\<lparr>ww_billing := (ww_billing w)\<lparr>bdb_subs := rows\<rparr>\<rparr>"
    let ?m = "newSale_membership data userID billed price currency paidTermEnd"
    have ok1: "billing_ok (ww_billing ?w1)"
      using assms R y by (auto simp: world_ok_def intro!: billing_ok_subs) (auto simp: billing_ok_def dest: Remove_ok)
    obtain r db where c: "CreateMembership (wc_lifecycle cfg) env ?m (ww_billing ?w1) = (r, db)" by (metis prod.exhaust)
    have ok2: "billing_ok db" using CreateMembership_ok [OF ok1, of "wc_lifecycle cfg" env ?m] unfolding c by simp
    have d: "distinct (map cs_ID (ww_sessions w))" using assms by (simp add: world_ok_def)
    show ?thesis
    proof (cases r)
      case (Inl e)
      with Inr R x y c ok1 assms show ?thesis
        by (simp add: handleNewSaleSuccessInternal_def Let_def) (auto simp: world_ok_def)
    next
      case r: (Inr s)
      let ?w2 = "grant_period_credits cfg env s paidTermEnd CreditGrantCadenceOnce ''subscription_initial'' (?w1\<lparr>ww_billing := db\<rparr>)"
      have "snd (handleNewSaleSuccessInternal cfg env data w) =
          settle_session (env_now env) userID (price_ID price) (ns_TransactionID data) (sub_ID s) ?w2"
        using Inr R x y c r by (simp add: handleNewSaleSuccessInternal_def Let_def)
      moreover have "list_all2 session_moves (ww_sessions w)
          (ww_sessions (settle_session (env_now env) userID (price_ID price) (ns_TransactionID data) (sub_ID s) ?w2))"
        using settle_session_moves [of ?w2] d by simp
      ultimately show ?thesis using ok2 by (auto intro: world_ok_moves [OF assms])
    qed
  qed (use assms Inr x in \<open>simp add: handleNewSaleSuccessInternal_def\<close>)
qed (use assms in \<open>simp add: handleNewSaleSuccessInternal_def\<close>)

lemma handleRenewalSuccessInternal_ok:
  assumes "world_ok ss w"
  shows "world_ok ss (snd (handleRenewalSuccessInternal cfg env data w))"
proof -
  have "billing_ok db" if "RenewMembership c env p (ww_billing w) = (r, db)" for c p r db
    using RenewMembership_ok [of "ww_billing w" c env p] that assms by (simp add: world_ok_def)
  with assms show ?thesis unfolding handleRenewalSuccessInternal_def Let_def
    by (auto simp: world_ok_def split: sum.split prod.split)
qed

lemma ProcessWebhook_world_ok:
  assumes "\<And>w. world_ok ss w \<Longrightarrow> world_ok ss (snd (process w))" "world_ok ss w"
    and "ProcessWebhook msg t0 t1 tx ty pr pl process (idem, w) = (r, i, w')"
  shows "world_ok ss (w'\<lparr>ww_idem := j\<rparr>)"
proof -
  have "world_ok ss w'" using assms(3) assms(1) [OF assms(2)] assms(2)
    by (auto simp: ProcessWebhook_def webhook_run_def Let_def split: prod.split_asm option.split_asm if_split_asm)
  then show ?thesis by (simp add: world_ok_def)
qed

lemma deduplicated_ok:
  assumes "\<And>w. world_ok ss w \<Longrightarrow> world_ok ss (snd (process w))" "world_ok ss w"
  shows "world_ok ss (snd (deduplicated cfg t0 t1 tx ty pl process w))"
  using assms unfolding deduplicated_def by (auto split: prod.split intro: ProcessWebhook_world_ok [of ss process])

lemma on_billing_ok:
  assumes "world_ok ss w" "\<And>db. billing_ok db \<Longrightarrow> billing_ok (snd (f db))"
  shows "world_ok ss (snd (on_billing f w))"
  using assms(1) assms(2) [of "ww_billing w"] by (auto simp: on_billing_def world_ok_def split: prod.split)

lemma fail_session_ok: "world_ok ss w \<Longrightarrow> world_ok ss (fail_session now u p r c w)"
  by (rule world_ok_moves, assumption, simp_all add: world_ok_def fail_session_moves)

lemma handleNewSaleFailure_ok:
  assumes "world_ok ss w"
  shows "world_ok ss (snd (handleNewSaleFailure cfg env data w))"
proof -
  have "world_ok ss (w\<lparr>ww_billing := deliver i u ev d (ww_billing w)\<rparr>)" for i u ev d
    using assms by (auto simp: world_ok_def deliver_ok)
  with assms show ?thesis unfolding handleNewSaleFailure_def Let_def by (auto intro: fail_session_ok split: sum.split)
qed

lemma HandleCCBillWebhook_ok:
  assumes w: "world_ok ss w"
  shows "world_ok ss (snd (HandleCCBillWebhook cfg env t1 payload ev w))"
proof -
  note proc = deduplicated_ok [OF _ w]
  note tab = on_billing_ok [OF w]
  show ?thesis
    by (cases ev)
       (use w in \<open>simp_all add: handleNewSaleSuccess_def handleRenewalSuccess_def proc tab handleNewSaleSuccessInternal_ok
         handleRenewalSuccessInternal_ok handleNewSaleFailure_ok handleUpgradeSuccess_ok handleUpgradeFailure_ok handleBillingDateChange_ok
         handleCustomerDataUpdate_ok handleUserReactivation_ok handleVoid_eq handleRenewalFailure_ok handleCancel_ok
         handleExpiration_ok handleRefund_ok handleChargeback_ok\<close>)
qed

definition ex_wcfg :: webhook_cfg where
  "ex_wcfg = \<lparr>wc_lifecycle = ex_cfg, wc_SetString = (\<lambda>s. if s = ''9.99'' then Some (999 / 100) else None), wc_sha1 = length,
     wc_driver = (\<lambda>_. ''driver''), wc_superseded = (\<lambda>_ _ m. m)\<rparr>"

definition ex_ccbill :: billing_db where
  "ex_ccbill = ex_billing (ex_sub\<lparr>sub_Processor := ''ccbill''\<rparr>)"

definition ex_world :: "unit webhook_world" where
  "ex_world = \<lparr>ww_billing = ex_ccbill, ww_credits = \<lparr>cdb_types = [], cdb_balances = [], cdb_transactions = [], cdb_blocks = []\<rparr>, ww_sessions = [],
     ww_idem = Some (empty_store 300), ww_users = [(''user'', ''u'')], ww_customers = []\<rparr>"

definition ex_reversal :: CCBillReversalEvent where
  "ex_reversal = \<lparr>rv_SubscriptionID = ''x1'', rv_TransactionID = ''r1'', rv_Amount = ''9.99'', rv_CurrencyCode = ''840'', rv_Reason = ''fraud''\<rparr>"

section \<open>Chargebacks\<close>

lemma ResetCurrentPeriods_Some:
  "sub_CurrentPeriodEndsAt s = Some t \<Longrightarrow> t \<noteq> 0 \<Longrightarrow> ResetCurrentPeriods now s =
     Inr (if t \<le> now then s\<lparr>sub_CurrentPeriodStartsAt := Some 0, sub_CurrentPeriodEndsAt := Some 0, sub_EndedAt := Some (now - 2 * time_Minute)\<rparr> else s)"
  by (simp add: ResetCurrentPeriods_def)

lemma charged_back_check:
  assumes "sub_check s = None" "ResetCurrentPeriods now s = Inr s1" "0 < now"
    and "nz \<or> sub_CurrentPeriodStartsAt s1 = sub_CurrentPeriodStartsAt s \<and> sub_CurrentPeriodEndsAt s1 = sub_CurrentPeriodEndsAt s"
  shows "sub_check (sub_row nz (charged_back now reason s1)) = None"
proof -
  have p: "sub_CurrentPeriodStartsAt s = Some a \<Longrightarrow> sub_CurrentPeriodEndsAt s = Some b \<Longrightarrow> a < b" for a b
    using assms(1) unfolding sub_check_None by blast
  have "s1 = s \<or> sub_CurrentPeriodStartsAt s1 = Some 0 \<and> sub_CurrentPeriodEndsAt s1 = Some 0"
    using assms(2) by (auto simp: ResetCurrentPeriods_def split: option.split_asm if_split_asm)
  then have "a < b" if "sub_CurrentPeriodStartsAt (sub_row nz (charged_back now reason s1)) = Some a"
    "sub_CurrentPeriodEndsAt (sub_row nz (charged_back now reason s1)) = Some b" for a b
    using that p [of a b] p [of 0 0] assms(4) by (auto simp: sub_row_def charged_back_def null_zero_def split: if_split_asm)
  then show ?thesis unfolding sub_check_None using assms(3) by (auto simp: sub_row_def charged_back_def null_zero_def)
qed

text \<open>
  C18: a chargeback is handled without an error, stores the subscription as cancelled by a chargeback and ended at that
  moment, a state that the policy for renewals and reactivations calls terminal, and ends every window that the subscription's payments gave
  its user, from now on. Windows from other sources all stay. The dates of a period that is still running stay in the row. The subscription must have a period end; one that has passed must be stored as \<^verbatim>\<open>NULL\<close>
  by the ORM.
\<close>

theorem handleChargeback_terminates:
  assumes ok: "billing_ok db" and ev: "reversal_checks cfg ''chargeback amount'' data = Inr cents"
    and sub: "GetByProcessorSubscriptionID ProcessorCCBill (rv_SubscriptionID data) (bdb_subs db) = Inr s" "sub_UserID s \<noteq> []" "sub_ID s \<noteq> 0"
    and period: "sub_CurrentPeriodEndsAt s = Some t" "t \<noteq> 0" "env_now env < t \<or> lc_nz (wc_lifecycle cfg)" "0 < env_now env"
  shows "\<exists>db'. handleChargeback cfg env data db = (Inr (), db') \<and>
    (\<exists>r \<in> set (bdb_subs db'). sub_ID r = sub_ID s \<and> sub_Status r = StatusCancelled \<and> snd (TerminalCancelReason r) \<and>
      sub_CancelledAt r = Some (env_now env) \<and> sub_EndedAt r = Some (env_now env)) \<and>
    source_ended EntitlementSourceSubscription (sub_ID s) (sub_UserID s) (env_now env) (bdb_ents db') \<and>
    (\<forall>e \<in> set (bdb_ents db). \<not> by_source EntitlementSourceSubscription (sub_ID s) e \<longrightarrow> e \<in> set (bdb_ents db'))"
proof -
  let ?now = "env_now env"
  have s: "s \<in> set (bdb_subs db)" using sub(1) by (auto simp: GetByProcessorSubscriptionID_def dest: sql_find_memb)
  have subs: "subs_ok (bdb_subs db)" and ents: "ents_ok (bdb_ents db)" using ok by (simp_all add: billing_ok_def)
  obtain s1 where s1: "ResetCurrentPeriods ?now s = Inr s1" "sub_ID s1 = sub_ID s"
    "lc_nz (wc_lifecycle cfg) \<or> sub_CurrentPeriodStartsAt s1 = sub_CurrentPeriodStartsAt s \<and> sub_CurrentPeriodEndsAt s1 = sub_CurrentPeriodEndsAt s"
    using period ResetCurrentPeriods_Some [OF period(1, 2), of ?now] by (cases "t \<le> ?now") auto
  let ?c = "charged_back ?now (rv_Reason data) s1"
  have c: "sub_ID ?c = sub_ID s" "\<not> active_or_pending ?c" "sub_Status ?c = StatusCancelled" "sub_CancelType ?c = Some CancelTypeChargeback"
    "sub_CancelledAt ?c = Some ?now" "sub_EndedAt ?c = Some ?now"
    using s1(2) by (simp_all add: charged_back_def active_or_pending_def)
  obtain db1 where u: "sub_update ''failed to update subscription after chargeback'' (wc_lifecycle cfg) ?now ?c db = Inr db1"
    using sub_update_inactive [OF subs s c(1, 2) charged_back_check [OF tbl_okD [OF subs s] s1(1) period(4) s1(3)]] by blast
  obtain rows where rows: "revoke_all ?now (sub_UserID s) EntitlementSourceSubscription (sub_ID s) EntitlementRevokeChargeback (bdb_ents db) = Inr rows"
    "source_ended EntitlementSourceSubscription (sub_ID s) (sub_UserID s) ?now rows"
    "\<forall>e \<in> set (bdb_ents db). \<not> by_source EntitlementSourceSubscription (sub_ID s) e \<longrightarrow> e \<in> set rows"
    by (rule revoke_all_spec [OF ents sub(2, 3)])
  let ?db' = "deliver (env_uuid env 0) (sub_UserID s) ''premium_ended'' [(''reason'', ''chargeback'')] (db1\<lparr>bdb_ents := rows\<rparr>)"
  have "handleChargeback cfg env data db = (Inr (), ?db')"
    using ev sub(1) s1(1) u rows(1) sub_update_fields(2) [OF u] by (simp add: handleChargeback_def Let_def)
  moreover obtain r where "r \<in> set (bdb_subs db1)" "sub_ID r = sub_ID s" "sub_Status r = StatusCancelled" "sub_CancelType r = Some CancelTypeChargeback"
    "sub_CancelledAt r = Some ?now" "sub_EndedAt r = Some ?now"
    using sub_update_stored [OF u s c(1) [symmetric]] c period(4) by (auto simp: null_zero_def)
  moreover from this have "snd (TerminalCancelReason r)" by (simp add: TerminalCancelReason_def)
  ultimately show ?thesis using rows(2, 3) by (intro exI [of _ ?db']) auto
qed

theorem handleChargeback_terminates_witness:
  "\<exists>db'. handleChargeback ex_wcfg (ex_ent_env (110 * ex_day) 10) ex_reversal ex_ccbill = (Inr (), db') \<and>
     source_ended EntitlementSourceSubscription 5 ''u'' (110 * ex_day) (bdb_ents db')"
proof -
  let ?env = "ex_ent_env (110 * ex_day) 10" and ?s = "ex_sub\<lparr>sub_Processor := ''ccbill''\<rparr>"
  have "billing_ok ex_ccbill" "reversal_checks ex_wcfg ''chargeback amount'' ex_reversal = Inr 999"
    "GetByProcessorSubscriptionID ProcessorCCBill (rv_SubscriptionID ex_reversal) (bdb_subs ex_ccbill) = Inr ?s"
    "sub_UserID ?s \<noteq> []" "sub_ID ?s \<noteq> 0" "sub_CurrentPeriodEndsAt ?s = Some (130 * ex_day)" "130 * ex_day \<noteq> 0"
    "env_now ?env < 130 * ex_day \<or> lc_nz (wc_lifecycle ex_wcfg)" "0 < env_now ?env" by code_simp+
  from handleChargeback_terminates [OF this] show ?thesis by (auto simp: ex_sub_def ex_ent_env_def)
qed


section \<open>Refunds after the paid period\<close>

text \<open>
  A refund of at least 80 per cent that arrives after the paid period is always refused by the database: the
  subscription would have ended two minutes before it was cancelled. Neither the refund nor the cancellation is recorded
  and the windows stay; only the notification that the membership ended was sent.
\<close>

theorem handleRefund_after_period_refused:
  assumes ok: "billing_ok db" and ev: "reversal_checks cfg ''refund amount'' data = Inr cents"
    and sub: "ccbill_subscription not_found (rv_SubscriptionID data) db = Inr s"
    and big: "refund_terminates cents (sub_Price s db)"
    and period: "sub_CurrentPeriodEndsAt s = Some t" "t \<noteq> 0" "t \<le> env_now env" "2 * time_Minute < env_now env"
  shows "isl (fst (handleRefund cfg env data db)) \<and> bdb_subs (snd (handleRefund cfg env data db)) = bdb_subs db \<and>
    bdb_payments (snd (handleRefund cfg env data db)) = bdb_payments db \<and> bdb_ents (snd (handleRefund cfg env data db)) = bdb_ents db"
proof -
  let ?now = "env_now env" and ?msg = "''failed to update subscription after refund''"
  let ?s1 = "s\<lparr>sub_CurrentPeriodStartsAt := Some 0, sub_CurrentPeriodEndsAt := Some 0, sub_EndedAt := Some (?now - 2 * time_Minute)\<rparr>"
  have s: "s \<in> set (bdb_subs db)"
    using sub by (auto simp: ccbill_subscription_def GetByProcessorSubscriptionID_def split: sum.split_asm if_split_asm dest: sql_find_memb)
  have r: "ResetCurrentPeriods ?now s = Inr ?s1" using ResetCurrentPeriods_Some [OF period(1, 2)] period(3) by simp
  have "0 < time_Minute" by (simp add: duration_defs)
  then have "sub_check (sub_row nz (refunded_subscription ?now reason ?s1)) \<noteq> None" for nz reason
    using period(4) by (auto simp: sub_check_None sub_row_def refunded_subscription_def null_zero_def)
  then obtain c where c: "sub_check (sub_row (lc_nz (wc_lifecycle cfg)) (refunded_subscription ?now (rv_Reason data) ?s1)) = Some c" by blast
  have "sub_update ?msg (wc_lifecycle cfg) ?now (refunded_subscription ?now (rv_Reason data) ?s1) (db\<lparr>bdb_payments := pays, bdb_ents := ents\<rparr>) =
      Inl (ErrWrap ?msg (ErrConstraint c))" for pays ents
    by (rule sub_update_refused [OF _ _ c]) (use s in \<open>simp_all add: refunded_subscription_def\<close>)
  then show ?thesis using ev sub big r
    by (auto simp: handleRefund_def Let_def rbind_def split: sum.split)
qed

theorem handleRefund_after_period_refused_witness:
  "isl (fst (handleRefund ex_wcfg (ex_ent_env (131 * ex_day) 10) ex_reversal ex_ccbill))"
proof -
  let ?env = "ex_ent_env (131 * ex_day) 10" and ?s = "ex_sub\<lparr>sub_Processor := ''ccbill''\<rparr>"
  have "billing_ok ex_ccbill" "reversal_checks ex_wcfg ''refund amount'' ex_reversal = Inr 999"
    "ccbill_subscription not_found (rv_SubscriptionID ex_reversal) ex_ccbill = Inr ?s"
    "refund_terminates 999 (sub_Price ?s ex_ccbill)"
    "sub_CurrentPeriodEndsAt ?s = Some (130 * ex_day)" "130 * ex_day \<noteq> 0"
    "130 * ex_day \<le> env_now ?env" "2 * time_Minute < env_now ?env" by code_simp+
  from handleRefund_after_period_refused [OF this] show ?thesis by (rule conjunct1)
qed

section \<open>Upgrades of a charged-back subscription\<close>

lemma CreateIfNotExists_False:
  "CreateIfNotExists now p rows = Inr (False, rows') \<Longrightarrow>
     list_ex (\<lambda>q. pay_Processor q = pay_Processor p \<and> pay_TransactionID q = pay_TransactionID p) rows"
  by (simp add: CreateIfNotExists_def split: if_split_asm sum.split_asm)

lemma upgradeTx_duplicate:
  assumes "upgradeTx cfg env data billed currency db = Inr (None, db1)"
  shows "list_ex (\<lambda>q. pay_Processor q = ProcessorCCBill \<and> pay_TransactionID q = TrimSpace (us_TransactionID data)) (bdb_payments db)"
  using assms unfolding upgradeTx_def
  by (auto simp: rbind_Inr Let_def upgrade_payment_def split: if_split_asm dest!: CreateIfNotExists_False)

lemma handleUpgradeSuccess_Inr:
  assumes "handleUpgradeSuccess cfg env data db = (Inr (), db')"
    and "GetByTransactionID ProcessorCCBill (TrimSpace (us_TransactionID data)) (bdb_payments db) = Inl ErrNoRows"
  obtains billed currency x db1 where "upgradeTx cfg env data billed currency db = Inr (x, db1)"
    "case x of None \<Rightarrow> db' = db | Some y \<Rightarrow> bdb_subs db' = bdb_subs db1"
proof (cases "upgrade_checks cfg data")
  case (Inl e)
  with assms(1) show thesis by (simp add: handleUpgradeSuccess_def)
next
  case (Inr bc)
  obtain billed currency where bc: "bc = (billed, currency)" by (metis prod.exhaust)
  show thesis
  proof (cases "upgradeTx cfg env data billed currency db")
    case tx: (Inl e)
    with assms Inr bc show thesis by (simp add: handleUpgradeSuccess_def)
  next
    case tx: (Inr xd)
    obtain x db1 where xd: "xd = (x, db1)" by (metis prod.exhaust)
    have "case x of None \<Rightarrow> db' = db | Some y \<Rightarrow> bdb_subs db' = bdb_subs db1"
      using assms Inr bc tx xd by (cases x) (auto simp: handleUpgradeSuccess_def split: prod.split_asm sum.split_asm)
    with that tx xd show thesis by blast
  qed
qed

text \<open>
  An upgrade that is applied makes its subscription active whatever it was before, even cancelled by a chargeback: the
  policy that keeps charged-back subscriptions closed is not asked, and afterwards it no longer applies.
\<close>

theorem handleUpgradeSuccess_revives_chargeback:
  assumes run: "handleUpgradeSuccess cfg env data db = (Inr (), db')"
    and sub: "ccbill_subscription ''subscription not found for original processor subscription ID: '' (TrimSpace (us_OriginalSubscriptionID data)) db = Inr s"
    and first: "GetByTransactionID ProcessorCCBill (TrimSpace (us_TransactionID data)) (bdb_payments db) = Inl ErrNoRows"
    and terminal: "snd (TerminalCancelReason s)"
  shows "\<exists>r \<in> set (bdb_subs db'). sub_ID r = sub_ID s \<and> sub_Status r = StatusActive \<and> \<not> snd (TerminalCancelReason r)"
proof -
  have s: "s \<in> set (bdb_subs db)"
    using sub by (auto simp: ccbill_subscription_def GetByProcessorSubscriptionID_def split: sum.split_asm if_split_asm dest: sql_find_memb)
  obtain billed currency x db1 where tx: "upgradeTx cfg env data billed currency db = Inr (x, db1)"
    and x: "case x of None \<Rightarrow> db' = db | Some y \<Rightarrow> bdb_subs db' = bdb_subs db1"
    by (rule handleUpgradeSuccess_Inr [OF run first])
  have "x \<noteq> None"
  proof
    assume "x = None"
    with upgradeTx_duplicate tx have "list_ex (\<lambda>q. pay_Processor q = ProcessorCCBill \<and> pay_TransactionID q = TrimSpace (us_TransactionID data)) (bdb_payments db)"
      by blast
    moreover have "\<not> list_ex (\<lambda>q. pay_Processor q = ProcessorCCBill \<and> pay_TransactionID q = TrimSpace (us_TransactionID data)) (bdb_payments db)"
      using first by (auto simp: GetByTransactionID_def sql_find_Inl find_None_iff list_ex_iff)
    ultimately show False by (rule notE [rotated])
  qed
  then obtain y where y: "x = Some y" by blast
  from tx [unfolded y] show ?thesis
  proof (rule upgradeTx_Inr)
    fix s' newPrice pays s1
    assume "ccbill_subscription ''subscription not found for original processor subscription ID: '' (TrimSpace (us_OriginalSubscriptionID data)) db = Inr s'"
      and a: "ActivateWithPrice (env_now env) newPrice s' = Inr s1"
      and u: "sub_update ''failed to update subscription'' (wc_lifecycle cfg) (env_now env)
       (s1\<lparr>sub_ProcessorSubscriptionID := TrimSpace (us_SubscriptionID data)\<rparr>) (db\<lparr>bdb_payments := pays\<rparr>) = Inr db1"
    with sub have "s' = s" by simp
    with a have s1: "sub_ID s1 = sub_ID s" "sub_Status s1 = StatusActive"
      by (auto simp: ActivateWithPrice_def updateCurrentPeriods_def Let_def split: option.split_asm)
    obtain r where r: "r \<in> set (bdb_subs db1)" "sub_ID r = sub_ID s" "sub_Status r = StatusActive"
      using sub_update_stored [OF u, of s] s s1 by auto
    then have "\<not> snd (TerminalCancelReason r)" by (simp add: TerminalCancelReason_def)
    with r x y show ?thesis by auto
  qed
qed

definition ex_upgrade :: CCBillUpgradeSuccessEvent where
  "ex_upgrade = \<lparr>us_FlexID = ''f1'', us_FormName = ''form'', us_SubscriptionID = ''x9'', us_TransactionID = ''t9'',
     us_OriginalSubscriptionID = ''x1'', us_BilledInitialPrice = ''9.99'', us_BilledCurrencyCode = ''840''\<rparr>"

definition ex_charged_back :: billing_db where
  "ex_charged_back = (ex_billing (charged_back (110 * ex_day) ''fraud'' (ex_sub\<lparr>sub_Processor := ''ccbill''\<rparr>)))
     \<lparr>bdb_prices := [ex_price\<lparr>price_Processors := Some [''ccbill'' \<mapsto> [''flex_id'' \<mapsto> ''f1'', ''form_name'' \<mapsto> ''form'']]\<rparr>]\<rparr>"

theorem handleUpgradeSuccess_revives_chargeback_witness:
  "\<exists>r \<in> set (bdb_subs (snd (handleUpgradeSuccess ex_wcfg (ex_ent_env (120 * ex_day) 10) ex_upgrade ex_charged_back))).
     sub_ID r = 5 \<and> sub_Status r = StatusActive"
proof -
  let ?env = "ex_ent_env (120 * ex_day) 10" and ?s = "charged_back (110 * ex_day) ''fraud'' (ex_sub\<lparr>sub_Processor := ''ccbill''\<rparr>)"
  have "fst (handleUpgradeSuccess ex_wcfg ?env ex_upgrade ex_charged_back) = Inr ()" by code_simp
  then have run: "handleUpgradeSuccess ex_wcfg ?env ex_upgrade ex_charged_back =
      (Inr (), snd (handleUpgradeSuccess ex_wcfg ?env ex_upgrade ex_charged_back))" by (metis prod.collapse)
  have "ccbill_subscription ''subscription not found for original processor subscription ID: ''
      (TrimSpace (us_OriginalSubscriptionID ex_upgrade)) ex_charged_back = Inr ?s"
    "GetByTransactionID ProcessorCCBill (TrimSpace (us_TransactionID ex_upgrade)) (bdb_payments ex_charged_back) = Inl ErrNoRows"
    "snd (TerminalCancelReason ?s)" by code_simp+
  from handleUpgradeSuccess_revives_chargeback [OF run this] show ?thesis by (auto simp: charged_back_def ex_sub_def)
qed


section \<open>Grace after a failed renewal\<close>

lemma push_window_new:
  assumes "push_window env u m a b st sid rows = Inr (w, rows')" "e \<in> set rows'" "e \<notin> set rows"
  shows "ent_EndAt e = Some b \<and> by_source st sid e"
  using assms unfolding push_window_def PushNewEntitlement_def Let_def
  by (auto simp: tbl_insert_Inr by_source_def split: if_split_asm sum.split_asm)

lemma append_grace_windows_new:
  "append_grace_windows env u sid a b ns rows = Inr rows' \<Longrightarrow> e \<in> set rows' \<Longrightarrow> e \<notin> set rows \<Longrightarrow>
     ent_EndAt e = Some b \<and> by_source EntitlementSourceGrace sid e"
proof (induction ns arbitrary: env rows)
  case (Cons n ns)
  then obtain w rows1 where 1: "push_window env u n a b EntitlementSourceGrace sid rows = Inr (w, rows1)"
    and 2: "append_grace_windows (env_shift 1 env) u sid a b ns rows1 = Inr rows'" by (auto split: sum.split_asm)
  show ?case using Cons.IH [OF 2 Cons.prems(2)] push_window_new [OF 1] Cons.prems(3) by (cases "e \<in> set rows1") auto
qed simp

lemma append_grace_windows_keeps:
  "append_grace_windows env u sid a b ns rows = Inr rows' \<Longrightarrow> IsEntitled u' n t rows \<Longrightarrow> IsEntitled u' n t rows'"
  by (induction ns arbitrary: env rows) (auto split: sum.split_asm dest: push_window_keeps)

lemma append_grace_windows_covers:
  assumes "append_grace_windows env u sid a b ns rows = Inr rows'" "n \<in> set ns"
    and "paid_up_to (\<lambda>_. False) (max (env_now env) a) (windows u n rows)" "max (env_now env) a \<le> t" "t < b"
  shows "IsEntitled u n t rows'"
  using assms
proof (induction ns arbitrary: env rows)
  case (Cons m ns)
  then obtain w rows1 where 1: "push_window env u m a b EntitlementSourceGrace sid rows = Inr (w, rows1)"
    and 2: "append_grace_windows (env_shift 1 env) u sid a b ns rows1 = Inr rows'" by (auto split: sum.split_asm)
  show ?case
  proof (cases "m = n")
    case True
    with 1 have "IsEntitled u n t rows1" by (intro push_window_covers [OF _ Cons.prems(3 - 5)]) simp
    then show ?thesis by (rule append_grace_windows_keeps [OF 2])
  next
    case False
    then show ?thesis using Cons.prems push_window_other [OF 1] by (intro Cons.IH [OF 2]) simp_all
  qed
qed simp

text \<open>
  C19: a failed renewal puts the subscription past due and gives grace: the member keeps every entitlement of the product from
  the end of the paid term (or from now, if that has passed) to the retry that CCBill announced, but never for more than
  72 hours after the paid term, provided no other window of the entitlement reaches beyond the paid term already; every window
  that is added ends there and counts as grace.
\<close>

theorem handleRenewalFailure_bounded_grace:
  assumes run: "handleRenewalFailure cfg env data db = (Inr (), db')"
    and sub: "GetByProcessorSubscriptionID ProcessorCCBill (rf_SubscriptionID data) (bdb_subs db) = Inr s"
    and dates: "parseCCBillDateUsingTimestamp (rf_NextRetryDate data) = Inr (Some retry)" "sub_CurrentPeriodEndsAt s = Some paid"
      "graceEnd = min retry (paid + DunningInterval)" "paid < graceEnd"
    and product: "PriceGetByID (sub_PriceID s) db = Inr price" "ProductGetByID (price_ProductID price) db = Inr product" "n \<in> set (ent_names product)"
    and free: "paid_up_to (\<lambda>_. False) (max (env_now env) paid) (windows (sub_UserID s) n (bdb_ents db))"
    and t: "max (env_now env) paid \<le> t" "t < graceEnd"
  shows "IsEntitled (sub_UserID s) n t (bdb_ents db') \<and>
    (\<forall>e \<in> set (bdb_ents db'). e \<notin> set (bdb_ents db) \<longrightarrow> ent_EndAt e = Some graceEnd \<and> by_source EntitlementSourceGrace (sub_ID s) e) \<and>
    (\<exists>r \<in> set (bdb_subs db'). sub_ID r = sub_ID s \<and> sub_Status r = StatusPastDue)"
proof -
  have cap: "capCCBillRetryAt (Some retry) (Some paid) = Some graceEnd" using dates(3) by (auto simp: capCCBillRetryAt_def min_def)
  let ?s = "past_due (Some graceEnd) s"
  have g: "sub_GraceEndsAt ?s = Some graceEnd" "sub_UserID ?s = sub_UserID s" "sub_ID ?s = sub_ID s" "sub_PriceID ?s = sub_PriceID s"
    "sub_Status ?s = StatusPastDue" using dates(2, 4) by (simp_all add: past_due_def)
  have "renewalFailureTx cfg env (rf_SubscriptionID data) (Some retry) db = Inr ((), db')"
    using run dates(1) by (simp add: handleRenewalFailure_def)
  then obtain db1 ents where u: "sub_update ''failed to update subscription during renewal failure'' (wc_lifecycle cfg) (env_now env) ?s db = Inr db1"
    and a: "append_grace_windows env (sub_UserID s) (sub_ID s) (max (env_now env) paid) graceEnd (ent_names product) (bdb_ents db1) = Inr ents"
    and db': "db' = db1\<lparr>bdb_ents := ents\<rparr>"
  proof (rule renewalFailureTx_Inr)
    fix s0 s' db1 assume "GetByProcessorSubscriptionID ProcessorCCBill (rf_SubscriptionID data) (bdb_subs db) = Inr s0"
      "s' = past_due (capCCBillRetryAt (Some retry) (sub_CurrentPeriodEndsAt s0)) s0" "sub_GraceEndsAt s' = None"
    with sub dates(2) cap g(1) show thesis by simp
  next
    fix s0 s' db1 g' price' product' ents
    assume s0: "GetByProcessorSubscriptionID ProcessorCCBill (rf_SubscriptionID data) (bdb_subs db) = Inr s0"
      "s' = past_due (capCCBillRetryAt (Some retry) (sub_CurrentPeriodEndsAt s0)) s0"
      and u: "sub_update ''failed to update subscription during renewal failure'' (wc_lifecycle cfg) (env_now env) s' db = Inr db1"
      and g': "sub_GraceEndsAt s' = Some g'" and p: "PriceGetByID (sub_PriceID s') db1 = Inr price'" "ProductGetByID (price_ProductID price') db1 = Inr product'"
      and w: "append_grace_windows env (sub_UserID s') (sub_ID s')
         (case sub_CurrentPeriodEndsAt s0 of None \<Rightarrow> env_now env | Some t \<Rightarrow> if t > env_now env then t else env_now env)
         g' (ent_names product') (bdb_ents db1) = Inr ents" and d: "db' = db1\<lparr>bdb_ents := ents\<rparr>"
    have s': "s' = ?s" "s0 = s" using s0 sub dates(2) cap by simp_all
    have "price' = price" "product' = product"
      using p product sub_update_fields(4, 5) [OF u] s' g(4) by (simp_all add: PriceGetByID_def ProductGetByID_def)
    moreover have "(if paid > env_now env then paid else env_now env) = max (env_now env) paid" by (simp add: max_def)
    ultimately show thesis using w u d s' g g' dates(2) by (intro that [of db1 ents]) simp_all
  qed
  note e = sub_update_fields(2) [OF u]
  have s: "s \<in> set (bdb_subs db)" using sub by (auto simp: GetByProcessorSubscriptionID_def dest: sql_find_memb)
  have "IsEntitled (sub_UserID s) n t ents"
    by (rule append_grace_windows_covers [OF a product(3)]) (use free t e in simp_all)
  moreover have "ent_EndAt x = Some graceEnd \<and> by_source EntitlementSourceGrace (sub_ID s) x" if "x \<in> set ents" "x \<notin> set (bdb_ents db)" for x
    by (rule append_grace_windows_new [OF a that(1)]) (use that(2) e in simp)
  moreover have "\<exists>r \<in> set (bdb_subs db'). sub_ID r = sub_ID s \<and> sub_Status r = StatusPastDue"
    using sub_update_stored [OF u s] g db' by auto
  ultimately show ?thesis unfolding db' by auto
qed

definition ex_failure :: CCBillRenewalFailureEvent where
  "ex_failure = \<lparr>rf_SubscriptionID = ''x1'', rf_NextRetryDate = ''0001-06-01''\<rparr>"

theorem handleRenewalFailure_bounded_grace_witness:
  "IsEntitled ''u'' ''pro'' (132 * ex_day) (bdb_ents (snd (handleRenewalFailure ex_wcfg (ex_ent_env (130 * ex_day) 10) ex_failure ex_ccbill)))"
proof -
  let ?env = "ex_ent_env (130 * ex_day) 10" and ?s = "ex_sub\<lparr>sub_Processor := ''ccbill''\<rparr>"
  have "fst (handleRenewalFailure ex_wcfg ?env ex_failure ex_ccbill) = Inr ()" by code_simp
  then have run: "handleRenewalFailure ex_wcfg ?env ex_failure ex_ccbill = (Inr (), snd (handleRenewalFailure ex_wcfg ?env ex_failure ex_ccbill))"
    by (metis prod.collapse)
  have price: "PriceGetByID (sub_PriceID ?s) ex_ccbill = Inr ex_price"
    by (simp add: PriceGetByID_def sql_find_def ex_sub_def ex_ccbill_def ex_billing_def ex_price_def)
  have 1: "GetByProcessorSubscriptionID ProcessorCCBill (rf_SubscriptionID ex_failure) (bdb_subs ex_ccbill) = Inr ?s"
    "parseCCBillDateUsingTimestamp (rf_NextRetryDate ex_failure) = Inr (Some (151 * ex_day + 86399 * time_Second))"
    "sub_CurrentPeriodEndsAt ?s = Some (130 * ex_day)"
    "133 * ex_day = min (151 * ex_day + 86399 * time_Second) (130 * ex_day + DunningInterval)" "130 * ex_day < 133 * ex_day" by code_simp+
  have 2: "ProductGetByID (price_ProductID ex_price) ex_ccbill = Inr ex_product" "''pro'' \<in> set (ent_names ex_product)"
    "paid_up_to (\<lambda>_. False) (max (env_now ?env) (130 * ex_day)) (windows (sub_UserID ?s) ''pro'' (bdb_ents ex_ccbill))"
    "max (env_now ?env) (130 * ex_day) \<le> 132 * ex_day" "132 * ex_day < 133 * ex_day" by code_simp+
  from handleRenewalFailure_bounded_grace [OF run 1 price 2] show ?thesis by (simp add: ex_sub_def)
qed


section \<open>Renewals\<close>

lemma deduplicated_settled:
  assumes "process w = (Inl e, w)" "isWebhookErrorNonRetryable e" "\<not> panics (Inl e :: unit result)" "TrimSpace tx \<noteq> []"
  shows "fst (deduplicated cfg t0 t1 tx ty pl process w) = Inr () \<and>
    (\<exists>idem. snd (deduplicated cfg t0 t1 tx ty pl process w) = w\<lparr>ww_idem := idem\<rparr>)"
  using assms unfolding deduplicated_def ProcessWebhook_def webhook_run_def Let_def
  by (auto simp: webhook_outcome_def Let_def split: prod.split option.split)

lemma mismatch_nonretryable:
  "wrapCCBillWebhookErrorForRetry driver (Inl (BillingError ''amount_mismatch'' m)) = Inl (NonRetryableWebhookError (BillingError ''amount_mismatch'' m))"
  by (simp add: wrapCCBillWebhookErrorForRetry_def shouldTreatCCBillErrorAsNonRetryable_def MarkWebhookErrorNonRetryable_def)

lemma i64_near:
  fixes x :: int
  assumes "0 \<le> x" "x < 2 ^ 52"
  shows "i64 (x - x div 50) = x - x div 50" "i64 (x + x div 50) = x + x div 50"
proof -
  have "0 \<le> x div 50" "x div 50 \<le> x" using assms(1) by presburger+
  then show "i64 (x - x div 50) = x - x div 50" "i64 (x + x div 50) = x + x div 50"
    using assms by (auto intro!: i64_id simp: in_i64_def)
qed

text \<open>
  A renewal that was billed at more than two per cent above or below the price of the subscription changes nothing: the
  webhook is acknowledged, so that CCBill does not send it again, and neither the membership nor any credit or checkout
  session is touched, whatever the store of the deduplication holds.
\<close>

theorem handleRenewalSuccess_wrong_amount:
  assumes ev: "parseCCBillPositiveAmountCents (wc_SetString cfg) (rs_BilledAmount data) ''billedAmount'' ''billedAmount'' = Inr billed"
      "requireCCBillCurrency (rs_BilledCurrencyCode data) = Inr currency" "TrimSpace (rs_TransactionID data) \<noteq> []"
    and sub: "GetByProcessorSubscriptionID ProcessorCCBill (rs_SubscriptionID data) (bdb_subs (ww_billing w)) = Inr s"
      "PriceGetByID (sub_PriceID s) (ww_billing w) = Inr price"
    and amount: "0 \<le> price_Amount price" "price_Amount price < 2 ^ 52"
      "billed < price_Amount price - price_Amount price div 50 \<or> billed > price_Amount price + price_Amount price div 50"
  shows "fst (handleRenewalSuccess cfg env t1 payload data w) = Inr () \<and>
    ww_billing (snd (handleRenewalSuccess cfg env t1 payload data w)) = ww_billing w \<and>
    ww_credits (snd (handleRenewalSuccess cfg env t1 payload data w)) = ww_credits w \<and>
    ww_sessions (snd (handleRenewalSuccess cfg env t1 payload data w)) = ww_sessions w"
proof -
  let ?e = "BillingError ''amount_mismatch'' ''Billed amount does not match expected price''"
  have "tolerance (price_Amount price) = price_Amount price div 50" by (rule tolerance_div_50 [OF amount(1, 2)])
  then have "validateCCBillBilledAmount billed (price_Amount price) = Inl ?e"
    using amount(3) by (auto simp: validateCCBillBilledAmount_def i64_near [OF amount(1, 2)])
  then have "renewalSuccess_checks cfg data (ww_billing w) = Inl ?e"
    using ev sub by (simp add: renewalSuccess_checks_def sub_Price_def)
  then have "apfst (wrapCCBillWebhookErrorForRetry (wc_driver cfg)) (handleRenewalSuccessInternal cfg env data w) = (Inl (NonRetryableWebhookError ?e), w)"
    by (simp add: handleRenewalSuccessInternal_def mismatch_nonretryable)
  from deduplicated_settled [of "\<lambda>w. apfst (wrapCCBillWebhookErrorForRetry (wc_driver cfg)) (handleRenewalSuccessInternal cfg env data w)",
      OF this _ _ ev(3), of cfg "env_now env" t1 "''RenewalSuccess''" payload]
  obtain idem where
    "fst (handleRenewalSuccess cfg env t1 payload data w) = Inr ()"
    "snd (handleRenewalSuccess cfg env t1 payload data w) = w\<lparr>ww_idem := idem\<rparr>"
    by (auto simp: handleRenewalSuccess_def)
  then show ?thesis by simp
qed

definition ex_renewal :: CCBillRenewalSuccessEvent where
  "ex_renewal = \<lparr>rs_SubscriptionID = ''x1'', rs_TransactionID = ''t1'', rs_BilledAmount = ''9.99'', rs_BilledCurrencyCode = ''840'',
     rs_NextRenewalDate = ''0001-06-10''\<rparr>"

theorem handleRenewalSuccess_wrong_amount_witness:
  "fst (handleRenewalSuccess ex_wcfg (ex_ent_env (130 * ex_day) 10) 0 [] ex_renewal
     (ex_world\<lparr>ww_billing := ex_ccbill\<lparr>bdb_prices := [ex_price\<lparr>price_Amount := 1999\<rparr>]\<rparr>\<rparr>)) = Inr ()"
proof -
  let ?w = "ex_world\<lparr>ww_billing := ex_ccbill\<lparr>bdb_prices := [ex_price\<lparr>price_Amount := 1999\<rparr>]\<rparr>\<rparr>"
  let ?s = "ex_sub\<lparr>sub_Processor := ''ccbill''\<rparr>" and ?p = "ex_price\<lparr>price_Amount := 1999\<rparr>"
  have "PriceGetByID (sub_PriceID ?s) (ww_billing ?w) = Inr ?p"
    by (simp add: PriceGetByID_def sql_find_def ex_sub_def ex_price_def)
  moreover have "parseCCBillPositiveAmountCents (wc_SetString ex_wcfg) (rs_BilledAmount ex_renewal) ''billedAmount'' ''billedAmount'' = Inr 999"
    "requireCCBillCurrency (rs_BilledCurrencyCode ex_renewal) = Inr ''840''" "TrimSpace (rs_TransactionID ex_renewal) \<noteq> []"
    "GetByProcessorSubscriptionID ProcessorCCBill (rs_SubscriptionID ex_renewal) (bdb_subs (ww_billing ?w)) = Inr ?s"
    "0 \<le> price_Amount ?p" "price_Amount ?p < 2 ^ 52"
    "999 < price_Amount ?p - price_Amount ?p div 50 \<or> 999 > price_Amount ?p + price_Amount ?p div 50" by code_simp+
  ultimately show ?thesis using handleRenewalSuccess_wrong_amount [of ex_wcfg ex_renewal 999 "''840''" ?w ?s ?p] by simp
qed

lemma RenewMembership_known:
  assumes "q \<in> set (bdb_payments db)" "pay_Processor q = rm_Processor p" "pay_TransactionID q = rm_TransactionID p" "rm_TransactionID p \<noteq> []"
  shows "snd (RenewMembership cfg env p db) = db"
proof (cases "renewMembershipTx cfg env p db")
  case (Inr x)
  obtain applied db' where x: "x = (applied, db')" by (metis prod.exhaust)
  have "db' = db" using Inr [unfolded x]
  proof (rule renewMembershipTx_Inr)
    fix s1 price downgrade db1
    assume "renewal_marker env p s1 price db = Inr (applied, db1)"
      "if applied then renewal_apply cfg env p s1 price downgrade db1 = Inr db' else db' = db1"
    with renewal_marker_known [of q db p] assms show ?thesis by auto
  qed
  with Inr x show ?thesis by (simp add: RenewMembership_def)
qed (simp add: RenewMembership_def)

text \<open>
  C21: Once the payment of a renewal is recorded, no further delivery of it changes the billing tables, at whatever time it
  comes, with whatever dates, and whether or not the store still remembers it.
\<close>

theorem handleRenewalSuccess_once:
  assumes "GetByTransactionID ProcessorCCBill (rs_TransactionID data) (bdb_payments (ww_billing w)) = Inr q" "rs_TransactionID data \<noteq> []"
  shows "ww_billing (snd (handleRenewalSuccess cfg env t1 payload data w)) = ww_billing w"
proof -
  have q: "q \<in> set (bdb_payments (ww_billing w))" "pay_Processor q = ProcessorCCBill" "pay_TransactionID q = rs_TransactionID data"
    using assms(1) by (auto simp: GetByTransactionID_def dest: sql_find_memb)
  have "snd (RenewMembership c env (renewalSuccess_membership data b cur p) (ww_billing w)) = ww_billing w" for c b cur p
    by (rule RenewMembership_known [OF q(1)]) (use q assms(2) in \<open>simp_all add: renewalSuccess_membership_def\<close>)
  then have "ww_billing (snd (handleRenewalSuccessInternal cfg env data w)) = ww_billing w"
    unfolding handleRenewalSuccessInternal_def Let_def by (auto split: sum.split prod.split dest: sndI)
  then show ?thesis
    unfolding handleRenewalSuccess_def deduplicated_def ProcessWebhook_def webhook_run_def Let_def
    by (auto split: prod.split option.split if_split dest: sndI)
qed

theorem handleRenewalSuccess_once_witness:
  "ww_billing (snd (handleRenewalSuccess ex_wcfg (ex_ent_env (130 * ex_day) 10) 0 [] ex_renewal
      (ex_world\<lparr>ww_billing := ex_ccbill\<lparr>bdb_payments := [ex_pay\<lparr>pay_Processor := ''ccbill'', pay_TransactionID := ''t1''\<rparr>]\<rparr>\<rparr>))) =
   ex_ccbill\<lparr>bdb_payments := [ex_pay\<lparr>pay_Processor := ''ccbill'', pay_TransactionID := ''t1''\<rparr>]\<rparr>"
  by (subst handleRenewalSuccess_once [of _ _ "ex_pay\<lparr>pay_Processor := ''ccbill'', pay_TransactionID := ''t1''\<rparr>"])
     (simp_all add: GetByTransactionID_def sql_find_def ProcessorCCBill_def ex_renewal_def)

section \<open>Changes of the billing date\<close>

text \<open>
  A change of the billing date moves the end of the subscription's period to the end of the new day and nothing else: the
  windows that give access stay as they were, so a date moved forward leaves a gap without access, and one moved back
  leaves access beyond the period.
\<close>

theorem handleBillingDateChange_moves_period_only:
  assumes run: "handleBillingDateChange cfg env data db = (Inr (), db')"
    and sub: "ccbill_subscription not_found (bd_SubscriptionID data) db = Inr s"
    and date: "parseCCBillDateUsingTimestamp (bd_NextRenewalDate data) = Inr (Some t)" "t \<noteq> 0"
  shows "bdb_ents db' = bdb_ents db \<and> bdb_payments db' = bdb_payments db \<and>
    (\<exists>r \<in> set (bdb_subs db'). sub_ID r = sub_ID s \<and> sub_Status r = sub_Status s \<and> sub_CurrentPeriodEndsAt r = Some t)"
proof -
  have s: "s \<in> set (bdb_subs db)"
    using sub by (auto simp: ccbill_subscription_def GetByProcessorSubscriptionID_def split: sum.split_asm if_split_asm dest: sql_find_memb)
  have u: "sub_update ''failed to update subscription billing date'' (wc_lifecycle cfg) (env_now env) (s\<lparr>sub_CurrentPeriodEndsAt := Some t\<rparr>) db = Inr db'"
    using run sub date(1) by (simp add: handleBillingDateChange_def map_sum_Inr)
  from sub_update_stored [OF u s] sub_update_fields [OF u] date(2) show ?thesis by (auto simp: null_zero_def)
qed

theorem handleBillingDateChange_moves_period_only_witness:
  "bdb_ents (snd (handleBillingDateChange ex_wcfg (ex_ent_env (120 * ex_day) 10)
     \<lparr>bd_SubscriptionID = ''x1'', bd_NextRenewalDate = ''0001-06-10''\<rparr> ex_ccbill)) = bdb_ents ex_ccbill \<and>
   \<not> IsEntitled ''u'' ''pro'' (140 * ex_day) (bdb_ents (snd (handleBillingDateChange ex_wcfg (ex_ent_env (120 * ex_day) 10)
     \<lparr>bd_SubscriptionID = ''x1'', bd_NextRenewalDate = ''0001-06-10''\<rparr> ex_ccbill)))"
proof -
  let ?d = "\<lparr>bd_SubscriptionID = ''x1'', bd_NextRenewalDate = ''0001-06-10''\<rparr>" and ?env = "ex_ent_env (120 * ex_day) 10"
  have "fst (handleBillingDateChange ex_wcfg ?env ?d ex_ccbill) = Inr ()" by code_simp
  then have run: "handleBillingDateChange ex_wcfg ?env ?d ex_ccbill = (Inr (), snd (handleBillingDateChange ex_wcfg ?env ?d ex_ccbill))"
    by (metis prod.collapse)
  have "ccbill_subscription not_found (bd_SubscriptionID ?d) ex_ccbill = Inr (ex_sub\<lparr>sub_Processor := ''ccbill''\<rparr>)"
    "parseCCBillDateUsingTimestamp (bd_NextRenewalDate ?d) = Inr (Some (160 * ex_day + 86399 * time_Second))"
    "160 * ex_day + 86399 * time_Second \<noteq> 0" by code_simp+
  from handleBillingDateChange_moves_period_only [OF run this]
  have e: "bdb_ents (snd (handleBillingDateChange ex_wcfg ?env ?d ex_ccbill)) = bdb_ents ex_ccbill" by (rule conjunct1)
  moreover have "\<not> IsEntitled ''u'' ''pro'' (140 * ex_day) (bdb_ents ex_ccbill)" by code_simp
  ultimately show ?thesis by simp
qed

end
