(* ===== verification/NMI_Properties.thy ===== *)
theory NMI_Properties
  imports NMI_Webhooks CCBill_Properties
begin

text \<open>
  What the webhooks of NMI-backed gateways do to the tables: every event of either processor keeps the constraints; a batch of
  chargebacks ends exactly the memberships whose charges it identifies.
\<close>

section \<open>The constraints hold after every event\<close>

lemma FailMembership_ok: "billing_ok db \<Longrightarrow> billing_ok (snd (FailMembership cfg env p db))"
  unfolding FailMembership_def by (rule tx_ok) (auto intro: failMembershipTx_ok)

lemma snd_okD: "billing_ok (snd x) \<Longrightarrow> x = (r, db) \<Longrightarrow> billing_ok db"
  by simp

lemma handleAddSubscription_ok: "billing_ok db \<Longrightarrow> billing_ok (snd (handleAddSubscription cfg processor env body db))"
  by (auto simp: handleAddSubscription_def split: sum.split option.split prod.split intro: snd_okD [OF CreateMembership_ok])

lemma handleDeleteSubscription_ok: "billing_ok db \<Longrightarrow> billing_ok (snd (handleDeleteSubscription cfg processor env body db))"
  by (auto simp: handleDeleteSubscription_def Let_def CancelMembership_ok split: sum.split)

lemma MarkFailed_pays_ok:
  assumes "pays_ok rows"
  shows "pays_ok (MarkFailed i rows)"
proof -
  let ?f = "\<lambda>p. if pay_ID p = i then p\<lparr>pay_Status := ''failed''\<rparr> else p"
  have "pay_clash (?f x) (?f y) = pay_clash x y" for x y by (simp add: pay_clash_def)
  then show ?thesis using assms by (simp add: MarkFailed_def sql_update_def tbl_ok_def sorted_wrt_map list_all_iff)
qed

lemma record_failure_ok:
  "pays_ok (bdb_payments db) \<Longrightarrow> record_failure SetString env processor body s db = Inr rows \<Longrightarrow> pays_ok rows"
  by (auto simp: record_failure_def PaymentCreate_def Let_def split: if_split_asm sum.split_asm
      intro: MarkFailed_pays_ok pay_insert_pays_ok)

lemma handleTransactionSaleFailure_ok:
  assumes "billing_ok db"
  shows "billing_ok (snd (handleTransactionSaleFailure cfg processor env body db))"
proof -
  have "billing_ok (db\<lparr>bdb_payments := rows\<rparr>)" if "record_failure f env processor body s db = Inr rows" for f s rows
    using assms record_failure_ok [OF billing_ok_paymentsD [OF assms] that] by (rule billing_ok_payments)
  with assms show ?thesis unfolding handleTransactionSaleFailure_def
    by (auto split: sum.split prod.split intro: snd_okD [OF FailMembership_ok])
qed

lemma chargeback_loop_ok: "billing_ok db \<Longrightarrow> billing_ok (snd (chargeback_loop cfg processor methods env seen cbs db))"
proof (induction cbs arbitrary: env seen db)
  case (Cons cb cbs)
  have "billing_ok db'" if "CancelMembership c env p db = (r, db')" for c p r db'
    using that by (rule snd_okD [OF CancelMembership_ok [OF Cons.prems]])
  with Cons show ?case by (auto split: option.split sum.split prod.split go_error.split)
qed simp

lemma Refund_pays_ok: "pays_ok rows \<Longrightarrow> Refund env i tx cents rows = Inr (r, rows') \<Longrightarrow> pays_ok rows'"
  by (auto simp: Refund_def PaymentCreate_def Let_def split: sum.split_asm if_split_asm intro: pay_insert_pays_ok)

lemma persist_refund_ok: "pays_ok rows \<Longrightarrow> persist_refund env processor body cents s rows = Inr rows' \<Longrightarrow> pays_ok rows'"
  by (auto simp: persist_refund_def Let_def rbind_Inr map_sum_Inr
      split: if_split_asm sum.split_asm option.split_asm intro: Refund_pays_ok)

lemma handleRefundSuccess_ok:
  assumes "billing_ok db"
  shows "billing_ok (snd (handleRefundSuccess cfg processor env body db))"
proof -
  have "billing_ok (db\<lparr>bdb_payments := rows\<rparr>)" if "persist_refund env processor body cents s (bdb_payments db) = Inr rows" for cents s rows
    using assms persist_refund_ok [OF billing_ok_paymentsD [OF assms] that] by (rule billing_ok_payments)
  with assms show ?thesis unfolding handleRefundSuccess_def Let_def
    by (auto split: sum.split prod.split option.split go_error.split intro: snd_okD [OF CancelMembership_ok])
qed

lemma handleChargebackComplete_ok: "billing_ok db \<Longrightarrow> billing_ok (snd (handleChargebackComplete cfg processor methods env body db))"
  by (auto simp: handleChargebackComplete_def chargeback_loop_ok split: option.split sum.split)



lemma grant_sale_credits_ok: "world_ok ss w \<Longrightarrow> world_ok ss (grant_sale_credits cfg env provider pid cadence source w)"
  by (auto simp: grant_sale_credits_def world_ok_def split: sum.split)

lemma activate_sale_ok:
  assumes "world_ok ss w"
  shows "world_ok ss (snd (activate_sale cfg env body provider pid s w))"
proof (cases "RemoveCancelledSubscriptionsForActivation (wc_superseded cfg) (env_now env) (sub_UserID s) (sub_ProductID s) (sub_ID s)
    (bdb_subs (ww_billing w))")
  case (Inr y)
  obtain n rows where y: "y = (n, rows)" by (metis prod.exhaust)
  have ok: "billing_ok (ww_billing w)" using assms by (simp add: world_ok_def)
  then have "subs_ok (bdb_subs (ww_billing w))" by (simp add: billing_ok_def)
  from billing_ok_subs [OF ok Remove_ok [OF this Inr [unfolded y]]] have ok1: "billing_ok ((ww_billing w)\<lparr>bdb_subs := rows\<rparr>)" .
  let ?m = "sale_membership (wc_SetString cfg) body provider s (sub_Price s (ww_billing w))"
  obtain r db where c: "CreateMembership (wc_lifecycle cfg) env ?m ((ww_billing w)\<lparr>bdb_subs := rows\<rparr>) = (r, db)" by (metis prod.exhaust)
  have ok2: "billing_ok db" using c by (rule snd_okD [OF CreateMembership_ok [OF ok1]])
  show ?thesis
  proof (cases r)
    case (Inl e)
    with Inr [unfolded y] c assms ok1 show ?thesis by (simp add: activate_sale_def Let_def world_ok_billing)
  next
    case (Inr m)
    with \<open>_ = Inr y\<close> [unfolded y] c assms ok2 show ?thesis
      by (simp add: activate_sale_def Let_def world_ok_billing grant_sale_credits_ok)
  qed
qed (use assms in \<open>simp add: activate_sale_def\<close>)

lemma renew_sale_ok:
  assumes "world_ok ss w"
  shows "world_ok ss (snd (renew_sale cfg env body provider pid s w))"
proof -
  have "billing_ok (ww_billing w)" using assms by (simp add: world_ok_def)
  then have "billing_ok db" if "RenewMembership c env p (ww_billing w) = (r, db)" for c p r db
    using that by (rule snd_okD [OF RenewMembership_ok])
  with assms show ?thesis
    by (auto simp: renew_sale_def world_ok_billing split: prod.split sum.split intro!: grant_sale_credits_ok)
qed

lemma handleTransactionSaleSuccess_ok:
  "world_ok ss w \<Longrightarrow> world_ok ss (snd (handleTransactionSaleSuccess cfg processor env body w))"
  by (auto simp: handleTransactionSaleSuccess_def activate_sale_ok renew_sale_ok split: sum.split)

lemma handleWebhook_ok:
  assumes w: "world_ok ss w"
  shows "world_ok ss (snd (handleWebhook cfg processor methods env ev w))"
proof -
  note tab = on_billing_ok [OF w]
  show ?thesis
    by (cases ev) (use w in \<open>simp_all add: tab handleAddSubscription_ok handleDeleteSubscription_ok handleTransactionSaleSuccess_ok
      handleTransactionSaleFailure_ok handleRefundSuccess_ok handleChargebackComplete_ok\<close>)
qed


lemma HandleNMIWebhook_ok:
  assumes "world_ok ss w"
  shows "world_ok ss (snd (HandleNMIWebhook cfg processor methods env t1 eventID eventType payload ev w))"
  using ProcessWebhook_world_ok [OF handleWebhook_ok assms] unfolding HandleNMIWebhook_def by (auto split: prod.split)

lemma pays_ok_transactions:
  assumes "pays_ok rows"
  shows "distinct (map (\<lambda>p. (pay_Processor p, pay_TransactionID p)) rows)"
proof -
  have "sorted_wrt (\<lambda>x y. pay_clash x y = None) rows" using assms by (simp add: tbl_ok_def)
  then show ?thesis by (induction rows) (auto simp: pay_clash_def split: if_splits)
qed

section \<open>A batch of chargebacks\<close>

text \<open>
  What identifies a charge does not change when memberships are cancelled: the query gives the same matches, up to the
  columns that a cancellation writes.
\<close>

definition same_match :: "payment \<times> subscription \<Rightarrow> payment \<times> subscription \<Rightarrow> bool" where
  "same_match a b \<longleftrightarrow> fst a = fst b \<and> sub_key (snd a) = sub_key (snd b)"

lemma list_all2_insort:
  "(\<And>a b. R a b \<Longrightarrow> f a = g b) \<Longrightarrow> R x y \<Longrightarrow> list_all2 R xs ys \<Longrightarrow> list_all2 R (insort_key f x xs) (insort_key g y ys)"
  by (induction xs arbitrary: ys) (auto simp: list_all2_Cons1)

lemma list_all2_sort_key:
  assumes "\<And>a b. R a b \<Longrightarrow> f a = g b" "list_all2 R xs ys"
  shows "list_all2 R (sort_key f xs) (sort_key g ys)"
  using assms(2) by (induction rule: list_all2_induct) (auto simp: sort_key_def intro!: list_all2_insort [OF assms(1)])

lemma list_all2_filter:
  assumes "\<And>a b. R a b \<Longrightarrow> P a = Q b" "list_all2 R xs ys"
  shows "list_all2 R (filter P xs) (filter Q ys)"
  using assms(2) by (induction rule: list_all2_induct) (auto dest: assms(1))

lemma list_all2_product:
  "list_all2 (\<lambda>s s'. sub_key s = sub_key s') ys zs \<Longrightarrow> list_all2 same_match (List.product xs ys) (List.product xs zs)"
  by (induction xs) (auto simp: list_all2_appendI list_all2_map1 list_all2_map2 same_match_def)

lemma chargeback_matches_cong:
  assumes "bdb_payments db' = bdb_payments db" "map sub_key (bdb_subs db') = map sub_key (bdb_subs db)"
  shows "list_all2 same_match (chargeback_matches processor methods amount d t db) (chargeback_matches processor methods amount d t db')"
proof -
  have len: "length (bdb_subs db) = length (bdb_subs db')" using map_eq_imp_length_eq [OF assms(2)] by simp
  have "sub_key (bdb_subs db ! i) = sub_key (bdb_subs db' ! i)" if "i < length (bdb_subs db)" for i
    using arg_cong [OF assms(2), of "\<lambda>xs. xs ! i"] that len by simp
  with len have "list_all2 (\<lambda>s s'. sub_key s = sub_key s') (bdb_subs db) (bdb_subs db')" by (simp add: list_all2_conv_all_nth)
  then have "list_all2 same_match (List.product (bdb_payments db) (bdb_subs db)) (List.product (bdb_payments db) (bdb_subs db'))"
    by (rule list_all2_product)
  then show ?thesis unfolding chargeback_matches_def assms(1)
    by (intro list_all2_sort_key list_all2_filter) (auto simp: same_match_def sub_key_def card_digits_def)
qed

lemma rel_option_single:
  "list_all2 R xs ys \<Longrightarrow> rel_option R (case xs of [m] \<Rightarrow> Some m | _ \<Rightarrow> None) (case ys of [m] \<Rightarrow> Some m | _ \<Rightarrow> None)"
  by (auto simp: list_all2_Cons1 list_all2_Cons2 split: list.split)

lemma reconcile_cong:
  assumes "bdb_payments db' = bdb_payments db" "map sub_key (bdb_subs db') = map sub_key (bdb_subs db)"
  shows "rel_option same_match (reconcileNMIChargebackEntry f processor methods cb db) (reconcileNMIChargebackEntry f processor methods cb db')"
proof -
  have "list_all2 same_match (take 2 (chargeback_matches processor methods amount d t db)) (take 2 (chargeback_matches processor methods amount d t db'))"
    for amount d t using list_all2_takeI [OF chargeback_matches_cong [OF assms]] .
  then have "rel_option same_match (case take 2 (chargeback_matches processor methods amount d t db) of [m] \<Rightarrow> Some m | _ \<Rightarrow> None)
      (case take 2 (chargeback_matches processor methods amount d t db') of [m] \<Rightarrow> Some m | _ \<Rightarrow> None)" for amount d t
    by (rule rel_option_single)
  then show ?thesis unfolding reconcileNMIChargebackEntry_def Let_def by (auto split: sum.split option.split)
qed

lemma reconcile_row:
  assumes "reconcileNMIChargebackEntry f processor methods cb db = Some (p, s)"
  shows "s \<in> set (bdb_subs db)" "p \<in> set (bdb_payments db)" "pay_SubscriptionID p = Some (sub_ID s)"
proof -
  obtain amount d t where "(p, s) \<in> set (take 2 (chargeback_matches processor methods amount d t db))"
    using assms by (auto simp: reconcileNMIChargebackEntry_def Let_def split: sum.split_asm option.split_asm if_split_asm list.split_asm)
      (metis list.set_intros(1))
  then have "(p, s) \<in> set (chargeback_matches processor methods amount d t db)" by (rule in_set_takeD)
  then show "s \<in> set (bdb_subs db)" "p \<in> set (bdb_payments db)" "pay_SubscriptionID p = Some (sub_ID s)"
    by (auto simp: chargeback_matches_def)
qed


text \<open>A membership that a chargeback has ended, and what a batch does when it is to end those that \<open>hit\<close> names.\<close>

definition charged_off :: "time \<Rightarrow> billing_db \<Rightarrow> subscription \<Rightarrow> bool" where
  "charged_off now db s \<longleftrightarrow>
     (\<exists>r \<in> set (bdb_subs db). sub_ID r = sub_ID s \<and> sub_Status r = StatusCancelled \<and> sub_CancelType r = Some CancelTypeChargeback) \<and>
     source_ended EntitlementSourceSubscription (sub_ID s) (sub_UserID s) now (bdb_ents db)"

definition batch_post :: "(uuid \<Rightarrow> bool) \<Rightarrow> time \<Rightarrow> uuid set \<Rightarrow> billing_db \<Rightarrow> billing_db \<Rightarrow> bool" where
  "batch_post hit now seen db db' \<longleftrightarrow>
     bdb_payments db' = bdb_payments db \<and> map sub_key (bdb_subs db') = map sub_key (bdb_subs db) \<and>
     (\<forall>e \<in> set (bdb_ents db'). ent_live e \<longrightarrow> e \<in> set (bdb_ents db)) \<and>
     (\<forall>e \<in> set (bdb_ents db). (\<forall>j. hit j \<and> j \<notin> seen \<longrightarrow> \<not> by_source EntitlementSourceSubscription j e) \<longrightarrow> e \<in> set (bdb_ents db')) \<and>
     (\<forall>r \<in> set (bdb_subs db). sub_ID r \<in> seen \<or> \<not> hit (sub_ID r) \<longrightarrow> r \<in> set (bdb_subs db')) \<and>
     (\<forall>s \<in> set (bdb_subs db). hit (sub_ID s) \<and> sub_ID s \<notin> seen \<longrightarrow> charged_off now db' s)"

lemma batch_post_refl: "(\<And>j. hit j \<Longrightarrow> j \<in> seen) \<Longrightarrow> batch_post hit now seen db db"
  by (auto simp: batch_post_def)

lemma batch_post_mono:
  assumes "batch_post hit now seen db db'" "\<And>j. j \<notin> seen \<Longrightarrow> hit j = hit' j"
  shows "batch_post hit' now seen db db'"
proof -
  have "hit j \<and> j \<notin> seen \<longleftrightarrow> hit' j \<and> j \<notin> seen" "j \<in> seen \<or> \<not> hit j \<longleftrightarrow> j \<in> seen \<or> \<not> hit' j" for j using assms(2) by auto
  with assms(1) show ?thesis unfolding batch_post_def by simp
qed

lemma charged_off_mono:
  assumes "charged_off now db s" "\<forall>e \<in> set (bdb_ents db'). ent_live e \<longrightarrow> e \<in> set (bdb_ents db)"
    and "\<And>r. r \<in> set (bdb_subs db) \<Longrightarrow> sub_ID r = sub_ID s \<Longrightarrow> r \<in> set (bdb_subs db')"
  shows "charged_off now db' s"
  using assms unfolding charged_off_def source_ended_def by blast

text \<open>One cancellation and then the rest of the batch.\<close>

lemma batch_post_step:
  assumes ok: "subs_ok (bdb_subs db)" and s: "s \<in> set (bdb_subs db)" "sub_ID s \<notin> seen" and off: "charged_off now db1 s"
    and frame: "bdb_payments db1 = bdb_payments db" "map sub_key (bdb_subs db1) = map sub_key (bdb_subs db)"
      "\<forall>e \<in> set (bdb_ents db1). ent_live e \<longrightarrow> e \<in> set (bdb_ents db)"
      "\<forall>r \<in> set (bdb_subs db). sub_ID r \<noteq> sub_ID s \<longrightarrow> r \<in> set (bdb_subs db1)"
      "\<forall>e \<in> set (bdb_ents db). \<not> by_source EntitlementSourceSubscription (sub_ID s) e \<longrightarrow> e \<in> set (bdb_ents db1)"
    and rest: "batch_post hit now (insert (sub_ID s) seen) db1 db'"
  shows "batch_post (\<lambda>j. j = sub_ID s \<or> hit j) now seen db db'"
proof -
  have "charged_off now db' s"
    by (rule charged_off_mono [OF off]) (use rest in \<open>auto simp: batch_post_def\<close>)
  then have off': "charged_off now db' x" if "x \<in> set (bdb_subs db)" "sub_ID x = sub_ID s" for x
    using row_unique [OF ok that(1) s(1) that(2)] by simp
  have kept: "r \<in> set (bdb_subs db')" if "r \<in> set (bdb_subs db)" "sub_ID r \<in> seen \<or> \<not> (sub_ID r = sub_ID s \<or> hit (sub_ID r))" for r
  proof -
    have "sub_ID r \<noteq> sub_ID s" using that(2) s(2) by auto
    with that rest frame(4) show ?thesis unfolding batch_post_def by blast
  qed
  have ended: "charged_off now db' r" if "r \<in> set (bdb_subs db)" "sub_ID r = sub_ID s \<or> hit (sub_ID r)" "sub_ID r \<notin> seen" for r
  proof (cases "sub_ID r = sub_ID s")
    case True
    with off' that(1) show ?thesis by blast
  next
    case False
    with that rest frame(4) show ?thesis unfolding batch_post_def by blast
  qed
  have windows: "e \<in> set (bdb_ents db')"
    if "e \<in> set (bdb_ents db)" "\<forall>j. (j = sub_ID s \<or> hit j) \<and> j \<notin> seen \<longrightarrow> \<not> by_source EntitlementSourceSubscription j e" for e
  proof -
    have "e \<in> set (bdb_ents db1)" "\<forall>j. hit j \<and> j \<notin> insert (sub_ID s) seen \<longrightarrow> \<not> by_source EntitlementSourceSubscription j e"
      using that frame(5) s(2) by blast+
    with rest show ?thesis unfolding batch_post_def by blast
  qed
  have "bdb_payments db' = bdb_payments db" "map sub_key (bdb_subs db') = map sub_key (bdb_subs db)"
    "\<forall>e \<in> set (bdb_ents db'). ent_live e \<longrightarrow> e \<in> set (bdb_ents db)"
    using frame(1-3) rest unfolding batch_post_def by simp_all
  then show ?thesis unfolding batch_post_def by (intro conjI ballI impI) (blast intro: kept ended windows | simp)+
qed

abbreviation identified ::
  "(string \<Rightarrow> rat option) \<Rightarrow> string \<Rightarrow> payment_method list \<Rightarrow> NMIChargebackEntry list \<Rightarrow> billing_db \<Rightarrow> uuid \<Rightarrow> bool" where
  "identified f processor methods cbs db i \<equiv>
     \<exists>cb \<in> set cbs. \<exists>p s. reconcileNMIChargebackEntry f processor methods cb db = Some (p, s) \<and> sub_ID s = i"

lemma identified_cong:
  assumes "bdb_payments db' = bdb_payments db" "map sub_key (bdb_subs db') = map sub_key (bdb_subs db)"
  shows "identified f processor methods cbs db' i = identified f processor methods cbs db i"
proof -
  have "(\<exists>p s. reconcileNMIChargebackEntry f processor methods cb db' = Some (p, s) \<and> sub_ID s = i) =
      (\<exists>p s. reconcileNMIChargebackEntry f processor methods cb db = Some (p, s) \<and> sub_ID s = i)" for cb
    using reconcile_cong [OF assms, of f processor methods cb]
    by (auto simp: option_rel_Some1 option_rel_Some2 same_match_def sub_key_def)
  then show ?thesis by simp
qed

lemma SubGetByID_row:
  assumes "subs_ok rows" "s \<in> set rows"
  shows "SubGetByID (sub_ID s) rows = Inr s"
proof -
  have "find (\<lambda>x. sub_ID x = sub_ID s) rows = Some s"
    by (intro find_unique) (use assms row_unique [OF assms(1) _ assms(2)] in auto)
  then show ?thesis by (simp add: SubGetByID_def sql_find_def)
qed

text \<open>The cancellation that answers one entry of the batch.\<close>

lemma chargeback_cancel:
  assumes ok: "billing_ok db" and s: "s \<in> set (bdb_subs db)" "sub_UserID s \<noteq> []" "sub_ID s \<noteq> 0"
    and env: "0 < env_now env" "env_uuid env 0 \<notin> set (map nq_ID (bdb_notifications db))"
  obtains db' where "CancelMembership cfg env (chargeback_cancellation processor cb s) db = (Inr (), db')"
    "charged_off (env_now env) db' s" "billing_ok db'"
    "\<forall>e \<in> set (bdb_ents db'). ent_live e \<longrightarrow> e \<in> set (bdb_ents db)"
    "\<forall>r \<in> set (bdb_subs db). sub_ID r \<noteq> sub_ID s \<longrightarrow> r \<in> set (bdb_subs db')"
    "\<forall>e \<in> set (bdb_ents db). \<not> by_source EntitlementSourceSubscription (sub_ID s) e \<longrightarrow> e \<in> set (bdb_ents db')"
    "map sub_key (bdb_subs db') = map sub_key (bdb_subs db)" "bdb_payments db' = bdb_payments db"
    "map nq_ID (bdb_notifications db') = map nq_ID (bdb_notifications db) @ [env_uuid env 0]"
proof -
  let ?p = "chargeback_cancellation processor cb s"
  have p: "ca_SubscriptionID ?p = Some (sub_ID s)" "ca_RevokeAccess ?p" "ca_CancelType ?p = CancelTypeChargeback"
    by (simp_all add: chargeback_cancellation_def split: prod.split)
  have "subs_ok (bdb_subs db)" using ok by (simp add: billing_ok_def)
  then have "cancel_subscription ?p (bdb_subs db) = Inr s"
    using SubGetByID_row [OF _ s(1)] p(1) by (simp add: cancel_subscription_def)
  then show thesis
  proof (rule CancelMembership_spec [OF ok _ s(2,3) env, where cfg = cfg])
    fix db'
    assume c: "CancelMembership cfg env ?p db = (Inr (), db')"
    assume ents: "if ends_now (env_now env) ?p s
      then source_ended EntitlementSourceSubscription (sub_ID s) (sub_UserID s) (env_now env) (bdb_ents db')
      else bdb_ents db' = bdb_ents db"
    assume row: "\<exists>r \<in> set (bdb_subs db'). sub_ID r = sub_ID s \<and> sub_Status r = StatusCancelled \<and> sub_CancelType r = Some (ca_CancelType ?p) \<and>
      sub_CancelledAt r = Some (env_now env) \<and> sub_EndedAt r = Some (cancelled_end (env_now env) ?p s)"
    have "charged_off (env_now env) db' s" using row ents p by (auto simp: charged_off_def ends_now_def)
    moreover have "billing_ok db'" using snd_okD [OF CancelMembership_ok [OF ok] c] .
    moreover assume "\<forall>e \<in> set (bdb_ents db'). ent_live e \<longrightarrow> e \<in> set (bdb_ents db)"
      "\<forall>r \<in> set (bdb_subs db). sub_ID r \<noteq> sub_ID s \<longrightarrow> r \<in> set (bdb_subs db')"
      "\<forall>e \<in> set (bdb_ents db). \<not> by_source EntitlementSourceSubscription (sub_ID s) e \<longrightarrow> e \<in> set (bdb_ents db')"
      "map sub_key (bdb_subs db') = map sub_key (bdb_subs db)" "bdb_payments db' = bdb_payments db"
      "map nq_ID (bdb_notifications db') = map nq_ID (bdb_notifications db) @ [env_uuid env 0]"
    ultimately show thesis using that c by blast
  qed
qed

lemma charged_off_sub:
  assumes "map sub_key (bdb_subs db') = map sub_key (bdb_subs db)" "\<forall>r \<in> set (bdb_subs db). sub_UserID r \<noteq> [] \<and> sub_ID r \<noteq> 0"
  shows "\<forall>r \<in> set (bdb_subs db'). sub_UserID r \<noteq> [] \<and> sub_ID r \<noteq> 0"
proof
  fix r
  assume "r \<in> set (bdb_subs db')"
  then have "sub_key r \<in> set (map sub_key (bdb_subs db))" unfolding assms(1) [symmetric] by simp
  then obtain r0 where "r0 \<in> set (bdb_subs db)" "sub_key r = sub_key r0" by auto
  with assms(2) show "sub_UserID r \<noteq> [] \<and> sub_ID r \<noteq> 0" by (auto simp: sub_key_def)
qed

abbreviation fresh_ids :: "go_env \<Rightarrow> billing_db \<Rightarrow> bool" where
  "fresh_ids env db \<equiv> inj (env_uuid env) \<and> (\<forall>i. env_uuid env i \<notin> set (map nq_ID (bdb_notifications db)))"

lemma fresh_ids_shift: "fresh_ids env db \<Longrightarrow> fresh_ids (env_shift 1 env) db"
  by (auto simp: inj_on_def)

lemma fresh_ids_step:
  assumes "fresh_ids env db" "map nq_ID (bdb_notifications db') = map nq_ID (bdb_notifications db) @ [env_uuid env 0]"
  shows "fresh_ids (env_shift 1 env) db'"
  using assms(1) unfolding assms(2) by (auto simp: inj_on_def)

lemma chargeback_loop_spec:
  assumes "billing_ok db" "\<forall>r \<in> set (bdb_subs db). sub_UserID r \<noteq> [] \<and> sub_ID r \<noteq> 0" "0 < env_now env" "fresh_ids env db"
  shows "\<exists>db'. chargeback_loop cfg processor methods env seen cbs db = (Inr (), db') \<and>
    batch_post (identified (wc_SetString cfg) processor methods cbs db) (env_now env) (set seen) db db'"
  using assms
proof (induction cbs arbitrary: env seen db)
  case Nil
  then show ?case by (simp add: batch_post_refl)
next
  case (Cons cb cbs)
  let ?hit = "identified (wc_SetString cfg) processor methods"
  show ?case
  proof (cases "reconcileNMIChargebackEntry (wc_SetString cfg) processor methods cb db")
    case None
    with Cons.IH [OF Cons.prems(1,2) _ fresh_ids_shift [OF Cons.prems(4)], of seen] Cons.prems(3) show ?thesis by simp
  next
    case (Some m)
    then obtain p s where m: "reconcileNMIChargebackEntry (wc_SetString cfg) processor methods cb db = Some (p, s)" by (cases m) auto
    have s: "s \<in> set (bdb_subs db)" by (rule reconcile_row [OF m])
    have hit: "?hit (cb # cbs) db j \<longleftrightarrow> j = sub_ID s \<or> ?hit cbs db j" for j using m by auto
    show ?thesis
    proof (cases "sub_ID s \<in> set seen")
      case True
      obtain db' where l: "chargeback_loop cfg processor methods (env_shift 1 env) seen cbs db = (Inr (), db')"
        and b: "batch_post (?hit cbs db) (env_now env) (set seen) db db'"
        using Cons.IH [OF Cons.prems(1,2) _ fresh_ids_shift [OF Cons.prems(4)], of seen] Cons.prems(3) by auto
      have "batch_post (?hit (cb # cbs) db) (env_now env) (set seen) db db'"
        by (rule batch_post_mono [OF b]) (use True hit in auto)
      with l m True show ?thesis by auto
    next
      case False
      from s Cons.prems have "sub_UserID s \<noteq> []" "sub_ID s \<noteq> 0" "0 < env_now env" "env_uuid env 0 \<notin> set (map nq_ID (bdb_notifications db))"
        by auto
      then obtain db1 where c: "CancelMembership (wc_lifecycle cfg) env (chargeback_cancellation processor cb s) db = (Inr (), db1)"
        and off: "charged_off (env_now env) db1 s" and ok: "billing_ok db1"
        and frame: "bdb_payments db1 = bdb_payments db" "map sub_key (bdb_subs db1) = map sub_key (bdb_subs db)"
          "\<forall>e \<in> set (bdb_ents db1). ent_live e \<longrightarrow> e \<in> set (bdb_ents db)"
          "\<forall>r \<in> set (bdb_subs db). sub_ID r \<noteq> sub_ID s \<longrightarrow> r \<in> set (bdb_subs db1)"
          "\<forall>e \<in> set (bdb_ents db). \<not> by_source EntitlementSourceSubscription (sub_ID s) e \<longrightarrow> e \<in> set (bdb_ents db1)"
        and n: "map nq_ID (bdb_notifications db1) = map nq_ID (bdb_notifications db) @ [env_uuid env 0]"
        by (rule chargeback_cancel [OF Cons.prems(1) s])
      obtain db' where l: "chargeback_loop cfg processor methods (env_shift 1 env) (sub_ID s # seen) cbs db1 = (Inr (), db')"
        and b: "batch_post (?hit cbs db1) (env_now env) (set (sub_ID s # seen)) db1 db'"
        using Cons.IH [OF ok charged_off_sub [OF frame(2) Cons.prems(2)] _ fresh_ids_step [OF Cons.prems(4) n], of "sub_ID s # seen"] Cons.prems(3)
        by auto
      have "batch_post (\<lambda>j. j = sub_ID s \<or> ?hit cbs db1 j) (env_now env) (set seen) db db'"
        by (rule batch_post_step [OF _ s False off frame]) (use b Cons.prems(1) in \<open>simp_all add: billing_ok_def\<close>)
      then have "batch_post (?hit (cb # cbs) db) (env_now env) (set seen) db db'"
        by (simp only: hit identified_cong [OF frame(1,2)])
      with l m c False show ?thesis by auto
    qed
  qed
qed

text \<open>
  Which charges an entry can mean: those of the processor with its amount, on a card with its last digits, at most a week
  from its day. An entry identifies a charge when it is the only one.
\<close>

definition could_mean ::
  "(string \<Rightarrow> rat option) \<Rightarrow> string \<Rightarrow> payment_method list \<Rightarrow> NMIChargebackEntry \<Rightarrow> billing_db \<Rightarrow> (payment \<times> subscription) set" where
  "could_mean SetString processor methods cb db =
     {(p, s) \<in> set (bdb_payments db) \<times> set (bdb_subs db).
        pay_SubscriptionID p = Some (sub_ID s) \<and> pay_Processor p = processor \<and> sub_Processor s = processor \<and>
        parseNMIChargebackAmountCents SetString (ce_Amount cb) = Inr (pay_Amount p) \<and>
        normalizeNMIChargebackLast4 (ce_CCNumber cb) \<noteq> [] \<and> card_digits methods s = normalizeNMIChargebackLast4 (ce_CCNumber cb) \<and>
        (\<exists>day. parseNMIChargebackDate (ce_Date cb) = Some day \<and> \<bar>pay_PurchasedAt p - day\<bar> \<le> 7 * day_ns)}"

lemma single_iff: "distinct xs \<Longrightarrow> (case take 2 xs of [m] \<Rightarrow> Some m | _ \<Rightarrow> None) = Some m \<longleftrightarrow> set xs = {m}"
  by (cases xs; cases "tl xs") (auto simp: numeral_2_eq_2)

lemma parse_amount_positive: "parseNMIChargebackAmountCents f raw = Inr c \<Longrightarrow> 0 < c"
  by (auto simp: parseNMIChargebackAmountCents_def rbind_Inr split: if_splits)



lemma chargeback_matches_set:
  assumes "parseNMIChargebackAmountCents f (ce_Amount cb) = Inr amount" "parseNMIChargebackDate (ce_Date cb) = Some day"
    and "normalizeNMIChargebackLast4 (ce_CCNumber cb) \<noteq> []"
  shows "set (chargeback_matches processor methods amount (normalizeNMIChargebackLast4 (ce_CCNumber cb)) day db) =
    could_mean f processor methods cb db"
  using parse_amount_positive [OF assms(1)] assms by (auto simp: chargeback_matches_def could_mean_def abs_le_iff)

lemma reconcile_iff:
  assumes "subs_ok (bdb_subs db)" "pays_ok (bdb_payments db)"
  shows "reconcileNMIChargebackEntry f processor methods cb db = Some m \<longleftrightarrow> could_mean f processor methods cb db = {m}"
proof (cases "\<exists>amount day. parseNMIChargebackAmountCents f (ce_Amount cb) = Inr amount \<and> parseNMIChargebackDate (ce_Date cb) = Some day \<and>
    normalizeNMIChargebackLast4 (ce_CCNumber cb) \<noteq> []")
  case True
  then obtain amount day where p: "parseNMIChargebackAmountCents f (ce_Amount cb) = Inr amount" "parseNMIChargebackDate (ce_Date cb) = Some day"
    "normalizeNMIChargebackLast4 (ce_CCNumber cb) \<noteq> []" by blast
  have "distinct (bdb_payments db)" "distinct (bdb_subs db)"
    using pays_ok_transactions [OF assms(2)] subs_ok_distinct [OF assms(1)] by (auto simp: distinct_map)
  then have "distinct (chargeback_matches processor methods amount (normalizeNMIChargebackLast4 (ce_CCNumber cb)) day db)"
    by (simp add: chargeback_matches_def distinct_product)
  from single_iff [OF this, of m] p show ?thesis
    by (simp only: chargeback_matches_set [OF p] reconcileNMIChargebackEntry_def Let_def if_False sum.case option.case prod.case)
next
  case False
  then have "could_mean f processor methods cb db = {}" unfolding could_mean_def by auto
  moreover have "reconcileNMIChargebackEntry f processor methods cb db = None"
    using False by (auto simp: reconcileNMIChargebackEntry_def Let_def split: sum.split option.split)
  ultimately show ?thesis by simp
qed

text \<open>
  C17: a batch of chargebacks of an NMI gateway ends exactly the memberships its entries identify. The handler succeeds; every
  subscription that an entry identifies (exactly one charge of the amount and the card near the day) is cancelled as
  charged back and none of the windows it gave as a subscription is usable from then on, however often the batch names it; every other subscription and every
  window that is not from an identified subscription stays as it is, and so do the payments.
\<close>

theorem handleChargebackComplete_exact:
  assumes "billing_ok db" "\<forall>r \<in> set (bdb_subs db). sub_UserID r \<noteq> [] \<and> sub_ID r \<noteq> 0" "0 < env_now env"
    and "inj (env_uuid env)" "\<forall>i. env_uuid env i \<notin> set (map nq_ID (bdb_notifications db))"
    and "normalizedProcessor processor = Inr provider"
  shows "\<exists>db'. handleChargebackComplete cfg processor methods env (Some cbs) db = (Inr (), db') \<and>
    bdb_payments db' = bdb_payments db \<and>
    (\<forall>s \<in> set (bdb_subs db).
       if \<exists>cb \<in> set cbs. \<exists>p. could_mean (wc_SetString cfg) provider methods cb db = {(p, s)} then charged_off (env_now env) db' s
       else s \<in> set (bdb_subs db')) \<and>
    (\<forall>e \<in> set (bdb_ents db).
       (\<forall>cb \<in> set cbs. \<forall>p s. could_mean (wc_SetString cfg) provider methods cb db = {(p, s)} \<longrightarrow>
          \<not> by_source EntitlementSourceSubscription (sub_ID s) e) \<longrightarrow> e \<in> set (bdb_ents db'))"
proof -
  have ok: "subs_ok (bdb_subs db)" "pays_ok (bdb_payments db)" using assms(1) by (simp_all add: billing_ok_def)
  note iff = reconcile_iff [OF ok, of "wc_SetString cfg" provider methods]
  obtain db' where "chargeback_loop cfg provider methods env [] cbs db = (Inr (), db')"
    and b: "batch_post (identified (wc_SetString cfg) provider methods cbs db) (env_now env) (set []) db db'"
    using chargeback_loop_spec [of db env cfg provider methods "[]" cbs] assms(1-5) by blast
  then have "handleChargebackComplete cfg processor methods env (Some cbs) db = (Inr (), db')"
    using assms(6) by (simp add: handleChargebackComplete_def)
  moreover have "identified (wc_SetString cfg) provider methods cbs db (sub_ID s) \<longleftrightarrow>
      (\<exists>cb \<in> set cbs. \<exists>p. could_mean (wc_SetString cfg) provider methods cb db = {(p, s)})" if "s \<in> set (bdb_subs db)" for s
    using row_unique [OF ok(1) _ that] reconcile_row(1) [of "wc_SetString cfg" provider methods _ db] unfolding iff by metis
  ultimately show ?thesis using b unfolding batch_post_def iff by auto
qed

definition ex_card :: payment_method where
  "ex_card = \<lparr>pm_ID = 9, pm_UserID = ''u'', pm_Processor = ''mobius'', pm_VaultID = ''v'', pm_BillingID = None,
     pm_InitialTransactionID = ''t0'', pm_LastFour = Some ''4242'', pm_CardType = None, pm_ExpiryDate = None, pm_FailureReason = None,
     pm_Metadata = None, pm_CreatedAt = 1, pm_UpdatedAt = 1\<rparr>"

definition ex_charged :: billing_db where
  "ex_charged = (ex_billing (ex_sub\<lparr>sub_PaymentMethodID := Some 9\<rparr>))
     \<lparr>bdb_payments := [ex_pay\<lparr>pay_SubscriptionID := Some 5, pay_Processor := ''mobius'', pay_Amount := 999, pay_ListAmount := 999,
        pay_PurchasedAt := 100 * ex_day\<rparr>]\<rparr>"

definition ex_dispute :: NMIChargebackEntry where
  "ex_dispute = \<lparr>ce_ID = ''d'', ce_Date = ''0001-04-15'', ce_CCNumber = ''4*** 4242'', ce_Amount = ''9.99'', ce_ReasonCode = [], ce_Reason = ''10.4: fraud''\<rparr>"

theorem handleChargebackComplete_exact_witness:
  "\<exists>db'. handleChargebackComplete ex_wcfg ''Mobius'' [ex_card] (ex_ent_env (110 * ex_day) 10) (Some [ex_dispute, ex_dispute]) ex_charged = (Inr (), db') \<and>
     charged_off (110 * ex_day) db' (ex_sub\<lparr>sub_PaymentMethodID := Some 9\<rparr>)"
proof -
  let ?env = "ex_ent_env (110 * ex_day) 10" and ?s = "ex_sub\<lparr>sub_PaymentMethodID := Some 9\<rparr>"
  have db: "billing_ok ex_charged" by code_simp
  have "map_option snd (reconcileNMIChargebackEntry (wc_SetString ex_wcfg) ''mobius'' [ex_card] ex_dispute ex_charged) = Some ?s"
    by code_simp
  then have m: "\<exists>p. could_mean (wc_SetString ex_wcfg) ''mobius'' [ex_card] ex_dispute ex_charged = {(p, ?s)}"
    using db reconcile_iff [of ex_charged] by (auto simp: billing_ok_def)
  have rows: "bdb_subs ex_charged = [?s]" "bdb_notifications ex_charged = []" "sub_ID ?s = 5" "sub_UserID ?s = ''u''"
    by (simp_all add: ex_charged_def ex_billing_def ex_sub_def)
  have env: "0 < env_now ?env" "inj (env_uuid ?env)" by (simp_all add: ex_ent_env_def ex_day_def duration_defs inj_on_def)
  have p: "normalizedProcessor ''Mobius'' = Inr ''mobius''" by code_simp
  from m handleChargebackComplete_exact [OF db _ env _ p, of ex_wcfg "[ex_card]" "[ex_dispute, ex_dispute]"] rows show ?thesis
    by (auto simp: ex_ent_env_def)
qed

end
