(* ===== verification/Purchases.thy ===== *)
theory Purchases
  imports Membership_Access Time_Parsing
begin

text \<open>
  One-off purchases: \<^verbatim>\<open>internal/modules/checkout/purchase_service.go\<close>, with the contracts of \<^verbatim>\<open>contracts.go\<close> and
  \<^verbatim>\<open>internal/modules/payments/register_purchase.go\<close>. A purchase is not one transaction: the payment is written first and every
  window is appended in a transaction of its own. The columns for discounts, which the service only copies, and the texts of the
  reasons are left out; the calendar month of a wallet purchase is reckoned in UTC.
\<close>

section \<open>Eligibility\<close>

record CoverageInfo =
  cov_HasCoverage :: bool
  cov_IsIndefinite :: bool
  cov_EndDate :: "time option"
  cov_SourceType :: string
  cov_SourceID :: "uuid option"

datatype EligibilityStatus = EligibilityAllowed | EligibilityBlocked | EligibilityUpgrade | EligibilityDowngrade

record EligibilityResult =
  el_Status :: EligibilityStatus
  el_Coverage :: "CoverageInfo option"
  el_ExistingSubscription :: "subscription option"
  el_ExistingProduct :: "product option"

definition no_coverage :: CoverageInfo where
  "no_coverage = \<lparr>cov_HasCoverage = False, cov_IsIndefinite = False, cov_EndDate = None, cov_SourceType = [], cov_SourceID = None\<rparr>"

definition GetActiveOrPendingByUserIDAndTierGroup :: "string \<Rightarrow> string \<Rightarrow> billing_db \<Rightarrow> subscription result" where
  "GetActiveOrPendingByUserIDAndTierGroup u tierGroup db =
     sql_find (\<lambda>_. True) (sort_key period_end_order
       (filter (\<lambda>s. sub_UserID s = u \<and> active_or_pending s \<and>
          list_ex (\<lambda>p. prod_ID p = sub_ProductID s \<and> prod_TierGroup p = Some tierGroup) (bdb_products db)) (bdb_subs db)))"

text \<open>The product that the query of a subscription joins through its price: a missing price is a nil pointer.\<close>

definition sub_product :: "subscription \<Rightarrow> billing_db \<Rightarrow> product option result" where
  "sub_product s db =
     (case PriceGetByID (sub_PriceID s) db of
        Inl _ \<Rightarrow> Inl (NilDeref ''Price'')
      | Inr price \<Rightarrow> (case ProductGetByID (price_ProductID price) db of Inl _ \<Rightarrow> Inr None | Inr p \<Rightarrow> Inr (Some p)))"

text \<open>The loop over the entitlements of the product, which stops at an indefinite window.\<close>

fun coverage_loop :: "time \<Rightarrow> string \<Rightarrow> string list \<Rightarrow> entitlement list \<Rightarrow> CoverageInfo \<Rightarrow> CoverageInfo" where
  "coverage_loop now u [] rows cov = cov"
| "coverage_loop now u (n # ns) rows cov =
     (if HasActiveIndefinite u n now rows
      then cov\<lparr>cov_HasCoverage := True, cov_IsIndefinite := True, cov_SourceType := ''entitlement''\<rparr>
      else coverage_loop now u ns rows
        (case GetLatestFiniteActive u n now rows of
           Inl _ \<Rightarrow> cov
         | Inr e \<Rightarrow>
             cov\<lparr>cov_HasCoverage := True, cov_SourceType := ''entitlement'',
                 cov_EndDate := (case ent_EndAt e of
                                   None \<Rightarrow> cov_EndDate cov
                                 | Some t \<Rightarrow> (case cov_EndDate cov of
                                                None \<Rightarrow> Some t
                                              | Some d \<Rightarrow> if t > d then Some t else Some d))\<rparr>))"

definition GetUserProductCoverage :: "time \<Rightarrow> string \<Rightarrow> product \<Rightarrow> billing_db \<Rightarrow> CoverageInfo" where
  "GetUserProductCoverage now u product db =
     (let names = map fst (prod_EntitlementsSpec product) in
      case GetActiveOrPendingByUserIDAndProductID u (prod_ID product) (bdb_subs db) of
        Inl _ \<Rightarrow> coverage_loop now u names (bdb_ents db) no_coverage
      | Inr s \<Rightarrow>
          (case sub_CurrentPeriodEndsAt s of
             None \<Rightarrow> no_coverage\<lparr>cov_HasCoverage := True, cov_SourceType := ''subscription'', cov_SourceID := Some (sub_ID s), cov_IsIndefinite := True\<rparr>
           | Some t \<Rightarrow>
               if t = time_zero
               then no_coverage\<lparr>cov_HasCoverage := True, cov_SourceType := ''subscription'', cov_SourceID := Some (sub_ID s), cov_IsIndefinite := True\<rparr>
               else coverage_loop now u names (bdb_ents db)
                 (if \<not> t > now then no_coverage
                  else no_coverage\<lparr>cov_HasCoverage := True, cov_SourceType := ''subscription'', cov_SourceID := Some (sub_ID s),
                                   cov_EndDate := Some t\<rparr>)))"

definition blocked :: EligibilityResult where
  "blocked = \<lparr>el_Status = EligibilityBlocked, el_Coverage = None, el_ExistingSubscription = None, el_ExistingProduct = None\<rparr>"

text \<open>The end of the check, once the tier group has no objection.\<close>

definition coverage_eligibility :: "time \<Rightarrow> string \<Rightarrow> product \<Rightarrow> billing_db \<Rightarrow> EligibilityResult" where
  "coverage_eligibility now u product db =
     (let coverage = GetUserProductCoverage now u product db
      in \<lparr>el_Status = (if cov_HasCoverage coverage \<and> cov_IsIndefinite coverage then EligibilityBlocked else EligibilityAllowed),
          el_Coverage = Some coverage, el_ExistingSubscription = None, el_ExistingProduct = None\<rparr>)"

definition tier_eligibility :: "time \<Rightarrow> string \<Rightarrow> product \<Rightarrow> subscription \<Rightarrow> product \<Rightarrow> billing_db \<Rightarrow> EligibilityResult" where
  "tier_eligibility now u product s existing db =
     (if prod_ID existing = prod_ID product then coverage_eligibility now u product db
      else if prod_TierRank existing < prod_TierRank product
      then \<lparr>el_Status = EligibilityUpgrade, el_Coverage = None, el_ExistingSubscription = Some s, el_ExistingProduct = Some existing\<rparr>
      else if prod_TierRank existing > prod_TierRank product
      then \<lparr>el_Status = EligibilityDowngrade, el_Coverage = None, el_ExistingSubscription = Some s, el_ExistingProduct = Some existing\<rparr>
      else blocked)"

definition CheckPurchaseEligibility :: "time \<Rightarrow> string \<Rightarrow> uuid \<Rightarrow> billing_db \<Rightarrow> EligibilityResult result" where
  "CheckPurchaseEligibility now u priceID db =
     rbind (wrapped ''price not found'' (PriceGetByID priceID db)) (\<lambda>price.
     if \<not> price_IsActive price then Inr blocked
     else rbind (wrapped ''product not found'' (ProductGetByID (price_ProductID price) db)) (\<lambda>product.
     if \<not> prod_IsActive product then Inr blocked
     else (case prod_TierGroup product of
             None \<Rightarrow> Inr (coverage_eligibility now u product db)
           | Some g \<Rightarrow>
               if g = [] then Inr (coverage_eligibility now u product db)
               else (case GetActiveOrPendingByUserIDAndTierGroup u g db of
                       Inl _ \<Rightarrow> Inr (coverage_eligibility now u product db)
                     | Inr s \<Rightarrow>
                         rbind (sub_product s db) (\<lambda>existing.
                         case existing of
                           None \<Rightarrow> Inl (ErrMsg ''failed to load existing product for tier comparison'')
                         | Some e \<Rightarrow> Inr (tier_eligibility now u product s e db))))))"

section \<open>Registering a purchase\<close>

record RegisterPurchaseRequest =
  rp_UserID :: string
  rp_PriceID :: uuid
  rp_Processor :: string
  rp_TransactionID :: string
  rp_Amount :: int
  rp_Currency :: string
  rp_SubscriptionID :: "uuid option"
  rp_WalletPurchase :: bool
  rp_PurchasedAt :: "time option"
  rp_Metadata :: "string option"

record RegisterPurchaseResponse =
  rr_PaymentID :: uuid
  rr_Entitlements :: "string list"
  rr_DelayedStart :: "time option"
  rr_Eligibility :: EligibilityStatus

text \<open>\<^verbatim>\<open>AddDate(0, 1, 0)\<close>: the same day and clock of the next month; a day that the month does not have overflows into the one after.\<close>

definition AddMonth :: "time \<Rightarrow> time" where
  "AddMonth t =
     (case civil (t div day_ns) of
        (y, m, d) \<Rightarrow> (if m = 12 then day_number (y + 1) 1 d else day_number y (m + 1) d) * day_ns + t mod day_ns)"

definition purchase_end :: "bool \<Rightarrow> int option \<Rightarrow> int option \<Rightarrow> time \<Rightarrow> time option" where
  "purchase_end walletPurchase billingCycleDays durationDays startAt =
     (let byCycle =
        (case billingCycleDays of
           None \<Rightarrow> if walletPurchase then Some (AddMonth startAt) else None
         | Some d \<Rightarrow> if d > 0 then Some (startAt + days_duration d) else None)
      in case durationDays of
           Some d \<Rightarrow> if d > 0 then Some (startAt + days_duration d) else byCycle
         | None \<Rightarrow> byCycle)"

definition purchase_push ::
  "string \<Rightarrow> string \<Rightarrow> time \<Rightarrow> time option \<Rightarrow> bool \<Rightarrow> uuid \<Rightarrow> PushNewEntitlementParams" where
  "purchase_push u n startAt endAt subscription sid =
     \<lparr>push_UserID = u, push_Entitlement = n, push_NotBefore = Some startAt, push_Indefinite = (endAt = None), push_Duration = None,
      push_EndAt = endAt, push_SourceType = (if subscription then EntitlementSourceSubscription else EntitlementSourceOneOff),
      push_SourceID = sid\<rparr>"

text \<open>The loop over the entitlements of the product; it stops at the first failure and keeps what it has written.\<close>

fun grantProductEntitlements ::
  "go_env \<Rightarrow> string \<Rightarrow> time \<Rightarrow> uuid \<Rightarrow> bool \<Rightarrow> bool \<Rightarrow> int option \<Rightarrow> (string \<times> int option) list \<Rightarrow> entitlement list \<Rightarrow>
   unit result \<times> entitlement list" where
  "grantProductEntitlements env u startAt sid subscription walletPurchase cycle [] rows = (Inr (), rows)"
| "grantProductEntitlements env u startAt sid subscription walletPurchase cycle ((n, durationDays) # spec) rows =
     (case PushNewEntitlement env (purchase_push u n startAt (purchase_end walletPurchase cycle durationDays startAt) subscription sid) rows of
        Inl e \<Rightarrow> (Inl e, rows)
      | Inr (_, rows') \<Rightarrow>
          grantProductEntitlements (env_shift 1 env) u startAt sid subscription walletPurchase cycle spec rows')"

definition purchase_payment :: "go_env \<Rightarrow> RegisterPurchaseRequest \<Rightarrow> price \<Rightarrow> payment" where
  "purchase_payment env req price =
     \<lparr>pay_ID = env_uuid env 0, pay_UserID = rp_UserID req, pay_PriceID = price_ID price, pay_SubscriptionID = rp_SubscriptionID req,
      pay_RefundedPaymentID = None, pay_Processor = rp_Processor req, pay_TransactionID = rp_TransactionID req,
      pay_Amount = (if rp_Amount req = 0 then price_Amount price else rp_Amount req), pay_ListAmount = price_Amount price,
      pay_Currency = (if rp_Currency req = [] then price_Currency price else rp_Currency req), pay_Status = [],
      pay_Metadata = rp_Metadata req,
      pay_PurchasedAt = (case rp_PurchasedAt req of None \<Rightarrow> env_now env | Some t \<Rightarrow> t), pay_CreatedAt = env_now env\<rparr>"

definition purchase_checks :: "RegisterPurchaseRequest \<Rightarrow> billing_db \<Rightarrow> (price \<times> product) result" where
  "purchase_checks req db =
     (if rp_UserID req = [] then Inl (ErrMsg ''user_id is required'')
      else if rp_TransactionID req = [] then Inl (ErrMsg ''transaction_id is required'')
      else if rp_Processor req = [] then Inl (ErrMsg ''processor is required'')
      else
        rbind (wrapped ''price not found'' (PriceGetByID (rp_PriceID req) db)) (\<lambda>price.
        rbind (wrapped ''product not found'' (ProductGetByID (price_ProductID price) db)) (\<lambda>product.
          Inr (price, product))))"

text \<open>A failed check of eligibility lets the purchase through; a nil pointer stops the request.\<close>

definition purchase_eligibility :: "time \<Rightarrow> RegisterPurchaseRequest \<Rightarrow> billing_db \<Rightarrow> (EligibilityStatus \<times> CoverageInfo) result" where
  "purchase_eligibility now req db =
     (case CheckPurchaseEligibility now (rp_UserID req) (rp_PriceID req) db of
        Inl (NilDeref m) \<Rightarrow> Inl (NilDeref m)
      | Inl _ \<Rightarrow> Inr (EligibilityAllowed, no_coverage)
      | Inr e \<Rightarrow> Inr (el_Status e, case el_Coverage e of None \<Rightarrow> no_coverage | Some c \<Rightarrow> c))"

definition delayed_start :: "CoverageInfo \<Rightarrow> time option" where
  "delayed_start coverage = (if cov_HasCoverage coverage then cov_EndDate coverage else None)"

definition RegisterPurchase ::
  "go_env \<Rightarrow> RegisterPurchaseRequest \<Rightarrow> billing_db \<Rightarrow> RegisterPurchaseResponse result \<times> billing_db" where
  "RegisterPurchase env req db =
     (case purchase_checks req db of
        Inl e \<Rightarrow> (Inl e, db)
      | Inr (price, product) \<Rightarrow>
          (case purchase_eligibility (env_now env) req db of
             Inl e \<Rightarrow> (Inl e, db)
           | Inr (status, coverage) \<Rightarrow>
               (case PaymentCreate (env_now env) (purchase_payment env req price) (bdb_payments db) of
                  Inl e \<Rightarrow> (Inl (ErrWrap ''failed to create payment record'' e), db)
                | Inr pays \<Rightarrow>
                    (let startAt = (case delayed_start coverage of None \<Rightarrow> env_now env | Some t \<Rightarrow> t);
                         sid = (case rp_SubscriptionID req of None \<Rightarrow> env_uuid env 0 | Some i \<Rightarrow> i)
                     in case grantProductEntitlements (env_shift 1 env) (rp_UserID req) startAt sid (rp_SubscriptionID req \<noteq> None)
                               (rp_WalletPurchase req) (price_BillingCycleDays price) (prod_EntitlementsSpec product) (bdb_ents db) of
                          (r, ents) \<Rightarrow>
                            (Inr \<lparr>rr_PaymentID = env_uuid env 0,
                                  rr_Entitlements = (case r of Inl _ \<Rightarrow> [] | Inr _ \<Rightarrow> map fst (prod_EntitlementsSpec product)),
                                  rr_DelayedStart = delayed_start coverage, rr_Eligibility = status\<rparr>,
                             db\<lparr>bdb_payments := pays, bdb_ents := ents\<rparr>)))))"

end
