(* ===== verification/Api_Ids.thy ===== *)
theory Api_Ids
  imports Catalog
begin

text \<open>
  The identifiers of the API, \<^verbatim>\<open>pkg/api/id.go\<close>: a UUID with the prefix of its kind of resource. \<^verbatim>\<open>uuid.Parse\<close> and
  \<^verbatim>\<open>uuid.UUID.String\<close> are parameters.
\<close>

section \<open>Prefixes\<close>

text \<open>The resources whose identifiers are both written and read as UUIDs.\<close>

datatype resource = Product | Price | Subscription | Payment | PaymentMethod | Invoice | CheckoutSession | Event

fun Prefix :: "resource \<Rightarrow> string" where
  "Prefix Product = ''prod_''"
| "Prefix Price = ''price_''"
| "Prefix Subscription = ''sub_''"
| "Prefix Payment = ''pay_''"
| "Prefix PaymentMethod = ''pm_''"
| "Prefix Invoice = ''inv_''"
| "Prefix CheckoutSession = ''cs_''"
| "Prefix Event = ''evt_''"

definition PrefixUser :: string where "PrefixUser = ''usr_''"

definition PrefixAdminGrant :: string where "PrefixAdminGrant = ''ag_''"

text \<open>
  One function for the writers \<^verbatim>\<open>FormatProductID\<close> to \<^verbatim>\<open>FormatCheckoutSessionID\<close> and \<^verbatim>\<open>FormatEventID\<close>. The identifier of a user is any
  text, and that of an admin grant is only written.
\<close>

definition FormatID :: "(uuid \<Rightarrow> string) \<Rightarrow> resource \<Rightarrow> uuid \<Rightarrow> string" where
  "FormatID uuid_String r i = Prefix r @ uuid_String i"

definition FormatUserID :: "string \<Rightarrow> string" where
  "FormatUserID i = PrefixUser @ i"

definition FormatAdminGrantID :: "(uuid \<Rightarrow> string) \<Rightarrow> uuid \<Rightarrow> string" where
  "FormatAdminGrantID uuid_String i = PrefixAdminGrant @ uuid_String i"

section \<open>Reading\<close>

definition CutPrefix :: "string \<Rightarrow> string \<Rightarrow> string \<times> bool" where
  "CutPrefix s p = (if HasPrefix s p then (drop (length p) s, True) else (s, False))"

definition parseID :: "(string \<Rightarrow> uuid option) \<Rightarrow> string \<Rightarrow> string \<Rightarrow> string \<Rightarrow> uuid result" where
  "parseID uuid_Parse i prefix resourceType =
     (let trimmed = TrimSpace i;
          invalid = Inl (ErrMsg (''invalid '' @ resourceType @ '' ID: expected prefix '' @ [CHR 0x27] @ prefix @ [CHR 0x27] @ '' or valid UUID''))
      in if trimmed = [] then Inl (ErrMsg (''invalid '' @ resourceType @ '' ID: value is empty''))
         else (case uuid_Parse trimmed of
                 Some parsed \<Rightarrow> Inr parsed
               | None \<Rightarrow>
                   (case CutPrefix trimmed prefix of
                      (rawID, True) \<Rightarrow> (case uuid_Parse rawID of Some parsed \<Rightarrow> Inr parsed | None \<Rightarrow> invalid)
                    | (_, False) \<Rightarrow> invalid)))"

fun resource_name :: "resource \<Rightarrow> string" where
  "resource_name Product = ''product''"
| "resource_name Price = ''price''"
| "resource_name Subscription = ''subscription''"
| "resource_name Payment = ''payment''"
| "resource_name PaymentMethod = ''payment_method''"
| "resource_name Invoice = ''invoice''"
| "resource_name CheckoutSession = ''checkout_session''"
| "resource_name Event = ''event''"

text \<open>The readers \<^verbatim>\<open>ParseProductID\<close> to \<^verbatim>\<open>ParseCheckoutSessionID\<close> and \<^verbatim>\<open>ParseEventID\<close>.\<close>

definition ParseID :: "(string \<Rightarrow> uuid option) \<Rightarrow> resource \<Rightarrow> string \<Rightarrow> uuid result" where
  "ParseID uuid_Parse r i = parseID uuid_Parse i (Prefix r) (resource_name r)"

definition ParseUserID :: "string \<Rightarrow> string result" where
  "ParseUserID i =
     (if \<not> HasPrefix i PrefixUser then Inl (ErrMsg (''invalid user ID: expected prefix '' @ [CHR 0x27] @ PrefixUser @ [CHR 0x27]))
      else Inr (drop (length PrefixUser) i))"

section \<open>Round trip\<close>

text \<open>
  What the code relies on in the UUID package: the text of a UUID has 36 characters, none of them white space, and parses back; a
  text that parses has 32, 36, 38 or 45 characters.
\<close>

definition uuid_text :: "(uuid \<Rightarrow> string) \<Rightarrow> (string \<Rightarrow> uuid option) \<Rightarrow> uuid \<Rightarrow> bool" where
  "uuid_text uuid_String uuid_Parse i \<longleftrightarrow>
     uuid_Parse (uuid_String i) = Some i \<and> length (uuid_String i) = 36 \<and> list_all (\<lambda>c. \<not> is_space c) (uuid_String i) \<and>
     (\<forall>s j. uuid_Parse s = Some j \<longrightarrow> length s \<in> {32, 36, 38, 45})"

lemma trim_id: "list_all (\<lambda>c. \<not> is_space c) s \<Longrightarrow> TrimSpace s = s"
  by (cases "s = []") (auto simp: list_all_iff intro!: TrimSpace_none)

lemma Prefix_plain: "list_all (\<lambda>c. \<not> is_space c) (Prefix r) \<and> length (Prefix r) \<in> {3, 4, 5, 6}"
  by (cases r) (simp_all add: is_space_def)

lemma trim_prefixed:
  assumes "uuid_text uuid_String uuid_Parse i" "list_all (\<lambda>c. \<not> is_space c) p"
  shows "TrimSpace (p @ uuid_String i) = p @ uuid_String i"
  using assms by (auto simp: uuid_text_def intro: trim_id)

lemma prefixed_not_uuid:
  assumes "uuid_text uuid_String uuid_Parse i" "length p \<in> {3, 4, 5, 6}"
  shows "uuid_Parse (p @ uuid_String i) = None"
proof (cases "uuid_Parse (p @ uuid_String i)")
  case (Some j)
  then have "length (p @ uuid_String i) \<in> {32, 36, 38, 45}" "length (uuid_String i) = 36"
    using assms(1) unfolding uuid_text_def by blast+
  with assms(2) show ?thesis by auto
qed simp

lemma parse_formatted:
  assumes "uuid_text uuid_String uuid_Parse i"
  shows "ParseID uuid_Parse r (FormatID uuid_String r i) = Inr i"
proof -
  have "CutPrefix (Prefix r @ uuid_String i) (Prefix r) = (uuid_String i, True)" by (simp add: CutPrefix_def)
  moreover have "Prefix r \<noteq> []" by (cases r) simp_all
  ultimately show ?thesis using assms Prefix_plain [of r]
    by (simp add: ParseID_def parseID_def Let_def FormatID_def trim_prefixed [OF assms] prefixed_not_uuid [OF assms] uuid_text_def)
qed

lemma parse_plain:
  assumes "uuid_text uuid_String uuid_Parse i"
  shows "ParseID uuid_Parse r (uuid_String i) = Inr i"
proof -
  have "uuid_String i \<noteq> []" "uuid_Parse (uuid_String i) = Some i" using assms by (auto simp: uuid_text_def)
  then show ?thesis using trim_prefixed [OF assms, of "[]"] by (simp add: ParseID_def parseID_def Let_def)
qed

lemma parse_other:
  assumes "uuid_text uuid_String uuid_Parse i" "list_all (\<lambda>c. \<not> is_space c) p" "length p \<in> {3, 4, 5, 6}"
    and "\<not> HasPrefix (p @ uuid_String i) (Prefix r)"
  shows "isl (ParseID uuid_Parse r (p @ uuid_String i))"
  using assms(4) trim_prefixed [OF assms(1, 2)] prefixed_not_uuid [OF assms(1, 3)]
  by (simp add: ParseID_def parseID_def Let_def CutPrefix_def)

lemma prefixes_differ:
  "r' \<noteq> r \<Longrightarrow> \<not> HasPrefix (Prefix r @ s) (Prefix r')" "\<not> HasPrefix (PrefixAdminGrant @ s) (Prefix r)" "\<not> HasPrefix (Prefix r @ s) PrefixUser"
  by (cases r; cases r'; simp) (cases r; simp add: PrefixAdminGrant_def PrefixUser_def)+

text \<open>
  C39: identifiers of the API round trip. Reading what was written for a resource gives the UUID back, the plain UUID is
  accepted too, and the identifier of one kind of resource is refused as that of another, that of an admin grant by every reader
  of UUIDs. The identifier of a user is any text behind its prefix; no other identifier is one.
\<close>

theorem ParseID_FormatID:
  assumes "uuid_text uuid_String uuid_Parse i"
  shows "ParseID uuid_Parse r (FormatID uuid_String r i) = Inr i \<and> ParseID uuid_Parse r (uuid_String i) = Inr i \<and>
    (r' \<noteq> r \<longrightarrow> isl (ParseID uuid_Parse r' (FormatID uuid_String r i))) \<and>
    isl (ParseID uuid_Parse r (FormatAdminGrantID uuid_String i)) \<and>
    isl (ParseUserID (FormatID uuid_String r i)) \<and> ParseUserID (FormatUserID u) = Inr u"
proof -
  have "isl (ParseID uuid_Parse r' (FormatID uuid_String r i))" if "r' \<noteq> r"
    unfolding FormatID_def using parse_other [OF assms] Prefix_plain [of r] prefixes_differ(1) [OF that] by blast
  moreover have "isl (ParseID uuid_Parse r (FormatAdminGrantID uuid_String i))"
    unfolding FormatAdminGrantID_def
    by (rule parse_other [OF assms _ _ prefixes_differ(2)]) (simp_all add: PrefixAdminGrant_def is_space_def)
  ultimately show ?thesis using parse_formatted [OF assms] parse_plain [OF assms] prefixes_differ(3) [of r]
    by (simp add: ParseUserID_def FormatUserID_def FormatID_def)
qed

definition ex_uuid :: string where "ex_uuid = ''6ba7b810-9dad-11d1-80b4-00c04fd430c8''"

theorem ParseID_FormatID_witness:
  "ParseID (\<lambda>s. if s = ex_uuid then Some 7 else None) CheckoutSession (FormatID (\<lambda>_. ex_uuid) CheckoutSession 7) = Inr 7"
proof -
  have "uuid_text (\<lambda>_. ex_uuid) (\<lambda>s. if s = ex_uuid then Some 7 else None) 7"
    by (auto simp: uuid_text_def ex_uuid_def is_space_def split: if_splits)
  from ParseID_FormatID [OF this] show ?thesis by blast
qed

end
