(* ===== verification/Stripe_Webhooks.thy ===== *)
theory Stripe_Webhooks
  imports CCBill_Webhooks Purchases Api_Ids
begin

text \<open>
  The handlers of Stripe's webhooks, \<^verbatim>\<open>internal/modules/webhooks/stripe.go\<close>, with all their services configured. An object is the
  record of the decoded fields that its handler reads; what does not decode is \<open>StripeMalformed\<close>. The metadata of an object is a
  map that gives the empty text for a missing key. Logging is outside the model.

  The parameters: those of the other webhooks, the key that the database sees for a customer inserted with the zero
  UUID (\<open>sc_customer_id\<close>), and how a map is stored in a JSONB column (\<open>sc_jsonb\<close>).
\<close>

section \<open>Events\<close>

record stripe_cfg =
  sc_webhook :: webhook_cfg
  sc_customer_id :: uuid
  sc_jsonb :: "(string \<times> string) list \<Rightarrow> string"

record stripeInvoiceLineItem =
  li_PeriodEnd :: int
  li_PriceID :: string

record stripeInvoice =
  inv_ID :: string
  inv_Subscription :: string
  inv_Customer :: string
  inv_CustomerEmail :: string
  inv_PaymentIntent :: string
  inv_Charge :: string
  inv_AmountPaid :: int
  inv_Currency :: string
  inv_Metadata :: "string \<Rightarrow> string"
  inv_Lines :: "stripeInvoiceLineItem list"

record stripeCheckoutSession =
  sess_ID :: string
  sess_Mode :: string
  sess_Customer :: string
  sess_PaymentIntent :: string
  sess_Metadata :: "string \<Rightarrow> string"
  sess_AmountTotal :: int
  sess_Currency :: string

record stripeSubscription =
  ss_ID :: string
  ss_Status :: string
  ss_CurrentPeriodStart :: int
  ss_CurrentPeriodEnd :: int
  ss_PriceIDs :: "string list"

section \<open>What an object says\<close>

definition stripe_user :: "(string \<Rightarrow> string) \<Rightarrow> string" where
  "stripe_user metadata = FirstNonEmpty [metadata ''user_id'', metadata ''userId'', metadata ''uid'']"

text \<open>\<^verbatim>\<open>time.Unix\<close>: seconds after 1970, day 719162 of the calendar.\<close>

definition unix_time :: "int \<Rightarrow> time" where
  "unix_time s = (719162 * 86400 + s) * time_Second"

definition GetByStripePriceID :: "string \<Rightarrow> billing_db \<Rightarrow> price result" where
  "GetByStripePriceID stripePriceID db =
     sql_find (\<lambda>p. price_IsActive p \<and>
       (case price_Processors p of
          None \<Rightarrow> False
        | Some m \<Rightarrow> (case m ''stripe'' of None \<Rightarrow> False | Some c \<Rightarrow> c ''price_id'' = Some stripePriceID))) (bdb_prices db)"

definition resolvePriceFromMetadata ::
  "(string \<Rightarrow> uuid option) \<Rightarrow> (string \<Rightarrow> string) \<Rightarrow> stripeInvoiceLineItem list \<Rightarrow> billing_db \<Rightarrow> (uuid \<times> price option) result" where
  "resolvePriceFromMetadata uuid_Parse metadata lines db =
     (let idStr = FirstNonEmpty [metadata ''internal_price_id'', metadata ''price_id''] in
      case (if idStr = [] then None else uuid_Parse idStr) of
        Some priceID \<Rightarrow> Inr (priceID, None)
      | None \<Rightarrow>
          (case lines of
             [] \<Rightarrow> Inl (ErrMsg ''unable to resolve price'')
           | line # _ \<Rightarrow>
               if li_PriceID line = [] then Inl (ErrMsg ''unable to resolve price'')
               else (case GetByStripePriceID (li_PriceID line) db of
                       Inl _ \<Rightarrow> Inl (ErrMsg ''stripe price not mapped'')
                     | Inr price \<Rightarrow> Inr (price_ID price, Some price))))"

definition parseCheckoutSessionID :: "(string \<Rightarrow> uuid option) \<Rightarrow> (string \<Rightarrow> string) \<Rightarrow> uuid" where
  "parseCheckoutSessionID uuid_Parse metadata =
     (let raw = TrimSpace (metadata ''checkout_session_id'') in
      if raw = [] then uuid_Nil
      else (case ParseID uuid_Parse CheckoutSession raw of Inl _ \<Rightarrow> uuid_Nil | Inr i \<Rightarrow> i))"

definition stripeInvoicePeriodEnd :: "stripeInvoice \<Rightarrow> time" where
  "stripeInvoicePeriodEnd invoice =
     (let e = fold (\<lambda>line e. if li_PeriodEnd line > e then li_PeriodEnd line else e) (inv_Lines invoice) 0
      in if e \<le> 0 then time_zero else unix_time e)"

definition stripeInvoicePaymentMetadata :: "stripeInvoice \<Rightarrow> (string \<times> string) list" where
  "stripeInvoicePaymentMetadata invoice =
     [(''stripe_invoice_id'', TrimSpace (inv_ID invoice))] @
     (if TrimSpace (inv_Charge invoice) \<noteq> [] then [(''stripe_charge_id'', TrimSpace (inv_Charge invoice))] else []) @
     (if TrimSpace (inv_PaymentIntent invoice) \<noteq> [] then [(''stripe_payment_intent_id'', TrimSpace (inv_PaymentIntent invoice))] else [])"

definition stripeCheckoutPaymentMetadata :: "stripeCheckoutSession \<Rightarrow> (string \<times> string) list" where
  "stripeCheckoutPaymentMetadata sess =
     [(''stripe_checkout_session_id'', TrimSpace (sess_ID sess))] @
     (if TrimSpace (sess_PaymentIntent sess) \<noteq> [] then [(''stripe_payment_intent_id'', TrimSpace (sess_PaymentIntent sess))] else [])"

text \<open>The transaction that can be refunded; a free object is named by itself.\<close>

definition stripe_transaction :: "string \<Rightarrow> string list \<Rightarrow> int \<Rightarrow> string \<Rightarrow> string result" where
  "stripe_transaction missing candidates amount i =
     (let t = FirstNonEmpty candidates in
      if t \<noteq> [] then Inr t
      else if amount \<noteq> 0 \<or> TrimSpace i = [] then Inl (ErrMsg missing) else Inr (TrimSpace i))"

section \<open>Shared steps\<close>

text \<open>The customer of the user; a failure is ignored.\<close>

definition remember_customer :: "stripe_cfg \<Rightarrow> time \<Rightarrow> string \<Rightarrow> string \<Rightarrow> 'r webhook_world \<Rightarrow> 'r webhook_world" where
  "remember_customer cfg now userID customer w =
     (if TrimSpace customer = [] then w
      else (case Upsert (sc_customer_id cfg) now userID ProcessorStripe (TrimSpace customer) (ww_customers w) of
              Inl _ \<Rightarrow> w
            | Inr rows \<Rightarrow> w\<lparr>ww_customers := rows\<rparr>))"

text \<open>The checkout session of an object: named in its metadata, or the open one of the user for the price.\<close>

definition stripe_session :: "(string \<Rightarrow> uuid option) \<Rightarrow> (string \<Rightarrow> string) \<Rightarrow> string \<Rightarrow> uuid \<Rightarrow> 'r webhook_world \<Rightarrow> uuid" where
  "stripe_session uuid_Parse metadata userID priceID w =
     (let sessionID = parseCheckoutSessionID uuid_Parse metadata in
      if sessionID \<noteq> uuid_Nil then sessionID
      else (case FindOpenByUserPriceProcessor userID priceID ProcessorStripe (ww_sessions w) of
              Inr (Some session) \<Rightarrow> cs_ID session
            | _ \<Rightarrow> uuid_Nil))"

text \<open>The result of settling a session; a failure is logged.\<close>

definition settled_or_logged :: "checkout_session list result \<Rightarrow> 'r webhook_world \<Rightarrow> 'r webhook_world" where
  "settled_or_logged r w = (case r of Inl _ \<Rightarrow> w | Inr rows \<Rightarrow> w\<lparr>ww_sessions := rows\<rparr>)"

definition uuid_Parse_of :: "stripe_cfg \<Rightarrow> string \<Rightarrow> uuid option" where
  "uuid_Parse_of cfg = lc_uuid_Parse (wc_lifecycle (sc_webhook cfg))"

section \<open>Invoices\<close>

definition invoice_checks ::
  "stripe_cfg \<Rightarrow> stripeInvoice \<Rightarrow> billing_db \<Rightarrow> (uuid \<times> price option \<times> string \<times> string) result" where
  "invoice_checks cfg invoice db =
     rbind (resolvePriceFromMetadata (uuid_Parse_of cfg) (inv_Metadata invoice) (inv_Lines invoice) db) (\<lambda>(priceID, price).
     rbind (stripe_transaction ''stripe invoice missing refundable transaction id (charge/payment_intent)''
              [inv_Charge invoice, inv_PaymentIntent invoice] (inv_AmountPaid invoice) (inv_ID invoice)) (\<lambda>txn.
     let processorSubID = TrimSpace (inv_Subscription invoice) in
     if processorSubID = [] then Inl (ErrMsg ''stripe invoice missing subscription id'')
     else Inr (priceID, price, txn, processorSubID)))"

text \<open>
  The membership is created, or renewed when it exists; \<open>Inr None\<close> when a delayed renewal of a terminated membership is ignored. The
  subscription of a renewal is the row as it was before.
\<close>

definition invoice_membership ::
  "stripe_cfg \<Rightarrow> go_env \<Rightarrow> stripeInvoice \<Rightarrow> string \<Rightarrow> uuid \<Rightarrow> string \<Rightarrow> string \<Rightarrow> billing_db \<Rightarrow>
   (subscription \<times> bool) option result \<times> billing_db" where
  "invoice_membership cfg env invoice userID priceID txn processorSubID db =
     (let metadata = Some (sc_jsonb cfg (stripeInvoicePaymentMetadata invoice)) in
      case GetByProcessorSubscriptionID ProcessorStripe processorSubID (bdb_subs db) of
        Inl _ \<Rightarrow>
          (case CreateMembership (wc_lifecycle (sc_webhook cfg)) env
                  \<lparr>cm_UserID = userID, cm_PriceID = priceID, cm_Processor = ProcessorStripe,
                   cm_ProcessorSubscriptionID = Some processorSubID, cm_UserEmail = OptionalString (inv_CustomerEmail invoice),
                   cm_CurrentPeriodEndsAt = None, cm_TransactionID = txn, cm_Amount = inv_AmountPaid invoice,
                   cm_Currency = inv_Currency invoice, cm_PaymentMetadata = metadata\<rparr> db of
             (Inl e, db') \<Rightarrow> (Inl (call_error ''create membership'' e), db')
           | (Inr s, db') \<Rightarrow> (Inr (Some (s, True)), db'))
      | Inr s \<Rightarrow>
          (case RenewMembership (wc_lifecycle (sc_webhook cfg)) env
                  \<lparr>rm_Processor = ProcessorStripe, rm_ProcessorSubscriptionID = processorSubID, rm_CurrentPeriodEndsAt = None,
                   rm_TransactionID = txn, rm_Amount = inv_AmountPaid invoice, rm_Currency = inv_Currency invoice,
                   rm_PaymentMetadata = metadata, rm_AllowTerminalReactivation = False\<rparr> db of
             (Inl e, db') \<Rightarrow>
               if IsTerminalTransitionBlocked e then (Inr None, db') else (Inl (call_error ''renew membership'' e), db')
           | (Inr _, db') \<Rightarrow> (Inr (Some (s, False)), db')))"

text \<open>The product of the price, which may have been loaded already.\<close>

definition stripe_product :: "uuid \<Rightarrow> price option \<Rightarrow> billing_db \<Rightarrow> product result" where
  "stripe_product priceID price db =
     rbind (case price of Some p \<Rightarrow> Inr p | None \<Rightarrow> wrapped ''price lookup failed'' (PriceGetByID priceID db)) (\<lambda>p.
       wrapped ''product lookup failed'' (ProductGetByID (price_ProductID p) db))"

definition grant_invoice_credits ::
  "stripe_cfg \<Rightarrow> go_env \<Rightarrow> stripeInvoice \<Rightarrow> product \<Rightarrow> subscription \<Rightarrow> bool \<Rightarrow> 'r webhook_world \<Rightarrow> 'r webhook_world" where
  "grant_invoice_credits cfg env invoice product s created w =
     (if prod_CreditsSpec product = [] then w
      else
        (let periodEnd = stripeInvoicePeriodEnd invoice
         in grant_period_credits (sc_webhook cfg) env s (if periodEnd = time_zero then None else Some periodEnd)
              (if created then CreditGrantCadenceOnce else CreditGrantCadencePerRenewal)
              (if created then ''subscription_initial'' else ''subscription_renewal'') w))"

definition settle_invoice ::
  "stripe_cfg \<Rightarrow> time \<Rightarrow> stripeInvoice \<Rightarrow> string \<Rightarrow> uuid \<Rightarrow> string \<Rightarrow> uuid \<Rightarrow> 'r webhook_world \<Rightarrow> 'r webhook_world" where
  "settle_invoice cfg now invoice userID priceID txn subID w =
     (let sessionID = stripe_session (uuid_Parse_of cfg) (inv_Metadata invoice) userID priceID w in
      if sessionID = uuid_Nil then w
      else
        (let paymentID = (case GetByTransactionID ProcessorStripe txn (bdb_payments (ww_billing w)) of Inr p \<Rightarrow> pay_ID p | Inl _ \<Rightarrow> uuid_Nil)
         in settled_or_logged (MarkSucceededWithSubscription (ww_billing w) now sessionID paymentID txn subID (ww_sessions w)) w))"

definition handleInvoicePaid :: "stripe_cfg \<Rightarrow> go_env \<Rightarrow> stripeInvoice \<Rightarrow> 'r webhook_world \<Rightarrow> unit result \<times> 'r webhook_world" where
  "handleInvoicePaid cfg env invoice w =
     (let userID = stripe_user (inv_Metadata invoice) in
      if userID = [] then (Inl (ErrMsg ''stripe invoice missing user_id metadata''), w)
      else
        (let w1 = remember_customer cfg (env_now env) userID (inv_Customer invoice) w in
         case invoice_checks cfg invoice (ww_billing w1) of
           Inl e \<Rightarrow> (Inl e, w1)
         | Inr (priceID, price, txn, processorSubID) \<Rightarrow>
             (case invoice_membership cfg env invoice userID priceID txn processorSubID (ww_billing w1) of
                (Inl e, db) \<Rightarrow> (Inl e, w1\<lparr>ww_billing := db\<rparr>)
              | (Inr None, db) \<Rightarrow> (Inr (), w1\<lparr>ww_billing := db\<rparr>)
              | (Inr (Some (s, created)), db) \<Rightarrow>
                  (let w2 = w1\<lparr>ww_billing := db\<rparr> in
                   case stripe_product priceID price db of
                     Inl e \<Rightarrow> (Inl e, w2)
                   | Inr product \<Rightarrow>
                       (Inr (), settle_invoice cfg (env_now env) invoice userID priceID txn (sub_ID s)
                          (grant_invoice_credits cfg env invoice product s created w2))))))"

definition handleInvoicePaymentFailed :: "stripe_cfg \<Rightarrow> go_env \<Rightarrow> stripeInvoice \<Rightarrow> billing_db \<Rightarrow> unit result \<times> billing_db" where
  "handleInvoicePaymentFailed cfg env invoice db =
     (let processorSubID = TrimSpace (inv_Subscription invoice) in
      if processorSubID = [] then (Inr (), db)
      else (case GetByProcessorSubscriptionID ProcessorStripe processorSubID (bdb_subs db) of
              Inl _ \<Rightarrow> (Inr (), db)
            | Inr s \<Rightarrow>
                (case SubscriptionRepoUpdate (lc_nz (wc_lifecycle (sc_webhook cfg))) (env_now env) (s\<lparr>sub_Status := StatusPastDue\<rparr>) (bdb_subs db) of
                   Inl e \<Rightarrow> (Inl (ErrWrap ''update stripe subscription after payment failure'' e), db)
                 | Inr rows \<Rightarrow> (Inr (), db\<lparr>bdb_subs := rows\<rparr>))))"

section \<open>Checkout sessions\<close>

definition handleCheckoutSessionExpired :: "stripe_cfg \<Rightarrow> go_env \<Rightarrow> stripeCheckoutSession \<Rightarrow> 'r webhook_world \<Rightarrow> unit result \<times> 'r webhook_world" where
  "handleCheckoutSessionExpired cfg env sess w =
     (let expire = (\<lambda>sessionID. if sessionID = uuid_Nil then w
            else settled_or_logged (MarkExpired (ww_billing w) (env_now env) sessionID ''checkout expired'' (ww_sessions w)) w);
          userID = stripe_user (sess_Metadata sess)
      in if parseCheckoutSessionID (uuid_Parse_of cfg) (sess_Metadata sess) \<noteq> uuid_Nil
         then (Inr (), expire (parseCheckoutSessionID (uuid_Parse_of cfg) (sess_Metadata sess)))
         else if userID = [] then (Inr (), w)
         else (case resolvePriceFromMetadata (uuid_Parse_of cfg) (sess_Metadata sess) [] (ww_billing w) of
                 Inl _ \<Rightarrow> (Inr (), w)
               | Inr (priceID, _) \<Rightarrow> (Inr (), expire (stripe_session (uuid_Parse_of cfg) (sess_Metadata sess) userID priceID w))))"

definition checkout_checks :: "stripe_cfg \<Rightarrow> stripeCheckoutSession \<Rightarrow> billing_db \<Rightarrow> (uuid \<times> price option \<times> string) result" where
  "checkout_checks cfg sess db =
     rbind (resolvePriceFromMetadata (uuid_Parse_of cfg) (sess_Metadata sess) [] db) (\<lambda>(priceID, price).
     rbind (stripe_transaction ''stripe checkout session missing payment_intent'' [[], sess_PaymentIntent sess]
              (sess_AmountTotal sess) (sess_ID sess)) (\<lambda>txn.
       Inr (priceID, price, txn)))"

definition checkout_purchase :: "stripe_cfg \<Rightarrow> stripeCheckoutSession \<Rightarrow> string \<Rightarrow> uuid \<Rightarrow> string \<Rightarrow> RegisterPurchaseRequest" where
  "checkout_purchase cfg sess userID priceID txn =
     \<lparr>rp_UserID = userID, rp_PriceID = priceID, rp_Processor = ProcessorStripe, rp_TransactionID = txn,
      rp_Amount = sess_AmountTotal sess, rp_Currency = sess_Currency sess, rp_SubscriptionID = None, rp_WalletPurchase = False,
      rp_PurchasedAt = None, rp_Metadata = Some (sc_jsonb cfg (stripeCheckoutPaymentMetadata sess))\<rparr>"

text \<open>The credits of a purchase, one deposit per specification that is granted once; the loop stops at the first failure.\<close>

definition purchase_deposit :: "time \<Rightarrow> string \<Rightarrow> uuid \<Rightarrow> string \<Rightarrow> credit_grant_spec \<Rightarrow> credit_deposit_params" where
  "purchase_deposit now userID paymentID creditType spec =
     \<lparr>cdp_UserID = userID, cdp_CreditType = creditType, cdp_Amount = cgs_Amount spec, cdp_Source = ''purchase'',
      cdp_SourceID = Some paymentID,
      cdp_ExpiresAt = (case cgs_ExpiresDays spec of Some d \<Rightarrow> if d > 0 then Some (now + days_duration d) else None | None \<Rightarrow> None),
      cdp_Description = None\<rparr>"

fun grant_purchase_credits ::
  "go_env \<Rightarrow> string \<Rightarrow> uuid \<Rightarrow> (string \<times> credit_grant_spec) list \<Rightarrow> credit_db \<Rightarrow> unit result \<times> credit_db" where
  "grant_purchase_credits env userID paymentID [] db = (Inr (), db)"
| "grant_purchase_credits env userID paymentID ((creditType, spec) # specs) db =
     (if effective_cadence spec \<noteq> CreditGrantCadenceOnce \<or> TrimSpace creditType = [] \<or> cgs_Amount spec \<le> 0
      then grant_purchase_credits (env_shift 3 env) userID paymentID specs db
      else (case Deposit env (purchase_deposit (env_now env) userID paymentID creditType spec) db of
              (Inl e, db') \<Rightarrow> (Inl (ErrWrap (''grant purchased credits ('' @ creditType @ '')'') e), db')
            | (Inr _, db') \<Rightarrow> grant_purchase_credits (env_shift 3 env) userID paymentID specs db'))"

definition settle_checkout ::
  "stripe_cfg \<Rightarrow> time \<Rightarrow> stripeCheckoutSession \<Rightarrow> string \<Rightarrow> uuid \<Rightarrow> string \<Rightarrow> uuid \<Rightarrow> 'r webhook_world \<Rightarrow> 'r webhook_world" where
  "settle_checkout cfg now sess userID priceID txn paymentID w =
     (let sessionID = stripe_session (uuid_Parse_of cfg) (sess_Metadata sess) userID priceID w in
      if sessionID = uuid_Nil then w
      else settled_or_logged (MarkSucceeded (ww_billing w) now sessionID paymentID txn (ww_sessions w)) w)"

definition handleCheckoutSessionCompleted ::
  "stripe_cfg \<Rightarrow> go_env \<Rightarrow> stripeCheckoutSession \<Rightarrow> 'r webhook_world \<Rightarrow> unit result \<times> 'r webhook_world" where
  "handleCheckoutSessionCompleted cfg env sess w =
     (let userID = stripe_user (sess_Metadata sess) in
      if userID = [] then (Inl (ErrMsg ''stripe checkout missing user_id metadata''), w)
      else
        (let w1 = remember_customer cfg (env_now env) userID (sess_Customer sess) w in
         if sess_Mode sess \<noteq> ''payment'' then (Inr (), w1)
         else (case checkout_checks cfg sess (ww_billing w1) of
           Inl e \<Rightarrow> (Inl e, w1)
         | Inr (priceID, price, txn) \<Rightarrow>
             (case RegisterPurchase env (checkout_purchase cfg sess userID priceID txn) (ww_billing w1) of
                (Inl e, db) \<Rightarrow> (Inl (call_error ''register purchase'' e), w1\<lparr>ww_billing := db\<rparr>)
              | (Inr resp, db) \<Rightarrow>
                  (let w2 = settle_checkout cfg (env_now env) sess userID priceID txn (rr_PaymentID resp) (w1\<lparr>ww_billing := db\<rparr>) in
                   case stripe_product priceID price db of
                     Inl e \<Rightarrow> (Inl e, w2)
                   | Inr product \<Rightarrow>
                       (case grant_purchase_credits (env_shift (1 + length (prod_EntitlementsSpec product)) env) userID (rr_PaymentID resp)
                               (prod_CreditsSpec product) (ww_credits w2) of
                          (r, credits) \<Rightarrow> (r, w2\<lparr>ww_credits := credits\<rparr>)))))))"

section \<open>Subscriptions\<close>

definition handleSubscriptionDeleted :: "stripe_cfg \<Rightarrow> go_env \<Rightarrow> string \<Rightarrow> billing_db \<Rightarrow> unit result \<times> billing_db" where
  "handleSubscriptionDeleted cfg env i db =
     (if i = [] then (Inr (), db)
      else CancelMembership (wc_lifecycle (sc_webhook cfg)) env
             \<lparr>ca_SubscriptionID = None, ca_Processor = Some ProcessorStripe, ca_ProcessorSubscriptionID = Some i,
              ca_CancelType = CancelTypeUser, ca_CancelFeedback = None, ca_RevokeAccess = False\<rparr> db)"

definition applyStripeSubscriptionStatus :: "string \<Rightarrow> time \<Rightarrow> subscription \<Rightarrow> subscription" where
  "applyStripeSubscriptionStatus rawStatus now s =
     (let status = TrimSpace (ToLower rawStatus) in
      if status \<in> {''active'', ''trialing''} then s\<lparr>sub_Status := StatusActive\<rparr>
      else if status \<in> {''past_due'', ''unpaid'', ''incomplete''} then s\<lparr>sub_Status := StatusPastDue\<rparr>
      else if status \<in> {''canceled'', ''incomplete_expired''}
      then s\<lparr>sub_Status := StatusCancelled,
             sub_CancelledAt := (case sub_CancelledAt s of None \<Rightarrow> Some now | Some t \<Rightarrow> Some t),
             sub_EndedAt := (case sub_EndedAt s of
                               Some t \<Rightarrow> Some t
                             | None \<Rightarrow> Some (case sub_CurrentPeriodEndsAt s of Some t \<Rightarrow> if t > now then t else now | None \<Rightarrow> now))\<rparr>
      else s)"

text \<open>The price of the first item, when it is mapped, and the period.\<close>

definition stripe_item :: "stripeSubscription \<Rightarrow> billing_db \<Rightarrow> subscription \<Rightarrow> subscription" where
  "stripe_item data db s =
     (case ss_PriceIDs data of
        [] \<Rightarrow> s
      | i # _ \<Rightarrow>
          if TrimSpace i = [] then s
          else (case GetByStripePriceID (TrimSpace i) db of
                  Inl _ \<Rightarrow> s
                | Inr price \<Rightarrow> s\<lparr>sub_PriceID := price_ID price, sub_ProductID := price_ProductID price, sub_ScheduledPriceID := None\<rparr>))"

definition stripe_period :: "stripeSubscription \<Rightarrow> subscription \<Rightarrow> subscription" where
  "stripe_period data s =
     s\<lparr>sub_CurrentPeriodStartsAt := (if ss_CurrentPeriodStart data > 0 then Some (unix_time (ss_CurrentPeriodStart data)) else sub_CurrentPeriodStartsAt s),
       sub_CurrentPeriodEndsAt := (if ss_CurrentPeriodEnd data > 0 then Some (unix_time (ss_CurrentPeriodEnd data)) else sub_CurrentPeriodEndsAt s)\<rparr>"

definition handleSubscriptionUpdated :: "stripe_cfg \<Rightarrow> go_env \<Rightarrow> stripeSubscription \<Rightarrow> billing_db \<Rightarrow> unit result \<times> billing_db" where
  "handleSubscriptionUpdated cfg env data db =
     (if TrimSpace (ss_ID data) = [] then (Inr (), db)
      else (case GetByProcessorSubscriptionID ProcessorStripe (TrimSpace (ss_ID data)) (bdb_subs db) of
              Inl _ \<Rightarrow> (Inr (), db)
            | Inr s \<Rightarrow>
                (case SubscriptionRepoUpdate (lc_nz (wc_lifecycle (sc_webhook cfg))) (env_now env)
                        (applyStripeSubscriptionStatus (ss_Status data) (env_now env) (stripe_period data (stripe_item data db s))) (bdb_subs db) of
                   Inl e \<Rightarrow> (Inl (ErrWrap ''update subscription from stripe'' e), db)
                 | Inr rows \<Rightarrow> (Inr (), db\<lparr>bdb_subs := rows\<rparr>))))"

section \<open>Dispatch\<close>

datatype stripe_event =
    StripeInvoicePaid stripeInvoice
  | StripeInvoicePaymentFailed stripeInvoice
  | StripeCheckoutSessionCompleted stripeCheckoutSession
  | StripeCheckoutSessionExpired stripeCheckoutSession
  | StripeSubscriptionUpdated stripeSubscription
  | StripeSubscriptionDeleted string
  | StripeIgnored
  | StripeMalformed go_error

fun handleEvent :: "stripe_cfg \<Rightarrow> go_env \<Rightarrow> stripe_event \<Rightarrow> 'r webhook_world \<Rightarrow> unit result \<times> 'r webhook_world" where
  "handleEvent cfg env (StripeInvoicePaid invoice) w = handleInvoicePaid cfg env invoice w"
| "handleEvent cfg env (StripeInvoicePaymentFailed invoice) w = on_billing (handleInvoicePaymentFailed cfg env invoice) w"
| "handleEvent cfg env (StripeCheckoutSessionCompleted sess) w = handleCheckoutSessionCompleted cfg env sess w"
| "handleEvent cfg env (StripeCheckoutSessionExpired sess) w = handleCheckoutSessionExpired cfg env sess w"
| "handleEvent cfg env (StripeSubscriptionUpdated data) w = on_billing (handleSubscriptionUpdated cfg env data) w"
| "handleEvent cfg env (StripeSubscriptionDeleted i) w = on_billing (handleSubscriptionDeleted cfg env i) w"
| "handleEvent cfg env StripeIgnored w = (Inr (), w)"
| "handleEvent cfg env (StripeMalformed e) w = (Inl e, w)"

definition HandleStripeWebhook ::
  "stripe_cfg \<Rightarrow> go_env \<Rightarrow> time \<Rightarrow> string \<Rightarrow> string \<Rightarrow> string \<Rightarrow> stripe_event \<Rightarrow> 'r webhook_world \<Rightarrow> unit result \<times> 'r webhook_world" where
  "HandleStripeWebhook cfg env t1 rawID rawType payload ev w =
     (let eventID = TrimSpace rawID; eventType = TrimSpace rawType in
      if eventID = [] \<or> eventType = [] then (Inl (ErrMsg ''stripe event missing id or type''), w)
      else (case ProcessWebhook (Error (wc_driver (sc_webhook cfg))) (env_now env) t1 eventID eventType ProcessorStripe payload
                   (handleEvent cfg env ev) (ww_idem w, w) of
              (r, idem, w') \<Rightarrow> (r, w'\<lparr>ww_idem := idem\<rparr>)))"

end
