(* ===== verification/Purchase_Properties.thy ===== *)
theory Purchase_Properties
  imports Purchases Dunning
begin

text \<open>
  What a one-off purchase does: it keeps the constraints, is registered once per transaction of the processor, and extends
  the member's access by the term that was bought, unless windows are queued already.
\<close>

section \<open>Constraints\<close>

lemma grantProductEntitlements_ok:
  "ents_ok rows \<Longrightarrow> ents_ok (snd (grantProductEntitlements env u startAt sid sub wallet cycle spec rows))"
proof (induction env u startAt sid sub wallet cycle spec rows rule: grantProductEntitlements.induct)
  case (2 env u startAt sid sub wallet cycle n d spec rows)
  then show ?case by (auto split: sum.split prod.split dest: Push_ok)
qed simp

lemma RegisterPurchase_ok:
  assumes "billing_ok db"
  shows "billing_ok (snd (RegisterPurchase env req db))"
proof -
  have t: "ents_ok (bdb_ents db)" "pays_ok (bdb_payments db)" using assms by (simp_all add: billing_ok_def)
  have "ents_ok rows'" if "grantProductEntitlements e u a i sub wallet c spec (bdb_ents db) = (r, rows')" for e u a i sub wallet c spec r rows'
    using grantProductEntitlements_ok [OF t(1), of e u a i sub wallet c spec] that by simp
  moreover have "pays_ok rows'" if "PaymentCreate now p (bdb_payments db) = Inr rows'" for now p rows'
    using t(2) that by (auto simp: PaymentCreate_def intro: pay_insert_pays_ok)
  ultimately show ?thesis using assms
    by (auto simp: RegisterPurchase_def billing_ok_def Let_def split: sum.split prod.split)
qed

section \<open>Once per transaction\<close>

lemma PaymentCreate_duplicate:
  assumes "p \<in> set rows" "pay_Processor p = pay_Processor q" "pay_TransactionID p = pay_TransactionID q"
  shows "\<exists>e. PaymentCreate now q rows = Inl e"
proof (cases "PaymentCreate now q rows")
  case (Inr rows')
  then obtain q' where "violation (\<lambda>_. None) pay_clash q' rows = None" "pay_Processor q' = pay_Processor q" "pay_TransactionID q' = pay_TransactionID q"
    by (auto simp: PaymentCreate_def pay_insert_def tbl_insert_Inr Let_def split: if_split_asm)
  with assms show ?thesis by (auto simp: violation_None pay_clash_def split: if_splits)
qed simp

lemma RegisterPurchase_refused:
  assumes "GetByTransactionID (rp_Processor req) (rp_TransactionID req) (bdb_payments db) = Inr p"
  shows "\<exists>e. RegisterPurchase env req db = (Inl e, db)"
proof -
  have p: "p \<in> set (bdb_payments db)" "pay_Processor p = rp_Processor req" "pay_TransactionID p = rp_TransactionID req"
    using assms by (auto simp: GetByTransactionID_def dest: sql_find_memb)
  have "\<exists>e. PaymentCreate (env_now env) (purchase_payment env req price) (bdb_payments db) = Inl e" for price
    by (rule PaymentCreate_duplicate [OF p(1)]) (simp_all add: p(2,3) purchase_payment_def)
  then have "\<forall>price pays. PaymentCreate (env_now env) (purchase_payment env req price) (bdb_payments db) \<noteq> Inr pays" by (metis Inl_Inr_False)
  then show ?thesis by (auto simp: RegisterPurchase_def split: sum.split prod.split)
qed

text \<open>
  A purchase is registered once per transaction. When the processor's transaction is recorded as a payment already, registering
  a purchase with it fails and changes neither payments nor access.
\<close>

theorem RegisterPurchase_once:
  assumes "GetByTransactionID (rp_Processor req) (rp_TransactionID req) (bdb_payments db) = Inr p"
  shows "\<exists>e. RegisterPurchase env req db = (Inl e, db)"
  by (rule RegisterPurchase_refused [OF assms])

section \<open>How far a product is covered\<close>

text \<open>A live window of the member that has begun ends before \<open>now\<close> or within the coverage.\<close>

definition within :: "time \<Rightarrow> CoverageInfo \<Rightarrow> entitlement \<Rightarrow> bool" where
  "within now cov e \<longleftrightarrow> (\<exists>t. ent_EndAt e = Some t \<and> (t \<le> now \<or> (\<exists>d. delayed_start cov = Some d \<and> t \<le> d)))"

lemma latest_finite:
  assumes "e \<in> set (windows u n rows)" "ent_live e" "ent_StartAt e \<le> now" "ent_EndAt e = Some t" "now < t"
  obtains w d where "GetLatestFiniteActive u n now rows = Inr w" "ent_EndAt w = Some d" "t \<le> d"
proof -
  let ?P = "\<lambda>e. ent_key e = (u, n) \<and> ent_live e \<and> ent_EndAt e \<noteq> None \<and> ent_StartAt e \<le> now \<and> the (ent_EndAt e) > now"
  let ?xs = "sort_key (\<lambda>e. - the (ent_EndAt e)) (filter ?P rows)"
  have e: "e \<in> set ?xs" using assms by simp
  then have "?xs \<noteq> []" by (metis empty_iff list.set(1))
  then obtain w ws where xs: "?xs = w # ws" unfolding neq_Nil_conv by blast
  then have "w \<in> set ?xs" by simp
  then have w: "?P w" by simp
  have "sorted (map (\<lambda>e. - the (ent_EndAt e)) ?xs)" by simp
  then have "the (ent_EndAt e) \<le> the (ent_EndAt w)" using e unfolding xs by auto
  with w xs assms(4) show thesis by (intro that) (auto simp: GetLatestFiniteActive_def sql_find_def)
qed

text \<open>One entitlement of the loop.\<close>

definition cover_one :: "time \<Rightarrow> string \<Rightarrow> string \<Rightarrow> entitlement list \<Rightarrow> CoverageInfo \<Rightarrow> CoverageInfo" where
  "cover_one now u n rows cov =
     (case GetLatestFiniteActive u n now rows of
        Inl _ \<Rightarrow> cov
      | Inr e \<Rightarrow>
          cov\<lparr>cov_HasCoverage := True, cov_SourceType := ''entitlement'',
              cov_EndDate := (case ent_EndAt e of
                                None \<Rightarrow> cov_EndDate cov
                              | Some t \<Rightarrow> (case cov_EndDate cov of None \<Rightarrow> Some t | Some d \<Rightarrow> if t > d then Some t else Some d))\<rparr>)"

lemma cover_one_indefinite [simp]: "cov_IsIndefinite (cover_one now u n rows cov) = cov_IsIndefinite cov"
  by (simp add: cover_one_def split: sum.split)

lemma cover_one_extends: "delayed_start cov = Some d \<Longrightarrow> \<exists>d'. delayed_start (cover_one now u n rows cov) = Some d' \<and> d \<le> d'"
  by (auto simp: delayed_start_def cover_one_def split: sum.split option.split if_split_asm)

lemma cover_one_window:
  assumes "e \<in> set (windows u n rows)" "ent_live e" "ent_StartAt e \<le> now" "\<not> HasActiveIndefinite u n now rows"
  shows "within now (cover_one now u n rows cov) e"
proof -
  have "ent_EndAt e \<noteq> None"
  proof
    assume "ent_EndAt e = None"
    with assms(1-3) have "HasActiveIndefinite u n now rows"
      unfolding HasActiveIndefinite_def list_ex_iff by (intro bexI [of _ e]) (simp_all add: ent_live_def)
    with assms(4) show False ..
  qed
  then obtain t where t: "ent_EndAt e = Some t" by blast
  show ?thesis
  proof (cases "t \<le> now")
    case False
    then have "now < t" by simp
    from latest_finite [OF assms(1-3) t this] obtain w d
      where w: "GetLatestFiniteActive u n now rows = Inr w" "ent_EndAt w = Some d" "t \<le> d" by blast
    then have "\<exists>d'. delayed_start (cover_one now u n rows cov) = Some d' \<and> t \<le> d'"
      by (auto simp: delayed_start_def cover_one_def split: option.split)
    with t show ?thesis by (auto simp: within_def)
  qed (use t in \<open>auto simp: within_def\<close>)
qed

lemma within_mono:
  assumes "within now c e" "\<And>d. delayed_start c = Some d \<Longrightarrow> \<exists>d'. delayed_start c' = Some d' \<and> d \<le> d'"
  shows "within now c' e"
proof -
  obtain t where t: "ent_EndAt e = Some t" "t \<le> now \<or> (\<exists>d. delayed_start c = Some d \<and> t \<le> d)" using assms(1) unfolding within_def by blast
  then have "t \<le> now \<or> (\<exists>d. delayed_start c' = Some d \<and> t \<le> d)" using assms(2) order_trans by blast
  with t(1) show ?thesis unfolding within_def by blast
qed

lemma coverage_loop_Cons:
  "\<not> HasActiveIndefinite u n now rows \<Longrightarrow> coverage_loop now u (n # ns) rows cov = coverage_loop now u ns rows (cover_one now u n rows cov)"
  by (simp add: cover_one_def)

lemma coverage_loop_within:
  assumes "\<not> cov_IsIndefinite (coverage_loop now u ns rows cov)"
  shows "\<And>d. delayed_start cov = Some d \<Longrightarrow> \<exists>d'. delayed_start (coverage_loop now u ns rows cov) = Some d' \<and> d \<le> d'"
    and "\<And>n e. n \<in> set ns \<Longrightarrow> e \<in> set (windows u n rows) \<Longrightarrow> ent_live e \<Longrightarrow> ent_StartAt e \<le> now \<Longrightarrow>
      within now (coverage_loop now u ns rows cov) e"
proof -
  have "(\<forall>d. delayed_start cov = Some d \<longrightarrow> (\<exists>d'. delayed_start (coverage_loop now u ns rows cov) = Some d' \<and> d \<le> d')) \<and>
    (\<forall>n \<in> set ns. \<forall>e \<in> set (windows u n rows). ent_live e \<longrightarrow> ent_StartAt e \<le> now \<longrightarrow> within now (coverage_loop now u ns rows cov) e)"
    using assms
  proof (induction ns arbitrary: cov)
    case (Cons n ns)
    have ni: "\<not> HasActiveIndefinite u n now rows" using Cons.prems by (cases "HasActiveIndefinite u n now rows") simp_all
    note loop = coverage_loop_Cons [OF ni, of ns cov]
    note IH = Cons.IH [OF Cons.prems [unfolded loop]]
    have "within now (coverage_loop now u ns rows (cover_one now u n rows cov)) e"
      if "m \<in> set (n # ns)" "e \<in> set (windows u m rows)" "ent_live e" "ent_StartAt e \<le> now" for m e
    proof (cases "m \<in> set ns")
      case True
      with IH that show ?thesis by blast
    next
      case False
      with that have "e \<in> set (windows u n rows)" by simp
      from cover_one_window [OF this that(3,4) ni] show ?thesis by (rule within_mono) (use IH in blast)
    qed
    moreover have "\<exists>d'. delayed_start (coverage_loop now u ns rows (cover_one now u n rows cov)) = Some d' \<and> d \<le> d'"
      if "delayed_start cov = Some d" for d
      using cover_one_extends [OF that, of now u n rows] IH order_trans by blast
    ultimately show ?case unfolding loop by blast
  qed simp
  then show "\<And>d. delayed_start cov = Some d \<Longrightarrow> \<exists>d'. delayed_start (coverage_loop now u ns rows cov) = Some d' \<and> d \<le> d'"
    "\<And>n e. n \<in> set ns \<Longrightarrow> e \<in> set (windows u n rows) \<Longrightarrow> ent_live e \<Longrightarrow> ent_StartAt e \<le> now \<Longrightarrow>
      within now (coverage_loop now u ns rows cov) e" by blast+
qed

section \<open>What a purchase grants\<close>

lemma cover_one_future:
  assumes "\<And>d. cov_EndDate cov = Some d \<Longrightarrow> now < d" "cov_EndDate (cover_one now u n rows cov) = Some d"
  shows "now < d"
proof (cases "GetLatestFiniteActive u n now rows")
  case (Inr w)
  then have "w \<in> set rows" "ent_EndAt w \<noteq> None" "now < the (ent_EndAt w)"
    by (auto simp: GetLatestFiniteActive_def dest!: sql_find_memb)
  with Inr assms show ?thesis by (auto simp: cover_one_def split: option.split_asm if_split_asm)
qed (use assms in \<open>simp add: cover_one_def\<close>)

lemma coverage_loop_future:
  "(\<And>d. cov_EndDate cov = Some d \<Longrightarrow> now < d) \<Longrightarrow> cov_EndDate (coverage_loop now u ns rows cov) = Some d \<Longrightarrow> now < d"
proof (induction ns arbitrary: cov)
  case (Cons n ns)
  show ?case
  proof (cases "HasActiveIndefinite u n now rows")
    case False
    show ?thesis by (rule Cons.IH [of "cover_one now u n rows cov"])
        (use Cons.prems cover_one_future [of cov now u n rows] in \<open>auto simp: coverage_loop_Cons [OF False] simp del: coverage_loop.simps\<close>)
  qed (use Cons.prems in simp)
qed simp

lemma coverage_loop_indefinite:
  "(cov_IsIndefinite cov \<Longrightarrow> cov_HasCoverage cov) \<Longrightarrow> cov_IsIndefinite (coverage_loop now u ns rows cov) \<Longrightarrow>
   cov_HasCoverage (coverage_loop now u ns rows cov)"
  by (induction ns arbitrary: cov) (auto split: if_split_asm sum.split_asm)

text \<open>A coverage that allows the purchase ends after now, and no window that has begun reaches beyond it.\<close>

lemma coverage_allows:
  assumes "\<not> (cov_HasCoverage (GetUserProductCoverage now u product db) \<and> cov_IsIndefinite (GetUserProductCoverage now u product db))"
  shows "\<And>d. delayed_start (GetUserProductCoverage now u product db) = Some d \<Longrightarrow> now < d"
    and "\<And>n e. n \<in> fst ` set (prod_EntitlementsSpec product) \<Longrightarrow> e \<in> set (windows u n (bdb_ents db)) \<Longrightarrow> ent_live e \<Longrightarrow> ent_StartAt e \<le> now \<Longrightarrow>
      within now (GetUserProductCoverage now u product db) e"
proof -
  obtain cov where c: "GetUserProductCoverage now u product db = coverage_loop now u (map fst (prod_EntitlementsSpec product)) (bdb_ents db) cov"
    and f: "\<And>d. cov_EndDate cov = Some d \<Longrightarrow> now < d" and i: "\<not> cov_IsIndefinite cov"
  proof (cases "GetActiveOrPendingByUserIDAndProductID u (prod_ID product) (bdb_subs db)")
    case (Inl e)
    then show thesis by (intro that [of no_coverage]) (simp_all add: GetUserProductCoverage_def no_coverage_def)
  next
    case (Inr s)
    have "\<exists>t. sub_CurrentPeriodEndsAt s = Some t \<and> t \<noteq> time_zero"
      using assms Inr by (cases "sub_CurrentPeriodEndsAt s") (auto simp: GetUserProductCoverage_def split: if_split_asm)
    then obtain t where "sub_CurrentPeriodEndsAt s = Some t" "t \<noteq> time_zero" by blast
    with Inr show thesis by (intro that) (auto simp: GetUserProductCoverage_def no_coverage_def split: if_split_asm)
  qed
  have ni: "\<not> cov_IsIndefinite (GetUserProductCoverage now u product db)"
    using assms coverage_loop_indefinite [of cov] i unfolding c by blast
  show "now < d" if "delayed_start (GetUserProductCoverage now u product db) = Some d" for d
    using that coverage_loop_future [OF f] unfolding c by (auto simp: delayed_start_def split: if_split_asm)
  show "within now (GetUserProductCoverage now u product db) e"
    if "n \<in> fst ` set (prod_EntitlementsSpec product)" "e \<in> set (windows u n (bdb_ents db))" "ent_live e" "ent_StartAt e \<le> now" for n e
    unfolding c by (rule coverage_loop_within(2) [OF ni [unfolded c] _ that(2-4)]) (use that(1) in simp)
qed

lemma purchase_push_window:
  "PushNewEntitlement env (purchase_push u n a (Some b) sub sid) rows =
     push_window env u n a b (if sub then EntitlementSourceSubscription else EntitlementSourceOneOff) sid rows"
  by (simp add: purchase_push_def push_window_def)

lemma grantProductEntitlements_covers:
  assumes "ents_ok rows" "fresh_env env rows" "u \<noteq> []" "sid \<noteq> uuid_Nil" "distinct (map fst spec)"
    and "\<forall>(n, d) \<in> set spec. n \<noteq> [] \<and> (\<exists>b. purchase_end wallet cycle d a = Some b \<and> b \<noteq> time_zero)"
  shows "\<exists>rows'. grantProductEntitlements env u a sid sub wallet cycle spec rows = (Inr (), rows') \<and>
    (\<forall>m. m \<notin> fst ` set spec \<longrightarrow> windows u m rows' = windows u m rows) \<and>
    (\<forall>(n, d) \<in> set spec. paid_up_to (\<lambda>_. False) (max (env_now env) a) (windows u n rows) \<longrightarrow>
       (\<forall>t. max (env_now env) a \<le> t \<and> t < the (purchase_end wallet cycle d a) \<longrightarrow> IsEntitled u n t rows'))"
  using assms
proof (induction spec arbitrary: rows env)
  case (Cons x spec)
  obtain n d where x: "x = (n, d)" by (cases x)
  obtain b where b: "purchase_end wallet cycle d a = Some b" "b \<noteq> time_zero" "n \<noteq> []" using Cons.prems(6) x by auto
  let ?st = "if sub then EntitlementSourceSubscription else EntitlementSourceOneOff"
  obtain w rows1 where p: "push_window env u n a b ?st sid rows = Inr (w, rows1)" and ok: "ents_ok rows1" "fresh_env (env_shift 1 env) rows1"
    by (rule push_window_cases [OF Cons.prems(1,2), of u n a b ?st sid]) (use b Cons.prems(3,4) in auto)
  have rest: "distinct (map fst spec)" "\<forall>(n, d) \<in> set spec. n \<noteq> [] \<and> (\<exists>b. purchase_end wallet cycle d a = Some b \<and> b \<noteq> time_zero)"
    using Cons.prems(5,6) by auto
  from Cons.IH [OF ok Cons.prems(3,4) rest, unfolded env_shift_now] obtain rows'
    where run: "grantProductEntitlements (env_shift 1 env) u a sid sub wallet cycle spec rows1 = (Inr (), rows')"
      and other: "\<And>m. m \<notin> fst ` set spec \<Longrightarrow> windows u m rows' = windows u m rows1"
      and all: "\<forall>(n, d) \<in> set spec. paid_up_to (\<lambda>_. False) (max (env_now env) a) (windows u n rows1) \<longrightarrow>
        (\<forall>t. max (env_now env) a \<le> t \<and> t < the (purchase_end wallet cycle d a) \<longrightarrow> IsEntitled u n t rows')"
    by blast
  have cov: "IsEntitled u m t rows'" if "(m, e) \<in> set spec" "paid_up_to (\<lambda>_. False) (max (env_now env) a) (windows u m rows1)"
    "max (env_now env) a \<le> t" "t < the (purchase_end wallet cycle e a)" for m e t
    using bspec [OF all that(1)] that(2-4) by simp
  have n: "n \<notin> fst ` set spec" using Cons.prems(5) x by simp
  have "grantProductEntitlements env u a sid sub wallet cycle (x # spec) rows = (Inr (), rows')"
    using p run by (simp add: x b(1) purchase_push_window)
  moreover have "windows u m rows' = windows u m rows" if "m \<notin> fst ` set (x # spec)" for m
    using that other [of m] push_window_other [OF p, of m] x by auto
  moreover have "IsEntitled u m t rows'" if "(m, e) \<in> set (x # spec)" "paid_up_to (\<lambda>_. False) (max (env_now env) a) (windows u m rows)"
    "max (env_now env) a \<le> t" "t < the (purchase_end wallet cycle e a)" for m e t
  proof (cases "(m, e) \<in> set spec")
    case True
    then have "m \<noteq> n" using n by force
    with push_window_other [OF p, of m] that(2) show ?thesis by (intro cov [OF True _ that(3,4)]) auto
  next
    case False
    then have me: "m = n" "e = d" using that(1) x by auto
    have "IsEntitled u n t rows1" by (rule push_window_covers [OF p]) (use that me b in auto)
    then show ?thesis using other [OF n] me by (simp add: IsEntitled_windows)
  qed
  ultimately show ?case by blast
qed simp

lemma allowed_coverage:
  assumes "CheckPurchaseEligibility now u i db = Inr e" "el_Status e = EligibilityAllowed"
    and "PriceGetByID i db = Inr price" "ProductGetByID (price_ProductID price) db = Inr product"
  shows "el_Coverage e = Some (GetUserProductCoverage now u product db) \<and>
    \<not> (cov_HasCoverage (GetUserProductCoverage now u product db) \<and> cov_IsIndefinite (GetUserProductCoverage now u product db))"
  using assms
  by (auto simp: CheckPurchaseEligibility_def coverage_eligibility_def tier_eligibility_def blocked_def rbind_Inr Let_def
      split: if_split_asm option.split_asm sum.split_asm)

text \<open>The start of what is bought: nothing that the member has of the product reaches beyond it when nothing is queued.\<close>

definition purchase_start :: "time \<Rightarrow> CoverageInfo \<Rightarrow> time" where
  "purchase_start now cov = (case delayed_start cov of None \<Rightarrow> now | Some t \<Rightarrow> t)"

lemma purchase_start:
  assumes "cov = GetUserProductCoverage now u product db" "\<not> (cov_HasCoverage cov \<and> cov_IsIndefinite cov)"
  shows "now \<le> purchase_start now cov"
    and "n \<in> fst ` set (prod_EntitlementsSpec product) \<Longrightarrow> \<forall>w \<in> set (bdb_ents db). ent_live w \<and> ent_UserID w = u \<longrightarrow> ent_StartAt w \<le> now \<Longrightarrow>
      paid_up_to (\<lambda>_. False) (max now (purchase_start now cov)) (windows u n (bdb_ents db))"
proof -
  note allows = coverage_allows [OF assms(2) [unfolded assms(1)], folded assms(1)]
  show "now \<le> purchase_start now cov" using allows(1) by (auto simp: purchase_start_def split: option.split)
  assume n: "n \<in> fst ` set (prod_EntitlementsSpec product)" and q: "\<forall>w \<in> set (bdb_ents db). ent_live w \<and> ent_UserID w = u \<longrightarrow> ent_StartAt w \<le> now"
  show "paid_up_to (\<lambda>_. False) (max now (purchase_start now cov)) (windows u n (bdb_ents db))"
    unfolding paid_up_to_def
  proof (intro ballI impI)
    fix w assume w: "w \<in> set (windows u n (bdb_ents db))" "ent_live w \<and> \<not> False"
    then have "within now cov w" using q by (intro allows(2) [OF n]) auto
    then show "\<not> ends_after (max now (purchase_start now cov)) w" by (auto simp: within_def ends_after_def purchase_start_def split: option.split)
  qed
qed

lemma PaymentCreate_purchase:
  assumes "\<forall>q \<in> set rows. (pay_Processor q, pay_TransactionID q) \<noteq> (rp_Processor req, rp_TransactionID req)"
    and "env_uuid env 0 \<notin> set (map pay_ID rows)" "rp_PurchasedAt req = None"
  shows "PaymentCreate (env_now env) (purchase_payment env req price) rows = Inr (rows @ [(purchase_payment env req price)\<lparr>pay_Status := ''completed''\<rparr>])"
  using assms by (auto simp: PaymentCreate_def pay_insert_def purchase_payment_def tbl_insert_Inr violation_None pay_clash_def duration_defs)


definition ex_buy :: RegisterPurchaseRequest where
  "ex_buy = \<lparr>rp_UserID = ''u'', rp_PriceID = 2, rp_Processor = ''stripe'', rp_TransactionID = ''pi_1'', rp_Amount = 0, rp_Currency = [],
     rp_SubscriptionID = None, rp_WalletPurchase = False, rp_PurchasedAt = None, rp_Metadata = None\<rparr>"

theorem RegisterPurchase_once_witness:
  "\<exists>e. RegisterPurchase (ex_ent_env (110 * ex_day) 10) ex_buy
     ((ex_billing ex_sub)\<lparr>bdb_payments := [ex_pay\<lparr>pay_Processor := ''stripe'', pay_TransactionID := ''pi_1''\<rparr>]\<rparr>) =
     (Inl e, (ex_billing ex_sub)\<lparr>bdb_payments := [ex_pay\<lparr>pay_Processor := ''stripe'', pay_TransactionID := ''pi_1''\<rparr>]\<rparr>)"
  by (rule RegisterPurchase_once) (simp add: GetByTransactionID_def sql_find_def ex_buy_def)

lemma ex_buy_sold:
  "\<forall>(n, d) \<in> set (prod_EntitlementsSpec ex_product). n \<noteq> [] \<and>
     (\<forall>s. 0 < s \<longrightarrow> (\<exists>b. purchase_end False (price_BillingCycleDays ex_price) d s = Some b \<and> s < b))"
  by (auto simp: ex_product_def ex_price_def purchase_end_def days_duration_exact)


section \<open>Behind a queue\<close>

lemma grant_nothing:
  assumes "\<forall>(n, d) \<in> set spec. n \<noteq> [] \<and> (\<exists>b. purchase_end wallet cycle d a = Some b \<and> b \<noteq> time_zero \<and>
      (\<exists>w \<in> set (windows u n rows). ent_live w \<and> (\<exists>x. ent_EndAt w = Some x \<and> b \<le> x)))" "u \<noteq> []" "sid \<noteq> uuid_Nil"
  shows "grantProductEntitlements env u a sid sub wallet cycle spec rows = (Inr (), rows)"
  using assms(1)
proof (induction spec arbitrary: env)
  case (Cons y spec)
  obtain n d where y: "y = (n, d)" by (cases y)
  from Cons.prems y obtain b w x where n: "n \<noteq> []" and b: "purchase_end wallet cycle d a = Some b" "b \<noteq> time_zero"
    and w: "w \<in> set (windows u n rows)" "ent_live w" "ent_EndAt w = Some x" "b \<le> x" by auto
  let ?p = "purchase_push u n a (Some b) sub sid"
  have "push_validate ?p = Inr ()" using n b(2) assms(2,3) by (simp add: purchase_push_def push_validate_def)
  moreover have "LockEntitlementTimeline (push_UserID ?p) (push_Entitlement ?p) = Inr ()"
    using n assms(2) by (simp add: purchase_push_def LockEntitlementTimeline_def)
  moreover obtain t where "tail_end (push_UserID ?p, push_Entitlement ?p) rows = Some t" "x \<le> t"
    using tail_end_ge [of w rows "(u, n)" x] w by (auto simp: purchase_push_def)
  then have "b \<le> push_start (env_now env) ?p rows" using push_start_ge(3) [of ?p rows t "env_now env"] w(4) by simp
  ultimately have "PushNewEntitlement env ?p rows = Inr (None, rows)"
    by (simp add: PushNewEntitlement_def Let_def) (simp add: purchase_push_def)
  with Cons y b show ?case by auto
qed simp

text \<open>
  A flaw. The coverage counts only windows that have begun. When the member has windows queued for later that reach beyond
  the end of what would be bought, the purchase is registered as paid and reports its entitlements as granted, and gives no access.
\<close>

theorem RegisterPurchase_behind_queue:
  assumes checks: "purchase_checks req db = Inr (price, product)"
    and allowed: "CheckPurchaseEligibility (env_now env) (rp_UserID req) (rp_PriceID req) db = Inr e" "el_Status e = EligibilityAllowed"
    and queued: "\<forall>(n, d) \<in> set (prod_EntitlementsSpec product). n \<noteq> [] \<and>
      (\<exists>b. purchase_end (rp_WalletPurchase req) (price_BillingCycleDays price) d (purchase_start (env_now env) (the (el_Coverage e))) = Some b \<and>
         b \<noteq> time_zero \<and> (\<exists>w \<in> set (windows (rp_UserID req) n (bdb_ents db)). ent_live w \<and> (\<exists>x. ent_EndAt w = Some x \<and> b \<le> x)))"
    and new: "\<forall>q \<in> set (bdb_payments db). (pay_Processor q, pay_TransactionID q) \<noteq> (rp_Processor req, rp_TransactionID req)"
      "env_uuid env 0 \<notin> set (map pay_ID (bdb_payments db))" "rp_PurchasedAt req = None" "rp_SubscriptionID req = None"
    and env: "env_uuid env 0 \<noteq> uuid_Nil"
  shows "\<exists>resp p. RegisterPurchase env req db = (Inr resp, db\<lparr>bdb_payments := bdb_payments db @ [p]\<rparr>) \<and>
    rr_Entitlements resp = map fst (prod_EntitlementsSpec product)"
proof -
  have u: "rp_UserID req \<noteq> []" "PriceGetByID (rp_PriceID req) db = Inr price" "ProductGetByID (price_ProductID price) db = Inr product"
    using checks by (auto simp: purchase_checks_def rbind_Inr wrapped_Inr split: if_split_asm)
  obtain cov where c: "el_Coverage e = Some cov" using allowed_coverage [OF allowed u(2,3)] by blast
  let ?start = "purchase_start (env_now env) cov"
  have "grantProductEntitlements (env_shift 1 env) (rp_UserID req) ?start (env_uuid env 0) False (rp_WalletPurchase req)
      (price_BillingCycleDays price) (prod_EntitlementsSpec product) (bdb_ents db) = (Inr (), bdb_ents db)"
    by (rule grant_nothing [OF _ u(1) env]) (use queued c in simp)
  then show ?thesis using checks allowed c PaymentCreate_purchase [OF new(1-3)] new(4)
    by (auto simp: RegisterPurchase_def purchase_eligibility_def purchase_start_def)
qed

text \<open>A member with the running period to day 130 and the next 30 days queued buys 30 days more.\<close>

theorem RegisterPurchase_behind_queue_witness:
  "\<exists>resp p. RegisterPurchase (ex_ent_env (110 * ex_day) 10) ex_buy
      ((ex_billing ex_sub)\<lparr>bdb_ents := [ex_ent 1 (100 * ex_day) (Some (130 * ex_day)), ex_ent 2 (130 * ex_day) (Some (160 * ex_day))]\<rparr>) =
     (Inr resp, (ex_billing ex_sub)\<lparr>bdb_ents := [ex_ent 1 (100 * ex_day) (Some (130 * ex_day)), ex_ent 2 (130 * ex_day) (Some (160 * ex_day))],
        bdb_payments := [p]\<rparr>) \<and> rr_Entitlements resp = [''pro'']"
proof -
  let ?env = "ex_ent_env (110 * ex_day) 10"
  let ?ents = "[ex_ent 1 (100 * ex_day) (Some (130 * ex_day)), ex_ent 2 (130 * ex_day) (Some (160 * ex_day))]"
  let ?db = "(ex_billing ex_sub)\<lparr>bdb_ents := ?ents\<rparr>"
  let ?e = "projr (CheckPurchaseEligibility (env_now ?env) (rp_UserID ex_buy) (rp_PriceID ex_buy) ?db)"
  have "purchase_checks ex_buy ?db = Inr (ex_price, ex_product)"
    by (simp add: purchase_checks_def ex_buy_def ex_billing_def PriceGetByID_def ProductGetByID_def sql_find_def ex_price_def ex_product_def rbind_def wrapped_def)
  moreover have "\<not> isl (CheckPurchaseEligibility (env_now ?env) (rp_UserID ex_buy) (rp_PriceID ex_buy) ?db)" "el_Status ?e = EligibilityAllowed"
    "purchase_start (env_now ?env) (the (el_Coverage ?e)) = 130 * ex_day"
    "purchase_end False (price_BillingCycleDays ex_price) None (130 * ex_day) = Some (160 * ex_day)" by code_simp+
  moreover have "\<forall>q \<in> set (bdb_payments ?db). (pay_Processor q, pay_TransactionID q) \<noteq> (rp_Processor ex_buy, rp_TransactionID ex_buy)"
    "env_uuid ?env 0 \<notin> set (map pay_ID (bdb_payments ?db))" "rp_PurchasedAt ex_buy = None" "rp_SubscriptionID ex_buy = None"
    "env_uuid ?env 0 \<noteq> uuid_Nil" "rp_WalletPurchase ex_buy = False" "rp_UserID ex_buy = ''u''" by code_simp+
  moreover have "prod_EntitlementsSpec ex_product = [(''pro'', None)]" "bdb_payments ?db = []" "160 * ex_day \<noteq> time_zero"
    "ex_ent 2 (130 * ex_day) (Some (160 * ex_day)) \<in> set (windows ''u'' ''pro'' (bdb_ents ?db))" "ent_live (ex_ent 2 (130 * ex_day) (Some (160 * ex_day)))"
    "ent_EndAt (ex_ent 2 (130 * ex_day) (Some (160 * ex_day))) = Some (160 * ex_day)"
    by (simp_all add: ex_product_def ex_billing_def ex_day_def duration_defs ex_ent_def ent_live_def)
  ultimately show ?thesis
    using RegisterPurchase_behind_queue [of ex_buy ?db ex_price ex_product ?env ?e] by (fastforce simp: ex_billing_def)
qed

end
