(* ===== verification/Stripe_Properties.thy ===== *)
theory Stripe_Properties
  imports Stripe_Webhooks CCBill_Properties Purchase_Properties
begin

text \<open>
  What the webhooks of Stripe do: every event keeps the constraints of the tables; a failed invoice and an update reopen a
  membership that a chargeback has ended; an update to \<^verbatim>\<open>canceled\<close> is refused by the database; and credits that were not
  granted by the first delivery of a purchase are not granted by any later one.
\<close>

section \<open>The constraints hold after every event\<close>

lemma RepoUpdate_ok:
  assumes "billing_ok db" "SubscriptionRepoUpdate nz now s (bdb_subs db) = Inr rows"
  shows "billing_ok (db\<lparr>bdb_subs := rows\<rparr>)"
proof -
  have "subs_ok (bdb_subs db)" using assms(1) by (simp add: billing_ok_def)
  then have "subs_ok rows" using assms(2)
    by (auto simp: SubscriptionRepoUpdate_def Let_def split: sum.split_asm if_split_asm intro: subs.update_ok)
  with assms(1) show ?thesis by (rule billing_ok_subs)
qed

lemma handleInvoicePaymentFailed_ok: "billing_ok db \<Longrightarrow> billing_ok (snd (handleInvoicePaymentFailed cfg env invoice db))"
  by (auto simp: handleInvoicePaymentFailed_def Let_def RepoUpdate_ok split: sum.split)

lemma handleSubscriptionUpdated_ok: "billing_ok db \<Longrightarrow> billing_ok (snd (handleSubscriptionUpdated cfg env data db))"
  by (auto simp: handleSubscriptionUpdated_def RepoUpdate_ok split: sum.split)

lemma handleSubscriptionDeleted_ok: "billing_ok db \<Longrightarrow> billing_ok (snd (handleSubscriptionDeleted cfg env i db))"
  by (simp add: handleSubscriptionDeleted_def CancelMembership_ok)

lemma invoice_membership_ok: "billing_ok db \<Longrightarrow> billing_ok (snd (invoice_membership cfg env invoice u i txn pid db))"
  using CreateMembership_ok [of db] RenewMembership_ok [of db]
  by (auto simp: invoice_membership_def Let_def split: sum.split prod.split) (metis snd_conv)+

lemma remember_customer_ok: "world_ok ss w \<Longrightarrow> world_ok ss (remember_customer cfg now u c w)"
  by (auto simp: remember_customer_def world_ok_def split: sum.split)

lemma settled_ok:
  assumes "world_ok ss w" "r = map_sum id snd (session_step op (ww_sessions w))"
  shows "world_ok ss (settled_or_logged r w)"
proof (cases "session_step op (ww_sessions w)")
  case (Inr x)
  then obtain rows where x: "session_step op (ww_sessions w) = Inr ((), rows)" by (cases x) auto
  have "list_all2 session_moves (ww_sessions w) rows"
    using session_step_moves [OF x] assms(1) by (simp add: world_ok_def)
  moreover have "billing_ok (ww_billing w)" using assms(1) by (simp add: world_ok_def)
  ultimately show ?thesis unfolding assms(2) x settled_or_logged_def by (auto intro: world_ok_moves [OF assms(1)])
qed (use assms in \<open>simp add: settled_or_logged_def\<close>)

lemma settled_steps:
  "MarkSucceeded db now i p tx rows = map_sum id snd (session_step (SessionSucceed db now i p tx) rows)"
  "MarkSucceededWithSubscription db now i p tx sub rows = map_sum id snd (session_step (SessionSucceedWithSubscription db now i p tx sub) rows)"
  "MarkExpired db now i msg rows = map_sum id snd (session_step (SessionExpire db now i msg) rows)"
  by (simp_all add: map_sum.compositionality comp_def map_sum.identity [unfolded id_def])

lemma settle_invoice_ok: "world_ok ss w \<Longrightarrow> world_ok ss (settle_invoice cfg now invoice u i txn sub w)"
  unfolding settle_invoice_def Let_def by (auto intro!: settled_ok [OF _ settled_steps(2)])

lemma settle_checkout_ok: "world_ok ss w \<Longrightarrow> world_ok ss (settle_checkout cfg now sess u i txn p w)"
  unfolding settle_checkout_def Let_def by (auto intro!: settled_ok [OF _ settled_steps(1)])

lemma grant_invoice_credits_ok: "world_ok ss w \<Longrightarrow> world_ok ss (grant_invoice_credits cfg env invoice product s created w)"
  by (auto simp: grant_invoice_credits_def grant_period_credits_def Let_def world_ok_def)

lemma world_ok_credits [simp]: "world_ok ss (w\<lparr>ww_credits := c\<rparr>) = world_ok ss w"
  by (simp add: world_ok_def)

lemma handleInvoicePaid_ok:
  assumes w: "world_ok ss w"
  shows "world_ok ss (snd (handleInvoicePaid cfg env invoice w))"
proof (cases "stripe_user (inv_Metadata invoice) = []")
  case False
  define w1 where "w1 = remember_customer cfg (env_now env) (stripe_user (inv_Metadata invoice)) (inv_Customer invoice) w"
  have w1: "world_ok ss w1" using w by (simp add: w1_def remember_customer_ok)
  show ?thesis
  proof (cases "invoice_checks cfg invoice (ww_billing w1)")
    case (Inl e)
    with False w1 show ?thesis by (simp add: handleInvoicePaid_def w1_def)
  next
    case (Inr x)
    obtain i price txn pid where x: "x = (i, price, txn, pid)" by (cases x)
    obtain r db where m: "invoice_membership cfg env invoice (stripe_user (inv_Metadata invoice)) i txn pid (ww_billing w1) = (r, db)"
      by (metis prod.exhaust)
    have "billing_ok (ww_billing w1)" using w1 by (simp add: world_ok_def)
    from invoice_membership_ok [OF this] m have "billing_ok db" by (metis snd_conv)
    then have w2: "world_ok ss (w1\<lparr>ww_billing := db\<rparr>)" by (rule world_ok_billing [OF w1])
    have eq: "handleInvoicePaid cfg env invoice w =
      (case r of
         Inl e \<Rightarrow> (Inl e, w1\<lparr>ww_billing := db\<rparr>)
       | Inr None \<Rightarrow> (Inr (), w1\<lparr>ww_billing := db\<rparr>)
       | Inr (Some (s, created)) \<Rightarrow>
           (case stripe_product i price db of
              Inl e \<Rightarrow> (Inl e, w1\<lparr>ww_billing := db\<rparr>)
            | Inr product \<Rightarrow>
                (Inr (), settle_invoice cfg (env_now env) invoice (stripe_user (inv_Metadata invoice)) i txn (sub_ID s)
                   (grant_invoice_credits cfg env invoice product s created (w1\<lparr>ww_billing := db\<rparr>)))))"
      using False Inr x m unfolding handleInvoicePaid_def Let_def w1_def [symmetric] by (simp split: sum.split option.split)
    show ?thesis unfolding eq using w2
      by (auto split: sum.split option.split prod.split intro: settle_invoice_ok grant_invoice_credits_ok)
  qed
qed (use w in \<open>simp add: handleInvoicePaid_def\<close>)

lemma handleCheckoutSessionCompleted_ok:
  assumes w: "world_ok ss w"
  shows "world_ok ss (snd (handleCheckoutSessionCompleted cfg env sess w))"
proof (cases "stripe_user (sess_Metadata sess) = []")
  case False
  define w1 where "w1 = remember_customer cfg (env_now env) (stripe_user (sess_Metadata sess)) (sess_Customer sess) w"
  have w1: "world_ok ss w1" using w by (simp add: w1_def remember_customer_ok)
  have reg: "world_ok ss (w1\<lparr>ww_billing := db\<rparr>)" if "RegisterPurchase env req (ww_billing w1) = (r, db)" for req r db
  proof -
    have "billing_ok (ww_billing w1)" using w1 by (simp add: world_ok_def)
    from RegisterPurchase_ok [OF this, of env req] that show ?thesis by (auto intro: world_ok_billing [OF w1])
  qed
  from False w1 show ?thesis
    unfolding handleCheckoutSessionCompleted_def Let_def w1_def [symmetric]
    by (auto split: sum.split prod.split dest: reg intro: settle_checkout_ok)
qed (use w in \<open>simp add: handleCheckoutSessionCompleted_def\<close>)

lemma handleCheckoutSessionExpired_ok:
  "world_ok ss w \<Longrightarrow> world_ok ss (snd (handleCheckoutSessionExpired cfg env sess w))"
  unfolding handleCheckoutSessionExpired_def Let_def
  by (auto split: sum.split prod.split intro!: settled_ok [OF _ settled_steps(3)])

lemma handleEvent_ok:
  assumes w: "world_ok ss w"
  shows "world_ok ss (snd (handleEvent cfg env ev w))"
  by (cases ev) (use w in \<open>simp_all add: on_billing_ok [OF w] handleInvoicePaid_ok handleInvoicePaymentFailed_ok
    handleCheckoutSessionCompleted_ok handleCheckoutSessionExpired_ok handleSubscriptionUpdated_ok handleSubscriptionDeleted_ok\<close>)

lemma HandleStripeWebhook_ok:
  assumes "world_ok ss w"
  shows "world_ok ss (snd (HandleStripeWebhook cfg env t1 rawID rawType payload ev w))"
  using assms ProcessWebhook_world_ok [OF handleEvent_ok assms] unfolding HandleStripeWebhook_def Let_def by (auto split: prod.split)

section \<open>Invoices\<close>

lemma stripe_steps_billing [simp]:
  "ww_billing (remember_customer cfg now u c w) = ww_billing w"
  "ww_billing (settled_or_logged r w) = ww_billing w"
  "ww_billing (settle_invoice cfg now invoice u i txn sub w) = ww_billing w"
  "ww_billing (settle_checkout cfg now sess u i txn p w) = ww_billing w"
  "ww_billing (grant_invoice_credits cfg env invoice product s created w) = ww_billing w"
  by (simp_all add: remember_customer_def settled_or_logged_def settle_invoice_def settle_checkout_def grant_invoice_credits_def Let_def split: sum.split)

lemma stripe_steps_credits [simp]:
  "ww_credits (remember_customer cfg now u c w) = ww_credits w"
  "ww_credits (settled_or_logged r w) = ww_credits w"
  "ww_credits (settle_checkout cfg now sess u i txn p w) = ww_credits w"
  by (simp_all add: remember_customer_def settled_or_logged_def settle_checkout_def Let_def split: sum.split)

text \<open>
  C20: an invoice is counted once. When the charge of an invoice is recorded as a payment and its subscription is known, no further
  delivery of the invoice changes the billing tables, at whatever time it comes and whatever amount or period it states.
\<close>

theorem handleInvoicePaid_once:
  assumes "invoice_checks cfg invoice (ww_billing w) = Inr (i, price, txn, pid)"
    and "GetByProcessorSubscriptionID ProcessorStripe pid (bdb_subs (ww_billing w)) = Inr s"
    and "GetByTransactionID ProcessorStripe txn (bdb_payments (ww_billing w)) = Inr q" "txn \<noteq> []"
  shows "ww_billing (snd (handleInvoicePaid cfg env invoice w)) = ww_billing w"
proof -
  have q: "q \<in> set (bdb_payments (ww_billing w))" "pay_Processor q = ProcessorStripe" "pay_TransactionID q = txn"
    using assms(3) by (auto simp: GetByTransactionID_def dest: sql_find_memb)
  have known: "snd (RenewMembership c env p (ww_billing w)) = ww_billing w" if "rm_Processor p = ProcessorStripe" "rm_TransactionID p = txn" for c p
    by (rule RenewMembership_known [OF q(1)]) (use q that assms(4) in simp_all)
  have "snd (invoice_membership cfg env invoice u i txn pid (ww_billing w)) = ww_billing w" for u
    using assms(2) known by (auto simp: invoice_membership_def Let_def split: sum.split prod.split dest: sndI)
  then obtain r where "invoice_membership cfg env invoice (stripe_user (inv_Metadata invoice)) i txn pid (ww_billing w) = (r, ww_billing w)"
    by (metis prod.collapse)
  with assms(1) show ?thesis by (simp add: handleInvoicePaid_def Let_def split: sum.split option.split prod.split)
qed

definition ex_scfg :: stripe_cfg where
  "ex_scfg = \<lparr>sc_webhook = ex_wcfg\<lparr>wc_lifecycle := ex_cfg\<lparr>lc_uuid_Parse := (\<lambda>s. if s = ''p2'' then Some 2 else None)\<rparr>\<rparr>,
     sc_customer_id = uuid_Nil, sc_jsonb = (\<lambda>_. ''{}'')\<rparr>"

definition ex_invoice :: stripeInvoice where
  "ex_invoice = \<lparr>inv_ID = ''in_1'', inv_Subscription = ''x1'', inv_Customer = ''cus_1'', inv_CustomerEmail = [], inv_PaymentIntent = ''pi_1'',
     inv_Charge = [], inv_AmountPaid = 999, inv_Currency = ''usd'',
     inv_Metadata = (\<lambda>k. if k = ''user_id'' then ''u'' else if k = ''price_id'' then ''p2'' else []), inv_Lines = []\<rparr>"

definition ex_stripe :: billing_db where
  "ex_stripe = (ex_billing (ex_sub\<lparr>sub_Processor := ''stripe''\<rparr>))\<lparr>bdb_payments := [ex_pay\<lparr>pay_Processor := ''stripe'', pay_TransactionID := ''pi_1''\<rparr>]\<rparr>"

theorem handleInvoicePaid_once_witness:
  "ww_billing (snd (handleInvoicePaid ex_scfg (ex_ent_env (110 * ex_day) 10) ex_invoice (ex_world\<lparr>ww_billing := ex_stripe\<rparr>))) = ex_stripe"
proof -
  have "case invoice_checks ex_scfg ex_invoice ex_stripe of Inl _ \<Rightarrow> False
      | Inr (i, p, t, s) \<Rightarrow> i = 2 \<and> Option.is_none p \<and> t = ''pi_1'' \<and> s = ''x1''" by code_simp
  then have "invoice_checks ex_scfg ex_invoice ex_stripe = Inr (2, None, ''pi_1'', ''x1'')"
    by (auto split: sum.split_asm simp: Option.is_none_def)
  moreover have "GetByProcessorSubscriptionID ProcessorStripe ''x1'' (bdb_subs ex_stripe) = Inr (ex_sub\<lparr>sub_Processor := ''stripe''\<rparr>)"
    "GetByTransactionID ProcessorStripe ''pi_1'' (bdb_payments ex_stripe) = Inr (ex_pay\<lparr>pay_Processor := ''stripe'', pay_TransactionID := ''pi_1''\<rparr>)"
    by code_simp+
  ultimately show ?thesis
    using handleInvoicePaid_once [of ex_scfg ex_invoice "ex_world\<lparr>ww_billing := ex_stripe\<rparr>"] by simp
qed

section \<open>Terminated memberships\<close>

lemma past_due_check:
  assumes "sub_check s = None"
  shows "sub_check (sub_row nz (s\<lparr>sub_Status := StatusPastDue\<rparr>)) = None"
  using assms unfolding sub_check_None by (auto simp: sub_row_def null_zero_def split: if_split_asm)

lemma found_subscription:
  assumes "GetByProcessorSubscriptionID pr pid rows = Inr s"
  shows "s \<in> set rows" "sub_Processor s = pr" "sub_ProcessorSubscriptionID s = pid"
  using assms by (auto simp: GetByProcessorSubscriptionID_def dest: sql_find_memb)

text \<open>The row found by its processor's identifier, after an update of that row that keeps the identifier.\<close>

lemma find_updated:
  assumes "find P rows = Some s" "P (f s)" "\<And>r. r \<in> set rows \<Longrightarrow> k r = k s \<Longrightarrow> r = s"
  shows "find P (sql_update (\<lambda>r. k r = k s) f rows) = Some (f s)"
  using assms
proof (induction rows)
  case (Cons r rows)
  show ?case
  proof (cases "P r")
    case True
    with Cons.prems show ?thesis by (auto simp: sql_update_def)
  next
    case False
    with Cons.prems(1) have s: "find P rows = Some s" "P s" by (simp_all add: find_SomeD)
    then have "k r \<noteq> k s" using False Cons.prems(3) [of r] by auto
    with False s Cons show ?thesis by (auto simp: sql_update_def)
  qed
qed simp

text \<open>
  C31: A flaw. A failed invoice reopens a membership that a chargeback has ended: the subscription becomes past due whatever
  it was before, and the next paid invoice is no longer stopped by the policy that such memberships stay ended.
\<close>

theorem handleInvoicePaymentFailed_reopens_chargeback:
  assumes ok: "billing_ok db" and pid: "TrimSpace (inv_Subscription invoice) = pid" "pid \<noteq> []"
    and s: "GetByProcessorSubscriptionID ProcessorStripe pid (bdb_subs db) = Inr s" "snd (TerminalCancelReason s)"
  shows "assertActiveTransitionAllowed s trigger False = Inl (ErrTerminalTransitionBlocked trigger) \<and>
    (\<exists>db' r. handleInvoicePaymentFailed cfg env invoice db = (Inr (), db') \<and>
       GetByProcessorSubscriptionID ProcessorStripe pid (bdb_subs db') = Inr r \<and> sub_ID r = sub_ID s \<and>
       sub_Status r = StatusPastDue \<and> assertActiveTransitionAllowed r trigger False = Inr ())"
proof -
  let ?lc = "wc_lifecycle (sc_webhook cfg)" and ?s = "s\<lparr>sub_Status := StatusPastDue\<rparr>"
  note row = found_subscription [OF s(1)]
  have subs: "subs_ok (bdb_subs db)" using ok by (simp add: billing_ok_def)
  have "\<exists>db'. sub_update [] ?lc (env_now env) ?s db = Inr db'"
    by (rule sub_update_inactive [OF subs row(1)]) (simp_all add: past_due_check [OF tbl_okD [OF subs row(1)]] active_or_pending_def)
  then obtain rows where rows: "SubscriptionRepoUpdate (lc_nz ?lc) (env_now env) ?s (bdb_subs db) = Inr rows"
    by (auto simp: sub_update_def split: sum.split_asm)
  let ?f = "\<lambda>r. (sub_row (lc_nz ?lc) ?s)\<lparr>sub_UserID := sub_UserID r, sub_CreatedAt := sub_CreatedAt r, sub_UpdatedAt := env_now env\<rparr>"
  have upd: "rows = sql_update (\<lambda>r. sub_ID r = sub_ID s) ?f (bdb_subs db)"
    using rows by (auto simp: SubscriptionRepoUpdate_def Let_def split: sum.split_asm if_split_asm dest: tbl_update_Inr)
  have "find (\<lambda>s. sub_Processor s = ProcessorStripe \<and> sub_ProcessorSubscriptionID s = pid) rows = Some (?f s)"
    unfolding upd by (rule find_updated)
      (use s(1) row subs in \<open>auto simp: GetByProcessorSubscriptionID_def sql_find_def sub_row_def split: option.split_asm dest: row_unique\<close>)
  then have "GetByProcessorSubscriptionID ProcessorStripe pid rows = Inr (?f s)" by (simp add: GetByProcessorSubscriptionID_def sql_find_def)
  moreover have "sub_Status (?f s) = StatusPastDue" "sub_ID (?f s) = sub_ID s" by (simp_all add: sub_row_def)
  moreover have "handleInvoicePaymentFailed cfg env invoice db = (Inr (), db\<lparr>bdb_subs := rows\<rparr>)"
    using pid s(1) rows by (simp add: handleInvoicePaymentFailed_def)
  ultimately show ?thesis using s(2)
    by (intro conjI exI [of _ "db\<lparr>bdb_subs := rows\<rparr>"] exI [of _ "?f s"]) (auto simp: assertActiveTransitionAllowed_def TerminalCancelReason_def)
qed

definition ex_reversed :: subscription where
  "ex_reversed = ex_sub\<lparr>sub_Processor := ''stripe'', sub_Status := StatusCancelled, sub_CancelType := Some CancelTypeChargeback,
     sub_CancelledAt := Some (105 * ex_day)\<rparr>"

theorem handleInvoicePaymentFailed_reopens_chargeback_witness:
  "\<exists>db' r. handleInvoicePaymentFailed ex_scfg (ex_ent_env (110 * ex_day) 10) ex_invoice (ex_billing ex_reversed) = (Inr (), db') \<and>
     GetByProcessorSubscriptionID ProcessorStripe ''x1'' (bdb_subs db') = Inr r \<and> sub_Status r = StatusPastDue"
proof -
  have "billing_ok (ex_billing ex_reversed)" "TrimSpace (inv_Subscription ex_invoice) = ''x1''" "''x1'' \<noteq> []"
    "GetByProcessorSubscriptionID ProcessorStripe ''x1'' (bdb_subs (ex_billing ex_reversed)) = Inr ex_reversed"
    "snd (TerminalCancelReason ex_reversed)" by code_simp+
  from handleInvoicePaymentFailed_reopens_chargeback [OF this, of "[]" ex_scfg "ex_ent_env (110 * ex_day) 10"] show ?thesis by blast
qed

section \<open>Updates\<close>

lemma tbl_update_checks:
  assumes "tbl_update check clash P f rows = Inr rows'" "r \<in> set rows" "P r"
  shows "check (f r) = None"
proof -
  have "tbl_update_from check clash P f seen rows = Inr rows' \<Longrightarrow> r \<in> set rows \<Longrightarrow> check (f r) = None" for seen
    using assms(3) by (induction rows arbitrary: seen) (auto simp: violation_None split: if_split_asm option.split_asm)
  with assms(1,2) show ?thesis by (simp add: tbl_update_def)
qed

text \<open>
  A flaw. Stripe's statuses \<^verbatim>\<open>canceled\<close> and \<^verbatim>\<open>incomplete_expired\<close> cannot be taken over: the handler writes no cancel type, the
  database requires one, so that every such update of a membership that was never cancelled here fails and changes nothing.
\<close>

theorem handleSubscriptionUpdated_canceled_refused:
  assumes pid: "TrimSpace (ss_ID data) = pid" "pid \<noteq> []"
    and s: "GetByProcessorSubscriptionID ProcessorStripe pid (bdb_subs db) = Inr s" "sub_CancelType s = None"
    and status: "TrimSpace (ToLower (ss_Status data)) \<in> {''canceled'', ''incomplete_expired''}"
  shows "\<exists>e. handleSubscriptionUpdated cfg env data db = (Inl e, db)"
proof -
  let ?s = "applyStripeSubscriptionStatus (ss_Status data) (env_now env) (stripe_period data (stripe_item data db s))"
  have t: "sub_Status ?s = StatusCancelled" "sub_CancelType ?s = None" "sub_ID ?s = sub_ID s"
    using status s(2) by (auto simp: applyStripeSubscriptionStatus_def stripe_period_def stripe_item_def Let_def split: list.split sum.split)
  have "SubscriptionRepoUpdate nz now ?s (bdb_subs db) \<noteq> Inr rows" for nz now rows
  proof
    assume "SubscriptionRepoUpdate nz now ?s (bdb_subs db) = Inr rows"
    then have "sub_check ((sub_row nz ?s)\<lparr>sub_UserID := sub_UserID s, sub_CreatedAt := sub_CreatedAt s, sub_UpdatedAt := now\<rparr>) = None"
      using found_subscription(1) [OF s(1)] t(3)
      by (auto simp: SubscriptionRepoUpdate_def Let_def split: sum.split_asm if_split_asm dest: tbl_update_checks)
    with t show False unfolding sub_check_None by (simp add: sub_row_def)
  qed
  with pid s(1) show ?thesis by (auto simp: handleSubscriptionUpdated_def split: sum.split)
qed

definition ex_update :: "string \<Rightarrow> stripeSubscription" where
  "ex_update status = \<lparr>ss_ID = ''x1'', ss_Status = status, ss_CurrentPeriodStart = 0, ss_CurrentPeriodEnd = 0, ss_PriceIDs = []\<rparr>"

theorem handleSubscriptionUpdated_canceled_refused_witness:
  "\<exists>e. handleSubscriptionUpdated ex_scfg (ex_ent_env (110 * ex_day) 10) (ex_update ''Canceled'') ex_stripe = (Inl e, ex_stripe)"
proof -
  have "TrimSpace (ss_ID (ex_update ''Canceled'')) = ''x1''" "''x1'' \<noteq> []"
    "GetByProcessorSubscriptionID ProcessorStripe ''x1'' (bdb_subs ex_stripe) = Inr (ex_sub\<lparr>sub_Processor := ''stripe''\<rparr>)"
    "sub_CancelType (ex_sub\<lparr>sub_Processor := ''stripe''\<rparr>) = None"
    "TrimSpace (ToLower (ss_Status (ex_update ''Canceled''))) \<in> {''canceled'', ''incomplete_expired''}" by code_simp+
  from handleSubscriptionUpdated_canceled_refused [OF this] show ?thesis .
qed

section \<open>Purchases\<close>

text \<open>
  A purchase paid at Stripe is delivered at most once, and never completed later. Once the transaction of a checkout
  is recorded, every processing of the completed session fails and changes neither the billing tables nor the credits. A
  delivery that registered the purchase and failed to grant its credits is therefore refused on every retry.
\<close>

theorem handleCheckoutSessionCompleted_once:
  assumes "stripe_user (sess_Metadata sess) \<noteq> []" "sess_Mode sess = ''payment''"
    and "checkout_checks cfg sess (ww_billing w) = Inr (i, price, txn)"
    and "GetByTransactionID ProcessorStripe txn (bdb_payments (ww_billing w)) = Inr q"
  shows "isl (fst (handleCheckoutSessionCompleted cfg env sess w)) \<and>
    ww_billing (snd (handleCheckoutSessionCompleted cfg env sess w)) = ww_billing w \<and>
    ww_credits (snd (handleCheckoutSessionCompleted cfg env sess w)) = ww_credits w"
proof -
  have "\<exists>e. RegisterPurchase env (checkout_purchase cfg sess (stripe_user (sess_Metadata sess)) i txn) (ww_billing w) = (Inl e, ww_billing w)"
    by (rule RegisterPurchase_refused [where p = q]) (simp add: checkout_purchase_def assms(4))
  then obtain e where "RegisterPurchase env (checkout_purchase cfg sess (stripe_user (sess_Metadata sess)) i txn) (ww_billing w) = (Inl e, ww_billing w)" ..
  with assms(1-3) show ?thesis by (simp add: handleCheckoutSessionCompleted_def Let_def)
qed

definition ex_completed :: stripeCheckoutSession where
  "ex_completed = \<lparr>sess_ID = ''cs_1'', sess_Mode = ''payment'', sess_Customer = ''cus_1'', sess_PaymentIntent = ''pi_1'',
     sess_Metadata = inv_Metadata ex_invoice, sess_AmountTotal = 999, sess_Currency = ''usd''\<rparr>"

theorem handleCheckoutSessionCompleted_once_witness:
  "isl (fst (handleCheckoutSessionCompleted ex_scfg (ex_ent_env (110 * ex_day) 10) ex_completed (ex_world\<lparr>ww_billing := ex_stripe\<rparr>)))"
proof -
  have "case checkout_checks ex_scfg ex_completed ex_stripe of Inl _ \<Rightarrow> False
      | Inr (i, p, t) \<Rightarrow> i = 2 \<and> Option.is_none p \<and> t = ''pi_1''" by code_simp
  then have "checkout_checks ex_scfg ex_completed ex_stripe = Inr (2, None, ''pi_1'')"
    by (auto split: sum.split_asm simp: Option.is_none_def)
  moreover have "stripe_user (sess_Metadata ex_completed) \<noteq> []" "sess_Mode ex_completed = ''payment''"
    "GetByTransactionID ProcessorStripe ''pi_1'' (bdb_payments ex_stripe) = Inr (ex_pay\<lparr>pay_Processor := ''stripe'', pay_TransactionID := ''pi_1''\<rparr>)"
    by code_simp+
  ultimately show ?thesis
    using handleCheckoutSessionCompleted_once [of ex_completed ex_scfg "ex_world\<lparr>ww_billing := ex_stripe\<rparr>"] by simp
qed

end
