(* ===== verification/Webhook_Sequences.thy ===== *)
theory Webhook_Sequences
  imports NMI_Properties Stripe_Properties
begin

text \<open>
  Sequences of webhook deliveries of all processors, and the invariant that they keep.
\<close>

text \<open>
  A delivery of a processor. The services behind a handler, the clock and the random identifiers may differ from one
  delivery to the next.
\<close>

datatype delivery =
    CCBillDelivery webhook_cfg go_env time string ccbill_event
  | NMIDelivery webhook_cfg string "payment_method list" go_env time string string string nmi_event
  | StripeDelivery stripe_cfg go_env time string string string stripe_event

fun webhook_step :: "delivery \<Rightarrow> 'r webhook_world \<Rightarrow> unit result \<times> 'r webhook_world" where
  "webhook_step (CCBillDelivery cfg env t1 payload ev) w = HandleCCBillWebhook cfg env t1 payload ev w"
| "webhook_step (NMIDelivery cfg processor methods env t1 eventID eventType payload ev) w =
     HandleNMIWebhook cfg processor methods env t1 eventID eventType payload ev w"
| "webhook_step (StripeDelivery cfg env t1 eventID eventType payload ev) w = HandleStripeWebhook cfg env t1 eventID eventType payload ev w"

inductive webhook_reach :: "'r webhook_world \<Rightarrow> 'r webhook_world \<Rightarrow> bool" for w0 where
  start: "webhook_reach w0 w0"
| step: "webhook_reach w0 w \<Longrightarrow> webhook_step d w = (r, w') \<Longrightarrow> webhook_reach w0 w'"

lemma webhook_step_ok:
  assumes "world_ok ss w" "webhook_step d w = (r, w')"
  shows "world_ok ss w'"
proof -
  have "world_ok ss (snd (webhook_step d w))"
    by (cases d) (simp_all add: HandleCCBillWebhook_ok HandleNMIWebhook_ok HandleStripeWebhook_ok assms(1))
  with assms(2) show ?thesis by simp
qed

lemma webhook_reach_ok: "webhook_reach w0 w \<Longrightarrow> world_ok ss w0 \<Longrightarrow> world_ok ss w"
  by (induction rule: webhook_reach.induct) (auto intro: webhook_step_ok)

text \<open>
  Whatever webhooks of CCBill, of NMI-backed gateways and of Stripe arrive, in whatever order, at whatever times and however often, and
  whether they are handled or refused: every user has at most one active subscription and at most one window of an entitlement
  at any moment, no processor's transaction is recorded as two payments, and a checkout session moves only as settling moves it.
\<close>

theorem webhooks_keep_constraints:
  assumes "webhook_reach w0 w" "billing_ok (ww_billing w0)" "distinct (map cs_ID (ww_sessions w0))"
  shows "length (filter (\<lambda>s. sub_UserID s = u \<and> sub_Status s = StatusActive) (bdb_subs (ww_billing w))) \<le> 1 \<and>
    length (filter (\<lambda>e. ent_key e = (u, n) \<and> ent_live e \<and> covers t e) (bdb_ents (ww_billing w))) \<le> 1 \<and>
    distinct (map (\<lambda>p. (pay_Processor p, pay_TransactionID p)) (bdb_payments (ww_billing w))) \<and>
    list_all2 session_moves (ww_sessions w0) (ww_sessions w)"
proof -
  have ok: "world_ok (ww_sessions w0) w"
    using assms by (intro webhook_reach_ok [OF assms(1)]) (simp add: world_ok_def list.rel_refl)
  then have t: "subs_ok (bdb_subs (ww_billing w))" "ents_ok (bdb_ents (ww_billing w))" "pays_ok (bdb_payments (ww_billing w))"
    by (simp_all add: world_ok_def billing_ok_def)
  from ok one_active(1) [OF t(1)] one_window_at [OF t(2)] pays_ok_transactions [OF t(3)] show ?thesis
    by (simp add: world_ok_def)
qed

theorem webhooks_keep_constraints_witness:
  "length (filter (\<lambda>s. sub_UserID s = ''u'' \<and> sub_Status s = StatusActive) (bdb_subs (ww_billing
     (snd (HandleCCBillWebhook ex_wcfg (ex_ent_env (110 * ex_day) 10) 0 [] (EventTypeChargeback ex_reversal) ex_world))))) \<le> 1"
proof -
  let ?d = "CCBillDelivery ex_wcfg (ex_ent_env (110 * ex_day) 10) 0 [] (EventTypeChargeback ex_reversal)"
  have "webhook_reach ex_world (snd (webhook_step ?d ex_world))"
    by (rule webhook_reach.step [OF webhook_reach.start]) (rule prod.collapse [symmetric])
  moreover have "billing_ok (ww_billing ex_world)" "distinct (map cs_ID (ww_sessions ex_world))" by code_simp+
  ultimately show ?thesis using webhooks_keep_constraints [of ex_world _ "''u''" "''pro''" 0] by simp
qed



end
