(* ===== verification/NMI_Client.thy ===== *)
theory NMI_Client
  imports Dunning_Job Money
begin

text \<open>
  The client of the NMI gateway, \<^verbatim>\<open>internal/integrations/nmi\<close>: \<^verbatim>\<open>payments.go\<close>, \<^verbatim>\<open>vault.go\<close>, \<^verbatim>\<open>subscriptions.go\<close> and the errors of
  \<^verbatim>\<open>client.go\<close>. Each call checks its arguments, posts a form and reads the answer; the post itself, \<open>nc_post\<close>, is a parameter
  (see \<open>Dunning_Job\<close>). A form is the list of its fields in the order in which the code sets them.
\<close>

section \<open>Answers\<close>

definition mobiusResponseMessages :: "int \<rightharpoonup> string" where
  "mobiusResponseMessages = map_of
     [(100, ''Transaction was approved.''), (200, ''Transaction was declined by processor.''), (201, ''Do not honor.''),
      (202, ''Insufficient funds.''), (203, ''Over limit.''), (204, ''Transaction not allowed.''),
      (220, ''Incorrect payment information.''), (221, ''No such card issuer.''), (222, ''No card number on file with issuer.''),
      (223, ''Expired card.''), (224, ''Invalid expiration date.''), (225, ''Invalid card security code.''), (226, ''Invalid PIN.''),
      (240, ''Call issuer for further information.''), (250, ''Pick up card.''), (251, ''Lost card.''), (252, ''Stolen card.''),
      (253, ''Fraudulent card.''), (260, ''Declined with further instructions available. (See response text)''),
      (261, ''Declined-Stop all recurring payments.''), (262, ''Declined-Stop this recurring program.''),
      (263, ''Declined-Update cardholder data available.''), (264, ''Declined-Retry in a few days.''),
      (300, ''Transaction was rejected by gateway.''), (400, ''Transaction error returned by processor.''),
      (410, ''Invalid merchant configuration.''), (411, ''Merchant account is inactive.''), (420, ''Communication error.''),
      (421, ''Communication error with issuer.''), (430, ''Duplicate transaction at processor.''), (440, ''Processor format error.''),
      (441, ''Invalid transaction information.''), (460, ''Processor feature not available.''), (461, ''Unsupported card type.'')]"

definition mobiusLocalizationIDs :: "int \<rightharpoonup> string" where
  "mobiusLocalizationIDs = map_of
     [(100, ''transaction_was_approved''), (200, ''transaction_was_declined_by_processor''), (201, ''do_not_honor''),
      (202, ''insufficient_funds''), (203, ''over_limit''), (204, ''transaction_not_allowed''),
      (220, ''incorrect_payment_information''), (221, ''no_such_card_issuer''), (222, ''no_card_number_on_file_with_issuer''),
      (223, ''expired_card''), (224, ''invalid_expiration_date''), (225, ''invalid_card_security_code''), (226, ''invalid_pin''),
      (240, ''call_issuer_for_further_information''), (250, ''pick_up_card''), (251, ''lost_card''), (252, ''stolen_card''),
      (253, ''fraudulent_card''), (260, ''declined_with_further_instructions_available_see_response_text''),
      (261, ''declined_stop_all_recurring_payments''), (262, ''declined_stop_this_recurring_program''),
      (263, ''declined_update_cardholder_data_available''), (264, ''declined_retry_in_a_few_days''),
      (300, ''transaction_was_rejected_by_gateway''), (400, ''transaction_error_returned_by_processor''),
      (410, ''invalid_merchant_configuration''), (411, ''merchant_account_is_inactive''), (420, ''communication_error''),
      (421, ''communication_error_with_issuer''), (430, ''duplicate_transaction_at_processor''), (440, ''processor_format_error''),
      (441, ''invalid_transaction_information''), (460, ''processor_feature_not_available''), (461, ''unsupported_card_type'')]"

text \<open>Reading a key that a Go map does not have gives the empty text.\<close>

definition mobiusLocalizationID :: "int \<Rightarrow> string" where
  "mobiusLocalizationID code = FromPtr (mobiusLocalizationIDs code)"

definition mobiusResponseDetail :: "int \<Rightarrow> string" where
  "mobiusResponseDetail code = FromPtr (mobiusResponseMessages code)"

text \<open>The text of a \<^verbatim>\<open>CustomerVaultError\<close>, which carries its message and the code of the answer.\<close>

definition vault_error_text :: "string \<Rightarrow> int \<Rightarrow> string" where
  "vault_error_text msg code =
     (let extras = (if mobiusResponseDetail code \<noteq> [] then [mobiusResponseDetail code] else []) @
                   (if code \<noteq> 0 then [''code: '' @ decimal_int code] else []) @
                   (if mobiusLocalizationID code \<noteq> [] then [''localization_id: '' @ mobiusLocalizationID code] else [])
      in if extras = [] then msg else msg @ '' ('' @ Join extras '', '' @ '')'')"

definition parseMobiusResponseCode :: "(string \<Rightarrow> string) \<Rightarrow> int" where
  "parseMobiusResponseCode output =
     (let raw = TrimSpace (output ''response_code'');
          code = Atoi (if raw = ''2'' then ''200'' else raw)
      in if code = 0 \<and> TrimSpace (output ''response'') = ''2'' then 200 else code)"

definition vault_error :: "string \<Rightarrow> string \<Rightarrow> (string \<Rightarrow> string) \<Rightarrow> go_error" where
  "vault_error what rawResponse output =
     CustomerVaultError (what @ '': '' @
       (if output ''response_message'' \<noteq> [] then output ''response_message''
        else if output ''responsetext'' \<noteq> [] then output ''responsetext'' else rawResponse)) (parseMobiusResponseCode output)"

definition newCustomerVaultError :: "string \<Rightarrow> (string \<Rightarrow> string) \<Rightarrow> go_error" where
  "newCustomerVaultError rawResponse output = vault_error ''failed to create customer vault'' rawResponse output"

definition newAddSubscriptionError :: "string \<Rightarrow> (string \<Rightarrow> string) \<Rightarrow> go_error" where
  "newAddSubscriptionError rawResponse output = vault_error ''failed to add subscription'' rawResponse output"

text \<open>An answer that is read: the text of the body and its fields, if the gateway approved the request.\<close>

definition direct_call ::
  "'g nmi_client \<Rightarrow> (string \<times> string) list \<Rightarrow> (go_error \<Rightarrow> go_error) \<Rightarrow> (string \<Rightarrow> (string \<Rightarrow> string) \<Rightarrow> go_error) \<Rightarrow> 'g \<Rightarrow>
   (string \<times> (string \<Rightarrow> string)) result \<times> 'g" where
  "direct_call c values unreadable refused g =
     (case nc_post c values g of
        (Inl e, g') \<Rightarrow> (Inl e, g')
      | (Inr response, g') \<Rightarrow>
          (case parseDirectResponse response of
             Inl e \<Rightarrow> (Inl (unreadable e), g')
           | Inr output \<Rightarrow>
               (if isDirectResponseApproved output then Inr (response, output) else Inl (refused response output), g')))"

definition refused_with :: "string \<Rightarrow> string \<Rightarrow> (string \<Rightarrow> string) \<Rightarrow> go_error" where
  "refused_with what response output = ErrMsg (what @ '': '' @ responseText output response)"

text \<open>A field that is set only if it is not empty.\<close>

definition opt_field :: "string \<Rightarrow> string \<Rightarrow> (string \<times> string) list" where
  "opt_field key v = (if v \<noteq> [] then [(key, v)] else [])"

section \<open>Sales, refunds and voids\<close>

record SaleParams =
  sp_CustomerVaultID :: string
  sp_Amount :: int
  sp_Currency :: string
  sp_OrderDescription :: string
  sp_OrderID :: string

record SaleResponse =
  sr_TransactionID :: string
  sr_Authcode :: string
  sr_ResponseText :: string

definition sale_values :: "'g nmi_client \<Rightarrow> SaleParams \<Rightarrow> (string \<times> string) list" where
  "sale_values c p =
     [(''type'', ''sale''), (''security_key'', nc_SecurityKey c), (''customer_vault_id'', sp_CustomerVaultID p),
      (''amount'', FormatCentsDecimal (sp_Amount p)),
      (''currency'', if sp_Currency p = [] then ''usd'' else sp_Currency p),
      (''order_description'', if sp_OrderDescription p = [] then ''One-time purchase'' else sp_OrderDescription p)] @
     opt_field ''orderid'' (sp_OrderID p)"

definition RunSale :: "'g nmi_client \<Rightarrow> SaleParams \<Rightarrow> 'g \<Rightarrow> SaleResponse result \<times> 'g" where
  "RunSale c p g =
     (case checkConfiguration c of
        Inl e \<Rightarrow> (Inl e, g)
      | Inr _ \<Rightarrow>
          if TrimSpace (sp_CustomerVaultID p) = [] then (Inl (ErrMsg ''customer vault ID is required''), g)
          else if sp_Amount p \<le> 0 then (Inl (ErrMsg ''amount must be greater than 0''), g)
          else map_prod (map_sum id (\<lambda>(response, output).
                 \<lparr>sr_TransactionID = output ''transactionid'', sr_Authcode = output ''authcode'',
                  sr_ResponseText = responseText output response\<rparr>)) id
               (direct_call c (sale_values c p) id (refused_with ''sale failed'') g))"

definition NMI_Refund :: "'g nmi_client \<Rightarrow> string \<Rightarrow> int \<Rightarrow> 'g \<Rightarrow> (string \<times> string) result \<times> 'g" where
  "NMI_Refund c transactionID amount g =
     (case checkConfiguration c of
        Inl e \<Rightarrow> (Inl e, g)
      | Inr _ \<Rightarrow>
          if TrimSpace transactionID = [] then (Inl (ErrMsg ''transaction ID is required''), g)
          else map_prod (map_sum id (\<lambda>(response, output). (output ''transactionid'', responseText output response))) id
               (direct_call c
                 ([(''type'', ''refund''), (''security_key'', nc_SecurityKey c), (''transactionid'', transactionID)] @
                  (if amount > 0 then [(''amount'', FormatCentsDecimal amount)] else []))
                 (ErrWrap ''failed to parse refund response'')
                 (\<lambda>response output. CustomerVaultError (''refund failed: '' @ responseText output response) (parseMobiusResponseCode output)) g))"

definition NMI_Void :: "'g nmi_client \<Rightarrow> string \<Rightarrow> 'g \<Rightarrow> unit result \<times> 'g" where
  "NMI_Void c transactionID g =
     (case checkConfiguration c of
        Inl e \<Rightarrow> (Inl e, g)
      | Inr _ \<Rightarrow>
          if TrimSpace transactionID = [] then (Inl (ErrMsg ''transaction ID is required''), g)
          else map_prod (map_sum id (\<lambda>_. ())) id
               (direct_call c [(''type'', ''void''), (''security_key'', nc_SecurityKey c), (''transactionid'', transactionID)]
                 (ErrWrap ''failed to parse void response'') (refused_with ''void failed'') g))"

section \<open>Customer vaults\<close>

record CreateCustomerVaultData =
  cv_PaymentToken :: string
  cv_FirstName :: string
  cv_LastName :: string
  cv_Address1 :: string
  cv_City :: string
  cv_State :: string
  cv_Zip :: string
  cv_Country :: string
  cv_Phone :: string
  cv_Email :: string
  cv_Company :: string
  cv_Address2 :: string

definition customer_fields :: "CreateCustomerVaultData \<Rightarrow> (string \<times> string) list" where
  "customer_fields d =
     opt_field ''first_name'' (cv_FirstName d) @ opt_field ''last_name'' (cv_LastName d) @ opt_field ''address1'' (cv_Address1 d) @
     opt_field ''city'' (cv_City d) @ opt_field ''state'' (cv_State d) @ opt_field ''zip'' (cv_Zip d) @
     opt_field ''country'' (cv_Country d) @ opt_field ''phone'' (cv_Phone d) @ opt_field ''email'' (cv_Email d)"

definition CreateCustomerVault :: "'g nmi_client \<Rightarrow> CreateCustomerVaultData \<Rightarrow> 'g \<Rightarrow> string result \<times> 'g" where
  "CreateCustomerVault c d g =
     (case checkConfiguration c of
        Inl e \<Rightarrow> (Inl e, g)
      | Inr _ \<Rightarrow>
          (case direct_call c
                  ([(''customer_vault'', ''add_customer''), (''security_key'', nc_SecurityKey c),
                    (''payment_token'', TrimSpace (cv_PaymentToken d))] @ customer_fields d)
                  id newCustomerVaultError g of
             (Inl e, g') \<Rightarrow> (Inl e, g')
           | (Inr (response, output), g') \<Rightarrow>
               (if output ''customer_vault_id'' = [] then Inl (refused_with ''failed to create customer vault'' response output)
                else Inr (output ''customer_vault_id''), g')))"

definition UpdateCustomerVault :: "'g nmi_client \<Rightarrow> string \<Rightarrow> CreateCustomerVaultData \<Rightarrow> 'g \<Rightarrow> unit result \<times> 'g" where
  "UpdateCustomerVault c customerVaultID d g =
     (case checkConfiguration c of
        Inl e \<Rightarrow> (Inl e, g)
      | Inr _ \<Rightarrow>
          if TrimSpace customerVaultID = [] then (Inl (ErrMsg ''customer vault ID is required''), g)
          else map_prod (map_sum id (\<lambda>_. ())) id
               (direct_call c
                 ([(''customer_vault'', ''update_customer''), (''security_key'', nc_SecurityKey c),
                   (''customer_vault_id'', customerVaultID)] @
                  opt_field ''payment_token'' (TrimSpace (cv_PaymentToken d)) @ customer_fields d @
                  opt_field ''company'' (cv_Company d) @ opt_field ''address2'' (cv_Address2 d))
                 id (refused_with ''failed to update customer vault'') g))"

definition DeleteCustomerVault :: "'g nmi_client \<Rightarrow> string \<Rightarrow> 'g \<Rightarrow> unit result \<times> 'g" where
  "DeleteCustomerVault c customerVaultID g =
     (case checkConfiguration c of
        Inl e \<Rightarrow> (Inl e, g)
      | Inr _ \<Rightarrow>
          if TrimSpace customerVaultID = [] then (Inl (ErrMsg ''customer vault ID is required''), g)
          else map_prod (map_sum id (\<lambda>_. ())) id
               (direct_call c
                 [(''customer_vault'', ''delete_customer''), (''security_key'', nc_SecurityKey c), (''customer_vault_id'', customerVaultID)]
                 id (refused_with ''failed to delete customer vault'') g))"

section \<open>Recurring subscriptions\<close>

text \<open>The amount of the request is the text of a \<^verbatim>\<open>float64\<close> with two decimals, which the caller computes from cents.\<close>

record RecurringPaymentData =
  rpd_FirstName :: string
  rpd_LastName :: string
  rpd_Address1 :: string
  rpd_City :: string
  rpd_State :: string
  rpd_Zip :: string
  rpd_Country :: string
  rpd_PlanID :: string
  rpd_CustomerVaultID :: string
  rpd_Email :: string
  rpd_Currency :: string
  rpd_PaymentToken :: string
  rpd_Amount :: string
  rpd_OrderID :: string
  rpd_PONumber :: string
  rpd_CustomerID :: string
  rpd_StartDate :: string

record AddSubscriptionResponse =
  as_Type :: string
  as_SubscriptionID :: string
  as_TransactionID :: string
  as_Authcode :: string

definition recurring_values :: "'g nmi_client \<Rightarrow> RecurringPaymentData \<Rightarrow> (string \<times> string) list" where
  "recurring_values c d =
     [(''type'', ''sale''), (''amount'', rpd_Amount d), (''email'', rpd_Email d), (''plan_id'', rpd_PlanID d),
      (''billing_method'', ''recurring''), (''security_key'', nc_SecurityKey c), (''currency'', rpd_Currency d),
      (''recurring'', ''add_subscription''), (''order_description'', ''Open Rails Subscription''),
      (''first_name'', rpd_FirstName d), (''last_name'', rpd_LastName d), (''address1'', rpd_Address1 d), (''city'', rpd_City d),
      (''state'', rpd_State d), (''zip'', rpd_Zip d), (''country'', rpd_Country d)] @
     opt_field ''orderid'' (TrimSpace (rpd_OrderID d)) @ opt_field ''ponumber'' (TrimSpace (rpd_PONumber d)) @
     (if TrimSpace (rpd_CustomerVaultID d) = [] then opt_field ''customerid'' (TrimSpace (rpd_CustomerID d)) else []) @
     opt_field ''payment_token'' (rpd_PaymentToken d) @ opt_field ''customer_vault_id'' (rpd_CustomerVaultID d) @
     opt_field ''start_date'' (TrimSpace (rpd_StartDate d))"

definition AddRecurringSubscription :: "'g nmi_client \<Rightarrow> RecurringPaymentData \<Rightarrow> 'g \<Rightarrow> AddSubscriptionResponse result \<times> 'g" where
  "AddRecurringSubscription c d g =
     (case checkConfiguration c of
        Inl e \<Rightarrow> (Inl e, g)
      | Inr _ \<Rightarrow>
          if rpd_PlanID d = [] then (Inl (ErrMsg ''PlanID is required''), g)
          else if rpd_CustomerVaultID d = [] \<and> rpd_PaymentToken d = []
          then (Inl (ErrMsg ''either customer vault or payment token is required''), g)
          else map_prod (map_sum id (\<lambda>(response, output).
                 \<lparr>as_Type = output ''type'', as_SubscriptionID = output ''subscription_id'',
                  as_TransactionID = output ''transactionid'', as_Authcode = output ''authcode''\<rparr>)) id
               (direct_call c (recurring_values c d) id newAddSubscriptionError g))"

definition UpdateRecurringSubscription :: "'g nmi_client \<Rightarrow> string \<Rightarrow> string \<Rightarrow> int \<Rightarrow> 'g \<Rightarrow> string result \<times> 'g" where
  "UpdateRecurringSubscription c subscriptionID planAmount planPayments g =
     (case checkConfiguration c of
        Inl e \<Rightarrow> (Inl e, g)
      | Inr _ \<Rightarrow>
          if TrimSpace subscriptionID = [] \<or> TrimSpace planAmount = []
          then (Inl (ErrMsg ''missing required fields: subscriptionID, planAmount''), g)
          else map_prod (map_sum id fst) id
               (direct_call c
                 [(''recurring'', ''update_subscription''), (''security_key'', nc_SecurityKey c), (''subscription_id'', subscriptionID),
                  (''plan_amount'', planAmount), (''plan_payments'', decimal_int planPayments)]
                 id (refused_with ''failed to update subscription'') g))"

definition UpdateSubscriptionPaymentSource :: "'g nmi_client \<Rightarrow> string \<Rightarrow> string \<Rightarrow> 'g \<Rightarrow> unit result \<times> 'g" where
  "UpdateSubscriptionPaymentSource c subscriptionID customerVaultID g =
     (case checkConfiguration c of
        Inl e \<Rightarrow> (Inl e, g)
      | Inr _ \<Rightarrow>
          if TrimSpace subscriptionID = [] then (Inl (ErrMsg ''subscription ID is required''), g)
          else if TrimSpace customerVaultID = [] then (Inl (ErrMsg ''customer vault ID is required''), g)
          else map_prod (map_sum id (\<lambda>_. ())) id
               (direct_call c
                 [(''recurring'', ''update_subscription''), (''security_key'', nc_SecurityKey c), (''subscription_id'', subscriptionID),
                  (''customer_vault_id'', customerVaultID)]
                 id (refused_with ''failed to update subscription payment source'') g))"

definition DeleteRecurringSubscription :: "'g nmi_client \<Rightarrow> string \<Rightarrow> 'g \<Rightarrow> unit result \<times> 'g" where
  "DeleteRecurringSubscription c subscriptionID g =
     (case checkConfiguration c of
        Inl e \<Rightarrow> (Inl e, g)
      | Inr _ \<Rightarrow>
          if TrimSpace subscriptionID = [] then (Inl (ErrMsg ''subscriptionID is required''), g)
          else map_prod (map_sum id (\<lambda>_. ())) id
               (direct_call c
                 [(''recurring'', ''delete_subscription''), (''security_key'', nc_SecurityKey c), (''subscription_id'', subscriptionID)]
                 id (refused_with ''failed to delete subscription'') g))"

end
