(* ===== verification/Vault.thy ===== *)
theory Vault
  imports NMI_Client Notifications CCBill_Values
begin

text \<open>
  Stored cards: the services of \<^verbatim>\<open>internal/modules/vault\<close>. \<^verbatim>\<open>payment_method.go\<close> checks who owns a method; \<^verbatim>\<open>vault_service.go\<close> keeps the
  local row and the customer vault of the gateway together. A call sees the tables and the state of the gateways; the clients
  are looked up by the name of the processor.
\<close>

section \<open>Payment methods of a user\<close>

abbreviation (input) ErrPaymentMethodAccessDenied :: go_error where
  "ErrPaymentMethodAccessDenied \<equiv> ErrMsg ''payment method access denied''"

definition MethodGetByID :: "(uuid \<Rightarrow> string) \<Rightarrow> uuid \<Rightarrow> payment_method list \<Rightarrow> payment_method result" where
  "MethodGetByID uuid_String i rows =
     (case PaymentMethodGetByID uuid_String i rows of
        Inl e \<Rightarrow> Inl (if errors_Is e ErrPaymentMethodNotFound then ErrPaymentMethodNotFound else e)
      | Inr pm \<Rightarrow> Inr pm)"

definition MethodListByUserID :: "string \<Rightarrow> int \<Rightarrow> int \<Rightarrow> payment_method list \<Rightarrow> (payment_method list \<times> int) result" where
  "MethodListByUserID u limit offset rows =
     (if u = [] then Inl (ErrMsg ''user ID is required'')
      else Inr (PaymentMethodListByUserID u (if limit < 1 then 20 else limit) (if offset < 0 then 0 else offset) rows))"

definition method_by :: "(string \<Rightarrow> string \<Rightarrow> payment_method list \<Rightarrow> payment_method result) \<Rightarrow> string \<Rightarrow> string \<Rightarrow> payment_method list \<Rightarrow> payment_method result" where
  "method_by lookup provider key rows =
     (let provider = TrimSpace (ToLower provider) in
      if provider = [] then Inl (ErrMsg ''provider is required'')
      else (case lookup provider key rows of
              Inl e \<Rightarrow> Inl (if errors_Is e ErrPaymentMethodNotFound then ErrPaymentMethodNotFound else e)
            | Inr pm \<Rightarrow> Inr pm))"

definition MethodGetByVaultID :: "string \<Rightarrow> string \<Rightarrow> payment_method list \<Rightarrow> payment_method result" where
  "MethodGetByVaultID provider vaultID rows = method_by GetByVaultID provider vaultID rows"

definition MethodGetByInitialTransactionID :: "string \<Rightarrow> string \<Rightarrow> payment_method list \<Rightarrow> payment_method result" where
  "MethodGetByInitialTransactionID provider initialTransactionID rows = method_by GetByInitialTransactionID provider initialTransactionID rows"

definition ValidateOwnership :: "uuid \<Rightarrow> string \<Rightarrow> payment_method list \<Rightarrow> unit result" where
  "ValidateOwnership i u rows =
     (if i = uuid_Nil then Inl (ErrMsg ''invalid payment method ID'')
      else if u = [] then Inl (ErrMsg ''user ID is required'')
      else if ExistsForUser i u rows then Inr ()
      else Inl ErrPaymentMethodAccessDenied)"

definition ValidatePaymentMethodOperation :: "(uuid \<Rightarrow> string) \<Rightarrow> uuid \<Rightarrow> string \<Rightarrow> payment_method list \<Rightarrow> payment_method result" where
  "ValidatePaymentMethodOperation uuid_String i u rows =
     (if i = uuid_Nil then Inl (ErrMsg ''invalid payment method ID'')
      else if u = [] then Inl (ErrMsg ''user ID is required'')
      else (case MethodGetByID uuid_String i rows of
              Inl e \<Rightarrow> Inl (if errors_Is e ErrPaymentMethodNotFound then ErrPaymentMethodNotFound
                           else ErrWrap ''failed to get payment method'' e)
            | Inr pm \<Rightarrow>
                (case ValidateOwnership i u rows of
                   Inl e \<Rightarrow> Inl (if errors_Is e ErrPaymentMethodAccessDenied then ErrPaymentMethodAccessDenied else e)
                 | Inr _ \<Rightarrow> Inr pm)))"

section \<open>Card details\<close>

text \<open>The classes of characters are those of ASCII text.\<close>

definition ascii_digit :: "char \<Rightarrow> bool" where
  "ascii_digit c \<longleftrightarrow> (let n = (of_char c :: nat) in 48 \<le> n \<and> n \<le> 57)"

definition ascii_letter :: "char \<Rightarrow> bool" where
  "ascii_letter c \<longleftrightarrow> (let n = (of_char c :: nat) in 65 \<le> n \<and> n \<le> 90 \<or> 97 \<le> n \<and> n \<le> 122)"

definition last_chars :: "nat \<Rightarrow> string \<Rightarrow> string" where
  "last_chars n s = drop (length s - n) s"

definition sanitizeLastFour :: "string \<Rightarrow> string" where
  "sanitizeLastFour value = (let out = last_chars 4 (filter ascii_digit value) in if length out \<noteq> 4 then [] else out)"

definition sanitizeCardType :: "string \<Rightarrow> string" where
  "sanitizeCardType value =
     (let value = TrimSpace value in
      if value = [] \<or> length value > 30 then []
      else if list_all (\<lambda>c. ascii_letter c \<or> c = CHR '' '' \<or> c = CHR ''-'') value then value else [])"

definition sanitizeExpiryDate :: "string \<Rightarrow> string" where
  "sanitizeExpiryDate value =
     (let value = TrimSpace value in
      if value = [] \<or> length value > 7 then []
      else if list_all (\<lambda>c. ascii_digit c \<or> c = CHR ''/'' \<or> c = CHR ''-'') value then value else [])"

definition stringPtrOrNil :: "string \<Rightarrow> string option" where
  "stringPtrOrNil value = (if value = [] then None else Some value)"

section \<open>Vaults\<close>

record 'g vault_world =
  vw_billing :: billing_db
  vw_methods :: "payment_method list"
  vw_gateway :: 'g

record CreateVaultRequest = CreateCustomerVaultData +
  cr_Provider :: string
  cr_LastFour :: string
  cr_CardType :: string
  cr_ExpiryDate :: string
  cr_Metadata :: "string option"

definition not_configured :: "string \<Rightarrow> go_error" where
  "not_configured processor = ErrMsg (''processor '' @ quoted processor @ '' is not configured'')"

text \<open>\<^verbatim>\<open>errors.As\<close> with a \<^verbatim>\<open>CustomerVaultError\<close>: the code of the first one in the chain.\<close>

fun vault_error_code :: "go_error \<Rightarrow> int option" where
  "vault_error_code (ErrWrap m e) = vault_error_code e"
| "vault_error_code (NonRetryableWebhookError e) = vault_error_code e"
| "vault_error_code (VaultError l e) = vault_error_code e"
| "vault_error_code (CustomerVaultError m code) = Some code"
| "vault_error_code e = None"

text \<open>An error that keeps the localisation of a refusal by the gateway.\<close>

definition localized :: "string \<Rightarrow> go_error \<Rightarrow> go_error" where
  "localized msg e =
     (case vault_error_code e of
        Some code \<Rightarrow> VaultError (mobiusLocalizationID code) (ErrWrap msg e)
      | None \<Rightarrow> ErrWrap msg e)"

definition new_method :: "go_env \<Rightarrow> string \<Rightarrow> string \<Rightarrow> string \<Rightarrow> CreateVaultRequest \<Rightarrow> payment_method" where
  "new_method env u processor vaultID req =
     \<lparr>pm_ID = env_uuid env 0, pm_UserID = u, pm_Processor = processor, pm_VaultID = vaultID, pm_BillingID = None,
      pm_InitialTransactionID = [], pm_LastFour = stringPtrOrNil (sanitizeLastFour (cr_LastFour req)),
      pm_CardType = stringPtrOrNil (sanitizeCardType (cr_CardType req)),
      pm_ExpiryDate = stringPtrOrNil (sanitizeExpiryDate (cr_ExpiryDate req)), pm_FailureReason = None,
      pm_Metadata = cr_Metadata req, pm_CreatedAt = env_now env, pm_UpdatedAt = env_now env\<rparr>"

definition CreateVault ::
  "(string \<rightharpoonup> 'g nmi_client) \<Rightarrow> go_env \<Rightarrow> string \<Rightarrow> CreateVaultRequest \<Rightarrow> ('g, 'z) vault_world_scheme \<Rightarrow>
   payment_method result \<times> ('g, 'z) vault_world_scheme" where
  "CreateVault clients env u req w =
     (let processor = TrimSpace (ToLower (cr_Provider req)) in
      if processor = [] then (Inl (ErrMsg ''provider is required''), w)
      else (case clients processor of
              None \<Rightarrow> (Inl (not_configured processor), w)
            | Some client \<Rightarrow>
                (case CreateCustomerVault client (CreateCustomerVaultData.truncate req) (vw_gateway w) of
                   (Inl e, g) \<Rightarrow> (Inl (localized ''failed to create payment vault'' e), w\<lparr>vw_gateway := g\<rparr>)
                 | (Inr vaultID, g) \<Rightarrow>
                     (let pm = new_method env u processor vaultID req in
                      case PaymentMethodCreate pm (vw_methods w) of
                        Inl e \<Rightarrow> (Inl (ErrWrap ''failed to store vault locally'' e),
                                 w\<lparr>vw_gateway := snd (DeleteCustomerVault client vaultID g)\<rparr>)
                      | Inr rows \<Rightarrow> (Inr pm, w\<lparr>vw_methods := rows, vw_gateway := g\<rparr>)))))"

record UpdateVaultRequest =
  uv_PaymentToken :: "string option"
  uv_FirstName :: "string option"
  uv_LastName :: "string option"
  uv_Address1 :: "string option"
  uv_City :: "string option"
  uv_State :: "string option"
  uv_Zip :: "string option"
  uv_Country :: "string option"
  uv_Phone :: "string option"
  uv_Email :: "string option"
  uv_Company :: "string option"
  uv_Address2 :: "string option"

text \<open>A field that is not given stays empty, which the client does not send.\<close>

definition update_data :: "UpdateVaultRequest \<Rightarrow> CreateCustomerVaultData" where
  "update_data req =
     \<lparr>cv_PaymentToken = TrimSpace (FromPtr (uv_PaymentToken req)), cv_FirstName = FromPtr (uv_FirstName req),
      cv_LastName = FromPtr (uv_LastName req), cv_Address1 = FromPtr (uv_Address1 req), cv_City = FromPtr (uv_City req),
      cv_State = FromPtr (uv_State req), cv_Zip = FromPtr (uv_Zip req), cv_Country = FromPtr (uv_Country req),
      cv_Phone = FromPtr (uv_Phone req), cv_Email = FromPtr (uv_Email req), cv_Company = FromPtr (uv_Company req),
      cv_Address2 = FromPtr (uv_Address2 req)\<rparr>"

text \<open>The service maps the not-found error of the repository to its own.\<close>

definition MethodUpdate :: "payment_method \<Rightarrow> payment_method list \<Rightarrow> payment_method list result" where
  "MethodUpdate pm rows =
     (case PaymentMethodUpdate pm rows of
        Inl e \<Rightarrow> Inl (if errors_Is e ErrPaymentMethodNotFound then ErrPaymentMethodNotFound else e)
      | Inr rows' \<Rightarrow> Inr rows')"

definition UpdateVault ::
  "(string \<rightharpoonup> 'g nmi_client) \<Rightarrow> go_env \<Rightarrow> payment_method \<Rightarrow> UpdateVaultRequest \<Rightarrow> ('g, 'z) vault_world_scheme \<Rightarrow>
   payment_method result \<times> ('g, 'z) vault_world_scheme" where
  "UpdateVault clients env pm req w =
     (let processor = ToLower (pm_Processor pm) in
      if processor = [] then (Inl (ErrMsg ''payment method processor is required''), w)
      else (case clients processor of
              None \<Rightarrow> (Inl (not_configured processor), w)
            | Some client \<Rightarrow>
                (case UpdateCustomerVault client (pm_VaultID pm) (update_data req) (vw_gateway w) of
                   (Inl e, g) \<Rightarrow> (Inl (ErrWrap ''failed to update payment vault'' e), w\<lparr>vw_gateway := g\<rparr>)
                 | (Inr _, g) \<Rightarrow>
                     (let pm' = pm\<lparr>pm_FailureReason := None, pm_UpdatedAt := env_now env\<rparr> in
                      case MethodUpdate pm' (vw_methods w) of
                        Inl e \<Rightarrow> (Inl (ErrWrap ''failed to update local vault record'' e), w\<lparr>vw_gateway := g\<rparr>)
                      | Inr rows \<Rightarrow> (Inr pm', w\<lparr>vw_methods := rows, vw_gateway := g\<rparr>)))))"

text \<open>The subscriptions that keep a method from being deleted: those of the first page of a thousand.\<close>

definition using_method :: "payment_method \<Rightarrow> subscription list \<Rightarrow> subscription list" where
  "using_method pm rows =
     filter (\<lambda>s. (sub_Status s = StatusActive \<or> sub_Status s = StatusPastDue) \<and> sub_PaymentMethodID s = Some (pm_ID pm))
       (fst (SubGetPaginatedByUserID (pm_UserID pm) 1 1000 rows))"

definition DeleteVault ::
  "(string \<rightharpoonup> 'g nmi_client) \<Rightarrow> payment_method \<Rightarrow> ('g, 'z) vault_world_scheme \<Rightarrow> unit result \<times> ('g, 'z) vault_world_scheme" where
  "DeleteVault clients pm w =
     (let processor = ToLower (pm_Processor pm); n = length (using_method pm (bdb_subs (vw_billing w))) in
      if n > 0
      then (Inl (ErrMsg (''cannot delete vault: '' @ decimal_int (int n) @ '' active subscription(s) are using this payment method'')), w)
      else if processor = [] then (Inl (ErrMsg ''payment method processor is required''), w)
      else (case clients processor of
              None \<Rightarrow> (Inl (not_configured processor), w)
            | Some client \<Rightarrow>
                (case DeleteCustomerVault client (pm_VaultID pm) (vw_gateway w) of
                   (Inl e, g) \<Rightarrow> (Inl (ErrWrap ''failed to delete payment vault'' e), w\<lparr>vw_gateway := g\<rparr>)
                 | (Inr _, g) \<Rightarrow>
                     (case PaymentMethodDelete (pm_ID pm) (vw_methods w) (bdb_subs (vw_billing w)) of
                        Inl e \<Rightarrow> (Inl (ErrWrap ''failed to delete local vault record'' e), w\<lparr>vw_gateway := g\<rparr>)
                      | Inr (rows, subs) \<Rightarrow>
                          (Inr (), w\<lparr>vw_methods := rows, vw_billing := (vw_billing w)\<lparr>bdb_subs := subs\<rparr>, vw_gateway := g\<rparr>)))))"

end
