(* ===== verification/Stripe_Client.thy ===== *)
theory Stripe_Client
  imports Subscriptions Url_Values
begin

text \<open>
  The calls of the Stripe API: \<^verbatim>\<open>internal/modules/subscriptions/stripe_service.go\<close> and the creation of a hosted checkout in
  \<^verbatim>\<open>internal/modules/checkout/service.go\<close>. The HTTP exchange and the JSON fields that are read from an answer are parameters of the
  client: \<open>st_http\<close> takes the method, the URL and the form and answers with an error or with the status and the body;
  \<open>st_message\<close>, \<open>st_items\<close> and \<open>st_url\<close> read \<^verbatim>\<open>error.message\<close>, the identifiers of \<^verbatim>\<open>items.data\<close> and \<^verbatim>\<open>url\<close>, where \<open>None\<close> is text that is not JSON.
\<close>

record stripe_processor =
  stp_SecretKey :: string
  stp_SuccessURL :: string
  stp_CancelURL :: string

record 'g stripe_client =
  st_processor :: "stripe_processor option"
  st_http :: "string \<Rightarrow> string \<Rightarrow> (string \<times> string) list \<Rightarrow> 'g \<Rightarrow> (int \<times> string) result \<times> 'g"
  st_message :: "string \<Rightarrow> string option"
  st_items :: "string \<Rightarrow> string list option"
  st_url :: "string \<Rightarrow> string option"

definition RequireStripeSecretKey :: "'g stripe_client \<Rightarrow> (stripe_processor \<times> string) result" where
  "RequireStripeSecretKey c =
     (case st_processor c of
        None \<Rightarrow> Inl (ErrMsg ''stripe configuration is not available'')
      | Some proc \<Rightarrow>
          if TrimSpace (stp_SecretKey proc) = [] then Inl (ErrMsg ''stripe secret key is not configured'')
          else Inr (proc, TrimSpace (stp_SecretKey proc)))"

definition ParseStripeAPIError :: "'g stripe_client \<Rightarrow> string \<Rightarrow> string" where
  "ParseStripeAPIError c body = (case st_message c body of None \<Rightarrow> [] | Some m \<Rightarrow> TrimSpace m)"

text \<open>A request whose answer is an error from status 400 on.\<close>

definition stripe_call ::
  "'g stripe_client \<Rightarrow> string \<Rightarrow> string \<Rightarrow> string \<Rightarrow> (string \<times> string) list \<Rightarrow> 'g \<Rightarrow> string result \<times> 'g" where
  "stripe_call c what httpMethod url values g =
     (case st_http c httpMethod url values g of
        (Inl e, g') \<Rightarrow> (Inl (ErrWrap what e), g')
      | (Inr (status, body), g') \<Rightarrow>
          (if status \<ge> 400
           then Inl (ErrMsg (if ParseStripeAPIError c body = [] then what @ '' ('' @ decimal_int status @ '')'' else ParseStripeAPIError c body))
           else Inr body, g'))"

definition subscription_url :: "string \<Rightarrow> string" where
  "subscription_url subscriptionID = ''https://api.stripe.com/v1/subscriptions/'' @ subscriptionID"

definition GetSubscriptionItemID :: "'g stripe_client \<Rightarrow> string \<Rightarrow> 'g \<Rightarrow> string result \<times> 'g" where
  "GetSubscriptionItemID c subscriptionID g =
     (case RequireStripeSecretKey c of
        Inl e \<Rightarrow> (Inl e, g)
      | Inr _ \<Rightarrow>
          if TrimSpace subscriptionID = [] then (Inl (ErrMsg ''subscription_id is required''), g)
          else (case stripe_call c ''stripe subscription fetch failed'' ''GET'' (subscription_url (TrimSpace subscriptionID)) [] g of
                  (Inl e, g') \<Rightarrow> (Inl e, g')
                | (Inr body, g') \<Rightarrow>
                    (case st_items c body of
                       None \<Rightarrow> Inl (ErrMsg ''stripe subscription parse failed'')
                     | Some [] \<Rightarrow> Inl (ErrMsg ''stripe subscription item not found'')
                     | Some (i # _) \<Rightarrow> if TrimSpace i = [] then Inl (ErrMsg ''stripe subscription item not found'') else Inr i, g')))"

definition UpdateSubscriptionPrice ::
  "'g stripe_client \<Rightarrow> string \<Rightarrow> string \<Rightarrow> string \<Rightarrow> string \<Rightarrow> string \<Rightarrow> 'g \<Rightarrow> unit result \<times> 'g" where
  "UpdateSubscriptionPrice c subscriptionID itemID newPriceID prorationBehavior billingAnchor g =
     (case RequireStripeSecretKey c of
        Inl e \<Rightarrow> (Inl e, g)
      | Inr _ \<Rightarrow>
          if TrimSpace subscriptionID = [] \<or> TrimSpace itemID = [] \<or> TrimSpace newPriceID = []
          then (Inl (ErrMsg ''subscription_id, item_id, and price_id are required''), g)
          else map_prod (map_sum id (\<lambda>_. ())) id
                 (stripe_call c ''stripe subscription update failed'' ''POST'' (subscription_url (TrimSpace subscriptionID))
                   ([(''items[0][id]'', TrimSpace itemID), (''items[0][price]'', TrimSpace newPriceID)] @
                    (if TrimSpace prorationBehavior \<noteq> [] then [(''proration_behavior'', prorationBehavior)] else []) @
                    (if TrimSpace billingAnchor \<noteq> [] then [(''billing_cycle_anchor'', billingAnchor)] else [])) g))"

text \<open>Cancelling and resuming set the same flag.\<close>

definition stripe_set_cancel :: "'g stripe_client \<Rightarrow> string \<Rightarrow> string \<Rightarrow> string \<Rightarrow> 'g \<Rightarrow> unit result \<times> 'g" where
  "stripe_set_cancel c what flag subscriptionID g =
     (case RequireStripeSecretKey c of
        Inl e \<Rightarrow> (Inl e, g)
      | Inr _ \<Rightarrow>
          if TrimSpace subscriptionID = [] then (Inl (ErrMsg ''subscription_id is required''), g)
          else map_prod (map_sum id (\<lambda>_. ())) id
                 (stripe_call c what ''POST'' (subscription_url (TrimSpace subscriptionID)) [(''cancel_at_period_end'', flag)] g))"

definition StripeCancelSubscription :: "'g stripe_client \<Rightarrow> string \<Rightarrow> 'g \<Rightarrow> unit result \<times> 'g" where
  "StripeCancelSubscription c = stripe_set_cancel c ''stripe subscription cancel failed'' ''true''"

definition StripeResumeSubscription :: "'g stripe_client \<Rightarrow> string \<Rightarrow> 'g \<Rightarrow> unit result \<times> 'g" where
  "StripeResumeSubscription c = stripe_set_cancel c ''stripe subscription resume failed'' ''false''"

section \<open>Hosted checkouts\<close>

definition getStripePriceID :: "price \<Rightarrow> string result" where
  "getStripePriceID price =
     (case GetProcessorConfig price ProcessorStripe of
        None \<Rightarrow> Inl (ErrMsg ''stripe price not configured'')
      | Some cfg \<Rightarrow>
          let i = TrimSpace (map_read cfg ''price_id'') in if i = [] then Inl (ErrMsg ''stripe price id missing'') else Inr i)"

record stripeCheckoutParams =
  scp_Mode :: string
  scp_PriceID :: string
  scp_SuccessURL :: string
  scp_CancelURL :: string
  scp_UserID :: string
  scp_InternalPriceID :: string
  scp_TrialEnd :: int
  scp_CheckoutSessionID :: string

definition checkout_values :: "stripeCheckoutParams \<Rightarrow> (string \<times> string) list" where
  "checkout_values p =
     (let session = TrimSpace (scp_CheckoutSessionID p) in
      [(''mode'', scp_Mode p), (''success_url'', scp_SuccessURL p), (''cancel_url'', scp_CancelURL p),
       (''client_reference_id'', scp_UserID p), (''line_items[0][price]'', scp_PriceID p), (''line_items[0][quantity]'', ''1''),
       (''metadata[user_id]'', scp_UserID p), (''metadata[internal_price_id]'', scp_InternalPriceID p)] @
      (if session \<noteq> [] then [(''metadata[checkout_session_id]'', session)] else []) @
      (if scp_Mode p = ''subscription''
       then [(''subscription_data[metadata][user_id]'', scp_UserID p),
             (''subscription_data[metadata][internal_price_id]'', scp_InternalPriceID p)] @
            (if session \<noteq> [] then [(''subscription_data[metadata][checkout_session_id]'', session)] else []) @
            (if scp_TrialEnd p > 0 then [(''subscription_data[trial_end]'', decimal_int (scp_TrialEnd p))] else [])
       else []))"

definition createStripeCheckoutSession :: "'g stripe_client \<Rightarrow> stripeCheckoutParams \<Rightarrow> 'g \<Rightarrow> string result \<times> 'g" where
  "createStripeCheckoutSession c p g =
     (case RequireStripeSecretKey c of
        Inl e \<Rightarrow> (Inl e, g)
      | Inr _ \<Rightarrow>
          (case stripe_call c ''stripe checkout failed'' ''POST'' ''https://api.stripe.com/v1/checkout/sessions'' (checkout_values p) g of
             (Inl e, g') \<Rightarrow> (Inl e, g')
           | (Inr body, g') \<Rightarrow>
               (case st_url c body of
                  None \<Rightarrow> Inl (ErrMsg ''stripe checkout parse failed'')
                | Some url \<Rightarrow> if TrimSpace url = [] then Inl (ErrMsg ''stripe checkout returned empty URL'') else Inr url, g')))"

end
