(* ===== verification/Proration.thy ===== *)
theory Proration
  imports CCBill_Values Entitlements
begin

text \<open>
  The amounts and dates that the checkout computes: \<^verbatim>\<open>CalculateProration\<close> of \<^verbatim>\<open>internal/modules/checkout/service.go\<close>, the amount of a recurring
  charge, which passes through a \<^verbatim>\<open>float64\<close>, and the first day of a scheduled charge, \<^verbatim>\<open>nmi_schedule.go\<close>. A proration never exceeds the
  difference of the prices, and the amount that is sent to the gateway is the price.
\<close>

section \<open>Floating point\<close>

text \<open>
  The nearest integer, ties to the even one; and the nearest \<^verbatim>\<open>float64\<close> of a number that is zero or lies between \<open>2 ^ -57\<close>
  and the largest finite one.
\<close>

definition round_even :: "rat \<Rightarrow> int" where
  "round_even x =
     (let q = \<lfloor>x\<rfloor>; r = x - of_int q
      in if r > 1 / 2 \<or> r = 1 / 2 \<and> odd q then q + 1 else q)"

definition fl_unit :: "rat \<Rightarrow> rat" where
  "fl_unit x = 2 ^ (bits \<lfloor>x * 2 ^ 110\<rfloor> - 53) / 2 ^ 110"

definition fl :: "rat \<Rightarrow> rat" where
  "fl x = of_int (round_even (x / fl_unit x)) * fl_unit x"

text \<open>\<^verbatim>\<open>strconv.FormatFloat(float64(cents) / 100, 'f', 2, 64)\<close>.\<close>

definition float_amount :: "int \<Rightarrow> string" where
  "float_amount cents =
     FormatCentsDecimal (sgn cents * round_even (fl (fl (of_int \<bar>cents\<bar>) / 100) * 100))"

text \<open>\<^verbatim>\<open>Duration.Hours\<close> of a positive duration.\<close>

definition Hours :: "duration \<Rightarrow> rat" where
  "Hours d = fl (fl (of_int (d div time_Hour)) + fl (fl (of_int (d mod time_Hour)) / of_int time_Hour))"

section \<open>Proration\<close>

definition daysRemaining :: "time option \<Rightarrow> time \<Rightarrow> int" where
  "daysRemaining periodEndsAt now =
     (case periodEndsAt of
        None \<Rightarrow> 0
      | Some t \<Rightarrow> if t > now then max 0 \<lfloor>fl (Hours (time_Sub t now) / 24)\<rfloor> else 0)"

definition cycleDays :: "int option \<Rightarrow> int" where
  "cycleDays billingCycleDays = (case billingCycleDays of None \<Rightarrow> 30 | Some d \<Rightarrow> if d > 0 then d else 30)"

definition CalculateProration :: "int \<Rightarrow> int \<Rightarrow> time option \<Rightarrow> int option \<Rightarrow> time \<Rightarrow> int \<times> int \<times> int" where
  "CalculateProration oldPriceAmount newPriceAmount periodEndsAt billingCycleDays now =
     (let days = daysRemaining periodEndsAt now; cycle = cycleDays billingCycleDays;
          priceDiff = i64 (newPriceAmount - oldPriceAmount)
      in if priceDiff \<le> 0 then (0, days, cycle)
         else (sgn (i64 (priceDiff * days)) * (\<bar>i64 (priceDiff * days)\<bar> div cycle), days, cycle))"

section \<open>Dates\<close>

definition checkout_startOfUTCDate :: "time \<Rightarrow> time" where
  "checkout_startOfUTCDate t = t div day_ns * day_ns"

definition format_date :: "time \<Rightarrow> string" where
  "format_date t = (case civil (t div day_ns) of (y, m, d) \<Rightarrow> pad_digits 4 y @ pad_digits 2 m @ pad_digits 2 d)"

definition buildNMIFutureStartDate :: "time \<Rightarrow> time \<Rightarrow> string \<times> time" where
  "buildNMIFutureStartDate target now =
     (let targetDay = (if \<not> checkout_startOfUTCDate target > checkout_startOfUTCDate now then checkout_startOfUTCDate now + day_ns else checkout_startOfUTCDate target)
      in (format_date targetDay, targetDay))"

section \<open>Rounding\<close>

lemma round_even_le: "x \<le> of_int n \<Longrightarrow> round_even x \<le> n"
  by (auto simp: round_even_def Let_def) linarith+

lemma round_even_ge: "of_int n \<le> x \<Longrightarrow> n \<le> round_even x"
  unfolding round_even_def Let_def using le_floor_iff [of n x] by auto

lemma round_even_of_int [simp]: "round_even (of_int n) = n"
  by (simp add: round_even_def)

lemma round_even_error: "\<bar>of_int (round_even x) - x\<bar> \<le> 1 / 2"
  unfolding round_even_def Let_def by (auto simp: abs_if field_simps; linarith)

lemma round_even_near: "\<bar>x - of_int n\<bar> < 1 / 2 \<Longrightarrow> round_even x = n"
  unfolding round_even_def Let_def by (auto simp: abs_if split: if_splits) linarith+

lemma bits_less: "n < 2 ^ bits n"
proof (induction n rule: bits.induct)
  case (1 n)
  show ?case
  proof (cases "n \<le> 0")
    case False
    have "n div 2 + 1 \<le> 2 ^ bits (n div 2)" using 1 [OF False] by simp
    with False show ?thesis by (simp add: bits.simps [of n])
  qed (simp add: bits.simps)
qed

lemma bits_ge: "0 < n \<Longrightarrow> 2 ^ (bits n - 1) \<le> n"
proof (induction n rule: bits.induct)
  case (1 n)
  show ?case
  proof (cases "n div 2 \<le> 0")
    case True
    with 1 have "n = 1" by presburger
    then show ?thesis by (simp add: bits.simps)
  next
    case False
    have "bits (n div 2) = Suc (bits (n div 2) - 1)" using False by (simp add: bits.simps [of "n div 2"])
    then have "(2::int) ^ bits (n div 2) = 2 * 2 ^ (bits (n div 2) - 1)" by (metis power_Suc)
    moreover have "2 ^ (bits (n div 2) - 1) \<le> n div 2" using 1 False by simp
    ultimately show ?thesis using 1 by (simp add: bits.simps [of n])
  qed
qed

lemma bits_mono: "a \<le> b \<Longrightarrow> bits a \<le> bits b"
  by (rule bits_le) (use bits_less [of b] in simp)

lemma fl_unit_pos [simp]: "0 < fl_unit x"
  by (simp add: fl_unit_def)

lemma fl_nonneg: "0 \<le> x \<Longrightarrow> 0 \<le> fl x"
proof -
  assume "0 \<le> x"
  then have "of_int 0 \<le> x / fl_unit x" by (simp add: less_imp_le)
  from round_even_ge [OF this] show ?thesis by (simp add: fl_def less_imp_le)
qed

text \<open>A whole number below \<open>2 ^ 53\<close>, or a power of two, that bounds the argument bounds the result: it is a multiple of the unit.\<close>

lemma fl_le_multiple:
  assumes "x \<le> of_int k * fl_unit x"
  shows "fl x \<le> of_int k * fl_unit x"
proof -
  have "x / fl_unit x \<le> of_int k" using assms by (simp add: pos_divide_le_eq)
  from round_even_le [OF this] show ?thesis by (simp add: fl_def)
qed

lemma fl_ge_multiple:
  assumes "of_int k * fl_unit x \<le> x"
  shows "of_int k * fl_unit x \<le> fl x"
proof -
  have "of_int k \<le> x / fl_unit x" using assms by (simp add: pos_le_divide_eq)
  from round_even_ge [OF this] show ?thesis by (simp add: fl_def)
qed
lemma fl_unit_fraction:
  assumes "x < 2 ^ 53"
  obtains j where "fl_unit x = 1 / 2 ^ j"
proof -
  have "x * 2 ^ 110 < of_int (2 ^ 163)" using assms by simp
  then have "\<lfloor>x * 2 ^ 110\<rfloor> < 2 ^ 163" by (simp only: floor_less_iff)
  from bits_le [OF this] have "bits \<lfloor>x * 2 ^ 110\<rfloor> - 53 \<le> 110" by simp
  then have "fl_unit x = 1 / 2 ^ (110 - (bits \<lfloor>x * 2 ^ 110\<rfloor> - 53))" by (simp add: fl_unit_def power_diff)
  then show thesis by (rule that)
qed

lemma int_multiple:
  assumes "x < 2 ^ 53"
  obtains k where "rat_of_int n = of_int k * fl_unit x"
proof -
  from fl_unit_fraction [OF assms] obtain j where "fl_unit x = 1 / 2 ^ j" .
  then have "rat_of_int n = of_int (n * 2 ^ j) * fl_unit x" by simp
  then show thesis by (rule that)
qed

lemma fl_le_int:
  assumes "x \<le> of_int n" "n < 2 ^ 53"
  shows "fl x \<le> of_int n"
proof -
  have "rat_of_int n < of_int (2 ^ 53)" using assms(2) by (simp only: of_int_less_iff)
  with assms(1) have "x < 2 ^ 53" by simp
  from int_multiple [OF this] obtain k where "rat_of_int n = of_int k * fl_unit x" .
  with assms(1) fl_le_multiple [of x k] show ?thesis by simp
qed

lemma fl_ge_int:
  assumes "of_int n \<le> x" "x < 2 ^ 53"
  shows "of_int n \<le> fl x"
proof -
  from int_multiple [OF assms(2)] obtain k where "rat_of_int n = of_int k * fl_unit x" .
  with assms(1) fl_ge_multiple [of k x] show ?thesis by simp
qed

lemma fl_of_int [simp]: "n < 2 ^ 53 \<Longrightarrow> fl (of_int n) = of_int n"
proof (rule antisym)
  assume n: "n < 2 ^ 53"
  then show "fl (of_int n) \<le> of_int n" by (intro fl_le_int) simp_all
  from n have "rat_of_int n < of_int (2 ^ 53)" by (simp only: of_int_less_iff)
  then show "of_int n \<le> fl (of_int n)" by (intro fl_ge_int) simp_all
qed

text \<open>Whole hours and days that bound a duration bound what is computed from it.\<close>

lemma time_Hour_pos: "0 < time_Hour"
  by (simp add: duration_defs)

lemma hour_fraction:
  "0 \<le> fl (fl (of_int (d mod time_Hour)) / of_int time_Hour)" "fl (fl (of_int (d mod time_Hour)) / of_int time_Hour) \<le> of_int 1"
proof -
  have r: "0 \<le> d mod time_Hour" "d mod time_Hour < time_Hour" using time_Hour_pos by simp_all
  moreover from this have "d mod time_Hour < 2 ^ 53" by (simp add: duration_defs)
  ultimately have "fl (of_int (d mod time_Hour)) / of_int time_Hour \<le> of_int 1" "0 \<le> fl (of_int (d mod time_Hour)) / of_int time_Hour"
    using time_Hour_pos by (simp_all add: less_imp_le)
  then show "0 \<le> fl (fl (of_int (d mod time_Hour)) / of_int time_Hour)" "fl (fl (of_int (d mod time_Hour)) / of_int time_Hour) \<le> of_int 1"
    using fl_le_int [of _ 1] fl_nonneg by simp_all
qed

lemma Hours_le:
  assumes "0 \<le> d" "d \<le> n * time_Hour" "n < 2 ^ 53"
  shows "Hours d \<le> of_int n"
proof (cases "d div time_Hour = n")
  case True
  with assms have "d mod time_Hour = 0"
    using div_mult_mod_eq [of d time_Hour] pos_mod_sign [OF time_Hour_pos, of d] by simp
  with True assms show ?thesis using fl_of_int [of 0] by (simp add: Hours_def)
next
  case False
  have "d div time_Hour \<le> n" using zdiv_mono1 [OF assms(2) time_Hour_pos] time_Hour_pos by simp
  with False have q: "d div time_Hour \<le> n - 1" by simp
  then have "fl (of_int (d div time_Hour)) \<le> of_int (n - 1)" using assms(3) by (intro fl_le_int) (simp_all only: of_int_le_iff)
  with hour_fraction(2) [of d] show ?thesis unfolding Hours_def using assms(3) by (intro fl_le_int) simp_all
qed

lemma daysRemaining_le:
  assumes "t - now \<le> n * (24 * time_Hour)" "0 \<le> n" "n < 2 ^ 48"
  shows "0 \<le> daysRemaining (Some t) now" "daysRemaining (Some t) now \<le> n"
proof -
  show "0 \<le> daysRemaining (Some t) now" by (simp add: daysRemaining_def)
  show "daysRemaining (Some t) now \<le> n"
  proof (cases "t > now")
    case True
    then have "Hours (time_Sub t now) \<le> of_int (24 * n)"
      using assms by (intro Hours_le) (simp_all add: time_Sub_def)
    then have "fl (Hours (time_Sub t now) / 24) \<le> of_int n" using assms(3) by (intro fl_le_int) simp_all
    with assms(2) show ?thesis using True by (simp add: daysRemaining_def floor_le_iff less_le_trans)
  qed (use assms(2) in \<open>simp add: daysRemaining_def\<close>)
qed

lemma cycleDays_pos [simp]: "0 < cycleDays c"
  by (simp add: cycleDays_def split: option.splits)

text \<open>The error of a rounding, relative to its argument; and how it adds up over the roundings of \<^verbatim>\<open>Hours\<close> and the division by 24.\<close>

lemma fl_error:
  assumes "1 / 2 ^ 57 \<le> x"
  shows "\<bar>fl x - x\<bar> \<le> x / 2 ^ 53"
proof -
  let ?m = "\<lfloor>x * 2 ^ 110\<rfloor>"
  have "of_int (2 ^ 53) \<le> x * 2 ^ 110" using assms by simp
  then have m: "2 ^ 53 \<le> ?m" by (simp only: le_floor_iff)
  have m0: "0 < ?m" by (rule less_le_trans [OF _ m]) simp
  from m have b: "53 \<le> bits ?m - 1" using bits_less [of ?m] power_increasing_iff [of "2::int" "bits ?m" 53] by linarith
  have "(2::rat) ^ (bits ?m - 1) = of_int (2 ^ (bits ?m - 1))" by simp
  also have "\<dots> \<le> of_int ?m" using bits_ge [OF m0] by (simp only: of_int_le_iff)
  also have "\<dots> \<le> x * 2 ^ 110" by (rule of_int_floor_le)
  finally have "2 ^ (bits ?m - 1) \<le> x * 2 ^ 110" .
  moreover from b have "bits ?m - 1 = 52 + (bits ?m - 53)" by linarith
  then have "(2::rat) ^ (bits ?m - 1) = 2 ^ 52 * 2 ^ (bits ?m - 53)" by (simp only: power_add)
  ultimately have u: "fl_unit x \<le> x / 2 ^ 52" by (simp add: fl_unit_def field_simps)
  have "fl x - x = (of_int (round_even (x / fl_unit x)) - x / fl_unit x) * fl_unit x"
    using less_imp_neq [OF fl_unit_pos [of x]] by (simp add: fl_def left_diff_distrib)
  then have "\<bar>fl x - x\<bar> = \<bar>of_int (round_even (x / fl_unit x)) - x / fl_unit x\<bar> * fl_unit x"
    by (simp add: abs_mult less_imp_le)
  also have "\<dots> \<le> 1 / 2 * fl_unit x" using round_even_error by (intro mult_right_mono) (simp_all add: less_imp_le)
  finally show ?thesis using u by simp
qed

lemma fl_tiny:
  assumes "0 \<le> x" "x < 1 / 2 ^ 57"
  shows "fl x \<le> x + 1 / 2 ^ 110"
proof -
  have "x * 2 ^ 110 < of_int (2 ^ 53)" using assms(2) by simp
  then have "\<lfloor>x * 2 ^ 110\<rfloor> < 2 ^ 53" by (simp only: floor_less_iff)
  from bits_le [OF this] have u: "fl_unit x = 1 / 2 ^ 110" by (simp add: fl_unit_def)
  show ?thesis unfolding fl_def u using round_even_error [of "x / (1 / 2 ^ 110)"] by (simp add: abs_if split: if_splits)
qed

lemma fl_upper: "0 \<le> x \<Longrightarrow> fl x \<le> x + x / 2 ^ 53 + 1 / 2 ^ 110"
  using fl_error [of x] fl_tiny [of x] by (cases "x < 1 / 2 ^ 57") (auto simp: abs_if split: if_splits)

lemma Hours_ge:
  assumes "n * time_Hour \<le> d" "d < 2 ^ 63"
  shows "of_int n \<le> Hours d"
proof -
  have q: "d div time_Hour < 2 ^ 52" using assms(2) by (simp add: duration_defs)
  then have "rat_of_int (d div time_Hour) < of_int (2 ^ 52)" by (simp only: of_int_less_iff)
  moreover have "n \<le> d div time_Hour" using zdiv_mono1 [OF assms(1) time_Hour_pos] time_Hour_pos by simp
  then have "rat_of_int n \<le> of_int (d div time_Hour)" by simp
  ultimately show ?thesis unfolding Hours_def using q hour_fraction [of d] by (intro fl_ge_int) simp_all
qed

lemma Hours_upper:
  assumes "0 \<le> d" "d < 2 ^ 63"
  shows "Hours d \<le> of_int d / of_int time_Hour * (1 + 1 / 2 ^ 53) + 1 / 2 ^ 52"
proof -
  let ?r = "rat_of_int (d mod time_Hour) / of_int time_Hour"
  have q: "0 \<le> d div time_Hour" "d div time_Hour < 2 ^ 53" using assms by (simp_all add: duration_defs)
  have m: "0 \<le> d mod time_Hour" "d mod time_Hour < time_Hour" using time_Hour_pos by simp_all
  then have r: "d mod time_Hour < 2 ^ 53" by (simp add: duration_defs)
  have r1: "0 \<le> ?r" "?r < 1" using m by (simp_all add: duration_defs)
  have "rat_of_int d = of_int (d div time_Hour * time_Hour + d mod time_Hour)" by simp
  then have sum: "of_int (d div time_Hour) + ?r = rat_of_int d / of_int time_Hour"
    using time_Hour_pos unfolding of_int_add of_int_mult by (simp add: add_divide_distrib)
  have s: "0 \<le> of_int (d div time_Hour) + fl ?r" using q(1) fl_nonneg [OF r1(1)] by simp
  show ?thesis using fl_upper [OF s] fl_upper [OF r1(1)] r1
    unfolding Hours_def fl_of_int [OF q(2)] fl_of_int [OF r] sum [symmetric] by (simp add: field_simps)
qed

lemma hours_below:
  fixes d q m h n s :: rat
  assumes "d = q * 86400000000000 + m" "h \<le> d / 3600000000000 * (1 + 1 / 2 ^ 53) + 1 / 2 ^ 52"
    and "d \<le> n * 86400000000000" "m \<le> 86400000000000 - s" "n \<le> 2 ^ 15" "(n + 1) / 2 ^ 52 < s / 86400000000000"
  shows "h / 24 + h / 24 / 2 ^ 53 + 1 / 2 ^ 110 < q + 1"
proof -
  define D e where "D = d / 86400000000000" and "e = s / 86400000000000"
  have D: "D \<le> n" "D \<le> q + 1 - e" using assms(1, 3, 4) by (simp_all add: D_def e_def)
  have "h \<le> 24 * D * (1 + 1 / 2 ^ 53) + 1 / 2 ^ 52" using assms(2) by (simp add: D_def)
  then have "h / 24 + h / 24 / 2 ^ 53 + 1 / 2 ^ 110 \<le> (24 * D * (1 + 1 / 2 ^ 53) + 1 / 2 ^ 52) / 24 * (1 + 1 / 2 ^ 53) + 1 / 2 ^ 110"
    by simp
  also have "\<dots> = D + (D * (1 / 2 ^ 52 + 1 / 2 ^ 106) + (1 + 1 / 2 ^ 53) / 2 ^ 52 / 24 + 1 / 2 ^ 110)" by (simp add: field_simps)
  also have "D * (1 / 2 ^ 52 + 1 / 2 ^ 106) + (1 + 1 / 2 ^ 53) / 2 ^ 52 / 24 + 1 / 2 ^ 110 < e"
    using D(1) assms(5, 6) unfolding e_def [symmetric] by simp
  finally show ?thesis using D(2) by linarith
qed

lemma daysRemaining_exact:
  assumes "now < t"
    and "t - now \<le> 45 * (24 * time_Hour) \<or> t - now \<le> 2 ^ 15 * (24 * time_Hour) \<and> (t - now) mod (24 * time_Hour) \<le> 24 * time_Hour - 1000"
  shows "daysRemaining (Some t) now = (t - now) div (24 * time_Hour)"
proof -
  define d where "d = t - now"
  let ?day = "24 * time_Hour"
  let ?q = "d div ?day" and ?x = "fl (Hours d / 24)"
  have d: "0 < d" "d < 2 ^ 62" using assms unfolding d_def by (auto simp: duration_defs)
  have H: "0 \<le> Hours d" using Hours_ge [of 0 d] d by simp
  have split: "rat_of_int d = of_int ?q * of_int ?day + of_int (d mod ?day)"
    using arg_cong [OF div_mult_mod_eq [of d ?day, symmetric], of rat_of_int] by (simp only: of_int_add of_int_mult)
  have upper: "Hours d \<le> rat_of_int d / 3600000000000 * (1 + 1 / 2 ^ 53) + 1 / 2 ^ 52"
    using Hours_upper [of d] d by (simp add: duration_defs)
  have "0 \<le> d mod ?day" using time_Hour_pos by simp
  with div_mult_mod_eq [of d ?day] have "24 * ?q * time_Hour \<le> d" by (simp only: mult_ac)
  then have "of_int (24 * ?q) \<le> Hours d" using d(2) by (intro Hours_ge) simp_all
  moreover have "rat_of_int d < of_int (2 ^ 62)" using d(2) by (simp only: of_int_less_iff)
  with upper have "Hours d / 24 < 2 ^ 53" by simp
  ultimately have lower: "of_int ?q \<le> ?x" by (intro fl_ge_int) simp_all
  have "?x \<le> Hours d / 24 + Hours d / 24 / 2 ^ 53 + 1 / 2 ^ 110" using H by (intro fl_upper) simp
  also have "\<dots> < of_int (?q + 1)"
  proof -
    have "\<exists>n s. rat_of_int d \<le> of_int n * 86400000000000 \<and> rat_of_int (d mod ?day) \<le> 86400000000000 - of_int s \<and>
        rat_of_int n \<le> 2 ^ 15 \<and> (rat_of_int n + 1) / 2 ^ 52 < of_int s / 86400000000000"
    proof (cases "d \<le> 45 * ?day")
      case True
      then have "rat_of_int d \<le> of_int (45 * 86400000000000)" "rat_of_int (d mod ?day) \<le> of_int (86400000000000 - 1)"
        using pos_mod_bound [of ?day d] unfolding of_int_le_iff by (simp_all add: duration_defs)
      then show ?thesis by (intro exI [of _ 45] exI [of _ 1]) simp
    next
      case False
      then have "rat_of_int d \<le> of_int (2 ^ 15 * 86400000000000)" "rat_of_int (d mod ?day) \<le> of_int (86400000000000 - 1000)"
        using assms(2) unfolding d_def [symmetric] of_int_le_iff by (simp_all add: duration_defs)
      then show ?thesis by (intro exI [of _ "2 ^ 15"] exI [of _ 1000]) simp
    qed
    moreover have "rat_of_int d = of_int ?q * 86400000000000 + of_int (d mod ?day)" using split by (simp add: duration_defs)
    ultimately show ?thesis using hours_below [OF _ upper] by auto
  qed
  finally have "\<lfloor>?x\<rfloor> = ?q" using lower by (simp add: floor_eq_iff)
  moreover have "time_Sub t now = d" using d by (simp add: time_Sub_def d_def)
  moreover have "0 \<le> ?q" using d time_Hour_pos by (simp add: pos_imp_zdiv_nonneg_iff)
  ultimately show ?thesis using assms(1) by (simp add: daysRemaining_def d_def)
qed

text \<open>
  C37: The proration of an upgrade. For prices in order whose products with the cycle fit into 64 bits, and a period that is not longer
  than the cycle of the old price, the charge is the difference of the prices times the days left, divided by the days of the cycle
  and rounded down: at least nothing and at most the difference; a period that is over costs nothing. The days left, which are
  computed in floating point, are exactly the whole days of the time that is left, when that is at most 45 days, or at most \<open>2 ^ 15\<close> days and
  a microsecond or more short of the next whole day.
\<close>

theorem CalculateProration_bounds:
  assumes "0 \<le> old" "old \<le> new" "new < 2 ^ 63" "(new - old) * cycleDays c < 2 ^ 63"
    and "t - now \<le> cycleDays c * (24 * time_Hour)" "cycleDays c < 2 ^ 48"
  shows "\<exists>amount days. CalculateProration old new (Some t) c now = (amount, days, cycleDays c) \<and>
    amount = (new - old) * days div cycleDays c \<and> 0 \<le> amount \<and> amount \<le> new - old \<and>
    0 \<le> days \<and> days \<le> cycleDays c \<and> (t \<le> now \<longrightarrow> amount = 0) \<and>
    (now < t \<and> (t - now \<le> 45 * (24 * time_Hour) \<or>
        t - now \<le> 2 ^ 15 * (24 * time_Hour) \<and> (t - now) mod (24 * time_Hour) \<le> 24 * time_Hour - 1000) \<longrightarrow>
      days = (t - now) div (24 * time_Hour))"
proof -
  let ?d = "daysRemaining (Some t) now"
  note d = daysRemaining_le [OF assms(5) _ assms(6)]
  have d0: "0 \<le> ?d" and d1: "?d \<le> cycleDays c" using d by (simp_all add: less_imp_le)
  have le: "(new - old) * ?d \<le> (new - old) * cycleDays c" using assms(2) d1 by (intro mult_left_mono) simp_all
  have pos: "0 \<le> (new - old) * ?d" using assms(2) d0 by simp
  have "i64 (new - old) = new - old" "i64 ((new - old) * ?d) = (new - old) * ?d"
    using assms le pos by (simp_all add: in_i64_def)
  then have amount: "CalculateProration old new (Some t) c now = ((new - old) * ?d div cycleDays c, ?d, cycleDays c)"
    using assms(2) pos by (auto simp: CalculateProration_def Let_def sgn_if)
  have "(new - old) * ?d div cycleDays c \<le> new - old"
    using zdiv_mono1 [OF le cycleDays_pos [of c]] less_imp_neq [OF cycleDays_pos, of c] by simp
  moreover have "0 \<le> (new - old) * ?d div cycleDays c" using pos by (simp add: pos_imp_zdiv_nonneg_iff)
  moreover have "t \<le> now \<Longrightarrow> ?d = 0" by (simp add: daysRemaining_def)
  ultimately show ?thesis using amount d0 d1 daysRemaining_exact [of now t] by auto
qed

text \<open>
  The amount of a recurring charge passes through a \<^verbatim>\<open>float64\<close> and is still the price to the cent, for every price below \<open>2 ^ 52\<close> cents.
\<close>

theorem float_amount_exact:
  assumes "0 \<le> cents" "cents < 2 ^ 52"
  shows "float_amount cents = FormatCentsDecimal cents"
proof (cases "cents = 0")
  case True
  then show ?thesis by (simp add: float_amount_def)
next
  case False
  let ?x = "rat_of_int cents / 100"
  have "1 \<le> rat_of_int cents" using False assms(1) by simp
  then have "\<bar>fl ?x - ?x\<bar> \<le> ?x / 2 ^ 53" by (intro fl_error) simp
  moreover have "rat_of_int cents < of_int (2 ^ 52)" using assms(2) by (simp only: of_int_less_iff)
  ultimately have "\<bar>fl ?x * 100 - of_int cents\<bar> < 1 / 2" by (simp add: abs_if split: if_splits)
  then have "round_even (fl ?x * 100) = cents" by (rule round_even_near)
  with False assms show ?thesis by (simp add: float_amount_def sgn_if)
qed

theorem CalculateProration_bounds_witness:
  "\<exists>amount. CalculateProration 1000 2000 (Some (40 * 24 * time_Hour)) (Some 30) (25 * 24 * time_Hour + 1) = (amount, 14, 30) \<and> amount = 466"
  using CalculateProration_bounds [of 1000 2000 "Some 30" "40 * 24 * time_Hour" "25 * 24 * time_Hour + 1"]
  by (simp add: cycleDays_def duration_defs)

end
