(* ===== verification/Checkout.thy ===== *)
theory Checkout
  imports Vault Stripe_Client Purchases Proration Api_Ids
begin

text \<open>
  The checkout service, \<^verbatim>\<open>internal/modules/checkout\<close>: \<^verbatim>\<open>service.go\<close>, \<^verbatim>\<open>vault_service.go\<close>, \<^verbatim>\<open>nmi_sale_service.go\<close>, \<^verbatim>\<open>idempotency.go\<close>, \<^verbatim>\<open>tier_change.go\<close>, and
  the links of \<^verbatim>\<open>internal/integrations/ccbill/ccbill.go\<close>. A purchase starts at \<open>Checkout\<close>, a change of the plan at \<open>TierChange\<close>.

  The state is the tables, the idempotency store and the gateways. The configuration holds the clients and what comes from outside:
  the hash of the links, the text of an error and the JSON of the results that are cached. A decoder gives the value it has
  filled in and whether it succeeded.
\<close>

section \<open>Requests, responses and configuration\<close>

record UserIdentity =
  ui_ID :: string
  ui_Email :: "string option"
  ui_Username :: string

record CheckoutRequest =
  kr_PriceID :: string
  kr_PaymentMethodID :: string
  kr_PaymentToken :: string
  kr_Processor :: string
  kr_SuccessURL :: string
  kr_CancelURL :: string
  kr_IdempotencyKey :: string
  kr_CheckoutSessionID :: string
  kr_Email :: string
  kr_FirstName :: string
  kr_LastName :: string
  kr_Address1 :: string
  kr_City :: string
  kr_State :: string
  kr_Zip :: string
  kr_Country :: string
  kr_LastFour :: string
  kr_CardType :: string
  kr_ExpiryDate :: string
  kr_Metadata :: "(string \<times> string) list"

record CheckoutResponse =
  ko_Status :: string
  ko_Action :: string
  ko_Message :: string
  ko_SubscriptionID :: "uuid option"
  ko_PaymentID :: "uuid option"
  ko_TransactionID :: string
  ko_RedirectURL :: string
  ko_DelayedStart :: "time option"

definition response :: "string \<Rightarrow> string \<Rightarrow> string \<Rightarrow> CheckoutResponse" where
  "response status action msg =
     \<lparr>ko_Status = status, ko_Action = action, ko_Message = msg, ko_SubscriptionID = None, ko_PaymentID = None,
      ko_TransactionID = [], ko_RedirectURL = [], ko_DelayedStart = None\<rparr>"

record subscriptionIdempotencyResult =
  si_SubscriptionID :: string
  si_TransactionID :: string
  si_DelayedStart :: "string option"

record checkoutSaleIdempotencyResult =
  xi_TransactionID :: string
  xi_PaymentID :: uuid
  xi_DelayedStart :: "string option"

record upgradeIdempotencyResult =
  pi_SubscriptionID :: string
  pi_ProrationTransactionID :: string
  pi_Message :: string

record 'a codec =
  json_Marshal :: "'a \<Rightarrow> string"
  json_Unmarshal :: "string \<Rightarrow> 'a \<times> bool"

record ccbill_processor =
  ccp_Salt :: string
  ccp_ClientAccNum :: string
  ccp_ClientSubAcc :: string

record 'g checkout_cfg =
  kc_lifecycle :: lifecycle_cfg
  kc_testMode :: bool
  kc_ccbill :: "ccbill_processor option"
  kc_sha256 :: "string \<Rightarrow> string"
  kc_clients :: "string \<rightharpoonup> 'g nmi_client"
  kc_stripe :: "'g stripe_client"
  kc_message :: "go_error \<Rightarrow> string"
  kc_sale_json :: "checkoutSaleIdempotencyResult codec"
  kc_subscription_json :: "subscriptionIdempotencyResult codec"
  kc_upgrade_json :: "upgradeIdempotencyResult codec"
  kc_run_json :: "string \<Rightarrow> string \<Rightarrow> string"
  kc_tag_json :: "string \<Rightarrow> string"

record ('r, 'g) checkout_world = "'g vault_world" +
  kw_idem :: "'r IdempotencyService"

section \<open>Keys and defaults\<close>

definition GenerateKeyForSale :: "(uuid \<Rightarrow> string) \<Rightarrow> string \<Rightarrow> uuid \<Rightarrow> string" where
  "GenerateKeyForSale uuid_String u priceID = ''sale:'' @ u @ '':'' @ uuid_String priceID"

definition GenerateKeyForSubscription :: "(uuid \<Rightarrow> string) \<Rightarrow> string \<Rightarrow> uuid \<Rightarrow> string" where
  "GenerateKeyForSubscription uuid_String u priceID = ''subscription:'' @ u @ '':'' @ uuid_String priceID"

definition GenerateKeyForUpgrade :: "(uuid \<Rightarrow> string) \<Rightarrow> string \<Rightarrow> uuid \<Rightarrow> uuid \<Rightarrow> string" where
  "GenerateKeyForUpgrade uuid_String u oldSubscriptionID newPriceID =
     ''upgrade:'' @ u @ '':'' @ uuid_String oldSubscriptionID @ '':'' @ uuid_String newPriceID"

definition getIdempotencyKey :: "(uuid \<Rightarrow> string) \<Rightarrow> CheckoutRequest \<Rightarrow> string \<Rightarrow> uuid \<Rightarrow> string \<Rightarrow> string" where
  "getIdempotencyKey uuid_String req u priceID operation =
     (if kr_IdempotencyKey req \<noteq> [] then kr_IdempotencyKey req
      else if operation = ''nmi_subscription'' then GenerateKeyForSubscription uuid_String u priceID
      else GenerateKeyForSale uuid_String u priceID)"

definition getUpgradeIdempotencyKey :: "(uuid \<Rightarrow> string) \<Rightarrow> CheckoutRequest \<Rightarrow> string \<Rightarrow> uuid \<Rightarrow> uuid \<Rightarrow> string" where
  "getUpgradeIdempotencyKey uuid_String req u existingSubID newPriceID =
     (if kr_IdempotencyKey req \<noteq> [] then kr_IdempotencyKey req else GenerateKeyForUpgrade uuid_String u existingSubID newPriceID)"

definition ResolveCheckoutFirstName :: "CheckoutRequest \<Rightarrow> UserIdentity \<Rightarrow> string" where
  "ResolveCheckoutFirstName req user =
     (if kr_FirstName req \<noteq> [] then kr_FirstName req else if ui_Username user \<noteq> [] then ui_Username user else ''Customer'')"

definition ResolveCheckoutLastName :: "CheckoutRequest \<Rightarrow> string" where
  "ResolveCheckoutLastName req = (if kr_LastName req \<noteq> [] then kr_LastName req else ''Member'')"

definition DefaultIfEmpty :: "string \<Rightarrow> string \<Rightarrow> string" where
  "DefaultIfEmpty value defaultValue = (if TrimSpace value = [] then defaultValue else value)"

text \<open>The identifier of a test run in the metadata; a missing key reads as the empty text.\<close>

definition run_id :: "CheckoutRequest \<Rightarrow> string" where
  "run_id req = TrimSpace (Values_Get (kr_Metadata req) ''e2e_run_id'')"

definition traced_order :: "CheckoutRequest \<Rightarrow> string \<Rightarrow> string" where
  "traced_order req i = (if run_id req \<noteq> [] then ''e2e_'' @ run_id req @ ''_'' @ i else i)"

definition requireNMIPlanForProcessor :: "(uuid \<Rightarrow> string) \<Rightarrow> price \<Rightarrow> string \<Rightarrow> string result" where
  "requireNMIPlanForProcessor uuid_String price provider =
     (let provider = Lower provider in
      if provider = [] then Inl (ErrMsg ''processor is required'')
      else
        (let own = GetNMIConfigForProcessor price provider; legacy = GetNMIConfig price;
             found = (if (\<not> snd own \<or> TrimSpace (fst own) = []) \<and> snd (snd legacy) \<and> Lower (fst (snd legacy)) = provider
                      then (fst legacy, TrimSpace (fst legacy) \<noteq> []) else own)
         in if \<not> snd found \<or> TrimSpace (fst found) = []
            then Inl (ErrMsg (''price '' @ uuid_String (price_ID price) @ '' is missing NMI plan configuration for processor '' @ provider))
            else Inr (fst found)))"

definition nmi_client_of :: "'g checkout_cfg \<Rightarrow> string \<Rightarrow> 'g nmi_client result" where
  "nmi_client_of cfg provider =
     (case kc_clients cfg provider of
        None \<Rightarrow> Inl (ErrMsg (''NMI provider '' @ quoted provider @ '' is not configured''))
      | Some client \<Rightarrow> Inr client)"

section \<open>The card of a purchase\<close>

definition vault_request :: "'g checkout_cfg \<Rightarrow> CheckoutRequest \<Rightarrow> UserIdentity \<Rightarrow> string \<Rightarrow> CreateVaultRequest" where
  "vault_request cfg req user provider =
     \<lparr>cv_PaymentToken = kr_PaymentToken req, cv_FirstName = ResolveCheckoutFirstName req user,
      cv_LastName = ResolveCheckoutLastName req, cv_Address1 = kr_Address1 req, cv_City = kr_City req, cv_State = kr_State req,
      cv_Zip = kr_Zip req, cv_Country = kr_Country req, cv_Phone = [], cv_Email = kr_Email req, cv_Company = [], cv_Address2 = [],
      cr_Provider = provider, cr_LastFour = last_chars 4 (kr_LastFour req), cr_CardType = kr_CardType req,
      cr_ExpiryDate = kr_ExpiryDate req, cr_Metadata = (if run_id req \<noteq> [] then Some (kc_tag_json cfg (run_id req)) else None)\<rparr>"

definition ResolveVault ::
  "'g checkout_cfg \<Rightarrow> go_env \<Rightarrow> CheckoutRequest \<Rightarrow> UserIdentity \<Rightarrow> string \<Rightarrow> ('g, 'z) vault_world_scheme \<Rightarrow>
   (string \<times> payment_method option) result \<times> ('g, 'z) vault_world_scheme" where
  "ResolveVault cfg env req user provider w =
     (if kr_PaymentMethodID req \<noteq> []
      then (case ParseID (lc_uuid_Parse (kc_lifecycle cfg)) PaymentMethod (kr_PaymentMethodID req) of
              Inl e \<Rightarrow> (Inl (ErrWrap ''invalid payment_method_id'' e), w)
            | Inr pmID \<Rightarrow>
                (case ValidatePaymentMethodOperation (env_uuid_String env) pmID (ui_ID user) (vw_methods w) of
                   Inl e \<Rightarrow> (Inl (ErrWrap ''invalid payment method'' e), w)
                 | Inr pm \<Rightarrow>
                     if \<not> IsNMIBacked (lc_nmi (kc_lifecycle cfg)) (pm_Processor pm)
                     then (Inl (ErrMsg ''payment method is not compatible with card payments''), w)
                     else if \<not> SameProcessor (pm_Processor pm) provider
                     then (Inl (ErrMsg ''payment method belongs to a different payment provider''), w)
                     else (Inr (pm_VaultID pm, None), w)))
      else if kr_PaymentToken req = [] then (Inl (ErrMsg ''payment_method_id or payment_token is required''), w)
      else (case CreateVault (kc_clients cfg) env (ui_ID user) (vault_request cfg req user provider) w of
              (Inl e, w') \<Rightarrow> (Inl e, w')
            | (Inr pm, w') \<Rightarrow> (Inr (pm_VaultID pm, Some pm), w')))"

text \<open>A card that was stored for an attempt that failed is deleted again; an error of that is dropped.\<close>

definition drop_vault ::
  "'g checkout_cfg \<Rightarrow> payment_method option \<Rightarrow> ('g, 'z) vault_world_scheme \<Rightarrow> ('g, 'z) vault_world_scheme" where
  "drop_vault cfg created w = (case created of None \<Rightarrow> w | Some pm \<Rightarrow> snd (DeleteVault (kc_clients cfg) pm w))"

section \<open>Idempotency\<close>

definition idem_failed :: "'g checkout_cfg \<Rightarrow> time \<Rightarrow> string \<Rightarrow> string \<Rightarrow> go_error \<Rightarrow> ('r, 'g) checkout_world \<Rightarrow> ('r, 'g) checkout_world" where
  "idem_failed cfg now operation key e w = w\<lparr>kw_idem := Fail now operation key (kc_message cfg e) (kw_idem w)\<rparr>"

definition idem_completed :: "time \<Rightarrow> string \<Rightarrow> string \<Rightarrow> string \<Rightarrow> ('r, 'g) checkout_world \<Rightarrow> ('r, 'g) checkout_world" where
  "idem_completed now operation key result w = w\<lparr>kw_idem := Complete now operation key result (kw_idem w)\<rparr>"

text \<open>
  The start of an operation under a key: a request that was completed is answered from the record, one that is pending or has
  failed is refused, and a new one goes on. A failure of the rest is recorded under the key.
\<close>

definition under_key ::
  "go_env \<Rightarrow> string \<Rightarrow> string \<Rightarrow> string \<Rightarrow> string \<Rightarrow> (string \<Rightarrow> CheckoutResponse) \<Rightarrow>
   (('r, 'g) checkout_world \<Rightarrow> CheckoutResponse result \<times> ('r, 'g) checkout_world) \<Rightarrow>
   ('r, 'g) checkout_world \<Rightarrow> CheckoutResponse result \<times> ('r, 'g) checkout_world" where
  "under_key env operation key pending failed replay body w =
     (case Begin (env_now env) operation key (kw_idem w) of
        ((rec, alreadyExists), idem) \<Rightarrow>
          (let w' = w\<lparr>kw_idem := idem\<rparr> in
           if alreadyExists
           then (case ir_Status rec of
                   IdempotencyStatusSuccess \<Rightarrow> (Inr (replay (ir_Result rec)), w')
                 | IdempotencyStatusPending \<Rightarrow> (Inl (ErrMsg pending), w')
                 | IdempotencyStatusFailed \<Rightarrow> (Inl (ErrMsg failed), w'))
           else body w'))"

text \<open>A start that was cached as text; a text that does not parse is dropped.\<close>

definition cached_start :: "string option \<Rightarrow> time option" where
  "cached_start s = (case s of None \<Rightarrow> None | Some v \<Rightarrow> (case ParseInLocation RFC3339 v of Inl _ \<Rightarrow> None | Inr t \<Rightarrow> Some t))"

section \<open>One-time sales\<close>

definition replay_sale :: "'g checkout_cfg \<Rightarrow> string \<Rightarrow> CheckoutResponse" where
  "replay_sale cfg result =
     (case json_Unmarshal (kc_sale_json cfg) result of
        (cached, ok) \<Rightarrow>
          (response ''success'' ''new'' ''Purchase already completed'')
            \<lparr>ko_TransactionID := xi_TransactionID cached,
             ko_PaymentID := (if ok then Some (xi_PaymentID cached) else None),
             ko_DelayedStart := (if ok then cached_start (xi_DelayedStart cached) else None)\<rparr>)"

definition sale_params :: "CheckoutRequest \<Rightarrow> price \<Rightarrow> product \<Rightarrow> string \<Rightarrow> string \<Rightarrow> SaleParams" where
  "sale_params req price product vaultID orderID =
     \<lparr>sp_CustomerVaultID = vaultID, sp_Amount = price_Amount price, sp_Currency = price_Currency price,
      sp_OrderDescription = ''Purchase: '' @ prod_DisplayName product @ '' - '' @ price_DisplayName price, sp_OrderID = orderID\<rparr>"

definition sale_purchase :: "'g checkout_cfg \<Rightarrow> CheckoutRequest \<Rightarrow> UserIdentity \<Rightarrow> price \<Rightarrow> string \<Rightarrow> string \<Rightarrow> string \<Rightarrow> RegisterPurchaseRequest" where
  "sale_purchase cfg req user price provider transactionID orderID =
     \<lparr>rp_UserID = ui_ID user, rp_PriceID = price_ID price, rp_Processor = provider, rp_TransactionID = transactionID,
      rp_Amount = price_Amount price, rp_Currency = price_Currency price, rp_SubscriptionID = None, rp_WalletPurchase = False,
      rp_PurchasedAt = None,
      rp_Metadata = (if run_id req \<noteq> [] then Some (kc_run_json cfg (run_id req) orderID) else None)\<rparr>"

definition sale_body ::
  "'g checkout_cfg \<Rightarrow> go_env \<Rightarrow> CheckoutRequest \<Rightarrow> UserIdentity \<Rightarrow> price \<Rightarrow> product \<Rightarrow> string \<Rightarrow> string \<Rightarrow> 'g nmi_client \<Rightarrow>
   ('r, 'g) checkout_world \<Rightarrow> CheckoutResponse result \<times> ('r, 'g) checkout_world" where
  "sale_body cfg env req user price product key provider client w =
     (let failed = idem_failed cfg (env_now env) ''nmi_sale'' key; orderID = traced_order req (env_uuid_String env (env_uuid env 1)) in
      case ResolveVault cfg env req user provider w of
        (Inl e, w1) \<Rightarrow> (Inl e, failed e w1)
      | (Inr (vaultID, created), w1) \<Rightarrow>
          (case RunSale client (sale_params req price product vaultID orderID) (vw_gateway w1) of
             (Inl e, g) \<Rightarrow> (Inl (ErrWrap ''payment failed'' e), failed e (drop_vault cfg created (w1\<lparr>vw_gateway := g\<rparr>)))
           | (Inr sale, g) \<Rightarrow>
               (case RegisterPurchase (env_shift 2 env) (sale_purchase cfg req user price provider (sr_TransactionID sale) orderID)
                       (vw_billing w1) of
                  (Inl e, db) \<Rightarrow>
                    (Inl (ErrWrap ''payment processed but failed to register'' e), failed e (w1\<lparr>vw_gateway := g, vw_billing := db\<rparr>))
                | (Inr result, db) \<Rightarrow>
                    (Inr ((response ''success'' ''new'' ''Purchase completed successfully'')
                       \<lparr>ko_PaymentID := Some (rr_PaymentID result), ko_TransactionID := sr_TransactionID sale,
                        ko_DelayedStart := rr_DelayedStart result\<rparr>),
                     idem_completed (env_now env) ''nmi_sale'' key
                       (json_Marshal (kc_sale_json cfg)
                          \<lparr>xi_TransactionID = sr_TransactionID sale, xi_PaymentID = rr_PaymentID result,
                           xi_DelayedStart = map_option format_RFC3339 (rr_DelayedStart result)\<rparr>)
                       (w1\<lparr>vw_gateway := g, vw_billing := db\<rparr>)))))"

definition processNMISale ::
  "'g checkout_cfg \<Rightarrow> go_env \<Rightarrow> CheckoutRequest \<Rightarrow> UserIdentity \<Rightarrow> price \<Rightarrow> product \<Rightarrow> string \<Rightarrow>
   ('r, 'g) checkout_world \<Rightarrow> CheckoutResponse result \<times> ('r, 'g) checkout_world" where
  "processNMISale cfg env req user price product processor w =
     (let key = getIdempotencyKey (env_uuid_String env) req (ui_ID user) (price_ID price) ''nmi_sale''; provider = Lower processor in
      if provider = [] then (Inl (ErrMsg ''processor is required''), w)
      else (case nmi_client_of cfg provider of
              Inl e \<Rightarrow> (Inl e, w)
            | Inr client \<Rightarrow>
                under_key env ''nmi_sale'' key ''checkout already in progress, please wait''
                  ''previous checkout attempt failed, please try again'' (replay_sale cfg)
                  (sale_body cfg env req user price product key provider client) w))"

section \<open>Recurring subscriptions at a gateway\<close>

definition replay_subscription :: "'g checkout_cfg \<Rightarrow> string \<Rightarrow> CheckoutResponse" where
  "replay_subscription cfg result =
     (case json_Unmarshal (kc_subscription_json cfg) result of
        (cached, ok) \<Rightarrow>
          (response ''success'' ''new'' ''Subscription already created'')
            \<lparr>ko_TransactionID := si_TransactionID cached,
             ko_SubscriptionID :=
               (if ok then Some (case lc_uuid_Parse (kc_lifecycle cfg) (si_SubscriptionID cached) of None \<Rightarrow> uuid_Nil | Some i \<Rightarrow> i) else None),
             ko_DelayedStart := (if ok then cached_start (si_DelayedStart cached) else None)\<rparr>)"

definition recurring_data ::
  "CheckoutRequest \<Rightarrow> UserIdentity \<Rightarrow> price \<Rightarrow> string \<Rightarrow> string \<Rightarrow> string \<Rightarrow> string \<Rightarrow> RecurringPaymentData" where
  "recurring_data req user price planID vaultID orderID startDate =
     \<lparr>rpd_FirstName = ResolveCheckoutFirstName req user, rpd_LastName = ResolveCheckoutLastName req,
      rpd_Address1 = DefaultIfEmpty (kr_Address1 req) ''N/A'', rpd_City = DefaultIfEmpty (kr_City req) ''N/A'',
      rpd_State = DefaultIfEmpty (kr_State req) ''N/A'', rpd_Zip = DefaultIfEmpty (kr_Zip req) ''00000'',
      rpd_Country = DefaultIfEmpty (kr_Country req) ''US'', rpd_PlanID = planID, rpd_CustomerVaultID = vaultID,
      rpd_Email = kr_Email req, rpd_Currency = price_Currency price, rpd_PaymentToken = [], rpd_Amount = float_amount (price_Amount price),
      rpd_OrderID = orderID, rpd_PONumber = orderID, rpd_CustomerID = ui_ID user, rpd_StartDate = startDate\<rparr>"

text \<open>The first day of the subscription, if the present coverage ends in the future.\<close>

definition future_start :: "CoverageInfo \<Rightarrow> time \<Rightarrow> (string \<times> time) option" where
  "future_start coverage now =
     (if cov_HasCoverage coverage
      then (case cov_EndDate coverage of None \<Rightarrow> None | Some t \<Rightarrow> if t > now then Some (buildNMIFutureStartDate t now) else None)
      else None)"

definition method_reference :: "'g checkout_cfg \<Rightarrow> CheckoutRequest \<Rightarrow> payment_method option \<Rightarrow> uuid option" where
  "method_reference cfg req created =
     (case created of
        Some pm \<Rightarrow> Some (pm_ID pm)
      | None \<Rightarrow>
          if kr_PaymentMethodID req = [] then None
          else (case ParseID (lc_uuid_Parse (kc_lifecycle cfg)) PaymentMethod (kr_PaymentMethodID req) of Inl _ \<Rightarrow> None | Inr i \<Rightarrow> Some i))"

text \<open>
  The row of a subscription that a checkout saves. The times of creation and update are
  the defaults of their columns, the clock of the database.
\<close>

definition new_subscription ::
  "'g checkout_cfg \<Rightarrow> time \<Rightarrow> CheckoutRequest \<Rightarrow> UserIdentity \<Rightarrow> price \<Rightarrow> string \<Rightarrow> uuid \<Rightarrow> string \<Rightarrow> SubscriptionStatus \<Rightarrow>
   payment_method option \<Rightarrow> subscription" where
  "new_subscription cfg now req user price provider i processorID status created =
     \<lparr>sub_ID = i, sub_UserID = ui_ID user, sub_ProductID = price_ProductID price, sub_PriceID = price_ID price,
      sub_ScheduledPriceID = None, sub_Status = status, sub_StartedAt = now, sub_EndedAt = None,
      sub_CurrentPeriodStartsAt = None, sub_CurrentPeriodEndsAt = None, sub_Processor = provider,
      sub_ProcessorSubscriptionID = processorID, sub_UserEmail = (if kr_Email req \<noteq> [] then Some (kr_Email req) else None),
      sub_PaymentMethodID = method_reference cfg req created, sub_LastRetryAt = None, sub_RetryAttempts = None,
      sub_NextRetryAt = None, sub_GraceEndsAt = None, sub_CancelFeedback = None, sub_CancelType = None, sub_CancelledAt = None,
      sub_Metadata = None, sub_CreatedAt = now, sub_UpdatedAt = now\<rparr>"

definition subscription_body ::
  "'g checkout_cfg \<Rightarrow> go_env \<Rightarrow> CheckoutRequest \<Rightarrow> UserIdentity \<Rightarrow> price \<Rightarrow> CoverageInfo \<Rightarrow> string \<Rightarrow> string \<Rightarrow> string \<Rightarrow>
   'g nmi_client \<Rightarrow> ('r, 'g) checkout_world \<Rightarrow> CheckoutResponse result \<times> ('r, 'g) checkout_world" where
  "subscription_body cfg env req user price coverage key provider planID client w =
     (let now = env_now env; failed = idem_failed cfg now ''nmi_subscription'' key; i = env_uuid env 1;
          orderID = traced_order req (env_uuid_String env i); start = future_start coverage now;
          delayedStart = map_option snd start in
      case ResolveVault cfg env req user provider w of
        (Inl e, w1) \<Rightarrow> (Inl e, failed e w1)
      | (Inr (vaultID, created), w1) \<Rightarrow>
          (case AddRecurringSubscription client
                  (recurring_data req user price planID vaultID orderID (case start of None \<Rightarrow> [] | Some (d, _) \<Rightarrow> d)) (vw_gateway w1) of
             (Inl e, g) \<Rightarrow>
               (let e' = localized ''failed to create subscription'' e
                in (Inl e', failed e' (drop_vault cfg created (w1\<lparr>vw_gateway := g\<rparr>))))
           | (Inr resp, g) \<Rightarrow>
               (let s = (new_subscription cfg now req user price provider i (as_SubscriptionID resp) StatusPending created)
                          \<lparr>sub_Metadata := (if run_id req \<noteq> [] then Some (kc_run_json cfg (run_id req) orderID) else None)\<rparr>;
                    w2 = w1\<lparr>vw_gateway := g\<rparr> in
                case SubscriptionServiceCreate (lc_nz (kc_lifecycle cfg)) s (bdb_subs (vw_billing w2)) of
                  Inl e \<Rightarrow> (Inl (ErrWrap ''failed to save subscription'' e), failed e w2)
                | Inr rows \<Rightarrow>
                    (Inr ((response ''pending'' ''new''
                             (case delayedStart of None \<Rightarrow> ''Subscription created successfully''
                              | Some t \<Rightarrow> ''Subscription scheduled to start on '' @ take 10 (format_RFC3339 t)))
                       \<lparr>ko_SubscriptionID := Some i, ko_TransactionID := as_TransactionID resp, ko_DelayedStart := delayedStart\<rparr>),
                     idem_completed now ''nmi_subscription'' key
                       (json_Marshal (kc_subscription_json cfg)
                          \<lparr>si_SubscriptionID = env_uuid_String env i, si_TransactionID = as_TransactionID resp,
                           si_DelayedStart = map_option format_RFC3339 delayedStart\<rparr>)
                       (w2\<lparr>vw_billing := (vw_billing w2)\<lparr>bdb_subs := rows\<rparr>\<rparr>)))))"

definition processNMISubscription ::
  "'g checkout_cfg \<Rightarrow> go_env \<Rightarrow> CheckoutRequest \<Rightarrow> UserIdentity \<Rightarrow> price \<Rightarrow> CoverageInfo \<Rightarrow> string \<Rightarrow>
   ('r, 'g) checkout_world \<Rightarrow> CheckoutResponse result \<times> ('r, 'g) checkout_world" where
  "processNMISubscription cfg env req user price coverage processor w =
     (let provider = Lower processor;
          key = getIdempotencyKey (env_uuid_String env) req (ui_ID user) (price_ID price) ''nmi_subscription'' in
      if provider = [] then (Inl (ErrMsg ''processor is required''), w)
      else (case rbind (requireNMIPlanForProcessor (env_uuid_String env) price provider) (\<lambda>planID.
                  rbind (nmi_client_of cfg provider) (\<lambda>client. Inr (planID, client))) of
              Inl e \<Rightarrow> (Inl e, w)
            | Inr (planID, client) \<Rightarrow>
                under_key env ''nmi_subscription'' key ''subscription creation already in progress, please wait''
                  ''previous subscription attempt failed, please try again'' (replay_subscription cfg)
                  (subscription_body cfg env req user price coverage key provider planID client) w))"

section \<open>Links to CCBill\<close>

definition flexFormBaseURL :: "bool \<Rightarrow> string" where
  "flexFormBaseURL testMode =
     (if testMode then ''https://sandbox-api.ccbill.com/wap-frontflex/flexforms'' else ''https://api.ccbill.com/wap-frontflex/flexforms'')"

definition validateFlexFormIdentity :: "string \<Rightarrow> string \<Rightarrow> string \<Rightarrow> string \<Rightarrow> unit result" where
  "validateFlexFormIdentity username email formName flexID =
     (if username = [] \<or> email = [] then Inl (ErrMsg ''username and email are required'')
      else if formName = [] then Inl (ErrMsg ''form name is required'')
      else if flexID = [] then Inl (ErrMsg ''flex_id is required'')
      else Inr ())"

definition baseFlexFormQuery :: "'g checkout_cfg \<Rightarrow> ccbill_processor \<Rightarrow> string \<Rightarrow> string \<Rightarrow> string \<Rightarrow> (string \<times> string) list" where
  "baseFlexFormQuery cfg proc username email formName =
     [(''clientAccnum'', ccp_ClientAccNum proc), (''clientSubacc'', ccp_ClientSubAcc proc), (''formName'', formName),
      (''language'', ''English''), (''currencyCode'', ''840''), (''email'', email), (''username'', username)] @
     (if ccp_Salt proc \<noteq> [] then [(''signature'', kc_sha256 cfg (username @ ccp_Salt proc))] else [])"

definition flexFormResponse :: "'g checkout_cfg \<Rightarrow> string \<Rightarrow> (string \<times> string) list \<Rightarrow> string" where
  "flexFormResponse cfg flexID query = flexFormBaseURL (kc_testMode cfg) @ ''/'' @ flexID @ ''?'' @ Encode query"

definition GenerateFlexFormURL ::
  "'g checkout_cfg \<Rightarrow> ccbill_processor \<Rightarrow> CheckoutRequest \<Rightarrow> string \<Rightarrow> string \<Rightarrow> string \<Rightarrow> string \<Rightarrow> string result" where
  "GenerateFlexFormURL cfg proc req username email formName flexID =
     rbind (validateFlexFormIdentity username email formName flexID) (\<lambda>_.
       Inr (flexFormResponse cfg flexID (baseFlexFormQuery cfg proc username email formName @
         [(''password'', []), (''customer_fname'', kr_FirstName req), (''customer_lname'', kr_LastName req),
          (''address1'', kr_Address1 req), (''city'', kr_City req), (''state'', kr_State req), (''zipcode'', kr_Zip req),
          (''country'', kr_Country req)])))"

definition GenerateUpgradeFlexFormURL ::
  "'g checkout_cfg \<Rightarrow> ccbill_processor \<Rightarrow> string \<Rightarrow> string \<Rightarrow> string \<Rightarrow> string \<Rightarrow> string \<Rightarrow> string result" where
  "GenerateUpgradeFlexFormURL cfg proc username email formName flexID originalSubscriptionID =
     rbind (validateFlexFormIdentity username email formName flexID) (\<lambda>_.
       if originalSubscriptionID = [] then Inl (ErrMsg ''original_subscription_id is required'')
       else Inr (flexFormResponse cfg flexID (baseFlexFormQuery cfg proc username email formName @
              [(''originalSubscriptionId'', originalSubscriptionID)])))"

text \<open>What both links need: the configuration, the form of the price, a verified address and a user name.\<close>

definition ccbill_form :: "(uuid \<Rightarrow> string) \<Rightarrow> string \<Rightarrow> price \<Rightarrow> (string \<times> string) result" where
  "ccbill_form uuid_String what price =
     (case GetCCBillFlexForm price of
        (formName, flexID, ok) \<Rightarrow>
          if ok then Inr (formName, flexID) else Inl (ErrMsg (what @ uuid_String (price_ID price) @ '' is not configured for CCBill'')))"

definition ccbill_identity :: "UserIdentity \<Rightarrow> string result" where
  "ccbill_identity user =
     (case ui_Email user of
        None \<Rightarrow> Inl (ErrMsg ''verified email required for CCBill payments'')
      | Some email \<Rightarrow>
          if TrimSpace email = [] then Inl (ErrMsg ''verified email required for CCBill payments'')
          else if ui_Username user = [] then Inl (ErrMsg ''username required for CCBill payments'')
          else Inr email)"

definition requireCCBillProcessorConfig :: "'g checkout_cfg \<Rightarrow> ccbill_processor result" where
  "requireCCBillProcessorConfig cfg =
     (case kc_ccbill cfg of None \<Rightarrow> Inl (ErrMsg ''ccbill processor is not configured'') | Some proc \<Rightarrow> Inr proc)"

definition processCCBillSubscription :: "'g checkout_cfg \<Rightarrow> go_env \<Rightarrow> CheckoutRequest \<Rightarrow> UserIdentity \<Rightarrow> price \<Rightarrow> CheckoutResponse result" where
  "processCCBillSubscription cfg env req user price =
     rbind (requireCCBillProcessorConfig cfg) (\<lambda>proc.
     rbind (ccbill_form (env_uuid_String env) ''price '' price) (\<lambda>(formName, flexID).
     rbind (ccbill_identity user) (\<lambda>email.
     rbind (wrapped ''failed to generate CCBill FlexForm URL''
              (GenerateFlexFormURL cfg proc req (ui_Username user) email formName flexID)) (\<lambda>url.
       Inr ((response ''redirect_required'' ''new'' ''Redirect to CCBill payment form'')\<lparr>ko_RedirectURL := url\<rparr>)))))"

definition processCCBillUpgrade :: "'g checkout_cfg \<Rightarrow> go_env \<Rightarrow> UserIdentity \<Rightarrow> price \<Rightarrow> subscription \<Rightarrow> CheckoutResponse result" where
  "processCCBillUpgrade cfg env user newPrice existingSub =
     rbind (requireCCBillProcessorConfig cfg) (\<lambda>proc.
     if sub_Processor existingSub \<noteq> ProcessorCCBill then Inl (ErrMsg ''existing subscription is not a CCBill subscription'')
     else if sub_ProcessorSubscriptionID existingSub = [] then Inl (ErrMsg ''existing subscription is missing CCBill reference'')
     else
     rbind (ccbill_form (env_uuid_String env) ''target price '' newPrice) (\<lambda>(formName, flexID).
     rbind (ccbill_identity user) (\<lambda>email.
     rbind (wrapped ''failed to generate CCBill upgrade FlexForm URL''
              (GenerateUpgradeFlexFormURL cfg proc (ui_Username user) email formName flexID (sub_ProcessorSubscriptionID existingSub))) (\<lambda>url.
       Inr ((response ''redirect_required'' ''upgrade'' ''Redirect to CCBill upgrade form'')
              \<lparr>ko_RedirectURL := url, ko_SubscriptionID := Some (sub_ID existingSub)\<rparr>)))))"

section \<open>Hosted checkouts at Stripe\<close>

definition return_url :: "string \<Rightarrow> string \<Rightarrow> string" where
  "return_url requested configured = (if TrimSpace requested = [] then TrimSpace configured else TrimSpace requested)"

definition stripe_redirect ::
  "'g checkout_cfg \<Rightarrow> go_env \<Rightarrow> string \<Rightarrow> int \<Rightarrow> CheckoutRequest \<Rightarrow> UserIdentity \<Rightarrow> price \<Rightarrow>
   ('r, 'g) checkout_world \<Rightarrow> CheckoutResponse result \<times> ('r, 'g) checkout_world" where
  "stripe_redirect cfg env mode trialEnd req user price w =
     (case rbind (RequireStripeSecretKey (kc_stripe cfg)) (\<lambda>(proc, _).
           rbind (getStripePriceID price) (\<lambda>stripePriceID.
             let successURL = return_url (kr_SuccessURL req) (stp_SuccessURL proc); cancelURL = return_url (kr_CancelURL req) (stp_CancelURL proc)
             in if successURL = [] \<or> cancelURL = [] then Inl (ErrMsg ''stripe success/cancel URLs not available'')
                else Inr \<lparr>scp_Mode = mode, scp_PriceID = stripePriceID, scp_SuccessURL = successURL, scp_CancelURL = cancelURL,
                          scp_UserID = ui_ID user, scp_InternalPriceID = env_uuid_String env (price_ID price),
                          scp_TrialEnd = trialEnd, scp_CheckoutSessionID = kr_CheckoutSessionID req\<rparr>)) of
        Inl e \<Rightarrow> (Inl e, w)
      | Inr params \<Rightarrow>
          (case createStripeCheckoutSession (kc_stripe cfg) params (vw_gateway w) of
             (Inl e, g) \<Rightarrow> (Inl e, w\<lparr>vw_gateway := g\<rparr>)
           | (Inr url, g) \<Rightarrow>
               (Inr ((response ''redirect_required'' ''new'' ''Redirect to Stripe checkout'')\<lparr>ko_RedirectURL := url\<rparr>), w\<lparr>vw_gateway := g\<rparr>)))"

definition processStripeSubscription ::
  "'g checkout_cfg \<Rightarrow> go_env \<Rightarrow> CheckoutRequest \<Rightarrow> UserIdentity \<Rightarrow> price \<Rightarrow> CoverageInfo \<Rightarrow>
   ('r, 'g) checkout_world \<Rightarrow> CheckoutResponse result \<times> ('r, 'g) checkout_world" where
  "processStripeSubscription cfg env req user price coverage w =
     (let trialEnd = (if cov_HasCoverage coverage
                      then (case cov_EndDate coverage of
                              None \<Rightarrow> 0 | Some t \<Rightarrow> if t > env_now env + 5 * time_Minute then time_Unix t else 0)
                      else 0)
      in stripe_redirect cfg env ''subscription'' trialEnd req user price w)"

definition processStripePayment ::
  "'g checkout_cfg \<Rightarrow> go_env \<Rightarrow> CheckoutRequest \<Rightarrow> UserIdentity \<Rightarrow> price \<Rightarrow>
   ('r, 'g) checkout_world \<Rightarrow> CheckoutResponse result \<times> ('r, 'g) checkout_world" where
  "processStripePayment cfg env req user price w = stripe_redirect cfg env ''payment'' 0 req user price w"

section \<open>Checkout\<close>

definition CheckoutProcessSubscription ::
  "'g checkout_cfg \<Rightarrow> go_env \<Rightarrow> CheckoutRequest \<Rightarrow> UserIdentity \<Rightarrow> price \<Rightarrow> CoverageInfo \<Rightarrow> string \<Rightarrow>
   ('r, 'g) checkout_world \<Rightarrow> CheckoutResponse result \<times> ('r, 'g) checkout_world" where
  "CheckoutProcessSubscription cfg env req user price coverage processor w =
     (if processor = ''ccbill'' then (processCCBillSubscription cfg env req user price, w)
      else if IsNMIBacked (lc_nmi (kc_lifecycle cfg)) processor then processNMISubscription cfg env req user price coverage processor w
      else if processor = ''stripe'' then processStripeSubscription cfg env req user price coverage w
      else if processor = ''solana'' then (Inl (ErrMsg ''solana does not support recurring subscriptions; use a one-time price instead''), w)
      else (Inl (ErrMsg (''unsupported processor: '' @ processor)), w))"

definition processOneTimePurchase ::
  "'g checkout_cfg \<Rightarrow> go_env \<Rightarrow> CheckoutRequest \<Rightarrow> UserIdentity \<Rightarrow> price \<Rightarrow> product \<Rightarrow> string \<Rightarrow>
   ('r, 'g) checkout_world \<Rightarrow> CheckoutResponse result \<times> ('r, 'g) checkout_world" where
  "processOneTimePurchase cfg env req user price product processor w =
     (if IsNMIBacked (lc_nmi (kc_lifecycle cfg)) processor then processNMISale cfg env req user price product processor w
      else if processor = ''solana'' then (Inl (ErrMsg ''solana checkout is handled via /v1/checkout sessions''), w)
      else if processor = ''ccbill'' then (Inl (ErrMsg ''ccbill does not support one-time purchases; use a subscription price instead''), w)
      else if processor = ''stripe'' then processStripePayment cfg env req user price w
      else (Inl (ErrMsg (''unsupported processor for one-time purchases: '' @ processor)), w))"

definition checkout_checks_of :: "'g checkout_cfg \<Rightarrow> CheckoutRequest \<Rightarrow> billing_db \<Rightarrow> (price \<times> product \<times> string) result" where
  "checkout_checks_of cfg req db =
     rbind (wrapped ''invalid price_id'' (ParseID (lc_uuid_Parse (kc_lifecycle cfg)) Price (kr_PriceID req))) (\<lambda>priceID.
     rbind (wrapped ''price not found'' (PriceGetByID priceID db)) (\<lambda>price.
     if \<not> price_IsActive price then Inl (ErrMsg ''price is not available for purchase'')
     else
     rbind (wrapped ''product not found'' (ProductGetByID (price_ProductID price) db)) (\<lambda>product.
     if \<not> prod_IsActive product then Inl (ErrMsg ''product is not available for purchase'')
     else if TrimSpace (ToLower (kr_Processor req)) = [] then Inl (ErrMsg ''processor is required'')
     else Inr (price, product, TrimSpace (ToLower (kr_Processor req))))))"

text \<open>The check of the tier group: \<open>None\<close> lets the checkout go on.\<close>

definition tier_conflict :: "UserIdentity \<Rightarrow> product \<Rightarrow> billing_db \<Rightarrow> CheckoutResponse option result" where
  "tier_conflict user product db =
     (case prod_TierGroup product of
        None \<Rightarrow> Inr None
      | Some grp \<Rightarrow>
          if grp = [] then Inr None
          else (case GetActiveOrPendingByUserIDAndTierGroup (ui_ID user) grp db of
                  Inl e \<Rightarrow> if errors_Is e ErrNoRows then Inr None else Inl (ErrWrap ''failed to check tier group'' e)
                | Inr s \<Rightarrow>
                    rbind (sub_product s db) (\<lambda>existing.
                      case existing of
                        None \<Rightarrow> Inl (ErrMsg ''failed to load existing product for tier comparison'')
                      | Some p \<Rightarrow>
                          Inr (if prod_ID p = prod_ID product then None
                               else if prod_TierRank p < prod_TierRank product
                               then Some (response ''blocked'' [] ''Use POST /v1/me/subscriptions/change-tier for tier upgrades'')
                               else if prod_TierRank p > prod_TierRank product
                               then Some (response ''blocked'' [] ''Use POST /v1/me/subscriptions/change-tier for tier downgrades'')
                               else Some (response ''blocked'' []
                                      (''You already have an equivalent product ('' @ prod_DisplayName p @ '') in this tier''))))))"

definition Checkout ::
  "'g checkout_cfg \<Rightarrow> go_env \<Rightarrow> CheckoutRequest \<Rightarrow> UserIdentity \<Rightarrow> ('r, 'g) checkout_world \<Rightarrow>
   CheckoutResponse result \<times> ('r, 'g) checkout_world" where
  "Checkout cfg env req user w =
     (case checkout_checks_of cfg req (vw_billing w) of
        Inl e \<Rightarrow> (Inl e, w)
      | Inr (price, product, processor) \<Rightarrow>
          (case tier_conflict user product (vw_billing w) of
             Inl e \<Rightarrow> (Inl e, w)
           | Inr (Some refusal) \<Rightarrow> (Inr refusal, w)
           | Inr None \<Rightarrow>
               (let coverage = GetUserProductCoverage (env_now env) (ui_ID user) product (vw_billing w) in
                if cov_HasCoverage coverage \<and> cov_IsIndefinite coverage
                then (Inr (response ''blocked'' [] ''You already have active access to this product''), w)
                else if cov_HasCoverage coverage \<and> processor = ''ccbill''
                then (Inr (response ''blocked'' []
                        ''You already have active access. CCBill subscriptions cannot be scheduled for future start. Please try again when your current access expires.''), w)
                else if price_BillingCycleDays price \<noteq> None then CheckoutProcessSubscription cfg env req user price coverage processor w
                else processOneTimePurchase cfg env req user price product processor w)))"

end
