(* ===== verification/Tier_Changes.thy ===== *)
theory Tier_Changes
  imports Checkout
begin

text \<open>
  Changing the plan of a subscription, \<^verbatim>\<open>internal/modules/checkout/service.go\<close>: \<open>TierChange\<close> finds the subscription and the two products and
  hands over to the processor. At an NMI gateway an upgrade creates a successor, charges the proration and cancels the old
  subscription; a downgrade is scheduled for the next renewal. At Stripe both happen at once; at CCBill an upgrade is a link.
\<close>

section \<open>Upgrades at a gateway\<close>

definition replay_upgrade :: "'g checkout_cfg \<Rightarrow> string \<Rightarrow> CheckoutResponse" where
  "replay_upgrade cfg result =
     (case json_Unmarshal (kc_upgrade_json cfg) result of
        (cached, ok) \<Rightarrow>
          (response ''success'' ''upgrade'' (if ok then pi_Message cached else ''Upgrade already completed''))
            \<lparr>ko_TransactionID := pi_ProrationTransactionID cached,
             ko_SubscriptionID :=
               (if ok then Some (case lc_uuid_Parse (kc_lifecycle cfg) (pi_SubscriptionID cached) of None \<Rightarrow> uuid_Nil | Some i \<Rightarrow> i) else None)\<rparr>)"

definition cancelNMISubscription :: "'g checkout_cfg \<Rightarrow> string \<Rightarrow> string \<Rightarrow> 'g \<Rightarrow> unit result \<times> 'g" where
  "cancelNMISubscription cfg processorSubscriptionID provider g =
     (case nmi_client_of cfg provider of
        Inl e \<Rightarrow> (Inl e, g)
      | Inr client \<Rightarrow> DeleteRecurringSubscription client processorSubscriptionID g)"

text \<open>The checks before anything is charged: the period, the plan, the client.\<close>

definition gateway_checks ::
  "'g checkout_cfg \<Rightarrow> go_env \<Rightarrow> price \<Rightarrow> subscription \<Rightarrow> string \<Rightarrow> (time \<times> string \<times> 'g nmi_client) result" where
  "gateway_checks cfg env newPrice existingSub provider =
     (if provider = [] then Inl (ErrMsg ''processor is required for upgrades'')
      else (case sub_CurrentPeriodEndsAt existingSub of
              None \<Rightarrow> Inl (ErrMsg ''existing subscription missing current period end'')
            | Some t \<Rightarrow>
                if t = time_zero then Inl (ErrMsg ''existing subscription missing current period end'')
                else
                rbind (requireNMIPlanForProcessor (env_uuid_String env) newPrice provider) (\<lambda>planID.
                rbind (nmi_client_of cfg provider) (\<lambda>client. Inr (t, planID, client)))))"

text \<open>The proration is charged only if there is one; without it the transaction is empty.\<close>

definition charge_proration ::
  "go_env \<Rightarrow> 'g nmi_client \<Rightarrow> int \<Rightarrow> string \<Rightarrow> price \<Rightarrow> price \<Rightarrow> subscription \<Rightarrow> 'g \<Rightarrow> string result \<times> 'g" where
  "charge_proration env client amount vaultID oldPrice newPrice existingSub g =
     (if amount > 0
      then map_prod (map_sum id sr_TransactionID) id
             (RunSale client
               \<lparr>sp_CustomerVaultID = vaultID, sp_Amount = amount, sp_Currency = price_Currency newPrice,
                sp_OrderDescription = ''Upgrade proration: '' @ price_DisplayName oldPrice @ '' to '' @ price_DisplayName newPrice,
                sp_OrderID = ''upgrade-'' @ take 8 (env_uuid_String env (sub_ID existingSub)) @ ''-'' @
                  take 8 (env_uuid_String env (env_uuid env 2))\<rparr> g)
      else (Inr [], g))"

text \<open>The windows of the new tier; a refused one is logged.\<close>

definition upgrade_push :: "string \<Rightarrow> time \<Rightarrow> uuid \<Rightarrow> string \<times> int option \<Rightarrow> PushNewEntitlementParams" where
  "upgrade_push u now i spec =
     (let finite = (case snd spec of None \<Rightarrow> False | Some d \<Rightarrow> d > 0)
      in \<lparr>push_UserID = u, push_Entitlement = fst spec, push_NotBefore = Some now, push_Indefinite = \<not> finite,
          push_Duration = (if finite then map_option days_duration (snd spec) else None), push_EndAt = None,
          push_SourceType = EntitlementSourceSubscription, push_SourceID = i\<rparr>)"

fun grant_upgrade :: "go_env \<Rightarrow> string \<Rightarrow> uuid \<Rightarrow> (string \<times> int option) list \<Rightarrow> entitlement list \<Rightarrow> entitlement list" where
  "grant_upgrade env u i [] rows = rows"
| "grant_upgrade env u i (x # spec) rows =
     grant_upgrade (env_shift 1 env) u i spec
       (case PushNewEntitlement env (upgrade_push u (env_now env) i x) rows of Inl _ \<Rightarrow> rows | Inr (_, rows') \<Rightarrow> rows')"

text \<open>The two rows: the old subscription is marked as cancelled, with an error only logged, and the successor is saved.\<close>

definition superseded :: "time \<Rightarrow> subscription \<Rightarrow> subscription" where
  "superseded now s =
     s\<lparr>sub_Status := StatusCancelled, sub_CancelledAt := Some now, sub_CancelType := Some CancelTypeUpgrade, sub_CancelFeedback := None\<rparr>"

definition upgrade_rows ::
  "'g checkout_cfg \<Rightarrow> time \<Rightarrow> subscription \<Rightarrow> subscription \<Rightarrow> subscription list \<Rightarrow> subscription list result \<times> subscription list" where
  "upgrade_rows cfg now existingSub successor rows =
     (let rows1 = (case SubscriptionRepoUpdate (lc_nz (kc_lifecycle cfg)) now (superseded now existingSub) rows of Inl _ \<Rightarrow> rows | Inr r \<Rightarrow> r)
      in case SubscriptionServiceCreate (lc_nz (kc_lifecycle cfg)) successor rows1 of
           Inl e \<Rightarrow> (Inl e, rows1)
         | Inr rows2 \<Rightarrow> (Inr rows2, rows2))"

definition upgrade_body ::
  "'g checkout_cfg \<Rightarrow> go_env \<Rightarrow> CheckoutRequest \<Rightarrow> UserIdentity \<Rightarrow> price \<Rightarrow> product \<Rightarrow> subscription \<Rightarrow> price option \<Rightarrow> string \<Rightarrow> string \<Rightarrow>
   ('r, 'g) checkout_world \<Rightarrow> CheckoutResponse result \<times> ('r, 'g) checkout_world" where
  "upgrade_body cfg env req user newPrice newProduct existingSub existingPrice provider key w =
     (let now = env_now env; failed = idem_failed cfg now ''nmi_upgrade'' key; i = env_uuid env 1 in
      case (case existingPrice of
              None \<Rightarrow> Inl (ErrMsg ''existing subscription missing price data'')
            | Some oldPrice \<Rightarrow> map_sum id (Pair oldPrice) (gateway_checks cfg env newPrice existingSub provider)) of
        Inl e \<Rightarrow> (Inl e, failed e w)
      | Inr (oldPrice, periodEnd, planID, client) \<Rightarrow>
      (case ResolveVault cfg env req user provider w of
        (Inl e, w1) \<Rightarrow> (Inl e, failed e w1)
      | (Inr (vaultID, created), w1) \<Rightarrow>
      (case AddRecurringSubscription client
              (recurring_data req user newPrice planID vaultID (env_uuid_String env i) (fst (buildNMIFutureStartDate periodEnd now)))
              (vw_gateway w1) of
        (Inl e, g) \<Rightarrow>
          (let e' = localized ''failed to create upgraded subscription'' e in (Inl e', failed e' (w1\<lparr>vw_gateway := g\<rparr>)))
      | (Inr resp, g1) \<Rightarrow>
      (let amount = fst (CalculateProration (price_Amount oldPrice) (price_Amount newPrice) (sub_CurrentPeriodEndsAt existingSub)
                           (price_BillingCycleDays oldPrice) now) in
       case charge_proration env client amount vaultID oldPrice newPrice existingSub g1 of
        (Inl e, g2) \<Rightarrow>
          (let e' = ErrWrap ''failed to charge proration'' e; g3 = snd (cancelNMISubscription cfg (as_SubscriptionID resp) provider g2)
           in (Inl e', failed e' (drop_vault cfg created (w1\<lparr>vw_gateway := g3\<rparr>))))
      | (Inr txn, g2) \<Rightarrow>
      (let g3 = snd (cancelNMISubscription cfg (sub_ProcessorSubscriptionID existingSub) provider g2);
           successor = (new_subscription cfg now req user newPrice provider i (as_SubscriptionID resp) StatusActive created)
             \<lparr>sub_CurrentPeriodStartsAt := sub_CurrentPeriodStartsAt existingSub, sub_CurrentPeriodEndsAt := sub_CurrentPeriodEndsAt existingSub\<rparr> in
       case upgrade_rows cfg now existingSub successor (bdb_subs (vw_billing w1)) of
        (Inl e, rows) \<Rightarrow>
          (let e' = ErrWrap ''failed to save upgraded subscription'' e
           in (Inl e', failed e' (w1\<lparr>vw_gateway := g3, vw_billing := (vw_billing w1)\<lparr>bdb_subs := rows\<rparr>\<rparr>)))
      | (Inr rows, _) \<Rightarrow>
          (let ents = grant_upgrade (env_shift 3 env) (ui_ID user) i (prod_EntitlementsSpec newProduct) (bdb_ents (vw_billing w1));
               msg = ''Upgraded to '' @ prod_DisplayName newProduct @ ''. Prorated charge: '' @ FormatUSD amount
           in (Inr ((response ''success'' ''upgrade'' msg)\<lparr>ko_SubscriptionID := Some i, ko_TransactionID := txn\<rparr>),
               idem_completed now ''nmi_upgrade'' key
                 (json_Marshal (kc_upgrade_json cfg)
                    \<lparr>pi_SubscriptionID = env_uuid_String env i, pi_ProrationTransactionID = txn, pi_Message = msg\<rparr>)
                 (w1\<lparr>vw_gateway := g3, vw_billing := (vw_billing w1)\<lparr>bdb_subs := rows, bdb_ents := ents\<rparr>\<rparr>))))))))"

definition processUpgrade ::
  "'g checkout_cfg \<Rightarrow> go_env \<Rightarrow> CheckoutRequest \<Rightarrow> UserIdentity \<Rightarrow> price \<Rightarrow> product \<Rightarrow> subscription \<Rightarrow> price option \<Rightarrow> string \<Rightarrow>
   ('r, 'g) checkout_world \<Rightarrow> CheckoutResponse result \<times> ('r, 'g) checkout_world" where
  "processUpgrade cfg env req user newPrice newProduct existingSub existingPrice processor w =
     (let key = getUpgradeIdempotencyKey (env_uuid_String env) req (ui_ID user) (sub_ID existingSub) (price_ID newPrice) in
      if processor = ''ccbill'' then (processCCBillUpgrade cfg env user newPrice existingSub, w)
      else if processor = ''solana'' then (Inl (ErrMsg ''solana does not support subscription upgrades''), w)
      else if \<not> IsNMIBacked (lc_nmi (kc_lifecycle cfg)) processor
      then (Inl (ErrMsg (''unsupported processor for upgrades: '' @ processor)), w)
      else under_key env ''nmi_upgrade'' key ''upgrade already in progress, please wait''
             ''previous upgrade attempt failed, please try again'' (replay_upgrade cfg)
             (upgrade_body cfg env req user newPrice newProduct existingSub existingPrice (Lower processor) key) w)"

section \<open>Downgrades at a gateway\<close>

definition month_name :: "int \<Rightarrow> string" where
  "month_name m = [''January'', ''February'', ''March'', ''April'', ''May'', ''June'', ''July'', ''August'', ''September'',
     ''October'', ''November'', ''December''] ! nat (m - 1)"

definition format_long_date :: "time \<Rightarrow> string" where
  "format_long_date t = (case civil (t div day_ns) of (y, m, d) \<Rightarrow> month_name m @ '' '' @ decimal d @ '', '' @ pad_digits 4 y)"

definition ccbill_downgrade_message :: string where
  "ccbill_downgrade_message =
     ''CCBill subscription downgrades are not supported. Please cancel your current subscription and wait for it to expire, then subscribe to the lower tier.''"

definition processDowngrade ::
  "'g checkout_cfg \<Rightarrow> go_env \<Rightarrow> price \<Rightarrow> product \<Rightarrow> subscription \<Rightarrow> string \<Rightarrow>
   ('r, 'g) checkout_world \<Rightarrow> CheckoutResponse result \<times> ('r, 'g) checkout_world" where
  "processDowngrade cfg env newPrice newProduct existingSub processor w =
     (let provider = Lower processor in
      if processor = ''ccbill'' then (Inr (response ''blocked'' [] ccbill_downgrade_message), w)
      else if processor = ''solana'' then (Inl (ErrMsg ''solana does not support subscription downgrades''), w)
      else if \<not> IsNMIBacked (lc_nmi (kc_lifecycle cfg)) processor
      then (Inl (ErrMsg (''unsupported processor for downgrades: '' @ processor)), w)
      else if provider = [] then (Inl (ErrMsg ''processor is required for downgrades''), w)
      else (case requireNMIPlanForProcessor (env_uuid_String env) newPrice provider of
              Inl e \<Rightarrow> (Inl e, w)
            | Inr _ \<Rightarrow>
                if sub_ScheduledPriceID existingSub \<noteq> None
                then (Inr (response ''blocked'' []
                        ''You already have a tier change scheduled. Please wait for the current period to end or cancel the scheduled change first.''), w)
                else
                (case SubscriptionRepoUpdate (lc_nz (kc_lifecycle cfg)) (env_now env)
                        (existingSub\<lparr>sub_ScheduledPriceID := Some (price_ID newPrice)\<rparr>) (bdb_subs (vw_billing w)) of
                   Inl e \<Rightarrow> (Inl (ErrWrap ''failed to schedule downgrade'' e), w)
                 | Inr rows \<Rightarrow>
                     (Inr ((response ''success'' ''downgrade''
                             (''Downgrade to '' @ prod_DisplayName newProduct @ '' scheduled. Your current plan will remain active until '' @
                              (case sub_CurrentPeriodEndsAt existingSub of
                                 None \<Rightarrow> ''the end of your current billing period'' | Some t \<Rightarrow> format_long_date t) @ ''.''))
                        \<lparr>ko_SubscriptionID := Some (sub_ID existingSub), ko_DelayedStart := sub_CurrentPeriodEndsAt existingSub\<rparr>),
                      w\<lparr>vw_billing := (vw_billing w)\<lparr>bdb_subs := rows\<rparr>\<rparr>))))"

section \<open>The change of a plan\<close>

record TierChangeRequest =
  tr_PriceID :: string
  tr_SubscriptionID :: uuid
  tr_IdempotencyKey :: string

record TierChangeResponse =
  tc_Status :: string
  tc_Action :: string
  tc_PriceID :: string
  tc_Processor :: string
  tc_TransactionID :: string
  tc_RedirectURL :: string
  tc_SubscriptionID :: "string option"
  tc_NextAction :: "string option"
  tc_Message :: string
  tc_DelayedStart :: "time option"

definition tier_response :: "go_env \<Rightarrow> string \<Rightarrow> string \<Rightarrow> price \<Rightarrow> string \<Rightarrow> string \<Rightarrow> TierChangeResponse" where
  "tier_response env status action newPrice processor msg =
     \<lparr>tc_Status = status, tc_Action = action, tc_PriceID = FormatID (env_uuid_String env) Price (price_ID newPrice),
      tc_Processor = processor, tc_TransactionID = [], tc_RedirectURL = [], tc_SubscriptionID = None, tc_NextAction = None,
      tc_Message = msg, tc_DelayedStart = None\<rparr>"

definition redirect_to_url :: "string \<Rightarrow> string option" where
  "redirect_to_url url = (if url = [] then None else Some url)"

definition mapCheckoutToTierChangeResponse :: "go_env \<Rightarrow> CheckoutResponse \<Rightarrow> price \<Rightarrow> string \<Rightarrow> TierChangeResponse" where
  "mapCheckoutToTierChangeResponse env resp newPrice action =
     (tier_response env
        (if ko_Status resp = ''success'' then ''succeeded'' else if ko_Status resp = ''redirect_required'' then ''requires_action''
         else ko_Status resp) action newPrice [] (ko_Message resp))
       \<lparr>tc_TransactionID := ko_TransactionID resp, tc_DelayedStart := ko_DelayedStart resp,
        tc_SubscriptionID := map_option (FormatID (env_uuid_String env) Subscription) (ko_SubscriptionID resp),
        tc_RedirectURL := ko_RedirectURL resp, tc_NextAction := redirect_to_url (ko_RedirectURL resp)\<rparr>"

text \<open>The request that is made up for the existing upgrade and downgrade: it names no card.\<close>

definition synthetic_request :: "TierChangeRequest \<Rightarrow> subscription \<Rightarrow> CheckoutRequest" where
  "synthetic_request req existingSub =
     \<lparr>kr_PriceID = tr_PriceID req, kr_PaymentMethodID = [], kr_PaymentToken = [], kr_Processor = sub_Processor existingSub,
      kr_SuccessURL = [], kr_CancelURL = [], kr_IdempotencyKey = tr_IdempotencyKey req, kr_CheckoutSessionID = [], kr_Email = [],
      kr_FirstName = [], kr_LastName = [], kr_Address1 = [], kr_City = [], kr_State = [], kr_Zip = [], kr_Country = [],
      kr_LastFour = [], kr_CardType = [], kr_ExpiryDate = [], kr_Metadata = []\<rparr>"

definition processTierChangeNMI ::
  "'g checkout_cfg \<Rightarrow> go_env \<Rightarrow> TierChangeRequest \<Rightarrow> UserIdentity \<Rightarrow> price \<Rightarrow> product \<Rightarrow> subscription \<Rightarrow> price \<Rightarrow> string \<Rightarrow>
   ('r, 'g) checkout_world \<Rightarrow> TierChangeResponse result \<times> ('r, 'g) checkout_world" where
  "processTierChangeNMI cfg env req user newPrice newProduct existingSub currentPrice action w =
     map_prod (map_sum id (\<lambda>resp. mapCheckoutToTierChangeResponse env resp newPrice action)) id
       (if action = ''upgrade''
        then processUpgrade cfg env (synthetic_request req existingSub) user newPrice newProduct existingSub (Some currentPrice)
               (sub_Processor existingSub) w
        else processDowngrade cfg env newPrice newProduct existingSub (sub_Processor existingSub) w)"

definition processTierChangeStripe ::
  "'g checkout_cfg \<Rightarrow> go_env \<Rightarrow> price \<Rightarrow> subscription \<Rightarrow> string \<Rightarrow>
   ('r, 'g) checkout_world \<Rightarrow> TierChangeResponse result \<times> ('r, 'g) checkout_world" where
  "processTierChangeStripe cfg env newPrice existingSub action w =
     (let pid = sub_ProcessorSubscriptionID existingSub; down = (action = ''downgrade'') in
      case GetStripeConfig newPrice of
        (stripePriceID, ok) \<Rightarrow>
      if \<not> ok \<or> TrimSpace stripePriceID = [] then (Inl (TierChangeError 400 ''target price not configured for Stripe''), w)
      else if TrimSpace pid = [] then (Inl (TierChangeError 400 ''subscription missing Stripe reference''), w)
      else (case GetSubscriptionItemID (kc_stripe cfg) pid (vw_gateway w) of
        (Inl e, g) \<Rightarrow> (Inl (TierChangeError 400 (kc_message cfg e)), w\<lparr>vw_gateway := g\<rparr>)
      | (Inr itemID, g) \<Rightarrow>
      (case UpdateSubscriptionPrice (kc_stripe cfg) pid itemID stripePriceID (if down then ''none'' else ''create_prorations'')
              (if down then ''unchanged'' else ''now'') g of
        (Inl e, g') \<Rightarrow> (Inl (TierChangeError 400 (kc_message cfg e)), w\<lparr>vw_gateway := g'\<rparr>)
      | (Inr _, g') \<Rightarrow>
      (case SubscriptionRepoUpdate (lc_nz (kc_lifecycle cfg)) (env_now env)
              (existingSub\<lparr>sub_PriceID := price_ID newPrice, sub_ProductID := price_ProductID newPrice, sub_ScheduledPriceID := None\<rparr>)
              (bdb_subs (vw_billing w)) of
        Inl e \<Rightarrow> (Inl (TierChangeError 500 ''failed to update subscription''), w\<lparr>vw_gateway := g'\<rparr>)
      | Inr rows \<Rightarrow>
          (Inr ((tier_response env ''succeeded'' action newPrice ''stripe'' (if down then ''Plan downgraded'' else ''Plan updated''))
                  \<lparr>tc_SubscriptionID := Some (FormatID (env_uuid_String env) Subscription (sub_ID existingSub))\<rparr>),
           w\<lparr>vw_gateway := g', vw_billing := (vw_billing w)\<lparr>bdb_subs := rows\<rparr>\<rparr>)))))"

definition processTierChangeCCBill ::
  "'g checkout_cfg \<Rightarrow> go_env \<Rightarrow> UserIdentity \<Rightarrow> price \<Rightarrow> subscription \<Rightarrow> string \<Rightarrow> TierChangeResponse result" where
  "processTierChangeCCBill cfg env user newPrice existingSub action =
     (if action = ''downgrade'' then Inr (tier_response env ''blocked'' action newPrice ''ccbill'' ccbill_downgrade_message)
      else map_sum id (\<lambda>resp.
             (tier_response env ''requires_action'' action newPrice ''ccbill'' ''Redirect to CCBill to complete upgrade'')
               \<lparr>tc_SubscriptionID := Some (FormatID (env_uuid_String env) Subscription (sub_ID existingSub)),
                tc_RedirectURL := ko_RedirectURL resp, tc_NextAction := redirect_to_url (ko_RedirectURL resp)\<rparr>)
             (processCCBillUpgrade cfg env user newPrice existingSub))"

text \<open>An error of the service keeps its status; an error of the lookup behind it is replaced.\<close>

definition tier_error :: "int \<Rightarrow> string \<Rightarrow> 'a result \<Rightarrow> 'a result" where
  "tier_error status msg r = map_sum (\<lambda>_. TierChangeError status msg) id r"

definition tier_target :: "'g checkout_cfg \<Rightarrow> TierChangeRequest \<Rightarrow> billing_db \<Rightarrow> (price \<times> product) result" where
  "tier_target cfg req db =
     rbind (tier_error 400 ''invalid price_id'' (ParseID (lc_uuid_Parse (kc_lifecycle cfg)) Price (tr_PriceID req))) (\<lambda>priceID.
     rbind (tier_error 404 ''price not found'' (PriceGetByID priceID db)) (\<lambda>newPrice.
     if \<not> price_IsActive newPrice then Inl (TierChangeError 400 ''price is not available'')
     else
     rbind (tier_error 404 ''product not found'' (ProductGetByID (price_ProductID newPrice) db)) (\<lambda>newProduct.
     if \<not> prod_IsActive newProduct then Inl (TierChangeError 400 ''product is not available'')
     else Inr (newPrice, newProduct))))"

definition tier_subscription :: "time \<Rightarrow> TierChangeRequest \<Rightarrow> UserIdentity \<Rightarrow> billing_db \<Rightarrow> subscription result" where
  "tier_subscription now req user db =
     (if tr_SubscriptionID req \<noteq> uuid_Nil
      then rbind (tier_error 404 ''subscription not found'' (SubGetByID (tr_SubscriptionID req) (bdb_subs db))) (\<lambda>s.
             if sub_UserID s \<noteq> ui_ID user then Inl (TierChangeError 404 ''subscription not found'') else Inr s)
      else map_sum (\<lambda>_. ErrMsg ''no active subscription found'') id (GetActiveSubscription now (ui_ID user) (bdb_subs db)))"

definition tier_current :: "subscription \<Rightarrow> billing_db \<Rightarrow> (price \<times> product) result" where
  "tier_current s db =
     rbind (tier_error 500 ''current price not found'' (PriceGetByID (sub_PriceID s) db)) (\<lambda>currentPrice.
     rbind (tier_error 500 ''current product not found'' (ProductGetByID (price_ProductID currentPrice) db)) (\<lambda>currentProduct.
       Inr (currentPrice, currentProduct)))"

definition tier_compatible :: "product \<Rightarrow> product \<Rightarrow> unit result" where
  "tier_compatible currentProduct newProduct =
     (if prod_ID currentProduct = prod_ID newProduct then Inl (ErrMsg ''already on this plan'')
      else (case (prod_TierGroup currentProduct, prod_TierGroup newProduct) of
              (Some a, Some b) \<Rightarrow> if TrimSpace a \<noteq> TrimSpace b then Inl (ErrMsg ''cannot change to a different tier group'') else Inr ()
            | _ \<Rightarrow> Inr ()))"

definition tier_action :: "product \<Rightarrow> product \<Rightarrow> string" where
  "tier_action currentProduct newProduct = (if prod_TierRank newProduct < prod_TierRank currentProduct then ''downgrade'' else ''upgrade'')"

definition TierChange ::
  "'g checkout_cfg \<Rightarrow> go_env \<Rightarrow> TierChangeRequest \<Rightarrow> UserIdentity \<Rightarrow> ('r, 'g) checkout_world \<Rightarrow>
   TierChangeResponse result \<times> ('r, 'g) checkout_world" where
  "TierChange cfg env req user w =
     (case rbind (tier_target cfg req (vw_billing w)) (\<lambda>(newPrice, newProduct).
           rbind (tier_subscription (env_now env) req user (vw_billing w)) (\<lambda>s.
           rbind (tier_current s (vw_billing w)) (\<lambda>(currentPrice, currentProduct).
           rbind (tier_compatible currentProduct newProduct) (\<lambda>_.
             Inr (newPrice, newProduct, s, currentPrice, tier_action currentProduct newProduct))))) of
        Inl e \<Rightarrow> (Inl e, w)
      | Inr (newPrice, newProduct, s, currentPrice, action) \<Rightarrow>
          (let processor = sub_Processor s in
           if processor = ''stripe'' then processTierChangeStripe cfg env newPrice s action w
           else if IsNMIBacked (lc_nmi (kc_lifecycle cfg)) processor
           then processTierChangeNMI cfg env req user newPrice newProduct s currentPrice action w
           else if processor = ''ccbill'' then (processTierChangeCCBill cfg env user newPrice s action, w)
           else if processor = ''solana'' then (Inl (TierChangeError 400 ''Solana subscriptions do not support tier changes''), w)
           else (Inl (TierChangeError 400 (''unsupported processor: '' @ processor)), w)))"

end
