(* ===== verification/Subscription_Services.thy ===== *)
theory Subscription_Services
  imports Vault Stripe_Client Lifecycle_Properties
begin

text \<open>
  The services behind the endpoints of members and administrators, \<^verbatim>\<open>internal/modules/subscriptions/user_service.go\<close> and \<^verbatim>\<open>admin_service.go\<close>,
  and the two workers that cancel and resume a subscription on request, \<^verbatim>\<open>internal/river/jobs_subscription_manage.go\<close>. The services do not
  use a transaction: what was written before an error stays. The clients of the gateways are looked up by the processor's name.
  The listings add the price and the product of a row where they are found.
\<close>

section \<open>What a member sees\<close>

record UserAccessGrant =
  ag_Kind :: string
  ag_Entitlement :: string
  ag_SourceType :: "EntitlementSourceType option"
  ag_SourceID :: "uuid option"
  ag_SubscriptionID :: "uuid option"
  ag_Processor :: string
  ag_ProcessorSubscriptionID :: "string option"
  ag_StartAt :: time
  ag_EndAt :: "time option"

record UserSubscriptionResponse =
  ur_Subscription :: "subscription option"
  ur_Price :: "price option"
  ur_Product :: "product option"
  ur_Access :: "UserAccessGrant option"

definition nonzero :: "time option \<Rightarrow> time option" where
  "nonzero t = (if t = Some time_zero then None else t)"

definition accessFromSubscription :: "subscription \<Rightarrow> UserAccessGrant" where
  "accessFromSubscription s =
     \<lparr>ag_Kind = ''subscription'', ag_Entitlement = ''premium'', ag_SourceType = None, ag_SourceID = None,
      ag_SubscriptionID = (if sub_ID s \<noteq> uuid_Nil then Some (sub_ID s) else None), ag_Processor = sub_Processor s,
      ag_ProcessorSubscriptionID = (if sub_ProcessorSubscriptionID s \<noteq> [] then Some (sub_ProcessorSubscriptionID s) else None),
      ag_StartAt = (case nonzero (sub_CurrentPeriodStartsAt s) of Some t \<Rightarrow> t | None \<Rightarrow> sub_StartedAt s),
      ag_EndAt = nonzero (sub_CurrentPeriodEndsAt s)\<rparr>"

definition enriched :: "billing_db \<Rightarrow> subscription \<Rightarrow> price option \<times> product option" where
  "enriched db s =
     (case PriceGetByID (sub_PriceID s) db of
        Inl _ \<Rightarrow> (None, None)
      | Inr price \<Rightarrow> (Some price, case ProductGetByID (price_ProductID price) db of Inl _ \<Rightarrow> None | Inr p \<Rightarrow> Some p))"

definition user_response :: "billing_db \<Rightarrow> subscription \<Rightarrow> UserSubscriptionResponse" where
  "user_response db s =
     (let found = (if sub_PriceID s = uuid_Nil then (None, None) else enriched db s)
      in \<lparr>ur_Subscription = Some s, ur_Price = fst found, ur_Product = snd found, ur_Access = Some (accessFromSubscription s)\<rparr>)"

text \<open>The source of a window always has a type in the model.\<close>

definition entitlement_grant :: "entitlement \<Rightarrow> UserAccessGrant" where
  "entitlement_grant e =
     \<lparr>ag_Kind = ''entitlement'', ag_Entitlement = ent_Entitlement e, ag_SourceType = Some (ent_SourceType e), ag_SourceID = ent_SourceID e,
      ag_SubscriptionID = (if ent_SourceType e = EntitlementSourceSubscription then ent_SourceID e else None),
      ag_Processor = [], ag_ProcessorSubscriptionID = None, ag_StartAt = ent_StartAt e, ag_EndAt = ent_EndAt e\<rparr>"

definition entitlementAccessGrants :: "time \<Rightarrow> string \<Rightarrow> uuid set \<Rightarrow> entitlement list \<Rightarrow> UserAccessGrant list" where
  "entitlementAccessGrants now u skipSubs rows =
     map entitlement_grant
       (filter (\<lambda>e. ent_Entitlement e \<noteq> [] \<and>
          \<not> (ent_SourceType e = EntitlementSourceSubscription \<and> (case ent_SourceID e of None \<Rightarrow> False | Some i \<Rightarrow> i \<in> skipSubs)))
         (ListActiveRecords u now rows))"

definition activeEntitlementAccess :: "time \<Rightarrow> string \<Rightarrow> entitlement list \<Rightarrow> UserAccessGrant option" where
  "activeEntitlementAccess now u rows = (case entitlementAccessGrants now u {} rows of [] \<Rightarrow> None | g # _ \<Rightarrow> Some g)"

definition GetUserSubscription :: "time \<Rightarrow> string \<Rightarrow> billing_db \<Rightarrow> UserSubscriptionResponse result" where
  "GetUserSubscription now u db =
     (case GetActiveSubscription now u (bdb_subs db) of
        Inr s \<Rightarrow> Inr (user_response db s)
      | Inl e \<Rightarrow>
          if errors_Is e ErrNoRows
          then (case activeEntitlementAccess now u (bdb_ents db) of
                  Some access \<Rightarrow> Inr \<lparr>ur_Subscription = None, ur_Price = None, ur_Product = None, ur_Access = Some access\<rparr>
                | None \<Rightarrow> Inl ErrNoRows)
          else Inl (ErrWrap ''failed to get subscription'' e))"

definition GetUserAccessStatus :: "time \<Rightarrow> string \<Rightarrow> billing_db \<Rightarrow> UserAccessGrant list result" where
  "GetUserAccessStatus now u db =
     (case GetActiveSubscription now u (bdb_subs db) of
        Inl e \<Rightarrow>
          if \<not> errors_Is e ErrNoRows then Inl (ErrWrap ''failed to fetch subscription access'' e)
          else (case entitlementAccessGrants now u {} (bdb_ents db) of [] \<Rightarrow> Inl ErrNoRows | grants \<Rightarrow> Inr grants)
      | Inr s \<Rightarrow> Inr (accessFromSubscription s # entitlementAccessGrants now u {sub_ID s} (bdb_ents db)))"

definition GetUserSubscriptionByID :: "string \<Rightarrow> uuid \<Rightarrow> billing_db \<Rightarrow> UserSubscriptionResponse result" where
  "GetUserSubscriptionByID u i db =
     (case SubGetByID i (bdb_subs db) of
        Inl e \<Rightarrow> Inl (if errors_Is e ErrNoRows then ErrMsg ''subscription not found'' else ErrWrap ''failed to get subscription'' e)
      | Inr s \<Rightarrow> if sub_UserID s \<noteq> u then Inl (ErrMsg ''subscription not found'') else Inr (user_response db s))"

definition GetUserNotifications :: "string \<Rightarrow> NotificationFilters \<Rightarrow> nat \<Rightarrow> nat \<Rightarrow> notification list \<Rightarrow> notification list \<times> nat" where
  "GetUserNotifications u f limit offset rows =
     GetNotifications (if nf_UserID f = [] then f\<lparr>nf_UserID := u\<rparr> else f) limit offset rows"

definition MarkNotificationRead :: "string \<Rightarrow> uuid \<Rightarrow> notification list \<Rightarrow> unit result \<times> notification list" where
  "MarkNotificationRead u i rows =
     (case NotificationGetByID i rows of
        Inl e \<Rightarrow> (Inl (ErrWrap ''notification not found'' e), rows)
      | Inr n \<Rightarrow>
          if nq_UserID n \<noteq> u then (Inl (ErrMsg ''notification does not belong to user''), rows)
          else (case NotificationUpdate (n\<lparr>nq_Seen := True\<rparr>) rows of Inl e \<Rightarrow> (Inl e, rows) | Inr rows' \<Rightarrow> (Inr (), rows')))"

section \<open>Cancelling as a member\<close>

text \<open>A notification whose failure is only logged, outside a transaction.\<close>

definition notify_logged :: "uuid \<Rightarrow> string \<Rightarrow> string \<Rightarrow> (string \<times> string) list \<Rightarrow> billing_db \<Rightarrow> billing_db" where
  "notify_logged i u event data db =
     (case NotificationCreate \<lparr>nq_ID = i, nq_UserID = u, nq_EventType = event, nq_Data = data, nq_Seen = False\<rparr> (bdb_notifications db) of
        Inl _ \<Rightarrow> db | Inr rows \<Rightarrow> db\<lparr>bdb_notifications := rows\<rparr>)"

text \<open>The new state of the row; the feedback is kept when none is given.\<close>

definition cancelled_by :: "time \<Rightarrow> CancelType \<Rightarrow> string \<Rightarrow> subscription \<Rightarrow> subscription" where
  "cancelled_by now cancelType feedback s =
     s\<lparr>sub_Status := StatusCancelled, sub_CancelledAt := Some now, sub_CancelType := Some cancelType,
       sub_CancelFeedback := (if feedback \<noteq> [] then Some feedback else sub_CancelFeedback s)\<rparr>"

definition CCBillCancelError :: go_error where
  "CCBillCancelError = ErrMsg ''CCBill subscriptions cannot be cancelled through our system. Please visit the CCBill consumer support portal to manage your subscription. You will need the email address you used when subscribing.''"

definition UserCancelSubscription ::
  "lifecycle_cfg \<Rightarrow> (string \<rightharpoonup> 'g nmi_client) \<Rightarrow> go_env \<Rightarrow> string \<Rightarrow> string \<Rightarrow> ('g, 'z) vault_world_scheme \<Rightarrow>
   unit result \<times> ('g, 'z) vault_world_scheme" where
  "UserCancelSubscription cfg clients env u feedback w =
     (case GetActiveSubscription (env_now env) u (bdb_subs (vw_billing w)) of
        Inl e \<Rightarrow> (Inl (ErrWrap ''subscription not found'' e), w)
      | Inr s \<Rightarrow>
          if sub_Processor s = ProcessorCCBill then (Inl CCBillCancelError, w)
          else if \<not> IsNMIBacked (lc_nmi cfg) (sub_Processor s)
          then (Inl (ErrMsg (''unable to cancel subscription for processor '' @ sub_Processor s)), w)
          else
          (case (case clients (ToLower (sub_Processor s)) of
                   None \<Rightarrow> (Inr (), vw_gateway w)
                 | Some client \<Rightarrow>
                     if sub_ProcessorSubscriptionID s = [] then (Inr (), vw_gateway w)
                     else DeleteRecurringSubscription client (sub_ProcessorSubscriptionID s) (vw_gateway w)) of
             (Inl e, g) \<Rightarrow>
               (Inl (ErrWrap (''failed to cancel subscription with processor '' @ quoted (ToLower (sub_Processor s))) e), w\<lparr>vw_gateway := g\<rparr>)
           | (Inr _, g) \<Rightarrow>
               (case SubscriptionRepoUpdate (lc_nz cfg) (env_now env) (cancelled_by (env_now env) CancelTypeUser feedback s)
                       (bdb_subs (vw_billing w)) of
                  Inl e \<Rightarrow> (Inl (ErrWrap ''failed to update subscription status'' e), w\<lparr>vw_gateway := g\<rparr>)
                | Inr rows \<Rightarrow>
                    (Inr (), w\<lparr>vw_gateway := g,
                       vw_billing := notify_logged (env_uuid env 0) u ''premium_ended'' [(''reason'', ''user_cancel'')]
                                       ((vw_billing w)\<lparr>bdb_subs := rows\<rparr>)\<rparr>))))"

text \<open>The same in the subscription service itself, which knows no processor.\<close>

definition CancelUserSubscription :: "bool \<Rightarrow> go_env \<Rightarrow> string \<Rightarrow> string \<Rightarrow> billing_db \<Rightarrow> unit result \<times> billing_db" where
  "CancelUserSubscription nz env u feedback db =
     (case GetLatestByUserID u (bdb_subs db) of
        Inl e \<Rightarrow> (Inl (ErrWrap ''subscription not found'' e), db)
      | Inr s \<Rightarrow>
          if sub_Status s \<noteq> StatusActive then (Inl (ErrMsg ''subscription is not active''), db)
          else
            (case SubscriptionRepoUpdate nz (env_now env) (cancelled_by (env_now env) CancelTypeUser feedback s) (bdb_subs db) of
               Inl e \<Rightarrow> (Inl (ErrWrap ''failed to update subscription'' e), db)
             | Inr rows \<Rightarrow>
                 (Inr (), notify_logged (env_uuid env 0) u ''premium_ended'' [(''reason'', ''user_cancel'')] (db\<lparr>bdb_subs := rows\<rparr>))))"

section \<open>What an administrator does\<close>

definition cancelWithNMI ::
  "lifecycle_cfg \<Rightarrow> (string \<rightharpoonup> 'g nmi_client) \<Rightarrow> subscription \<Rightarrow> 'g \<Rightarrow> unit result \<times> 'g" where
  "cancelWithNMI cfg clients s g =
     (if \<not> IsNMIBacked (lc_nmi cfg) (sub_Processor s) \<or> sub_ProcessorSubscriptionID s = [] then (Inr (), g)
      else (case clients (ToLower (sub_Processor s)) of
              None \<Rightarrow> (Inr (), g)
            | Some client \<Rightarrow>
                map_prod (map_sum (ErrWrap (''failed to cancel subscription with NMI provider '' @ quoted (ToLower (sub_Processor s)))) id) id
                  (DeleteRecurringSubscription client (sub_ProcessorSubscriptionID s) g)))"

text \<open>The loop over the names; here every revocation is a transaction of its own, and a refused one is logged.\<close>

fun revoke_each ::
  "time \<Rightarrow> string \<Rightarrow> uuid \<Rightarrow> string list \<Rightarrow> entitlement list \<Rightarrow> entitlement list" where
  "revoke_each now u i [] rows = rows"
| "revoke_each now u i (n # ns) rows =
     revoke_each now u i ns
       (case revoke_source now u n EntitlementSourceSubscription i EntitlementRevokeAdmin rows of Inl _ \<Rightarrow> rows | Inr rows' \<Rightarrow> rows')"

definition AdminCancelSubscription ::
  "lifecycle_cfg \<Rightarrow> (string \<rightharpoonup> 'g nmi_client) \<Rightarrow> 'g stripe_client option \<Rightarrow> go_env \<Rightarrow> uuid \<Rightarrow> string \<Rightarrow> ('g, 'z) vault_world_scheme \<Rightarrow>
   unit result \<times> ('g, 'z) vault_world_scheme" where
  "AdminCancelSubscription cfg clients stripe env i reason w =
     (case SubGetByID i (bdb_subs (vw_billing w)) of
        Inl e \<Rightarrow> (Inl (ErrWrap ''subscription not found'' e), w)
      | Inr s \<Rightarrow>
          if sub_Status s \<noteq> StatusActive then (Inl (ErrMsg ''subscription is not active''), w)
          else if \<not> IsNMIBacked (lc_nmi cfg) (sub_Processor s) \<and> sub_Processor s \<noteq> ProcessorStripe
          then (Inl (ErrMsg (''cancel operation not supported for processor '' @ quoted (sub_Processor s))), w)
          else
          (case (if IsNMIBacked (lc_nmi cfg) (sub_Processor s) then cancelWithNMI cfg clients s (vw_gateway w)
                 else (case stripe of
                         None \<Rightarrow> (Inl (ErrMsg ''stripe cancellation service unavailable''), vw_gateway w)
                       | Some c \<Rightarrow> map_prod (map_sum (ErrWrap ''failed to cancel subscription with Stripe'') id) id
                                     (StripeCancelSubscription c (sub_ProcessorSubscriptionID s) (vw_gateway w)))) of
             (Inl e, g) \<Rightarrow> (Inl e, w\<lparr>vw_gateway := g\<rparr>)
           | (Inr _, g) \<Rightarrow>
               (case SubscriptionRepoUpdate (lc_nz cfg) (env_now env) (cancelled_by (env_now env) CancelTypeMerchant reason s)
                       (bdb_subs (vw_billing w)) of
                  Inl e \<Rightarrow> (Inl (ErrWrap ''failed to update subscription'' e), w\<lparr>vw_gateway := g\<rparr>)
                | Inr rows \<Rightarrow>
                    (Inr (), w\<lparr>vw_gateway := g,
                       vw_billing := notify_logged (env_uuid env 0) (sub_UserID s) ''premium_ended'' [(''reason'', ''admin'')]
                         ((vw_billing w)\<lparr>bdb_subs := rows,
                            bdb_ents := revoke_each (env_now env) (sub_UserID s) (sub_ID s)
                              (ListDistinctEntitlementNamesBySource EntitlementSourceSubscription (sub_ID s) (bdb_ents (vw_billing w)))
                              (bdb_ents (vw_billing w))\<rparr>)\<rparr>))))"

definition ExtendSubscriptionByDuration ::
  "lifecycle_cfg \<Rightarrow> go_env \<Rightarrow> uuid \<Rightarrow> duration \<Rightarrow> billing_db \<Rightarrow> unit result \<times> billing_db" where
  "ExtendSubscriptionByDuration cfg env i d db =
     (case SubGetByID i (bdb_subs db) of
        Inl e \<Rightarrow> (Inl (ErrWrap ''subscription not found'' e), db)
      | Inr s \<Rightarrow>
          if sub_Status s \<noteq> StatusActive then (Inl (ErrMsg ''subscription is not active''), db)
          else
          (case sub_update ''failed to update subscription'' cfg (env_now env)
                  (case sub_CurrentPeriodEndsAt s of
                     Some t \<Rightarrow> s\<lparr>sub_CurrentPeriodEndsAt := Some (t + d)\<rparr>
                   | None \<Rightarrow> s\<lparr>sub_CurrentPeriodEndsAt := Some (env_now env + d), sub_CurrentPeriodStartsAt := Some (env_now env)\<rparr>) db of
             Inl e \<Rightarrow> (Inl e, db)
           | Inr db' \<Rightarrow> (Inr (), db')))"

text \<open>The days as a \<^verbatim>\<open>time.Duration\<close>, which wraps around.\<close>

definition ExtendSubscription :: "lifecycle_cfg \<Rightarrow> go_env \<Rightarrow> uuid \<Rightarrow> int \<Rightarrow> billing_db \<Rightarrow> unit result \<times> billing_db" where
  "ExtendSubscription cfg env i days db = ExtendSubscriptionByDuration cfg env i (i64 (i64 (days * 24) * time_Hour)) db"

text \<open>
  The two fields that an administrator may set; other keys, and values of other types, are ignored. The notes are merged into the
  metadata by the argument \<open>merge\<close>, which reads and writes JSON.
\<close>

datatype admin_update = UpdateStatus SubscriptionStatus | UpdateNotes string | UpdateIgnored

fun apply_update :: "(string option \<Rightarrow> string \<Rightarrow> string option) \<Rightarrow> admin_update \<Rightarrow> subscription \<Rightarrow> subscription" where
  "apply_update merge (UpdateStatus st) s = s\<lparr>sub_Status := st\<rparr>"
| "apply_update merge (UpdateNotes notes) s =
     (case merge (sub_Metadata s) notes of None \<Rightarrow> s | Some m \<Rightarrow> s\<lparr>sub_Metadata := Some m\<rparr>)"
| "apply_update merge UpdateIgnored s = s"

definition UpdateSubscription ::
  "lifecycle_cfg \<Rightarrow> (string option \<Rightarrow> string \<Rightarrow> string option) \<Rightarrow> go_env \<Rightarrow> uuid \<Rightarrow> admin_update list \<Rightarrow> billing_db \<Rightarrow> unit result \<times> billing_db" where
  "UpdateSubscription cfg merge env i updates db =
     (case SubGetByID i (bdb_subs db) of
        Inl e \<Rightarrow> (Inl (ErrWrap ''subscription not found'' e), db)
      | Inr s \<Rightarrow>
          (case sub_update ''failed to update subscription'' cfg (env_now env) (fold (apply_update merge) updates s) db of
             Inl e \<Rightarrow> (Inl e, db)
           | Inr db' \<Rightarrow> (Inr (), db')))"

record AdminSubscriptionResponse =
  ar_Subscription :: subscription
  ar_Price :: "price option"
  ar_Product :: "product option"
  ar_Payments :: "payment list"

definition GetSubscriptionByID :: "uuid \<Rightarrow> billing_db \<Rightarrow> AdminSubscriptionResponse result" where
  "GetSubscriptionByID i db =
     (case SubGetByID i (bdb_subs db) of
        Inl e \<Rightarrow> Inl (ErrWrap ''subscription not found'' e)
      | Inr s \<Rightarrow>
          Inr \<lparr>ar_Subscription = s, ar_Price = fst (enriched db s), ar_Product = snd (enriched db s),
               ar_Payments = filter (\<lambda>p. pay_SubscriptionID p = Some i) (PaymentGetByUserID (sub_UserID s) (bdb_payments db))\<rparr>)"

definition SendManualNotification :: "go_env \<Rightarrow> string \<Rightarrow> string \<Rightarrow> string \<Rightarrow> notification list \<Rightarrow> notification list result" where
  "SendManualNotification env u eventType msg rows =
     NotificationCreate \<lparr>nq_ID = env_uuid env 0, nq_UserID = u, nq_EventType = eventType,
       nq_Data = [(''message'', msg), (''source'', ''admin_manual'')], nq_Seen = False\<rparr> rows"

section \<open>The workers\<close>

text \<open>The subscription of a request: the one that is named, if it belongs to the member; \<open>None\<close> ends the job.\<close>

definition named_subscription :: "string \<Rightarrow> uuid \<Rightarrow> billing_db \<Rightarrow> subscription option" where
  "named_subscription u i db =
     (case SubGetByID i (bdb_subs db) of Inl _ \<Rightarrow> None | Inr s \<Rightarrow> if sub_UserID s \<noteq> u then None else Some s)"

definition CancelSubscriptionWork ::
  "lifecycle_cfg \<Rightarrow> (string \<rightharpoonup> 'g nmi_client) \<Rightarrow> 'g stripe_client \<Rightarrow> go_env \<Rightarrow> string \<Rightarrow> uuid \<Rightarrow> string \<Rightarrow> ('g, 'z) vault_world_scheme \<Rightarrow>
   unit result \<times> ('g, 'z) vault_world_scheme" where
  "CancelSubscriptionWork cfg clients stripe env u i feedback w =
     (if u = [] then (Inl (ErrMsg ''user_id required''), w)
      else (case (if i \<noteq> uuid_Nil then named_subscription u i (vw_billing w)
                  else (case GetActiveSubscription (env_now env) u (bdb_subs (vw_billing w)) of Inl _ \<Rightarrow> None | Inr s \<Rightarrow> Some s)) of
              None \<Rightarrow> (Inr (), w)
            | Some s \<Rightarrow>
                if sub_Processor s = ProcessorStripe
                then (case StripeCancelSubscription stripe (sub_ProcessorSubscriptionID s) (vw_gateway w) of
                        (Inl e, g) \<Rightarrow> (Inl e, w\<lparr>vw_gateway := g\<rparr>)
                      | (Inr _, g) \<Rightarrow>
                          (case CancelMembership cfg env
                                  \<lparr>ca_SubscriptionID = Some (sub_ID s), ca_Processor = None, ca_ProcessorSubscriptionID = None,
                                   ca_CancelType = CancelTypeUser, ca_CancelFeedback = (if feedback \<noteq> [] then Some feedback else None),
                                   ca_RevokeAccess = False\<rparr> (vw_billing w) of
                             (r, db) \<Rightarrow> (r, w\<lparr>vw_gateway := g, vw_billing := db\<rparr>)))
                else UserCancelSubscription cfg clients env u feedback w))"

text \<open>The subscription to resume when none is named: the newest cancelled one whose period is not over.\<close>

definition resumable :: "time \<Rightarrow> string \<Rightarrow> billing_db \<Rightarrow> subscription result" where
  "resumable now u db =
     sql_find (\<lambda>_. True) (sort_key (\<lambda>s. - sub_CreatedAt s)
       (filter (\<lambda>s. sub_UserID s = u \<and> sub_Status s = StatusCancelled \<and>
          (case sub_CurrentPeriodEndsAt s of None \<Rightarrow> True | Some t \<Rightarrow> t > now)) (bdb_subs db)))"

definition resumed :: "subscription \<Rightarrow> subscription" where
  "resumed s = s\<lparr>sub_Status := StatusActive, sub_CancelledAt := None, sub_CancelType := None, sub_CancelFeedback := None, sub_EndedAt := None\<rparr>"

definition ResumeSubscriptionWork ::
  "lifecycle_cfg \<Rightarrow> 'g stripe_client \<Rightarrow> go_env \<Rightarrow> string \<Rightarrow> uuid \<Rightarrow> ('g, 'z) vault_world_scheme \<Rightarrow>
   unit result \<times> ('g, 'z) vault_world_scheme" where
  "ResumeSubscriptionWork cfg stripe env u i w =
     (if u = [] then (Inl (ErrMsg ''user_id required''), w)
      else (case (if i \<noteq> uuid_Nil then named_subscription u i (vw_billing w)
                  else (case resumable (env_now env) u (vw_billing w) of Inl _ \<Rightarrow> None | Inr s \<Rightarrow> Some s)) of
              None \<Rightarrow> (Inr (), w)
            | Some s \<Rightarrow>
                if sub_Processor s \<noteq> ProcessorStripe then (Inl (ErrMsg (''resume unsupported for processor '' @ sub_Processor s)), w)
                else (case StripeResumeSubscription stripe (sub_ProcessorSubscriptionID s) (vw_gateway w) of
                        (Inl e, g) \<Rightarrow> (Inl e, w\<lparr>vw_gateway := g\<rparr>)
                      | (Inr _, g) \<Rightarrow>
                          (case SubscriptionRepoUpdate (lc_nz cfg) (env_now env) (resumed s) (bdb_subs (vw_billing w)) of
                             Inl e \<Rightarrow> (Inl e, w\<lparr>vw_gateway := g\<rparr>)
                           | Inr rows \<Rightarrow> (Inr (), w\<lparr>vw_gateway := g, vw_billing := (vw_billing w)\<lparr>bdb_subs := rows\<rparr>\<rparr>)))))"

end
