(* ===== verification/Service_Invariants.thy ===== *)
theory Service_Invariants
  imports Tier_Changes Subscription_Services Purchase_Properties Webhook_Sequences
begin

text \<open>
  What the services keep of the tables: the constraints of the billing tables and of the payment methods hold after every request to the
  checkout, the vaults, the services of members and administrators and the workers, whether it succeeds or fails half-way.
\<close>

section \<open>The tables of a service\<close>

definition vault_ok :: "('g, 'z) vault_world_scheme \<Rightarrow> bool" where
  "vault_ok w \<longleftrightarrow> billing_ok (vw_billing w) \<and> pms_ok (vw_methods w)"

lemma pm_clash_None: "pm_clash a b = None \<longleftrightarrow> pm_ID a \<noteq> pm_ID b \<and> (pm_Processor a, pm_VaultID a) \<noteq> (pm_Processor b, pm_VaultID b) \<and>
    (pm_UserID a, pm_VaultID a) \<noteq> (pm_UserID b, pm_VaultID b)"
  by (auto simp: pm_clash_def)

interpretation methods: constrained_table "\<lambda>_. None" pm_clash
  by unfold_locales (auto simp: pm_clash_None)

lemma vault_ok_simps [simp]:
  "vault_ok (w\<lparr>vw_gateway := g\<rparr>) = vault_ok w" "vault_ok (v\<lparr>kw_idem := i\<rparr>) = vault_ok v"
  by (simp_all add: vault_ok_def)

lemma vault_okI: "vault_ok w \<Longrightarrow> billing_ok db \<Longrightarrow> vault_ok (w\<lparr>vw_billing := db\<rparr>)"
  by (simp add: vault_ok_def)

lemma vault_ok_methods: "vault_ok w \<Longrightarrow> pms_ok rows \<Longrightarrow> vault_ok (w\<lparr>vw_methods := rows\<rparr>)"
  by (simp add: vault_ok_def)

lemma vault_okD: "vault_ok w \<Longrightarrow> billing_ok (vw_billing w)" "vault_ok w \<Longrightarrow> pms_ok (vw_methods w)"
  by (simp_all add: vault_ok_def)

lemma billing_ok_subsD: "billing_ok db \<Longrightarrow> subs_ok (bdb_subs db)"
  by (simp add: billing_ok_def)

lemma SubscriptionRepoUpdate_ok: "subs_ok rows \<Longrightarrow> SubscriptionRepoUpdate nz now s rows = Inr rows' \<Longrightarrow> subs_ok rows'"
  by (auto simp: SubscriptionRepoUpdate_def Let_def split: sum.splits if_splits intro: subs.update_ok)

lemma subs_ok_unlink:
  assumes "subs_ok rows"
  shows "subs_ok (sql_update P (\<lambda>s. s\<lparr>sub_PaymentMethodID := None\<rparr>) rows)"
proof -
  let ?f = "\<lambda>s. if P s then s\<lparr>sub_PaymentMethodID := None\<rparr> else s"
  have "sub_check (?f s) = sub_check s" for s by (simp add: sub_check_def)
  moreover have "sub_clash (?f a) (?f b) = sub_clash a b" for a b
    by (auto simp: sub_clash_def active_or_pending_def)
  moreover have "sql_update P (\<lambda>s. s\<lparr>sub_PaymentMethodID := None\<rparr>) rows = map ?f rows" by (simp add: sql_update_def)
  ultimately show ?thesis using assms unfolding tbl_ok_def by (simp only: list.pred_map comp_def sorted_wrt_map)
qed

lemma notify_logged_ok: "billing_ok db \<Longrightarrow> billing_ok (notify_logged i u ev d db)"
  by (auto simp: notify_logged_def NotificationCreate_def sql_insert_def billing_ok_def)

section \<open>Vaults\<close>

lemma CreateVault_ok: "vault_ok w \<Longrightarrow> vault_ok (snd (CreateVault clients env u req w))"
  by (auto simp: CreateVault_def Let_def split: option.split sum.split prod.split
      intro!: vault_ok_methods dest: vault_okD(2) PaymentMethodCreate_ok)

lemma UpdateVault_ok: "vault_ok w \<Longrightarrow> vault_ok (snd (UpdateVault clients env pm req w))"
  by (auto simp: UpdateVault_def MethodUpdate_def PaymentMethodUpdate_def Let_def split: option.split sum.split sum.split_asm prod.split if_split_asm
      intro!: vault_ok_methods dest: vault_okD(2) methods.update_ok)

lemma DeleteVault_ok: "vault_ok w \<Longrightarrow> vault_ok (snd (DeleteVault clients pm w))"
proof -
  assume ok: "vault_ok w"
  have "vault_ok (w\<lparr>vw_methods := rows, vw_billing := (vw_billing w)\<lparr>bdb_subs := subs\<rparr>\<rparr>)"
    if "PaymentMethodDelete i (vw_methods w) (bdb_subs (vw_billing w)) = Inr (rows, subs)" for i rows subs
  proof -
    have "pms_ok rows" using PaymentMethodDelete_ok [OF vault_okD(2) [OF ok] that] by simp
    moreover have "subs_ok subs" using that subs_ok_unlink [OF billing_ok_subsD [OF vault_okD(1) [OF ok]]]
      by (auto simp: PaymentMethodDelete_def split: if_split_asm)
    ultimately show ?thesis using ok by (simp add: vault_ok_def billing_ok_subs)
  qed
  then show ?thesis using ok
    by (auto simp: DeleteVault_def Let_def vault_ok_def split: option.split sum.split prod.split)
qed

lemma ResolveVault_ok: "vault_ok w \<Longrightarrow> vault_ok (snd (ResolveVault cfg env req user provider w))"
  using CreateVault_ok [of w "kc_clients cfg" env "ui_ID user" "vault_request cfg req user provider"]
  by (auto simp: ResolveVault_def split: sum.split prod.split)

lemma drop_vault_ok: "vault_ok w \<Longrightarrow> vault_ok (drop_vault cfg created w)"
  by (simp add: drop_vault_def DeleteVault_ok split: option.split)

section \<open>Checkout and tier changes\<close>

lemma idem_ok [simp]: "vault_ok (idem_failed cfg t op k e w) = vault_ok w" "vault_ok (idem_completed t op k r w) = vault_ok w"
  by (simp_all add: idem_failed_def idem_completed_def)

lemma under_key_ok:
  "(\<And>v. vault_ok v \<Longrightarrow> vault_ok (snd (body v))) \<Longrightarrow> vault_ok w \<Longrightarrow> vault_ok (snd (under_key env op k p f replay body w))"
  by (simp add: under_key_def Let_def split: prod.split IdempotencyStatus.split)

lemma ResolveVault_okD: "ResolveVault cfg env req user provider w = (r, w') \<Longrightarrow> vault_ok w \<Longrightarrow> vault_ok w'"
  using ResolveVault_ok [of w cfg env req user provider] by simp

lemma purchase_ok:
  assumes "vault_ok v" "RegisterPurchase e p (vw_billing v) = (r, db)"
  shows "vault_ok (v\<lparr>vw_gateway := g, vw_billing := db\<rparr>)"
  using RegisterPurchase_ok [OF vault_okD(1) [OF assms(1)], of e p] assms by (simp add: vault_ok_def)

lemma sale_body_ok: "vault_ok w \<Longrightarrow> vault_ok (snd (sale_body cfg env req user price product k provider client w))"
  by (auto simp: sale_body_def Let_def split: sum.split prod.split intro!: drop_vault_ok intro: purchase_ok ResolveVault_okD)

lemma new_row_ok:
  "vault_ok v \<Longrightarrow> SubscriptionServiceCreate nz s (bdb_subs (vw_billing v)) = Inr rows \<Longrightarrow>
    vault_ok (v\<lparr>vw_gateway := g, vw_billing := (vw_billing v)\<lparr>bdb_subs := rows\<rparr>\<rparr>)"
  by (auto simp: vault_ok_def intro: billing_ok_subs SubscriptionServiceCreate_ok dest: billing_ok_subsD)

lemma changed_row_ok:
  assumes "vault_ok v" "SubscriptionRepoUpdate nz now s (bdb_subs (vw_billing v)) = Inr rows"
  shows "vault_ok (v\<lparr>vw_billing := (vw_billing v)\<lparr>bdb_subs := rows\<rparr>\<rparr>)"
    "vault_ok (v\<lparr>vw_gateway := g, vw_billing := (vw_billing v)\<lparr>bdb_subs := rows\<rparr>\<rparr>)"
  using assms SubscriptionRepoUpdate_ok [OF billing_ok_subsD] by (auto simp: vault_ok_def intro: billing_ok_subs)

lemma subscription_body_ok:
  "vault_ok w \<Longrightarrow> vault_ok (snd (subscription_body cfg env req user price coverage k provider planID client w))"
  by (auto simp: subscription_body_def Let_def split: sum.split prod.split intro!: drop_vault_ok intro: new_row_ok ResolveVault_okD)

lemma grant_upgrade_ok: "ents_ok rows \<Longrightarrow> ents_ok (grant_upgrade env u i spec rows)"
  by (induction env u i spec rows rule: grant_upgrade.induct) (auto split: sum.split dest: Push_ok)

lemma upgrade_rows_ok: "subs_ok rows \<Longrightarrow> upgrade_rows cfg now s s' rows = (r, rows') \<Longrightarrow> subs_ok rows' \<and> (\<forall>x. r = Inr x \<longrightarrow> subs_ok x)"
  by (auto simp: upgrade_rows_def Let_def split: sum.split_asm dest: SubscriptionRepoUpdate_ok SubscriptionServiceCreate_ok)

lemma upgraded_ok:
  assumes "vault_ok v" "upgrade_rows cfg now s s' (bdb_subs (vw_billing v)) = (r, rows)"
  shows "vault_ok (v\<lparr>vw_gateway := g, vw_billing := (vw_billing v)\<lparr>bdb_subs := rows\<rparr>\<rparr>)"
    and "r = Inr rows' \<Longrightarrow> vault_ok (v\<lparr>vw_gateway := g, vw_billing := (vw_billing v)\<lparr>bdb_subs := rows', bdb_ents :=
      grant_upgrade env u i spec (bdb_ents (vw_billing v))\<rparr>\<rparr>)"
  using assms(1) upgrade_rows_ok [OF billing_ok_subsD [OF vault_okD(1) [OF assms(1)]] assms(2)] grant_upgrade_ok
  by (simp_all add: vault_ok_def billing_ok_def)

lemma upgrade_body_ok: "vault_ok w \<Longrightarrow> vault_ok (snd (upgrade_body cfg env req user newPrice newProduct s old provider k w))"
  by (auto simp: upgrade_body_def Let_def split: sum.split prod.split intro!: drop_vault_ok intro: upgraded_ok ResolveVault_okD)

lemma processUpgrade_ok: "vault_ok w \<Longrightarrow> vault_ok (snd (processUpgrade cfg env req user newPrice newProduct s old processor w))"
  by (simp add: processUpgrade_def Let_def under_key_ok upgrade_body_ok)

lemma processDowngrade_ok: "vault_ok w \<Longrightarrow> vault_ok (snd (processDowngrade cfg env newPrice newProduct s processor w))"
  by (simp add: processDowngrade_def Let_def split: sum.split) (blast intro: changed_row_ok)

lemma TierChange_ok:
  assumes "vault_ok w"
  shows "vault_ok (snd (TierChange cfg env req user w))"
proof -
  have "vault_ok (snd (processTierChangeStripe cfg env newPrice s action w))" for newPrice s action
    using assms by (auto simp: processTierChangeStripe_def Let_def split: sum.split prod.split intro: changed_row_ok)
  moreover have "vault_ok (snd (processTierChangeNMI cfg env req user newPrice newProduct s old action w))" for newPrice newProduct s old action
    using assms by (simp add: processTierChangeNMI_def processUpgrade_ok processDowngrade_ok)
  ultimately show ?thesis using assms by (simp add: TierChange_def Let_def split: sum.split prod.split)
qed

lemma Checkout_ok:
  assumes "vault_ok w"
  shows "vault_ok (snd (Checkout cfg env req user w))"
proof -
  have "vault_ok (snd (stripe_redirect cfg env mode trialEnd req user price w))" for mode trialEnd price
    using assms by (simp add: stripe_redirect_def split: sum.split prod.split)
  moreover have "vault_ok (snd (processNMISale cfg env req user price product processor w))" for price product processor
    using assms by (simp add: processNMISale_def Let_def under_key_ok sale_body_ok split: sum.split)
  moreover have "vault_ok (snd (processNMISubscription cfg env req user price coverage processor w))" for price coverage processor
    using assms by (simp add: processNMISubscription_def Let_def under_key_ok subscription_body_ok split: sum.split prod.split)
  ultimately show ?thesis using assms
    by (simp add: Checkout_def CheckoutProcessSubscription_def processOneTimePurchase_def processStripeSubscription_def processStripePayment_def Let_def
        split: sum.split prod.split option.split)
qed

section \<open>Members, administrators and workers\<close>

lemma revoke_each_ok: "ents_ok rows \<Longrightarrow> ents_ok (revoke_each now u i ns rows)"
  by (induction now u i ns rows rule: revoke_each.induct) (auto split: sum.split dest: revoke_source_ok)

lemma UserCancelSubscription_ok:
  assumes "vault_ok w"
  shows "vault_ok (snd (UserCancelSubscription cfg clients env u feedback w))"
proof -
  have "vault_ok (w\<lparr>vw_gateway := g, vw_billing := notify_logged i u ev d ((vw_billing w)\<lparr>bdb_subs := rows\<rparr>)\<rparr>)"
    if "SubscriptionRepoUpdate nz now s (bdb_subs (vw_billing w)) = Inr rows" for nz now s rows g i ev d
    using changed_row_ok(1) [OF assms that] by (simp add: vault_ok_def notify_logged_ok)
  then show ?thesis using assms by (auto simp: UserCancelSubscription_def split: sum.split prod.split)
qed

lemma CancelUserSubscription_ok: "billing_ok db \<Longrightarrow> billing_ok (snd (CancelUserSubscription nz env u feedback db))"
  by (auto simp: CancelUserSubscription_def split: sum.split
      intro!: notify_logged_ok billing_ok_subs dest: SubscriptionRepoUpdate_ok [OF billing_ok_subsD])

lemma AdminCancelSubscription_ok:
  assumes "vault_ok w"
  shows "vault_ok (snd (AdminCancelSubscription cfg clients stripe env i reason w))"
proof -
  have "vault_ok (w\<lparr>vw_gateway := g, vw_billing := notify_logged k u ev d
      ((vw_billing w)\<lparr>bdb_subs := rows, bdb_ents := revoke_each now' u j ns (bdb_ents (vw_billing w))\<rparr>)\<rparr>)"
    if "SubscriptionRepoUpdate nz now s (bdb_subs (vw_billing w)) = Inr rows" for nz now s rows g k u ev d now' j ns
  proof -
    have "billing_ok ((vw_billing w)\<lparr>bdb_subs := rows, bdb_ents := revoke_each now' u j ns (bdb_ents (vw_billing w))\<rparr>)"
      using changed_row_ok(1) [OF assms that] by (simp add: vault_ok_def billing_ok_def revoke_each_ok)
    then show ?thesis using assms by (simp add: vault_ok_def notify_logged_ok)
  qed
  then show ?thesis using assms by (auto simp: AdminCancelSubscription_def split: sum.split prod.split)
qed

lemma ExtendSubscriptionByDuration_ok: "billing_ok db \<Longrightarrow> billing_ok (snd (ExtendSubscriptionByDuration cfg env i d db))"
  by (auto simp: ExtendSubscriptionByDuration_def split: sum.split dest: sub_update_ok)

lemma UpdateSubscription_ok: "billing_ok db \<Longrightarrow> billing_ok (snd (UpdateSubscription cfg merge env i updates db))"
  by (auto simp: UpdateSubscription_def split: sum.split dest: sub_update_ok)

lemma CancelSubscriptionWork_ok:
  assumes "vault_ok w"
  shows "vault_ok (snd (CancelSubscriptionWork cfg clients stripe env u i feedback w))"
proof -
  have "vault_ok (w\<lparr>vw_gateway := g, vw_billing := db\<rparr>)" if "CancelMembership cfg env p (vw_billing w) = (r, db)" for g p r db
    using CancelMembership_ok [OF vault_okD(1) [OF assms], of cfg env p] that assms by (simp add: vault_ok_def)
  then show ?thesis using assms
    by (auto simp: CancelSubscriptionWork_def UserCancelSubscription_ok split: sum.split prod.split option.split)
qed

lemma ResumeSubscriptionWork_ok: "vault_ok w \<Longrightarrow> vault_ok (snd (ResumeSubscriptionWork cfg stripe env u i w))"
  by (auto simp: ResumeSubscriptionWork_def split: sum.split prod.split option.split intro: changed_row_ok)

section \<open>Sequences of requests\<close>

text \<open>
  A request to one of the services, with the configuration, the clock and the random identifiers of its moment.
\<close>

datatype 'g request =
    CheckoutRequested "'g checkout_cfg" go_env CheckoutRequest UserIdentity
  | TierChangeRequested "'g checkout_cfg" go_env TierChangeRequest UserIdentity
  | VaultCreated "string \<rightharpoonup> 'g nmi_client" go_env string CreateVaultRequest
  | VaultUpdated "string \<rightharpoonup> 'g nmi_client" go_env payment_method UpdateVaultRequest
  | VaultDeleted "string \<rightharpoonup> 'g nmi_client" payment_method
  | MemberCancels lifecycle_cfg "string \<rightharpoonup> 'g nmi_client" go_env string string
  | SubscriptionCancelled bool go_env string string
  | AdminCancels lifecycle_cfg "string \<rightharpoonup> 'g nmi_client" "'g stripe_client option" go_env uuid string
  | AdminExtends lifecycle_cfg go_env uuid int
  | AdminUpdates lifecycle_cfg "string option \<Rightarrow> string \<Rightarrow> string option" go_env uuid "admin_update list"
  | CancelJob lifecycle_cfg "string \<rightharpoonup> 'g nmi_client" "'g stripe_client" go_env string uuid string
  | ResumeJob lifecycle_cfg "'g stripe_client" go_env string uuid

fun service_step :: "'g request \<Rightarrow> ('r, 'g) checkout_world \<Rightarrow> ('r, 'g) checkout_world" where
  "service_step (CheckoutRequested cfg env req user) w = snd (Checkout cfg env req user w)"
| "service_step (TierChangeRequested cfg env req user) w = snd (TierChange cfg env req user w)"
| "service_step (VaultCreated clients env u req) w = snd (CreateVault clients env u req w)"
| "service_step (VaultUpdated clients env pm req) w = snd (UpdateVault clients env pm req w)"
| "service_step (VaultDeleted clients pm) w = snd (DeleteVault clients pm w)"
| "service_step (MemberCancels cfg clients env u feedback) w = snd (UserCancelSubscription cfg clients env u feedback w)"
| "service_step (SubscriptionCancelled nz env u feedback) w =
     w\<lparr>vw_billing := snd (CancelUserSubscription nz env u feedback (vw_billing w))\<rparr>"
| "service_step (AdminCancels cfg clients stripe env i reason) w = snd (AdminCancelSubscription cfg clients stripe env i reason w)"
| "service_step (AdminExtends cfg env i days) w = w\<lparr>vw_billing := snd (ExtendSubscription cfg env i days (vw_billing w))\<rparr>"
| "service_step (AdminUpdates cfg merge env i updates) w = w\<lparr>vw_billing := snd (UpdateSubscription cfg merge env i updates (vw_billing w))\<rparr>"
| "service_step (CancelJob cfg clients stripe env u i feedback) w = snd (CancelSubscriptionWork cfg clients stripe env u i feedback w)"
| "service_step (ResumeJob cfg stripe env u i) w = snd (ResumeSubscriptionWork cfg stripe env u i w)"

lemma service_step_ok: "vault_ok w \<Longrightarrow> vault_ok (service_step r w)"
  by (cases r) (simp_all add: Checkout_ok TierChange_ok CreateVault_ok UpdateVault_ok DeleteVault_ok UserCancelSubscription_ok
      CancelUserSubscription_ok AdminCancelSubscription_ok CancelSubscriptionWork_ok ResumeSubscriptionWork_ok ExtendSubscription_def vault_okI vault_okD
      ExtendSubscriptionByDuration_ok UpdateSubscription_ok)

lemma pms_ok_distinct: "pms_ok rows \<Longrightarrow> distinct (map (\<lambda>m. (pm_Processor m, pm_VaultID m)) rows)"
  by (induction rows) (auto simp: tbl_ok_def pm_clash_None)

text \<open>
  Whatever requests the checkout, the vaults, the services and the workers get, in whatever order, and whether they succeed or fail
  half-way, after calls of a gateway that answers whatever it likes: every user has at most one active subscription and, for one
  product, at most one that is active or pending, at most one window of an entitlement at any moment, no transaction of a processor is
  two payments, and no vault of a processor is stored twice.
\<close>

theorem services_keep_constraints:
  assumes "vault_ok w0" and "w = fold service_step requests w0"
  shows "length (filter (\<lambda>s. sub_UserID s = u \<and> sub_Status s = StatusActive) (bdb_subs (vw_billing w))) \<le> 1 \<and>
    length (filter (\<lambda>s. sub_UserID s = u \<and> sub_ProductID s = pid \<and> active_or_pending s) (bdb_subs (vw_billing w))) \<le> 1 \<and>
    length (filter (\<lambda>e. ent_key e = (u, n) \<and> ent_live e \<and> covers t e) (bdb_ents (vw_billing w))) \<le> 1 \<and>
    distinct (map (\<lambda>p. (pay_Processor p, pay_TransactionID p)) (bdb_payments (vw_billing w))) \<and>
    distinct (map (\<lambda>m. (pm_Processor m, pm_VaultID m)) (vw_methods w))"
proof -
  have "vault_ok w" using assms by (induction requests arbitrary: w0) (auto simp: service_step_ok)
  then have ok: "subs_ok (bdb_subs (vw_billing w))" "ents_ok (bdb_ents (vw_billing w))" "pays_ok (bdb_payments (vw_billing w))" "pms_ok (vw_methods w)"
    by (simp_all add: vault_ok_def billing_ok_def)
  show ?thesis using one_active [OF ok(1)] one_window_at [OF ok(2)] pays_ok_transactions [OF ok(3)] pms_ok_distinct [OF ok(4)] by simp
qed

section \<open>Changed rows\<close>

lemma SubscriptionRepoUpdate_rows:
  assumes "SubscriptionRepoUpdate nz now s rows = Inr rows'" "x \<in> set rows'" "sub_ID x = sub_ID s"
  shows "\<exists>u c. x = (sub_row nz s)\<lparr>sub_UserID := u, sub_CreatedAt := c, sub_UpdatedAt := now\<rparr>"
proof -
  let ?f = "\<lambda>r. (sub_row nz s)\<lparr>sub_UserID := sub_UserID r, sub_CreatedAt := sub_CreatedAt r, sub_UpdatedAt := now\<rparr>"
  have u: "tbl_update sub_check sub_clash (\<lambda>r. sub_ID r = sub_ID s) ?f rows = Inr rows'"
    using assms(1) unfolding SubscriptionRepoUpdate_def Let_def by (auto split: sum.splits if_splits)
  from assms(2) obtain y where "y \<in> set rows" "x = (if sub_ID y = sub_ID s then ?f y else y)"
    unfolding tbl_update_Inr [OF u] set_sql_update by blast
  with assms(3) show ?thesis by (cases "sub_ID y = sub_ID s") auto
qed

lemma SubscriptionRepoUpdate_fields:
  assumes "SubscriptionRepoUpdate nz now s rows = Inr rows'" "x \<in> set rows'" "sub_ID x = sub_ID s"
  shows "sub_Status x = sub_Status s" "sub_PriceID x = sub_PriceID s" "sub_ProductID x = sub_ProductID s"
    "sub_ScheduledPriceID x = sub_ScheduledPriceID s" "sub_CancelType x = sub_CancelType s"
  using SubscriptionRepoUpdate_rows [OF assms] by (auto simp: sub_row_def)

lemma sub_update_repo: "sub_update msg cfg now s db = Inr db' \<Longrightarrow> SubscriptionRepoUpdate (lc_nz cfg) now s (bdb_subs db) = Inr (bdb_subs db')"
  by (auto simp: sub_update_def split: sum.splits)

lemma repo_update_stored:
  assumes "SubscriptionRepoUpdate nz now s rows = Inr rows'"
  shows "\<exists>x \<in> set rows'. sub_ID x = sub_ID s"
proof -
  let ?f = "\<lambda>r. (sub_row nz s)\<lparr>sub_UserID := sub_UserID r, sub_CreatedAt := sub_CreatedAt r, sub_UpdatedAt := now\<rparr>"
  have u: "tbl_update sub_check sub_clash (\<lambda>r. sub_ID r = sub_ID s) ?f rows = Inr rows'" "filter (\<lambda>r. sub_ID r = sub_ID s) rows \<noteq> []"
    using assms unfolding SubscriptionRepoUpdate_def Let_def by (auto split: sum.splits if_splits)
  from u(2) obtain y where "y \<in> set rows" "sub_ID y = sub_ID s" unfolding filter_empty_conv by blast
  then have "?f y \<in> set rows'" unfolding tbl_update_Inr [OF u(1)] set_sql_update by (intro image_eqI [of _ _ y]) simp_all
  then show ?thesis by (intro bexI [of _ "?f y"]) (simp_all add: sub_row_def)
qed

lemma repo_update_others:
  assumes "SubscriptionRepoUpdate nz now s rows = Inr rows'" "x \<in> set rows" "sub_ID x \<noteq> sub_ID s"
  shows "x \<in> set rows'"
proof -
  let ?f = "\<lambda>r. (sub_row nz s)\<lparr>sub_UserID := sub_UserID r, sub_CreatedAt := sub_CreatedAt r, sub_UpdatedAt := now\<rparr>"
  have u: "tbl_update sub_check sub_clash (\<lambda>r. sub_ID r = sub_ID s) ?f rows = Inr rows'"
    using assms(1) unfolding SubscriptionRepoUpdate_def Let_def by (auto split: sum.splits if_splits)
  show ?thesis unfolding tbl_update_Inr [OF u] set_sql_update using assms(2, 3) by (intro image_eqI [of _ _ x]) simp_all
qed

end
