(* ===== verification/Checkout_Properties.thy ===== *)
theory Checkout_Properties
  imports Service_Invariants Dunning_Job_Properties
begin

text \<open>
  Properties of the checkout: a sale is charged once and only to a card of the buyer, a downgrade waits for the renewal, an upgrade at a gateway cannot
  succeed, and a second purchase of a subscription leaves a subscription at the gateway that nobody knows.
\<close>

section \<open>Sales\<close>

lemma ResolveVault_idem:
  "ResolveVault cfg env req user provider w = (r, w') \<Longrightarrow> kw_idem w' = kw_idem w"
  unfolding ResolveVault_def CreateVault_def Let_def by (auto split: if_splits sum.splits prod.splits option.splits)

text \<open>
  Over the contract of the store: an operation under a key that was free, whose body completes the key with what it has
  computed, is answered from then on by the record, and changes nothing.
\<close>

lemma under_key_once:
  assumes mem: "is_client (kw_idem w) = None" and free: "IdempotencyGet (env_now env) op k (kw_idem w) = None"
    and run: "under_key env op k pending failed replay body w = (Inr r, w')"
    and body: "\<And>v. body v = (Inr r, w') \<Longrightarrow> \<exists>result. kw_idem w' = Complete (env_now env) op k result (kw_idem v) \<and> P result"
    and t: "env_now env' < env_now env + is_ttl (kw_idem w)"
  obtains result where "P result"
    "\<And>pending' failed' replay' body'. under_key env' op k pending' failed' replay' body' w' = (Inr (replay' result), w')"
proof -
  have none: "getMemory (env_now env) (buildKey op k) (kw_idem w) = None" using free by (simp add: IdempotencyGet_memory [OF mem])
  from mem.begins_first [OF mem none] obtain st where
    st: "Begin (env_now env) op k (kw_idem w) = ((pending_record (env_now env), False), st)" "is_client st = None" "is_ttl st = is_ttl (kw_idem w)"
    by blast
  have "body (w\<lparr>kw_idem := st\<rparr>) = (Inr r, w')" using run st(1) by (simp add: under_key_def Let_def)
  from body [OF this] obtain result where w': "kw_idem w' = Complete (env_now env) op k result st" and P: "P result" by auto
  let ?r = "\<lparr>ir_Status = IdempotencyStatusSuccess, ir_Result = result, ir_Error = [], ir_CreatedAt = env_now env\<rparr>"
  note fin = mem.completes_live [OF st(2), of "env_now env" op k result]
  have "getMemory (env_now env') (buildKey op k) (kw_idem w') = Some ?r" using fin t st(3) w' by simp
  from mem.begins_live [OF _ this] fin w' have "Begin (env_now env') op k (kw_idem w') = ((?r, True), kw_idem w')" by simp
  then have "under_key env' op k pending' failed' replay' body' w' = (Inr (replay' result), w')" for pending' failed' replay' body'
    by (simp add: under_key_def Let_def)
  with P show thesis by (rule that)
qed

lemma sale_body_completes:
  assumes "sale_body cfg env req user price product k provider client w = (Inr r, w')"
  shows "kw_idem w' = Complete (env_now env) ''nmi_sale'' k
      (json_Marshal (kc_sale_json cfg) \<lparr>xi_TransactionID = ko_TransactionID r, xi_PaymentID = the (ko_PaymentID r), xi_DelayedStart = map_option format_RFC3339 (ko_DelayedStart r)\<rparr>) (kw_idem w) \<and>
    ko_PaymentID r \<noteq> None"
  using assms unfolding sale_body_def idem_completed_def Let_def
  by (auto split: sum.splits prod.splits dest: ResolveVault_idem)

text \<open>
  C9: While the store in memory remembers a sale, it is not charged again. After a sale under a key that was free, every further request of
  the user for the price with that key within the lifetime of the record (five minutes by default) succeeds with the transaction and the payment of the first one and changes nothing: not
  the tables, not the gateway, not the store. The text of the cached result must be decodable.
\<close>

theorem processNMISale_once:
  assumes store: "is_client (kw_idem w) = None"
    and codec: "\<And>x. json_Unmarshal (kc_sale_json cfg) (json_Marshal (kc_sale_json cfg) x) = (x, True)"
    and fresh: "IdempotencyGet (env_now env) ''nmi_sale'' (getIdempotencyKey (env_uuid_String env) req (ui_ID user) (price_ID price) ''nmi_sale'') (kw_idem w) = None"
    and run: "processNMISale cfg env req user price product processor w = (Inr r, w')"
    and again: "getIdempotencyKey (env_uuid_String env') req' (ui_ID user) (price_ID price) ''nmi_sale'' =
      getIdempotencyKey (env_uuid_String env) req (ui_ID user) (price_ID price) ''nmi_sale''"
    and t: "env_now env' < env_now env + is_ttl (kw_idem w)"
  shows "\<exists>r'. processNMISale cfg env' req' user price product' processor w' = (Inr r', w') \<and>
    ko_TransactionID r' = ko_TransactionID r \<and> ko_PaymentID r' = ko_PaymentID r \<and> ko_Status r' = ''success''"
proof -
  let ?k = "getIdempotencyKey (env_uuid_String env) req (ui_ID user) (price_ID price) ''nmi_sale''"
  from run obtain client where client: "Lower processor \<noteq> []" "nmi_client_of cfg (Lower processor) = Inr client"
    and u: "under_key env ''nmi_sale'' ?k ''checkout already in progress, please wait''
      ''previous checkout attempt failed, please try again'' (replay_sale cfg)
      (sale_body cfg env req user price product ?k (Lower processor) client) w = (Inr r, w')"
    by (auto simp: processNMISale_def Let_def split: if_splits sum.splits)
  let ?P = "\<lambda>result. ko_PaymentID r \<noteq> None \<and> result = json_Marshal (kc_sale_json cfg)
    \<lparr>xi_TransactionID = ko_TransactionID r, xi_PaymentID = the (ko_PaymentID r), xi_DelayedStart = map_option format_RFC3339 (ko_DelayedStart r)\<rparr>"
  have "\<exists>result. kw_idem w' = Complete (env_now env) ''nmi_sale'' ?k result (kw_idem v) \<and> ?P result"
    if "sale_body cfg env req user price product ?k (Lower processor) client v = (Inr r, w')" for v
    using sale_body_completes [OF that] by simp
  then show ?thesis
  proof (rule under_key_once [OF store fresh u _ t, where P = ?P])
    fix result
    assume "?P result" and "\<And>pending' failed' replay' body'.
      under_key env' ''nmi_sale'' ?k pending' failed' replay' body' w' = (Inr (replay' result), w')"
    then show ?thesis using client again by (simp add: processNMISale_def Let_def replay_sale_def codec response_def)
  qed
qed

section \<open>Tier changes\<close>

lemma scheduled_price_applied:
  assumes run: "RenewMembership cfg env p db = (Inr True, db')" and found: "renewal_subscription cfg p (bdb_subs db) = Inr s"
    and price: "sub_ScheduledPriceID s = Some (price_ID price)" "PriceGetByID (price_ID price) db = Inr price"
  shows "(\<exists>x \<in> set (bdb_subs db'). sub_ID x = sub_ID s) \<and> (\<forall>x \<in> set (bdb_subs db'). sub_ID x = sub_ID s \<longrightarrow>
    sub_PriceID x = price_ID price \<and> sub_ProductID x = price_ProductID price \<and> sub_ScheduledPriceID x = None \<and> sub_Status x = StatusActive)"
proof -
  have "renewMembershipTx cfg env p db = Inr (True, db')" using run by (simp add: RenewMembership_def)
  then obtain s1 price' down db1 where p: "renewal_price s db = Inr (s1, price', down)"
    and m: "renewal_marker env p s1 price' db = Inr (True, db1)" and a: "renewal_apply cfg env p s1 price' down db1 = Inr db'"
    using found by (auto elim!: renewMembershipTx_Inr)
  have s1: "s1 = s\<lparr>sub_PriceID := price_ID price, sub_ProductID := price_ProductID price, sub_ScheduledPriceID := None\<rparr>"
    using p price by (auto simp: renewal_price_def split: sum.split_asm)
  from a obtain i j db2 ents d where u: "sub_update ''failed to update subscription'' cfg (env_now env) (activated i j s1) db1 = Inr db2"
    and "notify (env_uuid env 1) (sub_UserID s1) ''premium_renewed'' d (db2\<lparr>bdb_ents := ents\<rparr>) = Inr db'"
    by (auto elim!: renewal_apply_Inr)
  then have db': "bdb_subs db' = bdb_subs db2" by (auto simp: notify_Inr)
  have "s \<in> set (bdb_subs db1)"
    using renewal_subscription_in [OF found] m by (auto simp: renewal_marker_def Let_def split: if_split_asm sum.split_asm)
  with sub_update_stored [OF u this] have "\<exists>x \<in> set (bdb_subs db'). sub_ID x = sub_ID s" by (auto simp: db' s1 activated_def)
  with SubscriptionRepoUpdate_fields [OF sub_update_repo [OF u]] show ?thesis by (simp add: db' s1 activated_def)
qed

lemma ko_Status_response [simp]: "ko_Status (response a b c) = a"
  by (simp add: response_def)

lemma processDowngrade_scheduled:
  assumes "processDowngrade cfg env newPrice newProduct s processor w = (Inr r, w')" "ko_Status r = ''success''"
  obtains rows where "SubscriptionRepoUpdate (lc_nz (kc_lifecycle cfg)) (env_now env) (s\<lparr>sub_ScheduledPriceID := Some (price_ID newPrice)\<rparr>)
      (bdb_subs (vw_billing w)) = Inr rows" "w' = w\<lparr>vw_billing := (vw_billing w)\<lparr>bdb_subs := rows\<rparr>\<rparr>"
proof -
  have n: "ko_Status r \<noteq> ''blocked''" using assms(2) by simp
  note run = assms(1) [unfolded processDowngrade_def Let_def]
  have "processor \<noteq> ''ccbill''" "sub_ScheduledPriceID s = None"
    using run n by (auto split: if_split_asm sum.split_asm)
  with run that show thesis by (auto split: if_split_asm sum.split_asm)
qed

text \<open>
  C23: A downgrade at a gateway is scheduled and takes effect with the next renewal. At first nothing changes but the
  schedule: the price, the product, the status and all windows stay. The next renewal that is applied moves the subscription to the new price and
  product, active and with nothing scheduled. The gateway is never told of the new price.
\<close>

theorem downgrade_applied_at_renewal:
  assumes down: "processDowngrade cfg env newPrice newProduct s processor w = (Inr r, w')" "ko_Status r = ''success''"
    and stored: "PriceGetByID (price_ID newPrice) (vw_billing w) = Inr newPrice"
    and renew: "RenewMembership lc env' p (vw_billing w') = (Inr True, db)"
    and found: "renewal_subscription lc p (bdb_subs (vw_billing w')) = Inr s0" "sub_ID s0 = sub_ID s"
  shows "bdb_ents (vw_billing w') = bdb_ents (vw_billing w) \<and> vw_gateway w' = vw_gateway w \<and>
    sub_PriceID s0 = sub_PriceID s \<and> sub_ProductID s0 = sub_ProductID s \<and> sub_Status s0 = sub_Status s \<and>
    (\<exists>x \<in> set (bdb_subs db). sub_ID x = sub_ID s) \<and> (\<forall>x \<in> set (bdb_subs db). sub_ID x = sub_ID s \<longrightarrow>
      sub_PriceID x = price_ID newPrice \<and> sub_ProductID x = price_ProductID newPrice \<and> sub_ScheduledPriceID x = None \<and>
      sub_Status x = StatusActive)"
proof -
  from down obtain rows where
    u: "SubscriptionRepoUpdate (lc_nz (kc_lifecycle cfg)) (env_now env) (s\<lparr>sub_ScheduledPriceID := Some (price_ID newPrice)\<rparr>)
      (bdb_subs (vw_billing w)) = Inr rows" and w': "w' = w\<lparr>vw_billing := (vw_billing w)\<lparr>bdb_subs := rows\<rparr>\<rparr>"
    by (rule processDowngrade_scheduled)
  have "s0 \<in> set rows" using renewal_subscription_in [OF found(1)] by (simp add: w')
  from SubscriptionRepoUpdate_fields [OF u this] found(2)
  have s0: "sub_PriceID s0 = sub_PriceID s" "sub_ProductID s0 = sub_ProductID s" "sub_Status s0 = sub_Status s"
    "sub_ScheduledPriceID s0 = Some (price_ID newPrice)" by simp_all
  have "PriceGetByID (price_ID newPrice) (vw_billing w') = Inr newPrice" using stored by (simp add: w' PriceGetByID_def)
  from scheduled_price_applied [OF renew found(1) s0(4) this] s0(1 - 3) found(2) show ?thesis by (simp add: w')
qed

lemma no_card: "ResolveVault cfg env (synthetic_request req s) user provider w = (Inl (ErrMsg ''payment_method_id or payment_token is required''), w)"
  by (simp add: ResolveVault_def synthetic_request_def)

lemma upgrade_without_card:
  "\<exists>e. upgrade_body cfg env (synthetic_request req s') user newPrice newProduct s old provider k w =
    (Inl e, idem_failed cfg (env_now env) ''nmi_upgrade'' k e w)"
  unfolding upgrade_body_def Let_def by (auto simp: no_card split: sum.split option.split prod.split)

text \<open>
  C28: An upgrade of a subscription at a gateway never succeeds. The request that is made up for it names no card, so that
  every attempt whose key has no cached success ends with an error, before the gateway is called; tables and payment methods stay as they are.
\<close>

theorem TierChange_upgrade_needs_card:
  assumes target: "tier_target cfg req (vw_billing w) = Inr (newPrice, newProduct)"
    and sub: "tier_subscription (env_now env) req user (vw_billing w) = Inr s"
    and current: "tier_current s (vw_billing w) = Inr (currentPrice, currentProduct)"
    and higher: "tier_compatible currentProduct newProduct = Inr ()" "tier_action currentProduct newProduct = ''upgrade''"
    and nmi: "IsNMIBacked (lc_nmi (kc_lifecycle cfg)) (sub_Processor s)" "sub_Processor s \<notin> {''stripe'', ''ccbill'', ''solana''}"
    and new: "\<And>rec idem. Begin (env_now env) ''nmi_upgrade'' (if tr_IdempotencyKey req \<noteq> [] then tr_IdempotencyKey req
        else GenerateKeyForUpgrade (env_uuid_String env) (ui_ID user) (sub_ID s) (price_ID newPrice)) (kw_idem w) = ((rec, True), idem) \<Longrightarrow>
      ir_Status rec \<noteq> IdempotencyStatusSuccess"
  shows "\<exists>e w'. TierChange cfg env req user w = (Inl e, w') \<and>
    vw_billing w' = vw_billing w \<and> vw_methods w' = vw_methods w \<and> vw_gateway w' = vw_gateway w"
proof -
  have "getUpgradeIdempotencyKey (env_uuid_String env) (synthetic_request req s) (ui_ID user) (sub_ID s) (price_ID newPrice) =
      (if tr_IdempotencyKey req \<noteq> [] then tr_IdempotencyKey req
       else GenerateKeyForUpgrade (env_uuid_String env) (ui_ID user) (sub_ID s) (price_ID newPrice))" (is "?k = _")
    by (simp add: getUpgradeIdempotencyKey_def synthetic_request_def)
  note new = new [folded this]
  obtain rec exists idem where b: "Begin (env_now env) ''nmi_upgrade'' ?k (kw_idem w) = ((rec, exists), idem)"
    by (metis prod.collapse)
  have "\<exists>e w'. processUpgrade cfg env (synthetic_request req s) user newPrice newProduct s (Some currentPrice) (sub_Processor s) w = (Inl e, w') \<and>
    vw_billing w' = vw_billing w \<and> vw_methods w' = vw_methods w \<and> vw_gateway w' = vw_gateway w"
    using nmi b new upgrade_without_card [of cfg env req s user newPrice newProduct s "Some currentPrice" "Lower (sub_Processor s)" ?k "w\<lparr>kw_idem := idem\<rparr>"]
    by (cases "ir_Status rec"; cases exists) (auto simp: processUpgrade_def Let_def under_key_def idem_failed_def)
  then show ?thesis using target sub current higher nmi
    by (auto simp: TierChange_def Let_def rbind_def processTierChangeNMI_def)
qed

section \<open>Whose card is charged\<close>

lemma method_unique: "pms_ok rows \<Longrightarrow> a \<in> set rows \<Longrightarrow> b \<in> set rows \<Longrightarrow> pm_ID a = pm_ID b \<Longrightarrow> a = b"
  using methods.ok_pair [of rows a b] by (cases "a = b") (simp_all add: pm_clash_None)

lemma ValidatePaymentMethodOperation_Inr:
  assumes "pms_ok rows" "ValidatePaymentMethodOperation uuid_String i u rows = Inr pm"
  shows "pm \<in> set rows \<and> pm_ID pm = i \<and> pm_UserID pm = u"
proof -
  have pm: "pm \<in> set rows" "pm_ID pm = i" "ExistsForUser i u rows"
    using assms(2) by (auto simp: ValidatePaymentMethodOperation_def MethodGetByID_def PaymentMethodGetByID_def ValidateOwnership_def
        split: if_split_asm sum.split_asm dest: sql_find_memb)
  then obtain m where "m \<in> set rows" "pm_ID m = i" "pm_UserID m = u"
    by (auto simp: ExistsForUser_def filter_empty_conv)
  with method_unique [OF assms(1) this(1) pm(1)] pm show ?thesis by simp
qed

lemma CreateVault_Inr:
  assumes "CreateVault clients env u req w = (Inr pm, w')"
  shows "pm \<in> set (vw_methods w') \<and> pm_UserID pm = u \<and> pm_Processor pm = TrimSpace (ToLower (cr_Provider req)) \<and> TrimSpace (ToLower (cr_Provider req)) \<noteq> []"
  using assms by (auto simp: CreateVault_def new_method_def PaymentMethodCreate_def tbl_insert_Inr Let_def
      split: if_split_asm option.split_asm sum.split_asm prod.split_asm)

text \<open>
  C10: A purchase is only charged to a card of its buyer. The vault that is resolved for a request belongs to a stored payment method of the
  user at that gateway: the method the request names, and then nothing is changed, or the one that was just created for the token.
\<close>

theorem ResolveVault_owned:
  assumes ok: "pms_ok (vw_methods w)" and run: "ResolveVault cfg env req user provider w = (Inr (vaultID, created), w')"
  shows "\<exists>pm \<in> set (vw_methods w'). pm_UserID pm = ui_ID user \<and> pm_VaultID pm = vaultID \<and> SameProcessor (pm_Processor pm) provider \<and>
    (if created = None then w' = w \<and> IsNMIBacked (lc_nmi (kc_lifecycle cfg)) (pm_Processor pm) else created = Some pm)"
proof (cases "kr_PaymentMethodID req = []")
  case True
  then obtain pm where c: "CreateVault (kc_clients cfg) env (ui_ID user) (vault_request cfg req user provider) w = (Inr pm, w')"
    and "vaultID = pm_VaultID pm" "created = Some pm"
    using run by (auto simp: ResolveVault_def split: if_split_asm sum.split_asm prod.split_asm)
  moreover have "SameProcessor (pm_Processor pm) provider"
  proof -
    have "TrimSpace (ToLower provider) = Lower provider" by (simp add: Lower_def Trim_def TrimSpace_ToLower)
    then have "pm_Processor pm = Lower provider" "Lower provider \<noteq> []" using CreateVault_Inr [OF c] by (simp_all add: vault_request_def)
    then show ?thesis by (simp add: SameProcessor_def Let_def)
  qed
  ultimately show ?thesis using CreateVault_Inr [OF c] by (intro bexI [of _ pm]) simp_all
next
  case False
  then obtain i where p: "ParseID (lc_uuid_Parse (kc_lifecycle cfg)) PaymentMethod (kr_PaymentMethodID req) = Inr i"
    using run by (cases "ParseID (lc_uuid_Parse (kc_lifecycle cfg)) PaymentMethod (kr_PaymentMethodID req)") (simp_all add: ResolveVault_def)
  with False obtain pm where v: "ValidatePaymentMethodOperation (env_uuid_String env) i (ui_ID user) (vw_methods w) = Inr pm"
    using run by (cases "ValidatePaymentMethodOperation (env_uuid_String env) i (ui_ID user) (vw_methods w)") (simp_all add: ResolveVault_def)
  with False p have "IsNMIBacked (lc_nmi (kc_lifecycle cfg)) (pm_Processor pm)" "SameProcessor (pm_Processor pm) provider"
    "vaultID = pm_VaultID pm" "created = None" "w' = w"
    using run by (simp_all add: ResolveVault_def split: if_split_asm)
  with ValidatePaymentMethodOperation_Inr [OF ok v] show ?thesis by (intro bexI [of _ pm]) simp_all
qed

section \<open>A second subscription of a product\<close>

lemma ResolveVault_billing: "ResolveVault cfg env req user provider w = (r, w') \<Longrightarrow> vw_billing w' = vw_billing w"
  unfolding ResolveVault_def CreateVault_def Let_def by (auto split: if_splits sum.splits prod.splits option.splits)

lemma SubscriptionServiceCreate_exists:
  assumes "s \<in> set rows" "sub_UserID s = sub_UserID new" "sub_ProductID s = sub_ProductID new" "active_or_pending s" "active_or_pending new"
  shows "SubscriptionServiceCreate nz new rows = Inl ErrActiveSubscriptionExists"
  using assms by (auto simp: SubscriptionServiceCreate_def GetActiveOrPendingByUserIDAndProductID_def sql_find_def find_None_iff split: option.split)

text \<open>
  C29: A member with an active or pending subscription for a product, whose coverage of the product has an end, can buy it again at a
  gateway: with an active subscription of a known period, that is (a pending one without a period end counts as unlimited coverage, and the
  checkout is blocked). The gateway accepts a second recurring subscription; saving it is refused because of the first one, the
  checkout reports the error, and the subscription at the gateway
  stays, unknown to the tables, and will charge the card.
\<close>

theorem Checkout_leaves_orphan:
  assumes checks: "checkout_checks_of cfg req (vw_billing w) = Inr (price, product, processor)" "tier_conflict user product (vw_billing w) = Inr None"
    and recurring: "price_BillingCycleDays price \<noteq> None"
    and nmi: "IsNMIBacked (lc_nmi (kc_lifecycle cfg)) processor" "processor \<noteq> ''ccbill''" "Lower processor \<noteq> []"
    and coverage: "cov = GetUserProductCoverage (env_now env) (ui_ID user) product (vw_billing w)" "\<not> cov_IsIndefinite cov"
    and existing: "s \<in> set (bdb_subs (vw_billing w))" "sub_UserID s = ui_ID user" "sub_ProductID s = price_ProductID price" "active_or_pending s"
    and plan: "requireNMIPlanForProcessor (env_uuid_String env) price (Lower processor) = Inr planID" "nmi_client_of cfg (Lower processor) = Inr client"
    and new: "Begin (env_now env) ''nmi_subscription'' (getIdempotencyKey (env_uuid_String env) req (ui_ID user) (price_ID price) ''nmi_subscription'')
      (kw_idem w) = ((rec, False), idem)"
    and card: "ResolveVault cfg env req user (Lower processor) (w\<lparr>kw_idem := idem\<rparr>) = (Inr (vaultID, created), w1)"
    and charged: "AddRecurringSubscription client (recurring_data req user price planID vaultID
      (traced_order req (env_uuid_String env (env_uuid env 1))) (case future_start cov (env_now env) of None \<Rightarrow> [] | Some (d, _) \<Rightarrow> d))
      (vw_gateway w1) = (Inr resp, g)"
  shows "\<exists>w'. Checkout cfg env req user w = (Inl (ErrWrap ''failed to save subscription'' ErrActiveSubscriptionExists), w') \<and>
    vw_gateway w' = g \<and> vw_billing w' = vw_billing w"
proof -
  have "vw_billing w1 = vw_billing w" using ResolveVault_billing [OF card] by simp
  with SubscriptionServiceCreate_exists [OF existing(1)] existing(2 - 4)
  have refused: "SubscriptionServiceCreate nz (new_subscription cfg now req user price provider i pid StatusPending created\<lparr>sub_Metadata := m\<rparr>)
    (bdb_subs (vw_billing w1)) = Inl ErrActiveSubscriptionExists" for nz now provider i pid m
    by (simp add: new_subscription_def active_or_pending_def)
  show ?thesis using checks recurring nmi coverage plan new card charged refused \<open>vw_billing w1 = vw_billing w\<close>
    by (simp add: Checkout_def CheckoutProcessSubscription_def processNMISubscription_def under_key_def subscription_body_def Let_def
        rbind_def idem_failed_def split: option.split_asm)
qed

section \<open>Examples\<close>

text \<open>A gateway that accepts every request and keeps a log of them.\<close>

definition ex_gateway :: "(string \<times> string) list list nmi_client" where
  "ex_gateway = \<lparr>nc_providerName = ''mobius'', nc_SecurityKey = ''key'',
     nc_post = (\<lambda>values g. (Inr ''response=1&transactionid=tx9&customer_vault_id=v9&subscription_id=s9'', g @ [values]))\<rparr>"

definition ex_stripe_api :: "(string \<times> string) list list stripe_client" where
  "ex_stripe_api = \<lparr>st_processor = Some \<lparr>stp_SecretKey = ''sk'', stp_SuccessURL = ''s'', stp_CancelURL = ''c''\<rparr>,
     st_http = (\<lambda>_ _ values g. (Inr (200, ''{}''), g @ [values])), st_message = (\<lambda>_. None), st_items = (\<lambda>_. Some [''si_1'']), st_url = (\<lambda>_. Some ''u'')\<rparr>"

text \<open>A decodable text form of the cached results: each part is preceded by its length in unary.\<close>

definition part :: "string \<Rightarrow> string" where
  "part s = replicate (length s) CHR ''1'' @ CHR ''0'' # s"

definition unpart :: "string \<Rightarrow> string \<times> string" where
  "unpart t = (let n = length (takeWhile (\<lambda>c. c = CHR ''1'') t) in (take n (drop (n + 1) t), drop (2 * n + 1) t))"

lemma unpart_part [simp]: "unpart (part s @ r) = (s, r)"
proof -
  have "takeWhile (\<lambda>c. c = CHR ''1'') (replicate n CHR ''1'' @ CHR ''0'' # t) = replicate n CHR ''1''" for n t by (induction n) simp_all
  then show ?thesis by (simp add: part_def unpart_def Let_def)
qed

definition sale_text :: "checkoutSaleIdempotencyResult \<Rightarrow> string" where
  "sale_text x = part (xi_TransactionID x) @ part (replicate (xi_PaymentID x) CHR ''1'') @
     (case xi_DelayedStart x of None \<Rightarrow> [] | Some d \<Rightarrow> CHR ''1'' # d)"

definition read_sale :: "string \<Rightarrow> checkoutSaleIdempotencyResult \<times> bool" where
  "read_sale t = (let (a, t) = unpart t; (b, t) = unpart t
     in (\<lparr>xi_TransactionID = a, xi_PaymentID = length b, xi_DelayedStart = (case t of [] \<Rightarrow> None | _ # d \<Rightarrow> Some d)\<rparr>, True))"

lemma read_sale_text: "read_sale (sale_text x) = (x, True)"
  by (simp add: read_sale_def sale_text_def split: option.split)

definition ex_checkout_cfg :: "(string \<times> string) list list checkout_cfg" where
  "ex_checkout_cfg = \<lparr>kc_lifecycle = ex_cfg\<lparr>lc_uuid_Parse := (\<lambda>s. if s = ''p2'' then Some 2 else if s = ''p3'' then Some 3 else None)\<rparr>,
     kc_testMode = True, kc_ccbill = None, kc_sha256 = id, kc_clients = [''mobius'' \<mapsto> ex_gateway], kc_stripe = ex_stripe_api,
     kc_message = (\<lambda>_. []), kc_sale_json = \<lparr>json_Marshal = sale_text, json_Unmarshal = read_sale\<rparr>,
     kc_subscription_json = \<lparr>json_Marshal = si_TransactionID, json_Unmarshal = (\<lambda>_. (\<lparr>si_SubscriptionID = [], si_TransactionID = [], si_DelayedStart = None\<rparr>, False))\<rparr>,
     kc_upgrade_json = \<lparr>json_Marshal = pi_Message, json_Unmarshal = (\<lambda>_. (\<lparr>pi_SubscriptionID = [], pi_ProrationTransactionID = [], pi_Message = []\<rparr>, False))\<rparr>,
     kc_run_json = (@), kc_tag_json = id\<rparr>"

definition ex_plan_price :: price where
  "ex_plan_price = ex_price\<lparr>price_Processors := Some [''mobius'' \<mapsto> [''plan_id'' \<mapsto> ''plan1'']]\<rparr>"

definition ex_tier :: "uuid \<Rightarrow> int \<Rightarrow> product" where
  "ex_tier i rank = ex_product\<lparr>prod_ID := i, prod_TierGroup := Some ''tiers'', prod_TierRank := rank\<rparr>"

text \<open>A product of rank one, sold at the price 2, and a product of another rank, sold at the price 3.\<close>

definition ex_shop :: "int \<Rightarrow> (unit, (string \<times> string) list list) checkout_world" where
  "ex_shop rank = \<lparr>vw_billing = (ex_billing ex_sub)\<lparr>bdb_prices := [ex_plan_price, ex_plan_price\<lparr>price_ID := 3, price_ProductID := 7\<rparr>],
       bdb_products := [ex_tier 1 1, ex_tier 7 rank]\<rparr>,
     vw_methods = [ex_method], vw_gateway = [], kw_idem = empty_store (60 * time_Minute)\<rparr>"

definition ex_card_request :: CheckoutRequest where
  "ex_card_request = \<lparr>kr_PriceID = ''price_p2'', kr_PaymentMethodID = [], kr_PaymentToken = ''tok'', kr_Processor = ''mobius'',
      kr_SuccessURL = [], kr_CancelURL = [], kr_IdempotencyKey = ''k'', kr_CheckoutSessionID = [], kr_Email = [],
      kr_FirstName = [], kr_LastName = [], kr_Address1 = [], kr_City = [], kr_State = [], kr_Zip = [], kr_Country = [],
      kr_LastFour = [], kr_CardType = [], kr_ExpiryDate = [], kr_Metadata = []\<rparr>"

definition ex_user :: UserIdentity where
  "ex_user = \<lparr>ui_ID = ''u'', ui_Email = None, ui_Username = ''user''\<rparr>"

lemma ex_shop_ok: "vault_ok (ex_shop rank)"
proof -
  have "billing_ok (vw_billing (ex_shop rank))" using ex_billing_ok by (simp add: billing_ok_def ex_shop_def)
  moreover have "pms_ok (vw_methods (ex_shop rank))" by (simp add: ex_shop_def tbl_ok_def)
  ultimately show ?thesis by (simp add: vault_ok_def)
qed

definition ex_sale where
  "ex_sale = processNMISale ex_checkout_cfg (ex_ent_env (140 * ex_day) 10) ex_card_request ex_user ex_plan_price (ex_tier 1 1) ''mobius'' (ex_shop 2)"

lemma ex_sale_runs: "map_sum (\<lambda>_. ()) ko_TransactionID (fst ex_sale) = Inr ''tx9''"
  by code_simp

theorem services_keep_constraints_witness:
  "length (filter (\<lambda>s. sub_UserID s = ''u'' \<and> sub_Status s = StatusActive)
     (bdb_subs (vw_billing (service_step (CheckoutRequested ex_checkout_cfg (ex_ent_env (140 * ex_day) 10) ex_card_request ex_user) (ex_shop 2))))) \<le> 1"
  using services_keep_constraints [of "ex_shop 2" _ "[CheckoutRequested ex_checkout_cfg (ex_ent_env (140 * ex_day) 10) ex_card_request ex_user]"
    "''u''", OF ex_shop_ok refl] by simp

theorem ResolveVault_owned_witness:
  "\<exists>v created w'. ResolveVault ex_checkout_cfg (ex_ent_env (140 * ex_day) 10) ex_card_request ex_user ''mobius'' (ex_shop 2) = (Inr (v, created), w') \<and>
     (\<exists>pm \<in> set (vw_methods w'). pm_UserID pm = ''u'' \<and> pm_VaultID pm = v)"
proof -
  let ?run = "ResolveVault ex_checkout_cfg (ex_ent_env (140 * ex_day) 10) ex_card_request ex_user ''mobius'' (ex_shop 2)"
  have "\<not> isl (fst ?run)" by code_simp
  then obtain v created w' where run: "?run = (Inr (v, created), w')" by (metis prod.collapse sum.collapse(2))
  with ResolveVault_owned [OF vault_okD(2) [OF ex_shop_ok] run] show ?thesis by (auto simp: ex_user_def)
qed

theorem processNMISale_once_witness:
  "\<exists>r w'. ex_sale = (Inr r, w') \<and> (\<exists>r'. processNMISale ex_checkout_cfg (ex_ent_env (140 * ex_day + 5) 30) ex_card_request ex_user ex_plan_price
     (ex_tier 1 1) ''mobius'' w' = (Inr r', w') \<and> ko_TransactionID r' = ''tx9'')"
proof -
  obtain r where "fst ex_sale = Inr r" "ko_TransactionID r = ''tx9''" using ex_sale_runs by (cases "fst ex_sale") simp_all
  then obtain w' where run: "ex_sale = (Inr r, w')" "ko_TransactionID r = ''tx9''" by (metis prod.collapse)
  have "is_client (kw_idem (ex_shop 2)) = None" "is_ttl (kw_idem (ex_shop 2)) = 60 * time_Minute" "IdempotencyGet t op k (kw_idem (ex_shop 2)) = None" for t op k
    by (simp_all add: ex_shop_def empty_store_def IdempotencyGet_def getMemory_def)
  with processNMISale_once [OF _ _ _ run(1) [unfolded ex_sale_def], of "ex_ent_env (140 * ex_day + 5) 30" ex_card_request "ex_tier 1 1"] run
  show ?thesis
    by (auto simp: ex_checkout_cfg_def read_sale_text ex_ent_env_def getIdempotencyKey_def ex_card_request_def time_Minute_def time_Second_def)
qed

definition ex_change :: TierChangeRequest where
  "ex_change = \<lparr>tr_PriceID = ''price_p3'', tr_SubscriptionID = uuid_Nil, tr_IdempotencyKey = []\<rparr>"

abbreviation (input) ex_other_price :: price where
  "ex_other_price \<equiv> ex_plan_price\<lparr>price_ID := 3, price_ProductID := 7\<rparr>"

lemma ex_ids:
  "ParseID (lc_uuid_Parse (kc_lifecycle ex_checkout_cfg)) Price ''price_p2'' = Inr 2"
  "ParseID (lc_uuid_Parse (kc_lifecycle ex_checkout_cfg)) Price ''price_p3'' = Inr 3"
  by code_simp+

lemma ex_shop_lookups:
  "PriceGetByID 2 (vw_billing (ex_shop rank)) = Inr ex_plan_price" "PriceGetByID 3 (vw_billing (ex_shop rank)) = Inr ex_other_price"
  "ProductGetByID 1 (vw_billing (ex_shop rank)) = Inr (ex_tier 1 1)" "ProductGetByID 7 (vw_billing (ex_shop rank)) = Inr (ex_tier 7 rank)"
  "price_IsActive ex_plan_price" "price_ProductID ex_plan_price = 1" "price_ID ex_plan_price = 2" "price_BillingCycleDays ex_plan_price = Some 30"
  "prod_IsActive (ex_tier i rank)" "prod_ID (ex_tier i rank) = i" "prod_TierGroup (ex_tier i rank) = Some ''tiers''" "prod_TierRank (ex_tier i rank) = rank"
  by (simp_all add: PriceGetByID_def ProductGetByID_def sql_find_def ex_shop_def ex_plan_price_def ex_price_def ex_tier_def ex_product_def)

theorem TierChange_upgrade_needs_card_witness:
  "\<exists>e w'. TierChange ex_checkout_cfg (ex_ent_env (110 * ex_day) 10) ex_change ex_user (ex_shop 2) = (Inl e, w') \<and> vw_gateway w' = []"
proof -
  let ?env = "ex_ent_env (110 * ex_day) 10" and ?db = "vw_billing (ex_shop 2)"
  have "tier_target ex_checkout_cfg ex_change ?db = Inr (ex_other_price, ex_tier 7 2)"
    by (simp add: tier_target_def tier_error_def ex_change_def ex_ids ex_shop_lookups rbind_def)
  moreover have "tier_current ex_sub ?db = Inr (ex_plan_price, ex_tier 1 1)"
    by (simp add: tier_current_def tier_error_def ex_sub_def ex_shop_lookups rbind_def del: One_nat_def)
  moreover have "tier_compatible (ex_tier 1 1) (ex_tier 7 2) = Inr ()" "tier_action (ex_tier 1 1) (ex_tier 7 2) = ''upgrade''"
    by (simp_all add: tier_compatible_def tier_action_def ex_shop_lookups)
  moreover have "tier_subscription (env_now ?env) ex_change ex_user ?db = Inr ex_sub" "sub_Processor ex_sub \<notin> {''stripe'', ''ccbill'', ''solana''}"
    "IsNMIBacked (lc_nmi (kc_lifecycle ex_checkout_cfg)) (sub_Processor ex_sub)" by code_simp+
  moreover have "\<not> snd (fst (Begin t op k (kw_idem (ex_shop 2))))" for t op k
    by (simp add: ex_shop_def empty_store_def Begin_def beginMemory_def)
  then have "Begin t op k (kw_idem (ex_shop 2)) \<noteq> ((rec, True), idem)" for t op k rec idem by (metis fst_conv snd_conv)
  ultimately show ?thesis
    using TierChange_upgrade_needs_card [of ex_checkout_cfg ex_change "ex_shop 2" ex_other_price "ex_tier 7 2" ?env ex_user ex_sub ex_plan_price "ex_tier 1 1"]
    by (auto simp: ex_shop_def)
qed

definition ex_scheduled where
  "ex_scheduled = processDowngrade ex_checkout_cfg (ex_ent_env (110 * ex_day) 10) ex_other_price (ex_tier 7 0) ex_sub ''mobius'' (ex_shop 0)"

lemma ex_scheduled_runs:
  "map_sum (\<lambda>_. ()) ko_Status (fst ex_scheduled) = Inr ''success''"
  "fst (RenewMembership ex_cfg (ex_ent_env (130 * ex_day) 20) ex_renew (vw_billing (snd ex_scheduled))) = Inr True"
  "map_sum (\<lambda>_. ()) sub_ID (renewal_subscription ex_cfg ex_renew (bdb_subs (vw_billing (snd ex_scheduled)))) = Inr 5"
  by code_simp+

lemma mapped_Inr: "map_sum f h x = Inr y \<Longrightarrow> \<exists>z. x = Inr z \<and> h z = y"
  by (cases x) simp_all

lemma flag_False: "\<not> snd (fst x) \<Longrightarrow> x = ((fst (fst x), False), snd x)"
  by (cases x) auto

theorem downgrade_applied_at_renewal_witness:
  "\<exists>x \<in> set (bdb_subs (snd (RenewMembership ex_cfg (ex_ent_env (130 * ex_day) 20) ex_renew (vw_billing (snd ex_scheduled))))). sub_PriceID x = 3"
proof -
  let ?renew = "RenewMembership ex_cfg (ex_ent_env (130 * ex_day) 20) ex_renew (vw_billing (snd ex_scheduled))"
  obtain r s0 where "fst ex_scheduled = Inr r" "ko_Status r = ''success''"
    and s0: "renewal_subscription ex_cfg ex_renew (bdb_subs (vw_billing (snd ex_scheduled))) = Inr s0" "sub_ID s0 = sub_ID ex_sub"
    using mapped_Inr [OF ex_scheduled_runs(1)] mapped_Inr [OF ex_scheduled_runs(3)] by (auto simp: ex_sub_def)
  then have "processDowngrade ex_checkout_cfg (ex_ent_env (110 * ex_day) 10) ex_other_price (ex_tier 7 0) ex_sub ''mobius'' (ex_shop 0) =
      (Inr r, snd ex_scheduled)" "?renew = (Inr True, snd ?renew)"
    using ex_scheduled_runs(2) by (metis prod.collapse ex_scheduled_def)+
  from downgrade_applied_at_renewal [OF this(1) \<open>ko_Status r = ''success''\<close> _ this(2) s0] show ?thesis by (auto simp: ex_shop_lookups)
qed

lemma ex_gateway_accepts:
  assumes "rpd_PlanID d \<noteq> []" "rpd_CustomerVaultID d \<noteq> []"
  shows "\<exists>resp. AddRecurringSubscription ex_gateway d g = (Inr resp, g @ [recurring_values ex_gateway d])"
proof -
  have "case parseDirectResponse ''response=1&transactionid=tx9&customer_vault_id=v9&subscription_id=s9'' of
      Inl _ \<Rightarrow> False | Inr output \<Rightarrow> isDirectResponseApproved output" by code_simp
  then have "\<exists>x. direct_call ex_gateway vs a b g = (Inr x, g @ [vs])" for vs a b g
    by (auto simp: direct_call_def ex_gateway_def split: sum.split_asm)
  then obtain x where "direct_call ex_gateway (recurring_values ex_gateway d) id newAddSubscriptionError g = (Inr x, g @ [recurring_values ex_gateway d])"
    by blast
  with assms show ?thesis by (simp add: AddRecurringSubscription_def checkConfiguration_def) (simp add: ex_gateway_def)
qed

theorem Checkout_leaves_orphan_witness:
  "\<exists>w' d. Checkout ex_checkout_cfg (ex_ent_env (110 * ex_day) 10) ex_card_request ex_user (ex_shop 2) =
     (Inl (ErrWrap ''failed to save subscription'' ErrActiveSubscriptionExists), w') \<and> recurring_values ex_gateway d \<in> set (vw_gateway w')"
proof -
  let ?env = "ex_ent_env (110 * ex_day) 10" and ?w = "ex_shop 2" and ?cfg = ex_checkout_cfg
  let ?b = "Begin (env_now ?env) ''nmi_subscription'' (getIdempotencyKey (env_uuid_String ?env) ex_card_request (ui_ID ex_user) (price_ID ex_plan_price) ''nmi_subscription'') (kw_idem ?w)"
  let ?cov = "GetUserProductCoverage (env_now ?env) (ui_ID ex_user) (ex_tier 1 1) (vw_billing ?w)"
  let ?res = "ResolveVault ?cfg ?env ex_card_request ex_user (Lower ''mobius'') (?w\<lparr>kw_idem := snd ?b\<rparr>)"
  have mobius: "Lower ''mobius'' = ''mobius''" by code_simp
  have checks: "checkout_checks_of ?cfg ex_card_request (vw_billing ?w) = Inr (ex_plan_price, ex_tier 1 1, ''mobius'')"
  proof -
    have "TrimSpace (ToLower ''mobius'') = ''mobius''" by code_simp
    then show ?thesis by (simp add: checkout_checks_of_def ex_card_request_def wrapped_def ex_ids ex_shop_lookups rbind_def del: One_nat_def)
  qed
  have cov: "\<not> cov_IsIndefinite ?cov" and sub: "ex_sub \<in> set (bdb_subs (vw_billing ?w))" "sub_UserID ex_sub = ui_ID ex_user"
    "sub_ProductID ex_sub = price_ProductID ex_plan_price" "active_or_pending ex_sub"
    and plan: "requireNMIPlanForProcessor (env_uuid_String ?env) ex_plan_price (Lower ''mobius'') = Inr ''plan1''" by code_simp+
  have tier: "tier_conflict ex_user (ex_tier 1 1) (vw_billing ?w) = Inr None"
  proof -
    have "case tier_conflict ex_user (ex_tier 1 1) (vw_billing ?w) of Inr None \<Rightarrow> True | _ \<Rightarrow> False" by code_simp
    then show ?thesis by (auto split: sum.split_asm option.split_asm)
  qed
  have client: "nmi_client_of ?cfg (Lower ''mobius'') = Inr ex_gateway" by (simp add: nmi_client_of_def ex_checkout_cfg_def mobius)
  have nmi: "IsNMIBacked (lc_nmi (kc_lifecycle ?cfg)) ''mobius''" "''mobius'' \<noteq> ''ccbill''" "Lower ''mobius'' \<noteq> []" by code_simp+
  have "\<not> snd (fst ?b)" by code_simp
  then have b: "?b = ((fst (fst ?b), False), snd ?b)" by (rule flag_False)
  have "map_sum (\<lambda>_. ()) fst (fst ?res) = Inr ''v9''" by code_simp
  from mapped_Inr [OF this] obtain z where "fst ?res = Inr z" "fst z = ''v9''" by blast
  then have res: "?res = (Inr (''v9'', snd z), snd ?res)" by (intro prod_eqI) (auto simp: prod_eq_iff)
  let ?d = "recurring_data ex_card_request ex_user ex_plan_price ''plan1'' ''v9'' (traced_order ex_card_request (env_uuid_String ?env (env_uuid ?env 1)))
    (case future_start ?cov (env_now ?env) of None \<Rightarrow> [] | Some (d, _) \<Rightarrow> d)"
  obtain resp where "AddRecurringSubscription ex_gateway ?d (vw_gateway (snd ?res)) = (Inr resp, vw_gateway (snd ?res) @ [recurring_values ex_gateway ?d])"
    using ex_gateway_accepts [of ?d "vw_gateway (snd ?res)"] by (auto simp: recurring_data_def)
  from Checkout_leaves_orphan [OF checks tier _ nmi refl cov sub plan client b res this] ex_shop_lookups show ?thesis by auto
qed

end
