(* ===== verification/Service_Properties.thy ===== *)
theory Service_Properties
  imports Checkout_Properties Membership_Access
begin

text \<open>
  Properties of the services of members and administrators and of the two workers: what a cancellation by an administrator ends, and what the workers
  cancel and resume.
\<close>

section \<open>Cancelling and resuming\<close>

lemma revoke_each_names:
  "revoke_names now u EntitlementSourceSubscription i EntitlementRevokeAdmin ns rows = Inr rows' \<Longrightarrow> revoke_each now u i ns rows = rows'"
proof (induction ns arbitrary: rows)
  case (Cons n ns)
  then obtain rows1 where "tx_logged (revoke_source now u n EntitlementSourceSubscription i EntitlementRevokeAdmin rows) rows = Inr rows1"
    "revoke_names now u EntitlementSourceSubscription i EntitlementRevokeAdmin ns rows1 = Inr rows'" by (auto split: sum.split_asm)
  with Cons.IH [OF this(2)] show ?case by (auto simp: tx_logged_Inr)
qed simp

text \<open>
  C16: When an administrator cancels a subscription, its row is cancelled by the merchant, no window that it gave its user
  is usable any more, and windows from other sources stay.
\<close>

theorem AdminCancelSubscription_ends_access:
  assumes ok: "billing_ok (vw_billing w)" and sub: "SubGetByID i (bdb_subs (vw_billing w)) = Inr s" "sub_UserID s \<noteq> []" "i \<noteq> uuid_Nil"
    and run: "AdminCancelSubscription cfg clients stripe env i reason w = (Inr (), w')"
  shows "(\<exists>r \<in> set (bdb_subs (vw_billing w')). sub_ID r = i) \<and>
    (\<forall>r \<in> set (bdb_subs (vw_billing w')). sub_ID r = i \<longrightarrow> sub_Status r = StatusCancelled \<and> sub_CancelType r = Some CancelTypeMerchant) \<and>
    source_ended EntitlementSourceSubscription i (sub_UserID s) (env_now env) (bdb_ents (vw_billing w')) \<and>
    (\<forall>e \<in> set (bdb_ents (vw_billing w)). \<not> by_source EntitlementSourceSubscription i e \<longrightarrow> e \<in> set (bdb_ents (vw_billing w')))"
proof -
  have i: "sub_ID s = i" using sub(1) by (auto simp: SubGetByID_def dest: sql_find_memb)
  let ?ns = "ListDistinctEntitlementNamesBySource EntitlementSourceSubscription i (bdb_ents (vw_billing w))"
  from run sub(1) i obtain rows where
    u: "SubscriptionRepoUpdate (lc_nz cfg) (env_now env) (cancelled_by (env_now env) CancelTypeMerchant reason s) (bdb_subs (vw_billing w)) = Inr rows"
    and w': "bdb_subs (vw_billing w') = rows"
      "bdb_ents (vw_billing w') = revoke_each (env_now env) (sub_UserID s) i ?ns (bdb_ents (vw_billing w))"
    unfolding AdminCancelSubscription_def
    by (auto simp: notify_logged_def split: if_split_asm sum.split_asm prod.split_asm option.split_asm)
  have c: "sub_ID (cancelled_by (env_now env) CancelTypeMerchant reason s) = i" by (simp add: cancelled_by_def i)
  obtain ents where "revoke_all (env_now env) (sub_UserID s) EntitlementSourceSubscription i EntitlementRevokeAdmin (bdb_ents (vw_billing w)) = Inr ents"
    and "source_ended EntitlementSourceSubscription i (sub_UserID s) (env_now env) ents"
    "\<forall>e \<in> set (bdb_ents (vw_billing w)). \<not> by_source EntitlementSourceSubscription i e \<longrightarrow> e \<in> set ents"
    using revoke_all_spec [OF billing_ok_entsD [OF ok] sub(2, 3)] by metis
  moreover from this(1) have "bdb_ents (vw_billing w') = ents" unfolding w'(2) revoke_all_def by (rule revoke_each_names)
  ultimately show ?thesis
    using repo_update_stored [OF u] SubscriptionRepoUpdate_fields(1, 5) [OF u] by (simp add: w'(1) c) (simp add: cancelled_by_def)
qed

text \<open>
  A member who asks to cancel one subscription of a gateway while another is active loses the other: the worker looks up the
  named subscription only to choose the processor, cancels the active one and leaves the named one as it is.
\<close>

theorem CancelSubscriptionWork_cancels_other:
  assumes u: "u \<noteq> []" "i \<noteq> uuid_Nil" and named: "named_subscription u i (vw_billing w) = Some s" "sub_Processor s \<noteq> ProcessorStripe"
    and active: "GetActiveSubscription (env_now env) u (bdb_subs (vw_billing w)) = Inr s'" "sub_ID s' \<noteq> i"
    and run: "CancelSubscriptionWork cfg clients stripe env u i feedback w = (Inr (), w')"
  shows "s \<in> set (bdb_subs (vw_billing w')) \<and>
    (\<exists>r \<in> set (bdb_subs (vw_billing w')). sub_ID r = sub_ID s') \<and>
    (\<forall>r \<in> set (bdb_subs (vw_billing w')). sub_ID r = sub_ID s' \<longrightarrow> sub_Status r = StatusCancelled \<and> sub_CancelType r = Some CancelTypeUser)"
proof -
  have s: "s \<in> set (bdb_subs (vw_billing w))" "sub_ID s = i"
    using named(1) by (auto simp: named_subscription_def SubGetByID_def split: sum.split_asm if_split_asm dest: sql_find_memb)
  have "UserCancelSubscription cfg clients env u feedback w = (Inr (), w')"
    using run u named by (simp add: CancelSubscriptionWork_def)
  then obtain rows where
    r: "SubscriptionRepoUpdate (lc_nz cfg) (env_now env) (cancelled_by (env_now env) CancelTypeUser feedback s') (bdb_subs (vw_billing w)) = Inr rows"
    and w': "bdb_subs (vw_billing w') = rows"
    using active(1) unfolding UserCancelSubscription_def
    by (auto simp: notify_logged_def split: if_split_asm sum.split_asm prod.split_asm option.split_asm)
  have c: "sub_ID (cancelled_by (env_now env) CancelTypeUser feedback s') = sub_ID s'" by (simp add: cancelled_by_def)
  show ?thesis
    using repo_update_stored [OF r] repo_update_others [OF r s(1)] SubscriptionRepoUpdate_fields(1, 5) [OF r] s(2) active(2)
    by (simp add: w' c) (simp add: cancelled_by_def)
qed

text \<open>
  C30: Resuming ignores why a subscription was cancelled. Whatever the named subscription was, after a job that succeeds it is active without
  a type of cancellation, also if a chargeback had ended it, so that renewals are accepted again; the windows that were revoked stay revoked.
\<close>

theorem ResumeSubscriptionWork_revives_chargeback:
  assumes named: "u \<noteq> []" "i \<noteq> uuid_Nil" "named_subscription u i (vw_billing w) = Some s"
    and run: "ResumeSubscriptionWork cfg stripe env u i w = (Inr (), w')"
  shows "(\<exists>r \<in> set (bdb_subs (vw_billing w')). sub_ID r = i) \<and>
    (\<forall>r \<in> set (bdb_subs (vw_billing w')). sub_ID r = i \<longrightarrow> sub_Status r = StatusActive \<and> sub_CancelType r = None \<and>
      assertActiveTransitionAllowed r what False = Inr ()) \<and>
    bdb_ents (vw_billing w') = bdb_ents (vw_billing w)"
proof -
  have s: "sub_ID s = i"
    using named(3) by (auto simp: named_subscription_def SubGetByID_def split: sum.split_asm if_split_asm dest: sql_find_memb)
  from run named obtain rows where r: "SubscriptionRepoUpdate (lc_nz cfg) (env_now env) (resumed s) (bdb_subs (vw_billing w)) = Inr rows"
    and w': "bdb_subs (vw_billing w') = rows" "bdb_ents (vw_billing w') = bdb_ents (vw_billing w)"
    unfolding ResumeSubscriptionWork_def by (auto split: if_split_asm sum.split_asm prod.split_asm)
  have c: "sub_ID (resumed s) = i" "sub_Status (resumed s) = StatusActive" "sub_CancelType (resumed s) = None" by (simp_all add: resumed_def s)
  show ?thesis using repo_update_stored [OF r] SubscriptionRepoUpdate_fields(1, 5) [OF r]
    by (auto simp: w' c assertActiveTransitionAllowed_def TerminalCancelReason_def)
qed

section \<open>Examples\<close>

definition ex_admin_cancel where
  "ex_admin_cancel = AdminCancelSubscription ex_cfg [''mobius'' \<mapsto> ex_gateway] None (ex_ent_env (110 * ex_day) 10) 5 ''fraud'' (ex_shop 2)"

lemma returned: "fst x = r \<Longrightarrow> x = (r, snd x)"
  by (cases x) simp

theorem AdminCancelSubscription_ends_access_witness:
  "source_ended EntitlementSourceSubscription 5 ''u'' (110 * ex_day) (bdb_ents (vw_billing (snd ex_admin_cancel)))"
proof -
  have "fst ex_admin_cancel = Inr ()" by code_simp
  from returned [OF this] have "AdminCancelSubscription ex_cfg [''mobius'' \<mapsto> ex_gateway] None (ex_ent_env (110 * ex_day) 10) 5 ''fraud'' (ex_shop 2) =
    (Inr (), snd ex_admin_cancel)" unfolding ex_admin_cancel_def .
  note run = this
  have "SubGetByID 5 (bdb_subs (vw_billing (ex_shop 2))) = Inr ex_sub" "sub_UserID ex_sub = ''u''" "(5::uuid) \<noteq> uuid_Nil"
    "env_now (ex_ent_env (110 * ex_day) 10) = 110 * ex_day" by code_simp+
  with AdminCancelSubscription_ends_access [OF vault_okD(1) [OF ex_shop_ok] _ _ _ run, of ex_sub] show ?thesis by simp
qed

definition ex_two_subs :: "(unit, (string \<times> string) list list) checkout_world" where
  "ex_two_subs = (ex_shop 2)\<lparr>vw_billing := (vw_billing (ex_shop 2))\<lparr>bdb_subs :=
     [ex_sub, ex_sub\<lparr>sub_ID := 6, sub_ProductID := 7, sub_Status := StatusPending\<rparr>]\<rparr>\<rparr>"

definition ex_cancel_job where
  "ex_cancel_job = CancelSubscriptionWork ex_cfg [''mobius'' \<mapsto> ex_gateway] ex_stripe_api (ex_ent_env (110 * ex_day) 10) ''u'' 6 [] ex_two_subs"

theorem CancelSubscriptionWork_cancels_other_witness:
  "ex_sub\<lparr>sub_ID := 6, sub_ProductID := 7, sub_Status := StatusPending\<rparr> \<in> set (bdb_subs (vw_billing (snd ex_cancel_job)))"
proof -
  let ?s = "ex_sub\<lparr>sub_ID := 6, sub_ProductID := 7, sub_Status := StatusPending\<rparr>" and ?env = "ex_ent_env (110 * ex_day) 10"
  have "fst ex_cancel_job = Inr ()" by code_simp
  from returned [OF this] have run: "CancelSubscriptionWork ex_cfg [''mobius'' \<mapsto> ex_gateway] ex_stripe_api ?env ''u'' 6 [] ex_two_subs = (Inr (), snd ex_cancel_job)"
    unfolding ex_cancel_job_def .
  have "''u'' \<noteq> []" "(6::uuid) \<noteq> uuid_Nil" "named_subscription ''u'' 6 (vw_billing ex_two_subs) = Some ?s" "sub_Processor ?s \<noteq> ProcessorStripe"
    "GetActiveSubscription (env_now ?env) ''u'' (bdb_subs (vw_billing ex_two_subs)) = Inr ex_sub" "sub_ID ex_sub \<noteq> 6" by code_simp+
  from CancelSubscriptionWork_cancels_other [OF this run] show ?thesis by simp
qed

definition ex_disputed :: "(unit, (string \<times> string) list list) checkout_world" where
  "ex_disputed = (ex_shop 2)\<lparr>vw_billing := (vw_billing (ex_shop 2))\<lparr>bdb_subs :=
     [ex_sub\<lparr>sub_Processor := ''stripe'', sub_Status := StatusCancelled, sub_CancelledAt := Some (105 * ex_day), sub_CancelType := Some CancelTypeChargeback\<rparr>],
     bdb_ents := []\<rparr>\<rparr>"

definition ex_resume_job where
  "ex_resume_job = ResumeSubscriptionWork ex_cfg ex_stripe_api (ex_ent_env (110 * ex_day) 10) ''u'' 5 ex_disputed"

theorem ResumeSubscriptionWork_revives_chargeback_witness:
  "list_all (\<lambda>s. assertActiveTransitionAllowed s ''renewal'' False \<noteq> Inr ()) (bdb_subs (vw_billing ex_disputed)) \<and>
   (\<exists>r \<in> set (bdb_subs (vw_billing (snd ex_resume_job))). sub_ID r = 5 \<and> sub_Status r = StatusActive) \<and> bdb_ents (vw_billing (snd ex_resume_job)) = []"
proof
  show "list_all (\<lambda>s. assertActiveTransitionAllowed s ''renewal'' False \<noteq> Inr ()) (bdb_subs (vw_billing ex_disputed))" by code_simp
next
  have "fst ex_resume_job = Inr ()" by code_simp
  from returned [OF this] have run: "ResumeSubscriptionWork ex_cfg ex_stripe_api (ex_ent_env (110 * ex_day) 10) ''u'' 5 ex_disputed = (Inr (), snd ex_resume_job)"
    unfolding ex_resume_job_def .
  have "named_subscription ''u'' 5 (vw_billing ex_disputed) \<noteq> None" "bdb_ents (vw_billing ex_disputed) = []" by code_simp+
  then obtain s where s: "named_subscription ''u'' 5 (vw_billing ex_disputed) = Some s" by blast
  have "''u'' \<noteq> []" "(5::uuid) \<noteq> uuid_Nil" by code_simp+
  from ResumeSubscriptionWork_revives_chargeback [OF this s run] \<open>bdb_ents (vw_billing ex_disputed) = []\<close>
  show "(\<exists>r \<in> set (bdb_subs (vw_billing (snd ex_resume_job))). sub_ID r = 5 \<and> sub_Status r = StatusActive) \<and> bdb_ents (vw_billing (snd ex_resume_job)) = []"
    by auto
qed

end
