(* ===== verification/Spec2Isabelle.thy ===== *)
theory Spec2Isabelle
  imports Credit_Audit Dunning Grant_Properties Dunning_Job_Properties Webhook_Sequences Service_Properties
begin

text \<open>
  \<^bold>\<open>A verification development for the Open Rails billing service.\<close>

  The service keeps memberships and prepaid credits in PostgreSQL. Payment processors (NMI-backed gateways, CCBill,
  Stripe, Solana) report charges, renewals, failures and cancellations by webhooks; the webhook handlers deduplicate them
  and call the \<^emph>\<open>lifecycle\<close> service, which in one transaction changes the \<^emph>\<open>subscription\<close>, writes or ends the
  \<^emph>\<open>entitlement\<close> windows that give the member access, records the \<^emph>\<open>payment\<close> and queues a notification. A renewal may also
  grant \<^emph>\<open>credits\<close>, which the host application deposits, withdraws and holds through the ledger. Periodic jobs expire
  credits and holds and retry failed charges.

  \<^bold>\<open>How code becomes definitions.\<close> A struct is a record and its table a list of rows; the \<^verbatim>\<open>CHECK\<close>, unique and exclusion
  constraints of the migrations are functions that every insertion and update evaluates row by row
  (\<^verbatim>\<open>Sql_Table\<close>). A method is a function from the state to a result (\<open>Inl\<close> an error or a panic, \<open>Inr\<close> a value) and the new
  state; a transaction that fails leaves the state unchanged (\<open>run_in_tx\<close>). The clock, \<^verbatim>\<open>uuid.New\<close> and the text of a
  UUID come from an environment record. Third-party code (the Redis client, UUID hashing and parsing, the NMI gateway behind
  HTTP, how the ORM stores a zero time or a zero key) is a parameter. \<^verbatim>\<open>int64\<close> arithmetic wraps by \<open>i64\<close>, which \<open>i64_eq_sint\<close> shows to be
  that of 64-bit words.

  \<^bold>\<open>The theories.\<close>

  \<^item> \<^verbatim>\<open>Go_Prelude\<close>, \<^verbatim>\<open>Sql_Table\<close>, \<^verbatim>\<open>Go_Time\<close>: the language, its strings, times and errors; tables and transactions; the locale
    \<open>tx_system\<close> of guarded transactions with an invariant. \<open>format_RFC3339Nano_inj\<close> shows that a formatted time determines the
    time.
  \<^item> \<^verbatim>\<open>Credits\<close>, \<^verbatim>\<open>Credit_Jobs\<close> (\<^verbatim>\<open>internal/modules/credits/credits_service.go\<close>, \<^verbatim>\<open>internal/river/jobs_credit_expiry.go\<close>,
    \<^verbatim>\<open>jobs_hold_expiry.go\<close>): the ledger and its two workers. \<^verbatim>\<open>Credit_Ledger\<close> has one inversion lemma per operation,
    \<^verbatim>\<open>Credit_Invariants\<close> and \<^verbatim>\<open>Credit_Properties\<close> the ledger invariant (interpretation \<open>ledger\<close>), exact spending, holds, idempotence and
    the order of spending, \<^verbatim>\<open>Credit_Audit\<close> that balance, log and blocks agree, that the log only grows, and what
    breaks the agreement.
  \<^item> \<^verbatim>\<open>Subscription_Credits\<close>, \<^verbatim>\<open>Grant_Properties\<close> (\<^verbatim>\<open>subscription_credits.go\<close>, \<^verbatim>\<open>credit_type_service.go\<close>): the credits of a
    billing period, granted exactly once.
  \<^item> \<^verbatim>\<open>Entitlements\<close>, \<^verbatim>\<open>Entitlement_Properties\<close> (\<^verbatim>\<open>internal/db/repo/entitlement*.go\<close>,
    \<^verbatim>\<open>internal/modules/entitlements/entitlement_service.go\<close>): the timeline of windows; at most one live window per moment,
    appending, revoking, extending and shortening.
  \<^item> \<^verbatim>\<open>Payments\<close>, \<^verbatim>\<open>Payment_Methods\<close>, \<^verbatim>\<open>Catalog\<close>, \<^verbatim>\<open>Subscriptions\<close>: the other tables, their repositories and model methods;
    refunds never exceed the charge.
  \<^item> \<^verbatim>\<open>Lifecycle\<close> (\<^verbatim>\<open>internal/modules/subscriptions/lifecycle_service.go\<close>): the six transactions that create, renew, reactivate,
    cancel, expire and fail a membership. \<^verbatim>\<open>Lifecycle_Properties\<close> interprets \<open>tx_system\<close> for them; \<^verbatim>\<open>Membership_Creation\<close>,
    \<^verbatim>\<open>Membership_Access\<close> and \<^verbatim>\<open>Dunning\<close> show what a member may access after each.
  \<^item> \<^verbatim>\<open>Idempotency\<close> (\<^verbatim>\<open>internal/modules/idempotency/service.go\<close>, \<^verbatim>\<open>internal/modules/webhooks/deduplication.go\<close>): the store, its
    contract as the locale \<open>idempotency_store\<close>, interpreted on the map in memory, and the deduplication of webhooks,
    for interleaved deliveries too.
  \<^item> \<^verbatim>\<open>Dunning_Job\<close>, \<^verbatim>\<open>Dunning_Job_Properties\<close> (\<^verbatim>\<open>internal/river/jobs_dunning.go\<close>): the worker that retries failed charges, over the
    idempotency store, the lifecycle, the credits and the gateway.
  \<^item> \<^verbatim>\<open>Money\<close> (\<^verbatim>\<open>internal/shared/moneyutil/moneyutil.go\<close>): amounts as text and as cents; rounding to the nearest cent and the
    round trip.
  \<^item> \<^verbatim>\<open>Checkout_Sessions\<close> (\<^verbatim>\<open>internal/db/repo/checkout_session.go\<close>, part of \<^verbatim>\<open>internal/modules/checkout/session_service.go\<close>): how
    a session is settled, and that settling is final. \<^verbatim>\<open>Notifications\<close> (\<^verbatim>\<open>notification_queue.go\<close>,
    \<^verbatim>\<open>notification_service.go\<close>): the queue and its clean-up.
  \<^item> \<^verbatim>\<open>CCBill_Values\<close>, \<^verbatim>\<open>CCBill_Webhooks\<close> (\<^verbatim>\<open>internal/modules/webhooks/ccbill.go\<close>): dates, amounts and errors of CCBill and the
    fourteen handlers of its webhooks, over the lifecycle, the credits, the sessions, the notifications and the
    deduplication. \<^verbatim>\<open>CCBill_Properties\<close>: what chargebacks, refunds, upgrades, renewals and their failures do.
  \<^item> \<^verbatim>\<open>NMI_Webhooks\<close>, \<^verbatim>\<open>NMI_Properties\<close> (\<^verbatim>\<open>internal/modules/webhooks/nmi.go\<close>): the handlers of NMI-backed gateways; a batch
    of chargebacks ends exactly the memberships it identifies.
  \<^item> \<^verbatim>\<open>Purchases\<close>, \<^verbatim>\<open>Purchase_Properties\<close> (\<^verbatim>\<open>internal/modules/checkout/purchase_service.go\<close>): who may buy, how far a product is
    covered and what a purchase grants; once per transaction, for the whole term, and nothing behind a queue of windows.
    \<^verbatim>\<open>Processor_Customers\<close> (\<^verbatim>\<open>processor_customer_service.go\<close>) and \<^verbatim>\<open>Api_Ids\<close> (\<^verbatim>\<open>pkg/api/id.go\<close>) have their round trips.
  \<^item> \<^verbatim>\<open>Stripe_Webhooks\<close>, \<^verbatim>\<open>Stripe_Properties\<close> (\<^verbatim>\<open>internal/modules/webhooks/stripe.go\<close>): the handlers of Stripe, over the lifecycle,
    the purchases, the credits and the sessions; invoices and purchases are counted once, and what reopens a terminated
    membership. \<^verbatim>\<open>Webhook_Sequences\<close>: every sequence of events of all processors keeps the constraints.
  \<^item> \<^verbatim>\<open>Url_Values\<close>, \<^verbatim>\<open>NMI_Client\<close>, \<^verbatim>\<open>Stripe_Client\<close> (\<^verbatim>\<open>internal/integrations/nmi\<close>, \<^verbatim>\<open>internal/modules/subscriptions/stripe_service.go\<close>): the requests to the gateways and how their answers are read;
    the answers themselves are a parameter. \<^verbatim>\<open>Vault\<close> (\<^verbatim>\<open>internal/modules/vault\<close>): stored cards, in the gateway and in the
    table of payment methods.
  \<^item> \<^verbatim>\<open>Proration\<close>, \<^verbatim>\<open>Checkout\<close>, \<^verbatim>\<open>Tier_Changes\<close> (\<^verbatim>\<open>service.go\<close>, \<^verbatim>\<open>nmi_sale_service.go\<close>, \<^verbatim>\<open>nmi_schedule.go\<close> and \<^verbatim>\<open>tier_change.go\<close> of
    \<^verbatim>\<open>internal/modules/checkout\<close>): the share of an upgrade that is charged, one-off and
    recurring purchases under an idempotency key, upgrades and downgrades. \<^verbatim>\<open>Checkout_Properties\<close>: a sale is charged once and only to a card of
    its buyer, when a downgrade takes effect, why upgrades fail and what an interrupted purchase leaves at the gateway.
  \<^item> \<^verbatim>\<open>Subscription_Services\<close> (\<^verbatim>\<open>internal/modules/subscriptions/user_service.go\<close>, \<^verbatim>\<open>admin_service.go\<close>,
    \<^verbatim>\<open>internal/river/jobs_subscription_manage.go\<close>): cancelling and resuming by members and administrators. \<^verbatim>\<open>Service_Invariants\<close>: every sequence of
    requests to the checkout, the vaults, the services and the workers keeps the constraints of the tables, whatever the gateways answer.
    \<^verbatim>\<open>Service_Properties\<close>: what cancelling ends and what resuming revives.
  \<^item> \<^verbatim>\<open>Time_Parsing\<close> (\<^verbatim>\<open>internal/shared/timeutil/timeutil.go\<close>): dates and times as text, and that reading undoes writing.

  \<^bold>\<open>Loops and fuel.\<close> The loops over selected rows are structural recursions. The batch loop of the credit worker is a
  total function: each batch leaves fewer expired blocks. That of the hold worker is a partial function into \<open>option\<close>;
  \<open>HoldExpiryWork_total\<close> shows that it returns, and \<open>HoldExpiryWork_diverges\<close> a state on which it does not.

  \<^bold>\<open>Not modelled.\<close> The creation of checkout sessions at the processors, Solana payments, the HTTP layer and the embedding API,
  the queries of the NMI client, currency conversion and chain clients, analytics, the audit reports, configuration loading, email,
  migrations and program start: they parse formats of third parties, query for reports, or wire the parts together. Operations
  on the database run one after the other in the model. In the ledger, row locks enforce that; the transactions of the lifecycle are atomic, but
  only the constraints of the tables order those that overlap. \<open>Refund\<close> and
  the operations that mark checkout sessions read and write without a lock, and what is shown of them holds for calls that do not overlap.
  The writes of whole session rows while a session is created are not among the steps of \<open>session_step\<close>.
\<close>

end
